(* ===== verification/Prelude.thy ===== *)
theory Prelude
  imports Complex_Main
begin

text \<open>
  The vocabulary every component of the development shares.

  A service method of the backend is a \<^emph>\<open>handler\<close>: a function from the system state to
  an answer (an HTTP exception or a value) and the state it leaves.  The state survives an
  exception, as the rows already written by a JavaScript method do; a \<open>transaction\<close> restores
  what the database rolls back.  The first half of the theory holds the combinators the
  methods are written with, the second half the two calculi the proofs use: rules that push a
  relation between the state before and after through the combinators
  (locale \<open>state_preorder\<close>), and the lemmas on tables kept as lists of rows
  (locale \<open>row_store\<close>).
\<close>

section \<open>Automation collections\<close>

named_theorems handler_defs \<open>the combinators, for symbolic execution\<close>
named_theorems table_defs \<open>the operations on tables\<close>
named_theorems step_rules \<open>primitive steps stay inside the relations in use\<close>

section \<open>Errors\<close>

text \<open>
  The exceptions of \<open>@nestjs/common\<close> the services throw, with their message (or their error
  code where the source gives one).  \<open>PrismaError\<close> is the error with which the client
  rejects an \<open>update\<close> of a row that does not exist (code \<open>P2025\<close>) or a write that
  breaks a unique index (code \<open>P2002\<close>).  \<open>InternalError\<close> is a plain \<open>Error\<close>, which the
  framework answers with status 500.
\<close>

datatype http_error =
    BadRequest string
  | NotFound string
  | Forbidden string
  | Conflict string
  | Unauthorized string
  | TooManyRequests string
  | PrismaError string
  | Gone string
  | ServiceUnavailable string
  | InternalError string

section \<open>Handlers\<close>

type_synonym ('s, 'a) handler = "'s \<Rightarrow> (http_error + 'a) \<times> 's"

definition ok :: "'a \<Rightarrow> ('s, 'a) handler" where
  "ok a = (\<lambda>s. (Inr a, s))"

definition throw :: "http_error \<Rightarrow> ('s, 'a) handler" where
  "throw e = (\<lambda>s. (Inl e, s))"

definition andThen :: "('s, 'a) handler \<Rightarrow> ('a \<Rightarrow> ('s, 'b) handler) \<Rightarrow> ('s, 'b) handler" where
  "andThen m f = (\<lambda>s. case m s of (Inl e, s') \<Rightarrow> (Inl e, s') | (Inr a, s') \<Rightarrow> f a s')"

text \<open>\<open>ensure b e\<close> is the early exit \<open>if (!b) throw e\<close>.\<close>

definition ensure :: "bool \<Rightarrow> http_error \<Rightarrow> ('s, unit) handler" where
  "ensure b e = (if b then ok () else throw e)"

definition whenever :: "bool \<Rightarrow> ('s, unit) handler \<Rightarrow> ('s, unit) handler" where
  "whenever b m = (if b then m else ok ())"

definition reads :: "('s \<Rightarrow> 'a) \<Rightarrow> ('s, 'a) handler" where
  "reads f = (\<lambda>s. (Inr (f s), s))"

definition writes :: "('s \<Rightarrow> 's) \<Rightarrow> ('s, unit) handler" where
  "writes f = (\<lambda>s. (Inr (), f s))"

text \<open>A nullable row: the body runs on the row, or the method throws.\<close>

definition orThrow :: "'a option \<Rightarrow> http_error \<Rightarrow> ('s, 'a) handler" where
  "orThrow x e = (case x of None \<Rightarrow> throw e | Some a \<Rightarrow> ok a)"

primrec forEach :: "'b list \<Rightarrow> ('b \<Rightarrow> ('s, unit) handler) \<Rightarrow> ('s, unit) handler" where
  "forEach [] f = ok ()"
| "forEach (x # xs) f = andThen (f x) (\<lambda>_. forEach xs f)"

text \<open>A loop that collects one value per round.\<close>

primrec forCollect :: "'b list \<Rightarrow> ('b \<Rightarrow> ('s, 'c) handler) \<Rightarrow> ('s, 'c list) handler" where
  "forCollect [] f = ok []"
| "forCollect (x # xs) f =
     andThen (f x) (\<lambda>y. andThen (forCollect xs f) (\<lambda>ys. ok (y # ys)))"

text \<open>
  \<open>transaction restore body\<close> runs the body; when the body throws, the database is rolled
  back: \<open>restore s s'\<close> is the state that is left, from the state \<open>s\<close> at the start and the
  state \<open>s'\<close> where the body gave up (some methods write outside their transaction, and those
  writes stay).
\<close>

definition transaction ::
  "('s \<Rightarrow> 's \<Rightarrow> 's) \<Rightarrow> ('s, 'a) handler \<Rightarrow> ('s, 'a) handler" where
  "transaction restore body =
     (\<lambda>s. case body s of (Inl e, s') \<Rightarrow> (Inl e, restore s s') | (Inr a, s') \<Rightarrow> (Inr a, s'))"

definition tryCatch ::
  "('s, 'a) handler \<Rightarrow> (http_error \<Rightarrow> ('s, 'a) handler) \<Rightarrow> ('s, 'a) handler" where
  "tryCatch body onError =
     (\<lambda>s. case body s of (Inl e, s') \<Rightarrow> onError e s' | (Inr a, s') \<Rightarrow> (Inr a, s'))"

lemma ok_apply [simp, handler_defs]: "ok a s = (Inr a, s)"
  by (simp add: ok_def)

lemma throw_apply [simp, handler_defs]: "throw e s = (Inl e, s)"
  by (simp add: throw_def)

lemma reads_apply [simp, handler_defs]: "reads f s = (Inr (f s), s)"
  by (simp add: reads_def)

lemma writes_apply [simp, handler_defs]: "writes f s = (Inr (), f s)"
  by (simp add: writes_def)

lemma ensure_simps [simp, handler_defs]:
  "ensure True e = ok ()" "ensure False e = throw e"
  by (simp_all add: ensure_def)

lemma whenever_simps [simp, handler_defs]:
  "whenever True m = m" "whenever False m = ok ()"
  by (simp_all add: whenever_def)

lemma orThrow_simps [simp, handler_defs]:
  "orThrow None e = throw e" "orThrow (Some a) e = ok a"
  by (simp_all add: orThrow_def)

lemma andThen_simps [simp, handler_defs]:
  "andThen (ok a) f = f a"
  "andThen (throw e) f = throw e"
  "andThen (reads g) f s = f (g s) s"
  "andThen (writes h) k s = k () (h s)"
  by (simp_all add: andThen_def fun_eq_iff)

lemma andThen_Inr [handler_defs]: "m s = (Inr a, s') \<Longrightarrow> andThen m f s = f a s'"
  by (simp add: andThen_def)

lemma andThen_Inl [handler_defs]: "m s = (Inl e, s') \<Longrightarrow> andThen m f s = (Inl e, s')"
  by (simp add: andThen_def)

lemma andThen_assoc: "andThen (andThen m f) g = andThen m (\<lambda>a. andThen (f a) g)"
  by (auto simp: andThen_def fun_eq_iff split: prod.split sum.split)

lemma andThen_eq_Inr:
  "andThen m f s = (Inr b, t) \<longleftrightarrow> (\<exists>a s'. m s = (Inr a, s') \<and> f a s' = (Inr b, t))"
  by (auto simp: andThen_def split: prod.splits sum.splits)

lemma andThen_ensure:
  "andThen (ensure b e) f s = (if b then f () s else (Inl e, s))"
  by simp

lemma transaction_Inr [handler_defs]:
  "body s = (Inr a, s') \<Longrightarrow> transaction restore body s = (Inr a, s')"
  by (simp add: transaction_def)

lemma transaction_eq_Inr: "transaction restore m s = (Inr a, s') \<longleftrightarrow> m s = (Inr a, s')"
  by (auto simp: transaction_def split: prod.splits sum.splits)

lemma tryCatch_Inr: "m s = (Inr a, s') \<Longrightarrow> tryCatch m h s = (Inr a, s')"
  by (simp add: tryCatch_def)

lemma transaction_Inl [handler_defs]:
  "body s = (Inl e, s') \<Longrightarrow> transaction restore body s = (Inl e, restore s s')"
  by (simp add: transaction_def)

section \<open>Relations between the state before and after a handler\<close>

text \<open>
  A property that every step of a method keeps (rows only move along allowed edges, a ledger
  only grows, a table is not touched) is a reflexive and transitive relation between two
  states.  Inside this locale such a relation passes through every combinator; the rules
  \<open>andThen\<close>, \<open>forEach\<close> and the others are applied backwards, one per call of the
  method, and leave the primitive steps.
\<close>

locale state_preorder =
  fixes R :: "'s \<Rightarrow> 's \<Rightarrow> bool"
  assumes refl: "R s s"
    and trans: "R s t \<Longrightarrow> R t u \<Longrightarrow> R s u"
begin

lemma ok: "R s (snd (ok a s))"
  by (simp add: refl)

lemma throw: "R s (snd (throw e s))"
  by (simp add: refl)

lemma reads: "R s (snd (reads f s))"
  by (simp add: refl)

lemma writes: "R s (f s) \<Longrightarrow> R s (snd (writes f s))"
  by simp

lemma ensure: "R s (snd (ensure b e s))"
  by (cases b) (simp_all add: refl)

lemma orThrow: "R s (snd (orThrow x e s))"
  by (cases x) (simp_all add: refl)

lemma whenever: "(b \<Longrightarrow> R s (snd (m s))) \<Longrightarrow> R s (snd (whenever b m s))"
  by (cases b) (simp_all add: refl)

lemma andThen:
  assumes "R s (snd (m s))"
    and "\<And>a s'. m s = (Inr a, s') \<Longrightarrow> R s' (snd (f a s'))"
  shows "R s (snd (andThen m f s))"
  using assms trans
  by (cases "m s") (fastforce simp: andThen_def split: sum.splits)

lemma forEach:
  assumes "\<And>x t. x \<in> set xs \<Longrightarrow> R t (snd (f x t))"
  shows "R s (snd (forEach xs f s))"
  using assms by (induction xs arbitrary: s) (auto simp: refl intro!: andThen)

lemma forCollect:
  assumes "\<And>x t. x \<in> set xs \<Longrightarrow> R t (snd (f x t))"
  shows "R s (snd (forCollect xs f s))"
  using assms by (induction xs arbitrary: s) (auto simp: refl intro!: andThen)

lemma transaction:
  assumes "R s (snd (body s))"
    and "\<And>e s'. body s = (Inl e, s') \<Longrightarrow> R s s' \<Longrightarrow> R s (restore s s')"
  shows "R s (snd (transaction restore body s))"
  using assms by (cases "body s") (auto simp: transaction_def split: sum.splits)

lemma tryCatch:
  assumes "R s (snd (body s))"
    and "\<And>e s'. body s = (Inl e, s') \<Longrightarrow> R s' (snd (onError e s'))"
  shows "R s (snd (tryCatch body onError s))"
  using assms trans
  by (cases "body s") (fastforce simp: tryCatch_def split: sum.splits)

lemma if_split_handler:
  "(b \<Longrightarrow> R s (snd (m s))) \<Longrightarrow> (\<not> b \<Longrightarrow> R s (snd (n s))) \<Longrightarrow>
   R s (snd ((if b then m else n) s))"
  by simp

lemma option_split_handler:
  "(x = None \<Longrightarrow> R s (snd (m s))) \<Longrightarrow> (\<And>a. x = Some a \<Longrightarrow> R s (snd (f a s))) \<Longrightarrow>
   R s (snd ((case x of None \<Rightarrow> m | Some a \<Rightarrow> f a) s))"
  by (simp split: option.split)

text \<open>
  Reading, checking and throwing leave the state alone: after them the rest of the method is
  looked at in the same state, with what was read or checked as a fact.
\<close>

lemma reads_then: "R s (snd (f (g s) s)) \<Longrightarrow> R s (snd (andThen (reads g) f s))"
  by simp

lemma ensure_then: "(b \<Longrightarrow> R s (snd (f () s))) \<Longrightarrow> R s (snd (andThen (ensure b e) f s))"
  by (cases b) (simp_all add: refl)

lemma orThrow_then:
  "(\<And>a. x = Some a \<Longrightarrow> R s (snd (f a s))) \<Longrightarrow> R s (snd (andThen (orThrow x e) f s))"
  by (cases x) (simp_all add: refl)

lemma if_then_handler:
  "(b \<Longrightarrow> R s (snd (andThen m f s))) \<Longrightarrow> (\<not> b \<Longrightarrow> R s (snd (andThen n f s))) \<Longrightarrow>
   R s (snd (andThen (if b then m else n) f s))"
  by simp

lemma option_then_handler:
  "(x = None \<Longrightarrow> R s (snd (andThen m f s))) \<Longrightarrow>
   (\<And>a. x = Some a \<Longrightarrow> R s (snd (andThen (g a) f s))) \<Longrightarrow>
   R s (snd (andThen (case x of None \<Rightarrow> m | Some a \<Rightarrow> g a) f s))"
  by (simp split: option.split)

lemmas rules =
  ok throw reads ensure orThrow whenever forEach forCollect
  if_split_handler option_split_handler reads_then ensure_then orThrow_then andThen

end

section \<open>Tables as lists of rows\<close>

text \<open>
  A table is the list of its rows in the order of insertion.  These are the reads and writes
  of the generated client the services use: \<open>findUnique\<close> by a key, \<open>findMany\<close> and
  \<open>count\<close> with a \<open>where\<close> clause, \<open>updateMany\<close>, \<open>create\<close>.
\<close>

definition findUnique :: "('r \<Rightarrow> 'k) \<Rightarrow> 'k \<Rightarrow> 'r list \<Rightarrow> 'r option" where
  "findUnique key k rows = find (\<lambda>r. key r = k) rows"

definition findMany :: "('r \<Rightarrow> bool) \<Rightarrow> 'r list \<Rightarrow> 'r list" where
  "findMany p rows = filter p rows"

definition findFirst :: "('r \<Rightarrow> bool) \<Rightarrow> 'r list \<Rightarrow> 'r option" where
  "findFirst p rows = find p rows"

definition countWhere :: "('r \<Rightarrow> bool) \<Rightarrow> 'r list \<Rightarrow> int" where
  "countWhere p rows = int (length (filter p rows))"

definition updateMany :: "('r \<Rightarrow> bool) \<Rightarrow> ('r \<Rightarrow> 'r) \<Rightarrow> 'r list \<Rightarrow> 'r list" where
  "updateMany p f rows = map (\<lambda>r. if p r then f r else r) rows"

definition createRow :: "'r \<Rightarrow> 'r list \<Rightarrow> 'r list" where
  "createRow r rows = rows @ [r]"

text \<open>\<open>orderBy: { k: 'asc' }\<close> and \<open>'desc'\<close>; rows with equal keys keep their order.\<close>

definition orderByAsc :: "('r \<Rightarrow> 'k::linorder) \<Rightarrow> 'r list \<Rightarrow> 'r list" where
  "orderByAsc k rows = sort_key k rows"

definition orderByDesc :: "('r \<Rightarrow> 'k::{linorder, uminus}) \<Rightarrow> 'r list \<Rightarrow> 'r list" where
  "orderByDesc k rows = sort_key (\<lambda>r. - k r) rows"

declare findUnique_def [table_defs] findMany_def [table_defs] findFirst_def [table_defs]
  countWhere_def [table_defs] updateMany_def [table_defs] createRow_def [table_defs]

lemma findUnique_Nil [simp]: "findUnique key k [] = None"
  by (simp add: findUnique_def)

lemma findUnique_Cons [simp]:
  "findUnique key k (r # rows) = (if key r = k then Some r else findUnique key k rows)"
  by (simp add: findUnique_def)

lemma findUnique_SomeD: "findUnique key k rows = Some r \<Longrightarrow> r \<in> set rows \<and> key r = k"
  by (auto simp: findUnique_def find_Some_iff)

lemma findFirst_SomeD: "findFirst p rows = Some r \<Longrightarrow> r \<in> set rows \<and> p r"
  by (auto simp: findFirst_def find_Some_iff)

lemma findFirst_None_iff: "findFirst p rows = None \<longleftrightarrow> (\<forall>r \<in> set rows. \<not> p r)"
  by (auto simp: findFirst_def find_None_iff)

lemma findUnique_None_iff: "findUnique key k rows = None \<longleftrightarrow> k \<notin> key ` set rows"
  by (auto simp: findUnique_def find_None_iff)

lemma findUnique_append:
  "findUnique key k (xs @ ys) =
     (case findUnique key k xs of None \<Rightarrow> findUnique key k ys | Some r \<Rightarrow> Some r)"
  by (induction xs) auto

lemma findUnique_map:
  assumes "\<And>r. key (f r) = key r"
  shows "findUnique key k (map f rows) = map_option f (findUnique key k rows)"
  by (induction rows) (auto simp: assms)

lemma findUnique_updateMany:
  assumes "\<And>r. key (f r) = key r"
  shows "findUnique key k (updateMany p f rows) =
    map_option (\<lambda>r. if p r then f r else r) (findUnique key k rows)"
  unfolding updateMany_def by (rule findUnique_map) (simp add: assms)

lemma findUnique_distinct:
  assumes "distinct (map key rows)" and "r \<in> set rows"
  shows "findUnique key (key r) rows = Some r"
  using assms by (induction rows) auto

lemma updateMany_keys:
  assumes "\<And>r. key (f r) = key r"
  shows "map key (updateMany p f rows) = map key rows"
  by (simp add: updateMany_def assms)

lemma length_updateMany [simp]: "length (updateMany p f rows) = length rows"
  by (simp add: updateMany_def)

lemma updateMany_Nil [simp]: "updateMany p f [] = []"
  by (simp add: updateMany_def)

lemma updateMany_Cons [simp]:
  "updateMany p f (r # rows) = (if p r then f r else r) # updateMany p f rows"
  by (simp add: updateMany_def)

lemma set_updateMany: "set (updateMany p f rows) = (\<lambda>r. if p r then f r else r) ` set rows"
  by (simp add: updateMany_def)

lemma updateMany_cong:
  assumes "\<And>r. r \<in> set rows \<Longrightarrow> p r = q r" and "\<And>r. r \<in> set rows \<Longrightarrow> q r \<Longrightarrow> f r = g r"
  shows "updateMany p f rows = updateMany q g rows"
  using assms by (simp add: updateMany_def)

lemma updateMany_none:
  assumes "\<And>r. r \<in> set rows \<Longrightarrow> \<not> p r"
  shows "updateMany p f rows = rows"
  using assms by (simp add: updateMany_def map_idI)

lemma updateMany_append:
  "updateMany p f (xs @ ys) = updateMany p f xs @ updateMany p f ys"
  by (simp add: updateMany_def)

lemma countWhere_Nil [simp]: "countWhere p [] = 0"
  by (simp add: countWhere_def)

lemma countWhere_Cons [simp]:
  "countWhere p (r # rows) = (if p r then 1 else 0) + countWhere p rows"
  by (simp add: countWhere_def)

lemma countWhere_append [simp]: "countWhere p (xs @ ys) = countWhere p xs + countWhere p ys"
  by (simp add: countWhere_def)

lemma countWhere_nonneg [simp]: "0 \<le> countWhere p rows"
  by (simp add: countWhere_def)

lemma countWhere_map: "countWhere p (map f rows) = countWhere (\<lambda>r. p (f r)) rows"
  by (induction rows) auto

lemma countWhere_mono:
  assumes "\<And>r. r \<in> set rows \<Longrightarrow> p r \<Longrightarrow> q r"
  shows "countWhere p rows \<le> countWhere q rows"
  using assms by (induction rows) (auto simp: add_mono)

lemma countWhere_cong:
  assumes "\<And>r. r \<in> set rows \<Longrightarrow> p r = q r"
  shows "countWhere p rows = countWhere q rows"
  using assms by (induction rows) auto

lemma countWhere_0_iff: "countWhere p rows = 0 \<longleftrightarrow> (\<forall>r\<in>set rows. \<not> p r)"
  by (simp add: countWhere_def filter_empty_conv)

lemma countWhere_pos_iff: "0 < countWhere p rows \<longleftrightarrow> (\<exists>r\<in>set rows. p r)"
  by (auto simp: countWhere_def filter_empty_conv)

lemma countWhere_disj:
  assumes "\<And>r. r \<in> set rows \<Longrightarrow> \<not> (p r \<and> q r)"
  shows "countWhere (\<lambda>r. p r \<or> q r) rows = countWhere p rows + countWhere q rows"
  using assms by (induction rows) auto

lemma set_orderByAsc [simp]: "set (orderByAsc k rows) = set rows"
  by (simp add: orderByAsc_def)

lemma set_orderByDesc [simp]: "set (orderByDesc k rows) = set rows"
  by (simp add: orderByDesc_def)

text \<open>
  The interface the components rely on: a lookup after a modification or an insertion.  The
  client lemmas below it are what the services' proofs use.
\<close>

locale row_store =
  fixes key :: "'r \<Rightarrow> 'k"
    and lookup :: "'k \<Rightarrow> 't \<Rightarrow> 'r option"
    and modify :: "'k \<Rightarrow> ('r \<Rightarrow> 'r) \<Rightarrow> 't \<Rightarrow> 't"
    and insert_row :: "'r \<Rightarrow> 't \<Rightarrow> 't"
  assumes lookup_key: "lookup k t = Some r \<Longrightarrow> key r = k"
    and lookup_modify: "(\<And>r. key (f r) = key r) \<Longrightarrow>
      lookup k (modify k' f t) = (if k = k' then map_option f (lookup k t) else lookup k t)"
    and lookup_insert: "lookup (key r) t = None \<Longrightarrow>
      lookup k (insert_row r t) = (if k = key r then Some r else lookup k t)"
begin

lemma lookup_modify_same:
  "(\<And>r. key (f r) = key r) \<Longrightarrow> lookup k t = Some r \<Longrightarrow> lookup k (modify k f t) = Some (f r)"
  by (simp add: lookup_modify)

lemma lookup_modify_other:
  "(\<And>r. key (f r) = key r) \<Longrightarrow> k \<noteq> k' \<Longrightarrow> lookup k (modify k' f t) = lookup k t"
  by (simp add: lookup_modify)

lemma lookup_modify_twice:
  assumes "\<And>r. key (f r) = key r" and "\<And>r. key (g r) = key r" and "lookup k t = Some r"
  shows "lookup k (modify k g (modify k f t)) = Some (g (f r))"
  using assms by (simp add: lookup_modify)

lemma lookup_insert_same: "lookup (key r) t = None \<Longrightarrow> lookup (key r) (insert_row r t) = Some r"
  by (simp add: lookup_insert)

lemma lookup_insert_keeps:
  "lookup (key r) t = None \<Longrightarrow> lookup k t = Some q \<Longrightarrow> lookup k (insert_row r t) = Some q"
  by (auto simp: lookup_insert)

end

text \<open>Every list table is such a store, whatever its key column.\<close>

lemma list_table_row_store:
  "row_store key (findUnique key) (\<lambda>k. updateMany (\<lambda>r. key r = k)) createRow"
proof
  show "findUnique key k t = Some r \<Longrightarrow> key r = k" for k t r
    by (auto dest: findUnique_SomeD)
next
  fix f :: "'a \<Rightarrow> 'a" and k k' t
  assume "\<And>r. key (f r) = key r"
  then show "findUnique key k (updateMany (\<lambda>r. key r = k') f t) =
      (if k = k' then map_option f (findUnique key k t) else findUnique key k t)"
    by (cases "findUnique key k t") (auto simp: findUnique_updateMany dest: findUnique_SomeD)
next
  show "findUnique key (key r) t = None \<Longrightarrow> findUnique key k (createRow r t) =
      (if k = key r then Some r else findUnique key k t)" for r t k
    by (cases "findUnique key k t") (auto simp: createRow_def findUnique_append)
qed

section \<open>Strings\<close>

text \<open>Decimal digits of a non-negative number and \<open>padStart\<close>, as JavaScript's \<open>String(n)\<close> gives
  them.\<close>

definition digit :: "int \<Rightarrow> char" where
  "digit n = ''0123456789'' ! nat n"

function showInt :: "int \<Rightarrow> string" where
  "showInt n = (if n < 10 then [digit n] else showInt (n div 10) @ [digit (n mod 10)])"
  by pat_completeness auto
termination
  by (relation "measure nat") auto

declare showInt.simps [simp del]

definition padStart :: "nat \<Rightarrow> char \<Rightarrow> string \<Rightarrow> string" where
  "padStart w c str = replicate (w - length str) c @ str"

lemma length_padStart [simp]: "length (padStart w c str) = max w (length str)"
  by (simp add: padStart_def)

end
