(* ===== verification/Domain.thy ===== *)
theory Domain
  imports Prelude
begin

text \<open>
  The data model of \<open>prisma/schema.prisma\<close> and the state of the whole backend.

  Every enum is a datatype whose constructors carry the enum's values with a one-letter prefix
  (\<open>J\<close> for jobs, \<open>A\<close> for assignments and so on, since several enums share a value), every
  model is a record with the columns the services read or write, and the database is the
  record \<open>sys\<close> of its tables.  Identifiers (UUIDs drawn by the database) are numbers drawn
  from \<open>nextId\<close>, instants are milliseconds since the epoch, decimals and JavaScript hour
  counts are rational numbers.  \<open>sys\<close> also holds the state kept outside PostgreSQL: the
  clock \<open>new Date()\<close> reads, the offer-expiry timers of the queue, guardian presence in Redis,
  and the trace of the e-mails and in-app notifications sent.
\<close>

type_synonym id = nat
type_synonym instant = int

section \<open>Enums\<close>

datatype job_status =
    J_PENDING | J_DISPATCHING | J_PARTIALLY_ASSIGNED | J_ASSIGNED | J_IN_PROGRESS
  | J_SEEKING_REPLACEMENT | J_AWAITING_CONFIRMATION | J_COMPLETED | J_FAILED | J_CANCELLED

datatype assignment_status =
    A_OFFERED | A_ACCEPTED | A_DECLINED | A_EXPIRED | A_EN_ROUTE | A_ON_SITE
  | A_EARLY_RELEASE_REQUESTED | A_REPLACEMENT_REQUESTED | A_AWAITING_RELIEF
  | A_COMPLETED | A_NO_SHOW | A_CANCELLED

datatype replacement_resolution = RR_APPROVED | RR_DENIED

datatype early_release_resolution = ER_APPROVED | ER_REJECTED | ER_AUTO_APPROVED

datatype no_show_trigger = NS_MANUAL | NS_SYSTEM

datatype no_show_reason =
    CLIENT_UNREACHABLE | CLIENT_CANCELLED_AT_DOOR | ACCESS_BLOCKED | CLIENT_NOT_PRESENT
  | SAFETY_RISK | OTHER_REASON

datatype job_type =
    STANDARD_GUARDIAN | CORPORATE_GUARDIAN | EVENT_GUARDIAN | CHILD_ESCORT_GUARDIAN
  | MEDICAL_ESCORT_GUARDIAN | EXECUTIVE_VIP_GUARDIAN | ARMED_GUARDIAN

datatype role_code = SUPER_ADMIN | OPS_ADMIN | CLIENT_OWNER | CLIENT_STAFF | GUARDIAN

datatype verification_status = V_PENDING | V_VERIFIED | V_REJECTED

datatype coordinate_precision = DISTRICT_APPROX | USER_PINNED

datatype guardian_status = G_ACTIVE | G_SUSPENDED | G_INACTIVE

datatype guardian_verification = GV_PENDING | GV_VERIFIED | GV_REJECTED

datatype certification_verification = CV_PENDING | CV_VERIFIED | CV_REJECTED | CV_EXPIRED

datatype shift_status = S_AVAILABLE | S_BUSY | S_PAUSED | S_OFF_DUTY | S_SUSPENDED

datatype certification_type =
  FIRST_AID | CROWD_CONTROL | FIREARM | RESERVE_FORCE | RNP_SECURITY_LICENSE

datatype preferred_shift = DAY_SHIFT | NIGHT_SHIFT | BOTH_SHIFTS

datatype incident_type =
    FIGHT | TRESPASSING | THEFT_ATTEMPT | PROPERTY_DAMAGE | CUSTOMER_DISPUTE | MEDICAL_ASSIST
  | SUSPICIOUS_ACTIVITY | OTHER_INCIDENT

datatype incident_severity = LOW | MEDIUM | HIGH | CRITICAL

datatype employment_type = FULL_TIME | PART_TIME | RESERVE

datatype pricing_model = HOURLY | FLAT | TIERED

datatype billing_model = BOOKED_BLOCK | BM_ACTUAL_TIME | BM_MINIMUM_GUARANTEED

datatype pay_model = PM_ACTUAL_TIME | PM_MINIMUM_GUARANTEED

datatype invoice_status =
    I_DRAFT | I_PENDING_CONFIRMATION | I_ISSUED | I_PAID | I_PARTIALLY_PAID | I_OVERDUE
  | I_DISPUTED | I_VOID

datatype payment_status = P_PENDING | P_COMPLETED | P_FAILED | P_REFUNDED

datatype payment_provider = MOMO_MTN | AIRTEL_MONEY | BANK_TRANSFER | CASH

datatype earning_status = E_PENDING_PAYOUT | E_PAID | E_BLOCKED | E_CANCELLED

datatype payout_status = PO_PENDING | PO_COMPLETED | PO_FAILED

datatype outbox_status = O_PENDING | O_PROCESSING | O_COMPLETED | O_FAILED | O_DEAD_LETTER

text \<open>The union type \<open>DispatchFailureReason\<close> of the dispatching service.\<close>

datatype dispatch_failure =
    dispatch_timeout | dispatch_pool_exhausted | dispatch_no_eligible_guardians
  | dispatch_unreachable_pool | dispatch_max_offers_exceeded
  | replacement_dispatch_exhausted | replacement_dispatch_timeout

text \<open>
  The \<open>reason\<close> column of the status history: the services write a literal, a dispatch
  failure, a no-show reason code or the client's free text.
\<close>

datatype change_reason =
    Literal string | Failure dispatch_failure | NoShowCode no_show_reason | FreeText string

section \<open>Rows\<close>

record job =
  j_id :: id
  j_referenceNumber :: string
  j_organizationId :: id
  j_locationId :: id
  j_createdBy :: id
  j_createdAt :: instant
  j_jobType :: job_type
  j_status :: job_status
  j_requestedGuardianCount :: int
  j_scheduledStart :: instant
  j_scheduledEnd :: instant
  j_dispatchAttempts :: int
  j_dispatchDeadlineAt :: "instant option"
  j_dispatchStartedAt :: "instant option"
  j_offersSentCount :: int
  j_dispatchFailureReason :: "dispatch_failure option"
  j_unreachableSince :: "instant option"
  j_billingPolicyModel :: "billing_model option"
  j_billingMinimumHours :: "rat option"
  j_billingPolicyResolvedAt :: "instant option"
  j_billingAllowEarlyRelease :: "bool option"
  j_billingProrationEnabled :: "bool option"
  j_billingEarlyReleaseRequiresClientApproval :: "bool option"
  j_billingAutoApproveAfterMinutes :: "int option"
  j_replacementDepartingAssignmentId :: "id option"

record assignment =
  a_id :: id
  a_jobId :: id
  a_guardianId :: id
  a_assignmentRound :: int
  a_status :: assignment_status
  a_versionNumber :: int
  a_offerSentAt :: instant
  a_expiresAt :: instant
  a_acceptedAt :: "instant option"
  a_arrivedAt :: "instant option"
  a_completedAt :: "instant option"
  a_noShowReason :: "string option"
  a_noShowReasonCode :: "no_show_reason option"
  a_noShowTriggerType :: "no_show_trigger option"
  a_noShowReportedByUserId :: "id option"
  a_noShowReportedByRole :: "role_code option"
  a_noShowAt :: "instant option"
  a_earlyReleaseRequestedAt :: "instant option"
  a_earlyReleaseReason :: "string option"
  a_earlyReleaseResolvedAt :: "instant option"
  a_earlyReleaseResolution :: "early_release_resolution option"
  a_earlyReleaseAutoApproveAt :: "instant option"
  a_replacementRequestedAt :: "instant option"
  a_replacementReason :: "string option"
  a_replacementResolvedAt :: "instant option"
  a_replacementResolution :: "replacement_resolution option"
  a_replacementResolvedByUserId :: "id option"
  a_replacesAssignmentId :: "id option"
  a_payPolicyModel :: "pay_model option"
  a_payMinimumHours :: "rat option"
  a_payPolicyResolvedAt :: "instant option"
  a_hourlyPayRateAtCommit :: "rat option"
  a_payApplyOnEarlyRelease :: "bool option"

text \<open>The row \<open>prisma.jobAssignment.create\<close> stores: the given columns and the schema's defaults.\<close>

definition newAssignment ::
  "id \<Rightarrow> id \<Rightarrow> id \<Rightarrow> int \<Rightarrow> instant \<Rightarrow> instant \<Rightarrow> id option \<Rightarrow> assignment" where
  "newAssignment aid jobId guardianId rnd sentAt expiresAt replaces = \<lparr>
     a_id = aid, a_jobId = jobId, a_guardianId = guardianId, a_assignmentRound = rnd,
     a_status = A_OFFERED, a_versionNumber = 1, a_offerSentAt = sentAt, a_expiresAt = expiresAt,
     a_acceptedAt = None, a_arrivedAt = None, a_completedAt = None,
     a_noShowReason = None, a_noShowReasonCode = None, a_noShowTriggerType = None,
     a_noShowReportedByUserId = None, a_noShowReportedByRole = None, a_noShowAt = None,
     a_earlyReleaseRequestedAt = None, a_earlyReleaseReason = None,
     a_earlyReleaseResolvedAt = None, a_earlyReleaseResolution = None,
     a_earlyReleaseAutoApproveAt = None, a_replacementRequestedAt = None,
     a_replacementReason = None, a_replacementResolvedAt = None,
     a_replacementResolution = None, a_replacementResolvedByUserId = None,
     a_replacesAssignmentId = replaces, a_payPolicyModel = None, a_payMinimumHours = None,
     a_payPolicyResolvedAt = None, a_hourlyPayRateAtCommit = None,
     a_payApplyOnEarlyRelease = None\<rparr>"

record status_history =
  h_jobId :: id
  h_oldStatus :: "job_status option"
  h_newStatus :: job_status
  h_changedBy :: "id option"
  h_reason :: "change_reason option"
  h_changedAt :: instant

record dispatch_audit =
  d_jobId :: id
  d_pass :: int
  d_event :: string

record shift_state =
  s_guardianId :: id
  s_shiftStatus :: shift_status
  s_availableForJobs :: bool
  s_shiftStartedAt :: "instant option"
  s_shiftEndsAt :: "instant option"

record certification =
  c_id :: id
  c_certificationType :: certification_type
  c_issuer :: string
  c_issueDate :: instant
  c_expiryDate :: "instant option"
  c_documentId :: "id option"
  c_verificationStatus :: certification_verification

text \<open>
  The specializations of a guardian have the names of the job types.  The certifications of a
  guardian are kept with it, in the order of their creation.
\<close>

record guardian =
  g_id :: id
  g_userId :: id
  g_status :: guardian_status
  g_verificationStatus :: guardian_verification
  g_employmentType :: employment_type
  g_reliabilityScore :: rat
  g_districtBase :: string
  g_coverageDistricts :: "string list"
  g_hourlyPayRate :: "rat option"
  g_payCurrency :: string
  g_certifications :: "certification list"
  g_guardianCode :: string
  g_nationalIdHash :: string
  g_reserveForceNumberHash :: "string option"
  g_sectorBase :: "string option"
  g_yearsExperience :: "int option"
  g_specializations :: "job_type list"
  g_preferredShift :: "preferred_shift option"
  g_rating :: rat
  g_activatedAt :: "instant option"
  g_activatedBy :: "id option"

record vetting_record =
  vr_id :: id
  vr_guardianId :: id
  vr_vettedAt :: instant
  vr_vettedByUserId :: id
  vr_rnpReferenceNumber :: "string option"
  vr_clearanceDocumentId :: "id option"
  vr_reserveForceVerified :: bool
  vr_notes :: "string option"

record guardian_review =
  re_id :: id
  re_jobId :: id
  re_assignmentId :: id
  re_guardianId :: id
  re_organizationId :: id
  re_reviewerUserId :: id
  re_rating :: int
  re_comment :: "string option"
  re_createdAt :: instant

record field_incident =
  fi_id :: id
  fi_assignmentId :: id
  fi_incidentType :: incident_type
  fi_severity :: incident_severity
  fi_description :: string
  fi_mediaIds :: "id list"
  fi_createdBy :: id
  fi_createdAt :: instant

record performance_daily =
  f_date :: int
  f_guardianId :: id
  f_noShowCount :: int
  f_jobsAssigned :: int
  f_jobsCompleted :: int
  f_completionRate :: rat
  f_avgResponseMinutes :: "rat option"
  f_computedAt :: instant

record org_row =
  o_id :: id
  o_verificationStatus :: verification_status

record org_user =
  m_organizationId :: id
  m_userId :: id
  m_isOwner :: bool

record location_row =
  l_id :: id
  l_organizationId :: id
  l_district :: string
  l_isPrimary :: bool
  l_coordinatePrecision :: coordinate_precision
  l_createdAt :: instant

record billing_policy =
  bp_id :: id
  bp_priority :: int
  bp_organizationId :: "id option"
  bp_jobType :: "job_type option"
  bp_validFrom :: instant
  bp_validUntil :: "instant option"
  bp_model :: billing_model
  bp_minimumHours :: rat
  bp_prorationEnabled :: bool
  bp_allowEarlyRelease :: bool
  bp_earlyReleaseRequiresClientApproval :: bool
  bp_autoApproveAfterMinutes :: "int option"

record pay_policy =
  pp_id :: id
  pp_priority :: int
  pp_jobType :: "job_type option"
  pp_employmentType :: "employment_type option"
  pp_validFrom :: instant
  pp_validUntil :: "instant option"
  pp_model :: pay_model
  pp_minimumHours :: rat
  pp_applyOnEarlyRelease :: bool

record pricing_rule =
  pr_id :: id
  pr_priority :: int
  pr_organizationId :: "id option"
  pr_district :: "string option"
  pr_jobType :: "job_type option"
  pr_validFrom :: instant
  pr_validUntil :: "instant option"
  pr_pricingModel :: pricing_model
  pr_hourlyRate :: "rat option"
  pr_flatFee :: "rat option"
  pr_currency :: string

record service_row =
  sv_id :: id
  sv_code :: job_type
  sv_name :: string
  sv_hourlyRate :: rat
  sv_currency :: string
  sv_isActive :: bool
  sv_description :: "string option"
  sv_requiresLicense :: bool
  sv_sortOrder :: int

text \<open>\<open>BookingPolicySnapshot\<close> of \<open>common/config/booking-policy.config.ts\<close>.\<close>

record booking_policy =
  minimumBookingHours :: rat
  nightSurchargeMinPct :: rat
  nightSurchargeMaxPct :: rat
  holidaySurchargeMinPct :: rat
  holidaySurchargeMaxPct :: rat
  guardianSharePct :: rat
  platformSharePct :: rat
  gatewaySharePct :: rat
  reserveSharePct :: rat
  vatRate :: rat

record line_item =
  li_code :: string
  li_amount :: "rat option"

record invoice =
  i_id :: id
  i_organizationId :: id
  i_jobId :: id
  i_subtotal :: rat
  i_taxAmount :: rat
  i_total :: rat
  i_currency :: string
  i_status :: invoice_status
  i_scheduledStartAt :: "instant option"
  i_scheduledEndAt :: "instant option"
  i_arrivedAt :: "instant option"
  i_completedAt :: "instant option"
  i_scheduledHours :: "rat option"
  i_actualHours :: "rat option"
  i_billableHours :: "rat option"
  i_billingBasis :: "string option"
  i_lineItems :: "line_item list"
  i_issuedAt :: "instant option"
  i_dueAt :: "instant option"
  i_voidReason :: "string option"
  i_replacementInvoiceId :: "id option"
  i_disputeReason :: "string option"
  i_disputedAt :: "instant option"
  i_disputedBy :: "id option"
  i_statusBeforeDispute :: "invoice_status option"
  i_disputeResolvedAt :: "instant option"
  i_disputeResolvedBy :: "id option"
  i_disputeResolutionNote :: "string option"

record payment =
  p_id :: id
  p_invoiceId :: id
  p_provider :: payment_provider
  p_externalTxnId :: "string option"
  p_amount :: rat
  p_currency :: string
  p_status :: payment_status
  p_idempotencyKey :: string
  p_paidAt :: "instant option"

record earning =
  e_id :: id
  e_guardianId :: id
  e_assignmentId :: id
  e_jobId :: id
  e_invoiceId :: id
  e_payableHours :: rat
  e_actualHours :: rat
  e_scheduledHours :: rat
  e_payMinimumHours :: rat
  e_payPolicyModel :: pay_model
  e_payBasis :: string
  e_hourlyPayRate :: "rat option"
  e_amount :: rat
  e_currency :: string
  e_status :: earning_status
  e_payoutId :: "id option"
  e_paidAt :: "instant option"
  e_accruedAt :: instant

record payout =
  po_id :: id
  po_guardianId :: id
  po_amount :: rat
  po_currency :: string
  po_provider :: payment_provider
  po_status :: payout_status
  po_externalTxnId :: "string option"
  po_idempotencyKey :: string
  po_paidAt :: "instant option"
  po_createdByUserId :: id

text \<open>Outbox events: the event type and the fields of its JSON payload.\<close>

datatype event_type = JOB_DISPATCH_REQUESTED | JOB_BILLING_AUTO_CONFIRM

record outbox_event =
  ob_id :: id
  ob_aggregateId :: id
  ob_eventType :: event_type
  ob_payloadJobId :: id
  ob_payloadReplacement :: bool
  ob_payloadRefill :: bool
  ob_status :: outbox_status
  ob_retries :: int
  ob_lastError :: "http_error option"
  ob_scheduledAt :: instant
  ob_processedAt :: "instant option"

record audit_entry =
  au_actorUserId :: "id option"
  au_action :: string
  au_entityId :: id

text \<open>
  Outgoing messages.  The e-mail and the in-app services look the recipients up, never throw
  and return nothing the callers use, so a message is recorded with its addressee and its
  template or title.
\<close>

datatype message =
    EmailOrgOwners id string
  | EmailGuardianUser id string
  | EmailUser id string
  | EmailOpsAdmins string
  | NotifyOrgOwners id string
  | NotifyGuardian id string
  | NotifyOpsAdmins string
  | NotifyUser id string

text \<open>Presence entries of \<open>redis/presence.service.ts\<close> (the in-memory form, with its expiry).\<close>

record presence_entry =
  pe_lat :: rat
  pe_lng :: rat
  pe_speed :: "rat option"
  pe_battery :: "int option"
  pe_available :: bool
  pe_updatedAt :: instant
  pe_expiresAt :: instant

text \<open>A row of \<open>location_history\<close>.\<close>

record location_ping =
  lp_id :: id
  lp_guardianId :: id
  lp_latitude :: rat
  lp_longitude :: rat
  lp_speed :: "rat option"
  lp_batteryLevel :: "int option"
  lp_recordedAt :: instant

text \<open>The constants of \<open>queue.constants.ts\<close> and \<open>billing.constants.ts\<close>, set by the environment.\<close>

record config =
  OFFER_TTL_MS :: int
  DISPATCH_WINDOW_MS :: int
  DISPATCH_POOL_SIZE :: int
  MAX_OFFERS_PER_JOB :: int
  MAX_REPLACEMENT_OFFERS_PER_JOB :: int
  DISPATCH_UNREACHABLE_GRACE_MS :: int
  URGENT_PARALLEL_OFFERS :: int
  BILLING_AUTO_CONFIRM_MS :: int
  GUARDIAN_PAY_MINIMUM_HOURS_FALLBACK :: rat

section \<open>The state of the backend\<close>

record sys =
  jobs :: "job list"
  assignments :: "assignment list"
  history :: "status_history list"
  dispatchAudits :: "dispatch_audit list"
  shifts :: "shift_state list"
  guardians :: "guardian list"
  performance :: "performance_daily list"
  orgs :: "org_row list"
  orgUsers :: "org_user list"
  locations :: "location_row list"
  billingPolicies :: "billing_policy list"
  payPolicies :: "pay_policy list"
  pricingRules :: "pricing_rule list"
  services :: "service_row list"
  booking :: booking_policy
  invoices :: "invoice list"
  payments :: "payment list"
  earnings :: "earning list"
  payouts :: "payout list"
  outbox :: "outbox_event list"
  audits :: "audit_entry list"
  messages :: "message list"
  expiryTimers :: "(id \<times> instant) list"
  presence :: "id \<rightharpoonup> presence_entry"
  locationHistory :: "location_ping list"
  vettingRecords :: "vetting_record list"
  guardianReviews :: "guardian_review list"
  fieldIncidents :: "field_incident list"
  nextId :: id
  clock :: instant
  config :: config

text \<open>The signed-in caller (\<open>AuthUserPayload\<close>).\<close>

record actor =
  sub :: id
  roles :: "role_code list"
  activeOrgId :: "id option"
  orgId :: "id option"
  organizationIds :: "id list"
  actorGuardianId :: "id option"

type_synonym 'a op = "(sys, 'a) handler"

end
