(* ===== verification/Store.thy ===== *)
theory Store
  imports Domain
begin

text \<open>
  Reading and writing the tables of \<open>sys\<close>: the calls of the generated database client, of the
  audit service, of the message services and of the offer-expiry queue that the components
  make, each as one step.  The optimistic update of an assignment and the row transition of an
  accepted offer are the two concurrency primitives the services share; the locale
  \<open>optimistic_store\<close> states what they promise.
\<close>

section \<open>Names of enum values, as template strings print them\<close>

primrec job_status_name :: "job_status \<Rightarrow> string" where
  "job_status_name J_PENDING = ''PENDING''"
| "job_status_name J_DISPATCHING = ''DISPATCHING''"
| "job_status_name J_PARTIALLY_ASSIGNED = ''PARTIALLY_ASSIGNED''"
| "job_status_name J_ASSIGNED = ''ASSIGNED''"
| "job_status_name J_IN_PROGRESS = ''IN_PROGRESS''"
| "job_status_name J_SEEKING_REPLACEMENT = ''SEEKING_REPLACEMENT''"
| "job_status_name J_AWAITING_CONFIRMATION = ''AWAITING_CONFIRMATION''"
| "job_status_name J_COMPLETED = ''COMPLETED''"
| "job_status_name J_FAILED = ''FAILED''"
| "job_status_name J_CANCELLED = ''CANCELLED''"

primrec assignment_status_name :: "assignment_status \<Rightarrow> string" where
  "assignment_status_name A_OFFERED = ''OFFERED''"
| "assignment_status_name A_ACCEPTED = ''ACCEPTED''"
| "assignment_status_name A_DECLINED = ''DECLINED''"
| "assignment_status_name A_EXPIRED = ''EXPIRED''"
| "assignment_status_name A_EN_ROUTE = ''EN_ROUTE''"
| "assignment_status_name A_ON_SITE = ''ON_SITE''"
| "assignment_status_name A_EARLY_RELEASE_REQUESTED = ''EARLY_RELEASE_REQUESTED''"
| "assignment_status_name A_REPLACEMENT_REQUESTED = ''REPLACEMENT_REQUESTED''"
| "assignment_status_name A_AWAITING_RELIEF = ''AWAITING_RELIEF''"
| "assignment_status_name A_COMPLETED = ''COMPLETED''"
| "assignment_status_name A_NO_SHOW = ''NO_SHOW''"
| "assignment_status_name A_CANCELLED = ''CANCELLED''"

primrec billing_model_name :: "billing_model \<Rightarrow> string" where
  "billing_model_name BOOKED_BLOCK = ''BOOKED_BLOCK''"
| "billing_model_name BM_ACTUAL_TIME = ''ACTUAL_TIME''"
| "billing_model_name BM_MINIMUM_GUARANTEED = ''MINIMUM_GUARANTEED''"

primrec pay_model_name :: "pay_model \<Rightarrow> string" where
  "pay_model_name PM_ACTUAL_TIME = ''ACTUAL_TIME''"
| "pay_model_name PM_MINIMUM_GUARANTEED = ''MINIMUM_GUARANTEED''"

primrec invoice_status_name :: "invoice_status \<Rightarrow> string" where
  "invoice_status_name I_DRAFT = ''DRAFT''"
| "invoice_status_name I_PENDING_CONFIRMATION = ''PENDING_CONFIRMATION''"
| "invoice_status_name I_ISSUED = ''ISSUED''"
| "invoice_status_name I_PAID = ''PAID''"
| "invoice_status_name I_PARTIALLY_PAID = ''PARTIALLY_PAID''"
| "invoice_status_name I_OVERDUE = ''OVERDUE''"
| "invoice_status_name I_DISPUTED = ''DISPUTED''"
| "invoice_status_name I_VOID = ''VOID''"

section \<open>Lookups\<close>

definition jobOf :: "id \<Rightarrow> sys \<Rightarrow> job option" where
  "jobOf jid s = findUnique j_id jid (jobs s)"

definition assignmentOf :: "id \<Rightarrow> sys \<Rightarrow> assignment option" where
  "assignmentOf aid s = findUnique a_id aid (assignments s)"

definition shiftOf :: "id \<Rightarrow> sys \<Rightarrow> shift_state option" where
  "shiftOf gid s = findUnique s_guardianId gid (shifts s)"

definition guardianOf :: "id \<Rightarrow> sys \<Rightarrow> guardian option" where
  "guardianOf gid s = findUnique g_id gid (guardians s)"

definition invoiceOf :: "id \<Rightarrow> sys \<Rightarrow> invoice option" where
  "invoiceOf iid s = findUnique i_id iid (invoices s)"

definition invoiceOfJob :: "id \<Rightarrow> sys \<Rightarrow> invoice option" where
  "invoiceOfJob jid s = findUnique i_jobId jid (invoices s)"

definition paymentOf :: "id \<Rightarrow> sys \<Rightarrow> payment option" where
  "paymentOf pid s = findUnique p_id pid (payments s)"

definition payoutOf :: "id \<Rightarrow> sys \<Rightarrow> payout option" where
  "payoutOf pid s = findUnique po_id pid (payouts s)"

definition outboxOf :: "id \<Rightarrow> sys \<Rightarrow> outbox_event option" where
  "outboxOf oid s = findUnique ob_id oid (outbox s)"

text \<open>The tables keyed by identifiers are row stores; the lookup lemmas come from the locale.\<close>

interpretation job_table: row_store j_id "findUnique j_id"
  "\<lambda>k. updateMany (\<lambda>r. j_id r = k)" createRow
  by (rule list_table_row_store)

interpretation assignment_table: row_store a_id "findUnique a_id"
  "\<lambda>k. updateMany (\<lambda>r. a_id r = k)" createRow
  by (rule list_table_row_store)

interpretation invoice_table: row_store i_id "findUnique i_id"
  "\<lambda>k. updateMany (\<lambda>r. i_id r = k)" createRow
  by (rule list_table_row_store)

interpretation shift_table: row_store s_guardianId "findUnique s_guardianId"
  "\<lambda>k. updateMany (\<lambda>r. s_guardianId r = k)" createRow
  by (rule list_table_row_store)

interpretation payout_table: row_store po_id "findUnique po_id"
  "\<lambda>k. updateMany (\<lambda>r. po_id r = k)" createRow
  by (rule list_table_row_store)

lemmas lookup_defs = jobOf_def assignmentOf_def shiftOf_def guardianOf_def invoiceOf_def
  invoiceOfJob_def paymentOf_def payoutOf_def outboxOf_def

section \<open>Steps shared by the services\<close>

text \<open>\<open>new Date()\<close>; every read of the clock in one method gives the same instant.\<close>

definition now :: "instant op" where
  "now = reads clock"

lemma now_apply [simp]: "now s = (Inr (clock s), s)"
  by (simp add: now_def)

lemma andThen_now [simp]: "andThen now f s = f (clock s) s"
  by (simp add: now_def)

text \<open>A fresh primary key.\<close>

definition freshId :: "id op" where
  "freshId = (\<lambda>s. (Inr (nextId s), s\<lparr>nextId := Suc (nextId s)\<rparr>))"

lemma andThen_freshId [simp]:
  "andThen freshId f s = f (nextId s) (s\<lparr>nextId := Suc (nextId s)\<rparr>)"
  by (simp add: freshId_def andThen_def)

text \<open>\<open>AuditService.log\<close> (the before and after JSON snapshots are not kept).\<close>

definition auditLog :: "id option \<Rightarrow> string \<Rightarrow> id \<Rightarrow> unit op" where
  "auditLog actorUserId action entityId =
     writes (\<lambda>s. s\<lparr>audits := createRow
       \<lparr>au_actorUserId = actorUserId, au_action = action, au_entityId = entityId\<rparr> (audits s)\<rparr>)"

definition writeDispatchAudit :: "id \<Rightarrow> int \<Rightarrow> string \<Rightarrow> unit op" where
  "writeDispatchAudit jobId pass event =
     writes (\<lambda>s. s\<lparr>dispatchAudits := createRow
       \<lparr>d_jobId = jobId, d_pass = pass, d_event = event\<rparr> (dispatchAudits s)\<rparr>)"

definition send :: "message \<Rightarrow> unit op" where
  "send m = writes (\<lambda>s. s\<lparr>messages := messages s @ [m]\<rparr>)"

text \<open>\<open>update({ where: { id } })\<close> rejects when the row is missing; \<open>updateMany\<close> never does.\<close>

definition updateJob :: "id \<Rightarrow> (job \<Rightarrow> job) \<Rightarrow> unit op" where
  "updateJob jid f = (\<lambda>s. case jobOf jid s of
     None \<Rightarrow> (Inl (PrismaError ''P2025''), s)
   | Some _ \<Rightarrow> (Inr (), s\<lparr>jobs := updateMany (\<lambda>j. j_id j = jid) f (jobs s)\<rparr>))"

definition updateJobs :: "(job \<Rightarrow> bool) \<Rightarrow> (job \<Rightarrow> job) \<Rightarrow> unit op" where
  "updateJobs p f = writes (\<lambda>s. s\<lparr>jobs := updateMany p f (jobs s)\<rparr>)"

definition updateAssignment :: "id \<Rightarrow> (assignment \<Rightarrow> assignment) \<Rightarrow> unit op" where
  "updateAssignment aid f = (\<lambda>s. case assignmentOf aid s of
     None \<Rightarrow> (Inl (PrismaError ''P2025''), s)
   | Some _ \<Rightarrow> (Inr (), s\<lparr>assignments := updateMany (\<lambda>a. a_id a = aid) f (assignments s)\<rparr>))"

definition updateAssignments ::
  "(assignment \<Rightarrow> bool) \<Rightarrow> (assignment \<Rightarrow> assignment) \<Rightarrow> unit op" where
  "updateAssignments p f = writes (\<lambda>s. s\<lparr>assignments := updateMany p f (assignments s)\<rparr>)"

definition updateShift :: "id \<Rightarrow> (shift_state \<Rightarrow> shift_state) \<Rightarrow> unit op" where
  "updateShift gid f = (\<lambda>s. case shiftOf gid s of
     None \<Rightarrow> (Inl (PrismaError ''P2025''), s)
   | Some _ \<Rightarrow> (Inr (), s\<lparr>shifts := updateMany (\<lambda>r. s_guardianId r = gid) f (shifts s)\<rparr>))"

definition updateInvoice :: "id \<Rightarrow> (invoice \<Rightarrow> invoice) \<Rightarrow> unit op" where
  "updateInvoice iid f = (\<lambda>s. case invoiceOf iid s of
     None \<Rightarrow> (Inl (PrismaError ''P2025''), s)
   | Some _ \<Rightarrow> (Inr (), s\<lparr>invoices := updateMany (\<lambda>i. i_id i = iid) f (invoices s)\<rparr>))"

text \<open>\<open>jobStatusHistory.create\<close>.\<close>

definition recordJobStatus ::
  "id \<Rightarrow> job_status option \<Rightarrow> job_status \<Rightarrow> id option \<Rightarrow> change_reason option \<Rightarrow> unit op" where
  "recordJobStatus jobId oldStatus newStatus changedBy reason =
     writes (\<lambda>s. s\<lparr>history := createRow
       \<lparr>h_jobId = jobId, h_oldStatus = oldStatus, h_newStatus = newStatus,
        h_changedBy = changedBy, h_reason = reason, h_changedAt = clock s\<rparr> (history s)\<rparr>)"

text \<open>
  The pair of writes every status change of a job is made of: the row (with the other columns
  \<open>f\<close> sets in the same \<open>update\<close>) and its history entry.
\<close>

definition changeJobStatus :: "id \<Rightarrow> (job \<Rightarrow> job) \<Rightarrow> job_status \<Rightarrow> job_status \<Rightarrow> id option \<Rightarrow>
    change_reason option \<Rightarrow> unit op" where
  "changeJobStatus jobId f oldStatus newStatus changedBy reason =
     andThen (updateJob jobId (\<lambda>j. (f j)\<lparr>j_status := newStatus\<rparr>)) (\<lambda>_.
     recordJobStatus jobId (Some oldStatus) newStatus changedBy reason)"

text \<open>
  \<open>updateOptimistic\<close> of the assignments service and \<open>updateAssignmentOptimistic\<close> of the
  dispatching service: the row changes only if it still has the version the caller read, and
  its version grows by one.  The columns the caller does not give keep their value.
\<close>

definition updateOptimistic ::
  "id \<Rightarrow> int \<Rightarrow> (assignment \<Rightarrow> assignment) \<Rightarrow> assignment op" where
  "updateOptimistic aid versionNumber f = (\<lambda>s.
     let hit = (\<lambda>a. a_id a = aid \<and> a_versionNumber a = versionNumber);
         rows = updateMany hit
           (\<lambda>a. (f a)\<lparr>a_versionNumber := a_versionNumber a + 1\<rparr>) (assignments s);
         s' = s\<lparr>assignments := rows\<rparr>
     in if countWhere hit (assignments s) = 0
        then (Inl (Conflict ''Assignment was modified concurrently''), s')
        else orThrow (assignmentOf aid s') (PrismaError ''P2025'') s')"

text \<open>
  \<open>transitionOfferedAssignment\<close>: only an offer that is still \<open>OFFERED\<close> and still has the
  version read moves; the result is the number of rows that did.
\<close>

definition transitionOfferedAssignment ::
  "id \<Rightarrow> int \<Rightarrow> (assignment \<Rightarrow> assignment) \<Rightarrow> int op" where
  "transitionOfferedAssignment aid versionNumber f = (\<lambda>s.
     let hit = (\<lambda>a. a_id a = aid \<and> a_versionNumber a = versionNumber \<and> a_status a = A_OFFERED)
     in (Inr (countWhere hit (assignments s)),
         s\<lparr>assignments := updateMany hit
             (\<lambda>a. (f a)\<lparr>a_versionNumber := a_versionNumber a + 1\<rparr>) (assignments s)\<rparr>))"

text \<open>
  The map \<open>offerExpiryTimers\<close> of \<open>QueueService\<close> (in-process form): scheduling sets the timer
  of the assignment, cancelling clears it.
\<close>

definition scheduleOfferExpiry :: "id \<Rightarrow> int \<Rightarrow> unit op" where
  "scheduleOfferExpiry aid delayMs = writes (\<lambda>s.
     s\<lparr>expiryTimers := filter (\<lambda>t. fst t \<noteq> aid) (expiryTimers s) @ [(aid, clock s + delayMs)]\<rparr>)"

definition cancelOfferExpiry :: "id \<Rightarrow> unit op" where
  "cancelOfferExpiry aid = writes (\<lambda>s.
     s\<lparr>expiryTimers := filter (\<lambda>t. fst t \<noteq> aid) (expiryTimers s)\<rparr>)"

text \<open>
  What a rolled-back transaction leaves: nothing of what its body wrote, or, where the body
  calls \<open>ShiftStateService.setAvailable\<close> (which writes through the client itself and not
  through the transaction), the shift rows only.
\<close>

definition rollback :: "sys \<Rightarrow> sys \<Rightarrow> sys" where
  "rollback s s' = s"

definition rollbackKeepingShifts :: "sys \<Rightarrow> sys \<Rightarrow> sys" where
  "rollbackKeepingShifts s s' = s\<lparr>shifts := shifts s'\<rparr>"

named_theorems store_defs \<open>the shared steps\<close>

declare now_def [store_defs] freshId_def [store_defs] auditLog_def [store_defs]
  writeDispatchAudit_def [store_defs] send_def [store_defs] updateJob_def [store_defs]
  updateJobs_def [store_defs] updateAssignment_def [store_defs]
  updateAssignments_def [store_defs] updateShift_def [store_defs] updateInvoice_def [store_defs]
  recordJobStatus_def [store_defs] updateOptimistic_def [store_defs]
  transitionOfferedAssignment_def [store_defs] scheduleOfferExpiry_def [store_defs]
  cancelOfferExpiry_def [store_defs] rollback_def [store_defs]
  rollbackKeepingShifts_def [store_defs]

section \<open>The optimistic update\<close>

text \<open>
  What the services rely on, on a table whose primary keys are distinct: with the version it
  read, a writer succeeds and the version has grown; with any other version it fails and
  nothing has changed.  So of two writers that read the same version only the first commits,
  whatever they write.
\<close>

locale optimistic_store =
  fixes good :: "'s \<Rightarrow> bool"
    and version :: "'k \<Rightarrow> 's \<Rightarrow> int option"
    and update :: "'k \<Rightarrow> int \<Rightarrow> ('r \<Rightarrow> 'r) \<Rightarrow> ('s, 'r) handler"
    and usable :: "('r \<Rightarrow> 'r) \<Rightarrow> bool"
  assumes hit: "good s \<Longrightarrow> usable f \<Longrightarrow> version k s = Some v \<Longrightarrow>
      \<exists>r s'. update k v f s = (Inr r, s') \<and> version k s' = Some (v + 1) \<and> good s'"
    and miss: "good s \<Longrightarrow> version k s \<noteq> Some v \<Longrightarrow> \<exists>e. update k v f s = (Inl e, s)"
begin

lemma second_writer:
  assumes "good s" and "usable f" and "version k s = Some v"
  shows "\<exists>e. update k v g (snd (update k v f s)) = (Inl e, snd (update k v f s))"
proof -
  obtain r s' where *: "update k v f s = (Inr r, s')" "version k s' = Some (v + 1)" "good s'"
    using hit assms by blast
  then have "version k s' \<noteq> Some v" by simp
  then show ?thesis using * miss [of s' k v g] by auto
qed

lemma stale_read_fails:
  assumes "good s" and "version k s = Some w" and "v < w"
  shows "\<exists>e. update k v f s = (Inl e, s)"
  using assms miss by simp

end

text \<open>A column update is usable when it leaves the key column alone.\<close>

definition keepsKey :: "(assignment \<Rightarrow> assignment) \<Rightarrow> bool" where
  "keepsKey f \<longleftrightarrow> (\<forall>a. a_id (f a) = a_id a)"

definition versionOf :: "id \<Rightarrow> sys \<Rightarrow> int option" where
  "versionOf aid s = map_option a_versionNumber (assignmentOf aid s)"

definition distinctAssignments :: "sys \<Rightarrow> bool" where
  "distinctAssignments s \<longleftrightarrow> distinct (map a_id (assignments s))"

lemma distinct_key_unique:
  "distinct (map key rows) \<Longrightarrow> x \<in> set rows \<Longrightarrow> y \<in> set rows \<Longrightarrow> key x = key y \<Longrightarrow> x = y"
  by (auto simp: distinct_map inj_on_def)

lemma updateOptimistic_found:
  assumes dist: "distinct (map a_id (assignments s))"
    and a: "assignmentOf aid s = Some a"
    and keep: "\<And>a. a_id (f a) = a_id a"
  shows "updateOptimistic aid v f s =
    (if a_versionNumber a = v
     then (Inr ((f a)\<lparr>a_versionNumber := v + 1\<rparr>),
           s\<lparr>assignments := updateMany (\<lambda>r. a_id r = aid)
               (\<lambda>r. (f r)\<lparr>a_versionNumber := a_versionNumber r + 1\<rparr>) (assignments s)\<rparr>)
     else (Inl (Conflict ''Assignment was modified concurrently''), s))"
proof -
  let ?hit = "\<lambda>r. a_id r = aid \<and> a_versionNumber r = v"
  let ?g = "\<lambda>r. (f r)\<lparr>a_versionNumber := a_versionNumber r + 1\<rparr>"
  have mem: "a \<in> set (assignments s)" "a_id a = aid"
    using a by (auto simp: assignmentOf_def dest: findUnique_SomeD)
  have only: "r \<in> set (assignments s) \<Longrightarrow> a_id r = aid \<Longrightarrow> r = a" for r
    using distinct_key_unique [OF dist, of r a] mem by simp
  have same: "updateMany ?hit ?g (assignments s) =
      updateMany (\<lambda>r. a_id r = aid) ?g (assignments s)" if "a_versionNumber a = v"
    by (rule updateMany_cong) (use that in \<open>auto dest: only\<close>)
  have none: "updateMany ?hit ?g (assignments s) = assignments s" if "a_versionNumber a \<noteq> v"
    by (rule updateMany_none) (use that in \<open>auto dest: only\<close>)
  have cnt: "countWhere ?hit (assignments s) = 0 \<longleftrightarrow> a_versionNumber a \<noteq> v"
    using mem by (auto simp: countWhere_0_iff dest: only)
  have key: "a_id (?g r) = a_id r" for r
    using keep [of r] by simp
  have look: "findUnique a_id aid (updateMany (\<lambda>r. a_id r = aid) ?g (assignments s)) = Some (?g a)"
    using assignment_table.lookup_modify_same [of ?g, OF key] a by (simp add: assignmentOf_def)
  show ?thesis
  proof (cases "a_versionNumber a = v")
    case True
    then show ?thesis
      by (simp add: updateOptimistic_def Let_def cnt same assignmentOf_def look)
  next
    case False
    then show ?thesis
      by (simp add: updateOptimistic_def Let_def cnt none)
  qed
qed

lemma updateOptimistic_missing:
  assumes "assignmentOf aid s = None"
  shows "updateOptimistic aid v f s =
    (Inl (Conflict ''Assignment was modified concurrently''), s)"
proof -
  have no: "r \<in> set (assignments s) \<Longrightarrow> a_id r \<noteq> aid" for r
    using assms by (auto simp: assignmentOf_def findUnique_None_iff)
  then have "updateMany (\<lambda>r. a_id r = aid \<and> a_versionNumber r = v) g (assignments s) = assignments s"
    for g by (intro updateMany_none) auto
  moreover have "countWhere (\<lambda>r. a_id r = aid \<and> a_versionNumber r = v) (assignments s) = 0"
    using no by (auto simp: countWhere_0_iff)
  ultimately show ?thesis by (simp add: updateOptimistic_def Let_def)
qed

interpretation assignment_optimistic: optimistic_store
  distinctAssignments versionOf updateOptimistic keepsKey
proof
  fix s :: sys and f :: "assignment \<Rightarrow> assignment" and k v
  assume good: "distinctAssignments s" and f: "keepsKey f" and "versionOf k s = Some v"
  then obtain a where a: "assignmentOf k s = Some a" and v: "a_versionNumber a = v"
    by (auto simp: versionOf_def)
  have keep: "\<And>a. a_id (f a) = a_id a"
    using f by (simp add: keepsKey_def)
  let ?g = "\<lambda>r. (f r)\<lparr>a_versionNumber := a_versionNumber r + 1\<rparr>"
  let ?s' = "s\<lparr>assignments := updateMany (\<lambda>r. a_id r = k) ?g (assignments s)\<rparr>"
  have key: "a_id (?g r) = a_id r" for r
    using keep [of r] by simp
  have "updateOptimistic k v f s = (Inr ((f a)\<lparr>a_versionNumber := v + 1\<rparr>), ?s')"
    using updateOptimistic_found [OF good [unfolded distinctAssignments_def] a, of f v] keep v
    by simp
  moreover have "versionOf k ?s' = Some (v + 1)"
    using assignment_table.lookup_modify_same [of ?g, OF key] a v
    by (simp add: versionOf_def assignmentOf_def)
  moreover have "distinctAssignments ?s'"
    using good by (simp add: distinctAssignments_def updateMany_keys [of a_id ?g, OF key])
  ultimately show "\<exists>r s'. updateOptimistic k v f s = (Inr r, s') \<and>
      versionOf k s' = Some (v + 1) \<and> distinctAssignments s'"
    by blast
next
  fix s :: sys and f :: "assignment \<Rightarrow> assignment" and k v
  assume good: "distinctAssignments s" and miss: "versionOf k s \<noteq> Some v"
  let ?hit = "\<lambda>a. a_id a = k \<and> a_versionNumber a = v"
  have no: "\<not> ?hit r" if "r \<in> set (assignments s)" for r
    using findUnique_distinct [OF good [unfolded distinctAssignments_def] that] miss
    by (auto simp: versionOf_def assignmentOf_def)
  then have "countWhere ?hit (assignments s) = 0"
    by (simp add: countWhere_0_iff)
  moreover have "updateMany ?hit g (assignments s) = assignments s" for g
    by (rule updateMany_none) (rule no)
  ultimately show "\<exists>e. updateOptimistic k v f s = (Inl e, s)"
    by (simp add: updateOptimistic_def Let_def)
qed

end
