(* ===== verification/Transitions.thy ===== *)
theory Transitions
  imports Store
begin

text \<open>
  The status tables of the dispatch domain: \<open>assignment-transitions.ts\<close>,
  \<open>replacement-invariants.ts\<close>, \<open>early-release.util.ts\<close> and the status sets of
  \<open>job-staffing.util.ts\<close>; then the two graphs the rest of the development measures the
  services against.  \<open>assignment_edge\<close> is the code's table with the one edge the no-show
  path adds to it, \<open>job_edge\<close> collects the status changes of the lifecycle, dispatching
  and jobs services, which the code does not write down anywhere as a table.
\<close>

section \<open>Assignments\<close>

fun ALLOWED_ASSIGNMENT_TRANSITIONS :: "assignment_status \<Rightarrow> assignment_status list" where
  "ALLOWED_ASSIGNMENT_TRANSITIONS A_OFFERED = [A_ACCEPTED, A_DECLINED, A_EXPIRED, A_CANCELLED]"
| "ALLOWED_ASSIGNMENT_TRANSITIONS A_ACCEPTED = [A_EN_ROUTE, A_NO_SHOW, A_CANCELLED]"
| "ALLOWED_ASSIGNMENT_TRANSITIONS A_EN_ROUTE = [A_ON_SITE, A_NO_SHOW, A_CANCELLED]"
| "ALLOWED_ASSIGNMENT_TRANSITIONS A_ON_SITE =
     [A_COMPLETED, A_EARLY_RELEASE_REQUESTED, A_REPLACEMENT_REQUESTED, A_CANCELLED]"
| "ALLOWED_ASSIGNMENT_TRANSITIONS A_EARLY_RELEASE_REQUESTED = [A_COMPLETED, A_ON_SITE, A_CANCELLED]"
| "ALLOWED_ASSIGNMENT_TRANSITIONS A_REPLACEMENT_REQUESTED = [A_ON_SITE, A_AWAITING_RELIEF, A_CANCELLED]"
| "ALLOWED_ASSIGNMENT_TRANSITIONS A_AWAITING_RELIEF = [A_COMPLETED, A_CANCELLED]"
| "ALLOWED_ASSIGNMENT_TRANSITIONS A_COMPLETED = []"
| "ALLOWED_ASSIGNMENT_TRANSITIONS A_DECLINED = []"
| "ALLOWED_ASSIGNMENT_TRANSITIONS A_EXPIRED = []"
| "ALLOWED_ASSIGNMENT_TRANSITIONS A_NO_SHOW = []"
| "ALLOWED_ASSIGNMENT_TRANSITIONS A_CANCELLED = []"

text \<open>The function throws a plain \<open>Error\<close>, which every caller catches; here its message.\<close>

definition assertAssignmentTransitionAllowed ::
  "assignment_status \<Rightarrow> assignment_status \<Rightarrow> string + unit" where
  "assertAssignmentTransitionAllowed from to =
     (if to \<in> set (ALLOWED_ASSIGNMENT_TRANSITIONS from) then Inr ()
      else Inl (''Transition '' @ assignment_status_name from @ '' -> '' @
                assignment_status_name to @ '' is not allowed''))"

definition NO_SHOW_ALLOWED_FROM_STATUSES :: "assignment_status list" where
  "NO_SHOW_ALLOWED_FROM_STATUSES = [A_OFFERED, A_ACCEPTED, A_EN_ROUTE]"

definition STAFFED_ASSIGNMENT_STATUSES :: "assignment_status list" where
  "STAFFED_ASSIGNMENT_STATUSES = [A_ACCEPTED, A_EN_ROUTE, A_ON_SITE, A_EARLY_RELEASE_REQUESTED,
     A_REPLACEMENT_REQUESTED, A_AWAITING_RELIEF, A_COMPLETED]"

definition ACTIVE_STAFFED_ASSIGNMENT_STATUSES :: "assignment_status list" where
  "ACTIVE_STAFFED_ASSIGNMENT_STATUSES = [A_ACCEPTED, A_EN_ROUTE, A_ON_SITE,
     A_EARLY_RELEASE_REQUESTED, A_REPLACEMENT_REQUESTED, A_AWAITING_RELIEF]"

text \<open>The statuses of \<open>guardian-dispatch-eligibility.service.ts\<close> after which a guardian counts
  as tried for the job.\<close>

definition TERMINAL_ASSIGNMENT_STATUSES :: "assignment_status list" where
  "TERMINAL_ASSIGNMENT_STATUSES = [A_DECLINED, A_EXPIRED, A_CANCELLED]"

definition REPLACEMENT_PIPELINE_STATUSES :: "assignment_status list" where
  "REPLACEMENT_PIPELINE_STATUSES = [A_OFFERED, A_ACCEPTED, A_EN_ROUTE]"

definition assertSeekingReplacementState ::
  "assignment option \<Rightarrow> assignment option \<Rightarrow> unit op" where
  "assertSeekingReplacementState departing substitute =
     andThen (ensure (case departing of None \<Rightarrow> False | Some d \<Rightarrow> a_status d = A_AWAITING_RELIEF)
       (BadRequest ''Departing assignment must be AWAITING_RELIEF'')) (\<lambda>_.
     ensure (case substitute of None \<Rightarrow> True
             | Some x \<Rightarrow> a_status x \<in> set REPLACEMENT_PIPELINE_STATUSES)
       (BadRequest ''Substitute assignment is in an invalid status''))"

section \<open>Early release\<close>

definition EARLY_RELEASE_APPROVED_RESOLUTIONS :: "early_release_resolution list" where
  "EARLY_RELEASE_APPROVED_RESOLUTIONS = [ER_APPROVED, ER_AUTO_APPROVED]"

definition isEarlyReleaseApproved :: "early_release_resolution option \<Rightarrow> bool" where
  "isEarlyReleaseApproved resolution =
     (case resolution of None \<Rightarrow> False | Some r \<Rightarrow> r \<in> set EARLY_RELEASE_APPROVED_RESOLUTIONS)"

definition effectiveBillingModelForInvoice :: "billing_model \<Rightarrow> bool \<Rightarrow> bool \<Rightarrow> billing_model" where
  "effectiveBillingModelForInvoice policyModel earlyReleaseApproved prorationEnabled =
     (if earlyReleaseApproved \<and> prorationEnabled \<and> policyModel = BOOKED_BLOCK then BM_ACTUAL_TIME
      else policyModel)"

section \<open>The assignment graph\<close>

definition assignment_edge :: "assignment_status \<Rightarrow> assignment_status \<Rightarrow> bool" where
  "assignment_edge from to \<longleftrightarrow>
     to \<in> set (ALLOWED_ASSIGNMENT_TRANSITIONS from) \<or> (from = A_OFFERED \<and> to = A_NO_SHOW)"

definition assignment_terminal :: "assignment_status \<Rightarrow> bool" where
  "assignment_terminal st \<longleftrightarrow> ALLOWED_ASSIGNMENT_TRANSITIONS st = []"

lemma assignment_edge_simps [simp]:
  "assignment_edge A_OFFERED to \<longleftrightarrow>
     to \<in> {A_ACCEPTED, A_DECLINED, A_EXPIRED, A_CANCELLED, A_NO_SHOW}"
  "assignment_edge A_ACCEPTED to \<longleftrightarrow> to \<in> {A_EN_ROUTE, A_NO_SHOW, A_CANCELLED}"
  "assignment_edge A_EN_ROUTE to \<longleftrightarrow> to \<in> {A_ON_SITE, A_NO_SHOW, A_CANCELLED}"
  "assignment_edge A_ON_SITE to \<longleftrightarrow>
     to \<in> {A_COMPLETED, A_EARLY_RELEASE_REQUESTED, A_REPLACEMENT_REQUESTED, A_CANCELLED}"
  "assignment_edge A_EARLY_RELEASE_REQUESTED to \<longleftrightarrow> to \<in> {A_COMPLETED, A_ON_SITE, A_CANCELLED}"
  "assignment_edge A_REPLACEMENT_REQUESTED to \<longleftrightarrow> to \<in> {A_ON_SITE, A_AWAITING_RELIEF, A_CANCELLED}"
  "assignment_edge A_AWAITING_RELIEF to \<longleftrightarrow> to \<in> {A_COMPLETED, A_CANCELLED}"
  "\<not> assignment_edge A_COMPLETED to" "\<not> assignment_edge A_DECLINED to"
  "\<not> assignment_edge A_EXPIRED to" "\<not> assignment_edge A_NO_SHOW to"
  "\<not> assignment_edge A_CANCELLED to"
  by (auto simp: assignment_edge_def)

lemma assignment_terminal_simps [simp]:
  "assignment_terminal A_COMPLETED" "assignment_terminal A_DECLINED"
  "assignment_terminal A_EXPIRED" "assignment_terminal A_NO_SHOW"
  "assignment_terminal A_CANCELLED" "\<not> assignment_terminal A_OFFERED"
  "\<not> assignment_terminal A_ACCEPTED" "\<not> assignment_terminal A_EN_ROUTE"
  "\<not> assignment_terminal A_ON_SITE" "\<not> assignment_terminal A_EARLY_RELEASE_REQUESTED"
  "\<not> assignment_terminal A_REPLACEMENT_REQUESTED" "\<not> assignment_terminal A_AWAITING_RELIEF"
  by (simp_all add: assignment_terminal_def)

lemma terminal_no_edge: "assignment_terminal x \<Longrightarrow> \<not> assignment_edge x y"
  by (cases x) simp_all

lemma nonterminal_cancel: "\<not> assignment_terminal x \<Longrightarrow> assignment_edge x A_CANCELLED"
  by (cases x) simp_all

lemma terminal_absorbs: "assignment_edge\<^sup>*\<^sup>* x y \<Longrightarrow> assignment_terminal x \<Longrightarrow> y = x"
  by (induction rule: converse_rtranclp_induct) (auto dest: terminal_no_edge)

text \<open>
  A slot of the job is taken by an offer that is out or by a staffed assignment; no edge takes
  a slot that was free.
\<close>

definition takes_slot :: "assignment_status \<Rightarrow> bool" where
  "takes_slot st \<longleftrightarrow> st = A_OFFERED \<or> st \<in> set STAFFED_ASSIGNMENT_STATUSES"

lemma takes_slot_simps [simp]:
  "takes_slot A_OFFERED" "takes_slot A_ACCEPTED" "takes_slot A_EN_ROUTE" "takes_slot A_ON_SITE"
  "takes_slot A_EARLY_RELEASE_REQUESTED" "takes_slot A_REPLACEMENT_REQUESTED"
  "takes_slot A_AWAITING_RELIEF" "takes_slot A_COMPLETED" "\<not> takes_slot A_DECLINED"
  "\<not> takes_slot A_EXPIRED" "\<not> takes_slot A_NO_SHOW" "\<not> takes_slot A_CANCELLED"
  by (simp_all add: takes_slot_def STAFFED_ASSIGNMENT_STATUSES_def)

lemma edge_frees_slots: "assignment_edge x y \<Longrightarrow> takes_slot y \<Longrightarrow> takes_slot x"
  by (cases x) auto

lemma edges_free_slots: "assignment_edge\<^sup>*\<^sup>* x y \<Longrightarrow> takes_slot y \<Longrightarrow> takes_slot x"
  by (induction rule: rtranclp_induct) (auto dest: edge_frees_slots)

section \<open>The job graph\<close>

fun job_moves :: "job_status \<Rightarrow> job_status list" where
  "job_moves J_PENDING = [J_DISPATCHING, J_PARTIALLY_ASSIGNED, J_ASSIGNED, J_FAILED, J_CANCELLED]"
| "job_moves J_DISPATCHING =
     [J_DISPATCHING, J_PARTIALLY_ASSIGNED, J_ASSIGNED, J_FAILED, J_CANCELLED]"
| "job_moves J_PARTIALLY_ASSIGNED =
     [J_DISPATCHING, J_ASSIGNED, J_IN_PROGRESS, J_AWAITING_CONFIRMATION, J_COMPLETED, J_FAILED,
      J_CANCELLED]"
| "job_moves J_ASSIGNED =
     [J_IN_PROGRESS, J_AWAITING_CONFIRMATION, J_COMPLETED, J_DISPATCHING, J_FAILED, J_CANCELLED]"
| "job_moves J_IN_PROGRESS =
     [J_SEEKING_REPLACEMENT, J_AWAITING_CONFIRMATION, J_COMPLETED, J_DISPATCHING, J_FAILED,
      J_CANCELLED]"
| "job_moves J_SEEKING_REPLACEMENT = [J_IN_PROGRESS, J_CANCELLED]"
| "job_moves J_AWAITING_CONFIRMATION = [J_COMPLETED]"
| "job_moves J_COMPLETED = []"
| "job_moves J_FAILED = [J_CANCELLED]"
| "job_moves J_CANCELLED = []"

definition job_edge :: "job_status \<Rightarrow> job_status \<Rightarrow> bool" where
  "job_edge from to \<longleftrightarrow> to \<in> set (job_moves from)"

lemma job_edge_simps [simp]:
  "job_edge J_PENDING to \<longleftrightarrow>
     to \<in> {J_DISPATCHING, J_PARTIALLY_ASSIGNED, J_ASSIGNED, J_FAILED, J_CANCELLED}"
  "job_edge J_DISPATCHING to \<longleftrightarrow>
     to \<in> {J_DISPATCHING, J_PARTIALLY_ASSIGNED, J_ASSIGNED, J_FAILED, J_CANCELLED}"
  "job_edge J_PARTIALLY_ASSIGNED to \<longleftrightarrow>
     to \<in> {J_DISPATCHING, J_ASSIGNED, J_IN_PROGRESS, J_AWAITING_CONFIRMATION, J_COMPLETED,
           J_FAILED, J_CANCELLED}"
  "job_edge J_ASSIGNED to \<longleftrightarrow>
     to \<in> {J_IN_PROGRESS, J_AWAITING_CONFIRMATION, J_COMPLETED, J_DISPATCHING, J_FAILED, J_CANCELLED}"
  "job_edge J_IN_PROGRESS to \<longleftrightarrow>
     to \<in> {J_SEEKING_REPLACEMENT, J_AWAITING_CONFIRMATION, J_COMPLETED, J_DISPATCHING, J_FAILED,
           J_CANCELLED}"
  "job_edge J_SEEKING_REPLACEMENT to \<longleftrightarrow> to \<in> {J_IN_PROGRESS, J_CANCELLED}"
  "job_edge J_AWAITING_CONFIRMATION to \<longleftrightarrow> to = J_COMPLETED"
  "\<not> job_edge J_COMPLETED to" "job_edge J_FAILED to \<longleftrightarrow> to = J_CANCELLED"
  "\<not> job_edge J_CANCELLED to"
  by (auto simp: job_edge_def)

definition job_terminal :: "job_status \<Rightarrow> bool" where
  "job_terminal st \<longleftrightarrow> job_moves st = []"

lemma job_terminal_simps [simp]:
  "job_terminal st \<longleftrightarrow> st = J_COMPLETED \<or> st = J_CANCELLED"
  by (cases st) (simp_all add: job_terminal_def)

lemma job_terminal_absorbs: "job_edge\<^sup>*\<^sup>* x y \<Longrightarrow> job_terminal x \<Longrightarrow> y = x"
  by (induction rule: converse_rtranclp_induct) auto

text \<open>Once a job is past its work it only gets confirmed; a failed job can only be cancelled.\<close>

lemma awaiting_confirmation_forward:
  "job_edge\<^sup>*\<^sup>* x y \<Longrightarrow> x = J_AWAITING_CONFIRMATION \<Longrightarrow> y = J_AWAITING_CONFIRMATION \<or> y = J_COMPLETED"
  by (induction rule: rtranclp_induct) auto

section \<open>Facts about the tables\<close>

lemma edge_is_allowed_or_no_show:
  "assignment_edge from to \<longleftrightarrow>
     assertAssignmentTransitionAllowed from to = Inr () \<or>
     (from \<in> set NO_SHOW_ALLOWED_FROM_STATUSES \<and> to = A_NO_SHOW)"
  by (cases "from") (auto simp: assertAssignmentTransitionAllowed_def NO_SHOW_ALLOWED_FROM_STATUSES_def)

lemma isEarlyReleaseApproved_iff [simp]:
  "isEarlyReleaseApproved r \<longleftrightarrow> r = Some ER_APPROVED \<or> r = Some ER_AUTO_APPROVED"
  by (cases r) (auto simp: isEarlyReleaseApproved_def EARLY_RELEASE_APPROVED_RESOLUTIONS_def)

end
