(* ===== verification/Evolution.thy ===== *)
theory Evolution
  imports Transitions
begin

text \<open>
  How the dispatch tables may evolve.  \<open>evolves s s'\<close> says that, from a state whose
  invariants hold, the jobs and the assignments only moved along their graphs, no row was
  deleted or given to someone else, and the invariants still hold: primary keys are distinct
  and below \<open>nextId\<close>, the status history of a job replays to its status, no job has more
  slots taken than guardians requested, and a job that seeks a replacement knows whom.  It is
  a preorder, so each service method is shown to stay inside it by the rules of
  \<open>state_preorder\<close>, one per call; this theory has the rules for the primitive steps.
\<close>

section \<open>Evolution of a table\<close>

definition table_evolves :: "('r \<Rightarrow> 'r \<Rightarrow> bool) \<Rightarrow> ('r \<Rightarrow> bool) \<Rightarrow> 'r list \<Rightarrow> 'r list \<Rightarrow> bool" where
  "table_evolves R N old new \<longleftrightarrow>
     (\<exists>kept added. new = kept @ added \<and> list_all2 R old kept \<and> list_all N added)"

lemma table_evolves_refl [simp]:
  assumes "\<And>r. R r r"
  shows "table_evolves R N rows rows"
  unfolding table_evolves_def
  by (rule exI [of _ rows], rule exI [of _ "[]"]) (simp add: assms list_all2_refl)

lemma list_all_step: "list_all N xs \<Longrightarrow> list_all2 R xs ys \<Longrightarrow>
    (\<And>r r'. N r \<Longrightarrow> R r r' \<Longrightarrow> N r') \<Longrightarrow> list_all N ys"
  by (auto simp: list_all_length list_all2_conv_all_nth)

lemma table_evolves_trans:
  assumes "table_evolves R N xs ys" and "table_evolves R N ys zs"
    and R: "\<And>a b c. R a b \<Longrightarrow> R b c \<Longrightarrow> R a c" and N: "\<And>r r'. N r \<Longrightarrow> R r r' \<Longrightarrow> N r'"
  shows "table_evolves R N xs zs"
proof -
  obtain k1 a1 where 1: "ys = k1 @ a1" "list_all2 R xs k1" "list_all N a1"
    using assms(1) by (auto simp: table_evolves_def)
  obtain k2 a2 where 2: "zs = k2 @ a2" "list_all2 R ys k2" "list_all N a2"
    using assms(2) by (auto simp: table_evolves_def)
  obtain k3 a3 where 3: "k2 = k3 @ a3" "list_all2 R k1 k3" "list_all2 R a1 a3"
    using 1(1) 2(2) by (auto simp: list_all2_append1)
  have "list_all2 R xs k3"
    by (rule list_all2_trans [OF _ 1(2) 3(2)]) (rule R)
  moreover have "list_all N (a3 @ a2)"
    using list_all_step [OF 1(3) 3(3)] N 2(3) by auto
  ultimately show ?thesis
    unfolding table_evolves_def using 2(1) 3(1) by (intro exI [of _ k3] exI [of _ "a3 @ a2"]) simp
qed

lemma table_evolves_updateMany:
  assumes "\<And>r. R r r" and "\<And>r. r \<in> set rows \<Longrightarrow> p r \<Longrightarrow> R r (f r)"
  shows "table_evolves R N rows (updateMany p f rows)"
  unfolding table_evolves_def
  by (rule exI [of _ "updateMany p f rows"], rule exI [of _ "[]"])
    (auto simp: updateMany_def list_all2_conv_all_nth assms)

lemma table_evolves_createRow:
  assumes "\<And>r. R r r" and "N r"
  shows "table_evolves R N rows (createRow r rows)"
  unfolding table_evolves_def createRow_def
  by (rule exI [of _ rows], rule exI [of _ "[r]"]) (simp add: assms list_all2_refl)

lemma list_all2_left: "list_all2 R xs ys \<Longrightarrow> x \<in> set xs \<Longrightarrow> \<exists>y \<in> set ys. R x y"
  by (induction rule: list_all2_induct) auto

lemma list_all2_right: "list_all2 R xs ys \<Longrightarrow> y \<in> set ys \<Longrightarrow> \<exists>x \<in> set xs. R x y"
  by (induction rule: list_all2_induct) auto

lemma table_evolves_old:
  assumes "table_evolves R N rows rows'" and "r \<in> set rows"
  shows "\<exists>r' \<in> set rows'. R r r'"
  using assms list_all2_left unfolding table_evolves_def by fastforce

lemma table_evolves_cases:
  assumes "table_evolves R N rows rows'" and "r' \<in> set rows'"
  obtains (old) r where "r \<in> set rows" "R r r'" | (new) "N r'"
proof -
  obtain kept added where *: "rows' = kept @ added" "list_all2 R rows kept" "list_all N added"
    using assms(1) by (auto simp: table_evolves_def)
  then have "r' \<in> set kept \<or> r' \<in> set added"
    using assms(2) by auto
  then show ?thesis
  proof
    assume "r' \<in> set kept"
    then obtain r where "r \<in> set rows" "R r r'"
      using list_all2_right [OF *(2)] by blast
    then show ?thesis by (rule old)
  next
    assume "r' \<in> set added"
    then have "N r'"
      using *(3) by (simp add: list_all_iff)
    then show ?thesis by (rule new)
  qed
qed

section \<open>Evolution of a row\<close>

definition assignment_step :: "assignment \<Rightarrow> assignment \<Rightarrow> bool" where
  "assignment_step a a' \<longleftrightarrow>
     a_id a' = a_id a \<and> a_jobId a' = a_jobId a \<and> a_guardianId a' = a_guardianId a \<and>
     a_replacesAssignmentId a' = a_replacesAssignmentId a \<and>
     a_versionNumber a \<le> a_versionNumber a' \<and> assignment_edge\<^sup>*\<^sup>* (a_status a) (a_status a')"

definition assignment_born :: "assignment \<Rightarrow> bool" where
  "assignment_born a \<longleftrightarrow> assignment_edge\<^sup>*\<^sup>* A_OFFERED (a_status a) \<and> 1 \<le> a_versionNumber a"

definition job_frame :: "job \<Rightarrow> job \<Rightarrow> bool" where
  "job_frame j j' \<longleftrightarrow>
     j_id j' = j_id j \<and> j_referenceNumber j' = j_referenceNumber j \<and>
     j_organizationId j' = j_organizationId j \<and> j_locationId j' = j_locationId j \<and>
     j_createdBy j' = j_createdBy j \<and> j_createdAt j' = j_createdAt j \<and> j_jobType j' = j_jobType j \<and>
     j_requestedGuardianCount j' = j_requestedGuardianCount j \<and>
     j_scheduledStart j' = j_scheduledStart j \<and> j_scheduledEnd j' = j_scheduledEnd j \<and>
     j_offersSentCount j \<le> j_offersSentCount j'"

definition job_step :: "job \<Rightarrow> job \<Rightarrow> bool" where
  "job_step j j' \<longleftrightarrow> job_frame j j' \<and> job_edge\<^sup>*\<^sup>* (j_status j) (j_status j')"

definition job_born :: "job \<Rightarrow> bool" where
  "job_born j \<longleftrightarrow> job_edge\<^sup>*\<^sup>* J_PENDING (j_status j)"

definition invoice_step :: "invoice \<Rightarrow> invoice \<Rightarrow> bool" where
  "invoice_step i i' \<longleftrightarrow>
     i_id i' = i_id i \<and> i_jobId i' = i_jobId i \<and> i_organizationId i' = i_organizationId i \<and>
     i_subtotal i' = i_subtotal i \<and> i_taxAmount i' = i_taxAmount i \<and> i_total i' = i_total i \<and>
     i_currency i' = i_currency i \<and> (i_status i = I_PAID \<longrightarrow> i_status i' = I_PAID)"

definition outbox_step :: "outbox_event \<Rightarrow> outbox_event \<Rightarrow> bool" where
  "outbox_step e e' \<longleftrightarrow>
     ob_id e' = ob_id e \<and> ob_aggregateId e' = ob_aggregateId e \<and> ob_eventType e' = ob_eventType e \<and>
     ob_payloadJobId e' = ob_payloadJobId e \<and> (ob_status e \<noteq> O_PENDING \<longrightarrow> ob_status e' \<noteq> O_PENDING)"

definition earning_step :: "earning \<Rightarrow> earning \<Rightarrow> bool" where
  "earning_step e e' \<longleftrightarrow>
     e_id e' = e_id e \<and> e_guardianId e' = e_guardianId e \<and> e_assignmentId e' = e_assignmentId e \<and>
     e_jobId e' = e_jobId e \<and> e_invoiceId e' = e_invoiceId e \<and> e_amount e' = e_amount e \<and>
     e_currency e' = e_currency e \<and> (e_status e = E_PAID \<longrightarrow> e_status e' = E_PAID)"

lemma invoice_step_refl [simp]: "invoice_step i i"
  by (simp add: invoice_step_def)

lemma invoice_step_trans: "invoice_step i j \<Longrightarrow> invoice_step j k \<Longrightarrow> invoice_step i k"
  by (simp add: invoice_step_def)

lemma outbox_step_refl [simp]: "outbox_step e e"
  by (simp add: outbox_step_def)

lemma outbox_step_trans: "outbox_step d e \<Longrightarrow> outbox_step e f \<Longrightarrow> outbox_step d f"
  by (simp add: outbox_step_def)

lemma earning_step_refl [simp]: "earning_step e e"
  by (simp add: earning_step_def)

lemma earning_step_trans: "earning_step d e \<Longrightarrow> earning_step e f \<Longrightarrow> earning_step d f"
  by (simp add: earning_step_def)

lemma assignment_step_refl [simp]: "assignment_step a a"
  by (simp add: assignment_step_def)

lemma assignment_step_trans: "assignment_step a b \<Longrightarrow> assignment_step b c \<Longrightarrow> assignment_step a c"
  by (auto simp: assignment_step_def intro: rtranclp_trans)

lemma assignment_born_step: "assignment_born a \<Longrightarrow> assignment_step a b \<Longrightarrow> assignment_born b"
  by (auto simp: assignment_step_def assignment_born_def intro: rtranclp_trans)

lemma job_frame_refl [simp]: "job_frame j j"
  by (simp add: job_frame_def)

lemma job_step_refl [simp]: "job_step j j"
  by (simp add: job_step_def)

lemma job_step_trans: "job_step i j \<Longrightarrow> job_step j k \<Longrightarrow> job_step i k"
  by (auto simp: job_step_def job_frame_def intro: rtranclp_trans)

lemma job_born_step: "job_born i \<Longrightarrow> job_step i j \<Longrightarrow> job_born j"
  by (auto simp: job_step_def job_born_def intro: rtranclp_trans)

section \<open>The invariants\<close>

text \<open>The history rows of a job, in order; each starts at the status the one before ended in.\<close>

definition history_of :: "id \<Rightarrow> sys \<Rightarrow> status_history list" where
  "history_of jid s = filter (\<lambda>h. h_jobId h = jid) (history s)"

fun replay :: "job_status option \<Rightarrow> status_history list \<Rightarrow> job_status option option" where
  "replay st [] = Some st"
| "replay st (h # hs) =
     (if h_oldStatus h = st \<and> (case st of None \<Rightarrow> h_newStatus h = J_PENDING
                               | Some old \<Rightarrow> job_edge old (h_newStatus h))
      then replay (Some (h_newStatus h)) hs else None)"

lemma replay_append:
  "replay st (xs @ ys) = (case replay st xs of None \<Rightarrow> None | Some st' \<Rightarrow> replay st' ys)"
  by (induction xs arbitrary: st) auto

definition history_ok :: "sys \<Rightarrow> bool" where
  "history_ok s \<longleftrightarrow> (\<forall>j \<in> set (jobs s). replay None (history_of (j_id j) s) = Some (Some (j_status j)))"

text \<open>The slots of a job that its initial (not replacement) offers and assignments take.\<close>

definition slots_taken :: "id \<Rightarrow> sys \<Rightarrow> int" where
  "slots_taken jid s = countWhere (\<lambda>a. a_jobId a = jid \<and> a_replacesAssignmentId a = None \<and>
     takes_slot (a_status a)) (assignments s)"

definition slots_ok :: "sys \<Rightarrow> bool" where
  "slots_ok s \<longleftrightarrow>
     (\<forall>j \<in> set (jobs s). slots_taken (j_id j) s \<le> max 0 (j_requestedGuardianCount j))"

definition seeking_ok :: "sys \<Rightarrow> bool" where
  "seeking_ok s \<longleftrightarrow> (\<forall>j \<in> set (jobs s).
     j_status j = J_SEEKING_REPLACEMENT \<longrightarrow> j_replacementDepartingAssignmentId j \<noteq> None)"

text \<open>The books.\<close>

definition ledger_ok :: "sys \<Rightarrow> bool" where
  "ledger_ok s \<longleftrightarrow>
     distinct (map i_id (invoices s)) \<and> distinct (map i_jobId (invoices s)) \<and>
     distinct (map e_id (earnings s)) \<and> distinct (map e_assignmentId (earnings s)) \<and>
     distinct (map p_idempotencyKey (payments s)) \<and> distinct (map po_idempotencyKey (payouts s)) \<and>
     (\<forall>i \<in> set (invoices s). i_id i < nextId s) \<and> (\<forall>e \<in> set (earnings s). e_id e < nextId s) \<and>
     (\<forall>e \<in> set (earnings s). \<exists>i \<in> set (invoices s). i_id i = e_invoiceId e \<and> i_status i = I_PAID)"

definition wf :: "sys \<Rightarrow> bool" where
  "wf s \<longleftrightarrow>
     distinct (map j_id (jobs s)) \<and> distinct (map a_id (assignments s)) \<and>
     (\<forall>j \<in> set (jobs s). j_id j < nextId s) \<and>
     (\<forall>a \<in> set (assignments s). a_id a < nextId s \<and> a_jobId a < nextId s) \<and>
     (\<forall>h \<in> set (history s). h_jobId h < nextId s)"

definition outbox_ok :: "sys \<Rightarrow> bool" where
  "outbox_ok s \<longleftrightarrow>
     distinct (map ob_id (outbox s)) \<and> (\<forall>e \<in> set (outbox s). ob_id e < nextId s)"

definition good :: "sys \<Rightarrow> bool" where
  "good s \<longleftrightarrow> wf s \<and> history_ok s \<and> slots_ok s \<and> seeking_ok s \<and> ledger_ok s \<and> outbox_ok s"

definition ledger_evolves :: "sys \<Rightarrow> sys \<Rightarrow> bool" where
  "ledger_evolves s s' \<longleftrightarrow>
     table_evolves invoice_step (\<lambda>_. True) (invoices s) (invoices s') \<and>
     table_evolves earning_step (\<lambda>_. True) (earnings s) (earnings s')"

lemma ledger_evolves_same [simp]:
  "invoices s' = invoices s \<Longrightarrow> earnings s' = earnings s \<Longrightarrow> ledger_evolves s s'"
  by (simp add: ledger_evolves_def)

lemma ledger_evolves_trans: "ledger_evolves s t \<Longrightarrow> ledger_evolves t u \<Longrightarrow> ledger_evolves s u"
  unfolding ledger_evolves_def
  by (auto intro: table_evolves_trans invoice_step_trans earning_step_trans)

text \<open>The history only grows, and an outbox event that left \<open>PENDING\<close> does not come back.\<close>

definition log_evolves :: "sys \<Rightarrow> sys \<Rightarrow> bool" where
  "log_evolves s s' \<longleftrightarrow> (\<exists>added. history s' = history s @ added) \<and>
     table_evolves outbox_step (\<lambda>_. True) (outbox s) (outbox s')"

lemma log_evolves_same [simp]:
  "history s' = history s \<Longrightarrow> outbox s' = outbox s \<Longrightarrow> log_evolves s s'"
  by (simp add: log_evolves_def)

lemma log_evolves_trans: "log_evolves s t \<Longrightarrow> log_evolves t u \<Longrightarrow> log_evolves s u"
  unfolding log_evolves_def by (auto intro: table_evolves_trans outbox_step_trans)

definition evolves :: "sys \<Rightarrow> sys \<Rightarrow> bool" where
  "evolves s s' \<longleftrightarrow> (good s \<longrightarrow>
     good s' \<and> nextId s \<le> nextId s' \<and>
     table_evolves assignment_step assignment_born (assignments s) (assignments s') \<and>
     table_evolves job_step job_born (jobs s) (jobs s') \<and> ledger_evolves s s' \<and>
     log_evolves s s')"

interpretation evolves: state_preorder evolves
proof
  show "evolves s s" for s
    by (simp add: evolves_def)
next
  show "evolves s u" if "evolves s t" "evolves t u" for s t u
    using that unfolding evolves_def
    by (auto intro: table_evolves_trans assignment_step_trans assignment_born_step
        job_step_trans job_born_step ledger_evolves_trans log_evolves_trans)
qed

declare evolves.refl [simp]

section \<open>The primitive steps\<close>

lemma evolves_frame:
  assumes "jobs s' = jobs s" and "assignments s' = assignments s" and "history s' = history s"
    and "invoices s' = invoices s" and "earnings s' = earnings s" and "payments s' = payments s"
    and "payouts s' = payouts s" and "outbox s' = outbox s" and "nextId s \<le> nextId s'"
  shows "evolves s s'"
  using assms
  by (auto simp: evolves_def good_def wf_def history_ok_def history_of_def slots_ok_def
      slots_taken_def seeking_ok_def ledger_ok_def outbox_ok_def)

lemma evolves_assignment_rows:
  assumes step: "\<And>a. good s \<Longrightarrow> a \<in> set (assignments s) \<Longrightarrow> p a \<Longrightarrow> assignment_step a (f a)"
  shows "evolves s (s\<lparr>assignments := updateMany p f (assignments s)\<rparr>)"
proof (unfold evolves_def, rule impI)
  assume good: "good s"
  let ?s' = "s\<lparr>assignments := updateMany p f (assignments s)\<rparr>"
  let ?g = "\<lambda>a. if p a then f a else a"
  have step': "assignment_step a (?g a)" if "a \<in> set (assignments s)" for a
    using step [OF good that] by simp
  have keys: "a_id (f a) = a_id a \<and> a_jobId (f a) = a_jobId a"
    if "a \<in> set (assignments s)" "p a" for a
    using step [OF good that] by (simp add: assignment_step_def)
  have ids: "map a_id (updateMany p f (assignments s)) = map a_id (assignments s)"
    using step' by (auto simp: updateMany_def assignment_step_def)
  have slots: "slots_taken jid ?s' \<le> slots_taken jid s" for jid
    unfolding slots_taken_def
    by (simp add: updateMany_def countWhere_map, rule countWhere_mono)
      (auto dest!: step' simp: assignment_step_def dest: edges_free_slots split: if_splits)
  have "wf ?s'"
    using good keys unfolding wf_def good_def by (auto simp: ids set_updateMany)
  moreover have "slots_ok ?s'"
    using good slots by (fastforce simp: good_def slots_ok_def intro: order_trans)
  ultimately have "good ?s'"
    using good by (auto simp: good_def history_ok_def history_of_def seeking_ok_def ledger_ok_def outbox_ok_def)
  then show "good ?s' \<and> nextId s \<le> nextId ?s' \<and>
      table_evolves assignment_step assignment_born (assignments s) (assignments ?s') \<and>
      table_evolves job_step job_born (jobs s) (jobs ?s') \<and> ledger_evolves s ?s' \<and> log_evolves s ?s'"
    using step good by (auto intro!: table_evolves_updateMany)
qed

lemma evolves_job_rows:
  assumes step: "\<And>j. good s \<Longrightarrow> j \<in> set (jobs s) \<Longrightarrow> p j \<Longrightarrow>
      job_frame j (f j) \<and> j_status (f j) = j_status j \<and>
      (j_status j = J_SEEKING_REPLACEMENT \<longrightarrow> j_replacementDepartingAssignmentId j \<noteq> None \<longrightarrow>
       j_replacementDepartingAssignmentId (f j) \<noteq> None)"
  shows "evolves s (s\<lparr>jobs := updateMany p f (jobs s)\<rparr>)"
proof (unfold evolves_def, rule impI)
  assume good: "good s"
  let ?s' = "s\<lparr>jobs := updateMany p f (jobs s)\<rparr>"
  have ids: "map j_id (updateMany p f (jobs s)) = map j_id (jobs s)"
    using step [OF good] by (auto simp: updateMany_def job_frame_def)
  have "wf ?s'"
    using good step [OF good] unfolding wf_def good_def
    by (auto simp: ids set_updateMany job_frame_def)
  moreover have "history_ok ?s'"
    using good step [OF good]
    by (auto simp: good_def history_ok_def history_of_def set_updateMany job_frame_def)
  moreover have "slots_ok ?s'"
    using good step [OF good]
    by (auto simp: good_def slots_ok_def slots_taken_def set_updateMany job_frame_def)
  moreover have "seeking_ok ?s'"
    using good step [OF good] by (auto simp: good_def seeking_ok_def set_updateMany)
  ultimately have "good ?s'"
    using good by (simp add: good_def ledger_ok_def outbox_ok_def)
  then show "good ?s' \<and> nextId s \<le> nextId ?s' \<and>
      table_evolves assignment_step assignment_born (assignments s) (assignments ?s') \<and>
      table_evolves job_step job_born (jobs s) (jobs ?s') \<and> ledger_evolves s ?s' \<and> log_evolves s ?s'"
    using step [OF good] by (auto intro!: table_evolves_updateMany simp: job_step_def)
qed

lemma findUnique_only:
  assumes "distinct (map key rows)" and "findUnique key k rows = Some r" and "x \<in> set rows"
  shows "key x = k \<longleftrightarrow> x = r"
proof -
  have r: "r \<in> set rows" "key r = k"
    using findUnique_SomeD [OF assms(2)] by auto
  have "x = r" if "key x = k"
    by (rule distinct_key_unique [OF assms(1) assms(3) r(1)]) (simp add: that r)
  then show ?thesis
    using r(2) by blast
qed

lemma evolves_job_status:
  assumes move: "\<And>j. good s \<Longrightarrow> jobOf jid s = Some j \<Longrightarrow>
      old = j_status j \<and> job_edge old new \<and> job_frame j (f j) \<and>
      (new = J_SEEKING_REPLACEMENT \<longrightarrow> j_replacementDepartingAssignmentId (f j) \<noteq> None)"
  shows "evolves s (snd (changeJobStatus jid f old new changedBy reason s))"
proof (cases "jobOf jid s")
  case None
  then show ?thesis
    by (simp add: changeJobStatus_def andThen_def updateJob_def evolves.refl)
next
  case (Some j)
  show ?thesis
  proof (unfold evolves_def, rule impI)
    assume good: "good s"
    let ?f = "\<lambda>j. (f j)\<lparr>j_status := new\<rparr>"
    let ?row = "\<lparr>h_jobId = jid, h_oldStatus = Some old, h_newStatus = new,
        h_changedBy = changedBy, h_reason = reason, h_changedAt = clock s\<rparr>"
    let ?s' = "s\<lparr>jobs := updateMany (\<lambda>j. j_id j = jid) ?f (jobs s), history := history s @ [?row]\<rparr>"
    have s': "snd (changeJobStatus jid f old new changedBy reason s) = ?s'"
      using Some by (simp add: changeJobStatus_def andThen_def updateJob_def recordJobStatus_def
          createRow_def)
    have mv: "old = j_status j" "job_edge old new" "job_frame j (f j)"
      "new = J_SEEKING_REPLACEMENT \<longrightarrow> j_replacementDepartingAssignmentId (f j) \<noteq> None"
      using move [OF good Some] by auto
    have mem: "j \<in> set (jobs s)" "j_id j = jid"
      using Some by (auto simp: jobOf_def dest: findUnique_SomeD)
    have only: "j_id x = jid \<longleftrightarrow> x = j" if "x \<in> set (jobs s)" for x
      by (rule findUnique_only [where rows = "jobs s"])
        (use good Some that in \<open>simp_all add: good_def wf_def jobOf_def\<close>)
    have rows: "updateMany (\<lambda>j. j_id j = jid) ?f (jobs s) = updateMany (\<lambda>x. x = j) ?f (jobs s)"
      by (rule updateMany_cong) (simp_all add: only)
    have ids: "map j_id (updateMany (\<lambda>j. j_id j = jid) ?f (jobs s)) = map j_id (jobs s)"
      using mv(3) unfolding rows by (auto simp: updateMany_def job_frame_def)
    have hist: "history_of k ?s' = history_of k s @ (if k = jid then [?row] else [])" for k
      by (simp add: history_of_def)
    have "wf ?s'"
      using good mem mv(3) unfolding good_def wf_def
      by (simp add: ids) (auto simp: set_updateMany job_frame_def rows)
    moreover have "history_ok ?s'"
      using good mem mv only unfolding good_def history_ok_def hist
      by (auto simp: set_updateMany job_frame_def replay_append split: option.splits)
    moreover have "slots_ok ?s'"
      using good mem mv(3) unfolding good_def slots_ok_def slots_taken_def
      by (auto simp: rows set_updateMany job_frame_def)
    moreover have "seeking_ok ?s'"
      using good mem mv(4) unfolding good_def seeking_ok_def by (auto simp: rows set_updateMany)
    ultimately have "good ?s'"
      using good by (simp add: good_def ledger_ok_def outbox_ok_def)
    moreover have "table_evolves job_step job_born (jobs s) (updateMany (\<lambda>x. x = j) ?f (jobs s))"
      using mv by (intro table_evolves_updateMany) (auto simp: job_step_def job_frame_def)
    ultimately show "good (snd (changeJobStatus jid f old new changedBy reason s)) \<and>
        nextId s \<le> nextId (snd (changeJobStatus jid f old new changedBy reason s)) \<and>
        table_evolves assignment_step assignment_born (assignments s)
          (assignments (snd (changeJobStatus jid f old new changedBy reason s))) \<and>
        table_evolves job_step job_born (jobs s)
          (jobs (snd (changeJobStatus jid f old new changedBy reason s))) \<and>
        ledger_evolves s (snd (changeJobStatus jid f old new changedBy reason s)) \<and>
        log_evolves s (snd (changeJobStatus jid f old new changedBy reason s))"
      unfolding s' by (simp add: rows log_evolves_def)
  qed
qed

lemma slots_taken_create:
  "slots_taken k (s\<lparr>nextId := n, assignments := createRow a (assignments s)\<rparr>) = slots_taken k s +
     (if a_jobId a = k \<and> a_replacesAssignmentId a = None \<and> takes_slot (a_status a) then 1 else 0)"
  by (simp add: slots_taken_def createRow_def)

lemma evolves_new_offer:
  assumes room: "good s \<Longrightarrow> jid < nextId s"
    and slot: "\<And>j. good s \<Longrightarrow> j \<in> set (jobs s) \<Longrightarrow> j_id j = jid \<Longrightarrow> replaces = None \<Longrightarrow>
      slots_taken jid s < max 0 (j_requestedGuardianCount j)"
  shows "evolves s (s\<lparr>nextId := Suc (nextId s), assignments := createRow
      (newAssignment (nextId s) jid gid rnd sentAt expiresAt replaces) (assignments s)\<rparr>)"
proof (unfold evolves_def, rule impI)
  assume good: "good s"
  let ?a = "newAssignment (nextId s) jid gid rnd sentAt expiresAt replaces"
  let ?s' = "s\<lparr>nextId := Suc (nextId s), assignments := createRow ?a (assignments s)\<rparr>"
  have "nextId s \<notin> a_id ` set (assignments s)"
    using good by (auto simp: good_def wf_def)
  then have "wf ?s'"
    using good room [OF good] unfolding good_def wf_def
    by (auto simp: createRow_def newAssignment_def less_Suc_eq)
  moreover have "slots_ok ?s'"
    unfolding slots_ok_def slots_taken_create
    using good slot [OF good] by (force simp: good_def slots_ok_def newAssignment_def)
  ultimately have "good ?s'"
    using good by (auto simp: good_def history_ok_def history_of_def seeking_ok_def ledger_ok_def outbox_ok_def)
  moreover have "assignment_born ?a"
    by (simp add: assignment_born_def newAssignment_def)
  ultimately show "good ?s' \<and> nextId s \<le> nextId ?s' \<and>
      table_evolves assignment_step assignment_born (assignments s) (assignments ?s') \<and>
      table_evolves job_step job_born (jobs s) (jobs ?s') \<and> ledger_evolves s ?s' \<and> log_evolves s ?s'"
    by (auto intro!: table_evolves_createRow)
qed

lemma evolves_new_job:
  assumes "j_id j = nextId s" and "j_status j = J_PENDING"
    and "h_jobId h = nextId s" and "h_oldStatus h = None" and "h_newStatus h = J_PENDING"
  shows "evolves s (s\<lparr>nextId := Suc (nextId s), jobs := createRow j (jobs s),
      history := createRow h (history s)\<rparr>)"
proof (unfold evolves_def, rule impI)
  assume good: "good s"
  let ?s' = "s\<lparr>nextId := Suc (nextId s), jobs := createRow j (jobs s), history := createRow h (history s)\<rparr>"
  have fresh: "nextId s \<notin> j_id ` set (jobs s)" "nextId s \<notin> h_jobId ` set (history s)"
      "nextId s \<notin> a_jobId ` set (assignments s)"
    using good by (auto simp: good_def wf_def)
  have none: "history_of (nextId s) s = []"
    using fresh(2) by (force simp: history_of_def filter_empty_conv)
  have "slots_taken (nextId s) s = 0"
    using fresh(3) by (force simp: slots_taken_def countWhere_0_iff)
  then have slots: "slots_ok ?s'"
    using good assms(1) by (auto simp: good_def slots_ok_def slots_taken_def createRow_def)
  have hist: "history_of k ?s' = history_of k s @ (if k = nextId s then [h] else [])" for k
    using assms(3) by (simp add: history_of_def createRow_def)
  have "history_ok ?s'"
    unfolding history_ok_def hist using good assms fresh(1) none
    by (auto simp: good_def history_ok_def createRow_def)
  moreover have "wf ?s'"
    using good fresh(1) assms unfolding good_def wf_def by (auto simp: createRow_def less_Suc_eq)
  moreover have "seeking_ok ?s'"
    using good assms(2) by (auto simp: good_def seeking_ok_def createRow_def)
  ultimately have "good ?s'"
    using slots good by (auto simp: good_def ledger_ok_def outbox_ok_def)
  then show "good ?s' \<and> nextId s \<le> nextId ?s' \<and>
      table_evolves assignment_step assignment_born (assignments s) (assignments ?s') \<and>
      table_evolves job_step job_born (jobs s) (jobs ?s') \<and> ledger_evolves s ?s' \<and> log_evolves s ?s'"
    using assms(2) by (auto intro!: table_evolves_createRow simp: job_born_def log_evolves_def)
      (simp add: createRow_def)
qed

section \<open>The shared steps\<close>

text \<open>The collection \<open>step_rules\<close> has one rule for each step a method calls.\<close>

lemma evolves_now [step_rules]: "evolves s (snd (now s))"
  by (simp add: now_def evolves.refl)

lemma evolves_freshId [step_rules]: "evolves s (snd (freshId s))"
  by (rule evolves_frame) (simp_all add: freshId_def)

lemma evolves_auditLog [step_rules]: "evolves s (snd (auditLog by action entity s))"
  by (rule evolves_frame) (simp_all add: auditLog_def)

lemma evolves_writeDispatchAudit [step_rules]: "evolves s (snd (writeDispatchAudit jid pass event s))"
  by (rule evolves_frame) (simp_all add: writeDispatchAudit_def)

lemma evolves_send [step_rules]: "evolves s (snd (send m s))"
  by (rule evolves_frame) (simp_all add: send_def)

lemma evolves_scheduleOfferExpiry [step_rules]: "evolves s (snd (scheduleOfferExpiry aid d s))"
  by (rule evolves_frame) (simp_all add: scheduleOfferExpiry_def)

lemma evolves_cancelOfferExpiry [step_rules]: "evolves s (snd (cancelOfferExpiry aid s))"
  by (rule evolves_frame) (simp_all add: cancelOfferExpiry_def)

lemma evolves_updateShift [step_rules]: "evolves s (snd (updateShift gid f s))"
  by (rule evolves_frame) (simp_all add: updateShift_def split: option.split)

lemma evolves_invoice_rows:
  assumes step: "\<And>i. good s \<Longrightarrow> i \<in> set (invoices s) \<Longrightarrow> p i \<Longrightarrow> invoice_step i (f i)"
  shows "evolves s (s\<lparr>invoices := updateMany p f (invoices s)\<rparr>)"
proof (unfold evolves_def, rule impI)
  assume good: "good s"
  let ?s' = "s\<lparr>invoices := updateMany p f (invoices s)\<rparr>"
  have key: "map k (updateMany p f (invoices s)) = map k (invoices s)"
    if "\<And>i j. invoice_step i j \<Longrightarrow> k j = k i" for k :: "invoice \<Rightarrow> nat"
    using step [OF good] that by (auto simp: updateMany_def)
  have ids: "map i_id (updateMany p f (invoices s)) = map i_id (invoices s)"
      "map i_jobId (updateMany p f (invoices s)) = map i_jobId (invoices s)"
    by (rule key; simp add: invoice_step_def)+
  have paid: "\<exists>i \<in> set (invoices ?s'). i_id i = n \<and> i_status i = I_PAID"
    if ex: "\<exists>i \<in> set (invoices s). i_id i = n \<and> i_status i = I_PAID" for n
  proof -
    obtain i where i: "i \<in> set (invoices s)" "i_id i = n" "i_status i = I_PAID"
      using ex by blast
    have tev: "table_evolves invoice_step (\<lambda>_. True) (invoices s) (updateMany p f (invoices s))"
      by (rule table_evolves_updateMany) (simp_all add: step [OF good])
    obtain i' where "i' \<in> set (updateMany p f (invoices s))" "invoice_step i i'"
      using table_evolves_old [OF tev i(1)] by blast
    then show ?thesis
      using i by (intro bexI [of _ i']) (simp_all add: invoice_step_def)
  qed
  have "ledger_ok ?s'"
    using good paid step [OF good] unfolding good_def ledger_ok_def
    by (simp add: ids) (auto simp: set_updateMany invoice_step_def)
  then have "good ?s'"
    using good by (simp add: good_def wf_def history_ok_def history_of_def seeking_ok_def
        slots_ok_def slots_taken_def outbox_ok_def)
  then show "good ?s' \<and> nextId s \<le> nextId ?s' \<and>
      table_evolves assignment_step assignment_born (assignments s) (assignments ?s') \<and>
      table_evolves job_step job_born (jobs s) (jobs ?s') \<and> ledger_evolves s ?s' \<and> log_evolves s ?s'"
    using step [OF good] by (auto simp: ledger_evolves_def intro!: table_evolves_updateMany)
qed

lemma evolves_earning_rows:
  assumes step: "\<And>e. good s \<Longrightarrow> e \<in> set (earnings s) \<Longrightarrow> p e \<Longrightarrow> earning_step e (f e)"
  shows "evolves s (s\<lparr>earnings := updateMany p f (earnings s)\<rparr>)"
proof (unfold evolves_def, rule impI)
  assume good: "good s"
  let ?s' = "s\<lparr>earnings := updateMany p f (earnings s)\<rparr>"
  have key: "map k (updateMany p f (earnings s)) = map k (earnings s)"
    if "\<And>i j. earning_step i j \<Longrightarrow> k j = k i" for k :: "earning \<Rightarrow> nat"
    using step [OF good] that by (auto simp: updateMany_def)
  have ids: "map e_id (updateMany p f (earnings s)) = map e_id (earnings s)"
      "map e_assignmentId (updateMany p f (earnings s)) = map e_assignmentId (earnings s)"
    by (rule key; simp add: earning_step_def)+
  have "ledger_ok ?s'"
    using good step [OF good] unfolding good_def ledger_ok_def
    by (simp add: ids) (auto simp: set_updateMany earning_step_def)
  then have "good ?s'"
    using good by (simp add: good_def wf_def history_ok_def history_of_def seeking_ok_def
        slots_ok_def slots_taken_def outbox_ok_def)
  then show "good ?s' \<and> nextId s \<le> nextId ?s' \<and>
      table_evolves assignment_step assignment_born (assignments s) (assignments ?s') \<and>
      table_evolves job_step job_born (jobs s) (jobs ?s') \<and> ledger_evolves s ?s' \<and> log_evolves s ?s'"
    using step [OF good] by (auto simp: ledger_evolves_def intro!: table_evolves_updateMany)
qed

lemma evolves_new_invoice:
  assumes "i_id i = nextId s" and "good s \<Longrightarrow> invoiceOfJob (i_jobId i) s = None"
  shows "evolves s (s\<lparr>nextId := Suc (nextId s), invoices := createRow i (invoices s)\<rparr>)"
proof (unfold evolves_def, rule impI)
  assume good: "good s"
  let ?s' = "s\<lparr>nextId := Suc (nextId s), invoices := createRow i (invoices s)\<rparr>"
  have "i_jobId i \<notin> i_jobId ` set (invoices s)"
    using assms(2) [OF good] by (simp add: invoiceOfJob_def findUnique_None_iff)
  moreover have "nextId s \<notin> i_id ` set (invoices s)"
    using good by (auto simp: good_def ledger_ok_def)
  ultimately have "ledger_ok ?s'"
    using good assms(1) by (auto simp: good_def ledger_ok_def createRow_def less_Suc_eq)
  then have "good ?s'"
    using good by (auto simp: good_def wf_def history_ok_def history_of_def seeking_ok_def
        slots_ok_def slots_taken_def outbox_ok_def)
  then show "good ?s' \<and> nextId s \<le> nextId ?s' \<and>
      table_evolves assignment_step assignment_born (assignments s) (assignments ?s') \<and>
      table_evolves job_step job_born (jobs s) (jobs ?s') \<and> ledger_evolves s ?s' \<and> log_evolves s ?s'"
    by (auto simp: ledger_evolves_def intro!: table_evolves_createRow)
qed

lemma evolves_new_earning:
  assumes "e_id e = nextId s"
    and fresh: "good s \<Longrightarrow> findUnique e_assignmentId (e_assignmentId e) (earnings s) = None"
    and paid: "good s \<Longrightarrow> \<exists>i \<in> set (invoices s). i_id i = e_invoiceId e \<and> i_status i = I_PAID"
  shows "evolves s (s\<lparr>nextId := Suc (nextId s), earnings := createRow e (earnings s)\<rparr>)"
proof (unfold evolves_def, rule impI)
  assume good: "good s"
  let ?s' = "s\<lparr>nextId := Suc (nextId s), earnings := createRow e (earnings s)\<rparr>"
  have "e_assignmentId e \<notin> e_assignmentId ` set (earnings s)"
    using fresh [OF good] by (simp add: findUnique_None_iff)
  moreover have "nextId s \<notin> e_id ` set (earnings s)"
    using good by (auto simp: good_def ledger_ok_def)
  ultimately have "ledger_ok ?s'"
    using good assms(1) paid [OF good]
    by (auto simp: good_def ledger_ok_def createRow_def less_Suc_eq)
  then have "good ?s'"
    using good by (auto simp: good_def wf_def history_ok_def history_of_def seeking_ok_def
        slots_ok_def slots_taken_def outbox_ok_def)
  then show "good ?s' \<and> nextId s \<le> nextId ?s' \<and>
      table_evolves assignment_step assignment_born (assignments s) (assignments ?s') \<and>
      table_evolves job_step job_born (jobs s) (jobs ?s') \<and> ledger_evolves s ?s' \<and> log_evolves s ?s'"
    by (auto simp: ledger_evolves_def intro!: table_evolves_createRow)
qed

lemma evolves_outbox_rows:
  assumes step: "\<And>e. e \<in> set (outbox s) \<Longrightarrow> p e \<Longrightarrow> outbox_step e (f e)"
  shows "evolves s (s\<lparr>outbox := updateMany p f (outbox s)\<rparr>)"
proof -
  have ids: "map ob_id (updateMany p f (outbox s)) = map ob_id (outbox s)"
    using step by (auto simp: updateMany_def outbox_step_def)
  have set_ids: "ob_id ` set (updateMany p f (outbox s)) = ob_id ` set (outbox s)"
    using arg_cong [OF ids, of set] by simp
  have "(\<forall>e \<in> set (updateMany p f (outbox s)). ob_id e < n) \<longleftrightarrow> (\<forall>k \<in> ob_id ` set (outbox s). k < n)" for n
    unfolding set_ids [symmetric] by blast
  moreover have "table_evolves outbox_step (\<lambda>_. True) (outbox s) (updateMany p f (outbox s))"
    by (rule table_evolves_updateMany) (simp_all add: step)
  ultimately show ?thesis
    by (auto simp: evolves_def good_def wf_def history_ok_def history_of_def slots_ok_def
        slots_taken_def seeking_ok_def ledger_ok_def outbox_ok_def ids log_evolves_def)
qed

lemma evolves_new_outbox:
  assumes "ob_id e = nextId s"
  shows "evolves s (s\<lparr>nextId := Suc (nextId s), outbox := createRow e (outbox s)\<rparr>)"
proof -
  have "table_evolves outbox_step (\<lambda>_. True) (outbox s) (createRow e (outbox s))"
    by (rule table_evolves_createRow) simp_all
  then show ?thesis
    using assms
    by (auto simp: evolves_def good_def wf_def history_ok_def history_of_def slots_ok_def
        slots_taken_def seeking_ok_def ledger_ok_def outbox_ok_def log_evolves_def createRow_def
        less_Suc_eq)
qed

text \<open>Payments and payouts: only their idempotency keys are part of the invariant.\<close>

lemma evolves_payment_tables:
  assumes "s' = s\<lparr>nextId := n, payments := ps, payouts := qs\<rparr>" and "nextId s \<le> n"
    and "good s \<Longrightarrow> distinct (map p_idempotencyKey ps)"
    and "good s \<Longrightarrow> distinct (map po_idempotencyKey qs)"
  shows "evolves s s'"
  using assms
  by (auto simp: evolves_def good_def wf_def history_ok_def history_of_def slots_ok_def
      slots_taken_def seeking_ok_def ledger_ok_def outbox_ok_def)

lemma evolves_updateInvoice [step_rules]:
  assumes "\<And>i. invoiceOf iid s = Some i \<Longrightarrow> invoice_step i (f i)"
  shows "evolves s (snd (updateInvoice iid f s))"
proof (cases "invoiceOf iid s")
  case (Some i)
  have "evolves s (s\<lparr>invoices := updateMany (\<lambda>i. i_id i = iid) f (invoices s)\<rparr>)"
  proof (rule evolves_invoice_rows)
    fix x
    assume good: "good s" and x: "x \<in> set (invoices s)" "i_id x = iid"
    have "x = i"
      using findUnique_only [of i_id "invoices s" iid i x] good x Some
      by (simp add: good_def ledger_ok_def invoiceOf_def)
    then show "invoice_step x (f x)"
      using assms [OF Some] by simp
  qed
  then show ?thesis
    using Some by (simp add: updateInvoice_def)
qed (simp add: updateInvoice_def)

lemma evolves_rollback [step_rules]: "evolves s (rollback s s')"
  by (simp add: rollback_def evolves.refl)

lemma evolves_rollbackKeepingShifts [step_rules]: "evolves s (rollbackKeepingShifts s s')"
  by (rule evolves_frame) (simp_all add: rollbackKeepingShifts_def)

lemma evolves_updateJob [step_rules]:
  assumes "\<And>j. job_frame j (f j) \<and> j_status (f j) = j_status j \<and>
      j_replacementDepartingAssignmentId (f j) = j_replacementDepartingAssignmentId j"
  shows "evolves s (snd (updateJob jid f s))"
  unfolding updateJob_def
  by (cases "jobOf jid s") (auto simp: evolves.refl assms intro!: evolves_job_rows)

lemma evolves_updateJobs [step_rules]:
  assumes "\<And>j. job_frame j (f j) \<and> j_status (f j) = j_status j \<and>
      j_replacementDepartingAssignmentId (f j) = j_replacementDepartingAssignmentId j"
  shows "evolves s (snd (updateJobs p f s))"
  unfolding updateJobs_def by (auto simp: assms intro!: evolves_job_rows)

lemma evolves_updateAssignments:
  assumes "\<And>a. a \<in> set (assignments s) \<Longrightarrow> p a \<Longrightarrow> assignment_step a (f a)"
  shows "evolves s (snd (updateAssignments p f s))"
  unfolding updateAssignments_def by (simp, rule evolves_assignment_rows) (rule assms)

text \<open>A column update that leaves the status alone.\<close>

lemma evolves_updateAssignment [step_rules]:
  assumes "\<And>a. assignment_step a (f a)"
  shows "evolves s (snd (updateAssignment aid f s))"
  unfolding updateAssignment_def
  by (cases "assignmentOf aid s") (auto simp: evolves.refl assms intro!: evolves_assignment_rows)

text \<open>
  The guarded status changes: the row with the id is the row the method read, so its status is
  the one the method checked.
\<close>

lemma assignmentOf_only:
  assumes "good s" and "assignmentOf aid s = Some a" and "x \<in> set (assignments s)" and "a_id x = aid"
  shows "x = a"
  using findUnique_only [of a_id "assignments s" aid a x] assms
  by (simp add: good_def wf_def assignmentOf_def)

lemma evolves_setAssignment:
  assumes "assignmentOf aid s = Some a"
    and "assignment_step a (f a)"
  shows "evolves s (snd (updateAssignment aid f s))"
  unfolding updateAssignment_def
  using assms by (auto intro!: evolves_assignment_rows dest: assignmentOf_only)

lemma evolves_updateOptimistic:
  assumes "assignmentOf aid s = Some a"
    and "a_versionNumber a = v \<Longrightarrow> assignment_step a ((f a)\<lparr>a_versionNumber := v + 1\<rparr>)"
  shows "evolves s (snd (updateOptimistic aid v f s))"
proof -
  have "snd (updateOptimistic aid v f s) = s\<lparr>assignments :=
      updateMany (\<lambda>a. a_id a = aid \<and> a_versionNumber a = v)
        (\<lambda>a. (f a)\<lparr>a_versionNumber := a_versionNumber a + 1\<rparr>) (assignments s)\<rparr>"
    by (auto simp: updateOptimistic_def Let_def orThrow_def split: option.split)
  also have "evolves s \<dots>"
    by (rule evolves_assignment_rows) (use assms assignmentOf_only in blast)
  finally show ?thesis .
qed

lemma evolves_transitionOffered:
  assumes "\<And>a. a_status a = A_OFFERED \<Longrightarrow>
      assignment_step a ((f a)\<lparr>a_versionNumber := a_versionNumber a + 1\<rparr>)"
  shows "evolves s (snd (transitionOfferedAssignment aid v f s))"
  unfolding transitionOfferedAssignment_def Let_def
  by (simp, rule evolves_assignment_rows) (use assms in auto)

lemma evolves_transaction [step_rules]:
  "evolves s (snd (body s)) \<Longrightarrow> evolves s (snd (transaction rollback body s))"
  by (rule evolves.transaction) (simp_all add: step_rules)

lemma evolves_transaction_shifts [step_rules]:
  "evolves s (snd (body s)) \<Longrightarrow> evolves s (snd (transaction rollbackKeepingShifts body s))"
  by (rule evolves.transaction) (simp_all add: step_rules)

lemma assignment_edge_into: "assignment_edge x y \<Longrightarrow> assignment_edge\<^sup>*\<^sup>* x y"
  by (rule r_into_rtranclp)

lemma job_edge_into: "job_edge x y \<Longrightarrow> job_edge\<^sup>*\<^sup>* x y"
  by (rule r_into_rtranclp)

end
