(* ===== verification/Outbox.thy ===== *)
theory Outbox
  imports Evolution
begin

text \<open>
  The transactional outbox (\<open>outbox/outbox.service.ts\<close>): events are written with the data
  they announce, claimed in batches by the worker, and marked completed or failed.  All events
  of the backend are about a job, so the aggregate type is left out.
\<close>

section \<open>The service\<close>

record outbox_input =
  in_aggregateId :: id
  in_eventType :: event_type
  in_payloadJobId :: id
  in_payloadReplacement :: bool
  in_payloadRefill :: bool
  in_scheduledAt :: "instant option"

definition enqueue :: "outbox_input \<Rightarrow> unit op" where
  "enqueue input = andThen now (\<lambda>t. andThen freshId (\<lambda>oid.
     writes (\<lambda>s. s\<lparr>outbox := createRow
       \<lparr>ob_id = oid, ob_aggregateId = in_aggregateId input, ob_eventType = in_eventType input,
        ob_payloadJobId = in_payloadJobId input, ob_payloadReplacement = in_payloadReplacement input,
        ob_payloadRefill = in_payloadRefill input, ob_status = O_PENDING, ob_retries = 0,
        ob_lastError = None,
        ob_scheduledAt = (case in_scheduledAt input of None \<Rightarrow> t | Some due \<Rightarrow> due),
        ob_processedAt = None\<rparr> (outbox s)\<rparr>)))"

text \<open>The inside of a transaction; the row is the same.\<close>

definition enqueueInTransaction :: "outbox_input \<Rightarrow> unit op" where
  "enqueueInTransaction input = enqueue input"

text \<open>The payloads of the dispatch requests: \<open>{ jobId }\<close>, \<open>{ jobId, refill: true }\<close> and
  \<open>{ jobId, replacement }\<close>.\<close>

definition dispatchRequest :: "id \<Rightarrow> outbox_input" where
  "dispatchRequest jobId = \<lparr>in_aggregateId = jobId, in_eventType = JOB_DISPATCH_REQUESTED,
     in_payloadJobId = jobId, in_payloadReplacement = False, in_payloadRefill = False,
     in_scheduledAt = None\<rparr>"

text \<open>The raw query: the due pending rows, oldest first, at most \<open>limit\<close> of them.\<close>

definition claimable :: "nat \<Rightarrow> sys \<Rightarrow> outbox_event list" where
  "claimable limit s = take limit (orderByAsc ob_scheduledAt
     (findMany (\<lambda>e. ob_status e = O_PENDING \<and> ob_scheduledAt e \<le> clock s) (outbox s)))"

definition claimBatch :: "nat \<Rightarrow> outbox_event list op" where
  "claimBatch limit = transaction rollback (\<lambda>s.
     let ids = map ob_id (claimable limit s)
     in if claimable limit s = [] then (Inr [], s)
        else let rows = updateMany (\<lambda>e. ob_id e \<in> set ids) (\<lambda>e. e\<lparr>ob_status := O_PROCESSING\<rparr>) (outbox s)
             in (Inr (findMany (\<lambda>e. ob_id e \<in> set ids) rows), s\<lparr>outbox := rows\<rparr>))"

definition updateOutbox :: "id \<Rightarrow> (outbox_event \<Rightarrow> outbox_event) \<Rightarrow> unit op" where
  "updateOutbox oid f = (\<lambda>s. case outboxOf oid s of
     None \<Rightarrow> (Inl (PrismaError ''P2025''), s)
   | Some _ \<Rightarrow> (Inr (), s\<lparr>outbox := updateMany (\<lambda>e. ob_id e = oid) f (outbox s)\<rparr>))"

definition markCompleted :: "id \<Rightarrow> unit op" where
  "markCompleted oid = andThen now (\<lambda>t.
     updateOutbox oid (\<lambda>e. e\<lparr>ob_status := O_COMPLETED, ob_processedAt := Some t\<rparr>))"

definition markFailed :: "id \<Rightarrow> http_error \<Rightarrow> int \<Rightarrow> unit op" where
  "markFailed oid err retries = andThen now (\<lambda>t.
     let maxRetries = 5; nextRetries = retries + 1;
         status = (if nextRetries \<ge> maxRetries then O_DEAD_LETTER else O_FAILED);
         backoffMs = min 60000 (2 ^ nat nextRetries * 1000)
     in updateOutbox oid (\<lambda>e. e\<lparr>ob_status := status, ob_retries := nextRetries,
          ob_lastError := Some err,
          ob_scheduledAt := (if status = O_FAILED then t + backoffMs else ob_scheduledAt e)\<rparr>))"

section \<open>The outbox stays out of the dispatch tables\<close>

lemma evolves_enqueue [step_rules]: "evolves s (snd (enqueue input s))"
  by (simp add: enqueue_def) (rule evolves_new_outbox [of _ s, simplified], simp)

lemma evolves_enqueueInTransaction [step_rules]: "evolves s (snd (enqueueInTransaction input s))"
  by (simp add: enqueueInTransaction_def evolves_enqueue)

lemma evolves_updateOutbox:
  "(\<And>e. outbox_step e (f e)) \<Longrightarrow> evolves s (snd (updateOutbox oid f s))"
  by (auto simp: updateOutbox_def split: option.split intro!: evolves_outbox_rows)

lemma evolves_markCompleted [step_rules]: "evolves s (snd (markCompleted oid s))"
  by (auto simp: markCompleted_def outbox_step_def intro!: evolves_updateOutbox)

lemma evolves_markFailed [step_rules]: "evolves s (snd (markFailed oid err retries s))"
  by (auto simp: markFailed_def Let_def outbox_step_def intro!: evolves_updateOutbox)

lemma enqueue_answer [simp]: "fst (enqueue input s) = Inr ()"
  by (simp add: enqueue_def)

lemma enqueueInTransaction_answer [simp]: "fst (enqueueInTransaction input s) = Inr ()"
  by (simp add: enqueueInTransaction_def)

section \<open>Claiming\<close>

lemma claimable_due:
  "e \<in> set (claimable limit s) \<Longrightarrow>
     e \<in> set (outbox s) \<and> ob_status e = O_PENDING \<and> ob_scheduledAt e \<le> clock s"
  unfolding claimable_def by (drule in_set_takeD) (simp add: findMany_def)

lemma length_claimable: "length (claimable limit s) \<le> limit"
  by (simp add: claimable_def)

lemma claimBatch_alt:
  "claimBatch limit s =
     (let ids = map ob_id (claimable limit s);
          rows = updateMany (\<lambda>e. ob_id e \<in> set ids) (\<lambda>e. e\<lparr>ob_status := O_PROCESSING\<rparr>) (outbox s)
      in (Inr (findMany (\<lambda>e. ob_id e \<in> set ids) rows), s\<lparr>outbox := rows\<rparr>))"
proof (cases "claimable limit s = []")
  case True
  have "updateMany (\<lambda>e. False) f (outbox s) = outbox s" for f
    by (rule updateMany_none) simp
  then show ?thesis
    using True by (simp add: claimBatch_def Let_def transaction_def findMany_def)
next
  case False
  then show ?thesis
    by (simp add: claimBatch_def Let_def transaction_def)
qed

lemma evolves_claimBatch [step_rules]: "evolves s (snd (claimBatch limit s))"
  by (auto simp: claimBatch_alt Let_def outbox_step_def intro!: evolves_outbox_rows)

lemma length_filter_map:
  "(\<And>r. q (g r) = q r) \<Longrightarrow> length (filter q (map g rows)) = length (filter q rows)"
  by (simp add: filter_map o_def)

lemma length_filter_ids:
  assumes "distinct (map key rows)" and "set picked \<subseteq> set rows"
  shows "length (filter (\<lambda>r. key r \<in> key ` set picked) rows) \<le> length picked"
proof -
  let ?f = "filter (\<lambda>r. key r \<in> key ` set picked) rows"
  have "distinct ?f"
    using assms(1) by (simp add: distinct_map)
  moreover have "r \<in> set picked" if r: "r \<in> set ?f" for r
  proof -
    obtain q where q: "q \<in> set picked" "key r = key q"
      using r by (auto simp: image_iff)
    have "r = q"
      by (rule distinct_key_unique [OF assms(1)]) (use r q assms(2) in auto)
    then show ?thesis using q(1) by simp
  qed
  ultimately have "distinct ?f" "set ?f \<subseteq> set picked"
    by blast+
  then show ?thesis
    using card_mono [of "set picked" "set ?f"] distinct_card [of ?f] card_length [of picked]
    by (simp add: le_trans)
qed

lemma claimed_rows:
  assumes dist: "distinct (map ob_id (outbox s))"
    and "claimBatch limit s = (Inr evs, s')"
  shows "ob_id ` set evs = ob_id ` set (claimable limit s)"
    and "\<And>e. e \<in> set evs \<Longrightarrow> ob_status e = O_PROCESSING"
    and "\<And>e. e \<in> set evs \<Longrightarrow> e \<in> set (outbox s')"
    and "length evs \<le> limit"
    and "map ob_id (outbox s') = map ob_id (outbox s)"
    and "clock s' = clock s"
proof -
  let ?ids = "set (map ob_id (claimable limit s))"
  let ?rows = "updateMany (\<lambda>e. ob_id e \<in> ?ids) (\<lambda>e. e\<lparr>ob_status := O_PROCESSING\<rparr>) (outbox s)"
  have evs: "evs = findMany (\<lambda>e. ob_id e \<in> ?ids) ?rows" and s': "s' = s\<lparr>outbox := ?rows\<rparr>"
    using assms(2) by (simp_all add: claimBatch_alt Let_def)
  have sub: "set (claimable limit s) \<subseteq> set (outbox s)"
    by (auto dest: claimable_due)
  show "ob_id ` set evs = ob_id ` set (claimable limit s)"
  proof
    show "ob_id ` set evs \<subseteq> ob_id ` set (claimable limit s)"
      unfolding evs by (auto simp: findMany_def)
    show "ob_id ` set (claimable limit s) \<subseteq> ob_id ` set evs"
    proof
      fix k
      assume k: "k \<in> ob_id ` set (claimable limit s)"
      have "ob_id ` set ?rows = ob_id ` set (outbox s)"
        unfolding set_map [symmetric] by (simp add: updateMany_keys del: set_map)
      then have "k \<in> ob_id ` set ?rows"
        using k sub by auto
      then obtain e where "e \<in> set ?rows" "k = ob_id e"
        by (rule imageE)
      then show "k \<in> ob_id ` set evs"
        using k unfolding evs findMany_def by simp
    qed
  qed
  show "\<And>e. e \<in> set evs \<Longrightarrow> ob_status e = O_PROCESSING"
    unfolding evs by (auto simp: findMany_def set_updateMany)
  show "\<And>e. e \<in> set evs \<Longrightarrow> e \<in> set (outbox s')"
    unfolding evs s' by (simp add: findMany_def)
  have "length evs = length (filter (\<lambda>e. ob_id e \<in> ?ids) (outbox s))"
    unfolding evs findMany_def updateMany_def
    by (rule length_filter_map) simp
  also have "\<dots> \<le> length (claimable limit s)"
    using length_filter_ids [OF dist sub] by simp
  finally show "length evs \<le> limit"
    using length_claimable [of limit s] by simp
  show "map ob_id (outbox s') = map ob_id (outbox s)"
    unfolding s' by (simp add: updateMany_keys)
  show "clock s' = clock s"
    unfolding s' by simp
qed

end
