(* ===== verification/Guardians.thy ===== *)
theory Guardians
  imports Outbox
begin

text \<open>
  The guardian side of dispatch: the shift state a guardian works under
  (\<open>shift-state.service.ts\<close>), whether the account may be dispatched at all
  (\<open>guardian-eligibility.service.ts\<close>), presence (\<open>redis/presence.service.ts\<close>, in-memory
  form) with the heartbeat that feeds it (\<open>connectivity.service.ts\<close>), and the candidate
  queries of \<open>guardian-dispatch-eligibility.service.ts\<close>.
\<close>

section \<open>Guardian eligibility\<close>

definition certificationValid :: "instant \<Rightarrow> certification \<Rightarrow> bool" where
  "certificationValid t cert \<longleftrightarrow>
     c_verificationStatus cert = CV_VERIFIED \<and>
     (case c_expiryDate cert of None \<Rightarrow> True | Some d \<Rightarrow> \<not> d < t)"

definition assertProfileEligible :: "guardian \<Rightarrow> unit op" where
  "assertProfileEligible g =
     andThen (ensure (g_status g = G_ACTIVE) (Forbidden ''GUARDIAN_NOT_ACTIVE'')) (\<lambda>_.
     andThen (ensure (g_verificationStatus g = GV_VERIFIED) (Forbidden ''GUARDIAN_NOT_VERIFIED'')) (\<lambda>_.
     andThen now (\<lambda>t.
     ensure (list_ex (certificationValid t) (g_certifications g)) (Forbidden ''CERTIFICATION_REQUIRED''))))"

definition assertDispatchEligible :: "id \<Rightarrow> unit op" where
  "assertDispatchEligible guardianId =
     andThen (reads (guardianOf guardianId)) (\<lambda>found.
     andThen (orThrow found (Forbidden ''GUARDIAN_NOT_FOUND'')) assertProfileEligible)"

section \<open>Shift state\<close>

text \<open>An absent \<open>shiftEndsAt\<close> is \<open>undefined\<close>: the insert stores null, the update keeps the column.\<close>

definition startShift :: "id \<Rightarrow> instant option \<Rightarrow> unit op" where
  "startShift guardianId shiftEndsAt =
     andThen (assertDispatchEligible guardianId) (\<lambda>_. andThen now (\<lambda>t.
     writes (\<lambda>s. s\<lparr>shifts :=
       (case shiftOf guardianId s of
          None \<Rightarrow> createRow \<lparr>s_guardianId = guardianId, s_shiftStatus = S_AVAILABLE,
            s_availableForJobs = True, s_shiftStartedAt = Some t, s_shiftEndsAt = shiftEndsAt\<rparr> (shifts s)
        | Some _ \<Rightarrow> updateMany (\<lambda>r. s_guardianId r = guardianId) (\<lambda>r. r\<lparr>s_shiftStatus := S_AVAILABLE,
            s_availableForJobs := True, s_shiftStartedAt := Some t,
            s_shiftEndsAt := (case shiftEndsAt of None \<Rightarrow> s_shiftEndsAt r | Some e \<Rightarrow> Some e)\<rparr>)
            (shifts s))\<rparr>)))"

definition autoStartOnLogin :: "id \<Rightarrow> unit op" where
  "autoStartOnLogin guardianId = andThen (reads (shiftOf guardianId)) (\<lambda>state.
     if (case state of None \<Rightarrow> False | Some r \<Rightarrow> s_shiftStatus r \<noteq> S_OFF_DUTY) then ok ()
     else tryCatch (startShift guardianId None) (\<lambda>_. ok ()))"

definition endShift :: "id \<Rightarrow> unit op" where
  "endShift guardianId = updateShift guardianId (\<lambda>r. r\<lparr>s_shiftStatus := S_OFF_DUTY,
     s_availableForJobs := False, s_shiftStartedAt := None, s_shiftEndsAt := None\<rparr>)"

definition setBusy :: "id \<Rightarrow> unit op" where
  "setBusy guardianId = updateShift guardianId (\<lambda>r. r\<lparr>s_shiftStatus := S_BUSY,
     s_availableForJobs := False\<rparr>)"

definition setAvailable :: "id \<Rightarrow> unit op" where
  "setAvailable guardianId = andThen (reads (shiftOf guardianId)) (\<lambda>state.
     andThen (orThrow state (NotFound ''Shift state not found'')) (\<lambda>r.
     if s_shiftStatus r = S_OFF_DUTY then ok ()
     else updateShift guardianId (\<lambda>r. r\<lparr>s_shiftStatus := S_AVAILABLE, s_availableForJobs := True\<rparr>)))"

section \<open>Presence\<close>

definition PRESENCE_TTL_SEC :: int where
  "PRESENCE_TTL_SEC = 90"

definition setPresence ::
  "id \<Rightarrow> rat \<Rightarrow> rat \<Rightarrow> rat option \<Rightarrow> int option \<Rightarrow> bool \<Rightarrow> unit op" where
  "setPresence guardianId lat lng speed battery available = writes (\<lambda>s. s\<lparr>presence := (presence s)(guardianId \<mapsto>
     \<lparr>pe_lat = lat, pe_lng = lng, pe_speed = speed, pe_battery = battery, pe_available = available,
      pe_updatedAt = clock s, pe_expiresAt = clock s + PRESENCE_TTL_SEC * 1000\<rparr>)\<rparr>)"

text \<open>Reading a missing or expired entry deletes it.\<close>

definition getPresence :: "id \<Rightarrow> presence_entry option op" where
  "getPresence guardianId = (\<lambda>s. case presence s guardianId of
     None \<Rightarrow> (Inr None, s\<lparr>presence := (presence s)(guardianId := None)\<rparr>)
   | Some entry \<Rightarrow> if clock s > pe_expiresAt entry
                   then (Inr None, s\<lparr>presence := (presence s)(guardianId := None)\<rparr>)
                   else (Inr (Some entry), s))"

definition isReachable :: "id \<Rightarrow> bool op" where
  "isReachable guardianId = andThen (getPresence guardianId) (\<lambda>p.
     ok (case p of None \<Rightarrow> False | Some entry \<Rightarrow> pe_available entry))"

primrec filterReachableGuardianIds :: "id list \<Rightarrow> id list op" where
  "filterReachableGuardianIds [] = ok []"
| "filterReachableGuardianIds (gid # gids) = andThen (isReachable gid) (\<lambda>reachable.
     andThen (filterReachableGuardianIds gids) (\<lambda>rest.
     ok (if reachable then gid # rest else rest)))"

section \<open>Heartbeats\<close>

record heartbeat_result =
  hb_recordedAt :: instant
  hb_reachable :: bool

text \<open>
  \<open>recordHeartbeat\<close>; \<open>position\<close> is the pair of coordinates when both are given.  The last
  call of the method hands the guardian to the connectivity handler of the queue; no part of
  the backend registers one, so in process the call does nothing.
\<close>

definition recordHeartbeat ::
  "id \<Rightarrow> (rat \<times> rat) option \<Rightarrow> rat option \<Rightarrow> int option \<Rightarrow> heartbeat_result op" where
  "recordHeartbeat guardianId position speed battery =
     andThen (reads (\<lambda>s. (guardianOf guardianId s, shiftOf guardianId s))) (\<lambda>(g, shift).
     andThen (ensure (g \<noteq> None) (NotFound ''Guardian not found'')) (\<lambda>_. andThen now (\<lambda>t.
     let available = (case shift of None \<Rightarrow> False
           | Some r \<Rightarrow> s_availableForJobs r \<and> s_shiftStatus r = S_AVAILABLE)
     in andThen (case position of None \<Rightarrow> ok ()
          | Some (lat, lng) \<Rightarrow> andThen (setPresence guardianId lat lng speed battery available) (\<lambda>_.
              andThen freshId (\<lambda>hid.
              writes (\<lambda>s. s\<lparr>locationHistory := createRow \<lparr>lp_id = hid, lp_guardianId = guardianId,
                lp_latitude = lat, lp_longitude = lng, lp_speed = speed, lp_batteryLevel = battery,
                lp_recordedAt = t\<rparr> (locationHistory s)\<rparr>)))) (\<lambda>_.
     andThen (isReachable guardianId) (\<lambda>reachable.
     ok \<lparr>hb_recordedAt = t, hb_reachable = reachable\<rparr>)))))"

definition evaluateStaleGuardian :: "id \<Rightarrow> unit op" where
  "evaluateStaleGuardian guardianId = andThen (isReachable guardianId) (\<lambda>reachable.
     if reachable then ok () else
     andThen (reads (\<lambda>s. findFirst (\<lambda>a. a_guardianId a = guardianId \<and>
       a_status a \<in> {A_ACCEPTED, A_ON_SITE, A_EN_ROUTE, A_OFFERED}) (assignments s))) (\<lambda>active.
     case active of None \<Rightarrow> ok ()
     | Some a \<Rightarrow> andThen (reads (jobOf (a_jobId a))) (\<lambda>job.
         case job of None \<Rightarrow> ok ()
         | Some j \<Rightarrow> whenever (j_status j = J_IN_PROGRESS)
             (auditLog None ''CONNECTIVITY_ESCALATION'' guardianId))))"

section \<open>Districts\<close>

text \<open>Strings of districts are taken to be ASCII.\<close>

definition jsWhitespace :: "char list" where
  "jsWhitespace = [CHR 0x09, CHR 0x0A, CHR 0x0B, CHR 0x0C, CHR 0x0D, CHR '' '']"

definition trimBy :: "char list \<Rightarrow> string \<Rightarrow> string" where
  "trimBy cs str = rev (dropWhile (\<lambda>c. c \<in> set cs) (rev (dropWhile (\<lambda>c. c \<in> set cs) str)))"

definition toLowerChar :: "char \<Rightarrow> char" where
  "toLowerChar c = (let n = of_char c :: nat in if 65 \<le> n \<and> n \<le> 90 then char_of (n + 32) else c)"

definition normalizeDistrict :: "string \<Rightarrow> string" where
  "normalizeDistrict value = List.map toLowerChar (trimBy jsWhitespace value)"

text \<open>\<open>LOWER(TRIM(x))\<close> in SQL, which trims spaces only.\<close>

definition sqlLowerTrim :: "string \<Rightarrow> string" where
  "sqlLowerTrim value = List.map toLowerChar (trimBy [CHR '' ''] value)"

section \<open>Candidates\<close>

definition CURRENT_DATE :: "instant \<Rightarrow> instant" where
  "CURRENT_DATE t = t div 86400000 * 86400000"

text \<open>The \<open>WHERE\<close> clause the two raw queries share.\<close>

definition eligibleRow :: "string \<Rightarrow> sys \<Rightarrow> guardian \<Rightarrow> bool" where
  "eligibleRow normalized s g \<longleftrightarrow>
     (case shiftOf (g_id g) s of None \<Rightarrow> False
      | Some r \<Rightarrow> s_shiftStatus r = S_AVAILABLE \<and> s_availableForJobs r) \<and>
     g_status g = G_ACTIVE \<and> g_verificationStatus g = GV_VERIFIED \<and>
     (sqlLowerTrim (g_districtBase g) = normalized \<or>
      list_ex (\<lambda>d. sqlLowerTrim d = normalized) (g_coverageDistricts g)) \<and>
     list_ex (\<lambda>c. c_verificationStatus c = CV_VERIFIED \<and>
       (case c_expiryDate c of None \<Rightarrow> True | Some d \<Rightarrow> d \<ge> CURRENT_DATE (clock s)))
       (g_certifications g)"

definition countEligibleGuardians :: "string \<Rightarrow> int op" where
  "countEligibleGuardians district =
     reads (\<lambda>s. countWhere (eligibleRow (normalizeDistrict district) s) (guardians s))"

definition listEligibleGuardianIds :: "string \<Rightarrow> int \<Rightarrow> id list \<Rightarrow> id list op" where
  "listEligibleGuardianIds district limit excludeIds = reads (\<lambda>s.
     let poolLimit = limit + int (length excludeIds);
         rows = take (nat poolLimit) (orderByDesc g_reliabilityScore
           (findMany (eligibleRow (normalizeDistrict district) s) (guardians s)))
     in filter (\<lambda>gid. gid \<notin> set excludeIds) (List.map g_id rows))"

text \<open>The elements of a JavaScript \<open>Set\<close> in insertion order.\<close>

definition toSet :: "'a list \<Rightarrow> 'a list" where
  "toSet xs = rev (remdups (rev xs))"

definition getTriedGuardianIds :: "id \<Rightarrow> id list op" where
  "getTriedGuardianIds jobId = reads (\<lambda>s. toSet (List.map a_guardianId (findMany (\<lambda>a.
     a_jobId a = jobId \<and> a_status a \<in> set TERMINAL_ASSIGNMENT_STATUSES) (assignments s))))"

definition getExcludedGuardianIds :: "id \<Rightarrow> id list op" where
  "getExcludedGuardianIds jobId = andThen (getTriedGuardianIds jobId) (\<lambda>tried.
     reads (\<lambda>s. toSet (tried @ List.map a_guardianId (findMany (\<lambda>a. a_jobId a = jobId \<and>
       a_replacesAssignmentId a = None \<and>
       a_status a \<in> set (A_OFFERED # STAFFED_ASSIGNMENT_STATUSES)) (assignments s)))))"

definition getReplacementExcludedGuardianIds :: "id \<Rightarrow> id list op" where
  "getReplacementExcludedGuardianIds jobId = reads (\<lambda>s. toSet (List.map a_guardianId (findMany (\<lambda>a.
     a_jobId a = jobId \<and> a_status a \<notin> set TERMINAL_ASSIGNMENT_STATUSES) (assignments s))))"

definition hasActiveOffer :: "id \<Rightarrow> bool op" where
  "hasActiveOffer jobId = reads (\<lambda>s.
     findFirst (\<lambda>a. a_jobId a = jobId \<and> a_status a = A_OFFERED) (assignments s) \<noteq> None)"

record pick =
  pk_guardian :: "id option"
  pk_excludedCount :: int
  pk_poolCount :: int
  pk_candidateCount :: int
  pk_reachableCount :: int
  pk_eligibleIds :: "id list"
  pk_reachableIds :: "id list"

definition pickNextReachableGuardian :: "string \<Rightarrow> id \<Rightarrow> bool \<Rightarrow> pick op" where
  "pickNextReachableGuardian district jobId replacement =
     andThen (if replacement then getReplacementExcludedGuardianIds jobId
              else getExcludedGuardianIds jobId) (\<lambda>excluded.
     andThen (reads (\<lambda>s. DISPATCH_POOL_SIZE (config s))) (\<lambda>poolSize.
     andThen (listEligibleGuardianIds district poolSize excluded) (\<lambda>candidates.
     let n = int (length excluded) in
     if candidates = [] then
       ok \<lparr>pk_guardian = None, pk_excludedCount = n, pk_poolCount = n, pk_candidateCount = 0,
           pk_reachableCount = 0, pk_eligibleIds = [], pk_reachableIds = []\<rparr>
     else andThen (filterReachableGuardianIds candidates) (\<lambda>reachableIds.
       ok \<lparr>pk_guardian = find (\<lambda>g. g \<in> set reachableIds) candidates, pk_excludedCount = n,
           pk_poolCount = int (length candidates) + n, pk_candidateCount = int (length candidates),
           pk_reachableCount = int (length reachableIds), pk_eligibleIds = candidates,
           pk_reachableIds = reachableIds\<rparr>))))"

record parallel_pick =
  pp_guardians :: "id list"
  pp_excludedCount :: int
  pp_candidateCount :: int
  pp_reachableCount :: int
  pp_eligibleIds :: "id list"
  pp_reachableIds :: "id list"

definition pickParallelReachableGuardians :: "string \<Rightarrow> id \<Rightarrow> int \<Rightarrow> parallel_pick op" where
  "pickParallelReachableGuardians district jobId n =
     andThen (getExcludedGuardianIds jobId) (\<lambda>excluded.
     andThen (reads (\<lambda>s. DISPATCH_POOL_SIZE (config s))) (\<lambda>poolSize.
     andThen (listEligibleGuardianIds district poolSize excluded) (\<lambda>candidates.
     andThen (filterReachableGuardianIds candidates) (\<lambda>reachableIds.
       ok \<lparr>pp_guardians = take (nat n) (filter (\<lambda>g. g \<in> set reachableIds) candidates),
           pp_excludedCount = int (length excluded), pp_candidateCount = int (length candidates),
           pp_reachableCount = int (length reachableIds), pp_eligibleIds = candidates,
           pp_reachableIds = reachableIds\<rparr>))))"

section \<open>Nothing here touches jobs or assignments\<close>

lemma evolves_assertProfileEligible [step_rules]: "evolves s (snd (assertProfileEligible g s))"
  unfolding assertProfileEligible_def by (intro evolves.rules step_rules)

lemma evolves_assertDispatchEligible [step_rules]: "evolves s (snd (assertDispatchEligible gid s))"
  unfolding assertDispatchEligible_def by (intro evolves.rules step_rules)

lemma evolves_setAvailable [step_rules]: "evolves s (snd (setAvailable gid s))"
  unfolding setAvailable_def by (intro evolves.rules step_rules)

lemma evolves_setBusy [step_rules]: "evolves s (snd (setBusy gid s))"
  unfolding setBusy_def by (intro step_rules)

lemma evolves_endShift [step_rules]: "evolves s (snd (endShift gid s))"
  unfolding endShift_def by (intro step_rules)

lemma evolves_startShift [step_rules]: "evolves s (snd (startShift gid until s))"
  unfolding startShift_def
  by (intro evolves.rules step_rules evolves.writes evolves_frame) simp_all

lemma evolves_autoStartOnLogin [step_rules]: "evolves s (snd (autoStartOnLogin gid s))"
  unfolding autoStartOnLogin_def by (intro evolves.rules evolves.tryCatch step_rules)

lemma evolves_setPresence [step_rules]: "evolves s (snd (setPresence gid lat lng speed battery b s))"
  by (rule evolves_frame) (simp_all add: setPresence_def)

lemma evolves_getPresence [step_rules]: "evolves s (snd (getPresence gid s))"
  by (rule evolves_frame) (simp_all add: getPresence_def split: option.split)

lemma evolves_isReachable [step_rules]: "evolves s (snd (isReachable gid s))"
  unfolding isReachable_def by (intro evolves.rules step_rules)

lemma evolves_filterReachable [step_rules]: "evolves s (snd (filterReachableGuardianIds gids s))"
  by (induction gids arbitrary: s) (auto simp: evolves.refl intro!: evolves.rules step_rules)

lemma evolves_recordHeartbeat [step_rules]: "evolves s (snd (recordHeartbeat gid pos speed battery s))"
  unfolding recordHeartbeat_def Let_def case_prod_unfold
  by (cases pos) (auto intro!: evolves.rules step_rules evolves_frame)

lemma evolves_evaluateStaleGuardian [step_rules]: "evolves s (snd (evaluateStaleGuardian gid s))"
  unfolding evaluateStaleGuardian_def by (intro evolves.rules step_rules)

lemma evolves_countEligibleGuardians [step_rules]: "evolves s (snd (countEligibleGuardians d s))"
  unfolding countEligibleGuardians_def by (intro evolves.rules)

lemma evolves_listEligibleGuardianIds [step_rules]: "evolves s (snd (listEligibleGuardianIds d n ex s))"
  unfolding listEligibleGuardianIds_def by (intro evolves.rules)

lemma evolves_getTriedGuardianIds [step_rules]: "evolves s (snd (getTriedGuardianIds jid s))"
  unfolding getTriedGuardianIds_def by (intro evolves.rules)

lemma evolves_getExcludedGuardianIds [step_rules]: "evolves s (snd (getExcludedGuardianIds jid s))"
  unfolding getExcludedGuardianIds_def by (intro evolves.rules step_rules)

lemma evolves_getReplacementExcludedGuardianIds [step_rules]:
  "evolves s (snd (getReplacementExcludedGuardianIds jid s))"
  unfolding getReplacementExcludedGuardianIds_def by (intro evolves.rules step_rules)

lemma evolves_hasActiveOffer [step_rules]: "evolves s (snd (hasActiveOffer jid s))"
  unfolding hasActiveOffer_def by (intro evolves.rules)

lemma evolves_pickNext [step_rules]: "evolves s (snd (pickNextReachableGuardian d jid r s))"
  unfolding pickNextReachableGuardian_def Let_def by (intro evolves.rules step_rules)

lemma evolves_pickParallel [step_rules]: "evolves s (snd (pickParallelReachableGuardians d jid n s))"
  unfolding pickParallelReachableGuardians_def by (intro evolves.rules step_rules)

section \<open>What the candidate queries return\<close>

text \<open>A guardian is reachable while the last heartbeat says so and has not expired.\<close>

definition reachableNow :: "sys \<Rightarrow> id \<Rightarrow> bool" where
  "reachableNow s gid \<longleftrightarrow>
     (case presence s gid of None \<Rightarrow> False | Some e \<Rightarrow> clock s \<le> pe_expiresAt e \<and> pe_available e)"

text \<open>Reading presence only drops entries that count as absent.\<close>

definition presence_dropped :: "sys \<Rightarrow> sys \<Rightarrow> bool" where
  "presence_dropped s s' \<longleftrightarrow> (\<exists>p. s' = s\<lparr>presence := p\<rparr> \<and>
     (\<forall>gid. p gid = presence s gid \<or> (p gid = None \<and> \<not> reachableNow s gid)))"

lemma presence_dropped_refl: "presence_dropped s s"
  unfolding presence_dropped_def by (rule exI [of _ "presence s"]) simp

lemma presence_dropped_reachable:
  assumes "presence_dropped s s'"
  shows "reachableNow s' gid = reachableNow s gid"
proof -
  obtain p where p: "s' = s\<lparr>presence := p\<rparr>"
      "p gid = presence s gid \<or> (p gid = None \<and> \<not> reachableNow s gid)"
    using assms unfolding presence_dropped_def by blast
  show ?thesis
    using p(2)
  proof
    assume "p gid = presence s gid"
    then show ?thesis by (simp add: p(1) reachableNow_def split: option.split)
  next
    assume "p gid = None \<and> \<not> reachableNow s gid"
    then show ?thesis by (simp add: p(1)) (simp add: reachableNow_def)
  qed
qed

lemma presence_dropped_trans:
  assumes "presence_dropped s t" and "presence_dropped t u"
  shows "presence_dropped s u"
proof -
  obtain p q where 1: "t = s\<lparr>presence := p\<rparr>"
      "\<And>gid. p gid = presence s gid \<or> (p gid = None \<and> \<not> reachableNow s gid)"
    and 2: "u = t\<lparr>presence := q\<rparr>"
      "\<And>gid. q gid = presence t gid \<or> (q gid = None \<and> \<not> reachableNow t gid)"
    using assms unfolding presence_dropped_def by blast
  have "q gid = presence s gid \<or> (q gid = None \<and> \<not> reachableNow s gid)" for gid
    using 1(2) [of gid] 2(2) [of gid] presence_dropped_reachable [OF assms(1), of gid]
    by (auto simp: 1(1))
  moreover have "u = s\<lparr>presence := q\<rparr>"
    using 1(1) 2(1) by simp
  ultimately show ?thesis
    unfolding presence_dropped_def by blast
qed

lemma isReachable_result:
  "fst (isReachable gid s) = Inr (reachableNow s gid)"
  "presence_dropped s (snd (isReachable gid s))"
proof -
  show "fst (isReachable gid s) = Inr (reachableNow s gid)"
    by (auto simp: isReachable_def getPresence_def reachableNow_def andThen_def split: option.split)
  show "presence_dropped s (snd (isReachable gid s))"
    unfolding presence_dropped_def
    by (rule exI [of _ "presence (snd (isReachable gid s))"])
      (auto simp: isReachable_def getPresence_def reachableNow_def andThen_def split: option.split)
qed

lemma filterReachable_result:
  "fst (filterReachableGuardianIds gids s) = Inr (filter (reachableNow s) gids) \<and>
   presence_dropped s (snd (filterReachableGuardianIds gids s))"
proof (induction gids arbitrary: s)
  case Nil
  then show ?case
    by (simp add: presence_dropped_refl)
next
  case (Cons g gids)
  obtain s1 where 1: "isReachable g s = (Inr (reachableNow s g), s1)"
    using isReachable_result(1) [of g s] by (cases "isReachable g s") simp
  have d1: "presence_dropped s s1"
    using isReachable_result(2) [of s g] 1 by simp
  obtain s2 where 2: "filterReachableGuardianIds gids s1 = (Inr (filter (reachableNow s1) gids), s2)"
    using Cons.IH [of s1] by (cases "filterReachableGuardianIds gids s1") simp
  have "presence_dropped s1 s2"
    using Cons.IH [of s1] 2 by simp
  moreover have "filter (reachableNow s1) gids = filter (reachableNow s) gids"
    by (rule filter_cong) (simp_all add: presence_dropped_reachable [OF d1])
  ultimately show ?case
    using presence_dropped_trans [OF d1] by (simp add: andThen_def 1 2)
qed

lemma set_toSet [simp]: "set (toSet xs) = set xs"
  by (simp add: toSet_def)

text \<open>The guardians a dispatch round leaves out.\<close>

definition excludedFrom :: "id \<Rightarrow> sys \<Rightarrow> id \<Rightarrow> bool" where
  "excludedFrom jid s gid \<longleftrightarrow> (\<exists>a \<in> set (assignments s). a_jobId a = jid \<and> a_guardianId a = gid \<and>
     (a_status a \<in> set TERMINAL_ASSIGNMENT_STATUSES \<or>
      (a_replacesAssignmentId a = None \<and> takes_slot (a_status a))))"

lemma excluded_result:
  "\<exists>ex. getExcludedGuardianIds jid s = (Inr ex, s) \<and> (\<forall>g. g \<in> set ex \<longleftrightarrow> excludedFrom jid s g)"
  by (auto simp: getExcludedGuardianIds_def getTriedGuardianIds_def findMany_def excludedFrom_def
      takes_slot_def)

lemma listEligible_result:
  assumes "listEligibleGuardianIds d n ex s = (Inr cands, s')"
  shows "s' = s"
    and "gid \<in> set cands \<Longrightarrow> gid \<notin> set ex"
    and "gid \<in> set cands \<Longrightarrow>
      \<exists>g \<in> set (guardians s). g_id g = gid \<and> eligibleRow (normalizeDistrict d) s g"
proof -
  show "s' = s"
    using assms by (simp add: listEligibleGuardianIds_def)
  show "gid \<in> set cands \<Longrightarrow> gid \<notin> set ex"
    using assms by (auto simp: listEligibleGuardianIds_def Let_def)
  show "\<exists>g \<in> set (guardians s). g_id g = gid \<and> eligibleRow (normalizeDistrict d) s g"
    if "gid \<in> set cands"
    using assms that
    by (fastforce simp: listEligibleGuardianIds_def Let_def findMany_def dest: in_set_takeD)
qed

text \<open>
  A parallel round offers the job to guardians that are eligible in the district, reachable,
  not yet tried and not already on the job, at most as many as asked for.
\<close>

lemma pickParallel_spec:
  assumes "pickParallelReachableGuardians d jid n s = (Inr pk, s')"
  shows "length (pp_guardians pk) \<le> nat n"
    and "gid \<in> set (pp_guardians pk) \<Longrightarrow> reachableNow s gid \<and> \<not> excludedFrom jid s gid \<and>
      (\<exists>g \<in> set (guardians s). g_id g = gid \<and> eligibleRow (normalizeDistrict d) s g)"
    and "presence_dropped s s'"
proof -
  obtain ex where ex: "getExcludedGuardianIds jid s = (Inr ex, s)" "\<forall>g. g \<in> set ex \<longleftrightarrow> excludedFrom jid s g"
    using excluded_result by blast
  define cands where "cands = (case fst (listEligibleGuardianIds d (DISPATCH_POOL_SIZE (config s)) ex s) of
      Inl _ \<Rightarrow> [] | Inr c \<Rightarrow> c)"
  have cands: "listEligibleGuardianIds d (DISPATCH_POOL_SIZE (config s)) ex s = (Inr cands, s)"
    by (simp add: cands_def listEligibleGuardianIds_def)
  obtain s1 where 1: "filterReachableGuardianIds cands s = (Inr (filter (reachableNow s) cands), s1)"
      "presence_dropped s s1"
    using filterReachable_result [of cands s] by (cases "filterReachableGuardianIds cands s") simp
  have res: "pp_guardians pk = take (nat n) (filter (\<lambda>g. g \<in> set (filter (reachableNow s) cands)) cands)"
      "s' = s1"
    using assms by (auto simp: pickParallelReachableGuardians_def andThen_def ex cands 1)
  show "length (pp_guardians pk) \<le> nat n"
    by (simp add: res)
  show "presence_dropped s s'"
    using 1(2) res by simp
  assume "gid \<in> set (pp_guardians pk)"
  then have "gid \<in> set cands" "reachableNow s gid"
    unfolding res by (auto dest: in_set_takeD)
  then show "reachableNow s gid \<and> \<not> excludedFrom jid s gid \<and>
      (\<exists>g \<in> set (guardians s). g_id g = gid \<and> eligibleRow (normalizeDistrict d) s g)"
    using listEligible_result(2,3) [OF cands, of gid] ex(2) by auto
qed

end
