(* ===== verification/Policies.thy ===== *)
theory Policies
  imports Guardians
begin

text \<open>
  Who may do what, and the small lookups other services start with: the policies of
  \<open>common/policies\<close>, the services catalogue (\<open>services/services.service.ts\<close>), the booking
  settings and the job reference numbers.
\<close>

section \<open>Resource ownership\<close>

definition isOps :: "actor \<Rightarrow> bool" where
  "isOps actor \<longleftrightarrow> SUPER_ADMIN \<in> set (roles actor) \<or> OPS_ADMIN \<in> set (roles actor)"

definition assertOrgMember :: "id \<Rightarrow> actor \<Rightarrow> unit op" where
  "assertOrgMember org actor =
     (if isOps actor then ok () else
      let active = (case activeOrgId actor of Some a \<Rightarrow> Some a | None \<Rightarrow> orgId actor) in
      andThen (if active = Some org \<or> org \<in> set (organizationIds actor)
               then reads (\<lambda>s. findFirst (\<lambda>m. m_organizationId m = org \<and> m_userId m = sub actor) (orgUsers s))
               else ok None) (\<lambda>membership.
      ensure (membership \<noteq> None) (Forbidden ''No access to this organization'')))"

definition assertGuardianSelf :: "id \<Rightarrow> actor \<Rightarrow> unit op" where
  "assertGuardianSelf guardianId actor =
     (if isOps actor then ok ()
      else ensure (actorGuardianId actor = Some guardianId) (Forbidden ''Guardian scope mismatch''))"

definition assertJobAccess :: "id \<Rightarrow> actor \<Rightarrow> job op" where
  "assertJobAccess jobId actor =
     andThen (reads (jobOf jobId)) (\<lambda>found.
     andThen (orThrow found (NotFound ''Job not found'')) (\<lambda>j.
     if isOps actor then ok j else
     andThen (case actorGuardianId actor of None \<Rightarrow> ok None
       | Some gid \<Rightarrow> reads (\<lambda>s. findFirst (\<lambda>a. a_jobId a = jobId \<and> a_guardianId a = gid)
           (assignments s))) (\<lambda>own.
     if own \<noteq> None then ok j
     else andThen (assertOrgMember (j_organizationId j) actor) (\<lambda>_. ok j))))"

section \<open>Organizations and their primary location\<close>

definition orgOf :: "id \<Rightarrow> sys \<Rightarrow> org_row option" where
  "orgOf oid s = findUnique o_id oid (orgs s)"

definition assertOrgVerifiedForMutations :: "id \<Rightarrow> unit op" where
  "assertOrgVerifiedForMutations org =
     andThen (reads (orgOf org)) (\<lambda>found.
     andThen (orThrow found (Forbidden ''Organization not found'')) (\<lambda>o1.
     ensure (o_verificationStatus o1 = V_VERIFIED) (Forbidden ''ORG_PENDING_VERIFICATION'')))"

definition getOrgVerificationStatus :: "id \<Rightarrow> verification_status option op" where
  "getOrgVerificationStatus org = reads (\<lambda>s. map_option o_verificationStatus (orgOf org s))"

definition getPrimaryLocation :: "id \<Rightarrow> location_row option op" where
  "getPrimaryLocation org = reads (\<lambda>s. findFirst (\<lambda>_. True) (orderByAsc l_createdAt
     (findMany (\<lambda>l. l_organizationId l = org \<and> l_isPrimary l) (locations s))))"

record booking_eligibility =
  canBookJobs :: bool
  needsSiteSetup :: bool
  primaryLocationId :: "id option"

definition getBookingEligibility :: "id \<Rightarrow> booking_eligibility op" where
  "getBookingEligibility org =
     andThen (reads (orgOf org)) (\<lambda>found.
     andThen (getPrimaryLocation org) (\<lambda>primary.
     let orgVerified = (map_option o_verificationStatus found = Some V_VERIFIED);
         primaryPinned = (map_option l_coordinatePrecision primary = Some USER_PINNED)
     in ok \<lparr>canBookJobs = (orgVerified \<and> primaryPinned),
            needsSiteSetup = (orgVerified \<and> \<not> primaryPinned),
            primaryLocationId = map_option l_id primary\<rparr>))"

definition assertCanBookJobs :: "id \<Rightarrow> unit op" where
  "assertCanBookJobs org =
     andThen (reads (orgOf org)) (\<lambda>found.
     andThen (orThrow found (Forbidden ''Organization not found'')) (\<lambda>o1.
     andThen (ensure (o_verificationStatus o1 = V_VERIFIED) (Forbidden ''ORG_PENDING_VERIFICATION'')) (\<lambda>_.
     andThen (getPrimaryLocation org) (\<lambda>primary.
     ensure (case primary of None \<Rightarrow> False | Some l \<Rightarrow> l_coordinatePrecision l = USER_PINNED)
       (Forbidden ''PRIMARY_LOCATION_SETUP_REQUIRED'')))))"

section \<open>Catalogue and settings\<close>

definition getByCode :: "job_type \<Rightarrow> service_row op" where
  "getByCode code =
     andThen (reads (\<lambda>s. findUnique sv_code code (services s))) (\<lambda>found.
     andThen (orThrow found (NotFound ''Service not found for type'')) (\<lambda>sv.
     andThen (ensure (sv_isActive sv) (NotFound ''Service not found for type'')) (\<lambda>_. ok sv)))"

record catalog_rate =
  cr_hourlyRate :: rat
  cr_currency :: string
  cr_serviceName :: string

definition getHourlyRateForJobType :: "job_type \<Rightarrow> catalog_rate op" where
  "getHourlyRateForJobType code = andThen (getByCode code) (\<lambda>sv.
     ok \<lparr>cr_hourlyRate = sv_hourlyRate sv, cr_currency = sv_currency sv, cr_serviceName = sv_name sv\<rparr>)"

definition getPolicy :: "booking_policy op" where
  "getPolicy = reads booking"

section \<open>Reference numbers\<close>

text \<open>
  Year, month and day of \<open>getUTCFullYear\<close>, \<open>getUTCMonth\<close> and \<open>getUTCDate\<close>: the proleptic
  Gregorian date of a day number, by 400-year eras that start on 1 March.
\<close>

definition utcDate :: "instant \<Rightarrow> int \<times> int \<times> int" where
  "utcDate t =
     (let z = t div 86400000 + 719468;
          era = z div 146097;
          doe = z mod 146097;
          yoe = (doe - doe div 1460 + doe div 36524 - doe div 146096) div 365;
          doy = doe - (365 * yoe + yoe div 4 - yoe div 100);
          mp = (5 * doy + 2) div 153;
          d = doy - (153 * mp + 2) div 5 + 1;
          m = (if mp < 10 then mp + 3 else mp - 9)
      in (yoe + era * 400 + (if m \<le> 2 then 1 else 0), m, d))"

definition ymd :: "instant \<Rightarrow> string" where
  "ymd t = (case utcDate t of (y, m, d) \<Rightarrow>
     showInt y @ padStart 2 (CHR ''0'') (showInt m) @ padStart 2 (CHR ''0'') (showInt d))"

definition startsWith :: "string \<Rightarrow> string \<Rightarrow> bool" where
  "startsWith pre str \<longleftrightarrow> take (length pre) str = pre"

definition nextReference :: "string op" where
  "nextReference = andThen now (\<lambda>t.
     let pre = ''JOB-'' @ ymd t in
     andThen (reads (\<lambda>s. countWhere (\<lambda>j. startsWith pre (j_referenceNumber j)) (jobs s))) (\<lambda>n.
     ok (pre @ padStart 4 (CHR ''0'') (showInt (n + 1)))))"

section \<open>Reads only\<close>

lemma assertOrgMember_state [simp]: "snd (assertOrgMember org actor s) = s"
  by (auto simp: assertOrgMember_def andThen_def ensure_def Let_def)

lemma assertGuardianSelf_state [simp]: "snd (assertGuardianSelf gid actor s) = s"
  by (simp add: assertGuardianSelf_def ensure_def)

lemma assertJobAccess_state [simp]: "snd (assertJobAccess jid actor s) = s"
proof -
  have "snd (andThen (assertOrgMember org actor) (\<lambda>_. ok j) s) = s" for org j
    using assertOrgMember_state [of org actor s]
    by (cases "assertOrgMember org actor s") (auto simp: andThen_def split: sum.split)
  then show ?thesis
    by (auto simp: assertJobAccess_def orThrow_def split: option.split)
qed

lemma assertOrgVerified_state [simp]: "snd (assertOrgVerifiedForMutations org s) = s"
  by (auto simp: assertOrgVerifiedForMutations_def orThrow_def ensure_def split: option.split)

lemma assertCanBookJobs_state [simp]: "snd (assertCanBookJobs org s) = s"
  by (auto simp: assertCanBookJobs_def orThrow_def ensure_def getPrimaryLocation_def
      split: option.split)

lemma getByCode_state [simp]: "snd (getByCode code s) = s"
  by (auto simp: getByCode_def orThrow_def ensure_def split: option.split)

lemma getHourlyRate_state [simp]: "snd (getHourlyRateForJobType code s) = s"
  using getByCode_state [of code s]
  by (cases "getByCode code s") (auto simp: getHourlyRateForJobType_def andThen_def split: sum.split)

lemma nextReference_state [simp]: "snd (nextReference s) = s"
  by (simp add: nextReference_def Let_def)

text \<open>
  Booking is open exactly to the organizations the eligibility view reports as able to book.
\<close>

lemma assertCanBookJobs_iff:
  "fst (assertCanBookJobs org s) = Inr () \<longleftrightarrow>
     (\<exists>e. fst (getBookingEligibility org s) = Inr e \<and> canBookJobs e)"
  by (cases "orgOf org s")
    (auto simp: assertCanBookJobs_def getBookingEligibility_def getPrimaryLocation_def ensure_def
      Let_def split: option.split)

text \<open>An operator passes every ownership check; anyone else needs a membership row.\<close>

lemma assertOrgMember_ok_iff:
  "fst (assertOrgMember org actor s) = Inr () \<longleftrightarrow> isOps actor \<or>
     ((org \<in> set (organizationIds actor) \<or>
       (case activeOrgId actor of Some a \<Rightarrow> Some a | None \<Rightarrow> orgId actor) = Some org) \<and>
      (\<exists>m \<in> set (orgUsers s). m_organizationId m = org \<and> m_userId m = sub actor))"
  by (auto simp: assertOrgMember_def Let_def ensure_def findFirst_None_iff dest: findFirst_SomeD)

section \<open>Pages\<close>

text \<open>
  \<open>common/dto/pagination-query.dto.ts\<close>: the request asks for a page and its length (both at least
  one) and for the direction of the order; the answer says whether there is more.
\<close>

record pagination =
  pg_page :: int
  pg_limit :: int
  pg_ascending :: bool

record page_meta =
  pm_page :: int
  pm_limit :: int
  pm_total :: int
  pm_hasMore :: bool

definition paginationSkipTake :: "pagination \<Rightarrow> int \<times> int" where
  "paginationSkipTake dto = ((pg_page dto - 1) * pg_limit dto, pg_limit dto)"

definition skipTake :: "pagination \<Rightarrow> 'a list \<Rightarrow> 'a list" where
  "skipTake dto rows = (case paginationSkipTake dto of (skip, n) \<Rightarrow> take (nat n) (drop (nat skip) rows))"

definition buildPaginatedMeta :: "int \<Rightarrow> int \<Rightarrow> int \<Rightarrow> page_meta" where
  "buildPaginatedMeta page limit rowCount =
     \<lparr>pm_page = page, pm_limit = limit, pm_total = rowCount, pm_hasMore = (page * limit < rowCount)\<rparr>"

text \<open>What every paged listing answers.\<close>

definition paginated :: "pagination \<Rightarrow> 'a list \<Rightarrow> 'a list \<times> page_meta" where
  "paginated dto rows =
     (skipTake dto rows, buildPaginatedMeta (pg_page dto) (pg_limit dto) (int (length rows)))"

text \<open>The pages of a listing are its rows, none twice and none left out.\<close>

lemma pages_cover:
  assumes "0 < n"
  shows "concat (List.map (\<lambda>k. skipTake \<lparr>pg_page = int k + 1, pg_limit = int n, pg_ascending = asc\<rparr> rows)
    [0..<m]) = take (m * n) rows"
proof (induction m)
  case (Suc m)
  have "int m * int n = int (m * n)"
    by simp
  then have "skipTake \<lparr>pg_page = int m + 1, pg_limit = int n, pg_ascending = asc\<rparr> rows =
      take n (drop (m * n) rows)"
    by (simp add: skipTake_def paginationSkipTake_def del: of_nat_mult)
  then show ?case
    using Suc by (simp add: take_add [symmetric] add.commute)
qed simp

lemma hasMore_iff:
  assumes "0 < pg_page dto" and "0 < pg_limit dto"
  shows "pm_hasMore (snd (paginated dto rows)) \<longleftrightarrow>
    skipTake (dto\<lparr>pg_page := pg_page dto + 1\<rparr>) rows \<noteq> []"
  using assms
  by (auto simp: paginated_def buildPaginatedMeta_def skipTake_def paginationSkipTake_def
      nat_less_iff not_le zero_le_mult_iff)

end
