(* ===== verification/Calculation.thy ===== *)
theory Calculation
  imports Policies
begin

text \<open>
  The arithmetic of money: which price, billing policy and pay policy apply
  (\<open>resolvePrice\<close>, \<open>resolveBillingPolicy\<close>, \<open>resolvePayPolicy\<close>), how many hours are billed
  and paid (\<open>billing-calculation.service.ts\<close>, \<open>guardian-payroll-calculation.util.ts\<close>),
  surcharges and the revenue split (\<open>booking-policy.config.ts\<close>).  Amounts and hours are exact
  rationals; rounding to the scale of the database column happens outside the code.
\<close>

section \<open>Resolution by priority\<close>

text \<open>
  The three lookups share a contract: among the rows that are in force and apply to the query,
  one of the highest priority is taken.  Columns of type \<open>@db.Date\<close> are compared by day.
\<close>

locale priority_resolution =
  fixes priority :: "'r \<Rightarrow> int"
    and matches :: "'q \<Rightarrow> 'r \<Rightarrow> bool"
    and resolve :: "'q \<Rightarrow> 'r list \<Rightarrow> 'r option"
  assumes resolved: "resolve q rows = Some r \<Longrightarrow> r \<in> set rows \<and> matches q r"
    and unresolved: "resolve q rows = None \<Longrightarrow> r \<in> set rows \<Longrightarrow> \<not> matches q r"
    and highest: "resolve q rows = Some r \<Longrightarrow> r' \<in> set rows \<Longrightarrow> matches q r' \<Longrightarrow>
      priority r' \<le> priority r"
begin

text \<open>The priority of the answer does not depend on the order of the table.\<close>

lemma order_irrelevant:
  assumes "set rows = set rows'" and "resolve q rows = Some r" and "resolve q rows' = Some r'"
  shows "priority r = priority r'"
  using assms resolved highest by (metis order_antisym)

text \<open>A catch-all row makes the lookup total.\<close>

lemma default_row:
  assumes "d \<in> set rows" and "matches q d"
  shows "\<exists>r. resolve q rows = Some r \<and> priority d \<le> priority r"
  using assms unresolved highest by (cases "resolve q rows") auto

text \<open>An override of strictly higher priority wins.\<close>

lemma override_wins:
  assumes "ov \<in> set rows" and "matches q ov"
    and "\<And>r. r \<in> set rows \<Longrightarrow> matches q r \<Longrightarrow> r \<noteq> ov \<Longrightarrow> priority r < priority ov"
  shows "resolve q rows = Some ov"
  using assms default_row [of ov rows q] resolved by (metis linorder_not_less)

end

text \<open>The shape all three lookups have in the code.\<close>

definition firstByPriority :: "('r \<Rightarrow> int) \<Rightarrow> ('r \<Rightarrow> bool) \<Rightarrow> ('r \<Rightarrow> bool) \<Rightarrow> 'r list \<Rightarrow> 'r option" where
  "firstByPriority priority inForce applies rows =
     find applies (orderByDesc priority (findMany inForce rows))"

lemma sorted_head:
  assumes "sorted (List.map k xs)" and "find p xs = Some r" and "r' \<in> set xs" and "p r'"
  shows "k r \<le> k r'"
  using assms by (induction xs) (auto split: if_splits)

lemma firstByPriority_resolution:
  "priority_resolution priority (\<lambda>q r. inForce q r \<and> applies q r)
     (\<lambda>q. firstByPriority priority (inForce q) (applies q))"
proof
  fix q r rows
  assume "firstByPriority priority (inForce q) (applies q) rows = Some r"
  then show "r \<in> set rows \<and> inForce q r \<and> applies q r"
    by (auto simp: firstByPriority_def findMany_def find_Some_iff dest: nth_mem)
next
  fix q r rows
  assume "firstByPriority priority (inForce q) (applies q) rows = None" "r \<in> set rows"
  then show "\<not> (inForce q r \<and> applies q r)"
    by (auto simp: firstByPriority_def findMany_def find_None_iff)
next
  fix q r r' rows
  assume *: "firstByPriority priority (inForce q) (applies q) rows = Some r"
    and "r' \<in> set rows" and "inForce q r' \<and> applies q r'"
  then have "- priority r \<le> - priority r'"
    by (intro sorted_head [where xs = "orderByDesc priority (findMany (inForce q) rows)"
          and p = "applies q"])
      (auto simp: firstByPriority_def orderByDesc_def findMany_def)
  then show "priority r' \<le> priority r" by simp
qed

definition dayOf :: "instant \<Rightarrow> instant" where
  "dayOf t = t div 86400000 * 86400000"

text \<open>\<open>Number(x.toFixed(digits))\<close>: the nearest number with so many decimals, halves away from zero.\<close>

definition toFixed :: "nat \<Rightarrow> rat \<Rightarrow> rat" where
  "toFixed digits x =
     (let rounded = of_int \<lfloor>\<bar>x\<bar> * 10 ^ digits + 1 / 2\<rfloor> / 10 ^ digits
      in if x < 0 then - rounded else rounded)"

definition inForceAt :: "instant \<Rightarrow> instant \<Rightarrow> instant option \<Rightarrow> bool" where
  "inForceAt start validFrom validUntil \<longleftrightarrow>
     validFrom \<le> dayOf start \<and> (case validUntil of None \<Rightarrow> True | Some u \<Rightarrow> dayOf start \<le> u)"

text \<open>A nullable column that restricts a row: null matches everything.\<close>

definition unsetOr :: "'a option \<Rightarrow> 'a \<Rightarrow> bool" where
  "unsetOr col x \<longleftrightarrow> (case col of None \<Rightarrow> True | Some y \<Rightarrow> y = x)"

section \<open>Billing policy\<close>

definition billingPolicyApplies :: "id \<times> job_type \<times> instant \<Rightarrow> billing_policy \<Rightarrow> bool" where
  "billingPolicyApplies q p = (case q of (org, jt, start) \<Rightarrow>
     unsetOr (bp_organizationId p) org \<and> unsetOr (bp_jobType p) jt)"

definition resolveBillingPolicy :: "id \<Rightarrow> job_type \<Rightarrow> instant \<Rightarrow> billing_policy op" where
  "resolveBillingPolicy organizationId jobType scheduledStart =
     andThen (reads (\<lambda>s. firstByPriority bp_priority
       (\<lambda>p. inForceAt scheduledStart (bp_validFrom p) (bp_validUntil p))
       (billingPolicyApplies (organizationId, jobType, scheduledStart)) (billingPolicies s))) (\<lambda>found.
     orThrow found (NotFound ''No billing policy matched''))"

interpretation billing_policy: priority_resolution bp_priority
  "\<lambda>q p. (case q of (_, _, start) \<Rightarrow> inForceAt start (bp_validFrom p) (bp_validUntil p)) \<and>
     billingPolicyApplies q p"
  "\<lambda>q. firstByPriority bp_priority
     (\<lambda>p. case q of (_, _, start) \<Rightarrow> inForceAt start (bp_validFrom p) (bp_validUntil p))
     (billingPolicyApplies q)"
  by (rule firstByPriority_resolution)

section \<open>Pay policy\<close>

record resolved_pay_policy =
  rp_model :: pay_model
  rp_minimumHours :: rat
  rp_applyOnEarlyRelease :: bool

definition payPolicyApplies :: "job_type \<times> employment_type \<times> instant \<Rightarrow> pay_policy \<Rightarrow> bool" where
  "payPolicyApplies q p = (case q of (jt, et, effectiveAt) \<Rightarrow>
     unsetOr (pp_jobType p) jt \<and> unsetOr (pp_employmentType p) et)"

definition resolvePayPolicy :: "job_type \<Rightarrow> employment_type \<Rightarrow> instant \<Rightarrow> resolved_pay_policy op" where
  "resolvePayPolicy jobType employmentType effectiveAt =
     andThen (reads (\<lambda>s. firstByPriority pp_priority
       (\<lambda>p. inForceAt effectiveAt (pp_validFrom p) (pp_validUntil p))
       (payPolicyApplies (jobType, employmentType, effectiveAt)) (payPolicies s))) (\<lambda>found.
     andThen (orThrow found (NotFound ''No pay policy matched'')) (\<lambda>p.
     ok \<lparr>rp_model = pp_model p, rp_minimumHours = pp_minimumHours p,
         rp_applyOnEarlyRelease = pp_applyOnEarlyRelease p\<rparr>))"

definition fallbackPayPolicy :: "resolved_pay_policy op" where
  "fallbackPayPolicy = reads (\<lambda>s. \<lparr>rp_model = PM_MINIMUM_GUARANTEED,
     rp_minimumHours = GUARDIAN_PAY_MINIMUM_HOURS_FALLBACK (config s), rp_applyOnEarlyRelease = True\<rparr>)"

interpretation pay_policy: priority_resolution pp_priority
  "\<lambda>q p. (case q of (_, _, t) \<Rightarrow> inForceAt t (pp_validFrom p) (pp_validUntil p)) \<and>
     payPolicyApplies q p"
  "\<lambda>q. firstByPriority pp_priority
     (\<lambda>p. case q of (_, _, t) \<Rightarrow> inForceAt t (pp_validFrom p) (pp_validUntil p))
     (payPolicyApplies q)"
  by (rule firstByPriority_resolution)

section \<open>Price\<close>

text \<open>An empty district is falsy in JavaScript, so it restricts nothing.\<close>

definition pricingRuleApplies :: "id \<times> string \<times> job_type \<times> instant \<Rightarrow> pricing_rule \<Rightarrow> bool" where
  "pricingRuleApplies q r = (case q of (org, district, jt, start) \<Rightarrow>
     unsetOr (pr_organizationId r) org \<and>
     (pr_district r = Some '''' \<or> unsetOr (pr_district r) district) \<and>
     unsetOr (pr_jobType r) jt \<and> (pr_hourlyRate r \<noteq> None \<or> pr_flatFee r \<noteq> None))"

record price =
  pc_pricingModel :: pricing_model
  pc_hourlyRate :: rat
  pc_flatFee :: "rat option"
  pc_currency :: string
  pc_serviceName :: string

definition resolvePrice :: "id \<Rightarrow> string \<Rightarrow> job_type \<Rightarrow> instant \<Rightarrow> price op" where
  "resolvePrice organizationId district jobType scheduledStart =
     andThen (getHourlyRateForJobType jobType) (\<lambda>catalog.
     andThen (reads (\<lambda>s. firstByPriority pr_priority
       (\<lambda>r. inForceAt scheduledStart (pr_validFrom r) (pr_validUntil r))
       (pricingRuleApplies (organizationId, district, jobType, scheduledStart)) (pricingRules s)))
       (\<lambda>override.
     ok (case override of
           None \<Rightarrow> \<lparr>pc_pricingModel = HOURLY, pc_hourlyRate = cr_hourlyRate catalog,
             pc_flatFee = None, pc_currency = cr_currency catalog,
             pc_serviceName = cr_serviceName catalog\<rparr>
         | Some r \<Rightarrow> \<lparr>pc_pricingModel = pr_pricingModel r,
             pc_hourlyRate = (case pr_hourlyRate r of None \<Rightarrow> cr_hourlyRate catalog | Some h \<Rightarrow> h),
             pc_flatFee = pr_flatFee r, pc_currency = pr_currency r,
             pc_serviceName = cr_serviceName catalog\<rparr>)))"

interpretation pricing_rule: priority_resolution pr_priority
  "\<lambda>q r. (case q of (_, _, _, start) \<Rightarrow> inForceAt start (pr_validFrom r) (pr_validUntil r)) \<and>
     pricingRuleApplies q r"
  "\<lambda>q. firstByPriority pr_priority
     (\<lambda>r. case q of (_, _, _, start) \<Rightarrow> inForceAt start (pr_validFrom r) (pr_validUntil r))
     (pricingRuleApplies q)"
  by (rule firstByPriority_resolution)

lemma resolveBillingPolicy_state [simp]: "snd (resolveBillingPolicy org jt t s) = s"
  by (simp add: resolveBillingPolicy_def orThrow_def split: option.split)

lemma resolvePayPolicy_state [simp]: "snd (resolvePayPolicy jt et t s) = s"
  by (simp add: resolvePayPolicy_def orThrow_def split: option.split)

lemma resolvePrice_state [simp]: "snd (resolvePrice org d jt t s) = s"
  using getHourlyRate_state [of jt s]
  by (cases "getHourlyRateForJobType jt s") (auto simp: resolvePrice_def andThen_def split: sum.split)

section \<open>Durations\<close>

definition hoursBetween :: "instant \<Rightarrow> instant \<Rightarrow> rat" where
  "hoursBetween start end = max 0 (rat_of_int (end - start) / 3600000)"

record billable_duration =
  bd_scheduledHours :: rat
  bd_actualHours :: rat
  bd_billableHours :: rat
  bd_billingBasis :: string
  bd_minimumHours :: rat

definition computeBillableDuration ::
  "billing_model \<Rightarrow> rat \<Rightarrow> instant \<Rightarrow> instant \<Rightarrow> instant \<Rightarrow> instant \<Rightarrow> billable_duration" where
  "computeBillableDuration policyModel minimumHours scheduledStart scheduledEnd arrivedAt completedAt =
     (let scheduledHours = hoursBetween scheduledStart scheduledEnd;
          actualHours = hoursBetween arrivedAt completedAt;
          cappedActual = min scheduledHours actualHours;
          billableHours = (case policyModel of
              BOOKED_BLOCK \<Rightarrow> scheduledHours
            | BM_ACTUAL_TIME \<Rightarrow> cappedActual
            | BM_MINIMUM_GUARANTEED \<Rightarrow> max minimumHours cappedActual)
      in \<lparr>bd_scheduledHours = scheduledHours, bd_actualHours = actualHours,
          bd_billableHours = billableHours, bd_billingBasis = billing_model_name policyModel,
          bd_minimumHours = minimumHours\<rparr>)"

definition effectivePayModelForEarning :: "pay_model \<Rightarrow> bool \<Rightarrow> bool \<Rightarrow> pay_model" where
  "effectivePayModelForEarning policyModel earlyReleaseApproved applyOnEarlyRelease =
     (if earlyReleaseApproved \<and> \<not> applyOnEarlyRelease then PM_ACTUAL_TIME else policyModel)"

record payable_duration =
  pd_scheduledHours :: rat
  pd_actualHours :: rat
  pd_payableHours :: rat
  pd_payBasis :: string
  pd_minimumHours :: rat

definition computePayableDuration ::
  "pay_model \<Rightarrow> rat \<Rightarrow> instant \<Rightarrow> instant \<Rightarrow> instant \<Rightarrow> instant \<Rightarrow> bool \<Rightarrow> bool \<Rightarrow> payable_duration" where
  "computePayableDuration policyModel minimumHours scheduledStart scheduledEnd arrivedAt completedAt
       earlyReleaseApproved applyOnEarlyRelease =
     (let scheduledHours = hoursBetween scheduledStart scheduledEnd;
          actualHours = hoursBetween arrivedAt completedAt;
          cappedActual = min scheduledHours actualHours;
          effectiveModel = effectivePayModelForEarning policyModel earlyReleaseApproved applyOnEarlyRelease;
          payableHours = (case effectiveModel of
              PM_ACTUAL_TIME \<Rightarrow> cappedActual
            | PM_MINIMUM_GUARANTEED \<Rightarrow> max minimumHours cappedActual);
          payBasis = (if earlyReleaseApproved \<and> \<not> applyOnEarlyRelease \<and> policyModel \<noteq> effectiveModel
            then pay_model_name policyModel @ ''_EARLY_RELEASE_ACTUAL''
            else pay_model_name effectiveModel)
      in \<lparr>pd_scheduledHours = scheduledHours, pd_actualHours = actualHours,
          pd_payableHours = payableHours, pd_payBasis = payBasis, pd_minimumHours = minimumHours\<rparr>)"

definition computePayableHours :: "instant \<Rightarrow> instant \<Rightarrow> instant \<Rightarrow> instant \<Rightarrow> rat" where
  "computePayableHours scheduledStart scheduledEnd arrivedAt completedAt =
     pd_payableHours (computePayableDuration PM_ACTUAL_TIME 0 scheduledStart scheduledEnd
       arrivedAt completedAt False True)"

section \<open>Surcharges\<close>

definition getUTCHours :: "instant \<Rightarrow> int" where
  "getUTCHours t = t div 3600000 mod 24"

text \<open>The hours \<open>isNightShift\<close> looks for.\<close>

definition nightHour :: "int \<Rightarrow> bool" where
  "nightHour hour \<longleftrightarrow> hour \<ge> 22 \<or> hour < 6"

text \<open>The loop: the cursor advances by an hour, minutes unchanged.\<close>

function isNightShift :: "instant \<Rightarrow> instant \<Rightarrow> bool" where
  "isNightShift cursor end =
     (if cursor < end
      then if nightHour (getUTCHours cursor) then True else isNightShift (cursor + 3600000) end
      else False)"
  by pat_completeness auto
termination
  by (relation "measure (\<lambda>(cursor, end). nat (end - cursor))") auto

declare isNightShift.simps [simp del]

definition computeSurchargeMultiplier ::
  "instant \<Rightarrow> instant \<Rightarrow> booking_policy \<Rightarrow> bool \<Rightarrow> rat \<times> string list" where
  "computeSurchargeMultiplier scheduledStart scheduledEnd policy isPublicHoliday =
     (let night = isNightShift scheduledStart scheduledEnd;
          additive = (if night then nightSurchargeMinPct policy else 0) +
                     (if isPublicHoliday then holidaySurchargeMinPct policy else 0);
          reasons = (if night then [''night_shift''] else []) @
                    (if isPublicHoliday then [''public_holiday''] else [])
      in (1 + additive, reasons))"

record revenue_split =
  rs_guardian :: rat
  rs_platform :: rat
  rs_gateway :: rat
  rs_reserve :: rat

definition computeRevenueSplit :: "rat \<Rightarrow> booking_policy \<Rightarrow> revenue_split" where
  "computeRevenueSplit grossAmount policy =
     \<lparr>rs_guardian = grossAmount * guardianSharePct policy,
      rs_platform = grossAmount * platformSharePct policy,
      rs_gateway = grossAmount * gatewaySharePct policy,
      rs_reserve = grossAmount * reserveSharePct policy\<rparr>"

section \<open>Invoice amounts\<close>

record amounts_input =
  ai_job :: job
  ai_arrivedAt :: "instant option"
  ai_completedAt :: "instant option"
  ai_earlyReleaseResolution :: "early_release_resolution option"
  ai_policy :: billing_policy
  ai_pricingModel :: pricing_model
  ai_hourlyRate :: "rat option"
  ai_flatFee :: "rat option"
  ai_replacementHandoff :: bool
  ai_bookingPolicy :: "booking_policy option"
  ai_surchargeMultiplier :: rat
  ai_surchargeReasons :: "string list"

record amounts_result =
  ar_duration :: billable_duration
  ar_subtotal :: rat
  ar_lineItems :: "line_item list"

text \<open>A line item without an amount is one that only informs (its text is left out).\<close>

definition info :: "string \<Rightarrow> line_item" where
  "info code = \<lparr>li_code = code, li_amount = None\<rparr>"

definition charge :: "string \<Rightarrow> rat \<Rightarrow> line_item" where
  "charge code amount = \<lparr>li_code = code, li_amount = Some amount\<rparr>"

definition invoiceDuration :: "amounts_input \<Rightarrow> instant \<Rightarrow> instant \<Rightarrow> billable_duration" where
  "invoiceDuration input arrivedAt completedAt =
     (let job = ai_job input; policy = ai_policy input;
          baseModel = (case j_billingPolicyModel job of None \<Rightarrow> bp_model policy | Some m \<Rightarrow> m);
          minimumHours = (case j_billingMinimumHours job of None \<Rightarrow> bp_minimumHours policy | Some h \<Rightarrow> h);
          prorationEnabled = (case j_billingProrationEnabled job of
              None \<Rightarrow> bp_prorationEnabled policy | Some b \<Rightarrow> b);
          earlyReleaseApproved = isEarlyReleaseApproved (ai_earlyReleaseResolution input);
          policyModel = effectiveBillingModelForInvoice baseModel earlyReleaseApproved prorationEnabled;
          duration = computeBillableDuration policyModel minimumHours (j_scheduledStart job)
            (j_scheduledEnd job) arrivedAt completedAt
      in if earlyReleaseApproved \<and> prorationEnabled \<and> policyModel \<noteq> baseModel
         then duration\<lparr>bd_billingBasis := billing_model_name baseModel @ ''_PRORATED_ACTUAL''\<rparr>
         else duration)"

definition informationItems :: "amounts_input \<Rightarrow> line_item list" where
  "informationItems input =
     (let prorationEnabled = (case j_billingProrationEnabled (ai_job input) of
            None \<Rightarrow> bp_prorationEnabled (ai_policy input) | Some b \<Rightarrow> b)
      in [info ''scheduled_window'', info ''actual_on_site'', info ''billing_basis''] @
         (if isEarlyReleaseApproved (ai_earlyReleaseResolution input) \<and> prorationEnabled
          then [info ''early_release''] else []) @
         (if ai_replacementHandoff input then [info ''replacement_handoff''] else []) @
         [info ''billable_hours''])"

definition splitItems :: "rat \<Rightarrow> booking_policy \<Rightarrow> line_item list" where
  "splitItems gross policy =
     (let split = computeRevenueSplit gross policy
      in [charge ''split_guardian'' (rs_guardian split), charge ''split_platform'' (rs_platform split),
          charge ''split_gateway'' (rs_gateway split), charge ''split_reserve'' (rs_reserve split)])"

definition computeInvoiceAmounts :: "amounts_input \<Rightarrow> http_error + amounts_result" where
  "computeInvoiceAmounts input =
     (case (ai_arrivedAt input, ai_completedAt input) of
        (Some arrivedAt, Some completedAt) \<Rightarrow>
          (let duration = invoiceDuration input arrivedAt completedAt;
               guardians = rat_of_int (j_requestedGuardianCount (ai_job input));
               items = informationItems input
           in case (ai_pricingModel input, ai_hourlyRate input, ai_flatFee input) of
                (HOURLY, Some hourlyRate, _) \<Rightarrow>
                  (let effectiveRate = hourlyRate * ai_surchargeMultiplier input;
                       grossService = effectiveRate * bd_billableHours duration * guardians
                   in Inr \<lparr>ar_duration = duration, ar_subtotal = grossService,
                        ar_lineItems = items @ [charge ''service'' grossService] @
                          (if ai_surchargeReasons input \<noteq> [] then [info ''surcharge''] else []) @
                          (case ai_bookingPolicy input of None \<Rightarrow> []
                           | Some policy \<Rightarrow> splitItems grossService policy)\<rparr>)
              | (FLAT, _, Some flatFee) \<Rightarrow>
                  Inr \<lparr>ar_duration = duration, ar_subtotal = flatFee * guardians,
                    ar_lineItems = items @ [charge ''service'' (flatFee * guardians)]\<rparr>
              | _ \<Rightarrow> Inl (NotFound ''Pricing rule has no applicable rate''))
      | _ \<Rightarrow> Inl (BadRequest ''Invoice requires assignment arrivedAt and completedAt''))"

section \<open>Facts\<close>

lemma hoursBetween_nonneg [simp]: "0 \<le> hoursBetween a b"
  by (simp add: hoursBetween_def)

lemma hoursBetween_mono: "b \<le> c \<Longrightarrow> hoursBetween a b \<le> hoursBetween a c"
  unfolding hoursBetween_def by (intro max.mono order_refl divide_right_mono) simp_all

text \<open>What is billed never exceeds the booked window, except by the guaranteed minimum.\<close>

lemma billable_hours:
  "bd_billableHours (computeBillableDuration m minH ss se ar co) =
     (case m of BOOKED_BLOCK \<Rightarrow> hoursBetween ss se
      | BM_ACTUAL_TIME \<Rightarrow> min (hoursBetween ss se) (hoursBetween ar co)
      | BM_MINIMUM_GUARANTEED \<Rightarrow> max minH (min (hoursBetween ss se) (hoursBetween ar co)))"
  "bd_scheduledHours (computeBillableDuration m minH ss se ar co) = hoursBetween ss se"
  "bd_actualHours (computeBillableDuration m minH ss se ar co) = hoursBetween ar co"
  by (simp_all add: computeBillableDuration_def Let_def)

lemma payable_hours:
  "pd_payableHours (computePayableDuration m minH ss se ar co er ap) =
     (case effectivePayModelForEarning m er ap of
        PM_ACTUAL_TIME \<Rightarrow> min (hoursBetween ss se) (hoursBetween ar co)
      | PM_MINIMUM_GUARANTEED \<Rightarrow> max minH (min (hoursBetween ss se) (hoursBetween ar co)))"
  "pd_scheduledHours (computePayableDuration m minH ss se ar co er ap) = hoursBetween ss se"
  "pd_actualHours (computePayableDuration m minH ss se ar co er ap) = hoursBetween ar co"
  by (simp_all add: computePayableDuration_def Let_def)

lemma min_max_bounds:
  fixes a b m :: "'a::linorder"
  shows "min a b \<le> a" "min a b \<le> b" "m \<le> max m (min a b)" "max m (min a b) \<le> max m a"
  by (simp_all add: max.coboundedI2 min.coboundedI1)

lemma split_total:
  "rs_guardian (computeRevenueSplit x p) + rs_platform (computeRevenueSplit x p) +
   rs_gateway (computeRevenueSplit x p) + rs_reserve (computeRevenueSplit x p) =
     x * (guardianSharePct p + platformSharePct p + gatewaySharePct p + reserveSharePct p)"
  by (simp add: computeRevenueSplit_def distrib_left)

text \<open>The loop samples the shift at its start and every full hour after it.\<close>

lemma isNightShift_samples:
  "isNightShift start end \<longleftrightarrow>
     (\<exists>k::nat. start + int k * 3600000 < end \<and> nightHour (getUTCHours (start + int k * 3600000)))"
proof (induction start "end" rule: isNightShift.induct)
  case (1 c e)
  let ?P = "\<lambda>c (k::nat). c + int k * 3600000 < e \<and> nightHour (getUTCHours (c + int k * 3600000))"
  have split: "(\<exists>k. ?P c k) \<longleftrightarrow> ?P c 0 \<or> (\<exists>k. ?P (c + 3600000) k)"
  proof -
    have "?P c (Suc k) \<longleftrightarrow> ?P (c + 3600000) k" for k
      by (simp add: algebra_simps)
    then show ?thesis
      by (metis not0_implies_Suc)
  qed
  show ?case
  proof (cases "c < e")
    case False
    then have "\<not> ?P c k" for k by auto
    then show ?thesis using False by (subst isNightShift.simps) auto
  next
    case True
    then show ?thesis
      using 1 split by (subst isNightShift.simps) auto
  qed
qed

end
