(* ===== verification/Payroll.thy ===== *)
theory Payroll
  imports Calculation
begin

text \<open>
  \<open>guardian-payroll/guardian-payroll.service.ts\<close>: earnings accrue when an invoice is paid, one
  per completed assignment, are cancelled with a voided invoice, and are paid out in payouts
  with an idempotency key.
\<close>

section \<open>Earnings\<close>

text \<open>The pay policy snapshot of the assignment, or the policy that applies now, or the fallback.\<close>

definition earningPolicy :: "assignment \<Rightarrow> guardian \<Rightarrow> job \<Rightarrow> resolved_pay_policy op" where
  "earningPolicy a g job =
     (case (a_payPolicyModel a, a_payMinimumHours a) of
        (Some m, Some h) \<Rightarrow> ok \<lparr>rp_model = m, rp_minimumHours = h,
          rp_applyOnEarlyRelease = (case a_payApplyOnEarlyRelease a of None \<Rightarrow> True | Some b \<Rightarrow> b)\<rparr>
      | _ \<Rightarrow> tryCatch (resolvePayPolicy (j_jobType job) (g_employmentType g)
               (case a_acceptedAt a of None \<Rightarrow> j_scheduledStart job | Some t \<Rightarrow> t))
             (\<lambda>_. fallbackPayPolicy))"

definition arrivedKey :: "assignment \<Rightarrow> int" where
  "arrivedKey a = (case a_arrivedAt a of None \<Rightarrow> 0 | Some t \<Rightarrow> t)"

text \<open>The completed assignments of a job with both times, in order of arrival.\<close>

definition completedAssignments :: "id \<Rightarrow> sys \<Rightarrow> assignment list" where
  "completedAssignments jobId s = orderByAsc arrivedKey (findMany (\<lambda>a. a_jobId a = jobId \<and>
     a_status a = A_COMPLETED \<and> a_arrivedAt a \<noteq> None \<and> a_completedAt a \<noteq> None) (assignments s))"

definition createEarning :: "earning \<Rightarrow> id op" where
  "createEarning e = (\<lambda>s. (Inr (nextId s),
     s\<lparr>nextId := Suc (nextId s), earnings := createRow (e\<lparr>e_id := nextId s, e_accruedAt := clock s\<rparr>) (earnings s)\<rparr>))"

definition accrueOne :: "invoice \<Rightarrow> job \<Rightarrow> assignment \<Rightarrow> id list op" where
  "accrueOne invoice job a =
     andThen (reads (\<lambda>s. findUnique e_assignmentId (a_id a) (earnings s))) (\<lambda>existing.
     if existing \<noteq> None then ok [] else
     andThen (reads (guardianOf (a_guardianId a))) (\<lambda>found.
     andThen (orThrow found (PrismaError ''P2025'')) (\<lambda>g.
     andThen (earningPolicy a g job) (\<lambda>policy.
     let duration = computePayableDuration (rp_model policy) (rp_minimumHours policy)
           (j_scheduledStart job) (j_scheduledEnd job) (arrivedKey a)
           (case a_completedAt a of None \<Rightarrow> 0 | Some t \<Rightarrow> t)
           (isEarlyReleaseApproved (a_earlyReleaseResolution a)) (rp_applyOnEarlyRelease policy);
         hourlyPayRate = (case a_hourlyPayRateAtCommit a of None \<Rightarrow> g_hourlyPayRate g | Some r \<Rightarrow> Some r);
         blocked = (hourlyPayRate = None);
         amount = (case hourlyPayRate of None \<Rightarrow> 0 | Some r \<Rightarrow> pd_payableHours duration * r)
     in andThen (createEarning \<lparr>e_id = 0, e_guardianId = a_guardianId a, e_assignmentId = a_id a,
          e_jobId = i_jobId invoice, e_invoiceId = i_id invoice,
          e_payableHours = pd_payableHours duration, e_actualHours = pd_actualHours duration,
          e_scheduledHours = pd_scheduledHours duration, e_payMinimumHours = pd_minimumHours duration,
          e_payPolicyModel = rp_model policy, e_payBasis = pd_payBasis duration,
          e_hourlyPayRate = hourlyPayRate, e_amount = amount, e_currency = g_payCurrency g,
          e_status = (if blocked then E_BLOCKED else E_PENDING_PAYOUT),
          e_payoutId = None, e_paidAt = None, e_accruedAt = 0\<rparr>) (\<lambda>eid.
        andThen (auditLog None (if blocked then ''GUARDIAN_EARNING_BLOCKED''
          else ''GUARDIAN_EARNING_ACCRUED'') eid) (\<lambda>_.
        ok [eid]))))))"

definition accrueForPaidInvoice :: "id \<Rightarrow> id list op" where
  "accrueForPaidInvoice invoiceId =
     andThen (reads (invoiceOf invoiceId)) (\<lambda>found.
     case found of None \<Rightarrow> ok []
     | Some invoice \<Rightarrow>
       if i_status invoice \<noteq> I_PAID then ok [] else
       andThen (reads (jobOf (i_jobId invoice))) (\<lambda>foundJob.
       andThen (orThrow foundJob (PrismaError ''P2025'')) (\<lambda>job.
       andThen (reads (completedAssignments (i_jobId invoice))) (\<lambda>completed.
       andThen (forCollect completed (accrueOne invoice job)) (\<lambda>ids.
       ok (concat ids))))))"

definition updateEarnings :: "(earning \<Rightarrow> bool) \<Rightarrow> (earning \<Rightarrow> earning) \<Rightarrow> unit op" where
  "updateEarnings p f = writes (\<lambda>s. s\<lparr>earnings := updateMany p f (earnings s)\<rparr>)"

definition cancelEarningsForInvoice :: "id \<Rightarrow> int op" where
  "cancelEarningsForInvoice invoiceId =
     andThen (reads (\<lambda>s. findMany (\<lambda>e. e_invoiceId e = invoiceId \<and> e_status e = E_PENDING_PAYOUT)
       (earnings s))) (\<lambda>pending.
     if pending = [] then
       andThen (reads (\<lambda>s. countWhere (\<lambda>e. e_invoiceId e = invoiceId \<and> e_status e = E_PAID) (earnings s)))
         (\<lambda>paid.
       andThen (whenever (paid > 0) (auditLog None ''GUARDIAN_EARNING_CANCEL_SKIPPED_PAID'' invoiceId)) (\<lambda>_.
       ok 0))
     else
       andThen (updateEarnings (\<lambda>e. e_invoiceId e = invoiceId \<and> e_status e = E_PENDING_PAYOUT)
         (\<lambda>e. e\<lparr>e_status := E_CANCELLED\<rparr>)) (\<lambda>_.
       andThen (auditLog None ''GUARDIAN_EARNINGS_CANCELLED'' invoiceId) (\<lambda>_.
       ok (int (length pending)))))"

record earnings_summary =
  es_currency :: string
  es_pendingPayout :: rat
  es_paidTotal :: rat
  es_blockedTotal :: rat
  es_cancelledTotal :: rat

definition sumAmounts :: "earning list \<Rightarrow> rat" where
  "sumAmounts es = sum_list (List.map e_amount es)"

record earnings_query =
  eq_page :: pagination
  eq_status :: "earning_status option"
  eq_from :: "instant option"
  eq_to :: "instant option"

definition earningsDateFilter :: "earnings_query \<Rightarrow> earning \<Rightarrow> bool" where
  "earningsDateFilter query e \<longleftrightarrow>
     (case eq_from query of None \<Rightarrow> True | Some t \<Rightarrow> t \<le> e_accruedAt e) \<and>
     (case eq_to query of None \<Rightarrow> True | Some t \<Rightarrow> e_accruedAt e \<le> t)"

text \<open>The period of the answer repeats that of the query.\<close>

definition getSummary :: "id \<Rightarrow> earnings_query \<Rightarrow> earnings_summary op" where
  "getSummary guardianId query = reads (\<lambda>s.
     let total = (\<lambda>st. sumAmounts (findMany (\<lambda>e. e_guardianId e = guardianId \<and>
           earningsDateFilter query e \<and> e_status e = st) (earnings s)))
     in \<lparr>es_currency = (case guardianOf guardianId s of None \<Rightarrow> ''RWF'' | Some g \<Rightarrow> g_payCurrency g),
         es_pendingPayout = total E_PENDING_PAYOUT, es_paidTotal = total E_PAID,
         es_blockedTotal = total E_BLOCKED, es_cancelledTotal = total E_CANCELLED\<rparr>)"

text \<open>The ledger: the earnings, each with the reference of its job.\<close>

definition getLedger :: "id \<Rightarrow> earnings_query \<Rightarrow> ((earning \<times> string option) list \<times> page_meta) op" where
  "getLedger guardianId query = reads (\<lambda>s.
     let rows = findMany (\<lambda>e. e_guardianId e = guardianId \<and>
           (case eq_status query of None \<Rightarrow> True | Some st \<Rightarrow> e_status e = st) \<and>
           earningsDateFilter query e) (earnings s);
         ordered = (if pg_ascending (eq_page query) then orderByAsc e_accruedAt rows else orderByDesc e_accruedAt rows);
         page = paginated (eq_page query) ordered
     in (List.map (\<lambda>e. (e, map_option j_referenceNumber (jobOf (e_jobId e) s))) (fst page), snd page))"

section \<open>Payouts\<close>

record create_payout_dto =
  cp_earningIds :: "id list"
  cp_provider :: payment_provider
  cp_externalTxnId :: "string option"
  cp_idempotencyKey :: string

definition payoutByKey :: "string \<Rightarrow> sys \<Rightarrow> payout option" where
  "payoutByKey key s = findUnique po_idempotencyKey key (payouts s)"

text \<open>\<open>create\<close> on the payout table; the unique index on the key rejects a second row.\<close>

definition insertPayout :: "payout \<Rightarrow> payout op" where
  "insertPayout p = (\<lambda>s. if payoutByKey (po_idempotencyKey p) s \<noteq> None
     then (Inl (PrismaError ''P2002''), s)
     else let row = p\<lparr>po_id := nextId s\<rparr> in
       (Inr row, s\<lparr>nextId := Suc (nextId s), payouts := createRow row (payouts s)\<rparr>))"

definition createPayout :: "id \<Rightarrow> create_payout_dto \<Rightarrow> id \<Rightarrow> payout op" where
  "createPayout guardianId dto actorUserId =
     andThen (reads (payoutByKey (cp_idempotencyKey dto))) (\<lambda>existing.
     case existing of Some p \<Rightarrow> ok p
     | None \<Rightarrow>
       andThen (reads (\<lambda>s. findMany (\<lambda>e. e_id e \<in> set (cp_earningIds dto) \<and>
         e_guardianId e = guardianId \<and> e_status e = E_PENDING_PAYOUT) (earnings s))) (\<lambda>es.
       andThen (ensure (length es = length (cp_earningIds dto))
         (BadRequest ''All earnings must belong to the guardian and be pending payout'')) (\<lambda>_.
       andThen (reads (guardianOf guardianId)) (\<lambda>found.
       andThen (orThrow found (NotFound ''Guardian not found'')) (\<lambda>g.
       andThen (ensure (\<not> sumAmounts es \<le> 0)
         (BadRequest ''Payout amount must be greater than zero'')) (\<lambda>_.
       tryCatch
         (andThen (transaction rollback (
            andThen (insertPayout \<lparr>po_id = 0, po_guardianId = guardianId, po_amount = sumAmounts es,
              po_currency = g_payCurrency g, po_provider = cp_provider dto, po_status = PO_PENDING,
              po_externalTxnId = cp_externalTxnId dto, po_idempotencyKey = cp_idempotencyKey dto,
              po_paidAt = None, po_createdByUserId = actorUserId\<rparr>) (\<lambda>created.
            andThen (updateEarnings (\<lambda>e. e_id e \<in> set (cp_earningIds dto))
              (\<lambda>e. e\<lparr>e_payoutId := Some (po_id created)\<rparr>)) (\<lambda>_.
            ok created)))) (\<lambda>payout.
          andThen (auditLog (Some actorUserId) ''GUARDIAN_PAYOUT_CREATED'' (po_id payout)) (\<lambda>_.
          ok payout)))
         (\<lambda>err. if err = PrismaError ''P2002''
           then andThen (reads (payoutByKey (cp_idempotencyKey dto))) (\<lambda>dup.
                orThrow dup (Conflict ''Duplicate payout''))
           else throw err)))))))"

definition updatePayout :: "id \<Rightarrow> (payout \<Rightarrow> payout) \<Rightarrow> payout op" where
  "updatePayout pid f = (\<lambda>s. case payoutOf pid s of
     None \<Rightarrow> (Inl (PrismaError ''P2025''), s)
   | Some p \<Rightarrow> (Inr (f p), s\<lparr>payouts := updateMany (\<lambda>q. po_id q = pid) f (payouts s)\<rparr>))"

definition confirmPayout :: "id \<Rightarrow> string option \<Rightarrow> payout op" where
  "confirmPayout payoutId externalTxnId =
     andThen (reads (payoutOf payoutId)) (\<lambda>found.
     andThen (orThrow found (NotFound ''Payout not found'')) (\<lambda>payout.
     if po_status payout = PO_COMPLETED then ok payout else
     andThen now (\<lambda>paidAt.
     andThen (transaction rollback (
       andThen (updatePayout payoutId (\<lambda>p. p\<lparr>po_status := PO_COMPLETED, po_paidAt := Some paidAt,
         po_externalTxnId := (case externalTxnId of None \<Rightarrow> po_externalTxnId payout | Some x \<Rightarrow> Some x)\<rparr>))
         (\<lambda>p.
       andThen (updateEarnings (\<lambda>e. e_payoutId e = Some payoutId)
         (\<lambda>e. e\<lparr>e_status := E_PAID, e_paidAt := Some paidAt\<rparr>)) (\<lambda>_.
       ok p)))) (\<lambda>updated.
     andThen (auditLog None ''GUARDIAN_PAYOUT_CONFIRMED'' payoutId) (\<lambda>_.
     andThen (reads (guardianOf (po_guardianId payout))) (\<lambda>g.
     andThen (case g of None \<Rightarrow> ok ()
              | Some g \<Rightarrow> send (EmailUser (g_userId g) ''guardian.payoutConfirmed'')) (\<lambda>_.
     andThen (send (NotifyGuardian (po_guardianId payout) ''Payout confirmed'')) (\<lambda>_.
     ok updated))))))))"

section \<open>The books stay in order\<close>

lemma evolves_updateEarnings:
  assumes "\<And>e. p e \<Longrightarrow> earning_step e (f e)"
  shows "evolves s (snd (updateEarnings p f s))"
  unfolding updateEarnings_def by (simp, rule evolves_earning_rows) (rule assms)

lemma evolves_earningPolicy [step_rules]: "evolves s (snd (earningPolicy a g job s))"
proof -
  have "evolves s (snd (tryCatch (resolvePayPolicy jt et t) (\<lambda>_. fallbackPayPolicy) s))" for jt et t
    by (rule evolves.tryCatch) (simp_all add: fallbackPayPolicy_def)
  then show ?thesis
    unfolding earningPolicy_def by (auto split: option.split)
qed

lemma evolves_cancelEarnings [step_rules]: "evolves s (snd (cancelEarningsForInvoice iid s))"
  unfolding cancelEarningsForInvoice_def
  by (intro evolves.rules step_rules evolves_updateEarnings) (auto simp: earning_step_def)

lemma evolves_insertPayout [step_rules]: "evolves s (snd (insertPayout p s))"
proof (cases "payoutByKey (po_idempotencyKey p) s")
  case None
  then have "po_idempotencyKey p \<notin> po_idempotencyKey ` set (payouts s)"
    by (simp add: payoutByKey_def findUnique_None_iff)
  then show ?thesis
    using None by (intro evolves_payment_tables [where ps = "payments s"
        and n = "Suc (nextId s)" and qs = "createRow (p\<lparr>po_id := nextId s\<rparr>) (payouts s)"])
      (auto simp: insertPayout_def Let_def createRow_def good_def ledger_ok_def)
qed (simp add: insertPayout_def)

lemma evolves_updatePayout [step_rules]:
  assumes "\<And>p. po_idempotencyKey (f p) = po_idempotencyKey p"
  shows "evolves s (snd (updatePayout pid f s))"
proof (cases "payoutOf pid s")
  case (Some p)
  have "evolves s (s\<lparr>payouts := updateMany (\<lambda>q. po_id q = pid) f (payouts s)\<rparr>)"
    by (rule evolves_payment_tables [where ps = "payments s" and n = "nextId s"
          and qs = "updateMany (\<lambda>q. po_id q = pid) f (payouts s)"])
      (auto simp: good_def ledger_ok_def updateMany_keys [of po_idempotencyKey, OF assms])
  then show ?thesis
    using Some by (simp add: updatePayout_def)
qed (simp add: updatePayout_def)

lemma evolves_createPayout [step_rules]: "evolves s (snd (createPayout gid dto by s))"
  unfolding createPayout_def
  by (intro evolves.rules evolves.tryCatch step_rules evolves_updateEarnings)
    (auto simp: earning_step_def)

lemma evolves_confirmPayout [step_rules]: "evolves s (snd (confirmPayout pid ext s))"
  unfolding confirmPayout_def
  by (intro evolves.rules step_rules evolves_updateEarnings) (auto simp: earning_step_def)

lemma earningPolicy_state [simp]: "snd (earningPolicy a g job s) = s"
proof -
  have "snd (tryCatch (resolvePayPolicy jt et t) (\<lambda>_. fallbackPayPolicy) s) = s" for jt et t
    using resolvePayPolicy_state [of jt et t s]
    by (cases "resolvePayPolicy jt et t s")
      (auto simp: tryCatch_def fallbackPayPolicy_def split: sum.split)
  then show ?thesis
    unfolding earningPolicy_def by (auto split: option.split)
qed

text \<open>A read-only step changes nothing for the steps after it.\<close>

lemma andThen_read_only:
  assumes "snd (m s) = s" and "\<And>a. fst (m s) = Inr a \<Longrightarrow> evolves s (snd (f a s))"
  shows "evolves s (snd (andThen m f s))"
  using assms by (cases "m s") (auto simp: andThen_def split: sum.split)

definition invoicePaid :: "id \<Rightarrow> sys \<Rightarrow> bool" where
  "invoicePaid iid s \<longleftrightarrow> (\<exists>i \<in> set (invoices s). i_id i = iid \<and> i_status i = I_PAID)"

lemma evolves_good: "evolves s s' \<Longrightarrow> good s \<Longrightarrow> good s'"
  by (simp add: evolves_def)

lemma evolves_paid:
  assumes "evolves s s'" and "good s" and "invoicePaid iid s"
  shows "invoicePaid iid s'"
proof -
  obtain i where i: "i \<in> set (invoices s)" "i_id i = iid" "i_status i = I_PAID"
    using assms(3) by (auto simp: invoicePaid_def)
  have "table_evolves invoice_step (\<lambda>_. True) (invoices s) (invoices s')"
    using assms(1,2) by (simp add: evolves_def ledger_evolves_def)
  from table_evolves_old [OF this i(1)] obtain i' where "i' \<in> set (invoices s')" "invoice_step i i'"
    by blast
  then show ?thesis
    using i unfolding invoicePaid_def by (intro bexI [of _ i']) (simp_all add: invoice_step_def)
qed

lemma evolves_when_good: "(good s \<Longrightarrow> evolves s s') \<Longrightarrow> evolves s s'"
  by (auto simp: evolves_def)

lemma evolves_forCollect_paid:
  assumes "\<And>x t. x \<in> set xs \<Longrightarrow> good t \<Longrightarrow> invoicePaid iid t \<Longrightarrow> evolves t (snd (f x t))"
    and "good s" and "invoicePaid iid s"
  shows "evolves s (snd (forCollect xs f s))"
  using assms
proof (induction xs arbitrary: s)
  case (Cons x xs)
  have step: "evolves s (snd (f x s))"
    using Cons.prems by simp
  have rest: "evolves s' (snd (forCollect xs f s'))" if "f x s = (Inr y, s')" for y s'
    using Cons.prems Cons.IH evolves_good [OF step] evolves_paid [OF step] that by simp
  show ?case
    unfolding forCollect.simps
    by (intro evolves.andThen evolves.ok) (simp_all add: step rest)
qed simp

lemma evolves_accrueOne:
  assumes paid: "invoicePaid (i_id invoice) s"
  shows "evolves s (snd (accrueOne invoice job a s))"
proof -
  have new: "evolves s (snd (createEarning e s))"
    if "e_assignmentId e = a_id a" "e_invoiceId e = i_id invoice"
      "findUnique e_assignmentId (a_id a) (earnings s) = None" for e
    unfolding createEarning_def
    using that paid by (auto simp: invoicePaid_def intro!: evolves_new_earning)
  show ?thesis
    unfolding accrueOne_def Let_def
    by (intro evolves.reads_then evolves.orThrow_then evolves.if_split_handler evolves.ok
        andThen_read_only [OF earningPolicy_state] evolves.andThen new step_rules)
      simp_all
qed

lemma evolves_accrueForPaidInvoice [step_rules]: "evolves s (snd (accrueForPaidInvoice iid s))"
proof (rule evolves_when_good)
  assume good: "good s"
  have collect: "evolves s (snd (forCollect xs (accrueOne i job) s))"
    if "invoiceOf iid s = Some i" "i_status i = I_PAID" for i job xs
    by (rule evolves_forCollect_paid [where iid = "i_id i"])
      (use that good in \<open>auto simp: invoicePaid_def invoiceOf_def intro!: evolves_accrueOne
         dest: findUnique_SomeD\<close>)
  show "evolves s (snd (accrueForPaidInvoice iid s))"
    unfolding accrueForPaidInvoice_def
    by (intro evolves.reads_then evolves.orThrow_then evolves.option_split_handler
        evolves.if_split_handler evolves.ok evolves.andThen collect) simp_all
qed

end
