(* ===== verification/Lifecycle.thy ===== *)
theory Lifecycle
  imports Guardians
begin

text \<open>
  \<open>jobs/job-lifecycle.service.ts\<close>: the guarded status changes of a job, each with its
  history row, and the staffing counts of \<open>jobs/job-staffing.util.ts\<close>.
\<close>

section \<open>Staffing counts\<close>

definition countStaffedGuardians :: "id \<Rightarrow> int op" where
  "countStaffedGuardians jobId = reads (\<lambda>s. countWhere (\<lambda>a. a_jobId a = jobId \<and>
     a_replacesAssignmentId a = None \<and> a_status a \<in> set STAFFED_ASSIGNMENT_STATUSES) (assignments s))"

definition countActiveStaffedGuardians :: "id \<Rightarrow> int op" where
  "countActiveStaffedGuardians jobId = reads (\<lambda>s. countWhere (\<lambda>a. a_jobId a = jobId \<and>
     a_replacesAssignmentId a = None \<and> a_status a \<in> set ACTIVE_STAFFED_ASSIGNMENT_STATUSES)
     (assignments s))"

definition countPendingOffers :: "id \<Rightarrow> int op" where
  "countPendingOffers jobId = reads (\<lambda>s. countWhere (\<lambda>a. a_jobId a = jobId \<and>
     a_replacesAssignmentId a = None \<and> a_status a = A_OFFERED) (assignments s))"

record staffing_progress =
  sp_requestedGuardianCount :: int
  sp_acceptedGuardianCount :: int
  sp_remainingGuardianSlots :: int
  sp_pendingOfferCount :: int
  sp_isFullyStaffed :: bool

definition buildStaffingProgress :: "int \<Rightarrow> int \<Rightarrow> int \<Rightarrow> staffing_progress" where
  "buildStaffingProgress requested accepted pending =
     (let remaining = max 0 (requested - accepted) in
      \<lparr>sp_requestedGuardianCount = requested, sp_acceptedGuardianCount = accepted,
       sp_remainingGuardianSlots = remaining, sp_pendingOfferCount = pending,
       sp_isFullyStaffed = (remaining = 0)\<rparr>)"

definition computeJobStaffingProgress :: "id \<Rightarrow> int \<Rightarrow> staffing_progress op" where
  "computeJobStaffingProgress jobId requested =
     andThen (countStaffedGuardians jobId) (\<lambda>accepted.
     andThen (countPendingOffers jobId) (\<lambda>pending.
     let remaining = max 0 (requested - accepted) in
     ok \<lparr>sp_requestedGuardianCount = requested, sp_acceptedGuardianCount = accepted,
         sp_remainingGuardianSlots = remaining, sp_pendingOfferCount = pending,
         sp_isFullyStaffed = (remaining = 0)\<rparr>))"

section \<open>The service\<close>

definition lifecycle_transitionJobStatus ::
  "id \<Rightarrow> job_status \<Rightarrow> job_status list \<Rightarrow> id option \<Rightarrow> change_reason option \<Rightarrow> unit op" where
  "lifecycle_transitionJobStatus jobId targetStatus allowedFrom changedBy reason =
     andThen (reads (jobOf jobId)) (\<lambda>found.
     andThen (orThrow found (NotFound ''Job not found'')) (\<lambda>j.
     if j_status j = targetStatus then ok () else
     andThen (ensure (j_status j \<in> set allowedFrom)
       (BadRequest (''Cannot move job from '' @ job_status_name (j_status j) @ '' to '' @
          job_status_name targetStatus))) (\<lambda>_.
     changeJobStatus jobId (\<lambda>j. j) (j_status j) targetStatus changedBy reason)))"

definition transitionToPartiallyAssigned :: "id \<Rightarrow> id option \<Rightarrow> change_reason option \<Rightarrow> unit op" where
  "transitionToPartiallyAssigned jobId changedBy reason =
     lifecycle_transitionJobStatus jobId J_PARTIALLY_ASSIGNED
       [J_PENDING, J_DISPATCHING, J_PARTIALLY_ASSIGNED] changedBy
       (case reason of None \<Rightarrow> Some (Literal ''guardian_accepted_partial'') | Some r \<Rightarrow> Some r)"

definition transitionToAssigned :: "id \<Rightarrow> id option \<Rightarrow> unit op" where
  "transitionToAssigned jobId changedBy =
     lifecycle_transitionJobStatus jobId J_ASSIGNED
       [J_PENDING, J_DISPATCHING, J_PARTIALLY_ASSIGNED, J_ASSIGNED] changedBy None"

definition transitionToInProgress :: "id \<Rightarrow> id option \<Rightarrow> unit op" where
  "transitionToInProgress jobId changedBy =
     lifecycle_transitionJobStatus jobId J_IN_PROGRESS [J_ASSIGNED, J_PARTIALLY_ASSIGNED] changedBy None"

definition transitionToSeekingReplacement :: "id \<Rightarrow> id option \<Rightarrow> unit op" where
  "transitionToSeekingReplacement jobId changedBy =
     lifecycle_transitionJobStatus jobId J_SEEKING_REPLACEMENT [J_IN_PROGRESS] changedBy
       (Some (Literal ''replacement_approved''))"

definition transitionFromSeekingReplacementToInProgress :: "id \<Rightarrow> id option \<Rightarrow> unit op" where
  "transitionFromSeekingReplacementToInProgress jobId changedBy =
     lifecycle_transitionJobStatus jobId J_IN_PROGRESS [J_SEEKING_REPLACEMENT] changedBy
       (Some (Literal ''replacement_handoff_completed''))"

definition completeFromAssignment :: "id \<Rightarrow> id option \<Rightarrow> unit op" where
  "completeFromAssignment jobId changedBy = transaction rollback (
     andThen (countActiveStaffedGuardians jobId) (\<lambda>activeStaffed.
     if activeStaffed > 0 then ok () else
     lifecycle_transitionJobStatus jobId J_AWAITING_CONFIRMATION
       [J_IN_PROGRESS, J_ASSIGNED, J_PARTIALLY_ASSIGNED] changedBy
       (Some (Literal ''all_guardians_assignment_completed''))))"

definition confirmBilling :: "id \<Rightarrow> id option \<Rightarrow> unit op" where
  "confirmBilling jobId changedBy = transaction rollback (
     lifecycle_transitionJobStatus jobId J_COMPLETED [J_AWAITING_CONFIRMATION] changedBy
       (Some (Literal ''billing_confirmed'')))"

definition completeExplicit :: "id \<Rightarrow> id \<Rightarrow> unit op" where
  "completeExplicit jobId changedBy =
     andThen (reads (\<lambda>s. findFirst (\<lambda>a. a_jobId a = jobId \<and> a_status a = A_COMPLETED) (assignments s)))
       (\<lambda>completed.
     andThen (ensure (completed \<noteq> None)
       (BadRequest ''Job can only be completed after an assignment is completed'')) (\<lambda>_.
     andThen (reads (jobOf jobId)) (\<lambda>found.
     andThen (orThrow found (NotFound ''Job not found'')) (\<lambda>j.
     if j_status j = J_COMPLETED then ok ()
     else if j_status j = J_AWAITING_CONFIRMATION then confirmBilling jobId (Some changedBy)
     else transaction rollback (lifecycle_transitionJobStatus jobId J_COMPLETED
            [J_IN_PROGRESS, J_ASSIGNED, J_PARTIALLY_ASSIGNED] (Some changedBy) None)))))"

definition redispatchAfterNoShowInTransaction ::
  "id \<Rightarrow> id option \<Rightarrow> change_reason option \<Rightarrow> unit op" where
  "redispatchAfterNoShowInTransaction jobId changedBy reason =
     andThen (lifecycle_transitionJobStatus jobId J_DISPATCHING
       [J_ASSIGNED, J_PARTIALLY_ASSIGNED, J_IN_PROGRESS, J_DISPATCHING] changedBy
       (case reason of None \<Rightarrow> Some (Literal ''assignment_no_show'') | Some r \<Rightarrow> Some r)) (\<lambda>_.
     andThen now (\<lambda>t.
     andThen (reads (\<lambda>s. DISPATCH_WINDOW_MS (config s))) (\<lambda>window.
     andThen (updateJob jobId (\<lambda>j. j\<lparr>j_dispatchDeadlineAt := Some (t + window),
       j_dispatchStartedAt := Some t, j_dispatchFailureReason := None, j_unreachableSince := None\<rparr>)) (\<lambda>_.
     enqueueInTransaction (dispatchRequest jobId)))))"

definition redispatchAfterNoShow :: "id \<Rightarrow> id option \<Rightarrow> change_reason option \<Rightarrow> unit op" where
  "redispatchAfterNoShow jobId changedBy reason =
     transaction rollback (redispatchAfterNoShowInTransaction jobId changedBy reason)"

section \<open>The counts\<close>

lemma progress_answer:
  "computeJobStaffingProgress jid req s = (Inr (buildStaffingProgress req
     (countWhere (\<lambda>a. a_jobId a = jid \<and> a_replacesAssignmentId a = None \<and>
        a_status a \<in> set STAFFED_ASSIGNMENT_STATUSES) (assignments s))
     (countWhere (\<lambda>a. a_jobId a = jid \<and> a_replacesAssignmentId a = None \<and>
        a_status a = A_OFFERED) (assignments s))), s)"
  by (simp add: computeJobStaffingProgress_def buildStaffingProgress_def countStaffedGuardians_def
      countPendingOffers_def Let_def)

text \<open>The slots the invariant counts are the ones the two counts of the code add up to.\<close>

lemma slots_taken_split:
  "slots_taken jid s =
     countWhere (\<lambda>a. a_jobId a = jid \<and> a_replacesAssignmentId a = None \<and>
        a_status a \<in> set STAFFED_ASSIGNMENT_STATUSES) (assignments s) +
     countWhere (\<lambda>a. a_jobId a = jid \<and> a_replacesAssignmentId a = None \<and>
        a_status a = A_OFFERED) (assignments s)"
  unfolding slots_taken_def
  by (subst countWhere_disj [symmetric])
    (auto simp: STAFFED_ASSIGNMENT_STATUSES_def takes_slot_def intro!: countWhere_cong)

lemma progress_slots:
  assumes "computeJobStaffingProgress jid req s = (Inr p, s')"
  shows "s' = s" and "sp_acceptedGuardianCount p + sp_pendingOfferCount p = slots_taken jid s"
    and "sp_remainingGuardianSlots p = max 0 (req - sp_acceptedGuardianCount p)"
    and "sp_isFullyStaffed p \<longleftrightarrow> req \<le> sp_acceptedGuardianCount p"
  using assms by (auto simp: progress_answer slots_taken_split buildStaffingProgress_def Let_def)

lemma evolves_countStaffed [step_rules]: "evolves s (snd (countStaffedGuardians jid s))"
  by (simp add: countStaffedGuardians_def)

lemma evolves_countActiveStaffed [step_rules]: "evolves s (snd (countActiveStaffedGuardians jid s))"
  by (simp add: countActiveStaffedGuardians_def)

lemma evolves_progress [step_rules]: "evolves s (snd (computeJobStaffingProgress jid req s))"
  by (simp add: progress_answer)

section \<open>Every status change follows the job graph\<close>

lemma evolves_lifecycle_transition:
  assumes "\<And>from. from \<in> set allowed \<Longrightarrow> from = target \<or> job_edge from target"
    and "target \<noteq> J_SEEKING_REPLACEMENT"
  shows "evolves s (snd (lifecycle_transitionJobStatus jid target allowed by reason s))"
  unfolding lifecycle_transitionJobStatus_def
  by (intro evolves.rules evolves_job_status) (use assms in auto)

lemma evolves_toPartiallyAssigned [step_rules]:
  "evolves s (snd (transitionToPartiallyAssigned jid by reason s))"
  unfolding transitionToPartiallyAssigned_def by (rule evolves_lifecycle_transition) auto

lemma evolves_toAssigned [step_rules]: "evolves s (snd (transitionToAssigned jid by s))"
  unfolding transitionToAssigned_def by (rule evolves_lifecycle_transition) auto

lemma evolves_toInProgress [step_rules]: "evolves s (snd (transitionToInProgress jid by s))"
  unfolding transitionToInProgress_def by (rule evolves_lifecycle_transition) auto

lemma evolves_fromSeeking [step_rules]:
  "evolves s (snd (transitionFromSeekingReplacementToInProgress jid by s))"
  unfolding transitionFromSeekingReplacementToInProgress_def
  by (rule evolves_lifecycle_transition) auto

lemma evolves_completeFromAssignment [step_rules]: "evolves s (snd (completeFromAssignment jid by s))"
  unfolding completeFromAssignment_def
  by (intro evolves.rules step_rules evolves_lifecycle_transition) auto

lemma evolves_confirmBilling [step_rules]: "evolves s (snd (confirmBilling jid by s))"
  unfolding confirmBilling_def
  by (intro evolves.rules step_rules evolves_lifecycle_transition) auto

lemma evolves_completeExplicit [step_rules]: "evolves s (snd (completeExplicit jid by s))"
  unfolding completeExplicit_def
  by (intro evolves.rules step_rules evolves_lifecycle_transition) auto

lemma evolves_redispatchInTransaction [step_rules]:
  "evolves s (snd (redispatchAfterNoShowInTransaction jid by reason s))"
  unfolding redispatchAfterNoShowInTransaction_def
  by (intro evolves.rules step_rules evolves_lifecycle_transition) (auto simp: job_frame_def)

lemma evolves_redispatchAfterNoShow [step_rules]:
  "evolves s (snd (redispatchAfterNoShow jid by reason s))"
  unfolding redispatchAfterNoShow_def by (intro step_rules)

section \<open>What a guarded status change does\<close>

text \<open>The three outcomes of a guarded change.\<close>

lemma transition_missing:
  "jobOf jid s = None \<Longrightarrow>
   lifecycle_transitionJobStatus jid target allowed by reason s = (Inl (NotFound ''Job not found''), s)"
  by (simp add: lifecycle_transitionJobStatus_def)

lemma transition_same:
  "jobOf jid s = Some j \<Longrightarrow> j_status j = target \<Longrightarrow>
   lifecycle_transitionJobStatus jid target allowed by reason s = (Inr (), s)"
  by (simp add: lifecycle_transitionJobStatus_def)

lemma transition_rejected:
  "jobOf jid s = Some j \<Longrightarrow> j_status j \<noteq> target \<Longrightarrow> j_status j \<notin> set allowed \<Longrightarrow>
   lifecycle_transitionJobStatus jid target allowed by reason s =
     (Inl (BadRequest (''Cannot move job from '' @ job_status_name (j_status j) @ '' to '' @
        job_status_name target)), s)"
  by (simp add: lifecycle_transitionJobStatus_def)

lemma changeJobStatus_apply:
  "jobOf jid s = Some j \<Longrightarrow> changeJobStatus jid f old new by reason s =
     (Inr (), s\<lparr>jobs := updateMany (\<lambda>j. j_id j = jid) (\<lambda>j. (f j)\<lparr>j_status := new\<rparr>) (jobs s),
       history := history s @ [\<lparr>h_jobId = jid, h_oldStatus = Some old, h_newStatus = new,
         h_changedBy = by, h_reason = reason, h_changedAt = clock s\<rparr>]\<rparr>)"
  by (simp add: changeJobStatus_def andThen_def updateJob_def recordJobStatus_def createRow_def)

lemma transition_done:
  "jobOf jid s = Some j \<Longrightarrow> j_status j \<noteq> target \<Longrightarrow> j_status j \<in> set allowed \<Longrightarrow>
   lifecycle_transitionJobStatus jid target allowed by reason s =
     (Inr (), s\<lparr>jobs := updateMany (\<lambda>j. j_id j = jid) (\<lambda>j. j\<lparr>j_status := target\<rparr>) (jobs s),
       history := history s @ [\<lparr>h_jobId = jid, h_oldStatus = Some (j_status j),
         h_newStatus = target, h_changedBy = by, h_reason = reason, h_changedAt = clock s\<rparr>]\<rparr>)"
  by (simp add: lifecycle_transitionJobStatus_def changeJobStatus_apply)

end
