(* ===== verification/Billing.thy ===== *)
theory Billing
  imports Payroll Lifecycle
begin

text \<open>
  \<open>billing/billing.service.ts\<close> with \<open>invoice-status.util.ts\<close>, \<open>invoice-view.service.ts\<close> and
  \<open>billing-confirmation.service.ts\<close>: the draft invoice of a finished job, its issue, dispute,
  resolution and voiding, and the automatic confirmation.
\<close>

section \<open>Invoice statuses\<close>

definition ISSUABLE_INVOICE_STATUSES :: "invoice_status list" where
  "ISSUABLE_INVOICE_STATUSES = [I_DRAFT, I_PENDING_CONFIRMATION]"

definition DISPUTABLE_INVOICE_STATUSES :: "invoice_status list" where
  "DISPUTABLE_INVOICE_STATUSES =
     [I_DRAFT, I_PENDING_CONFIRMATION, I_ISSUED, I_OVERDUE, I_PARTIALLY_PAID]"

definition isIssuableStatus :: "invoice_status \<Rightarrow> bool" where
  "isIssuableStatus status \<longleftrightarrow> status \<in> set ISSUABLE_INVOICE_STATUSES"

definition isDisputableStatus :: "invoice_status \<Rightarrow> bool" where
  "isDisputableStatus status \<longleftrightarrow> status \<in> set DISPUTABLE_INVOICE_STATUSES"

definition blocksPayment :: "invoice_status \<Rightarrow> bool" where
  "blocksPayment status \<longleftrightarrow> status = I_DISPUTED \<or> status = I_DRAFT"

section \<open>Draft invoices\<close>

text \<open>\<open>create\<close> on the invoice table; \<open>job_id\<close> has a unique index.\<close>

definition insertInvoice :: "invoice \<Rightarrow> invoice op" where
  "insertInvoice i = (\<lambda>s. if invoiceOfJob (i_jobId i) s \<noteq> None
     then (Inl (PrismaError ''P2002''), s)
     else let row = i\<lparr>i_id := nextId s\<rparr> in
       (Inr row, s\<lparr>nextId := Suc (nextId s), invoices := createRow row (invoices s)\<rparr>))"

definition locationOf :: "id \<Rightarrow> sys \<Rightarrow> location_row option" where
  "locationOf lid s = findUnique l_id lid (locations s)"

text \<open>The row the draft is created with; the other columns have their defaults.\<close>

definition draftInvoice ::
  "job \<Rightarrow> amounts_result \<Rightarrow> rat \<Rightarrow> string \<Rightarrow> instant option \<Rightarrow> instant option \<Rightarrow> invoice" where
  "draftInvoice job amounts vat currency arrivedAt completedAt = \<lparr>
     i_id = 0, i_organizationId = j_organizationId job, i_jobId = j_id job,
     i_subtotal = ar_subtotal amounts, i_taxAmount = ar_subtotal amounts * vat,
     i_total = ar_subtotal amounts + ar_subtotal amounts * vat, i_currency = currency,
     i_status = I_DRAFT, i_scheduledStartAt = Some (j_scheduledStart job),
     i_scheduledEndAt = Some (j_scheduledEnd job), i_arrivedAt = arrivedAt,
     i_completedAt = completedAt,
     i_scheduledHours = Some (bd_scheduledHours (ar_duration amounts)),
     i_actualHours = Some (bd_actualHours (ar_duration amounts)),
     i_billableHours = Some (bd_billableHours (ar_duration amounts)),
     i_billingBasis = Some (bd_billingBasis (ar_duration amounts)),
     i_lineItems = ar_lineItems amounts, i_issuedAt = None, i_dueAt = None, i_voidReason = None,
     i_replacementInvoiceId = None, i_disputeReason = None, i_disputedAt = None, i_disputedBy = None,
     i_statusBeforeDispute = None, i_disputeResolvedAt = None, i_disputeResolvedBy = None,
     i_disputeResolutionNote = None\<rparr>"

text \<open>
  The input of the calculation: the coverage runs from the first arrival to the completion of
  the assignment that arrived last, whose early-release resolution is used.
\<close>

definition draftAmountsInput ::
  "job \<Rightarrow> assignment list \<Rightarrow> billing_policy \<Rightarrow> price \<Rightarrow> booking_policy \<Rightarrow> amounts_input" where
  "draftAmountsInput job completed billingPolicy rule bookingPolicy =
     (let primary = last completed;
          (multiplier, reasons) = computeSurchargeMultiplier (j_scheduledStart job)
            (j_scheduledEnd job) bookingPolicy False
      in \<lparr>ai_job = job, ai_arrivedAt = a_arrivedAt (hd completed),
          ai_completedAt = a_completedAt primary,
          ai_earlyReleaseResolution = a_earlyReleaseResolution primary,
          ai_policy = billingPolicy, ai_pricingModel = pc_pricingModel rule,
          ai_hourlyRate = Some (pc_hourlyRate rule), ai_flatFee = pc_flatFee rule,
          ai_replacementHandoff = (length completed > 1), ai_bookingPolicy = Some bookingPolicy,
          ai_surchargeMultiplier = multiplier, ai_surchargeReasons = reasons\<rparr>)"

definition billingAutoConfirm :: "id \<Rightarrow> instant \<Rightarrow> outbox_input" where
  "billingAutoConfirm jobId at_time = \<lparr>in_aggregateId = jobId, in_eventType = JOB_BILLING_AUTO_CONFIRM,
     in_payloadJobId = jobId, in_payloadReplacement = False, in_payloadRefill = False,
     in_scheduledAt = Some at_time\<rparr>"

definition createDraftInvoiceForJob :: "job \<Rightarrow> id \<Rightarrow> invoice op" where
  "createDraftInvoiceForJob job actorUserId =
     andThen (reads (invoiceOfJob (j_id job))) (\<lambda>existing.
     case existing of Some i \<Rightarrow> ok i
     | None \<Rightarrow>
       andThen (reads (completedAssignments (j_id job))) (\<lambda>completed.
       andThen (ensure (completed \<noteq> []) (NotFound ''No completed assignment for job'')) (\<lambda>_.
       andThen (reads (locationOf (j_locationId job))) (\<lambda>foundLoc.
       andThen (orThrow foundLoc (PrismaError ''P2025'')) (\<lambda>loc.
       andThen (resolvePrice (j_organizationId job) (l_district loc) (j_jobType job)
         (j_scheduledStart job)) (\<lambda>rule.
       andThen getPolicy (\<lambda>bookingPolicy.
       andThen (resolveBillingPolicy (j_organizationId job) (j_jobType job) (j_scheduledStart job))
         (\<lambda>billingPolicy.
       case computeInvoiceAmounts (draftAmountsInput job completed billingPolicy rule bookingPolicy) of
         Inl e \<Rightarrow> throw e
       | Inr amounts \<Rightarrow>
         andThen (insertInvoice (draftInvoice job amounts (vatRate bookingPolicy) (pc_currency rule)
           (a_arrivedAt (hd completed)) (a_completedAt (last completed)))) (\<lambda>invoice.
         andThen (auditLog (Some actorUserId) ''INVOICE_DRAFT_CREATED'' (i_id invoice)) (\<lambda>_.
         andThen now (\<lambda>t.
         andThen (reads (\<lambda>s. BILLING_AUTO_CONFIRM_MS (config s))) (\<lambda>delay.
         andThen (enqueue (billingAutoConfirm (j_id job) (t + delay))) (\<lambda>_.
         andThen (send (EmailOrgOwners (j_organizationId job) ''billing.invoiceAwaitingConfirmation'')) (\<lambda>_.
         andThen (send (NotifyOrgOwners (j_organizationId job) ''Invoice awaiting confirmation'')) (\<lambda>_.
         ok invoice)))))))))))))))"

definition createDraftInvoiceForJobId :: "id \<Rightarrow> id \<Rightarrow> invoice op" where
  "createDraftInvoiceForJobId jobId actorUserId =
     andThen (reads (jobOf jobId)) (\<lambda>found.
     andThen (orThrow found (NotFound ''Job not found'')) (\<lambda>job.
     createDraftInvoiceForJob job actorUserId))"

section \<open>Issuing and viewing\<close>

definition issueIfDraft :: "id \<Rightarrow> id option \<Rightarrow> invoice op" where
  "issueIfDraft invoiceId actorUserId =
     andThen (reads (invoiceOf invoiceId)) (\<lambda>found.
     andThen (orThrow found (NotFound ''Invoice not found'')) (\<lambda>i.
     andThen (ensure (i_status i \<noteq> I_DISPUTED) (BadRequest ''Cannot issue a disputed invoice'')) (\<lambda>_.
     if \<not> isIssuableStatus (i_status i) then ok i else
     andThen now (\<lambda>t.
     andThen (updateInvoice invoiceId (\<lambda>i. i\<lparr>i_status := I_ISSUED, i_issuedAt := Some t,
       i_dueAt := Some (t + 14 * 24 * 60 * 60 * 1000)\<rparr>)) (\<lambda>_.
     andThen (reads (invoiceOf invoiceId)) (\<lambda>updated.
     andThen (auditLog actorUserId ''INVOICE_ISSUED'' invoiceId) (\<lambda>_.
     andThen (send (EmailOrgOwners (i_organizationId i) ''billing.invoiceIssued'')) (\<lambda>_.
     andThen (send (NotifyOrgOwners (i_organizationId i) ''Invoice issued'')) (\<lambda>_.
     orThrow updated (PrismaError ''P2025''))))))))))"

definition issueDraftForJobId :: "id \<Rightarrow> id \<Rightarrow> invoice op" where
  "issueDraftForJobId jobId actorUserId =
     andThen (reads (invoiceOfJob jobId)) (\<lambda>found.
     andThen (orThrow found (NotFound ''Invoice not found for job'')) (\<lambda>i.
     issueIfDraft (i_id i) (Some actorUserId)))"

definition createAndIssueInvoiceForJobId :: "id \<Rightarrow> id \<Rightarrow> invoice op" where
  "createAndIssueInvoiceForJobId jobId actorUserId =
     andThen (createDraftInvoiceForJobId jobId actorUserId) (\<lambda>i. issueIfDraft (i_id i) (Some actorUserId))"

definition createAndIssueInvoiceForJob :: "job \<Rightarrow> id \<Rightarrow> invoice op" where
  "createAndIssueInvoiceForJob job actorUserId =
     andThen (createDraftInvoiceForJob job actorUserId) (\<lambda>i. issueIfDraft (i_id i) (Some actorUserId))"

definition issue :: "id \<Rightarrow> actor \<Rightarrow> invoice op" where
  "issue iid actor = issueIfDraft iid (Some (sub actor))"

definition applyPendingConfirmationOnView :: "invoice \<Rightarrow> id \<Rightarrow> invoice op" where
  "applyPendingConfirmationOnView i actorUserId =
     (if i_status i \<noteq> I_DRAFT then ok i else
      andThen (updateInvoice (i_id i) (\<lambda>i. i\<lparr>i_status := I_PENDING_CONFIRMATION\<rparr>)) (\<lambda>_.
      andThen (reads (invoiceOf (i_id i))) (\<lambda>updated.
      andThen (auditLog (Some actorUserId) ''INVOICE_PENDING_CONFIRMATION'' (i_id i)) (\<lambda>_.
      orThrow updated (PrismaError ''P2025'')))))"

definition getInvoice :: "id \<Rightarrow> actor \<Rightarrow> invoice op" where
  "getInvoice iid actor =
     andThen (reads (invoiceOf iid)) (\<lambda>found.
     andThen (orThrow found (NotFound ''Invoice not found'')) (\<lambda>i.
     andThen (assertOrgMember (i_organizationId i) actor) (\<lambda>_.
     applyPendingConfirmationOnView i (sub actor))))"

section \<open>Voiding and disputes\<close>

definition assertReplacementInvoice :: "id \<Rightarrow> id \<Rightarrow> id \<Rightarrow> unit op" where
  "assertReplacementInvoice replacementInvoiceId organizationId voidedInvoiceId =
     andThen (ensure (replacementInvoiceId \<noteq> voidedInvoiceId)
       (BadRequest ''Replacement invoice cannot be the same invoice'')) (\<lambda>_.
     andThen (reads (invoiceOf replacementInvoiceId)) (\<lambda>found.
     andThen (orThrow found (NotFound ''Replacement invoice not found'')) (\<lambda>replacement.
     ensure (i_organizationId replacement = organizationId)
       (BadRequest ''Replacement invoice must belong to the same organization''))))"

definition voidInvoice :: "id \<Rightarrow> id \<Rightarrow> string \<Rightarrow> id option \<Rightarrow> invoice op" where
  "voidInvoice iid actorSub voidReason replacementInvoiceId =
     andThen (reads (invoiceOf iid)) (\<lambda>found.
     andThen (orThrow found (NotFound ''Invoice not found'')) (\<lambda>i.
     if i_status i = I_VOID then ok i else
     andThen (ensure (i_status i \<noteq> I_PAID) (BadRequest ''Cannot void a paid invoice'')) (\<lambda>_.
     andThen (case replacementInvoiceId of None \<Rightarrow> ok ()
       | Some rid \<Rightarrow> assertReplacementInvoice rid (i_organizationId i) iid) (\<lambda>_.
     andThen now (\<lambda>t.
     let disputed = (i_status i = I_DISPUTED) in
     andThen (updateInvoice iid (\<lambda>i. i\<lparr>i_status := I_VOID, i_voidReason := Some voidReason,
       i_replacementInvoiceId := replacementInvoiceId,
       i_disputeResolvedAt := (if disputed then Some t else i_disputeResolvedAt i),
       i_disputeResolvedBy := (if disputed then Some actorSub else i_disputeResolvedBy i),
       i_disputeResolutionNote := (if disputed then Some voidReason else i_disputeResolutionNote i)\<rparr>)) (\<lambda>_.
     andThen (reads (invoiceOf iid)) (\<lambda>updated.
     andThen (auditLog (Some actorSub) ''INVOICE_VOIDED'' iid) (\<lambda>_.
     andThen (send (EmailOrgOwners (i_organizationId i) ''billing.invoiceVoided'')) (\<lambda>_.
     andThen (send (NotifyOrgOwners (i_organizationId i) ''Invoice voided'')) (\<lambda>_.
     andThen (cancelEarningsForInvoice iid) (\<lambda>_.
     orThrow updated (PrismaError ''P2025''))))))))))))"

definition disputeInvoice :: "id \<Rightarrow> actor \<Rightarrow> string \<Rightarrow> invoice op" where
  "disputeInvoice iid actor reason =
     andThen (reads (invoiceOf iid)) (\<lambda>found.
     andThen (orThrow found (NotFound ''Invoice not found'')) (\<lambda>i.
     andThen (assertOrgMember (i_organizationId i) actor) (\<lambda>_.
     if i_status i = I_DISPUTED then ok i else
     andThen (ensure (isDisputableStatus (i_status i))
       (BadRequest (''Invoice in status '' @ invoice_status_name (i_status i) @ '' cannot be disputed''))) (\<lambda>_.
     andThen now (\<lambda>t.
     andThen (updateInvoice iid (\<lambda>r. r\<lparr>i_status := I_DISPUTED, i_disputeReason := Some reason,
       i_disputedAt := Some t, i_disputedBy := Some (sub actor),
       i_statusBeforeDispute := Some (i_status i)\<rparr>)) (\<lambda>_.
     andThen (reads (invoiceOf iid)) (\<lambda>updated.
     andThen (auditLog (Some (sub actor)) ''INVOICE_DISPUTED'' iid) (\<lambda>_.
     andThen (send (EmailOrgOwners (i_organizationId i) ''billing.invoiceDisputed'')) (\<lambda>_.
     andThen (send (NotifyOrgOwners (i_organizationId i) ''Invoice disputed'')) (\<lambda>_.
     orThrow updated (PrismaError ''P2025'')))))))))))"

datatype resolution_action = CLEAR | VOID

record resolve_dispute_dto =
  rd_action :: resolution_action
  rd_note :: "string option"
  rd_voidReason :: "string option"
  rd_replacementInvoiceId :: "id option"

definition resolveDispute :: "id \<Rightarrow> id \<Rightarrow> resolve_dispute_dto \<Rightarrow> invoice op" where
  "resolveDispute iid actorUserId body =
     andThen (reads (invoiceOf iid)) (\<lambda>found.
     andThen (orThrow found (NotFound ''Invoice not found'')) (\<lambda>i.
     andThen (ensure (i_status i = I_DISPUTED) (BadRequest ''Invoice is not disputed'')) (\<lambda>_.
     if rd_action body = VOID then
       (case rd_voidReason body of
          None \<Rightarrow> throw (BadRequest ''voidReason is required when voiding'')
        | Some reason \<Rightarrow>
          if reason = '''' then throw (BadRequest ''voidReason is required when voiding'')
          else voidInvoice iid actorUserId reason (rd_replacementInvoiceId body))
     else
     let restoreStatus = (case i_statusBeforeDispute i of None \<Rightarrow> I_PENDING_CONFIRMATION | Some st \<Rightarrow> st)
     in andThen now (\<lambda>t.
     andThen (updateInvoice iid (\<lambda>r. r\<lparr>i_status := restoreStatus, i_disputeResolvedAt := Some t,
       i_disputeResolvedBy := Some actorUserId, i_disputeResolutionNote := rd_note body\<rparr>)) (\<lambda>_.
     andThen (reads (invoiceOf iid)) (\<lambda>updated.
     andThen (auditLog (Some actorUserId) ''INVOICE_DISPUTE_CLEARED'' iid) (\<lambda>_.
     andThen (send (EmailOrgOwners (i_organizationId i) ''billing.invoiceDisputeResolved'')) (\<lambda>_.
     andThen (send (NotifyOrgOwners (i_organizationId i) ''Invoice dispute resolved'')) (\<lambda>_.
     orThrow updated (PrismaError ''P2025''))))))))))"

section \<open>Automatic confirmation\<close>

definition processAutoConfirm :: "id \<Rightarrow> unit op" where
  "processAutoConfirm jobId =
     andThen (reads (jobOf jobId)) (\<lambda>found.
     case found of None \<Rightarrow> ok ()
     | Some job \<Rightarrow>
       if j_status job \<noteq> J_AWAITING_CONFIRMATION then ok () else
       andThen (reads (\<lambda>s. findFirst (\<lambda>a. a_jobId a = jobId \<and> a_status a = A_COMPLETED) (assignments s)))
         (\<lambda>completed.
       if completed = None then ok () else
       andThen (reads (invoiceOfJob jobId)) (\<lambda>foundInvoice.
       case foundInvoice of None \<Rightarrow> ok ()
       | Some i \<Rightarrow>
         if \<not> isIssuableStatus (i_status i) then ok () else
         andThen (confirmBilling jobId None) (\<lambda>_.
         andThen (issueIfDraft (i_id i) None) (\<lambda>_. ok ())))))"

section \<open>The books stay in order\<close>

lemma evolves_read_only: "snd (m s) = s \<Longrightarrow> evolves s (snd (m s))"
  by simp

lemma evolves_insertInvoice [step_rules]: "evolves s (snd (insertInvoice i s))"
  unfolding insertInvoice_def Let_def by (auto intro!: evolves_new_invoice)

lemma evolves_createDraftForJob [step_rules]: "evolves s (snd (createDraftInvoiceForJob job by s))"
  unfolding createDraftInvoiceForJob_def getPolicy_def
  by (intro evolves.reads_then evolves.option_split_handler evolves.ok evolves.ensure_then
      evolves.orThrow_then andThen_read_only [OF resolvePrice_state]
      andThen_read_only [OF resolveBillingPolicy_state])
    (auto split: sum.split intro!: evolves.rules step_rules)

lemma evolves_createDraftForJobId [step_rules]: "evolves s (snd (createDraftInvoiceForJobId jid by s))"
  unfolding createDraftInvoiceForJobId_def by (intro evolves.rules step_rules)

lemma evolves_issueIfDraft [step_rules]: "evolves s (snd (issueIfDraft iid by s))"
  unfolding issueIfDraft_def
  by (intro evolves.rules step_rules)
    (auto simp: invoice_step_def isIssuableStatus_def ISSUABLE_INVOICE_STATUSES_def)

lemma evolves_issueDraftForJobId [step_rules]: "evolves s (snd (issueDraftForJobId jid by s))"
  unfolding issueDraftForJobId_def by (intro evolves.rules step_rules)

lemma evolves_createAndIssueForJobId [step_rules]:
  "evolves s (snd (createAndIssueInvoiceForJobId jid by s))"
  unfolding createAndIssueInvoiceForJobId_def by (intro evolves.rules step_rules)

lemma evolves_createAndIssueForJob [step_rules]:
  "evolves s (snd (createAndIssueInvoiceForJob job by s))"
  unfolding createAndIssueInvoiceForJob_def by (intro evolves.rules step_rules)

lemma evolves_issue [step_rules]: "evolves s (snd (issue iid actor s))"
  unfolding issue_def by (intro step_rules)

lemma evolves_applyPendingConfirmation:
  assumes "invoiceOf (i_id i) s = Some i"
  shows "evolves s (snd (applyPendingConfirmationOnView i by s))"
  unfolding applyPendingConfirmationOnView_def
  by (intro evolves.rules step_rules) (use assms in \<open>auto simp: invoice_step_def\<close>)

lemma evolves_getInvoice [step_rules]: "evolves s (snd (getInvoice iid actor s))"
  unfolding getInvoice_def
  by (intro evolves.reads_then evolves.orThrow_then andThen_read_only [OF assertOrgMember_state]
      evolves_applyPendingConfirmation) (auto simp: invoiceOf_def dest: findUnique_SomeD)

lemma assertReplacementInvoice_state [simp]: "snd (assertReplacementInvoice rid org iid s) = s"
  by (auto simp: assertReplacementInvoice_def ensure_def orThrow_def split: option.split)

lemma optionalCheck_state [simp]:
  "snd ((case rid of None \<Rightarrow> ok () | Some r \<Rightarrow> assertReplacementInvoice r org iid) s) = s"
  by (cases rid) simp_all

lemma evolves_voidInvoice [step_rules]: "evolves s (snd (voidInvoice iid by reason rid s))"
  unfolding voidInvoice_def Let_def
  by (intro evolves.reads_then evolves.orThrow_then evolves.if_split_handler evolves.ok
      evolves.ensure_then
      andThen_read_only [where m = "case rid of None \<Rightarrow> ok ()
        | Some r \<Rightarrow> assertReplacementInvoice r org iid" for org]
      evolves.rules step_rules)
    (auto simp: invoice_step_def)

lemma evolves_disputeInvoice [step_rules]: "evolves s (snd (disputeInvoice iid actor reason s))"
  unfolding disputeInvoice_def
  by (intro evolves.reads_then evolves.orThrow_then andThen_read_only [OF assertOrgMember_state]
      evolves.rules step_rules)
    (auto simp: invoice_step_def isDisputableStatus_def DISPUTABLE_INVOICE_STATUSES_def)

lemma evolves_resolveDispute [step_rules]: "evolves s (snd (resolveDispute iid by body s))"
  unfolding resolveDispute_def Let_def
  by (intro evolves.rules step_rules) (auto simp: invoice_step_def)

lemma evolves_processAutoConfirm [step_rules]: "evolves s (snd (processAutoConfirm jid s))"
  unfolding processAutoConfirm_def by (intro evolves.rules step_rules)

end
