(* ===== verification/Payments.thy ===== *)
theory Payments
  imports Billing
begin

text \<open>
  \<open>payments/payments.service.ts\<close>: a payment is created once per idempotency key for an issued
  invoice; its confirmation marks the invoice paid and accrues the guardians' earnings.
\<close>

record create_payment_input =
  ci_invoiceId :: id
  ci_provider :: payment_provider
  ci_amount :: rat
  ci_idempotencyKey :: string
  ci_externalTxnId :: "string option"

definition paymentByKey :: "string \<Rightarrow> sys \<Rightarrow> payment option" where
  "paymentByKey key s = findUnique p_idempotencyKey key (payments s)"

definition insertPayment :: "payment \<Rightarrow> payment op" where
  "insertPayment p = (\<lambda>s. if paymentByKey (p_idempotencyKey p) s \<noteq> None
     then (Inl (PrismaError ''P2002''), s)
     else let row = p\<lparr>p_id := nextId s\<rparr> in
       (Inr row, s\<lparr>nextId := Suc (nextId s), payments := createRow row (payments s)\<rparr>))"

definition createPayment :: "create_payment_input \<Rightarrow> payment op" where
  "createPayment input =
     andThen (reads (paymentByKey (ci_idempotencyKey input))) (\<lambda>existing.
     case existing of Some p \<Rightarrow> ok p
     | None \<Rightarrow>
       andThen (reads (invoiceOf (ci_invoiceId input))) (\<lambda>found.
       andThen (orThrow found (NotFound ''Invoice not found'')) (\<lambda>i.
       andThen (ensure (i_status i \<noteq> I_DISPUTED)
         (BadRequest ''Payment cannot be created while invoice is disputed'')) (\<lambda>_.
       andThen (ensure (i_status i = I_ISSUED \<or> i_status i = I_PARTIALLY_PAID)
         (BadRequest ''Payment can only be created for issued invoices'')) (\<lambda>_.
       andThen (assertCanBookJobs (i_organizationId i)) (\<lambda>_.
       tryCatch
         (andThen (insertPayment \<lparr>p_id = 0, p_invoiceId = ci_invoiceId input,
            p_provider = ci_provider input, p_externalTxnId = ci_externalTxnId input,
            p_amount = ci_amount input, p_currency = i_currency i, p_status = P_PENDING,
            p_idempotencyKey = ci_idempotencyKey input, p_paidAt = None\<rparr>) (\<lambda>payment.
          andThen (auditLog None ''PAYMENT_CREATED'' (p_id payment)) (\<lambda>_. ok payment)))
         (\<lambda>err. if err = PrismaError ''P2002''
           then andThen (reads (paymentByKey (ci_idempotencyKey input))) (\<lambda>dup.
                orThrow dup (Conflict ''Duplicate payment''))
           else throw err)))))))"

definition updatePayment :: "id \<Rightarrow> (payment \<Rightarrow> payment) \<Rightarrow> payment op" where
  "updatePayment pid f = (\<lambda>s. case paymentOf pid s of
     None \<Rightarrow> (Inl (PrismaError ''P2025''), s)
   | Some p \<Rightarrow> (Inr (f p), s\<lparr>payments := updateMany (\<lambda>q. p_id q = pid) f (payments s)\<rparr>))"

definition confirmPayment :: "id \<Rightarrow> string option \<Rightarrow> payment op" where
  "confirmPayment paymentId externalTxnId =
     andThen (reads (paymentOf paymentId)) (\<lambda>found.
     andThen (orThrow found (NotFound ''Payment not found'')) (\<lambda>payment.
     andThen (transaction rollback (
       andThen now (\<lambda>t.
       andThen (updatePayment (p_id payment) (\<lambda>p. p\<lparr>p_status := P_COMPLETED, p_paidAt := Some t,
         p_externalTxnId := (case externalTxnId of None \<Rightarrow> p_externalTxnId payment | Some x \<Rightarrow> Some x)\<rparr>))
         (\<lambda>p.
       andThen (updateInvoice (p_invoiceId payment) (\<lambda>i. i\<lparr>i_status := I_PAID\<rparr>)) (\<lambda>_.
       ok p))))) (\<lambda>updated.
     andThen (auditLog None ''PAYMENT_CONFIRMED'' paymentId) (\<lambda>_.
     andThen (reads (invoiceOf (p_invoiceId payment))) (\<lambda>foundInvoice.
     andThen (case foundInvoice of None \<Rightarrow> ok ()
       | Some i \<Rightarrow> andThen (send (EmailOrgOwners (i_organizationId i) ''billing.paymentConfirmed'')) (\<lambda>_.
                   send (NotifyOrgOwners (i_organizationId i) ''Payment confirmed''))) (\<lambda>_.
     andThen (accrueForPaidInvoice (p_invoiceId payment)) (\<lambda>_.
     ok updated)))))))"

definition confirmByIdempotencyKey :: "string \<Rightarrow> string option \<Rightarrow> payment op" where
  "confirmByIdempotencyKey idempotencyKey externalTxnId =
     andThen (reads (paymentByKey idempotencyKey)) (\<lambda>found.
     andThen (orThrow found (NotFound ''Payment not found'')) (\<lambda>payment.
     confirmPayment (p_id payment) externalTxnId))"

section \<open>The books stay in order\<close>

lemma evolves_insertPayment [step_rules]: "evolves s (snd (insertPayment p s))"
proof (cases "paymentByKey (p_idempotencyKey p) s")
  case None
  then have "p_idempotencyKey p \<notin> p_idempotencyKey ` set (payments s)"
    by (simp add: paymentByKey_def findUnique_None_iff)
  then show ?thesis
    using None by (intro evolves_payment_tables [where qs = "payouts s"
        and n = "Suc (nextId s)" and ps = "createRow (p\<lparr>p_id := nextId s\<rparr>) (payments s)"])
      (auto simp: insertPayment_def Let_def createRow_def good_def ledger_ok_def)
qed (simp add: insertPayment_def)

lemma evolves_updatePayment [step_rules]:
  assumes "\<And>p. p_idempotencyKey (f p) = p_idempotencyKey p"
  shows "evolves s (snd (updatePayment pid f s))"
proof (cases "paymentOf pid s")
  case (Some p)
  have "evolves s (s\<lparr>payments := updateMany (\<lambda>q. p_id q = pid) f (payments s)\<rparr>)"
    by (rule evolves_payment_tables [where qs = "payouts s" and n = "nextId s"
          and ps = "updateMany (\<lambda>q. p_id q = pid) f (payments s)"])
      (auto simp: good_def ledger_ok_def updateMany_keys [of p_idempotencyKey, OF assms])
  then show ?thesis
    using Some by (simp add: updatePayment_def)
qed (simp add: updatePayment_def)

lemma evolves_createPayment [step_rules]: "evolves s (snd (createPayment input s))"
  unfolding createPayment_def
  by (intro evolves.reads_then evolves.option_split_handler evolves.ok evolves.orThrow_then
      evolves.ensure_then andThen_read_only [OF assertCanBookJobs_state] evolves.tryCatch
      evolves.rules step_rules)

lemma evolves_confirmPayment [step_rules]: "evolves s (snd (confirmPayment pid ext s))"
  unfolding confirmPayment_def
  by (intro evolves.rules step_rules) (auto simp: invoice_step_def)

lemma evolves_confirmByIdempotencyKey [step_rules]:
  "evolves s (snd (confirmByIdempotencyKey key ext s))"
  unfolding confirmByIdempotencyKey_def by (intro evolves.rules step_rules)

end
