(* ===== verification/Staffing.thy ===== *)
theory Staffing
  imports Lifecycle
begin

text \<open>
  \<open>jobs/job-staffing.service.ts\<close> with \<open>assignments/competing-offer-release.util.ts\<close>: what
  an accepted offer or a freed slot does to the job.
\<close>

section \<open>Excess offers\<close>

type_synonym competing_offer = "id \<times> id"

definition cancelExcessOffersInTransaction :: "id \<Rightarrow> competing_offer list op" where
  "cancelExcessOffersInTransaction jobId =
     andThen (reads (\<lambda>s. List.map (\<lambda>a. (a_id a, a_guardianId a)) (findMany (\<lambda>a. a_jobId a = jobId \<and>
       a_replacesAssignmentId a = None \<and> a_status a = A_OFFERED) (assignments s)))) (\<lambda>pending.
     if pending = [] then ok [] else
     andThen (updateAssignments (\<lambda>a. a_jobId a = jobId \<and> a_replacesAssignmentId a = None \<and>
         a_status a = A_OFFERED)
       (\<lambda>a. a\<lparr>a_status := A_CANCELLED, a_versionNumber := a_versionNumber a + 1\<rparr>)) (\<lambda>_.
     ok pending))"

definition cancelCompetingOffersInTransaction :: "id \<Rightarrow> id \<Rightarrow> competing_offer list op" where
  "cancelCompetingOffersInTransaction jobId winningAssignmentId = cancelExcessOffersInTransaction jobId"

definition releaseCompetingOffers :: "competing_offer list \<Rightarrow> unit op" where
  "releaseCompetingOffers competing = forEach competing (\<lambda>offer.
     andThen (cancelOfferExpiry (fst offer)) (\<lambda>_. setAvailable (snd offer)))"

section \<open>The staffing service\<close>

record staffing_accept_result =
  sa_progress :: staffing_progress
  sa_excessOffers :: "competing_offer list"
  sa_shouldContinueDispatch :: bool

text \<open>\<open>job\<close> is the row the caller read; the row lock of the source has no effect on the data.\<close>

definition applyAcceptStaffingUpdate :: "id \<Rightarrow> job \<Rightarrow> id option \<Rightarrow> staffing_accept_result op" where
  "applyAcceptStaffingUpdate jobId job changedBy =
     (if j_status job = J_SEEKING_REPLACEMENT then
        andThen (computeJobStaffingProgress jobId (j_requestedGuardianCount job)) (\<lambda>progress.
        ok \<lparr>sa_progress = progress, sa_excessOffers = [], sa_shouldContinueDispatch = False\<rparr>)
      else
        andThen (countStaffedGuardians jobId) (\<lambda>staffedCount.
        andThen (ensure (\<not> staffedCount > j_requestedGuardianCount job)
          (BadRequest ''All guardian slots are already filled'')) (\<lambda>_.
        andThen (computeJobStaffingProgress jobId (j_requestedGuardianCount job)) (\<lambda>progress.
        if sp_isFullyStaffed progress then
          andThen (transitionToAssigned jobId changedBy) (\<lambda>_.
          andThen (cancelExcessOffersInTransaction jobId) (\<lambda>excessOffers.
          ok \<lparr>sa_progress = progress, sa_excessOffers = excessOffers,
              sa_shouldContinueDispatch = False\<rparr>))
        else
          andThen (transitionToPartiallyAssigned jobId changedBy None) (\<lambda>_.
          ok \<lparr>sa_progress = progress, sa_excessOffers = [],
              sa_shouldContinueDispatch =
                sp_remainingGuardianSlots progress > sp_pendingOfferCount progress\<rparr>)))))"

definition refillRequest :: "id \<Rightarrow> outbox_input" where
  "refillRequest jobId = (dispatchRequest jobId)\<lparr>in_payloadRefill := True\<rparr>"

definition applyUnfilledSlotRedispatch ::
  "id \<Rightarrow> job \<Rightarrow> id option \<Rightarrow> change_reason option \<Rightarrow> unit op" where
  "applyUnfilledSlotRedispatch jobId job changedBy reason =
     (if j_status job = J_SEEKING_REPLACEMENT then ok () else
      andThen (computeJobStaffingProgress jobId (j_requestedGuardianCount job)) (\<lambda>progress.
      if sp_isFullyStaffed progress then
        whenever (j_status job \<noteq> J_ASSIGNED \<and> j_status job \<noteq> J_IN_PROGRESS)
          (transitionToAssigned jobId changedBy)
      else if j_status job = J_IN_PROGRESS then enqueueInTransaction (refillRequest jobId)
      else if j_status job = J_ASSIGNED \<or> j_status job = J_PARTIALLY_ASSIGNED then
        andThen (whenever (j_status job \<noteq> J_PARTIALLY_ASSIGNED)
          (transitionToPartiallyAssigned jobId changedBy reason)) (\<lambda>_.
        enqueueInTransaction (refillRequest jobId))
      else redispatchAfterNoShowInTransaction jobId changedBy reason))"

section \<open>Steps along the graphs\<close>

lemma evolves_cancelExcessOffers [step_rules]:
  "evolves s (snd (cancelExcessOffersInTransaction jid s))"
  unfolding cancelExcessOffersInTransaction_def
  by (intro evolves.rules evolves_updateAssignments)
    (auto simp: assignment_step_def intro!: assignment_edge_into)

lemma evolves_releaseCompetingOffers [step_rules]: "evolves s (snd (releaseCompetingOffers offers s))"
  unfolding releaseCompetingOffers_def by (intro evolves.rules step_rules)

lemma evolves_applyAccept [step_rules]: "evolves s (snd (applyAcceptStaffingUpdate jid job by s))"
  unfolding applyAcceptStaffingUpdate_def by (intro evolves.rules step_rules)

lemma evolves_applyUnfilled [step_rules]:
  "evolves s (snd (applyUnfilledSlotRedispatch jid job by reason s))"
  unfolding applyUnfilledSlotRedispatch_def by (intro evolves.rules step_rules)

section \<open>Accepting the last slot closes the job\<close>

text \<open>
  When the slots are filled no offer of the initial round is left open and the job is
  \<open>ASSIGNED\<close>; while some are open the job is \<open>PARTIALLY_ASSIGNED\<close>.
\<close>

lemma cancelExcess_closes:
  assumes "cancelExcessOffersInTransaction jid s = (Inr offers, s')"
  shows "countWhere (\<lambda>a. a_jobId a = jid \<and> a_replacesAssignmentId a = None \<and>
    a_status a = A_OFFERED) (assignments s') = 0"
proof -
  let ?p = "\<lambda>a. a_jobId a = jid \<and> a_replacesAssignmentId a = None \<and> a_status a = A_OFFERED"
  show ?thesis
  proof (cases "findMany ?p (assignments s) = []")
    case True
    then have "s' = s"
      using assms by (simp add: cancelExcessOffersInTransaction_def)
    then show ?thesis
      using True by (simp add: countWhere_def findMany_def)
  next
    case False
    then have "assignments s' = updateMany ?p
        (\<lambda>a. a\<lparr>a_status := A_CANCELLED, a_versionNumber := a_versionNumber a + 1\<rparr>) (assignments s)"
      using assms by (auto simp: cancelExcessOffersInTransaction_def andThen_def updateAssignments_def)
    then show ?thesis
      by (simp add: updateMany_def countWhere_map countWhere_0_iff)
  qed
qed

lemma jobOf_after_status:
  assumes "jobOf jid s = Some j"
  shows "jobOf jid (s\<lparr>jobs := updateMany (\<lambda>j. j_id j = jid) (\<lambda>j. j\<lparr>j_status := st\<rparr>) (jobs s),
      history := h\<rparr>) = Some (j\<lparr>j_status := st\<rparr>)"
  using assms job_table.lookup_modify_same [of "\<lambda>j. j\<lparr>j_status := st\<rparr>" jid "jobs s" j]
  by (simp add: jobOf_def)

lemma transition_status:
  assumes "lifecycle_transitionJobStatus jid target allowed by reason s = (Inr u, s')"
  shows "\<exists>j. jobOf jid s' = Some j \<and> j_status j = target"
    and "assignments s' = assignments s"
  using assms
  by (cases "jobOf jid s"; auto simp: lifecycle_transitionJobStatus_def changeJobStatus_apply
      jobOf_after_status ensure_def andThen_def split: if_splits)+

lemma cancelExcess_jobs: "jobs (snd (cancelExcessOffersInTransaction jid s)) = jobs s"
  by (auto simp: cancelExcessOffersInTransaction_def andThen_def updateAssignments_def)

end
