(* ===== verification/Dispatching.thy ===== *)
theory Dispatching
  imports Payments Staffing
begin

text \<open>
  \<open>dispatching/dispatching.service.ts\<close>: requests for dispatch, the dispatch rounds the outbox
  worker runs (parallel offers for the open slots, one offer at a time for a replacement), the
  failure rules, the expiry and rejection of offers, and the release of a job's assignments.
\<close>

section \<open>Requests\<close>

definition dispatching_transitionJobStatus ::
  "id \<Rightarrow> job_status \<Rightarrow> job_status \<Rightarrow> change_reason option \<Rightarrow> id option \<Rightarrow> unit op" where
  "dispatching_transitionJobStatus jobId oldStatus newStatus reason changedBy =
     transaction rollback (changeJobStatus jobId (\<lambda>j. j) oldStatus newStatus changedBy reason)"

definition ensureDispatchSchedule :: "id \<Rightarrow> instant option \<Rightarrow> instant option \<Rightarrow> unit op" where
  "ensureDispatchSchedule jobId existingDeadline existingStartedAt =
     (if existingDeadline \<noteq> None \<and> existingStartedAt \<noteq> None then ok () else
      andThen now (\<lambda>t. andThen (reads (\<lambda>s. DISPATCH_WINDOW_MS (config s))) (\<lambda>window.
      updateJob jobId (\<lambda>j. j\<lparr>
        j_dispatchDeadlineAt := (if existingDeadline = None then Some (t + window) else j_dispatchDeadlineAt j),
        j_dispatchStartedAt := (if existingStartedAt = None then Some t else j_dispatchStartedAt j)\<rparr>))))"

definition requestDispatch :: "id \<Rightarrow> unit op" where
  "requestDispatch jobId =
     andThen (reads (jobOf jobId)) (\<lambda>found.
     andThen (orThrow found (NotFound ''Job not found'')) (\<lambda>job.
     andThen (ensure (j_status job = J_PENDING \<or> j_status job = J_DISPATCHING \<or>
         j_status job = J_PARTIALLY_ASSIGNED)
       (BadRequest (''Job cannot be dispatched in status '' @ job_status_name (j_status job)))) (\<lambda>_.
     andThen (ensureDispatchSchedule jobId (j_dispatchDeadlineAt job) (j_dispatchStartedAt job)) (\<lambda>_.
     andThen (dispatching_transitionJobStatus jobId (j_status job) J_DISPATCHING None None) (\<lambda>_.
     andThen (enqueue (dispatchRequest jobId)) (\<lambda>_.
     auditLog None ''JOB_DISPATCH_REQUESTED'' jobId))))))"

definition replacementRequest :: "id \<Rightarrow> bool \<Rightarrow> outbox_input" where
  "replacementRequest jobId replacement = (dispatchRequest jobId)\<lparr>in_payloadReplacement := replacement\<rparr>"

definition requestReplacementDispatch :: "id \<Rightarrow> unit op" where
  "requestReplacementDispatch jobId =
     andThen (reads (jobOf jobId)) (\<lambda>found.
     andThen (orThrow found (NotFound ''Job not found'')) (\<lambda>job.
     andThen (ensure (j_status job = J_SEEKING_REPLACEMENT)
       (BadRequest ''Replacement dispatch requires job status SEEKING_REPLACEMENT'')) (\<lambda>_.
     andThen (enqueue (replacementRequest jobId True)) (\<lambda>_.
     auditLog None ''REPLACEMENT_DISPATCH_REQUESTED'' jobId))))"

definition REPLACEMENT_DISPATCH_PAUSE_REASONS :: "dispatch_failure list" where
  "REPLACEMENT_DISPATCH_PAUSE_REASONS = [replacement_dispatch_exhausted, replacement_dispatch_timeout]"

definition isReplacementDispatchPaused :: "job \<Rightarrow> bool" where
  "isReplacementDispatchPaused job \<longleftrightarrow> j_status job = J_SEEKING_REPLACEMENT \<and>
     (case j_dispatchFailureReason job of None \<Rightarrow> False
      | Some r \<Rightarrow> r \<in> set REPLACEMENT_DISPATCH_PAUSE_REASONS)"

definition countReplacementOffers :: "id \<Rightarrow> int op" where
  "countReplacementOffers jobId = reads (\<lambda>s. countWhere (\<lambda>a. a_jobId a = jobId \<and>
     a_replacesAssignmentId a \<noteq> None) (assignments s))"

definition resumeReplacementDispatch :: "id \<Rightarrow> id option \<Rightarrow> unit op" where
  "resumeReplacementDispatch jobId actorUserId =
     andThen (reads (jobOf jobId)) (\<lambda>found.
     andThen (orThrow found (NotFound ''Job not found'')) (\<lambda>job.
     andThen (ensure (j_status job = J_SEEKING_REPLACEMENT) (BadRequest ''Job is not seeking replacement'')) (\<lambda>_.
     andThen (orThrow (j_replacementDepartingAssignmentId job)
       (BadRequest ''Job has no departing assignment'')) (\<lambda>departingId.
     andThen (reads (assignmentOf departingId)) (\<lambda>departing.
     andThen (ensure (case departing of None \<Rightarrow> False | Some d \<Rightarrow> a_status d = A_AWAITING_RELIEF)
       (BadRequest ''Departing assignment must be AWAITING_RELIEF'')) (\<lambda>_.
     andThen now (\<lambda>t. andThen (reads (\<lambda>s. DISPATCH_WINDOW_MS (config s))) (\<lambda>window.
     andThen (updateJob jobId (\<lambda>j. j\<lparr>j_dispatchFailureReason := None,
       j_dispatchDeadlineAt := Some (t + window), j_dispatchStartedAt := Some t,
       j_unreachableSince := None\<rparr>)) (\<lambda>_.
     andThen (auditLog actorUserId ''REPLACEMENT_DISPATCH_RESUMED'' jobId) (\<lambda>_.
     requestReplacementDispatch jobId))))))))))"

section \<open>Releasing assignments\<close>

definition releaseActiveStaffedAssignmentsForJob :: "id \<Rightarrow> unit op" where
  "releaseActiveStaffedAssignmentsForJob jobId =
     andThen (reads (\<lambda>s. findMany (\<lambda>a. a_jobId a = jobId \<and> a_replacesAssignmentId a = None \<and>
       a_status a \<in> {A_ACCEPTED, A_EN_ROUTE, A_ON_SITE, A_EARLY_RELEASE_REQUESTED,
         A_REPLACEMENT_REQUESTED}) (assignments s))) (\<lambda>active.
     if active = [] then ok () else
     andThen (updateAssignments (\<lambda>a. a_id a \<in> set (List.map a_id active))
       (\<lambda>a. a\<lparr>a_status := A_CANCELLED\<rparr>)) (\<lambda>_.
     forEach active (\<lambda>a. setAvailable (a_guardianId a))))"

definition releaseInFlightOffersForJob :: "id \<Rightarrow> unit op" where
  "releaseInFlightOffersForJob jobId =
     andThen (reads (\<lambda>s. findMany (\<lambda>a. a_jobId a = jobId \<and> a_status a = A_OFFERED) (assignments s)))
       (\<lambda>offered.
     if offered = [] then ok () else
     andThen (forEach offered (\<lambda>a. cancelOfferExpiry (a_id a))) (\<lambda>_.
     andThen (updateAssignments (\<lambda>a. a_jobId a = jobId \<and> a_status a = A_OFFERED)
       (\<lambda>a. a\<lparr>a_status := A_CANCELLED\<rparr>)) (\<lambda>_.
     forEach offered (\<lambda>a. setAvailable (a_guardianId a)))))"

definition releaseReplacementPipelineForJob :: "id \<Rightarrow> unit op" where
  "releaseReplacementPipelineForJob jobId =
     andThen (releaseInFlightOffersForJob jobId) (\<lambda>_.
     andThen (reads (\<lambda>s. findMany (\<lambda>a. a_jobId a = jobId \<and> a_replacesAssignmentId a \<noteq> None \<and>
       a_status a \<in> {A_ACCEPTED, A_EN_ROUTE}) (assignments s))) (\<lambda>pipeline.
     andThen (whenever (pipeline \<noteq> [])
       (andThen (updateAssignments (\<lambda>a. a_id a \<in> set (List.map a_id pipeline))
          (\<lambda>a. a\<lparr>a_status := A_CANCELLED\<rparr>)) (\<lambda>_.
        forEach pipeline (\<lambda>a. setAvailable (a_guardianId a))))) (\<lambda>_.
     andThen (reads (jobOf jobId)) (\<lambda>found.
     case (case found of None \<Rightarrow> None | Some j \<Rightarrow> j_replacementDepartingAssignmentId j) of
       None \<Rightarrow> ok ()
     | Some departingId \<Rightarrow>
         andThen (reads (assignmentOf departingId)) (\<lambda>foundDeparting.
         case foundDeparting of None \<Rightarrow> ok ()
         | Some d \<Rightarrow>
             if a_status d \<noteq> A_AWAITING_RELIEF \<and>
                \<not> (a_status d = A_ON_SITE \<and> a_replacementResolution d = Some RR_APPROVED)
             then ok () else
             andThen (updateAssignment (a_id d) (\<lambda>a. a\<lparr>a_status := A_CANCELLED\<rparr>)) (\<lambda>_.
             andThen (setAvailable (a_guardianId d)) (\<lambda>_.
             send (NotifyGuardian (a_guardianId d) ''Job cancelled''))))))))"

section \<open>Failing a job\<close>

definition failJob :: "job \<Rightarrow> dispatch_failure \<Rightarrow> unit op" where
  "failJob job reason =
     andThen (releaseInFlightOffersForJob (j_id job)) (\<lambda>_.
     andThen (transaction rollback (changeJobStatus (j_id job)
       (\<lambda>j. j\<lparr>j_dispatchFailureReason := Some reason\<rparr>) (j_status job) J_FAILED None
       (Some (Failure reason)))) (\<lambda>_.
     writeDispatchAudit (j_id job) 0 ''job_failed''))"

text \<open>The three statuses in which the failure rules apply.\<close>

definition failable :: "job \<Rightarrow> bool" where
  "failable job \<longleftrightarrow> \<not> (j_status job \<noteq> J_PENDING \<and> j_status job \<noteq> J_DISPATCHING \<and>
     j_status job \<noteq> J_PARTIALLY_ASSIGNED)"

definition isDispatchTimedOut :: "instant option \<Rightarrow> bool op" where
  "isDispatchTimedOut dispatchDeadlineAt = andThen now (\<lambda>t.
     ok (case dispatchDeadlineAt of None \<Rightarrow> False | Some d \<Rightarrow> d \<le> t))"

definition failIfDispatchTimedOut :: "job \<Rightarrow> bool op" where
  "failIfDispatchTimedOut job =
     (if \<not> failable job then ok False else
      andThen (isDispatchTimedOut (j_dispatchDeadlineAt job)) (\<lambda>timedOut.
      if \<not> timedOut then ok False else
      andThen (failJob job dispatch_timeout) (\<lambda>_. ok True)))"

definition failIfDispatchPoolExhausted :: "job \<Rightarrow> string \<Rightarrow> bool op" where
  "failIfDispatchPoolExhausted job district =
     (if \<not> failable job then ok False else
      andThen (hasActiveOffer (j_id job)) (\<lambda>active.
      if active then ok False else
      andThen (countEligibleGuardians district) (\<lambda>eligibleCount.
      if eligibleCount = 0 then ok False else
      andThen (listEligibleGuardianIds district eligibleCount []) (\<lambda>eligibleRows.
      andThen (getTriedGuardianIds (j_id job)) (\<lambda>tried.
      let allTried = (eligibleRows \<noteq> [] \<and> list_all (\<lambda>g. g \<in> set tried) eligibleRows) in
      if \<not> allTried then ok False else
      andThen (failJob job dispatch_pool_exhausted) (\<lambda>_. ok True))))))"

definition failIfUnreachableGraceExceeded :: "job \<Rightarrow> bool op" where
  "failIfUnreachableGraceExceeded job =
     (if \<not> failable job then ok False else
      case j_unreachableSince job of None \<Rightarrow> ok False
      | Some since \<Rightarrow>
        andThen now (\<lambda>t. andThen (reads (\<lambda>s. DISPATCH_UNREACHABLE_GRACE_MS (config s))) (\<lambda>grace.
        if t < since + grace then ok False else
        andThen (failJob job dispatch_unreachable_pool) (\<lambda>_. ok True))))"

definition evaluateTerminalFailures :: "job \<Rightarrow> string \<Rightarrow> bool op" where
  "evaluateTerminalFailures job district =
     andThen (failIfDispatchTimedOut job) (\<lambda>failed. if failed then ok True else
     andThen (failIfDispatchPoolExhausted job district) (\<lambda>failed. if failed then ok True else
     andThen (failIfUnreachableGraceExceeded job) (\<lambda>failed. if failed then ok True else ok False)))"

definition districtOf :: "job \<Rightarrow> string op" where
  "districtOf job = andThen (reads (locationOf (j_locationId job))) (\<lambda>found.
     andThen (orThrow found (PrismaError ''P2025'')) (\<lambda>l. ok (l_district l)))"

definition failDispatchDueToTimeout :: "id \<Rightarrow> bool op" where
  "failDispatchDueToTimeout jobId = andThen (reads (jobOf jobId)) (\<lambda>found.
     case found of None \<Rightarrow> ok False | Some job \<Rightarrow> failIfDispatchTimedOut job)"

definition failDispatchPoolExhaustedIfApplicable :: "id \<Rightarrow> bool op" where
  "failDispatchPoolExhaustedIfApplicable jobId = andThen (reads (jobOf jobId)) (\<lambda>found.
     case found of None \<Rightarrow> ok False
     | Some job \<Rightarrow> andThen (districtOf job) (\<lambda>district. failIfDispatchPoolExhausted job district))"

definition updateUnreachableState :: "id \<Rightarrow> int \<Rightarrow> int \<Rightarrow> unit op" where
  "updateUnreachableState jobId eligibleCount reachableCount =
     (if eligibleCount > 0 \<and> reachableCount = 0 then
        andThen now (\<lambda>t. updateJobs (\<lambda>j. j_id j = jobId \<and> j_unreachableSince j = None)
          (\<lambda>j. j\<lparr>j_unreachableSince := Some t\<rparr>))
      else if reachableCount > 0 then updateJob jobId (\<lambda>j. j\<lparr>j_unreachableSince := None\<rparr>)
      else ok ())"

section \<open>Offers\<close>

definition createOfferInTransaction :: "id \<Rightarrow> id \<Rightarrow> id option \<Rightarrow> assignment op" where
  "createOfferInTransaction jobId guardianId replacesAssignmentId =
     andThen (reads (\<lambda>s. countWhere (\<lambda>a. a_jobId a = jobId) (assignments s) + 1)) (\<lambda>rnd.
     andThen now (\<lambda>t. andThen (reads (\<lambda>s. OFFER_TTL_MS (config s))) (\<lambda>ttl.
     andThen (\<lambda>s. let row = newAssignment (nextId s) jobId guardianId rnd t (t + ttl) replacesAssignmentId
        in (Inr row, s\<lparr>nextId := Suc (nextId s), assignments := createRow row (assignments s)\<rparr>)) (\<lambda>created.
     andThen (updateJob jobId (\<lambda>j. j\<lparr>j_offersSentCount := j_offersSentCount j + 1,
       j_dispatchAttempts := j_dispatchAttempts j + 1, j_unreachableSince := None\<rparr>)) (\<lambda>_.
     ok created)))))"

definition finalizeOffer :: "id \<Rightarrow> assignment \<Rightarrow> unit op" where
  "finalizeOffer jobId a =
     andThen (reads (\<lambda>s. OFFER_TTL_MS (config s))) (\<lambda>ttl.
     andThen (scheduleOfferExpiry (a_id a) ttl) (\<lambda>_.
     andThen (auditLog None ''GUARDIAN_OFFERED'' (a_id a)) (\<lambda>_.
     andThen (writeDispatchAudit jobId 0 ''offer_sent'') (\<lambda>_.
     andThen (send (EmailGuardianUser (a_guardianId a) ''dispatch.offerReceived'')) (\<lambda>_.
     send (NotifyGuardian (a_guardianId a) ''New job offer''))))))"

definition wasGuardianPreviouslyTried :: "id \<Rightarrow> id \<Rightarrow> bool op" where
  "wasGuardianPreviouslyTried jobId guardianId =
     andThen (getTriedGuardianIds jobId) (\<lambda>tried. ok (guardianId \<in> set tried))"

datatype anomaly_metric = duplicate_candidate_selected | no_candidates_after_exclusion

primrec metric_name :: "anomaly_metric \<Rightarrow> string" where
  "metric_name duplicate_candidate_selected = ''dispatch.duplicate_candidate_selected''"
| "metric_name no_candidates_after_exclusion = ''dispatch.no_candidates_after_exclusion''"

definition logDispatchAnomaly :: "id \<Rightarrow> anomaly_metric \<Rightarrow> unit op" where
  "logDispatchAnomaly jobId metric = auditLog None
     (if metric = duplicate_candidate_selected then ''DISPATCH_DUPLICATE_CANDIDATE_SELECTED''
      else ''DISPATCH_NO_CANDIDATES_AFTER_EXCLUSION'') jobId"

section \<open>Failure of a round\<close>

text \<open>\<open>Math.min(base * 2 ** Math.max(n, 0), max)\<close>.\<close>

definition backoff :: "int \<Rightarrow> int \<Rightarrow> int \<Rightarrow> int" where
  "backoff baseMs maxMs n = min (baseMs * 2 ^ nat (max n 0)) maxMs"

definition handleDispatchFailure :: "id \<Rightarrow> unit op" where
  "handleDispatchFailure jobId =
     andThen (reads (jobOf jobId)) (\<lambda>found.
     case found of None \<Rightarrow> ok ()
     | Some job \<Rightarrow>
       andThen (districtOf job) (\<lambda>district.
       andThen (evaluateTerminalFailures job district) (\<lambda>failed.
       if failed then ok () else
       andThen now (\<lambda>t.
       enqueue ((dispatchRequest jobId)\<lparr>in_scheduledAt :=
         Some (t + backoff 2000 30000 (j_offersSentCount job))\<rparr>)))))"

definition pauseReplacementDispatch :: "id \<Rightarrow> dispatch_failure \<Rightarrow> unit op" where
  "pauseReplacementDispatch jobId reason =
     andThen (reads (jobOf jobId)) (\<lambda>found.
     case found of None \<Rightarrow> ok ()
     | Some job \<Rightarrow>
       if isReplacementDispatchPaused job then ok () else
       andThen (updateJob jobId (\<lambda>j. j\<lparr>j_dispatchFailureReason := Some reason\<rparr>)) (\<lambda>_.
       andThen (auditLog None ''REPLACEMENT_DISPATCH_PAUSED'' jobId) (\<lambda>_.
       andThen (send (EmailOpsAdmins ''assignment.replacementDispatchPaused'')) (\<lambda>_.
       send (NotifyOpsAdmins ''Replacement dispatch paused'')))))"

definition evaluateReplacementDispatchLimits :: "job \<Rightarrow> bool op" where
  "evaluateReplacementDispatchLimits job =
     (if j_status job \<noteq> J_SEEKING_REPLACEMENT then ok False
      else if isReplacementDispatchPaused job then ok True else
      andThen now (\<lambda>t.
      if (case j_dispatchDeadlineAt job of None \<Rightarrow> False | Some d \<Rightarrow> d \<le> t) then
        andThen (pauseReplacementDispatch (j_id job) replacement_dispatch_timeout) (\<lambda>_. ok True)
      else
        andThen (countReplacementOffers (j_id job)) (\<lambda>replacementOffers.
        andThen (reads (\<lambda>s. MAX_REPLACEMENT_OFFERS_PER_JOB (config s))) (\<lambda>maxOffers.
        if replacementOffers \<ge> maxOffers then
          andThen (pauseReplacementDispatch (j_id job) replacement_dispatch_exhausted) (\<lambda>_. ok True)
        else ok False))))"

definition handleReplacementDispatchFailure :: "id \<Rightarrow> unit op" where
  "handleReplacementDispatchFailure jobId =
     andThen (reads (jobOf jobId)) (\<lambda>found.
     case found of None \<Rightarrow> ok ()
     | Some job \<Rightarrow>
       if isReplacementDispatchPaused job then ok () else
       andThen (evaluateReplacementDispatchLimits job) (\<lambda>limited.
       if limited then ok () else
       andThen (auditLog None ''REPLACEMENT_DISPATCH_SOFT_FAIL'' jobId) (\<lambda>_.
       andThen now (\<lambda>t.
       enqueue ((replacementRequest jobId True)\<lparr>in_scheduledAt :=
         Some (t + backoff 5000 60000 (j_offersSentCount job))\<rparr>)))))"

section \<open>Dispatch rounds\<close>

text \<open>What a round's transaction returns.\<close>

datatype round_outcome =
    FullyStaffed
  | NoOpenSlot
  | Anomaly anomaly_metric int int
  | Offers "assignment list"

text \<open>The transaction of a parallel round.\<close>

definition parallelRound :: "id \<Rightarrow> job \<Rightarrow> string \<Rightarrow> round_outcome op" where
  "parallelRound jobId job district =
     andThen (computeJobStaffingProgress jobId (j_requestedGuardianCount job)) (\<lambda>progress.
     if sp_isFullyStaffed progress then ok FullyStaffed else
     let openSlots = max 0 (sp_remainingGuardianSlots progress - sp_pendingOfferCount progress) in
     if openSlots = 0 then ok NoOpenSlot else
     andThen (reads (\<lambda>s. URGENT_PARALLEL_OFFERS (config s))) (\<lambda>urgent.
     let parallelCount = min urgent openSlots in
     andThen (pickParallelReachableGuardians district jobId parallelCount) (\<lambda>pk.
     if pp_guardians pk = [] then
       ok (Anomaly no_candidates_after_exclusion (int (length (pp_eligibleIds pk))) (pp_reachableCount pk))
     else
       andThen (forCollect (pp_guardians pk) (\<lambda>g. createOfferInTransaction jobId g None)) (\<lambda>created.
       ok (Offers created)))))"

definition processParallelDispatch :: "id \<Rightarrow> job \<Rightarrow> string \<Rightarrow> unit op" where
  "processParallelDispatch jobId job district =
     andThen (transaction rollback (parallelRound jobId job district)) (\<lambda>outcome.
     case outcome of
       FullyStaffed \<Rightarrow> ok ()
     | NoOpenSlot \<Rightarrow> ok ()
     | Anomaly metric eligibleCount reachableCount \<Rightarrow>
         andThen (logDispatchAnomaly jobId metric) (\<lambda>_.
         andThen (writeDispatchAudit jobId (j_offersSentCount job) (metric_name metric)) (\<lambda>_.
         andThen (updateUnreachableState jobId eligibleCount reachableCount) (\<lambda>_.
         handleDispatchFailure jobId)))
     | Offers created \<Rightarrow> forEach created (finalizeOffer jobId))"

text \<open>The transaction of a replacement round.\<close>

definition replacementRound :: "id \<Rightarrow> job \<Rightarrow> string \<Rightarrow> round_outcome op" where
  "replacementRound jobId job district =
     andThen (pickNextReachableGuardian district jobId True) (\<lambda>pk.
     let counts = (int (length (pk_eligibleIds pk)), pk_reachableCount pk) in
     case pk_guardian pk of
       None \<Rightarrow> ok (Anomaly no_candidates_after_exclusion (fst counts) (snd counts))
     | Some g \<Rightarrow>
         andThen (wasGuardianPreviouslyTried jobId g) (\<lambda>duplicate.
         if duplicate then ok (Anomaly duplicate_candidate_selected (fst counts) (snd counts)) else
         andThen (createOfferInTransaction jobId g (j_replacementDepartingAssignmentId job)) (\<lambda>created.
         ok (Offers [created]))))"

text \<open>The part of \<open>processDispatch\<close> a replacement takes.\<close>

definition processReplacementDispatch :: "id \<Rightarrow> job \<Rightarrow> string \<Rightarrow> unit op" where
  "processReplacementDispatch jobId job district =
     (if isReplacementDispatchPaused job then ok () else
      andThen (evaluateReplacementDispatchLimits job) (\<lambda>limited.
      if limited then ok () else
      andThen (transaction rollback (replacementRound jobId job district)) (\<lambda>outcome.
      case outcome of
        Anomaly metric eligibleCount reachableCount \<Rightarrow>
          andThen (logDispatchAnomaly jobId metric) (\<lambda>_.
          andThen (writeDispatchAudit jobId (j_offersSentCount job) (metric_name metric)) (\<lambda>_.
          andThen (updateUnreachableState jobId eligibleCount reachableCount) (\<lambda>_.
          handleReplacementDispatchFailure jobId)))
      | Offers created \<Rightarrow> forEach created (finalizeOffer jobId)
      | _ \<Rightarrow> ok ())))"

text \<open>
  The rest of \<open>processDispatch\<close>, after the job is known not to be finished or fully staffed:
  the schedule, the failure rules, the cap on offers, and the round.
\<close>

definition dispatchRound :: "id \<Rightarrow> job \<Rightarrow> bool \<Rightarrow> unit op" where
  "dispatchRound jobId job0 isReplacementDispatch =
     andThen (ensureDispatchSchedule jobId (j_dispatchDeadlineAt job0) (j_dispatchStartedAt job0)) (\<lambda>_.
     andThen now (\<lambda>t. andThen (reads config) (\<lambda>cfg.
     let job = (if j_dispatchDeadlineAt job0 = None
                then job0\<lparr>j_dispatchDeadlineAt := Some (t + DISPATCH_WINDOW_MS cfg)\<rparr> else job0) in
     andThen (districtOf job) (\<lambda>district.
     andThen (if isReplacementDispatch then ok False else evaluateTerminalFailures job district) (\<lambda>failed.
     if failed then ok ()
     else if \<not> isReplacementDispatch \<and> j_offersSentCount job \<ge> MAX_OFFERS_PER_JOB cfg
     then failJob job dispatch_max_offers_exceeded
     else if \<not> isReplacementDispatch then processParallelDispatch jobId job district
     else processReplacementDispatch jobId job district)))))"

definition processDispatch :: "id \<Rightarrow> unit op" where
  "processDispatch jobId =
     andThen (reads (jobOf jobId)) (\<lambda>found.
     case found of None \<Rightarrow> ok ()
     | Some job \<Rightarrow>
       if j_status job \<in> {J_CANCELLED, J_COMPLETED, J_AWAITING_CONFIRMATION} then ok ()
       else if j_status job = J_FAILED then ok ()
       else if j_status job = J_SEEKING_REPLACEMENT then dispatchRound jobId job True
       else
         andThen (computeJobStaffingProgress jobId (j_requestedGuardianCount job)) (\<lambda>progress.
         if sp_isFullyStaffed progress then
           whenever (j_status job \<noteq> J_ASSIGNED \<and> j_status job \<noteq> J_IN_PROGRESS)
             (transaction rollback (transitionToAssigned jobId None))
         else if j_status job \<notin> {J_PENDING, J_DISPATCHING, J_PARTIALLY_ASSIGNED, J_ASSIGNED, J_IN_PROGRESS}
         then ok ()
         else dispatchRound jobId job False))"

section \<open>The end of an offer\<close>

definition rejectOffer :: "id \<Rightarrow> id \<Rightarrow> unit op" where
  "rejectOffer assignmentId guardianId =
     andThen (reads (assignmentOf assignmentId)) (\<lambda>found.
     andThen (orThrow found (NotFound ''Assignment not found'')) (\<lambda>a.
     andThen (reads (jobOf (a_jobId a))) (\<lambda>foundJob.
     andThen (orThrow foundJob (PrismaError ''P2025'')) (\<lambda>job.
     andThen (ensure (a_guardianId a = guardianId) (NotFound ''Assignment not found'')) (\<lambda>_.
     andThen (ensure (a_status a = A_OFFERED) (BadRequest ''Offer is no longer active'')) (\<lambda>_.
     andThen (transaction rollbackKeepingShifts (
       andThen (updateOptimistic assignmentId (a_versionNumber a) (\<lambda>a. a\<lparr>a_status := A_DECLINED\<rparr>)) (\<lambda>_.
       setAvailable guardianId))) (\<lambda>_.
     andThen (auditLog None ''OFFER_DECLINED'' assignmentId) (\<lambda>_.
     andThen (writeDispatchAudit (a_jobId a) 0 ''offer_declined'') (\<lambda>_.
     let isReplacement = (j_status job = J_SEEKING_REPLACEMENT) in
     whenever (\<not> isReplacement \<or> \<not> isReplacementDispatchPaused job)
       (enqueue (replacementRequest (a_jobId a) isReplacement)))))))))))"

definition expireOffer :: "id \<Rightarrow> unit op" where
  "expireOffer assignmentId =
     andThen (reads (assignmentOf assignmentId)) (\<lambda>found.
     case found of None \<Rightarrow> ok ()
     | Some a \<Rightarrow>
       andThen (reads (jobOf (a_jobId a))) (\<lambda>foundJob.
       andThen (orThrow foundJob (PrismaError ''P2025'')) (\<lambda>job0.
       andThen now (\<lambda>t.
       if a_status a \<noteq> A_OFFERED then ok ()
       else if j_status job0 \<in> {J_CANCELLED, J_COMPLETED, J_AWAITING_CONFIRMATION} then ok ()
       else if a_expiresAt a > t then ok () else
       andThen (transaction rollbackKeepingShifts (
         andThen (updateOptimistic assignmentId (a_versionNumber a) (\<lambda>a. a\<lparr>a_status := A_EXPIRED\<rparr>)) (\<lambda>_.
         setAvailable (a_guardianId a)))) (\<lambda>_.
       andThen (send (NotifyGuardian (a_guardianId a) ''Offer expired'')) (\<lambda>_.
       andThen (reads (jobOf (a_jobId a))) (\<lambda>foundAfter.
       case foundAfter of None \<Rightarrow> ok ()
       | Some job \<Rightarrow>
         if j_status job \<notin> {J_PENDING, J_DISPATCHING, J_PARTIALLY_ASSIGNED, J_SEEKING_REPLACEMENT}
         then ok () else
         andThen (districtOf job) (\<lambda>district.
         andThen (if j_status job \<noteq> J_SEEKING_REPLACEMENT then evaluateTerminalFailures job district
                  else ok False) (\<lambda>failed.
         let isReplacement = (j_status job = J_SEEKING_REPLACEMENT) in
         if failed then ok ()
         else if isReplacement \<and> isReplacementDispatchPaused job then ok ()
         else enqueue (replacementRequest (a_jobId a) isReplacement))))))))))"

definition completeJob :: "id \<Rightarrow> id \<Rightarrow> invoice op" where
  "completeJob jobId actorUserId =
     andThen (reads (jobOf jobId)) (\<lambda>found.
     andThen (orThrow found (NotFound ''Job not found'')) (\<lambda>job.
     if j_status job = J_COMPLETED then issueDraftForJobId jobId actorUserId else
     andThen (ensure (j_status job = J_AWAITING_CONFIRMATION)
       (BadRequest ''Job can only be confirmed after guardian completion'')) (\<lambda>_.
     andThen (confirmBilling jobId (Some actorUserId)) (\<lambda>_.
     issueDraftForJobId jobId actorUserId))))"

end
