(* ===== verification/Dispatch_Steps.thy ===== *)
theory Dispatch_Steps
  imports Dispatching
begin

text \<open>
  The dispatching service stays inside \<open>evolves\<close>.  Its methods carry a job row they read at
  the start through several writes; a second preorder, \<open>keepsStatuses\<close>, says which steps leave
  every job's status alone, so that the status read is still the status when it is changed.
\<close>

section \<open>Steps that change no job status\<close>

definition keepsStatuses :: "sys \<Rightarrow> sys \<Rightarrow> bool" where
  "keepsStatuses s s' \<longleftrightarrow>
     List.map (\<lambda>j. (j_id j, j_status j)) (jobs s') = List.map (\<lambda>j. (j_id j, j_status j)) (jobs s)"

named_theorems status_rules \<open>steps that change no job status\<close>

interpretation keepsStatuses: state_preorder keepsStatuses
  by unfold_locales (simp_all add: keepsStatuses_def)

lemma keepsStatuses_jobs [simp]: "jobs s' = jobs s \<Longrightarrow> keepsStatuses s s'"
  by (simp add: keepsStatuses_def)

lemma findUnique_status:
  "List.map (\<lambda>j. (j_id j, j_status j)) xs = List.map (\<lambda>j. (j_id j, j_status j)) ys \<Longrightarrow>
   map_option j_status (findUnique j_id k xs) = map_option j_status (findUnique j_id k ys)"
proof (induction xs arbitrary: ys)
  case (Cons x xs)
  then show ?case by (cases ys) auto
qed simp

lemma keepsStatuses_jobOf:
  "keepsStatuses s s' \<Longrightarrow> map_option j_status (jobOf jid s') = map_option j_status (jobOf jid s)"
  unfolding keepsStatuses_def jobOf_def by (rule findUnique_status) simp

lemma keepsStatuses_updateJob [status_rules]:
  assumes "\<And>j. j_id (f j) = j_id j \<and> j_status (f j) = j_status j"
  shows "keepsStatuses s (snd (updateJob jid f s))"
  using assms by (auto simp: updateJob_def keepsStatuses_def updateMany_def split: option.split)

lemma keepsStatuses_simple [status_rules]:
  "keepsStatuses s (snd (now s))" "keepsStatuses s (snd (auditLog by act e s))"
  "keepsStatuses s (snd (send m s))" "keepsStatuses s (snd (cancelOfferExpiry aid s))"
  "keepsStatuses s (snd (updateAssignments p f s))" "keepsStatuses s (snd (writeDispatchAudit j n event s))"
  by (simp_all add: auditLog_def send_def cancelOfferExpiry_def updateAssignments_def
      writeDispatchAudit_def)

lemma keepsStatuses_updateAssignment [status_rules]: "keepsStatuses s (snd (updateAssignment aid g s))"
  by (auto simp: updateAssignment_def split: option.split)

lemma keepsStatuses_updateShift [status_rules]: "keepsStatuses s (snd (updateShift gid f s))"
  by (auto simp: updateShift_def split: option.split)

lemma keepsStatuses_setAvailable [status_rules]: "keepsStatuses s (snd (setAvailable gid s))"
  unfolding setAvailable_def by (intro keepsStatuses.rules status_rules)

lemma keepsStatuses_releaseInFlight [status_rules]:
  "keepsStatuses s (snd (releaseInFlightOffersForJob jid s))"
  unfolding releaseInFlightOffersForJob_def by (intro keepsStatuses.rules status_rules)

lemma keepsStatuses_releaseActive [status_rules]:
  "keepsStatuses s (snd (releaseActiveStaffedAssignmentsForJob jid s))"
  unfolding releaseActiveStaffedAssignmentsForJob_def by (intro keepsStatuses.rules status_rules)

lemma keepsStatuses_releasePipeline [status_rules]:
  "keepsStatuses s (snd (releaseReplacementPipelineForJob jid s))"
  unfolding releaseReplacementPipelineForJob_def by (intro keepsStatuses.rules status_rules)

lemma keepsStatuses_ensureDispatchSchedule [status_rules]:
  "keepsStatuses s (snd (ensureDispatchSchedule jid d st s))"
  unfolding ensureDispatchSchedule_def by (intro keepsStatuses.rules status_rules) simp

section \<open>The job row read earlier\<close>

lemma evolves_jobOf:
  assumes "evolves s s'" and "good s" and "jobOf jid s = Some j"
  shows "\<exists>j'. jobOf jid s' = Some j' \<and> job_step j j'"
proof -
  have j: "j \<in> set (jobs s)" "j_id j = jid"
    using assms(3) by (auto simp: jobOf_def dest: findUnique_SomeD)
  have "table_evolves job_step job_born (jobs s) (jobs s')" and good': "good s'"
    using assms(1,2) by (simp_all add: evolves_def)
  from table_evolves_old [OF this(1) j(1)] obtain j' where j': "j' \<in> set (jobs s')" "job_step j j'"
    by blast
  have "j_id j' = jid"
    using j'(2) j(2) by (simp add: job_step_def job_frame_def)
  then have "findUnique j_id jid (jobs s') = Some j'"
    using findUnique_distinct [of j_id "jobs s'" j'] good' j'(1) by (simp add: good_def wf_def)
  then show ?thesis
    using j'(2) by (simp add: jobOf_def)
qed

text \<open>A status change with the status read before the steps in between.\<close>

lemma evolves_status_after:
  assumes "job_edge (j_status job) new" and "\<And>j. job_frame j (f j)" and "new \<noteq> J_SEEKING_REPLACEMENT"
    and "map_option j_status (jobOf jid s) = Some (j_status job)"
  shows "evolves s (snd (changeJobStatus jid f (j_status job) new by reason s))"
  using assms by (intro evolves_job_status) auto

section \<open>Releasing\<close>

lemma evolves_releaseActive [step_rules]:
  "evolves s (snd (releaseActiveStaffedAssignmentsForJob jid s))"
proof (rule evolves_when_good)
  assume good: "good s"
  let ?p = "\<lambda>a. a_jobId a = jid \<and> a_replacesAssignmentId a = None \<and>
       a_status a \<in> {A_ACCEPTED, A_EN_ROUTE, A_ON_SITE, A_EARLY_RELEASE_REQUESTED,
         A_REPLACEMENT_REQUESTED}"
  have "evolves s (snd (updateAssignments
      (\<lambda>a. a_id a \<in> set (List.map a_id (findMany ?p (assignments s))))
      (\<lambda>a. a\<lparr>a_status := A_CANCELLED\<rparr>) s))"
  proof (rule evolves_updateAssignments)
    fix a
    assume a: "a \<in> set (assignments s)" "a_id a \<in> set (List.map a_id (findMany ?p (assignments s)))"
    then obtain b where b: "b \<in> set (assignments s)" "?p b" "a_id b = a_id a"
      by (auto simp: findMany_def)
    have "a = b"
      by (rule distinct_key_unique [of a_id "assignments s"])
        (use good a b in \<open>auto simp: good_def wf_def\<close>)
    then show "assignment_step a (a\<lparr>a_status := A_CANCELLED\<rparr>)"
      using b(2) by (auto simp: assignment_step_def intro!: assignment_edge_into)
  qed
  then show "evolves s (snd (releaseActiveStaffedAssignmentsForJob jid s))"
    unfolding releaseActiveStaffedAssignmentsForJob_def
    by (intro evolves.reads_then evolves.if_split_handler evolves.ok evolves.andThen
        evolves.forEach step_rules)
qed

lemma evolves_releaseInFlight [step_rules]: "evolves s (snd (releaseInFlightOffersForJob jid s))"
  unfolding releaseInFlightOffersForJob_def
  by (intro evolves.rules step_rules evolves_updateAssignments)
    (auto simp: assignment_step_def intro!: assignment_edge_into)

lemma evolves_releasePipeline [step_rules]: "evolves s (snd (releaseReplacementPipelineForJob jid s))"
proof (rule evolves_when_good)
  assume "good s"
  let ?p = "\<lambda>a. a_jobId a = jid \<and> a_replacesAssignmentId a \<noteq> None \<and> a_status a \<in> {A_ACCEPTED, A_EN_ROUTE}"
  have pipeline: "evolves t (snd (updateAssignments
      (\<lambda>a. a_id a \<in> set (List.map a_id (findMany ?p (assignments t))))
      (\<lambda>a. a\<lparr>a_status := A_CANCELLED\<rparr>) t))" for t
  proof (rule evolves_when_good, rule evolves_updateAssignments)
    fix a
    assume good: "good t"
      and a: "a \<in> set (assignments t)" "a_id a \<in> set (List.map a_id (findMany ?p (assignments t)))"
    then obtain b where b: "b \<in> set (assignments t)" "?p b" "a_id b = a_id a"
      by (auto simp: findMany_def)
    have "a = b"
      by (rule distinct_key_unique [of a_id "assignments t"])
        (use good a b in \<open>auto simp: good_def wf_def\<close>)
    then show "assignment_step a (a\<lparr>a_status := A_CANCELLED\<rparr>)"
      using b(2) by (auto simp: assignment_step_def intro!: assignment_edge_into)
  qed
  have depart: "evolves t (snd (updateAssignment (a_id d) (\<lambda>a. a\<lparr>a_status := A_CANCELLED\<rparr>) t))"
    if "assignmentOf k t = Some d" "\<not> (a_status d \<noteq> A_AWAITING_RELIEF \<and>
        \<not> (a_status d = A_ON_SITE \<and> a_replacementResolution d = Some RR_APPROVED))" for t d k
    by (rule evolves_setAssignment [where a = d])
      (use that in \<open>auto simp: assignmentOf_def assignment_step_def intro!: assignment_edge_into
         dest: findUnique_SomeD\<close>)
  show "evolves s (snd (releaseReplacementPipelineForJob jid s))"
    unfolding releaseReplacementPipelineForJob_def
    by (intro evolves.reads_then evolves.option_split_handler evolves.if_split_handler
        evolves.whenever evolves.ok evolves.andThen evolves.forEach pipeline depart step_rules)
qed

lemma evolves_ensureDispatchSchedule [step_rules]:
  "evolves s (snd (ensureDispatchSchedule jid d st s))"
  unfolding ensureDispatchSchedule_def by (intro evolves.rules step_rules) (simp add: job_frame_def)

section \<open>Failing\<close>

text \<open>The row a method carries still has the job's status.\<close>

definition current :: "job \<Rightarrow> sys \<Rightarrow> bool" where
  "current job s \<longleftrightarrow> map_option j_status (jobOf (j_id job) s) = Some (j_status job)"

lemma current_read: "jobOf jid s = Some job \<Longrightarrow> current job s"
  by (auto simp: current_def jobOf_def dest: findUnique_SomeD)

lemma current_after:
  assumes "keepsStatuses s s'" and "current job s"
  shows "current job s'"
  using assms keepsStatuses_jobOf [of s s' "j_id job"] by (simp add: current_def)

lemma evolves_failJob:
  assumes "current job s" and "job_edge (j_status job) J_FAILED"
  shows "evolves s (snd (failJob job reason s))"
  unfolding failJob_def
proof (intro evolves.andThen step_rules)
  fix u s'
  assume "releaseInFlightOffersForJob (j_id job) s = (Inr u, s')"
  then have "keepsStatuses s s'"
    using keepsStatuses_releaseInFlight [of s "j_id job"] by simp
  then have "current job s'"
    using assms(1) by (rule current_after)
  then show "evolves s' (snd (changeJobStatus (j_id job)
      (\<lambda>j. j\<lparr>j_dispatchFailureReason := Some reason\<rparr>) (j_status job) J_FAILED None
      (Some (Failure reason)) s'))"
    using assms(2) by (intro evolves_status_after) (auto simp: current_def job_frame_def)
qed

lemma failable_edge: "failable job \<Longrightarrow> job_edge (j_status job) J_FAILED"
  by (auto simp: failable_def)

lemma evolves_failIfTimedOut:
  "current job s \<Longrightarrow> evolves s (snd (failIfDispatchTimedOut job s))"
  unfolding failIfDispatchTimedOut_def isDispatchTimedOut_def
  by (simp, intro impI evolves.rules evolves_failJob) (auto dest: failable_edge)

lemma evolves_failIfPoolExhausted:
  "current job s \<Longrightarrow> evolves s (snd (failIfDispatchPoolExhausted job district s))"
  unfolding failIfDispatchPoolExhausted_def hasActiveOffer_def countEligibleGuardians_def
    listEligibleGuardianIds_def getTriedGuardianIds_def Let_def
  by (intro evolves.if_split_handler evolves.reads_then evolves.ok evolves.andThen evolves_failJob)
    (auto dest: failable_edge)

lemma evolves_failIfUnreachable:
  "current job s \<Longrightarrow> evolves s (snd (failIfUnreachableGraceExceeded job s))"
  unfolding failIfUnreachableGraceExceeded_def now_def
  by (intro evolves.if_split_handler evolves.option_split_handler evolves.reads_then evolves.ok
      evolves.andThen evolves_failJob)
    (auto dest: failable_edge)

text \<open>A failure rule that does not fire has changed nothing.\<close>

lemma andThen_eq_Inr_ok:
  "andThen m (\<lambda>_. ok True) s \<noteq> (Inr False, s')"
  by (cases "m s") (auto simp: andThen_def split: sum.splits)

lemma failure_rules_idle:
  "failIfDispatchTimedOut job s = (Inr False, s') \<Longrightarrow> s' = s"
  "failIfDispatchPoolExhausted job district s = (Inr False, s') \<Longrightarrow> s' = s"
  "failIfUnreachableGraceExceeded job s = (Inr False, s') \<Longrightarrow> s' = s"
  unfolding failIfDispatchTimedOut_def isDispatchTimedOut_def failIfDispatchPoolExhausted_def
    hasActiveOffer_def countEligibleGuardians_def listEligibleGuardianIds_def
    getTriedGuardianIds_def Let_def failIfUnreachableGraceExceeded_def
  by (auto simp: andThen_assoc andThen_eq_Inr_ok split: if_splits option.splits)

lemma evolves_evaluateTerminalFailures:
  assumes "current job s"
  shows "evolves s (snd (evaluateTerminalFailures job district s))"
  unfolding evaluateTerminalFailures_def
  using assms
  by (intro evolves.andThen evolves.if_split_handler evolves.ok evolves_failIfTimedOut
      evolves_failIfPoolExhausted evolves_failIfUnreachable)
    (auto dest!: failure_rules_idle)

lemma terminal_idle:
  "evaluateTerminalFailures job district s = (Inr False, s') \<Longrightarrow> s' = s"
  unfolding evaluateTerminalFailures_def
  by (auto simp: andThen_eq_Inr split: if_splits dest!: failure_rules_idle)

lemma evolves_failDispatchDueToTimeout [step_rules]:
  "evolves s (snd (failDispatchDueToTimeout jid s))"
  unfolding failDispatchDueToTimeout_def
  by (intro evolves.reads_then evolves.option_split_handler evolves.ok evolves_failIfTimedOut
      current_read)

lemma districtOf_state [simp]: "snd (districtOf job s) = s"
  by (simp add: districtOf_def orThrow_def split: option.split)

lemma evolves_failPoolIfApplicable [step_rules]:
  "evolves s (snd (failDispatchPoolExhaustedIfApplicable jid s))"
  unfolding failDispatchPoolExhaustedIfApplicable_def
  by (intro evolves.reads_then evolves.option_split_handler evolves.ok
      andThen_read_only [OF districtOf_state] evolves_failIfPoolExhausted current_read)

lemma evolves_updateUnreachableState [step_rules]:
  "evolves s (snd (updateUnreachableState jid n m s))"
  unfolding updateUnreachableState_def
  by (intro evolves.rules step_rules) (simp_all add: job_frame_def)

section \<open>Requests\<close>

lemma evolves_requestDispatch [step_rules]: "evolves s (snd (requestDispatch jid s))"
proof -
  have change: "evolves s' (snd (dispatching_transitionJobStatus jid (j_status job) J_DISPATCHING None None s'))"
    if "jobOf jid s = Some job" "j_status job = J_PENDING \<or> j_status job = J_DISPATCHING \<or>
         j_status job = J_PARTIALLY_ASSIGNED"
      "ensureDispatchSchedule jid d st s = (Inr u, s')" for job d st u s'
  proof -
    have "keepsStatuses s s'"
      using keepsStatuses_ensureDispatchSchedule [of s jid d st] that(3) by simp
    then have "current job s'"
      using current_read [OF that(1)] by (rule current_after)
    then have "map_option j_status (jobOf jid s') = Some (j_status job)"
      using that(1) by (auto simp: current_def jobOf_def dest: findUnique_SomeD)
    then show ?thesis
      unfolding dispatching_transitionJobStatus_def
      using that(2) by (intro step_rules evolves_status_after) auto
  qed
  show ?thesis
    unfolding requestDispatch_def
    by (intro evolves.reads_then evolves.orThrow_then evolves.ensure_then evolves.andThen change step_rules)
qed

lemma evolves_requestReplacementDispatch [step_rules]:
  "evolves s (snd (requestReplacementDispatch jid s))"
  unfolding requestReplacementDispatch_def by (intro evolves.rules step_rules)

lemma evolves_resumeReplacementDispatch [step_rules]:
  "evolves s (snd (resumeReplacementDispatch jid by s))"
  unfolding resumeReplacementDispatch_def
  by (intro evolves.rules step_rules) (simp add: job_frame_def)

lemma evolves_completeJob [step_rules]: "evolves s (snd (completeJob jid by s))"
  unfolding completeJob_def by (intro evolves.rules step_rules)

section \<open>Offers\<close>

text \<open>What one offer does to the tables.\<close>

definition offerRow :: "sys \<Rightarrow> id \<Rightarrow> id \<Rightarrow> id option \<Rightarrow> assignment" where
  "offerRow s jobId guardianId replaces = newAssignment (nextId s) jobId guardianId
     (countWhere (\<lambda>a. a_jobId a = jobId) (assignments s) + 1) (clock s)
     (clock s + OFFER_TTL_MS (config s)) replaces"

definition offeredJob :: "job \<Rightarrow> job" where
  "offeredJob j = j\<lparr>j_offersSentCount := j_offersSentCount j + 1,
     j_dispatchAttempts := j_dispatchAttempts j + 1, j_unreachableSince := None\<rparr>"

definition afterOffer :: "id \<Rightarrow> id \<Rightarrow> id option \<Rightarrow> sys \<Rightarrow> sys" where
  "afterOffer jobId guardianId replaces s = s\<lparr>nextId := Suc (nextId s),
     assignments := createRow (offerRow s jobId guardianId replaces) (assignments s),
     jobs := updateMany (\<lambda>j. j_id j = jobId) offeredJob (jobs s)\<rparr>"

lemma createOffer_found:
  assumes "jobOf jid s = Some j"
  shows "createOfferInTransaction jid gid replaces s =
    (Inr (offerRow s jid gid replaces), afterOffer jid gid replaces s)"
  using assms
  by (simp add: createOfferInTransaction_def andThen_def updateJob_def jobOf_def offerRow_def
      afterOffer_def offeredJob_def [abs_def] Let_def)

lemma afterOffer_job:
  assumes "jobOf jid s = Some j"
  shows "jobOf jid (afterOffer jid gid replaces s) = Some (offeredJob j)"
proof -
  have key: "\<And>j. j_id (offeredJob j) = j_id j"
    by (simp add: offeredJob_def)
  show ?thesis
    using job_table.lookup_modify_same [OF key] assms by (simp add: jobOf_def afterOffer_def)
qed

lemma afterOffer_slots:
  "slots_taken jid (afterOffer jid gid replaces s) = slots_taken jid s + (if replaces = None then 1 else 0)"
  by (simp add: slots_taken_def afterOffer_def createRow_def offerRow_def newAssignment_def)

lemma evolves_afterOffer:
  assumes job: "jobOf jid s = Some j"
    and slot: "replaces = None \<Longrightarrow> slots_taken jid s < max 0 (j_requestedGuardianCount j)"
  shows "evolves s (afterOffer jid gid replaces s)"
proof (rule evolves_when_good)
  assume good: "good s"
  let ?s1 = "s\<lparr>nextId := Suc (nextId s),
     assignments := createRow (offerRow s jid gid replaces) (assignments s)\<rparr>"
  have j: "j \<in> set (jobs s)" "j_id j = jid"
    using job by (auto simp: jobOf_def dest: findUnique_SomeD)
  have only: "x = j" if "x \<in> set (jobs s)" "j_id x = jid" for x
    using findUnique_only [of j_id "jobs s" jid j x] good job that
    by (simp add: good_def wf_def jobOf_def)
  have "evolves s ?s1"
    unfolding offerRow_def
    by (rule evolves_new_offer) (use good j slot in \<open>auto simp: good_def wf_def dest: only\<close>)
  moreover have "evolves ?s1 (?s1\<lparr>jobs := updateMany (\<lambda>j. j_id j = jid) offeredJob (jobs ?s1)\<rparr>)"
    by (rule evolves_job_rows) (simp add: offeredJob_def job_frame_def)
  ultimately have "evolves s (?s1\<lparr>jobs := updateMany (\<lambda>j. j_id j = jid) offeredJob (jobs ?s1)\<rparr>)"
    by (rule evolves.trans)
  then show "evolves s (afterOffer jid gid replaces s)"
    by (simp add: afterOffer_def)
qed

text \<open>A batch of initial offers that fits into the free slots.\<close>

lemma evolves_offers:
  assumes "jobOf jid s = Some j"
    and "slots_taken jid s + int (length gs) \<le> max 0 (j_requestedGuardianCount j)"
  shows "evolves s (snd (forCollect gs (\<lambda>g. createOfferInTransaction jid g None) s))"
  using assms
proof (induction gs arbitrary: s j)
  case (Cons g gs)
  let ?s1 = "afterOffer jid g None s"
  have step: "evolves s ?s1"
    using Cons.prems by (intro evolves_afterOffer) auto
  have "evolves ?s1 (snd (forCollect gs (\<lambda>g. createOfferInTransaction jid g None) ?s1))"
    using Cons.prems
    by (intro Cons.IH [where j = "offeredJob j"])
      (simp_all add: afterOffer_job afterOffer_slots, simp add: offeredJob_def)
  then have "evolves ?s1 (snd (andThen (forCollect gs (\<lambda>g. createOfferInTransaction jid g None))
      (\<lambda>ys. ok (offerRow s jid g None # ys)) ?s1))"
    by (intro evolves.andThen evolves.ok)
  with step show ?case
    using Cons.prems(1) by (simp add: andThen_def createOffer_found) (blast intro: evolves.trans)
qed simp

lemma evolves_finalizeOffer [step_rules]: "evolves s (snd (finalizeOffer jid a s))"
  unfolding finalizeOffer_def by (intro evolves.rules step_rules)

lemma evolves_logDispatchAnomaly [step_rules]: "evolves s (snd (logDispatchAnomaly jid m s))"
  unfolding logDispatchAnomaly_def by (intro step_rules)

lemma evolves_pauseReplacementDispatch [step_rules]:
  "evolves s (snd (pauseReplacementDispatch jid r s))"
  unfolding pauseReplacementDispatch_def
  by (intro evolves.rules step_rules) (simp add: job_frame_def)

lemma evolves_evaluateReplacementLimits [step_rules]:
  "evolves s (snd (evaluateReplacementDispatchLimits job s))"
  unfolding evaluateReplacementDispatchLimits_def countReplacementOffers_def
  by (intro evolves.rules step_rules)

lemma evolves_handleReplacementFailure [step_rules]:
  "evolves s (snd (handleReplacementDispatchFailure jid s))"
  unfolding handleReplacementDispatchFailure_def by (intro evolves.rules step_rules)

lemma evolves_handleDispatchFailure [step_rules]: "evolves s (snd (handleDispatchFailure jid s))"
proof -
  have *: "evolves s (snd (andThen (districtOf job) (\<lambda>d. andThen (evaluateTerminalFailures job d) (f d)) s))"
    if "current job s" "\<And>d b t. evolves t (snd (f d b t))" for job f
    by (intro andThen_read_only [OF districtOf_state] evolves.andThen
        evolves_evaluateTerminalFailures that)
  show ?thesis
    unfolding handleDispatchFailure_def
    by (intro evolves.reads_then evolves.option_split_handler evolves.ok * current_read
        evolves.if_split_handler evolves.andThen step_rules)
qed

section \<open>Rounds\<close>

lemma pickParallel_frame:
  assumes "pickParallelReachableGuardians d jid n s = (Inr pk, s')"
  shows "jobOf k s' = jobOf k s" and "slots_taken k s' = slots_taken k s"
  using pickParallel_spec(3) [OF assms]
  by (auto simp: presence_dropped_def jobOf_def slots_taken_def)

lemma evolves_parallelRound:
  assumes "good s \<Longrightarrow> \<exists>j. jobOf jid s = Some j \<and>
      j_requestedGuardianCount j = j_requestedGuardianCount job"
  shows "evolves s (snd (parallelRound jid job district s))"
proof (rule evolves_when_good)
  assume "good s"
  then obtain j where j: "jobOf jid s = Some j" "j_requestedGuardianCount j = j_requestedGuardianCount job"
    using assms by blast
  obtain p where p: "computeJobStaffingProgress jid (j_requestedGuardianCount job) s = (Inr p, s)"
    by (simp add: progress_answer)
  have slots: "sp_acceptedGuardianCount p + sp_pendingOfferCount p = slots_taken jid s"
      "sp_remainingGuardianSlots p = max 0 (j_requestedGuardianCount job - sp_acceptedGuardianCount p)"
    using progress_slots(2,3) [OF p] by simp_all
  have pending: "0 \<le> sp_pendingOfferCount p"
    using p by (auto simp: progress_answer buildStaffingProgress_def Let_def)
  have offers: "evolves s' (snd (forCollect (pp_guardians pk) (\<lambda>g. createOfferInTransaction jid g None) s'))"
    if pick: "pickParallelReachableGuardians district jid
        (min u (max 0 (sp_remainingGuardianSlots p - sp_pendingOfferCount p))) s = (Inr pk, s')"
      and open_slots: "max 0 (sp_remainingGuardianSlots p - sp_pendingOfferCount p) \<noteq> 0"
      and some: "pp_guardians pk \<noteq> []" for pk s' u
  proof (rule evolves_offers)
    show "jobOf jid s' = Some j"
      using pickParallel_frame(1) [OF pick] j(1) by simp
    have "int (length (pp_guardians pk)) \<le>
        max 0 (min u (max 0 (sp_remainingGuardianSlots p - sp_pendingOfferCount p)))"
      using pickParallel_spec(1) [OF pick] by linarith
    then show "slots_taken jid s' + int (length (pp_guardians pk)) \<le> max 0 (j_requestedGuardianCount j)"
      using pickParallel_frame(2) [OF pick, of jid] slots open_slots some j(2) pending
      by (auto simp: max_def min_def split: if_splits)
  qed
  have round: "evolves s (snd (andThen (computeJobStaffingProgress jid (j_requestedGuardianCount job)) F s))"
    if "evolves s (snd (F p s))" for F :: "staffing_progress \<Rightarrow> round_outcome op"
    using that by (simp add: andThen_def p)
  show "evolves s (snd (parallelRound jid job district s))"
    unfolding parallelRound_def Let_def
    by (intro round evolves.if_split_handler evolves.ok evolves.reads_then evolves.andThen
        offers step_rules)
qed

interpretation presence_dropped: state_preorder presence_dropped
  by unfold_locales (auto intro: presence_dropped_refl presence_dropped_trans)

lemma presence_dropped_pickNext: "presence_dropped s (snd (pickNextReachableGuardian d jid r s))"
  unfolding pickNextReachableGuardian_def listEligibleGuardianIds_def getExcludedGuardianIds_def
    getTriedGuardianIds_def getReplacementExcludedGuardianIds_def Let_def
  by (intro presence_dropped.rules) (simp add: filterReachable_result)

lemma presence_dropped_jobOf: "presence_dropped s s' \<Longrightarrow> jobOf k s' = jobOf k s"
  by (auto simp: presence_dropped_def jobOf_def)

lemma evolves_replacementRound:
  assumes "good s \<Longrightarrow> \<exists>j. jobOf jid s = Some j"
    and "good s \<Longrightarrow> j_replacementDepartingAssignmentId job \<noteq> None"
  shows "evolves s (snd (replacementRound jid job district s))"
proof (rule evolves_when_good)
  assume good: "good s"
  have create: "evolves s' (snd (createOfferInTransaction jid g (j_replacementDepartingAssignmentId job) s'))"
    if "pickNextReachableGuardian district jid True s = (Inr pk, s')" for pk s' g
  proof -
    have "presence_dropped s s'"
      using presence_dropped_pickNext [of s district jid True] that by simp
    then obtain j where "jobOf jid s' = Some j"
      using assms(1) [OF good] presence_dropped_jobOf by fastforce
    then show ?thesis
      using assms(2) [OF good] by (auto simp: createOffer_found intro!: evolves_afterOffer)
  qed
  show "evolves s (snd (replacementRound jid job district s))"
    unfolding replacementRound_def wasGuardianPreviouslyTried_def getTriedGuardianIds_def Let_def
      andThen_assoc
    by (intro evolves.andThen [where m = "pickNextReachableGuardian district jid True"]
        evolves.option_split_handler evolves.reads_then evolves.if_split_handler evolves.ok step_rules)
      (simp, intro impI conjI evolves.andThen create evolves.ok)
qed

lemma evolves_processParallelDispatch:
  assumes "good s \<Longrightarrow> \<exists>j. jobOf jid s = Some j \<and>
      j_requestedGuardianCount j = j_requestedGuardianCount job"
  shows "evolves s (snd (processParallelDispatch jid job district s))"
proof -
  have "evolves t (snd ((case outcome of FullyStaffed \<Rightarrow> ok () | NoOpenSlot \<Rightarrow> ok ()
      | Anomaly metric eligibleCount reachableCount \<Rightarrow>
         andThen (logDispatchAnomaly jid metric) (\<lambda>_.
         andThen (writeDispatchAudit jid (j_offersSentCount job) (metric_name metric)) (\<lambda>_.
         andThen (updateUnreachableState jid eligibleCount reachableCount) (\<lambda>_.
         handleDispatchFailure jid)))
      | Offers created \<Rightarrow> forEach created (finalizeOffer jid)) t))" for outcome t
    by (cases outcome) (auto intro!: evolves.andThen evolves.forEach step_rules)
  then show ?thesis
    unfolding processParallelDispatch_def
    by (intro evolves.andThen evolves_transaction evolves_parallelRound assms)
qed

lemma evolves_processReplacementDispatch:
  assumes "good s \<Longrightarrow> \<exists>j. jobOf jid s = Some j"
    and "good s \<Longrightarrow> j_replacementDepartingAssignmentId job \<noteq> None"
  shows "evolves s (snd (processReplacementDispatch jid job district s))"
proof (rule evolves_when_good)
  assume good: "good s"
  have round: "evolves t (snd (replacementRound jid job district t))"
    if "evaluateReplacementDispatchLimits job s = (Inr b, t)" for b t
  proof (rule evolves_replacementRound)
    have "evolves s t"
      using evolves_evaluateReplacementLimits [of s job] that by simp
    then show "\<exists>j. jobOf jid t = Some j"
      using evolves_jobOf assms(1) good by blast
    show "j_replacementDepartingAssignmentId job \<noteq> None"
      using assms(2) good by blast
  qed
  have outcome: "evolves t (snd ((case outcome of
        Anomaly metric eligibleCount reachableCount \<Rightarrow>
          andThen (logDispatchAnomaly jid metric) (\<lambda>_.
          andThen (writeDispatchAudit jid (j_offersSentCount job) (metric_name metric)) (\<lambda>_.
          andThen (updateUnreachableState jid eligibleCount reachableCount) (\<lambda>_.
          handleReplacementDispatchFailure jid)))
      | Offers created \<Rightarrow> forEach created (finalizeOffer jid)
      | _ \<Rightarrow> ok ()) t))" for outcome t
    by (cases outcome) (auto intro!: evolves.andThen evolves.forEach step_rules)
  show "evolves s (snd (processReplacementDispatch jid job district s))"
    unfolding processReplacementDispatch_def
    by (intro evolves.if_split_handler evolves.ok evolves.andThen evolves_transaction round outcome
        evolves_evaluateReplacementLimits)
qed

lemma evolves_dispatchRound:
  assumes job: "jobOf jid s = Some job0"
    and rep: "rep \<Longrightarrow> j_status job0 = J_SEEKING_REPLACEMENT"
    and norep: "\<not> rep \<Longrightarrow> job_edge (j_status job0) J_FAILED"
  shows "evolves s (snd (dispatchRound jid job0 rep s))"
proof (rule evolves_when_good)
  assume good: "good s"
  have rest: "evolves t (snd (andThen (districtOf job) (\<lambda>district.
      andThen (if rep then ok False else evaluateTerminalFailures job district) (\<lambda>failed.
      if failed then ok ()
      else if \<not> rep \<and> j_offersSentCount job \<ge> MAX_OFFERS_PER_JOB cfg
      then failJob job dispatch_max_offers_exceeded
      else if \<not> rep then processParallelDispatch jid job district
      else processReplacementDispatch jid job district)) t))"
    if sched: "ensureDispatchSchedule jid d st s = (Inr u, t)"
      and same: "j_id job = j_id job0" "j_status job = j_status job0"
        "j_requestedGuardianCount job = j_requestedGuardianCount job0"
        "j_replacementDepartingAssignmentId job = j_replacementDepartingAssignmentId job0"
    for d st u t job cfg
  proof -
    have "evolves s t" "keepsStatuses s t"
      using evolves_ensureDispatchSchedule [of s jid d st]
        keepsStatuses_ensureDispatchSchedule [of s jid d st] sched by simp_all
    then have cur: "current job t" and found: "\<exists>j. jobOf jid t = Some j \<and>
        j_requestedGuardianCount j = j_requestedGuardianCount job"
      using current_after [OF _ current_read [OF job], of t] evolves_jobOf [OF _ good job, of t] same
      by (auto simp: current_def job_step_def job_frame_def)
    have departing: "j_replacementDepartingAssignmentId job \<noteq> None" if "rep"
      using good job rep [OF that] same(4)
      by (auto simp: good_def seeking_ok_def jobOf_def dest: findUnique_SomeD)
    have parallel: "evolves t (snd (processParallelDispatch jid job district t))" for district
      by (rule evolves_processParallelDispatch) (rule found)
    have replacement: "evolves t (snd (processReplacementDispatch jid job district t))"
      if "rep" for district
      by (rule evolves_processReplacementDispatch) (use found departing [OF that] in auto)
    have failing: "evolves t (snd (failJob job r t))" if "\<not> rep" for r
      by (rule evolves_failJob [OF cur]) (use norep [OF that] same in simp)
    show ?thesis
    proof (cases rep)
      case True
      then show ?thesis
        using replacement [OF True]
        by (intro andThen_read_only [OF districtOf_state]) simp
    next
      case False
      have "evolves t' (snd ((if MAX_OFFERS_PER_JOB cfg \<le> j_offersSentCount job
          then failJob job dispatch_max_offers_exceeded
          else processParallelDispatch jid job district) t'))"
        if "evaluateTerminalFailures job district t = (Inr False, t')" for district t'
        using terminal_idle [OF that] parallel failing [OF False] by simp
      then show ?thesis
        using False
        by (auto intro!: andThen_read_only [OF districtOf_state] evolves.andThen
            evolves_evaluateTerminalFailures [OF cur])
    qed
  qed
  show "evolves s (snd (dispatchRound jid job0 rep s))"
    unfolding dispatchRound_def Let_def
    by (intro evolves.andThen [where m = "ensureDispatchSchedule jid d st" for d st] step_rules)
      (simp, intro conjI impI rest; simp)
qed

lemma evolves_processDispatch [step_rules]: "evolves s (snd (processDispatch jid s))"
  unfolding processDispatch_def
  by (intro evolves.reads_then evolves.option_split_handler evolves.if_split_handler evolves.ok
      evolves.whenever evolves.andThen evolves_dispatchRound step_rules)
    (auto simp: progress_answer)

section \<open>The end of an offer\<close>

lemma evolves_closeOffer:
  assumes "assignmentOf aid s = Some a" and "a_status a = A_OFFERED"
    and "new = A_DECLINED \<or> new = A_EXPIRED"
  shows "evolves s (snd (updateOptimistic aid v (\<lambda>a. a\<lparr>a_status := new\<rparr>) s))"
  by (rule evolves_updateOptimistic [where a = a])
    (use assms in \<open>auto simp: assignment_step_def intro!: assignment_edge_into\<close>)

lemma evolves_rejectOffer [step_rules]: "evolves s (snd (rejectOffer aid gid s))"
  unfolding rejectOffer_def Let_def
  by (intro evolves.rules step_rules evolves_closeOffer) auto

lemma evolves_expireOffer [step_rules]: "evolves s (snd (expireOffer aid s))"
proof -
  have tail: "evolves t (snd (andThen (districtOf job) (\<lambda>district.
      andThen (if j_status job \<noteq> J_SEEKING_REPLACEMENT then evaluateTerminalFailures job district
               else ok False) (\<lambda>failed. if failed then ok ()
         else if j_status job = J_SEEKING_REPLACEMENT \<and> isReplacementDispatchPaused job then ok ()
         else enqueue (f job))) t))"
    if "jobOf k t = Some job" for k t job f
    by (intro andThen_read_only [OF districtOf_state] evolves.andThen evolves.if_split_handler
        evolves.ok evolves_evaluateTerminalFailures current_read [OF that] step_rules)
  have close: "evolves t (snd (updateOptimistic aid v (\<lambda>a. a\<lparr>a_status := A_EXPIRED\<rparr>) t))"
    if "assignmentOf aid t = Some a" "\<not> a_status a \<noteq> A_OFFERED" for v t a
    by (rule evolves_closeOffer) (use that in auto)
  show ?thesis
    unfolding expireOffer_def Let_def andThen_now
    by (intro evolves.reads_then evolves.orThrow_then evolves.option_split_handler evolves.ok)
      (simp, intro impI evolves.andThen evolves_transaction_shifts evolves.reads_then
        evolves.option_split_handler evolves.if_split_handler evolves.ok tail close step_rules; simp)
qed

end
