(* ===== verification/Assignments.thy ===== *)
theory Assignments
  imports Dispatch_Steps
begin

text \<open>
  \<open>assignments/assignments.service.ts\<close>: what a guardian, a client or an operator does with an
  assignment, from the acceptance of the offer to its completion, early release, replacement
  or no-show.
\<close>

section \<open>Reading an assignment with its job\<close>

definition readAssignment :: "id \<Rightarrow> (assignment \<Rightarrow> job \<Rightarrow> 'a op) \<Rightarrow> 'a op" where
  "readAssignment assignmentId body =
     andThen (reads (assignmentOf assignmentId)) (\<lambda>found.
     andThen (orThrow found (NotFound ''Assignment not found'')) (\<lambda>a.
     andThen (reads (jobOf (a_jobId a))) (\<lambda>foundJob.
     andThen (orThrow foundJob (PrismaError ''P2025'')) (\<lambda>job. body a job))))"

record guardian_assignments =
  ga_offers :: "assignment list"
  ga_activeAssignment :: "assignment option"

definition findForGuardian :: "id \<Rightarrow> guardian_assignments op" where
  "findForGuardian guardianId = reads (\<lambda>s. \<lparr>
     ga_offers = orderByDesc a_offerSentAt (findMany (\<lambda>a. a_guardianId a = guardianId \<and>
       a_status a = A_OFFERED \<and> a_expiresAt a > clock s) (assignments s)),
     ga_activeAssignment = findFirst (\<lambda>a. a_guardianId a = guardianId \<and>
       a_status a \<in> {A_ACCEPTED, A_EN_ROUTE, A_ON_SITE, A_EARLY_RELEASE_REQUESTED,
         A_REPLACEMENT_REQUESTED, A_AWAITING_RELIEF}) (assignments s)\<rparr>)"

section \<open>Accepting and declining\<close>

definition acceptTransaction :: "id \<Rightarrow> id \<Rightarrow> (assignment \<times> staffing_accept_result) op" where
  "acceptTransaction assignmentId guardianId =
     readAssignment assignmentId (\<lambda>a job.
     andThen (ensure (a_guardianId a = guardianId) (NotFound ''Assignment not found'')) (\<lambda>_.
     andThen (ensure (a_status a = A_OFFERED) (BadRequest ''Offer is no longer active'')) (\<lambda>_.
     andThen now (\<lambda>t.
     andThen (ensure (\<not> a_expiresAt a < t) (BadRequest ''Offer has expired'')) (\<lambda>_.
     andThen (if j_status job \<noteq> J_SEEKING_REPLACEMENT
       then andThen (countStaffedGuardians (a_jobId a)) (\<lambda>staffed.
            ensure (\<not> staffed \<ge> j_requestedGuardianCount job) (BadRequest ''All guardian slots are filled''))
       else ok ()) (\<lambda>_.
     andThen (reads (guardianOf guardianId)) (\<lambda>foundGuardian.
     andThen (orThrow foundGuardian (NotFound ''Guardian not found'')) (\<lambda>g.
     andThen (resolvePayPolicy (j_jobType job) (g_employmentType g) (j_scheduledStart job)) (\<lambda>pay.
     andThen (transitionOfferedAssignment assignmentId (a_versionNumber a) (\<lambda>a. a\<lparr>a_status := A_ACCEPTED,
       a_acceptedAt := Some t, a_payPolicyModel := Some (rp_model pay),
       a_payMinimumHours := Some (rp_minimumHours pay), a_payPolicyResolvedAt := Some t,
       a_hourlyPayRateAtCommit := g_hourlyPayRate g,
       a_payApplyOnEarlyRelease := Some (rp_applyOnEarlyRelease pay)\<rparr>)) (\<lambda>updatedCount.
     andThen (ensure (updatedCount \<noteq> 0) (Conflict ''Offer is no longer active'')) (\<lambda>_.
     andThen (reads (assignmentOf assignmentId)) (\<lambda>foundUpdated.
     andThen (orThrow foundUpdated (PrismaError ''P2025'')) (\<lambda>updated.
     andThen (updateShift guardianId (\<lambda>r. r\<lparr>s_shiftStatus := S_BUSY, s_availableForJobs := False\<rparr>)) (\<lambda>_.
     andThen (applyAcceptStaffingUpdate (a_jobId a) job None) (\<lambda>staffing.
     ok (updated, staffing))))))))))))))))"

definition accept :: "id \<Rightarrow> id \<Rightarrow> assignment op" where
  "accept assignmentId guardianId =
     andThen (transaction rollback (acceptTransaction assignmentId guardianId)) (\<lambda>(result, staffing).
     andThen (releaseCompetingOffers (sa_excessOffers staffing)) (\<lambda>_.
     andThen (whenever (sa_shouldContinueDispatch staffing) (enqueue (refillRequest (a_jobId result)))) (\<lambda>_.
     andThen (auditLog None ''OFFER_ACCEPTED'' assignmentId) (\<lambda>_.
     ok result))))"

definition decline :: "id \<Rightarrow> id \<Rightarrow> unit op" where
  "decline assignmentId guardianId =
     readAssignment assignmentId (\<lambda>a job.
     andThen (ensure (a_guardianId a = guardianId) (NotFound ''Assignment not found'')) (\<lambda>_.
     andThen (ensure (a_status a = A_OFFERED) (BadRequest ''Offer is no longer active'')) (\<lambda>_.
     andThen (transaction rollbackKeepingShifts (
       andThen (updateOptimistic assignmentId (a_versionNumber a) (\<lambda>a. a\<lparr>a_status := A_DECLINED\<rparr>)) (\<lambda>_.
       setAvailable guardianId))) (\<lambda>_.
     andThen (auditLog None ''OFFER_DECLINED'' assignmentId) (\<lambda>_.
     let isReplacement = (j_status job = J_SEEKING_REPLACEMENT) in
     whenever (\<not> isReplacement \<or> \<not> isReplacementDispatchPaused job)
       (enqueue (replacementRequest (a_jobId a) isReplacement)))))))"

section \<open>Moving along\<close>

definition transition ::
  "id \<Rightarrow> id \<Rightarrow> assignment_status \<Rightarrow> assignment_status \<Rightarrow> string \<Rightarrow> assignment op" where
  "transition assignmentId guardianId from to auditAction =
     andThen (reads (assignmentOf assignmentId)) (\<lambda>found.
     andThen (orThrow found (NotFound ''Assignment not found'')) (\<lambda>a.
     andThen (ensure (a_guardianId a = guardianId) (NotFound ''Assignment not found'')) (\<lambda>_.
     andThen (ensure (a_status a = from)
       (BadRequest (''Expected status '' @ assignment_status_name from))) (\<lambda>_.
     andThen (ensure (assertAssignmentTransitionAllowed from to = Inr ())
       (BadRequest (''Cannot transition assignment from '' @ assignment_status_name from @ '' to '' @
          assignment_status_name to))) (\<lambda>_.
     andThen (transaction rollback
       (updateOptimistic assignmentId (a_versionNumber a) (\<lambda>a. a\<lparr>a_status := to\<rparr>))) (\<lambda>updated.
     andThen (auditLog None auditAction assignmentId) (\<lambda>_.
     ok updated)))))))"

definition enRoute :: "id \<Rightarrow> id \<Rightarrow> assignment op" where
  "enRoute assignmentId guardianId = transition assignmentId guardianId A_ACCEPTED A_EN_ROUTE ''EN_ROUTE''"

text \<open>The substitute arrives: it takes over from the assignment it relieves.\<close>

definition handoffTransaction :: "assignment \<Rightarrow> assignment \<Rightarrow> assignment op" where
  "handoffTransaction original substitute =
     andThen now (\<lambda>handoffAt.
     andThen (updateOptimistic (a_id original) (a_versionNumber original)
       (\<lambda>a. a\<lparr>a_status := A_COMPLETED\<rparr>)) (\<lambda>_.
     andThen (updateAssignment (a_id original) (\<lambda>a. a\<lparr>a_completedAt := Some handoffAt\<rparr>)) (\<lambda>_.
     andThen (updateOptimistic (a_id substitute) (a_versionNumber substitute)
       (\<lambda>a. a\<lparr>a_status := A_ON_SITE\<rparr>)) (\<lambda>updated.
     andThen (updateAssignment (a_id substitute) (\<lambda>a. a\<lparr>a_arrivedAt := Some handoffAt\<rparr>)) (\<lambda>_.
     andThen (transitionFromSeekingReplacementToInProgress (a_jobId substitute) None) (\<lambda>_.
     andThen (updateJob (a_jobId substitute) (\<lambda>j. j\<lparr>j_replacementDepartingAssignmentId := None,
       j_dispatchFailureReason := None\<rparr>)) (\<lambda>_.
     andThen (updateShift (a_guardianId original)
       (\<lambda>r. r\<lparr>s_shiftStatus := S_AVAILABLE, s_availableForJobs := True\<rparr>)) (\<lambda>_.
     ok updated))))))))"

definition executeReplacementHandoff :: "assignment \<Rightarrow> job \<Rightarrow> assignment op" where
  "executeReplacementHandoff substitute job =
     andThen (orThrow (case a_replacesAssignmentId substitute of
         None \<Rightarrow> j_replacementDepartingAssignmentId job | Some x \<Rightarrow> Some x)
       (BadRequest ''Replacement handoff is missing departing assignment'')) (\<lambda>originalId.
     andThen (reads (assignmentOf originalId)) (\<lambda>found.
     andThen (orThrow found (BadRequest ''Original assignment is not ready for handoff'')) (\<lambda>original.
     andThen (ensure (a_status original = A_AWAITING_RELIEF \<and>
         a_replacementResolution original = Some RR_APPROVED)
       (BadRequest ''Original assignment is not ready for handoff'')) (\<lambda>_.
     andThen (assertSeekingReplacementState (Some original) (Some substitute)) (\<lambda>_.
     andThen (transaction rollback (handoffTransaction original substitute)) (\<lambda>result.
     andThen (auditLog None ''REPLACEMENT_HANDOFF_COMPLETED'' (a_id substitute)) (\<lambda>_.
     andThen (send (EmailOrgOwners (j_organizationId job) ''assignment.replacementCompleted'')) (\<lambda>_.
     andThen (send (NotifyOrgOwners (j_organizationId job) ''Officer replaced'')) (\<lambda>_.
     ok result)))))))))"

definition onSite :: "id \<Rightarrow> id \<Rightarrow> assignment op" where
  "onSite assignmentId guardianId =
     readAssignment assignmentId (\<lambda>a job.
     andThen (ensure (a_guardianId a = guardianId) (NotFound ''Assignment not found'')) (\<lambda>_.
     andThen (ensure (a_status a = A_EN_ROUTE) (BadRequest ''Expected status EN_ROUTE'')) (\<lambda>_.
     if a_replacesAssignmentId a \<noteq> None \<and> j_status job = J_SEEKING_REPLACEMENT
     then executeReplacementHandoff a job
     else
       andThen (transaction rollback (
         andThen (updateOptimistic assignmentId (a_versionNumber a) (\<lambda>a. a\<lparr>a_status := A_ON_SITE\<rparr>)) (\<lambda>updated.
         andThen now (\<lambda>t.
         andThen (updateAssignment assignmentId (\<lambda>a. a\<lparr>a_arrivedAt := Some t\<rparr>)) (\<lambda>_.
         andThen (transitionToInProgress (a_jobId a) None) (\<lambda>_.
         ok updated)))))) (\<lambda>result.
       andThen (auditLog None ''ON_SITE'' assignmentId) (\<lambda>_.
       ok result)))))"

definition complete :: "id \<Rightarrow> id \<Rightarrow> id \<Rightarrow> assignment op" where
  "complete assignmentId guardianId actorUserId =
     readAssignment assignmentId (\<lambda>a job.
     andThen (ensure (a_guardianId a = guardianId) (NotFound ''Assignment not found'')) (\<lambda>_.
     andThen (ensure (a_status a \<noteq> A_AWAITING_RELIEF)
       (BadRequest ''Remain on site until the replacement officer arrives'')) (\<lambda>_.
     andThen (ensure (a_status a = A_ON_SITE \<or>
         (a_status a = A_EARLY_RELEASE_REQUESTED \<and> isEarlyReleaseApproved (a_earlyReleaseResolution a)))
       (BadRequest ''Complete from on-site, or after early release is approved'')) (\<lambda>_.
     andThen (transition assignmentId guardianId (a_status a) A_COMPLETED ''ASSIGNMENT_COMPLETED'') (\<lambda>result.
     andThen now (\<lambda>t.
     andThen (updateAssignment assignmentId (\<lambda>a. a\<lparr>a_completedAt := Some t\<rparr>)) (\<lambda>_.
     andThen (completeFromAssignment (a_jobId result) (Some actorUserId)) (\<lambda>_.
     andThen (reads (jobOf (a_jobId result))) (\<lambda>jobAfter.
     andThen (if map_option j_status jobAfter = Some J_AWAITING_CONFIRMATION
       then andThen (createDraftInvoiceForJobId (a_jobId result) actorUserId) (\<lambda>_. ok ())
       else ok ()) (\<lambda>_.
     andThen (setAvailable guardianId) (\<lambda>_.
     ok result)))))))))))"

section \<open>Early release\<close>

definition getAssignmentForClientAction :: "id \<Rightarrow> actor \<Rightarrow> (assignment \<times> job) op" where
  "getAssignmentForClientAction assignmentId actor =
     readAssignment assignmentId (\<lambda>a job.
     andThen (assertOrgMember (j_organizationId job) actor) (\<lambda>_.
     ok (a, job)))"

text \<open>A nullable boolean or number used as a condition: \<open>null\<close> and \<open>0\<close> are false.\<close>

definition truthy :: "bool option \<Rightarrow> bool" where
  "truthy b = (b = Some True)"

text \<open>
  The resolution, its instant and the auto-approval instant a request starts with: approved at
  once when the client need not approve, otherwise approved by the timer when there is one.
\<close>

definition resolveEarlyRelease ::
  "job \<Rightarrow> instant \<Rightarrow> early_release_resolution option \<times> instant option \<times> instant option" where
  "resolveEarlyRelease job t =
     (if \<not> truthy (j_billingEarlyReleaseRequiresClientApproval job)
      then (Some ER_AUTO_APPROVED, Some t, None)
      else case j_billingAutoApproveAfterMinutes job of
        None \<Rightarrow> (None, None, None)
      | Some m \<Rightarrow> if m = 0 then (None, None, None) else (None, None, Some (t + m * 60000)))"

definition requestEarlyRelease :: "id \<Rightarrow> id \<Rightarrow> string \<Rightarrow> assignment op" where
  "requestEarlyRelease assignmentId guardianId reason =
     readAssignment assignmentId (\<lambda>a job.
     andThen (ensure (a_guardianId a = guardianId) (NotFound ''Assignment not found'')) (\<lambda>_.
     andThen (ensure (\<not> (a_status a = A_REPLACEMENT_REQUESTED \<or> a_status a = A_AWAITING_RELIEF))
       (BadRequest ''Cannot request early release during replacement workflow'')) (\<lambda>_.
     andThen (ensure (a_status a = A_ON_SITE)
       (BadRequest ''Early release can only be requested while on site'')) (\<lambda>_.
     andThen (ensure (\<not> (a_replacementRequestedAt a \<noteq> None \<and> a_replacementResolution a = None))
       (BadRequest ''Cannot request early release while replacement is pending'')) (\<lambda>_.
     andThen (ensure (truthy (j_billingAllowEarlyRelease job))
       (BadRequest ''Early release is not allowed for this job'')) (\<lambda>_.
     andThen now (\<lambda>t.
     let (resolution, resolvedAt, autoApproveAt) = resolveEarlyRelease job t in
     andThen (ensure (assertAssignmentTransitionAllowed A_ON_SITE A_EARLY_RELEASE_REQUESTED = Inr ())
       (BadRequest ''Cannot request early release from current status'')) (\<lambda>_.
     andThen (transaction rollback (
       andThen (updateOptimistic assignmentId (a_versionNumber a)
         (\<lambda>a. a\<lparr>a_status := A_EARLY_RELEASE_REQUESTED\<rparr>)) (\<lambda>_.
       andThen (updateAssignment assignmentId (\<lambda>a. a\<lparr>a_earlyReleaseRequestedAt := Some t,
         a_earlyReleaseReason := Some reason, a_earlyReleaseResolvedAt := resolvedAt,
         a_earlyReleaseResolution := resolution, a_earlyReleaseAutoApproveAt := autoApproveAt\<rparr>)) (\<lambda>_.
       andThen (reads (assignmentOf assignmentId)) (\<lambda>row.
       orThrow row (PrismaError ''P2025'')))))) (\<lambda>result.
     andThen (auditLog None ''EARLY_RELEASE_REQUESTED'' assignmentId) (\<lambda>_.
     andThen (whenever (truthy (j_billingEarlyReleaseRequiresClientApproval job) \<and> resolution = None) (
       andThen (send (EmailOrgOwners (j_organizationId job) ''assignment.earlyReleaseRequested'')) (\<lambda>_.
       send (NotifyOrgOwners (j_organizationId job) ''Early release requested'')))) (\<lambda>_.
     ok result)))))))))))"

text \<open>
  The answer \<open>{ idempotent: true }\<close> and the updated row both have an identifier and a status;
  the flag tells the two apart.
\<close>

record early_release_answer =
  er_assignmentId :: id
  er_status :: assignment_status
  er_idempotent :: bool

definition approveEarlyRelease :: "id \<Rightarrow> actor \<Rightarrow> early_release_answer op" where
  "approveEarlyRelease assignmentId actor =
     andThen (getAssignmentForClientAction assignmentId actor) (\<lambda>(a, job).
     andThen (ensure (a_status a = A_EARLY_RELEASE_REQUESTED)
       (BadRequest ''Assignment is not awaiting early release approval'')) (\<lambda>_.
     if a_earlyReleaseResolution a \<noteq> None
     then ok \<lparr>er_assignmentId = assignmentId, er_status = a_status a, er_idempotent = True\<rparr>
     else
       andThen now (\<lambda>t.
       andThen (updateAssignment assignmentId (\<lambda>a. a\<lparr>a_earlyReleaseResolution := Some ER_APPROVED,
         a_earlyReleaseResolvedAt := Some t, a_earlyReleaseAutoApproveAt := None\<rparr>)) (\<lambda>_.
       andThen (reads (assignmentOf assignmentId)) (\<lambda>row.
       andThen (orThrow row (PrismaError ''P2025'')) (\<lambda>updated.
       andThen (auditLog (Some (sub actor)) ''EARLY_RELEASE_APPROVED'' assignmentId) (\<lambda>_.
       andThen (send (NotifyGuardian (a_guardianId a) ''Early release approved'')) (\<lambda>_.
       ok \<lparr>er_assignmentId = assignmentId, er_status = a_status updated, er_idempotent = False\<rparr>))))))))"

text \<open>
  The template string that appends a note to a reason, with JavaScript's \<open>trim\<close>; without a note
  (or with the empty one) the reason stays.
\<close>

definition annotated :: "string option \<Rightarrow> string \<Rightarrow> string option \<Rightarrow> string option" where
  "annotated old verdict note =
     (case note of
        None \<Rightarrow> old
      | Some n \<Rightarrow> if n = '''' then old
          else Some (trimBy jsWhitespace ((case old of None \<Rightarrow> '''' | Some r \<Rightarrow> r) @ '' | '' @ verdict @ '': '' @ n)))"

definition rejectEarlyRelease :: "id \<Rightarrow> actor \<Rightarrow> string option \<Rightarrow> assignment op" where
  "rejectEarlyRelease assignmentId actor note =
     andThen (getAssignmentForClientAction assignmentId actor) (\<lambda>(a, job).
     andThen (ensure (a_status a = A_EARLY_RELEASE_REQUESTED)
       (BadRequest ''Assignment is not awaiting early release approval'')) (\<lambda>_.
     andThen now (\<lambda>t.
     andThen (transaction rollback (
       andThen (updateOptimistic assignmentId (a_versionNumber a) (\<lambda>a. a\<lparr>a_status := A_ON_SITE\<rparr>)) (\<lambda>_.
       andThen (updateAssignment assignmentId (\<lambda>b. b\<lparr>a_earlyReleaseResolution := Some ER_REJECTED,
         a_earlyReleaseResolvedAt := Some t, a_earlyReleaseAutoApproveAt := None,
         a_earlyReleaseReason := annotated (a_earlyReleaseReason a) ''rejected'' note\<rparr>)) (\<lambda>_.
       andThen (reads (assignmentOf assignmentId)) (\<lambda>row.
       orThrow row (PrismaError ''P2025'')))))) (\<lambda>result.
     andThen (auditLog (Some (sub actor)) ''EARLY_RELEASE_REJECTED'' assignmentId) (\<lambda>_.
     andThen (send (NotifyGuardian (a_guardianId a) ''Early release denied'')) (\<lambda>_.
     ok result))))))"

text \<open>\<open>None\<close> is the answer \<open>{ skipped: true }\<close>.\<close>

definition autoApproveEarlyRelease :: "id \<Rightarrow> assignment option op" where
  "autoApproveEarlyRelease assignmentId =
     andThen (reads (assignmentOf assignmentId)) (\<lambda>found.
     case found of
       None \<Rightarrow> ok None
     | Some a \<Rightarrow>
         if a_status a \<noteq> A_EARLY_RELEASE_REQUESTED \<or> a_earlyReleaseResolution a \<noteq> None then ok None
         else
           andThen now (\<lambda>t.
           andThen (updateAssignment assignmentId (\<lambda>a. a\<lparr>a_earlyReleaseResolution := Some ER_AUTO_APPROVED,
             a_earlyReleaseResolvedAt := Some t, a_earlyReleaseAutoApproveAt := None\<rparr>)) (\<lambda>_.
           andThen (reads (assignmentOf assignmentId)) (\<lambda>updated.
           andThen (auditLog None ''EARLY_RELEASE_AUTO_APPROVED'' assignmentId) (\<lambda>_.
           andThen (send (NotifyGuardian (a_guardianId a) ''Early release approved'')) (\<lambda>_.
           ok updated))))))"

section \<open>Replacement\<close>

definition requestReplacement :: "id \<Rightarrow> id \<Rightarrow> string \<Rightarrow> assignment op" where
  "requestReplacement assignmentId guardianId reason =
     readAssignment assignmentId (\<lambda>a job.
     andThen (ensure (a_guardianId a = guardianId) (NotFound ''Assignment not found'')) (\<lambda>_.
     andThen (ensure (a_status a = A_ON_SITE)
       (BadRequest ''Replacement can only be requested while on site'')) (\<lambda>_.
     andThen (ensure (j_status job \<noteq> J_SEEKING_REPLACEMENT)
       (BadRequest ''Replacement dispatch is already in progress for this job'')) (\<lambda>_.
     andThen (ensure (j_status job = J_IN_PROGRESS)
       (BadRequest ''Replacement can only be requested for in-progress jobs'')) (\<lambda>_.
     andThen (ensure (assertAssignmentTransitionAllowed A_ON_SITE A_REPLACEMENT_REQUESTED = Inr ())
       (BadRequest ''Cannot request replacement from current status'')) (\<lambda>_.
     andThen now (\<lambda>t.
     andThen (transaction rollback (
       andThen (updateOptimistic assignmentId (a_versionNumber a)
         (\<lambda>a. a\<lparr>a_status := A_REPLACEMENT_REQUESTED\<rparr>)) (\<lambda>_.
       andThen (updateAssignment assignmentId (\<lambda>a. a\<lparr>a_replacementRequestedAt := Some t,
         a_replacementReason := Some reason, a_replacementResolvedAt := None,
         a_replacementResolution := None, a_replacementResolvedByUserId := None\<rparr>)) (\<lambda>_.
       andThen (reads (assignmentOf assignmentId)) (\<lambda>row.
       orThrow row (PrismaError ''P2025'')))))) (\<lambda>result.
     andThen (auditLog None ''REPLACEMENT_REQUESTED'' assignmentId) (\<lambda>_.
     andThen (send (EmailOpsAdmins ''assignment.replacementRequested'')) (\<lambda>_.
     andThen (send (NotifyOpsAdmins ''Replacement requested'')) (\<lambda>_.
     ok result)))))))))))"

text \<open>Ascending, with nulls last as PostgreSQL sorts them.\<close>

definition listReplacementRequests :: "assignment list op" where
  "listReplacementRequests = reads (\<lambda>s.
     let rows = findMany (\<lambda>a. a_status a = A_REPLACEMENT_REQUESTED) (assignments s) in
     orderByAsc (\<lambda>a. the (a_replacementRequestedAt a))
       (findMany (\<lambda>a. a_replacementRequestedAt a \<noteq> None) rows) @
     findMany (\<lambda>a. a_replacementRequestedAt a = None) rows)"

definition denyReplacement :: "id \<Rightarrow> id \<Rightarrow> string option \<Rightarrow> assignment op" where
  "denyReplacement assignmentId actorUserId note =
     readAssignment assignmentId (\<lambda>a job.
     andThen (ensure (a_status a = A_REPLACEMENT_REQUESTED)
       (BadRequest ''Assignment is not awaiting replacement approval'')) (\<lambda>_.
     andThen now (\<lambda>t.
     andThen (transaction rollback (
       andThen (updateOptimistic assignmentId (a_versionNumber a) (\<lambda>a. a\<lparr>a_status := A_ON_SITE\<rparr>)) (\<lambda>_.
       andThen (updateAssignment assignmentId (\<lambda>b. b\<lparr>a_replacementResolution := Some RR_DENIED,
         a_replacementResolvedAt := Some t, a_replacementResolvedByUserId := Some actorUserId,
         a_replacementReason := annotated (a_replacementReason a) ''denied'' note\<rparr>)) (\<lambda>_.
       andThen (reads (assignmentOf assignmentId)) (\<lambda>row.
       orThrow row (PrismaError ''P2025'')))))) (\<lambda>result.
     andThen (auditLog (Some actorUserId) ''REPLACEMENT_DENIED'' assignmentId) (\<lambda>_.
     andThen (send (NotifyGuardian (a_guardianId a) ''Replacement denied'')) (\<lambda>_.
     ok result))))))"

definition approveReplacementTransaction :: "assignment \<Rightarrow> id \<Rightarrow> unit op" where
  "approveReplacementTransaction a actorUserId =
     andThen now (\<lambda>t.
     andThen (updateOptimistic (a_id a) (a_versionNumber a) (\<lambda>a. a\<lparr>a_status := A_AWAITING_RELIEF\<rparr>)) (\<lambda>_.
     andThen (updateAssignment (a_id a) (\<lambda>a. a\<lparr>a_replacementResolution := Some RR_APPROVED,
       a_replacementResolvedAt := Some t, a_replacementResolvedByUserId := Some actorUserId\<rparr>)) (\<lambda>_.
     andThen (transitionToSeekingReplacement (a_jobId a) (Some actorUserId)) (\<lambda>_.
     updateJob (a_jobId a) (\<lambda>j. j\<lparr>j_replacementDepartingAssignmentId := Some (a_id a),
       j_dispatchDeadlineAt := Some (t + 600000), j_dispatchStartedAt := Some t,
       j_dispatchFailureReason := None, j_unreachableSince := None\<rparr>)))))"

definition approveReplacement :: "id \<Rightarrow> id \<Rightarrow> (id \<times> id \<times> job_status) op" where
  "approveReplacement assignmentId actorUserId =
     readAssignment assignmentId (\<lambda>a job.
     andThen (ensure (a_status a = A_REPLACEMENT_REQUESTED)
       (BadRequest ''Assignment is not awaiting replacement approval'')) (\<lambda>_.
     andThen (ensure (j_status job = J_IN_PROGRESS)
       (BadRequest ''Job must be in progress to approve replacement'')) (\<lambda>_.
     andThen (transaction rollback (approveReplacementTransaction a actorUserId)) (\<lambda>_.
     andThen (auditLog (Some actorUserId) ''REPLACEMENT_APPROVED'' assignmentId) (\<lambda>_.
     andThen (reads (assignmentOf assignmentId)) (\<lambda>approved.
     andThen (assertSeekingReplacementState approved None) (\<lambda>_.
     andThen (requestReplacementDispatch (a_jobId a)) (\<lambda>_.
     andThen (send (NotifyGuardian (a_guardianId a) ''Replacement approved'')) (\<lambda>_.
     ok (assignmentId, a_jobId a, J_SEEKING_REPLACEMENT))))))))))"

section \<open>No-show\<close>

record no_show_input =
  ns_reasonCode :: no_show_reason
  ns_reasonNote :: "string option"
  ns_triggerType :: no_show_trigger
  ns_actorUserId :: "id option"
  ns_actorRole :: "role_code option"

text \<open>The day's performance row of the guardian: created with one no-show, or one more.\<close>

definition countNoShow :: "id \<Rightarrow> unit op" where
  "countNoShow guardianId = writes (\<lambda>s.
     let hit = (\<lambda>r. f_date r = dayOf (clock s) \<and> f_guardianId r = guardianId) in
     s\<lparr>performance :=
       (case findFirst hit (performance s) of
          None \<Rightarrow> createRow \<lparr>f_date = dayOf (clock s), f_guardianId = guardianId, f_noShowCount = 1,
              f_jobsAssigned = 0, f_jobsCompleted = 0, f_completionRate = 0,
              f_avgResponseMinutes = None, f_computedAt = clock s\<rparr>
            (performance s)
        | Some _ \<Rightarrow> updateMany hit (\<lambda>r. r\<lparr>f_noShowCount := f_noShowCount r + 1\<rparr>) (performance s))\<rparr>)"

text \<open>A column set to \<open>undefined\<close> keeps its value.\<close>

definition keepOr :: "'a option \<Rightarrow> 'a option \<Rightarrow> 'a option" where
  "keepOr given old = (case given of None \<Rightarrow> old | Some x \<Rightarrow> Some x)"

definition noShowTransaction :: "assignment \<Rightarrow> job \<Rightarrow> no_show_input \<Rightarrow> unit op" where
  "noShowTransaction a job inp =
     andThen (updateOptimistic (a_id a) (a_versionNumber a) (\<lambda>a. a\<lparr>a_status := A_NO_SHOW\<rparr>)) (\<lambda>_.
     andThen now (\<lambda>t.
     andThen (updateAssignment (a_id a) (\<lambda>a. a\<lparr>
       a_noShowReason := keepOr (ns_reasonNote inp) (a_noShowReason a),
       a_noShowReasonCode := Some (ns_reasonCode inp),
       a_noShowTriggerType := Some (ns_triggerType inp),
       a_noShowReportedByUserId := keepOr (ns_actorUserId inp) (a_noShowReportedByUserId a),
       a_noShowReportedByRole := keepOr (ns_actorRole inp) (a_noShowReportedByRole a),
       a_noShowAt := Some t\<rparr>)) (\<lambda>_.
     andThen (countNoShow (a_guardianId a)) (\<lambda>_.
     andThen (setAvailable (a_guardianId a)) (\<lambda>_.
     applyUnfilledSlotRedispatch (a_jobId a) job (ns_actorUserId inp)
       (Some (NoShowCode (ns_reasonCode inp))))))))"

text \<open>The answer is the assignment's identifier and whether the report was a repetition.\<close>

definition applyNoShow :: "id \<Rightarrow> no_show_input \<Rightarrow> (id \<times> bool) op" where
  "applyNoShow assignmentId inp =
     readAssignment assignmentId (\<lambda>a job.
     if a_status a = A_NO_SHOW then ok (assignmentId, True) else
     andThen (ensure (a_status a \<in> set NO_SHOW_ALLOWED_FROM_STATUSES)
       (BadRequest (''Cannot mark no-show from status '' @ assignment_status_name (a_status a)))) (\<lambda>_.
     andThen (transaction rollbackKeepingShifts (noShowTransaction a job inp)) (\<lambda>_.
     andThen (auditLog None ''ASSIGNMENT_NO_SHOW'' assignmentId) (\<lambda>_.
     ok (assignmentId, False)))))"

definition noShow :: "id \<Rightarrow> no_show_reason \<Rightarrow> string option \<Rightarrow> id \<Rightarrow> role_code \<Rightarrow> (id \<times> bool) op" where
  "noShow assignmentId reasonCode reasonNote actorUserId actorRole =
     applyNoShow assignmentId \<lparr>ns_reasonCode = reasonCode, ns_reasonNote = reasonNote,
       ns_triggerType = NS_MANUAL, ns_actorUserId = Some actorUserId, ns_actorRole = Some actorRole\<rparr>"

definition autoNoShow :: "id \<Rightarrow> no_show_reason \<Rightarrow> string \<Rightarrow> (id \<times> bool) op" where
  "autoNoShow assignmentId reasonCode reasonNote =
     applyNoShow assignmentId \<lparr>ns_reasonCode = reasonCode, ns_reasonNote = Some reasonNote,
       ns_triggerType = NS_SYSTEM, ns_actorUserId = None, ns_actorRole = None\<rparr>"

end
