(* ===== verification/Assignment_Steps.thy ===== *)
theory Assignment_Steps
  imports Assignments
begin

text \<open>
  The assignments service stays inside \<open>evolves\<close>.  Two methods pass through a state where the
  invariants do not hold and need their writes taken together: the approval of a replacement
  first moves the job to \<open>SEEKING_REPLACEMENT\<close> and then records whom it seeks to replace, and
  the handoff updates two assignments one after the other.
\<close>

section \<open>Reading\<close>

lemma evolves_readAssignment:
  assumes "\<And>a job. assignmentOf aid s = Some a \<Longrightarrow> jobOf (a_jobId a) s = Some job \<Longrightarrow>
    evolves s (snd (body a job s))"
  shows "evolves s (snd (readAssignment aid body s))"
  unfolding readAssignment_def
  by (intro evolves.reads_then evolves.orThrow_then) (rule assms)

lemma evolves_findForGuardian [step_rules]: "evolves s (snd (findForGuardian gid s))"
  by (simp add: findForGuardian_def)

lemma evolves_listReplacementRequests [step_rules]: "evolves s (snd (listReplacementRequests s))"
  by (simp add: listReplacementRequests_def)

text \<open>A checked move of the row just read.\<close>

lemma evolves_moveAssignment:
  assumes "assignmentOf aid s = Some a" and "assignment_edge (a_status a) new"
  shows "evolves s (snd (updateOptimistic aid v (\<lambda>a. a\<lparr>a_status := new\<rparr>) s))"
  by (rule evolves_updateOptimistic [where a = a])
    (use assms in \<open>auto simp: assignment_step_def intro!: assignment_edge_into\<close>)

lemma assignmentOf_id: "assignmentOf aid s = Some a \<Longrightarrow> a_id a = aid"
  by (auto simp: assignmentOf_def dest: findUnique_SomeD)

lemma evolves_moveRow:
  assumes "assignmentOf aid s = Some a" and "assignment_edge (a_status a) new"
  shows "evolves s (snd (updateOptimistic (a_id a) v (\<lambda>a. a\<lparr>a_status := new\<rparr>) s))"
  using evolves_moveAssignment [OF assms] assignmentOf_id [OF assms(1)] by simp

lemma evolves_columns:
  assumes "\<And>a. a_id (f a) = a_id a \<and> a_jobId (f a) = a_jobId a \<and> a_guardianId (f a) = a_guardianId a \<and>
    a_replacesAssignmentId (f a) = a_replacesAssignmentId a \<and> a_status (f a) = a_status a \<and>
    a_versionNumber (f a) = a_versionNumber a"
  shows "evolves s (snd (updateAssignment aid f s))"
  by (rule evolves_updateAssignment) (simp add: assignment_step_def assms)

lemma evolves_countNoShow [step_rules]: "evolves s (snd (countNoShow gid s))"
  by (rule evolves_frame) (simp_all add: countNoShow_def Let_def)

section \<open>Accepting, declining, moving along\<close>

lemma evolves_acceptTransaction [step_rules]: "evolves s (snd (acceptTransaction aid gid s))"
  unfolding acceptTransaction_def andThen_now
  by (intro evolves_readAssignment evolves.rules andThen_read_only [OF resolvePayPolicy_state]
      evolves_transitionOffered step_rules)
    (auto simp: assignment_step_def countStaffedGuardians_def intro!: assignment_edge_into)

lemma evolves_accept [step_rules]: "evolves s (snd (accept aid gid s))"
  unfolding accept_def
  by (intro evolves.andThen step_rules) (auto intro!: evolves.rules step_rules split: prod.split)

lemma evolves_decline [step_rules]: "evolves s (snd (decline aid gid s))"
  unfolding decline_def Let_def
  by (intro evolves_readAssignment evolves.rules step_rules evolves_moveAssignment) auto

lemma evolves_transition:
  assumes "assignment_edge from to"
  shows "evolves s (snd (transition aid gid from to act s))"
  unfolding transition_def
  by (intro evolves.rules step_rules evolves_moveAssignment) (use assms in auto)

lemma evolves_enRoute [step_rules]: "evolves s (snd (enRoute aid gid s))"
  unfolding enRoute_def by (rule evolves_transition) simp

section \<open>The handoff\<close>

lemma updateOptimistic_other:
  assumes "keepsKey f" and "k \<noteq> aid"
  shows "assignmentOf k (snd (updateOptimistic aid v f s)) = assignmentOf k s"
proof -
  let ?g = "\<lambda>r. (f r)\<lparr>a_versionNumber := a_versionNumber r + 1\<rparr>"
  let ?hit = "\<lambda>r. a_id r = aid \<and> a_versionNumber r = v"
  have "a_id (?g r) = a_id r" for r
    using assms(1) by (simp add: keepsKey_def)
  then have "findUnique a_id k (updateMany ?hit ?g (assignments s)) = findUnique a_id k (assignments s)"
    using assms(2) by (cases "findUnique a_id k (assignments s)")
      (auto simp: findUnique_updateMany dest: findUnique_SomeD)
  moreover have "assignmentOf k (snd (updateOptimistic aid v f s)) =
      findUnique a_id k (updateMany ?hit ?g (assignments s))"
    by (auto simp: updateOptimistic_def Let_def orThrow_def assignmentOf_def split: option.split)
  ultimately show ?thesis
    by (simp add: assignmentOf_def)
qed

lemma updateAssignment_other:
  assumes "\<And>r. a_id (f r) = a_id r" and "k \<noteq> aid"
  shows "assignmentOf k (snd (updateAssignment aid f s)) = assignmentOf k s"
  using assignment_table.lookup_modify_other [OF assms]
  by (auto simp: updateAssignment_def assignmentOf_def split: option.split)

lemma jobOf_only:
  assumes "good s" and "jobOf jid s = Some j" and "x \<in> set (jobs s)" and "j_id x = jid"
  shows "x = j"
  using findUnique_only [of j_id "jobs s" jid j x] assms by (simp add: good_def wf_def jobOf_def)

lemma evolves_setJob:
  assumes "jobOf jid s = Some j" and "job_frame j (f j)" and "j_status (f j) = j_status j"
    and "j_status j = J_SEEKING_REPLACEMENT \<Longrightarrow> j_replacementDepartingAssignmentId (f j) \<noteq> None"
  shows "evolves s (snd (updateJob jid f s))"
  unfolding updateJob_def
  using assms by (auto intro!: evolves_job_rows dest: jobOf_only)

lemma evolves_handoffTransaction:
  assumes original: "assignmentOf oid s = Some original" "a_status original = A_AWAITING_RELIEF"
    and substitute: "assignmentOf aid s = Some substitute" "a_status substitute = A_EN_ROUTE"
  shows "evolves s (snd (handoffTransaction original substitute s))"
proof -
  have ids: "a_id original = oid" "a_id substitute = aid"
    using assignmentOf_id original(1) substitute(1) by auto
  have ne: "aid \<noteq> oid"
    using original substitute by auto
  have arrive: "evolves t (snd (updateOptimistic aid v (\<lambda>a. a\<lparr>a_status := A_ON_SITE\<rparr>) t))"
    if "updateOptimistic oid w (\<lambda>a. a\<lparr>a_status := A_COMPLETED\<rparr>) s = (Inr x, r)"
      "updateAssignment oid (\<lambda>a. a\<lparr>a_completedAt := c\<rparr>) r = (Inr y, t)" for v w x r c y t
  proof (rule evolves_moveAssignment)
    have "assignmentOf aid r = assignmentOf aid s"
      using updateOptimistic_other [of "\<lambda>a. a\<lparr>a_status := A_COMPLETED\<rparr>" aid oid w s] ne that(1)
      by (simp add: keepsKey_def)
    moreover have "assignmentOf aid t = assignmentOf aid r"
      using updateAssignment_other [of "\<lambda>a. a\<lparr>a_completedAt := c\<rparr>" aid oid r] ne that(2) by simp
    ultimately show "assignmentOf aid t = Some substitute"
      using substitute(1) by simp
  qed (simp add: substitute(2))
  have leave: "evolves t (snd (updateJob jid (\<lambda>j. j\<lparr>j_replacementDepartingAssignmentId := None,
      j_dispatchFailureReason := None\<rparr>) t))"
    if handed: "transitionFromSeekingReplacementToInProgress jid by r = (Inr u, t)" for jid "by" r u t
  proof -
    obtain j where "jobOf jid t = Some j" "j_status j = J_IN_PROGRESS"
      using transition_status(1) [OF handed [unfolded transitionFromSeekingReplacementToInProgress_def]]
      by blast
    then show ?thesis
      by (intro evolves_setJob [where j = j]) (simp_all add: job_frame_def)
  qed
  have depart: "evolves s (snd (updateOptimistic oid v (\<lambda>a. a\<lparr>a_status := A_COMPLETED\<rparr>) s))" for v
    by (rule evolves_moveAssignment [OF original(1)]) (simp add: original(2))
  show ?thesis
    unfolding handoffTransaction_def andThen_now ids
    by (intro evolves.andThen evolves.ok depart arrive leave step_rules evolves_columns) simp_all
qed

lemma assertSeeking_state [simp]: "snd (assertSeekingReplacementState d x s) = s"
  by (simp add: assertSeekingReplacementState_def andThen_ensure ensure_def)

lemma evolves_executeReplacementHandoff:
  assumes "assignmentOf aid s = Some substitute" and "a_status substitute = A_EN_ROUTE"
  shows "evolves s (snd (executeReplacementHandoff substitute job s))"
  unfolding executeReplacementHandoff_def
  by (intro evolves.orThrow_then evolves.reads_then evolves.ensure_then
      andThen_read_only [OF assertSeeking_state] evolves.andThen evolves.ok evolves_transaction
      evolves_handoffTransaction [OF _ _ assms] step_rules)
    auto

lemma evolves_onSite [step_rules]: "evolves s (snd (onSite aid gid s))"
  unfolding onSite_def
  by (intro evolves_readAssignment evolves.rules step_rules evolves_executeReplacementHandoff
      evolves_moveAssignment evolves_columns) auto

lemma evolves_complete [step_rules]: "evolves s (snd (complete aid gid by s))"
  unfolding complete_def
  by (intro evolves_readAssignment evolves.rules step_rules evolves_transition evolves_columns) auto

section \<open>Early release\<close>

lemma evolves_clientAction:
  assumes "\<And>a job. assignmentOf aid s = Some a \<Longrightarrow> jobOf (a_jobId a) s = Some job \<Longrightarrow>
    evolves s (snd (body (a, job) s))"
  shows "evolves s (snd (andThen (getAssignmentForClientAction aid actor) body s))"
proof -
  have "andThen (getAssignmentForClientAction aid actor) body =
      readAssignment aid (\<lambda>a job. andThen (assertOrgMember (j_organizationId job) actor) (\<lambda>_. body (a, job)))"
    by (simp add: getAssignmentForClientAction_def readAssignment_def andThen_assoc)
  then show ?thesis
    by (simp, intro evolves_readAssignment andThen_read_only [OF assertOrgMember_state] assms)
qed

lemma evolves_requestEarlyRelease [step_rules]: "evolves s (snd (requestEarlyRelease aid gid r s))"
  unfolding requestEarlyRelease_def Let_def andThen_now
  by (intro evolves_readAssignment evolves.ensure_then)
    (auto split: prod.split intro!: evolves.rules step_rules evolves_moveAssignment evolves_columns)

lemma evolves_approveEarlyRelease [step_rules]: "evolves s (snd (approveEarlyRelease aid actor s))"
  unfolding approveEarlyRelease_def
  by (rule evolves_clientAction, simp only: prod.case)
    (intro evolves.rules step_rules evolves_columns; simp)

lemma evolves_rejectEarlyRelease [step_rules]: "evolves s (snd (rejectEarlyRelease aid actor note s))"
  unfolding rejectEarlyRelease_def
  by (rule evolves_clientAction, simp only: prod.case andThen_now,
      intro evolves.rules step_rules evolves_moveAssignment)
    (auto simp: assignment_step_def)

lemma evolves_autoApproveEarlyRelease [step_rules]: "evolves s (snd (autoApproveEarlyRelease aid s))"
  unfolding autoApproveEarlyRelease_def
  by (intro evolves.rules step_rules evolves_columns) simp

section \<open>Replacement\<close>

lemma evolves_requestReplacement [step_rules]: "evolves s (snd (requestReplacement aid gid r s))"
  unfolding requestReplacement_def andThen_now
  by (intro evolves_readAssignment evolves.rules step_rules evolves_moveAssignment evolves_columns) auto

lemma evolves_denyReplacement [step_rules]: "evolves s (snd (denyReplacement aid by note s))"
  unfolding denyReplacement_def andThen_now
  by (intro evolves_readAssignment evolves.rules step_rules evolves_moveAssignment evolves_columns) auto

lemma updateMany_twice:
  assumes "\<And>r. p (f r) = p r"
  shows "updateMany p g (updateMany p f rows) = updateMany p (\<lambda>r. g (f r)) rows"
  by (simp add: updateMany_def assms)

text \<open>The two writes of the job row are one status change with all its columns.\<close>

lemma seek_replacement_at_once:
  assumes j: "jobOf jid s = Some j" "j_status j = J_IN_PROGRESS"
    and f: "\<And>j st. j_id (f j) = j_id j \<and> f (j\<lparr>j_status := st\<rparr>) = (f j)\<lparr>j_status := st\<rparr>"
  shows "snd (andThen (transitionToSeekingReplacement jid by) (\<lambda>_. updateJob jid f) s) =
    snd (changeJobStatus jid f J_IN_PROGRESS J_SEEKING_REPLACEMENT by
      (Some (Literal ''replacement_approved'')) s)"
proof -
  let ?seek = "\<lambda>j. j\<lparr>j_status := J_SEEKING_REPLACEMENT\<rparr>"
  obtain h where mid: "transitionToSeekingReplacement jid by s =
      (Inr (), s\<lparr>jobs := updateMany (\<lambda>j. j_id j = jid) ?seek (jobs s), history := history s @ [h]\<rparr>)"
    and h: "h = \<lparr>h_jobId = jid, h_oldStatus = Some J_IN_PROGRESS,
        h_newStatus = J_SEEKING_REPLACEMENT, h_changedBy = by,
        h_reason = Some (Literal ''replacement_approved''), h_changedAt = clock s\<rparr>"
    using transition_done [OF j(1), of J_SEEKING_REPLACEMENT] j(2)
    by (simp add: transitionToSeekingReplacement_def)
  have "updateMany (\<lambda>j. j_id j = jid) f (updateMany (\<lambda>j. j_id j = jid) ?seek (jobs s)) =
      updateMany (\<lambda>j. j_id j = jid) (\<lambda>j. ?seek (f j)) (jobs s)"
    by (simp add: updateMany_twice f)
  then show ?thesis
    by (simp add: andThen_def mid updateJob_def jobOf_after_status [OF j(1)] changeJobStatus_apply
        j(1) h)
qed

lemma evolves_seekReplacement:
  assumes f: "\<And>j. job_frame j (f j) \<and> j_replacementDepartingAssignmentId (f j) \<noteq> None \<and>
      j_status (f j) = j_status j"
    and f': "\<And>j st. f (j\<lparr>j_status := st\<rparr>) = (f j)\<lparr>j_status := st\<rparr>"
  shows "evolves s (snd (andThen (transitionToSeekingReplacement jid by) (\<lambda>_. updateJob jid f) s))"
proof (cases "jobOf jid s")
  case None
  then show ?thesis
    by (simp add: transitionToSeekingReplacement_def andThen_def transition_missing)
next
  case (Some j)
  consider "j_status j = J_IN_PROGRESS" | "j_status j = J_SEEKING_REPLACEMENT"
    | "j_status j \<noteq> J_IN_PROGRESS" "j_status j \<noteq> J_SEEKING_REPLACEMENT"
    by blast
  then show ?thesis
  proof cases
    case 1
    have "j_id (f j) = j_id j" for j
      using f [of j] by (simp add: job_frame_def)
    then show ?thesis
      using Some 1 f by (simp add: seek_replacement_at_once f') (rule evolves_job_status, simp)
  next
    case 2
    then have "evolves s (snd (updateJob jid f s))"
      using f by (intro evolves_setJob [OF Some]) auto
    then show ?thesis
      using 2 Some by (simp add: transitionToSeekingReplacement_def andThen_def transition_same)
  next
    case 3
    then show ?thesis
      using Some by (simp add: transitionToSeekingReplacement_def andThen_def transition_rejected)
  qed
qed

lemma evolves_approveTransaction:
  assumes "assignmentOf aid s = Some a" and "a_status a = A_REPLACEMENT_REQUESTED"
  shows "evolves s (snd (approveReplacementTransaction a by s))"
  unfolding approveReplacementTransaction_def andThen_now
  by (intro evolves.andThen [where m = "updateOptimistic i v f" for i v f]
      evolves.andThen [where m = "updateAssignment i f" for i f] evolves_seekReplacement
      evolves_moveRow [OF assms(1)] evolves_columns)
    (simp_all add: assms(2) job_frame_def)

lemma evolves_approveReplacement [step_rules]: "evolves s (snd (approveReplacement aid by s))"
  unfolding approveReplacement_def
  by (intro evolves_readAssignment evolves.ensure_then evolves.reads_then evolves.andThen evolves.ok
      evolves_transaction evolves_approveTransaction andThen_read_only [OF assertSeeking_state]
      step_rules) auto

section \<open>No-show\<close>

lemma no_show_edge: "st \<in> set NO_SHOW_ALLOWED_FROM_STATUSES \<Longrightarrow> assignment_edge st A_NO_SHOW"
  by (auto simp: NO_SHOW_ALLOWED_FROM_STATUSES_def)

lemma evolves_noShowTransaction:
  assumes "assignmentOf aid s = Some a" and "a_status a \<in> set NO_SHOW_ALLOWED_FROM_STATUSES"
  shows "evolves s (snd (noShowTransaction a job inp s))"
  unfolding noShowTransaction_def
  by (intro evolves.andThen evolves_moveRow [OF assms(1)] no_show_edge [OF assms(2)] evolves_columns
      step_rules) simp

lemma evolves_applyNoShow [step_rules]: "evolves s (snd (applyNoShow aid inp s))"
  unfolding applyNoShow_def
  by (intro evolves_readAssignment evolves.rules step_rules evolves_noShowTransaction) auto

lemma evolves_noShow [step_rules]: "evolves s (snd (noShow aid rc note by role s))"
  unfolding noShow_def by (intro step_rules)

lemma evolves_autoNoShow [step_rules]: "evolves s (snd (autoNoShow aid rc note s))"
  unfolding autoNoShow_def by (intro step_rules)

end
