(* ===== verification/Jobs.thy ===== *)
theory Jobs
  imports Assignment_Steps
begin

text \<open>
  \<open>jobs/jobs.service.ts\<close>: booking a job, cancelling it, asking for its dispatch, completing it
  and reading its invoice, its staffing and the assignments that can be tracked.  (Where the
  guardians are and how long they need is in \<open>Tracking\<close>, incidents are in \<open>Feedback\<close>.)
\<close>

section \<open>Booking\<close>

record create_job_dto =
  cj_organizationId :: id
  cj_locationId :: id
  cj_jobType :: job_type
  cj_scheduledStart :: instant
  cj_scheduledEnd :: instant
  cj_requestedGuardianCount :: "int option"

definition newJob ::
  "id \<Rightarrow> string \<Rightarrow> create_job_dto \<Rightarrow> id \<Rightarrow> billing_policy \<Rightarrow> instant \<Rightarrow> int \<Rightarrow> bool \<Rightarrow> job" where
  "newJob jid referenceNumber dto createdBy bp t window autoDispatch = \<lparr>
     j_id = jid, j_referenceNumber = referenceNumber,
     j_organizationId = cj_organizationId dto, j_locationId = cj_locationId dto,
     j_createdBy = createdBy, j_createdAt = t, j_jobType = cj_jobType dto, j_status = J_PENDING,
     j_requestedGuardianCount = (case cj_requestedGuardianCount dto of None \<Rightarrow> 1 | Some n \<Rightarrow> n),
     j_scheduledStart = cj_scheduledStart dto, j_scheduledEnd = cj_scheduledEnd dto,
     j_dispatchAttempts = 0,
     j_dispatchDeadlineAt = (if autoDispatch then Some (t + window) else None),
     j_dispatchStartedAt = (if autoDispatch then Some t else None),
     j_offersSentCount = 0, j_dispatchFailureReason = None, j_unreachableSince = None,
     j_billingPolicyModel = Some (bp_model bp), j_billingMinimumHours = Some (bp_minimumHours bp),
     j_billingPolicyResolvedAt = Some t,
     j_billingAllowEarlyRelease = Some (bp_allowEarlyRelease bp),
     j_billingProrationEnabled = Some (bp_prorationEnabled bp),
     j_billingEarlyReleaseRequiresClientApproval = Some (bp_earlyReleaseRequiresClientApproval bp),
     j_billingAutoApproveAfterMinutes = bp_autoApproveAfterMinutes bp,
     j_replacementDepartingAssignmentId = None\<rparr>"

text \<open>
  \<open>job.create\<close> draws the primary key and rejects a reference number that is taken; the first
  row of the history is written with it in the same transaction.
\<close>

definition insertJob :: "(id \<Rightarrow> job) \<Rightarrow> id \<Rightarrow> job op" where
  "insertJob mk createdBy = (\<lambda>s.
     let j = mk (nextId s) in
     if j_referenceNumber j \<in> set (List.map j_referenceNumber (jobs s))
     then (Inl (PrismaError ''P2002''), s)
     else (Inr j, s\<lparr>nextId := Suc (nextId s), jobs := createRow j (jobs s),
       history := createRow \<lparr>h_jobId = nextId s, h_oldStatus = None, h_newStatus = J_PENDING,
         h_changedBy = Some createdBy, h_reason = None, h_changedAt = clock s\<rparr> (history s)\<rparr>))"

text \<open>The hours between two instants, compared as \<open>durationHours\<close> is.\<close>

definition create :: "create_job_dto \<Rightarrow> actor \<Rightarrow> bool \<Rightarrow> job op" where
  "create dto actor autoDispatch =
     andThen (assertOrgMember (cj_organizationId dto) actor) (\<lambda>_.
     andThen (whenever (\<not> isOps actor) (assertCanBookJobs (cj_organizationId dto))) (\<lambda>_.
     andThen (getByCode (cj_jobType dto)) (\<lambda>_.
     andThen getPolicy (\<lambda>bookingPolicy.
     andThen (ensure (\<not> hoursBetween (cj_scheduledStart dto) (cj_scheduledEnd dto)
         < minimumBookingHours bookingPolicy) (BadRequest ''Minimum booking hours'')) (\<lambda>_.
     andThen (reads (\<lambda>s. findFirst (\<lambda>l. l_id l = cj_locationId dto \<and>
       l_organizationId l = cj_organizationId dto) (locations s))) (\<lambda>loc.
     andThen (ensure (loc \<noteq> None) (NotFound ''Location not found for organization'')) (\<lambda>_.
     andThen nextReference (\<lambda>referenceNumber.
     andThen (resolveBillingPolicy (cj_organizationId dto) (cj_jobType dto) (cj_scheduledStart dto)) (\<lambda>bp.
     andThen now (\<lambda>t.
     andThen (reads (\<lambda>s. DISPATCH_WINDOW_MS (config s))) (\<lambda>window.
     andThen (transaction rollback (
       andThen (insertJob (\<lambda>jid. newJob jid referenceNumber dto (sub actor) bp t window autoDispatch)
         (sub actor)) (\<lambda>created.
       andThen (whenever autoDispatch (enqueueInTransaction (dispatchRequest (j_id created)))) (\<lambda>_.
       ok created)))) (\<lambda>job.
     andThen (auditLog (Some (sub actor)) ''JOB_CREATED'' (j_id job)) (\<lambda>_.
     andThen (send (EmailOrgOwners (cj_organizationId dto) ''job.created'')) (\<lambda>_.
     andThen (send (NotifyOrgOwners (cj_organizationId dto) ''Job created'')) (\<lambda>_.
     ok job)))))))))))))))"

section \<open>Cancelling\<close>

definition cancel :: "id \<Rightarrow> actor \<Rightarrow> string option \<Rightarrow> (id \<times> job_status) op" where
  "cancel jid actor reason =
     andThen (assertJobAccess jid actor) (\<lambda>job.
     andThen (whenever (\<not> isOps actor) (assertOrgVerifiedForMutations (j_organizationId job))) (\<lambda>_.
     andThen (ensure (\<not> (j_status job = J_COMPLETED \<or> j_status job = J_CANCELLED \<or>
         j_status job = J_AWAITING_CONFIRMATION)) (BadRequest ''Job cannot be cancelled'')) (\<lambda>_.
     andThen (releaseReplacementPipelineForJob jid) (\<lambda>_.
     andThen (releaseActiveStaffedAssignmentsForJob jid) (\<lambda>_.
     andThen (transaction rollback (changeJobStatus jid (\<lambda>j. j) (j_status job) J_CANCELLED
       (Some (sub actor)) (map_option FreeText reason))) (\<lambda>_.
     andThen (auditLog (Some (sub actor)) ''JOB_CANCELLED'' jid) (\<lambda>_.
     andThen (send (EmailOrgOwners (j_organizationId job) ''job.cancelled'')) (\<lambda>_.
     andThen (send (NotifyOrgOwners (j_organizationId job) ''Job cancelled'')) (\<lambda>_.
     ok (jid, J_CANCELLED))))))))))"

section \<open>Dispatch, completion, invoice\<close>

definition dispatch :: "id \<Rightarrow> actor option \<Rightarrow> unit op" where
  "dispatch jobId actor =
     andThen (case actor of None \<Rightarrow> ok ()
       | Some x \<Rightarrow> whenever (\<not> isOps x) (andThen (assertJobAccess jobId x) (\<lambda>job.
           assertOrgVerifiedForMutations (j_organizationId job)))) (\<lambda>_.
     requestDispatch jobId)"

definition jobs_complete :: "id \<Rightarrow> id \<Rightarrow> invoice op" where
  "jobs_complete jobId actorUserId = completeJob jobId actorUserId"

definition jobs_getInvoice :: "id \<Rightarrow> actor \<Rightarrow> invoice op" where
  "jobs_getInvoice jobId actor =
     andThen (assertJobAccess jobId actor) (\<lambda>_.
     andThen (reads (invoiceOfJob jobId)) (\<lambda>found.
     andThen (orThrow found (NotFound ''Invoice not found for job'')) (\<lambda>i.
     applyPendingConfirmationOnView i (sub actor))))"

section \<open>Reading\<close>

definition timeline :: "id \<Rightarrow> actor \<Rightarrow> status_history list op" where
  "timeline jid actor =
     andThen (assertJobAccess jid actor) (\<lambda>_.
     reads (\<lambda>s. orderByDesc h_changedAt (findMany (\<lambda>h. h_jobId h = jid) (history s))))"

record job_detail =
  jd_job :: job
  jd_staffing :: staffing_progress
  jd_assignedGuardians :: "assignment list"
  jd_filled :: int
  jd_requested :: int
  jd_remaining :: int
  jd_isFullyStaffed :: bool

definition findOne :: "id \<Rightarrow> actor \<Rightarrow> job_detail op" where
  "findOne jid actor =
     andThen (assertJobAccess jid actor) (\<lambda>job.
     andThen (reads (jobOf (j_id job))) (\<lambda>found.
     andThen (orThrow found (NotFound ''Job not found'')) (\<lambda>record1.
     andThen (reads (\<lambda>s. orderByDesc a_offerSentAt (findMany (\<lambda>a. a_jobId a = j_id job)
       (assignments s)))) (\<lambda>rows.
     andThen (computeJobStaffingProgress (j_id record1) (j_requestedGuardianCount record1)) (\<lambda>staffing.
     ok \<lparr>jd_job = record1, jd_staffing = staffing,
         jd_assignedGuardians = findMany (\<lambda>a. a_replacesAssignmentId a = None \<and>
           a_status a \<in> set STAFFED_ASSIGNMENT_STATUSES) rows,
         jd_filled = sp_acceptedGuardianCount staffing,
         jd_requested = sp_requestedGuardianCount staffing,
         jd_remaining = sp_remainingGuardianSlots staffing,
         jd_isFullyStaffed = sp_isFullyStaffed staffing\<rparr>)))))"

definition TRACKABLE_ASSIGNMENT_STATUSES :: "assignment_status list" where
  "TRACKABLE_ASSIGNMENT_STATUSES = [A_ACCEPTED, A_EN_ROUTE, A_ON_SITE]"

definition trackable :: "id \<Rightarrow> sys \<Rightarrow> assignment list" where
  "trackable jid s = findMany (\<lambda>a. a_jobId a = jid \<and> a_replacesAssignmentId a = None \<and>
     a_status a \<in> set TRACKABLE_ASSIGNMENT_STATUSES) (assignments s)"

definition getTracking :: "id \<Rightarrow> actor \<Rightarrow> (staffing_progress \<times> assignment list) op" where
  "getTracking jid actor =
     andThen (assertJobAccess jid actor) (\<lambda>_.
     andThen (reads (jobOf jid)) (\<lambda>found.
     andThen (orThrow found (NotFound ''Job not found'')) (\<lambda>job.
     andThen (reads (\<lambda>s. orderByAsc (\<lambda>a. the (a_acceptedAt a)) (trackable jid s))) (\<lambda>rows.
     andThen (computeJobStaffingProgress (j_id job) (j_requestedGuardianCount job)) (\<lambda>staffing.
     andThen (ensure (rows \<noteq> [])
       (BadRequest ''Live tracking is only available after a guardian accepts the job'')) (\<lambda>_.
     ok (staffing, rows)))))))"

section \<open>Steps along the graphs\<close>

lemma assertJobAccess_row:
  assumes "fst (assertJobAccess jid actor s) = Inr job"
  shows "jobOf jid s = Some job"
proof (cases "jobOf jid s")
  case None
  then show ?thesis
    using assms by (simp add: assertJobAccess_def)
next
  case (Some j)
  have "fst (andThen (assertOrgMember org actor) (\<lambda>_. ok j) s) = Inr job \<Longrightarrow> j = job" for org
    by (cases "assertOrgMember org actor s") (auto simp: andThen_def split: sum.splits)
  then show ?thesis
    using assms Some by (auto simp: assertJobAccess_def split: if_splits option.splits)
qed

lemma whenever_state: "(b \<Longrightarrow> snd (m s) = s) \<Longrightarrow> snd (whenever b m s) = s"
  by (cases b) simp_all

lemma evolves_insertJob:
  assumes "\<And>jid. j_id (mk jid) = jid \<and> j_status (mk jid) = J_PENDING"
  shows "evolves s (snd (insertJob mk by s))"
  unfolding insertJob_def Let_def using assms by (auto intro!: evolves_new_job)

lemma evolves_create [step_rules]: "evolves s (snd (create dto actor auto s))"
  unfolding create_def getPolicy_def
  by (intro andThen_read_only [OF assertOrgMember_state] andThen_read_only [OF getByCode_state]
      andThen_read_only [OF whenever_state [OF assertCanBookJobs_state]]
      andThen_read_only [OF nextReference_state] andThen_read_only [OF resolveBillingPolicy_state]
      evolves.rules step_rules evolves_insertJob)
    (simp add: newJob_def)

lemma evolves_cancel [step_rules]: "evolves s (snd (cancel jid actor reason s))"
proof -
  have change: "evolves u (snd (changeJobStatus jid (\<lambda>j. j) (j_status job) J_CANCELLED by reason u))"
    if job: "fst (assertJobAccess jid actor s) = Inr job"
      and guard: "\<not> (j_status job = J_COMPLETED \<or> j_status job = J_CANCELLED \<or>
         j_status job = J_AWAITING_CONFIRMATION)"
      and rel: "releaseReplacementPipelineForJob jid s = (Inr x, t)"
        "releaseActiveStaffedAssignmentsForJob jid t = (Inr y, u)" for job x y t u "by" reason
  proof -
    have row: "jobOf jid s = Some job"
      using job by (rule assertJobAccess_row)
    have "keepsStatuses s t" "keepsStatuses t u"
      using keepsStatuses_releasePipeline [of s jid] keepsStatuses_releaseActive [of t jid] rel by simp_all
    then have "current job u"
      using current_after current_read [OF row] by blast
    moreover have "j_id job = jid"
      using row by (auto simp: jobOf_def dest: findUnique_SomeD)
    moreover have "job_edge (j_status job) J_CANCELLED"
      using guard by (cases "j_status job") simp_all
    ultimately show ?thesis
      by (intro evolves_status_after) (simp_all add: current_def)
  qed
  show ?thesis
    unfolding cancel_def
    by (intro andThen_read_only [OF assertJobAccess_state]
        andThen_read_only [OF whenever_state [OF assertOrgVerified_state]]
        evolves.ensure_then evolves.andThen evolves.ok evolves_transaction change step_rules)
qed

lemma evolves_dispatch [step_rules]: "evolves s (snd (dispatch jid actor s))"
proof -
  have "snd (andThen (assertJobAccess jid x) (\<lambda>job. assertOrgVerifiedForMutations (j_organizationId job)) s) = s"
    for x
    using assertJobAccess_state [of jid x s]
    by (cases "assertJobAccess jid x s") (auto simp: andThen_def split: sum.split)
  then have "snd ((case actor of None \<Rightarrow> ok ()
       | Some x \<Rightarrow> whenever (\<not> isOps x) (andThen (assertJobAccess jid x) (\<lambda>job.
           assertOrgVerifiedForMutations (j_organizationId job)))) s) = s"
    by (simp add: whenever_def split: option.split)
  then show ?thesis
    unfolding dispatch_def by (rule andThen_read_only) (intro step_rules)
qed

lemma evolves_jobs_complete [step_rules]: "evolves s (snd (jobs_complete jid by s))"
  unfolding jobs_complete_def by (intro step_rules)

lemma invoiceOfJob_by_id:
  assumes "good s" and "invoiceOfJob jid s = Some i"
  shows "invoiceOf (i_id i) s = Some i"
  using assms findUnique_distinct [of i_id "invoices s" i]
  by (auto simp: good_def ledger_ok_def invoiceOf_def invoiceOfJob_def dest: findUnique_SomeD)

lemma evolves_jobs_getInvoice [step_rules]: "evolves s (snd (jobs_getInvoice jid actor s))"
  unfolding jobs_getInvoice_def
  by (rule evolves_when_good, intro andThen_read_only [OF assertJobAccess_state] evolves.reads_then
      evolves.orThrow_then evolves_applyPendingConfirmation invoiceOfJob_by_id)

section \<open>After a handoff\<close>

text \<open>A substitute is in nobody's list of trackable assignments, whatever it does.\<close>

lemma substitute_not_trackable:
  "a \<in> set (trackable jid s) \<Longrightarrow> a_replacesAssignmentId a = None"
  by (simp add: trackable_def findMany_def)

end
