(* ===== verification/Automation.thy ===== *)
theory Automation
  imports Jobs
begin

text \<open>
  The background loops: the outbox worker (\<open>outbox/outbox.worker.ts\<close>), the offer-expiry timers
  (\<open>queue/queue.service.ts\<close>), the automatic no-shows and early-release approvals
  (\<open>assignments/no-show-automation.service.ts\<close>, \<open>early-release-automation.service.ts\<close>) and the
  job-status reconciliation (\<open>jobs/job-status-reconciliation.service.ts\<close>).  Each definition is
  one run of the loop's body; the flag \<open>running\<close> keeps two runs of one loop apart, so a run
  never sees it set.
\<close>

text \<open>Forget the answer of a call.\<close>

definition discard :: "('s, 'a) handler \<Rightarrow> ('s, unit) handler" where
  "discard m = andThen m (\<lambda>_. ok ())"

lemma evolves_discard: "evolves s (snd (m s)) \<Longrightarrow> evolves s (snd (discard m s))"
  unfolding discard_def by (intro evolves.andThen evolves.ok)

section \<open>The outbox worker\<close>

definition processEvent :: "outbox_event \<Rightarrow> unit op" where
  "processEvent event = tryCatch
     (andThen (case ob_eventType event of
         JOB_DISPATCH_REQUESTED \<Rightarrow> processDispatch (ob_payloadJobId event)
       | JOB_BILLING_AUTO_CONFIRM \<Rightarrow> processAutoConfirm (ob_payloadJobId event)) (\<lambda>_.
      markCompleted (ob_id event)))
     (\<lambda>err. markFailed (ob_id event) err (ob_retries event))"

definition tick :: "unit op" where
  "tick = tryCatch (andThen (claimBatch 20) (\<lambda>events. forEach events processEvent)) (\<lambda>_. ok ())"

section \<open>Offer expiry\<close>

text \<open>A timer that is due leaves the map and calls the handler, whose errors nobody awaits.\<close>

definition fireExpiry :: "id \<Rightarrow> unit op" where
  "fireExpiry aid = andThen (reads (\<lambda>s. \<exists>t \<in> set (expiryTimers s). fst t = aid \<and> snd t \<le> clock s)) (\<lambda>due.
     whenever due (
       andThen (writes (\<lambda>s. s\<lparr>expiryTimers := filter (\<lambda>t. fst t \<noteq> aid) (expiryTimers s)\<rparr>)) (\<lambda>_.
       tryCatch (expireOffer aid) (\<lambda>_. ok ()))))"

section \<open>Automatic no-shows\<close>

definition ACCEPTED_NO_SHOW_AFTER_MS :: int where
  "ACCEPTED_NO_SHOW_AFTER_MS = 20 * 60000"

definition EN_ROUTE_NO_SHOW_GRACE_AFTER_START_MS :: int where
  "EN_ROUTE_NO_SHOW_GRACE_AFTER_START_MS = 15 * 60000"

definition noShowCandidate :: "sys \<Rightarrow> assignment \<Rightarrow> bool" where
  "noShowCandidate s a \<longleftrightarrow>
     (a_status a = A_ACCEPTED \<and>
      (case a_acceptedAt a of None \<Rightarrow> False | Some t \<Rightarrow> t \<le> clock s - ACCEPTED_NO_SHOW_AFTER_MS)) \<or>
     (a_status a = A_EN_ROUTE \<and> a_arrivedAt a = None \<and>
      (case jobOf (a_jobId a) s of None \<Rightarrow> False
       | Some j \<Rightarrow> j_scheduledStart j \<le> clock s - EN_ROUTE_NO_SHOW_GRACE_AFTER_START_MS))"

definition markCandidate :: "assignment \<Rightarrow> unit op" where
  "markCandidate c = tryCatch
     (if a_status c = A_ACCEPTED then
        discard (autoNoShow (a_id c) CLIENT_UNREACHABLE
          ''Auto no-show: accepted assignment exceeded 20m without en-route update'')
      else if a_status c = A_EN_ROUTE then
        discard (autoNoShow (a_id c) CLIENT_NOT_PRESENT
          ''Auto no-show: en-route assignment exceeded ETA + 15m without on-site update'')
      else ok ()) (\<lambda>_. ok ())"

definition scanAndMarkNoShows :: "unit op" where
  "scanAndMarkNoShows =
     andThen (reads (\<lambda>s. findMany (noShowCandidate s) (assignments s))) (\<lambda>candidates.
     forEach candidates markCandidate)"

section \<open>Automatic early-release approvals\<close>

definition autoApproveDue :: "sys \<Rightarrow> assignment \<Rightarrow> bool" where
  "autoApproveDue s a \<longleftrightarrow> a_status a = A_EARLY_RELEASE_REQUESTED \<and> a_earlyReleaseResolution a = None \<and>
     (case a_earlyReleaseAutoApproveAt a of None \<Rightarrow> False | Some t \<Rightarrow> t \<le> clock s)"

definition scanAndAutoApprove :: "unit op" where
  "scanAndAutoApprove =
     andThen (reads (\<lambda>s. findMany (autoApproveDue s) (assignments s))) (\<lambda>candidates.
     forEach candidates (\<lambda>c. tryCatch (discard (autoApproveEarlyRelease (a_id c))) (\<lambda>_. ok ())))"

section \<open>Reconciliation\<close>

definition failOverdueDispatchJobs :: "unit op" where
  "failOverdueDispatchJobs =
     andThen (reads (\<lambda>s. findMany (\<lambda>j.
       j_status j \<in> {J_PENDING, J_DISPATCHING, J_PARTIALLY_ASSIGNED} \<and>
       (case j_dispatchDeadlineAt j of None \<Rightarrow> False | Some d \<Rightarrow> d \<le> clock s)) (jobs s))) (\<lambda>overdue.
     forEach overdue (\<lambda>j. discard (failDispatchDueToTimeout (j_id j))))"

definition failPoolExhaustedDispatchJobs :: "unit op" where
  "failPoolExhaustedDispatchJobs =
     andThen (reads (\<lambda>s. findMany (\<lambda>j. j_status j \<in> {J_PENDING, J_DISPATCHING}) (jobs s))) (\<lambda>active.
     forEach active (\<lambda>j. discard (failDispatchPoolExhaustedIfApplicable (j_id j))))"

text \<open>The filter of \<open>scanForDrift\<close>: jobs whose status does not fit their assignments.\<close>

definition drifted :: "sys \<Rightarrow> job \<Rightarrow> bool" where
  "drifted s j =
     (let statuses = List.map a_status (findMany (\<lambda>a. a_jobId a = j_id j) (assignments s));
          hasActiveAssignment = (\<exists>st \<in> set statuses. st \<in> set ACTIVE_STAFFED_ASSIGNMENT_STATUSES)
      in if j_status j \<in> {J_ASSIGNED, J_PARTIALLY_ASSIGNED, J_IN_PROGRESS} then \<not> hasActiveAssignment
         else if j_status j \<in> {J_COMPLETED, J_AWAITING_CONFIRMATION} then hasActiveAssignment
         else if j_status j = J_DISPATCHING then A_ON_SITE \<in> set statuses
         else if j_status j = J_SEEKING_REPLACEMENT then
           A_AWAITING_RELIEF \<notin> set statuses \<and> A_ON_SITE \<notin> set statuses \<and>
           \<not> (\<exists>st \<in> set statuses. st \<in> set REPLACEMENT_PIPELINE_STATUSES)
         else False)"

text \<open>The answer is the list the service logs the length of.\<close>

definition scanForDrift :: "job list op" where
  "scanForDrift =
     andThen failOverdueDispatchJobs (\<lambda>_.
     andThen failPoolExhaustedDispatchJobs (\<lambda>_.
     reads (\<lambda>s. findMany (drifted s) (findMany (\<lambda>j. j_status j \<in> {J_ASSIGNED, J_PARTIALLY_ASSIGNED,
       J_IN_PROGRESS, J_SEEKING_REPLACEMENT, J_COMPLETED, J_DISPATCHING}) (jobs s)))))"

section \<open>Steps along the graphs\<close>

lemma evolves_processEvent [step_rules]: "evolves s (snd (processEvent e s))"
  unfolding processEvent_def
  by (cases "ob_eventType e") (auto intro!: evolves.tryCatch evolves.andThen step_rules)

lemma evolves_tick [step_rules]: "evolves s (snd (tick s))"
  unfolding tick_def by (intro evolves.tryCatch evolves.andThen evolves.forEach evolves.ok step_rules)

lemma evolves_fireExpiry [step_rules]: "evolves s (snd (fireExpiry aid s))"
  unfolding fireExpiry_def
  by (intro evolves.reads_then evolves.whenever evolves.andThen evolves.writes evolves.tryCatch
      evolves.ok evolves_frame step_rules) simp_all

lemma evolves_markCandidate [step_rules]: "evolves s (snd (markCandidate c s))"
  unfolding markCandidate_def
  by (intro evolves.tryCatch evolves.if_split_handler evolves.ok evolves_discard step_rules)

lemma evolves_scanNoShows [step_rules]: "evolves s (snd (scanAndMarkNoShows s))"
  unfolding scanAndMarkNoShows_def by (intro evolves.rules step_rules)

lemma evolves_scanAutoApprove [step_rules]: "evolves s (snd (scanAndAutoApprove s))"
  unfolding scanAndAutoApprove_def
  by (intro evolves.reads_then evolves.forEach evolves.tryCatch evolves.ok evolves_discard step_rules)

lemma evolves_failOverdue [step_rules]: "evolves s (snd (failOverdueDispatchJobs s))"
  unfolding failOverdueDispatchJobs_def by (intro evolves.rules evolves_discard step_rules)

lemma evolves_failPoolExhausted [step_rules]: "evolves s (snd (failPoolExhaustedDispatchJobs s))"
  unfolding failPoolExhaustedDispatchJobs_def by (intro evolves.rules evolves_discard step_rules)

lemma evolves_scanForDrift [step_rules]: "evolves s (snd (scanForDrift s))"
  unfolding scanForDrift_def by (intro evolves.rules step_rules)

end
