(* ===== verification/System.thy ===== *)
theory System
  imports Automation
begin

text \<open>
  The whole backend as one state machine.  An \<open>event\<close> is a call of a controller, a run of a
  background loop or the passing of time; \<open>exec\<close> is the handler it runs.  A \<open>step\<close> is an event,
  or a change of the master data by the parts that are not modelled (administration of users,
  guardians, prices, policies and locations), which do not write the tables of the dispatch
  and billing domains.
\<close>

section \<open>Events\<close>

datatype jobs_call =
    CreateJob create_job_dto actor bool
  | CancelJob id actor "string option"
  | DispatchJob id "actor option"
  | CompleteJob id id
  | ViewJobInvoice id actor

datatype assignments_call =
    AcceptOffer id id
  | DeclineOffer id id
  | RejectOffer id id
  | GoEnRoute id id
  | ArriveOnSite id id
  | CompleteAssignment id id id
  | RequestEarlyRelease id id string
  | ApproveEarlyRelease id actor
  | RejectEarlyRelease id actor "string option"
  | RequestReplacement id id string
  | ApproveReplacement id id
  | DenyReplacement id id "string option"
  | ResumeReplacement id "id option"
  | ReportNoShow id no_show_reason "string option" id role_code

datatype billing_call =
    DraftInvoice id id
  | IssueInvoice id actor
  | ViewInvoice id actor
  | VoidInvoice id id string "id option"
  | DisputeInvoice id actor string
  | ResolveDispute id id resolve_dispute_dto
  | CreatePayment create_payment_input
  | ConfirmPayment id "string option"
  | PaymentWebhook string "string option"
  | CreatePayout id create_payout_dto id
  | ConfirmPayout id "string option"

datatype guardians_call =
    StartShift id "instant option"
  | Login id
  | EndShift id
  | Heartbeat id "(rat \<times> rat) option" "rat option" "int option"

datatype loop_run =
    OutboxTick
  | OfferTimer id
  | NoShowScan
  | EarlyReleaseScan
  | DriftScan
  | TimePasses int

datatype event =
    OfJobs jobs_call
  | OfAssignments assignments_call
  | OfBilling billing_call
  | OfGuardians guardians_call
  | OfLoops loop_run

primrec execJobs :: "jobs_call \<Rightarrow> unit op" where
  "execJobs (CreateJob dto actor autoDispatch) = discard (create dto actor autoDispatch)"
| "execJobs (CancelJob jid actor reason) = discard (cancel jid actor reason)"
| "execJobs (DispatchJob jid actor) = dispatch jid actor"
| "execJobs (CompleteJob jid uid) = discard (jobs_complete jid uid)"
| "execJobs (ViewJobInvoice jid actor) = discard (jobs_getInvoice jid actor)"

primrec execAssignments :: "assignments_call \<Rightarrow> unit op" where
  "execAssignments (AcceptOffer aid gid) = discard (accept aid gid)"
| "execAssignments (DeclineOffer aid gid) = decline aid gid"
| "execAssignments (RejectOffer aid gid) = rejectOffer aid gid"
| "execAssignments (GoEnRoute aid gid) = discard (enRoute aid gid)"
| "execAssignments (ArriveOnSite aid gid) = discard (onSite aid gid)"
| "execAssignments (CompleteAssignment aid gid uid) = discard (complete aid gid uid)"
| "execAssignments (RequestEarlyRelease aid gid reason) = discard (requestEarlyRelease aid gid reason)"
| "execAssignments (ApproveEarlyRelease aid actor) = discard (approveEarlyRelease aid actor)"
| "execAssignments (RejectEarlyRelease aid actor note) = discard (rejectEarlyRelease aid actor note)"
| "execAssignments (RequestReplacement aid gid reason) = discard (requestReplacement aid gid reason)"
| "execAssignments (ApproveReplacement aid uid) = discard (approveReplacement aid uid)"
| "execAssignments (DenyReplacement aid uid note) = discard (denyReplacement aid uid note)"
| "execAssignments (ResumeReplacement jid uid) = resumeReplacementDispatch jid uid"
| "execAssignments (ReportNoShow aid code note uid role) = discard (noShow aid code note uid role)"

primrec execBilling :: "billing_call \<Rightarrow> unit op" where
  "execBilling (DraftInvoice jid uid) = discard (createDraftInvoiceForJobId jid uid)"
| "execBilling (IssueInvoice iid actor) = discard (issue iid actor)"
| "execBilling (ViewInvoice iid actor) = discard (getInvoice iid actor)"
| "execBilling (VoidInvoice iid uid reason rid) = discard (voidInvoice iid uid reason rid)"
| "execBilling (DisputeInvoice iid actor reason) = discard (disputeInvoice iid actor reason)"
| "execBilling (ResolveDispute iid uid body) = discard (resolveDispute iid uid body)"
| "execBilling (CreatePayment input) = discard (createPayment input)"
| "execBilling (ConfirmPayment pid ext) = discard (confirmPayment pid ext)"
| "execBilling (PaymentWebhook key ext) = discard (confirmByIdempotencyKey key ext)"
| "execBilling (CreatePayout gid dto uid) = discard (createPayout gid dto uid)"
| "execBilling (ConfirmPayout pid ext) = discard (confirmPayout pid ext)"

primrec execGuardians :: "guardians_call \<Rightarrow> unit op" where
  "execGuardians (StartShift gid until) = startShift gid until"
| "execGuardians (Login gid) = autoStartOnLogin gid"
| "execGuardians (EndShift gid) = endShift gid"
| "execGuardians (Heartbeat gid pos speed battery) = discard (recordHeartbeat gid pos speed battery)"

primrec execLoops :: "loop_run \<Rightarrow> unit op" where
  "execLoops OutboxTick = tick"
| "execLoops (OfferTimer aid) = fireExpiry aid"
| "execLoops NoShowScan = scanAndMarkNoShows"
| "execLoops EarlyReleaseScan = scanAndAutoApprove"
| "execLoops DriftScan = discard scanForDrift"
| "execLoops (TimePasses ms) = writes (\<lambda>s. s\<lparr>clock := clock s + max 0 ms\<rparr>)"

primrec exec :: "event \<Rightarrow> unit op" where
  "exec (OfJobs c) = execJobs c"
| "exec (OfAssignments c) = execAssignments c"
| "exec (OfBilling c) = execBilling c"
| "exec (OfGuardians c) = execGuardians c"
| "exec (OfLoops c) = execLoops c"

text \<open>A run: every event is executed, whatever its answer.\<close>

primrec run :: "event list \<Rightarrow> sys \<Rightarrow> sys" where
  "run [] s = s"
| "run (e # es) s = run es (snd (exec e s))"

section \<open>Reachable states\<close>

text \<open>What the rest of the backend may change.\<close>

definition masterDataChange :: "sys \<Rightarrow> sys \<Rightarrow> bool" where
  "masterDataChange s s' \<longleftrightarrow>
     jobs s' = jobs s \<and> assignments s' = assignments s \<and> history s' = history s \<and>
     invoices s' = invoices s \<and> earnings s' = earnings s \<and> payments s' = payments s \<and>
     payouts s' = payouts s \<and> outbox s' = outbox s \<and> nextId s \<le> nextId s' \<and> clock s \<le> clock s'"

inductive step :: "sys \<Rightarrow> sys \<Rightarrow> bool" where
  call: "step s (snd (exec e s))"
| masterData: "masterDataChange s s' \<Longrightarrow> step s s'"

text \<open>A fresh database: master data, and nothing in the tables of the two domains.\<close>

definition initial :: "sys \<Rightarrow> bool" where
  "initial s \<longleftrightarrow> jobs s = [] \<and> assignments s = [] \<and> history s = [] \<and> invoices s = [] \<and>
     earnings s = [] \<and> payments s = [] \<and> payouts s = [] \<and> outbox s = []"

inductive reachable :: "sys \<Rightarrow> bool" where
  start: "initial s \<Longrightarrow> reachable s"
| go: "reachable s \<Longrightarrow> step s s' \<Longrightarrow> reachable s'"

inductive_cases stepE: "step s s'"

lemma evolves_execJobs [step_rules]: "evolves s (snd (execJobs c s))"
  by (cases c; simp only: execJobs.simps; intro evolves_discard step_rules)

lemma evolves_execAssignments [step_rules]: "evolves s (snd (execAssignments c s))"
  by (cases c; simp only: execAssignments.simps; intro evolves_discard step_rules)

lemma evolves_execBilling [step_rules]: "evolves s (snd (execBilling c s))"
  by (cases c; simp only: execBilling.simps; intro evolves_discard step_rules)

lemma evolves_execGuardians [step_rules]: "evolves s (snd (execGuardians c s))"
  by (cases c; simp only: execGuardians.simps; intro evolves_discard step_rules)

lemma evolves_execLoops [step_rules]: "evolves s (snd (execLoops c s))"
proof (cases c)
  case (TimePasses ms)
  then show ?thesis
    by simp (rule evolves_frame; simp)
qed (simp only: execLoops.simps, intro evolves_discard step_rules)+

lemma evolves_exec: "evolves s (snd (exec e s))"
  by (cases e; simp only: exec.simps; intro step_rules)

lemma step_evolves: "step s s' \<Longrightarrow> evolves s s'"
  by (erule stepE) (auto simp: masterDataChange_def intro: evolves_exec evolves_frame)

lemma steps_evolve: "step\<^sup>*\<^sup>* s s' \<Longrightarrow> evolves s s'"
  by (induction rule: rtranclp_induct) (auto intro: evolves.trans step_evolves)

lemma run_steps: "step\<^sup>*\<^sup>* s (run es s)"
proof (induction es arbitrary: s)
  case (Cons e es)
  show ?case
    using Cons.IH [of "snd (exec e s)"] step.call [of s e]
    by (simp add: converse_rtranclp_into_rtranclp)
qed simp

lemma run_evolves: "evolves s (run es s)"
  by (rule steps_evolve) (rule run_steps)

lemma initial_good: "initial s \<Longrightarrow> good s"
  by (simp add: initial_def good_def wf_def history_ok_def slots_ok_def seeking_ok_def ledger_ok_def
      outbox_ok_def)

lemma reachable_is_good: "reachable s \<Longrightarrow> good s"
proof (induction rule: reachable.induct)
  case (start s)
  then show ?case by (rule initial_good)
next
  case (go s s')
  then show ?case using step_evolves evolves_good by blast
qed

lemma run_reachable: "reachable s \<Longrightarrow> reachable (run es s)"
proof (induction es arbitrary: s)
  case (Cons e es)
  then show ?case using reachable.go step.call by simp
qed simp

end
