(* ===== verification/Scenario.thy ===== *)
theory Scenario
  imports System
begin

text \<open>
  A small town: one verified client with a pinned site, three guardians, one service, one
  billing and one pay policy.  The runs below start here; the witnesses of the properties
  evaluate them.
\<close>

definition actorOps :: actor where
  "actorOps = \<lparr>sub = 6, roles = [OPS_ADMIN], activeOrgId = None, orgId = None,
     organizationIds = [], actorGuardianId = None\<rparr>"

definition owner :: actor where
  "owner = \<lparr>sub = 7, roles = [CLIENT_OWNER], activeOrgId = Some 9, orgId = Some 9,
     organizationIds = [9], actorGuardianId = None\<rparr>"

definition townGuardian :: "id \<Rightarrow> rat \<Rightarrow> guardian" where
  "townGuardian gid score = \<lparr>g_id = gid, g_userId = gid + 5, g_status = G_ACTIVE,
     g_verificationStatus = GV_VERIFIED, g_employmentType = FULL_TIME, g_reliabilityScore = score,
     g_districtBase = ''gasabo'', g_coverageDistricts = [], g_hourlyPayRate = Some 1000,
     g_payCurrency = ''RWF'', g_certifications =
       [\<lparr>c_id = gid, c_certificationType = FIRST_AID, c_issuer = '''', c_issueDate = 0,
         c_expiryDate = None, c_documentId = None, c_verificationStatus = CV_VERIFIED\<rparr>],
     g_guardianCode = ''G'', g_nationalIdHash = '''', g_reserveForceNumberHash = None,
     g_sectorBase = None, g_yearsExperience = None, g_specializations = [], g_preferredShift = None,
     g_rating = 0, g_activatedAt = None, g_activatedBy = None\<rparr>"

definition onDuty :: "id \<Rightarrow> shift_state" where
  "onDuty gid = \<lparr>s_guardianId = gid, s_shiftStatus = S_AVAILABLE, s_availableForJobs = True,
     s_shiftStartedAt = Some 0, s_shiftEndsAt = None\<rparr>"

definition seen :: presence_entry where
  "seen = \<lparr>pe_lat = 0, pe_lng = 0, pe_speed = None, pe_battery = None, pe_available = True,
     pe_updatedAt = 0, pe_expiresAt = 100000000\<rparr>"

definition town :: sys where
  "town = \<lparr>jobs = [], assignments = [], history = [], dispatchAudits = [],
     shifts = [onDuty 2, onDuty 3, onDuty 4],
     guardians = [townGuardian 2 9, townGuardian 3 8, townGuardian 4 7],
     performance = [], orgs = [\<lparr>o_id = 9, o_verificationStatus = V_VERIFIED\<rparr>],
     orgUsers = [\<lparr>m_organizationId = 9, m_userId = 7, m_isOwner = True\<rparr>],
     locations = [\<lparr>l_id = 5, l_organizationId = 9, l_district = ''Gasabo'', l_isPrimary = True,
       l_coordinatePrecision = USER_PINNED, l_createdAt = 0\<rparr>],
     billingPolicies = [\<lparr>bp_id = 1, bp_priority = 1, bp_organizationId = None, bp_jobType = None,
       bp_validFrom = 0, bp_validUntil = None, bp_model = BOOKED_BLOCK, bp_minimumHours = 4,
       bp_prorationEnabled = True, bp_allowEarlyRelease = True,
       bp_earlyReleaseRequiresClientApproval = True, bp_autoApproveAfterMinutes = Some 30\<rparr>],
     payPolicies = [\<lparr>pp_id = 1, pp_priority = 1, pp_jobType = None, pp_employmentType = None,
       pp_validFrom = 0, pp_validUntil = None, pp_model = PM_MINIMUM_GUARANTEED,
       pp_minimumHours = 4, pp_applyOnEarlyRelease = False\<rparr>],
     pricingRules = [], services = [\<lparr>sv_id = 1, sv_code = STANDARD_GUARDIAN, sv_name = ''Standard'',
       sv_hourlyRate = 3000, sv_currency = ''RWF'', sv_isActive = True, sv_description = None,
       sv_requiresLicense = False, sv_sortOrder = 0\<rparr>],
     booking = \<lparr>minimumBookingHours = 4, nightSurchargeMinPct = 10 / 100, nightSurchargeMaxPct = 20 / 100,
       holidaySurchargeMinPct = 20 / 100, holidaySurchargeMaxPct = 30 / 100,
       guardianSharePct = 80 / 100, platformSharePct = 15 / 100, gatewaySharePct = 3 / 100,
       reserveSharePct = 2 / 100, vatRate = 18 / 100\<rparr>,
     invoices = [], payments = [], earnings = [], payouts = [], outbox = [], audits = [],
     messages = [], expiryTimers = [],
     presence = [2 \<mapsto> seen, 3 \<mapsto> seen, 4 \<mapsto> seen],
     locationHistory = [], vettingRecords = [], guardianReviews = [], fieldIncidents = [], nextId = 10, clock = 3600000,
     config = \<lparr>OFFER_TTL_MS = 300000, DISPATCH_WINDOW_MS = 3600000, DISPATCH_POOL_SIZE = 50,
       MAX_OFFERS_PER_JOB = 20, MAX_REPLACEMENT_OFFERS_PER_JOB = 10,
       DISPATCH_UNREACHABLE_GRACE_MS = 600000, URGENT_PARALLEL_OFFERS = 3,
       BILLING_AUTO_CONFIRM_MS = 86400000, GUARDIAN_PAY_MINIMUM_HOURS_FALLBACK = 4\<rparr>\<rparr>"

definition booking_of :: "int \<Rightarrow> create_job_dto" where
  "booking_of n = \<lparr>cj_organizationId = 9, cj_locationId = 5, cj_jobType = STANDARD_GUARDIAN,
     cj_scheduledStart = 28800000, cj_scheduledEnd = 57600000, cj_requestedGuardianCount = Some n\<rparr>"

text \<open>The state after the owner booked \<open>n\<close> guardians.\<close>

definition bookedJob :: "int \<Rightarrow> job" where
  "bookedJob n = newJob 10 ''JOB-197001010001'' (booking_of n) 7 (hd (billingPolicies town))
     3600000 3600000 True"

definition booked :: "int \<Rightarrow> sys" where
  "booked n = town\<lparr>jobs := [bookedJob n],
     history := [\<lparr>h_jobId = 10, h_oldStatus = None, h_newStatus = J_PENDING, h_changedBy = Some 7,
       h_reason = None, h_changedAt = 3600000\<rparr>],
     outbox := [\<lparr>ob_id = 11, ob_aggregateId = 10, ob_eventType = JOB_DISPATCH_REQUESTED,
       ob_payloadJobId = 10, ob_payloadReplacement = False, ob_payloadRefill = False,
       ob_status = O_PENDING, ob_retries = 0, ob_lastError = None, ob_scheduledAt = 3600000,
       ob_processedAt = None\<rparr>],
     audits := [\<lparr>au_actorUserId = Some 7, au_action = ''JOB_CREATED'', au_entityId = 10\<rparr>],
     messages := [EmailOrgOwners 9 ''job.created'', NotifyOrgOwners 9 ''Job created''],
     nextId := 12\<rparr>"

lemma town_calls:
  "assertOrgMember 9 owner town = (Inr (), town)"
  "isOps owner = False"
  "assertCanBookJobs 9 town = (Inr (), town)"
  "getByCode STANDARD_GUARDIAN town = (Inr (hd (services town)), town)"
  "resolveBillingPolicy 9 STANDARD_GUARDIAN 28800000 town = (Inr (hd (billingPolicies town)), town)"
  by (simp_all add: prod_eq_iff) (code_simp+)

lemma ymd_town: "ymd 3600000 = ''19700101''"
  by code_simp

lemma nextReference_town: "nextReference town = (Inr ''JOB-197001010001'', town)"
proof -
  have "padStart 4 (CHR ''0'') (showInt 1) = ''0001''"
    by code_simp
  then show ?thesis
    by (simp add: nextReference_def town_def ymd_town Let_def)
qed

lemma create_town: "create (booking_of n) owner True town = (Inr (bookedJob n), booked n)"
proof -
  have hours: "\<not> hoursBetween 28800000 57600000 < 4"
    by (simp add: hoursBetween_def)
  have fields: "cj_organizationId (booking_of n) = 9" "cj_jobType (booking_of n) = STANDARD_GUARDIAN"
      "cj_scheduledStart (booking_of n) = 28800000" "cj_scheduledEnd (booking_of n) = 57600000"
      "cj_locationId (booking_of n) = 5"
    by (simp_all add: booking_of_def)
  have state: "minimumBookingHours (booking town) = 4" "clock town = 3600000" "nextId town = 10"
      "jobs town = []" "history town = []" "outbox town = []" "audits town = []"
      "messages town = []" "DISPATCH_WINDOW_MS (config town) = 3600000"
      "findFirst (\<lambda>l. l_id l = 5 \<and> l_organizationId l = 9) (locations town) =
        Some (hd (locations town))"
      "sub owner = 7"
    by (simp_all add: town_def findFirst_def owner_def)
  show ?thesis
    by (simp add: create_def fields town_calls andThen_def getPolicy_def hours state
        nextReference_town transaction_def insertJob_def enqueueInTransaction_def enqueue_def
        freshId_def auditLog_def send_def createRow_def dispatchRequest_def bookedJob_def booked_def
        newJob_def Let_def)
qed

lemma exec_town: "snd (exec (OfJobs (CreateJob (booking_of n) owner True)) town) = booked n"
  by (simp add: discard_def andThen_def create_town)

lemma run_town: "run (OfJobs (CreateJob (booking_of n) owner True) # es) town = run es (booked n)"
  by (simp only: run.simps exec_town)

lemma town_reachable: "reachable town"
  by (rule reachable.start) (simp add: initial_def town_def)

lemma booked_reachable: "reachable (booked n)"
  using run_reachable [OF town_reachable, of "[OfJobs (CreateJob (booking_of n) owner True)]"]
  by (simp only: run_town) simp

section \<open>A working day\<close>

text \<open>Two hours of one guardian: offered, accepted, on the way, on site, done, invoiced, paid.\<close>

definition workday :: "event list" where
  "workday = [OfLoops OutboxTick, OfAssignments (AcceptOffer 12 2), OfAssignments (GoEnRoute 12 2),
     OfAssignments (ArriveOnSite 12 2), OfLoops (TimePasses 7200000),
     OfAssignments (CompleteAssignment 12 2 7), OfJobs (CompleteJob 10 7),
     OfBilling (CreatePayment \<lparr>ci_invoiceId = 13, ci_provider = CASH, ci_amount = 28320,
       ci_idempotencyKey = ''pay-1'', ci_externalTxnId = None\<rparr>),
     OfBilling (ConfirmPayment 15 None)]"

definition after :: "nat \<Rightarrow> sys" where
  "after n = run (take n workday) (booked 1)"

lemma after_reachable: "reachable (after n)"
  unfolding after_def by (rule run_reachable) (rule booked_reachable)

lemma after_steps: "step\<^sup>*\<^sup>* (after m) (run es (after m))"
  by (rule run_steps)

text \<open>What the properties look at, evaluated once for each of the states they use.\<close>

definition snapshot :: "sys \<Rightarrow> (job_status \<times> int) option \<times> (id \<times> assignment_status) option \<times>
    (invoice_status \<times> rat) option \<times> outbox_status option \<times> rat list" where
  "snapshot s =
     (map_option (\<lambda>j. (j_status j, j_requestedGuardianCount j)) (jobOf 10 s),
      map_option (\<lambda>a. (a_guardianId a, a_status a)) (assignmentOf 12 s),
      map_option (\<lambda>i. (i_status i, i_total i)) (invoiceOf 13 s),
      map_option ob_status (outboxOf 11 s), List.map e_amount (earnings s))"

lemma snapshot_2: "snapshot (after 2) =
    (Some (J_ASSIGNED, 1), Some (2, A_ACCEPTED), None, Some O_COMPLETED, [])"
  by code_simp

lemma snapshot_9: "snapshot (after 9) =
    (Some (J_COMPLETED, 1), Some (2, A_COMPLETED), Some (I_PAID, 28320), Some O_COMPLETED, [4000])"
  by code_simp

lemma accepted_rows:
  obtains j a where "jobOf 10 (after 2) = Some j" "j_status j = J_ASSIGNED"
    "j_requestedGuardianCount j = 1" "assignmentOf 12 (after 2) = Some a" "a_guardianId a = 2"
    "a_status a = A_ACCEPTED"
  using snapshot_2 by (auto simp: snapshot_def)

lemma paid_rows:
  obtains i where "invoiceOf 13 (after 9) = Some i" "i_status i = I_PAID" "i_total i = 28320"
    "List.map e_amount (earnings (after 9)) = [4000]"
  using snapshot_9 by (auto simp: snapshot_def)

end
