(* ===== verification/Persistence.thy ===== *)
theory Persistence
  imports Scenario
begin

text \<open>
  What one row may become over a run of the whole system: the row-level reading of
  \<open>evolves\<close>.
\<close>

section \<open>Rows over a run\<close>

lemma table_row:
  assumes "table_evolves R N rows rows'" and "findUnique key k rows = Some r"
    and "distinct (map key rows')" and "\<And>r r'. R r r' \<Longrightarrow> key r' = key r"
  shows "\<exists>r'. findUnique key k rows' = Some r' \<and> R r r'"
proof -
  have r: "r \<in> set rows" "key r = k"
    using findUnique_SomeD [OF assms(2)] by auto
  obtain r' where r': "r' \<in> set rows'" "R r r'"
    using table_evolves_old [OF assms(1) r(1)] by blast
  then have "key r' = k"
    using assms(4) r(2) by simp
  then show ?thesis
    using findUnique_distinct [OF assms(3) r'(1)] r'(2) by blast
qed

lemma steps_good: "reachable s \<Longrightarrow> step\<^sup>*\<^sup>* s s' \<Longrightarrow> good s \<and> good s' \<and> evolves s s'"
  using reachable_is_good steps_evolve evolves_good by blast

lemma steps_assignment:
  assumes "reachable s" and "step\<^sup>*\<^sup>* s s'" and "assignmentOf aid s = Some a"
  shows "\<exists>a'. assignmentOf aid s' = Some a' \<and> assignment_step a a'"
  using steps_good [OF assms(1,2)] assms(3) unfolding assignmentOf_def
  by (intro table_row [where R = assignment_step and N = assignment_born and rows = "assignments s"])
    (auto simp: evolves_def good_def wf_def assignment_step_def)

lemma steps_job:
  assumes "reachable s" and "step\<^sup>*\<^sup>* s s'" and "jobOf jid s = Some j"
  shows "\<exists>j'. jobOf jid s' = Some j' \<and> job_step j j'"
  using steps_good [OF assms(1,2)] assms(3) evolves_jobOf by blast

lemma steps_invoice:
  assumes "reachable s" and "step\<^sup>*\<^sup>* s s'" and "invoiceOf iid s = Some i"
  shows "\<exists>i'. invoiceOf iid s' = Some i' \<and> invoice_step i i'"
  using steps_good [OF assms(1,2)] assms(3) unfolding invoiceOf_def
  by (intro table_row [where R = invoice_step and N = "\<lambda>_. True" and rows = "invoices s"])
    (auto simp: evolves_def ledger_evolves_def good_def ledger_ok_def invoice_step_def)

lemma steps_outbox:
  assumes "reachable s" and "step\<^sup>*\<^sup>* s s'" and "outboxOf oid s = Some e"
  shows "\<exists>e'. outboxOf oid s' = Some e' \<and> outbox_step e e'"
  using steps_good [OF assms(1,2)] assms(3) unfolding outboxOf_def
  by (intro table_row [where R = outbox_step and N = "\<lambda>_. True" and rows = "outbox s"])
    (auto simp: evolves_def log_evolves_def good_def outbox_ok_def outbox_step_def)

lemma steps_earning:
  assumes "reachable s" and "step\<^sup>*\<^sup>* s s'" and "findUnique e_id eid (earnings s) = Some e"
  shows "\<exists>e'. findUnique e_id eid (earnings s') = Some e' \<and> earning_step e e'"
  using steps_good [OF assms(1,2)] assms(3)
  by (intro table_row [where R = earning_step and N = "\<lambda>_. True" and rows = "earnings s"])
    (auto simp: evolves_def ledger_evolves_def good_def ledger_ok_def earning_step_def)

lemma steps_history:
  "reachable s \<Longrightarrow> step\<^sup>*\<^sup>* s s' \<Longrightarrow> \<exists>added. history s' = history s @ added"
  using steps_good [of s s'] by (simp add: evolves_def log_evolves_def)

lemma jobOf_in: "jobOf jid s = Some j \<Longrightarrow> j \<in> set (jobs s) \<and> j_id j = jid"
  by (auto simp: jobOf_def dest: findUnique_SomeD)

end
