(* ===== verification/Delivery.thy ===== *)
theory Delivery
  imports Persistence
begin

text \<open>
  What the outbox promises its readers: the history is append-only, an event is handed to the
  worker at most once, and an event whose handler threw is never tried again.
\<close>

section \<open>One claim per event\<close>

lemma claimed_gone:
  assumes "reachable s" and "claimBatch n s = (Inr evs, s1)" and "step\<^sup>*\<^sup>* s1 s2" and "e \<in> set evs"
  shows "good s2" and "\<exists>e'. outboxOf (ob_id e) s2 = Some e' \<and> ob_status e' \<noteq> O_PENDING"
proof -
  have good: "good s"
    using assms(1) by (rule reachable_is_good)
  then have dist: "distinct (map ob_id (outbox s))"
    by (simp add: good_def outbox_ok_def)
  have ev: "evolves s s1"
    using evolves_claimBatch [of s n] assms(2) by simp
  have good1: "good s1"
    using ev good by (rule evolves_good)
  have ev2: "evolves s1 s2"
    using assms(3) by (rule steps_evolve)
  show good2: "good s2"
    using ev2 good1 by (rule evolves_good)
  have e: "e \<in> set (outbox s1)" "ob_status e = O_PROCESSING"
    using claimed_rows(2,3) [OF dist assms(2)] assms(4) by auto
  have found: "findUnique ob_id (ob_id e) (outbox s1) = Some e"
    using findUnique_distinct [of ob_id "outbox s1" e] good1 e(1)
    by (simp add: good_def outbox_ok_def)
  have "table_evolves outbox_step (\<lambda>_. True) (outbox s1) (outbox s2)"
    using ev2 good1 by (auto simp: evolves_def log_evolves_def)
  then have "\<exists>e'. findUnique ob_id (ob_id e) (outbox s2) = Some e' \<and> outbox_step e e'"
    by (rule table_row [OF _ found]) (use good2 in \<open>auto simp: good_def outbox_ok_def outbox_step_def\<close>)
  then show "\<exists>e'. outboxOf (ob_id e) s2 = Some e' \<and> ob_status e' \<noteq> O_PENDING"
    using e(2) by (auto simp: outboxOf_def outbox_step_def)
qed

lemma not_pending_not_claimable:
  assumes "good s" and "outboxOf oid s = Some e" and "ob_status e \<noteq> O_PENDING"
  shows "oid \<notin> ob_id ` set (claimable n s)"
proof
  assume "oid \<in> ob_id ` set (claimable n s)"
  then obtain d where d: "d \<in> set (outbox s)" "ob_status d = O_PENDING" "ob_id d = oid"
    by (auto dest: claimable_due)
  have "findUnique ob_id (ob_id d) (outbox s) = Some d"
    using findUnique_distinct [of ob_id "outbox s" d] assms(1) d(1)
    by (simp add: good_def outbox_ok_def)
  then show False
    using assms(2,3) d by (simp add: outboxOf_def)
qed

text \<open>
  The worker gets an event at most once: a batch holds at most as many events as asked
  for, all due and pending when it was claimed, and no batch claimed later, however much the
  system has moved on, holds one of them again.
\<close>

theorem claimed_at_most_once:
  assumes "reachable s" and "claimBatch n s = (Inr evs, s1)" and "step\<^sup>*\<^sup>* s1 s2"
    and "claimBatch m s2 = (Inr evs', s3)"
  shows "length evs \<le> n \<and> ob_id ` set evs = ob_id ` set (claimable n s) \<and>
    ob_id ` set evs \<inter> ob_id ` set evs' = {}"
proof (intro conjI)
  have dist: "distinct (map ob_id (outbox s))"
    using reachable_is_good [OF assms(1)] by (simp add: good_def outbox_ok_def)
  show "length evs \<le> n" "ob_id ` set evs = ob_id ` set (claimable n s)"
    using claimed_rows(1,4) [OF dist assms(2)] by blast+
  show "ob_id ` set evs \<inter> ob_id ` set evs' = {}"
  proof -
    have "ob_id e \<notin> ob_id ` set evs'" if e: "e \<in> set evs" for e
    proof -
      note gone = claimed_gone [OF assms(1-3) e]
      have "distinct (map ob_id (outbox s2))"
        using gone(1) by (simp add: good_def outbox_ok_def)
      then have "ob_id ` set evs' = ob_id ` set (claimable m s2)"
        using assms(4) by (rule claimed_rows(1))
      then show ?thesis
        using gone not_pending_not_claimable by metis
    qed
    then show ?thesis by blast
  qed
qed

lemma claimed_at_most_once_witness:
  "\<exists>evs s1 evs' s3. claimBatch 20 (booked 1) = (Inr evs, s1) \<and> ob_id ` set evs = {11} \<and>
     claimBatch 20 (run [OfLoops (TimePasses 600000)] s1) = (Inr evs', s3) \<and>
     11 \<notin> ob_id ` set evs'"
proof -
  let ?claim = "\<lambda>s. claimBatch 20 s :: (http_error + outbox_event list) \<times> sys"
  obtain evs s1 where c: "?claim (booked 1) = (Inr evs, s1)"
    by (simp add: claimBatch_alt Let_def)
  obtain evs' s3 where d: "?claim (run [OfLoops (TimePasses 600000)] s1) = (Inr evs', s3)"
    by (simp add: claimBatch_alt Let_def)
  have "map ob_id (claimable 20 (booked 1)) = [11]"
    by code_simp
  then have "ob_id ` set (claimable 20 (booked 1)) = {11}"
    by (metis list.set_map list.simps(15) set_empty2)
  then show ?thesis
    using claimed_at_most_once [OF booked_reachable c run_steps d] c d by auto
qed

section \<open>No second try\<close>

text \<open>
  C9: An event that has left \<open>PENDING\<close> - its handler may have thrown and \<open>markFailed\<close> may have
  set a backoff for it - is never offered to the worker again, whatever happens later: the
  retry with backoff that \<open>markFailed\<close> prepares never takes place.
\<close>

theorem failed_event_is_never_retried:
  assumes "reachable s" and "step\<^sup>*\<^sup>* s s'" and "outboxOf oid s = Some e" and "ob_status e \<noteq> O_PENDING"
  shows "\<exists>e'. outboxOf oid s' = Some e' \<and> ob_status e' \<noteq> O_PENDING \<and>
    oid \<notin> ob_id ` set (claimable n s')"
proof -
  obtain e' where e': "outboxOf oid s' = Some e'" "outbox_step e e'"
    using steps_outbox [OF assms(1-3)] by blast
  then have "ob_status e' \<noteq> O_PENDING"
    using assms(4) by (simp add: outbox_step_def)
  then show ?thesis
    using e'(1) not_pending_not_claimable steps_good [OF assms(1,2)] by blast
qed

text \<open>The site of a booked job disappears, and the dispatch of the job throws.\<close>

definition siteless :: sys where
  "siteless = (booked 1)\<lparr>locations := []\<rparr>"

definition siteless_failed :: sys where
  "siteless_failed = run [OfLoops OutboxTick] siteless"

lemma siteless_reachable: "reachable siteless_failed"
  unfolding siteless_failed_def siteless_def
  by (rule run_reachable, rule reachable.go [OF booked_reachable [of 1] step.masterData])
    (simp add: masterDataChange_def)

lemma siteless_rows:
  "map_option (\<lambda>e. (ob_status e, ob_retries e, ob_scheduledAt e - clock siteless_failed))
     (outboxOf 11 siteless_failed) = Some (O_FAILED, 1, 2000)"
  by code_simp

lemma failed_event_is_never_retried_witness:
  "\<exists>e. outboxOf 11 (run [OfLoops (TimePasses 600000), OfLoops OutboxTick] siteless_failed) = Some e \<and>
     ob_status e \<noteq> O_PENDING"
proof -
  obtain e where "outboxOf 11 siteless_failed = Some e" "ob_status e = O_FAILED"
    using siteless_rows by auto
  then show ?thesis
    using failed_event_is_never_retried [OF siteless_reachable run_steps] by fastforce
qed

end
