(* ===== verification/Offers.thy ===== *)
theory Offers
  imports Delivery
begin

text \<open>
  What the operations on offers and assignments do, branch by branch: who is offered a job, what
  accepting, cancelling and handing over leave behind, and what the services answer otherwise.
\<close>

section \<open>Steps outside the two tables\<close>

definition keepsTables :: "sys \<Rightarrow> sys \<Rightarrow> bool" where
  "keepsTables s s' \<longleftrightarrow> jobs s' = jobs s \<and> assignments s' = assignments s"

named_theorems frame_rules \<open>steps that write neither jobs nor assignments\<close>

interpretation keepsTables: state_preorder keepsTables
  by unfold_locales (simp_all add: keepsTables_def)

lemma keepsTables_simple [frame_rules]:
  "keepsTables s (snd (now s))" "keepsTables s (snd (auditLog by act e s))"
  "keepsTables s (snd (send m s))" "keepsTables s (snd (cancelOfferExpiry aid s))"
  "keepsTables s (snd (scheduleOfferExpiry aid d s))"
  "keepsTables s (snd (writeDispatchAudit j n event s))"
  by (simp_all add: keepsTables_def auditLog_def send_def cancelOfferExpiry_def
      scheduleOfferExpiry_def writeDispatchAudit_def)

lemma keepsTables_enqueue [frame_rules]:
  "keepsTables s (snd (enqueue input s))" "keepsTables s (snd (enqueueInTransaction input s))"
  by (simp_all add: keepsTables_def enqueue_def enqueueInTransaction_def)

lemma keepsTables_updateShift [frame_rules]: "keepsTables s (snd (updateShift gid f s))"
  by (auto simp: keepsTables_def updateShift_def split: option.split)

lemma keepsTables_setAvailable [frame_rules]: "keepsTables s (snd (setAvailable gid s))"
  unfolding setAvailable_def by (intro keepsTables.rules frame_rules)

lemma keepsTables_releaseCompeting [frame_rules]:
  "keepsTables s (snd (releaseCompetingOffers offers s))"
  unfolding releaseCompetingOffers_def by (intro keepsTables.rules frame_rules)

lemma keepsTables_lookups:
  assumes "keepsTables s s'"
  shows "assignmentOf aid s' = assignmentOf aid s" and "jobOf jid s' = jobOf jid s"
  using assms by (simp_all add: keepsTables_def assignmentOf_def jobOf_def)

section \<open>Accepting\<close>

text \<open>Cancelling the excess offers leaves every row that is not an open offer alone.\<close>

lemma cancelExcess_others:
  assumes "assignmentOf aid s = Some a" and "a_status a \<noteq> A_OFFERED"
  shows "assignmentOf aid (snd (cancelExcessOffersInTransaction jid s)) = Some a"
  using assms
  by (auto simp: cancelExcessOffersInTransaction_def andThen_def updateAssignments_def
      assignmentOf_def findUnique_updateMany)

text \<open>The guardians of the initial round that took the job, and its offers that are out.\<close>

definition staffedOn :: "id \<Rightarrow> sys \<Rightarrow> int" where
  "staffedOn jid s = countWhere (\<lambda>a. a_jobId a = jid \<and> a_replacesAssignmentId a = None \<and>
     a_status a \<in> set STAFFED_ASSIGNMENT_STATUSES) (assignments s)"

definition openOffers :: "id \<Rightarrow> sys \<Rightarrow> int" where
  "openOffers jid s = countWhere (\<lambda>a. a_jobId a = jid \<and> a_replacesAssignmentId a = None \<and>
     a_status a = A_OFFERED) (assignments s)"

lemma staffedOn_cancelExcess [simp]:
  "staffedOn jid (snd (cancelExcessOffersInTransaction jid s)) = staffedOn jid s"
  by (auto simp: cancelExcessOffersInTransaction_def andThen_def updateAssignments_def staffedOn_def
      updateMany_def countWhere_map STAFFED_ASSIGNMENT_STATUSES_def intro: countWhere_cong)

text \<open>The staffing rule after an acceptance.\<close>

lemma applyAccept_effect:
  assumes "applyAcceptStaffingUpdate jid job by s = (Inr res, s')"
    and "assignmentOf aid s = Some a" and "a_status a \<noteq> A_OFFERED" and "j_status job \<noteq> J_SEEKING_REPLACEMENT"
  defines "staffed \<equiv> staffedOn jid s"
  shows "assignmentOf aid s' = Some a"
    and "\<exists>j. jobOf jid s' = Some j \<and> j_status j =
      (if staffed = j_requestedGuardianCount job then J_ASSIGNED else J_PARTIALLY_ASSIGNED)"
    and "staffed \<le> j_requestedGuardianCount job"
    and "staffed = j_requestedGuardianCount job \<Longrightarrow> openOffers jid s' = 0"
    and "staffedOn jid s' = staffed"
proof -
  have count: "countStaffedGuardians jid s = (Inr staffed, s)"
    by (simp add: countStaffedGuardians_def staffed_def staffedOn_def)
  have le: "staffed \<le> j_requestedGuardianCount job"
    using assms(1,4) by (auto simp: applyAcceptStaffingUpdate_def andThen_def count ensure_def split: if_splits)
  then show "staffed \<le> j_requestedGuardianCount job" .
  obtain p where p1: "computeJobStaffingProgress jid (j_requestedGuardianCount job) s = (Inr p, s)"
    by (simp add: progress_answer)
  have "sp_isFullyStaffed p \<longleftrightarrow> staffed = j_requestedGuardianCount job"
    using le p1 by (auto simp: progress_answer buildStaffingProgress_def Let_def staffed_def staffedOn_def)
  note p = p1 this
  have main: "assignmentOf aid s' = Some a \<and>
      (\<exists>j. jobOf jid s' = Some j \<and> j_status j =
        (if staffed = j_requestedGuardianCount job then J_ASSIGNED else J_PARTIALLY_ASSIGNED)) \<and>
      (staffed = j_requestedGuardianCount job \<longrightarrow> openOffers jid s' = 0) \<and> staffedOn jid s' = staffed"
  proof (cases "staffed = j_requestedGuardianCount job")
    case True
    then obtain u s1 offers where *: "transitionToAssigned jid by s = (Inr u, s1)"
        "cancelExcessOffersInTransaction jid s1 = (Inr offers, s')"
      using assms(1,4) le by (auto simp: applyAcceptStaffingUpdate_def andThen_eq_Inr count p ensure_def)
    have st: "\<exists>j. jobOf jid s1 = Some j \<and> j_status j = J_ASSIGNED" "assignments s1 = assignments s"
      using transition_status *(1) unfolding transitionToAssigned_def by blast+
    have "assignmentOf aid s1 = Some a"
      using assms(2) st(2) by (simp add: assignmentOf_def)
    then have "assignmentOf aid s' = Some a"
      using cancelExcess_others [of aid s1 a jid] assms(3) *(2) by simp
    moreover have "jobOf jid s' = jobOf jid s1"
      using cancelExcess_jobs [of jid s1] *(2) by (simp add: jobOf_def)
    moreover have "staffedOn jid s' = staffed"
      using staffedOn_cancelExcess [of jid s1] *(2) st(2) by (simp add: staffed_def staffedOn_def)
    ultimately show ?thesis
      using st(1) cancelExcess_closes [OF *(2)] True by (simp add: openOffers_def)
  next
    case False
    then obtain u where *: "transitionToPartiallyAssigned jid by None s = (Inr u, s')"
      using assms(1,4) le by (auto simp: applyAcceptStaffingUpdate_def andThen_eq_Inr count p ensure_def)
    have "\<exists>j. jobOf jid s' = Some j \<and> j_status j = J_PARTIALLY_ASSIGNED" "assignments s' = assignments s"
      using transition_status * unfolding transitionToPartiallyAssigned_def by blast+
    then show ?thesis
      using assms(2) False by (simp add: assignmentOf_def staffed_def staffedOn_def)
  qed
  then show "assignmentOf aid s' = Some a"
    and "\<exists>j. jobOf jid s' = Some j \<and> j_status j =
      (if staffed = j_requestedGuardianCount job then J_ASSIGNED else J_PARTIALLY_ASSIGNED)"
    and "staffed = j_requestedGuardianCount job \<Longrightarrow> openOffers jid s' = 0"
    and "staffedOn jid s' = staffed"
    by simp_all
qed

text \<open>Reading an assignment with its job.\<close>

lemma readAssignment_Inr:
  "readAssignment aid body s = (Inr r, s') \<longleftrightarrow>
     (\<exists>a job. assignmentOf aid s = Some a \<and> jobOf (a_jobId a) s = Some job \<and> body a job s = (Inr r, s'))"
  by (auto simp: readAssignment_def andThen_eq_Inr orThrow_def split: option.splits)

text \<open>The columns an acceptance writes.\<close>

definition acceptedRow :: "sys \<Rightarrow> guardian \<Rightarrow> resolved_pay_policy \<Rightarrow> assignment \<Rightarrow> assignment" where
  "acceptedRow s g pay a = a\<lparr>a_status := A_ACCEPTED, a_acceptedAt := Some (clock s),
     a_payPolicyModel := Some (rp_model pay), a_payMinimumHours := Some (rp_minimumHours pay),
     a_payPolicyResolvedAt := Some (clock s), a_hourlyPayRateAtCommit := g_hourlyPayRate g,
     a_payApplyOnEarlyRelease := Some (rp_applyOnEarlyRelease pay)\<rparr>"

lemma acceptTransaction_parts:
  assumes "acceptTransaction aid gid s = (Inr (r, st), s')"
  obtains a job g pay n s1 s2 where
    "assignmentOf aid s = Some a" "jobOf (a_jobId a) s = Some job"
    "a_guardianId a = gid" "a_status a = A_OFFERED" "clock s \<le> a_expiresAt a"
    "transitionOfferedAssignment aid (a_versionNumber a) (acceptedRow s g pay) s = (Inr n, s1)"
    "assignmentOf aid s1 = Some r"
    "updateShift gid (\<lambda>r. r\<lparr>s_shiftStatus := S_BUSY, s_availableForJobs := False\<rparr>) s1 = (Inr (), s2)"
    "applyAcceptStaffingUpdate (a_jobId a) job None s2 = (Inr st, s')"
proof -
  have pay: "resolvePayPolicy jt et t u = (Inr pay, v) \<Longrightarrow> v = u" for jt et t u pay v
    using resolvePayPolicy_state [of jt et t u] by simp
  show ?thesis
    using assms that
    by (auto simp: acceptTransaction_def readAssignment_Inr andThen_eq_Inr ensure_def orThrow_def
        countStaffedGuardians_def acceptedRow_def [abs_def] split: if_splits option.splits dest!: pay)
qed

lemma transitionOffered_row:
  assumes "transitionOfferedAssignment aid v f s = (Inr n, s')" and "assignmentOf aid s = Some a"
    and "a_versionNumber a = v" and "a_status a = A_OFFERED" and "\<And>a. a_id (f a) = a_id a"
  shows "assignmentOf aid s' = Some ((f a)\<lparr>a_versionNumber := v + 1\<rparr>)" and "jobs s' = jobs s"
    and "clock s' = clock s"
  using assms findUnique_SomeD [of a_id aid "assignments s" a]
  by (auto simp: transitionOfferedAssignment_def Let_def assignmentOf_def findUnique_updateMany)

lemma acceptTransaction_effect:
  assumes "acceptTransaction aid gid s = (Inr (r, st), s')"
  obtains a job g pay s2 where "assignmentOf aid s = Some a" "jobOf (a_jobId a) s = Some job"
    "a_guardianId a = gid" "a_status a = A_OFFERED" "clock s \<le> a_expiresAt a"
    "r = (acceptedRow s g pay a)\<lparr>a_versionNumber := a_versionNumber a + 1\<rparr>"
    "assignmentOf aid s2 = Some r" "applyAcceptStaffingUpdate (a_jobId a) job None s2 = (Inr st, s')"
proof -
  obtain a job g pay n s1 s2 where *:
    "assignmentOf aid s = Some a" "jobOf (a_jobId a) s = Some job"
    "a_guardianId a = gid" "a_status a = A_OFFERED" "clock s \<le> a_expiresAt a"
    "transitionOfferedAssignment aid (a_versionNumber a) (acceptedRow s g pay) s = (Inr n, s1)"
    "assignmentOf aid s1 = Some r"
    "updateShift gid (\<lambda>r. r\<lparr>s_shiftStatus := S_BUSY, s_availableForJobs := False\<rparr>) s1 = (Inr (), s2)"
    "applyAcceptStaffingUpdate (a_jobId a) job None s2 = (Inr st, s')"
    using assms by (rule acceptTransaction_parts)
  have "assignmentOf aid s1 = Some ((acceptedRow s g pay a)\<lparr>a_versionNumber := a_versionNumber a + 1\<rparr>)"
    by (rule transitionOffered_row [OF *(6,1)]) (simp_all add: acceptedRow_def *(4))
  moreover have "keepsTables s1 s2"
    using keepsTables_updateShift [of s1 gid] *(8) by (metis snd_conv)
  ultimately show ?thesis
    using that [of a job g pay s2] * by (simp add: keepsTables_lookups)
qed

text \<open>
  A caller who gets an answer got it from the transaction; the releases, the refill request and the
  audit line after it leave jobs, assignments and the clock alone.
\<close>

lemma accept_inside:
  assumes "accept aid gid s = (Inr r, s')"
  obtains st s1 where "acceptTransaction aid gid s = (Inr (r, st), s1)" and "keepsTables s1 s'"
proof -
  have tail: "keepsTables u v"
    if "andThen (releaseCompetingOffers (sa_excessOffers st)) (\<lambda>_.
        andThen (whenever (sa_shouldContinueDispatch st) (enqueue (refillRequest (a_jobId x)))) (\<lambda>_.
        andThen (auditLog None ''OFFER_ACCEPTED'' aid) (\<lambda>_. ok x))) u = (y, v)" for x st u y v
  proof -
    have "keepsTables u (snd (andThen (releaseCompetingOffers (sa_excessOffers st)) (\<lambda>_.
        andThen (whenever (sa_shouldContinueDispatch st) (enqueue (refillRequest (a_jobId x)))) (\<lambda>_.
        andThen (auditLog None ''OFFER_ACCEPTED'' aid) (\<lambda>_. ok x))) u))"
      by (intro keepsTables.rules frame_rules)
    then show ?thesis by (simp add: that)
  qed
  obtain x st s1 where x: "acceptTransaction aid gid s = (Inr (x, st), s1)"
      "andThen (releaseCompetingOffers (sa_excessOffers st)) (\<lambda>_.
        andThen (whenever (sa_shouldContinueDispatch st) (enqueue (refillRequest (a_jobId x)))) (\<lambda>_.
        andThen (auditLog None ''OFFER_ACCEPTED'' aid) (\<lambda>_. ok x))) s1 = (Inr r, s')"
    using assms unfolding accept_def
    by (auto simp: andThen_eq_Inr [of "transaction rollback (acceptTransaction aid gid)"]
        transaction_eq_Inr)
  then have "x = r"
    by (auto simp: andThen_eq_Inr)
  then show ?thesis
    using that x tail by blast
qed

text \<open>
  C10: Accepting an offer: the caller holds it, it is open and has not expired.  Afterwards the
  assignment is \<open>ACCEPTED\<close> now, with the next version.  For a job in its initial round the
  guardians that took it never exceed those requested; the job is \<open>ASSIGNED\<close> and has no offer
  left open when they are enough, and \<open>PARTIALLY_ASSIGNED\<close> otherwise.  For a replacement the
  job stays as it is.
\<close>

theorem accept_effect:
  assumes "accept aid gid s = (Inr r, s')"
  shows "\<exists>a j. assignmentOf aid s = Some a \<and> jobOf (a_jobId a) s = Some j \<and>
    a_guardianId a = gid \<and> a_status a = A_OFFERED \<and> clock s \<le> a_expiresAt a \<and>
    a_status r = A_ACCEPTED \<and> a_acceptedAt r = Some (clock s) \<and> a_guardianId r = gid \<and>
    a_versionNumber r = a_versionNumber a + 1 \<and> assignmentOf aid s' = Some r \<and>
    (j_status j \<noteq> J_SEEKING_REPLACEMENT \<longrightarrow>
      staffedOn (a_jobId a) s' \<le> j_requestedGuardianCount j \<and>
      map_option j_status (jobOf (a_jobId a) s') =
        Some (if staffedOn (a_jobId a) s' = j_requestedGuardianCount j
              then J_ASSIGNED else J_PARTIALLY_ASSIGNED) \<and>
      (staffedOn (a_jobId a) s' = j_requestedGuardianCount j \<longrightarrow> openOffers (a_jobId a) s' = 0))"
proof -
  obtain st s1 where 1: "acceptTransaction aid gid s = (Inr (r, st), s1)" and k: "keepsTables s1 s'"
    using assms by (rule accept_inside)
  obtain a job g pay s2 where *: "assignmentOf aid s = Some a" "jobOf (a_jobId a) s = Some job"
    "a_guardianId a = gid" "a_status a = A_OFFERED" "clock s \<le> a_expiresAt a"
    "r = (acceptedRow s g pay a)\<lparr>a_versionNumber := a_versionNumber a + 1\<rparr>"
    "assignmentOf aid s2 = Some r" "applyAcceptStaffingUpdate (a_jobId a) job None s2 = (Inr st, s1)"
    using 1 by (rule acceptTransaction_effect)
  have r: "a_status r = A_ACCEPTED" "a_acceptedAt r = Some (clock s)" "a_guardianId r = gid"
      "a_versionNumber r = a_versionNumber a + 1"
    using *(3,6) by (simp_all add: acceptedRow_def)
  have same: "staffedOn jid s' = staffedOn jid s1" "openOffers jid s' = openOffers jid s1" for jid
    using k by (simp_all add: keepsTables_def staffedOn_def openOffers_def)
  show ?thesis
  proof (cases "j_status job = J_SEEKING_REPLACEMENT")
    case True
    then have "s1 = s2"
      using *(8) by (simp add: applyAcceptStaffingUpdate_def progress_answer andThen_def)
    then show ?thesis
      using True * r keepsTables_lookups [OF k] by auto
  next
    case False
    note eff = applyAccept_effect [OF *(8,7) _ False]
    show ?thesis
      using * r keepsTables_lookups [OF k] eff same by fastforce
  qed
qed

lemma accept_effect_witness:
  "\<exists>r. accept 12 2 (after 1) = (Inr r, snd (accept 12 2 (after 1))) \<and> a_status r = A_ACCEPTED \<and>
     assignmentOf 12 (snd (accept 12 2 (after 1))) = Some r"
proof -
  have "(case fst (accept 12 2 (after 1)) of Inl _ \<Rightarrow> False | Inr _ \<Rightarrow> True)"
    by code_simp
  then obtain r where r: "accept 12 2 (after 1) = (Inr r, snd (accept 12 2 (after 1)))"
    by (metis (no_types, lifting) prod.collapse sum.case_eq_if sum.collapse(2))
  then show ?thesis
    using accept_effect [OF r] by blast
qed

text \<open>
  C11: What \<open>accept\<close> refuses, in the order of the checks: somebody else's offer, an offer that is
  no longer open, an expired offer, and, unless a replacement is sought, an offer of a job whose
  slots are filled.  Nothing is written.
\<close>

theorem accept_rejections:
  assumes "assignmentOf aid s = Some a" and "jobOf (a_jobId a) s = Some j"
    and "a_guardianId a \<noteq> gid \<or> a_status a \<noteq> A_OFFERED \<or> a_expiresAt a < clock s \<or>
      (j_status j \<noteq> J_SEEKING_REPLACEMENT \<and> j_requestedGuardianCount j \<le> staffedOn (a_jobId a) s)"
  shows "accept aid gid s = (Inl (
    if a_guardianId a \<noteq> gid then NotFound ''Assignment not found''
    else if a_status a \<noteq> A_OFFERED then BadRequest ''Offer is no longer active''
    else if a_expiresAt a < clock s then BadRequest ''Offer has expired''
    else BadRequest ''All guardian slots are filled''), s)"
  using assms
  by (auto simp: accept_def acceptTransaction_def readAssignment_def transaction_def rollback_def
      countStaffedGuardians_def staffedOn_def andThen_def)

lemma accept_rejections_witness:
  "accept 12 2 (run [OfLoops (TimePasses 300001)] (after 1)) =
     (Inl (BadRequest ''Offer has expired''), run [OfLoops (TimePasses 300001)] (after 1))"
proof -
  let ?s = "run [OfLoops (TimePasses 300001)] (after 1)"
  have "map_option (\<lambda>a. (a_guardianId a, a_status a, a_expiresAt a < clock ?s, jobOf (a_jobId a) ?s \<noteq> None))
      (assignmentOf 12 ?s) = Some (2, A_OFFERED, True, True)"
    by code_simp
  then obtain a j where "assignmentOf 12 ?s = Some a" "jobOf (a_jobId a) ?s = Some j"
      "a_guardianId a = 2" "a_status a = A_OFFERED" "a_expiresAt a < clock ?s"
    by auto
  then show ?thesis
    using accept_rejections [of 12 ?s a j 2] by simp
qed

text \<open>
  C12: An accepted offer has been answered once and for all: whoever tries to accept, decline or
  reject it again gets an error, and its expiry timer finds nothing to expire; nothing changes.
\<close>

theorem offer_answered_once:
  assumes "accept aid gid s = (Inr r, s')"
  shows "(\<exists>e. accept aid gid' s' = (Inl e, s')) \<and> (\<exists>e. decline aid gid' s' = (Inl e, s')) \<and>
    (\<exists>e. rejectOffer aid gid' s' = (Inl e, s')) \<and> snd (expireOffer aid s') = s'"
proof -
  have r: "assignmentOf aid s' = Some r" "a_status r \<noteq> A_OFFERED"
    using accept_effect [OF assms] by auto
  have "\<exists>e. accept aid gid' s' = (Inl e, s')"
    using r by (cases "jobOf (a_jobId r) s'"; cases "a_guardianId r = gid'")
      (auto simp: accept_def acceptTransaction_def readAssignment_def transaction_def rollback_def andThen_def)
  moreover have "\<exists>e. decline aid gid' s' = (Inl e, s')"
    using r by (cases "jobOf (a_jobId r) s'"; cases "a_guardianId r = gid'")
      (auto simp: decline_def readAssignment_def andThen_def)
  moreover have "\<exists>e. rejectOffer aid gid' s' = (Inl e, s')"
    using r by (cases "jobOf (a_jobId r) s'"; cases "a_guardianId r = gid'")
      (auto simp: rejectOffer_def andThen_def)
  moreover have "snd (expireOffer aid s') = s'"
    using r by (cases "jobOf (a_jobId r) s'") (auto simp: expireOffer_def andThen_def)
  ultimately show ?thesis by blast
qed

text \<open>
  Optimistic locking: of two writers that read an assignment at the same version, whatever
  they write, the second gets an error and changes nothing.
\<close>

theorem second_writer_loses:
  assumes "reachable s" and "assignmentOf aid s = Some a" and "\<And>a. a_id (f a) = a_id a"
  shows "\<exists>s' b e. updateOptimistic aid (a_versionNumber a) f s = (Inr b, s') \<and>
    a_versionNumber b = a_versionNumber a + 1 \<and>
    updateOptimistic aid (a_versionNumber a) g s' = (Inl e, s')"
proof -
  have dist: "distinct (map a_id (assignments s))"
    using reachable_is_good [OF assms(1)] by (simp add: good_def wf_def)
  let ?F = "\<lambda>r. (f r)\<lparr>a_versionNumber := a_versionNumber r + 1\<rparr>"
  let ?s' = "s\<lparr>assignments := updateMany (\<lambda>r. a_id r = aid) ?F (assignments s)\<rparr>"
  have key: "a_id (?F r) = a_id r" for r
    using assms(3) by simp
  have 1: "updateOptimistic aid (a_versionNumber a) f s = (Inr (?F a), ?s')"
    using updateOptimistic_found [OF dist assms(2), of f "a_versionNumber a"] assms(3) by simp
  have "distinctAssignments ?s'" "versionOf aid ?s' = Some (a_versionNumber a + 1)"
    using dist assignment_table.lookup_modify_same [of ?F, OF key] assms(2)
    by (simp_all add: distinctAssignments_def updateMany_keys [of a_id ?F, OF key] versionOf_def
        assignmentOf_def)
  then obtain e where e: "updateOptimistic aid (a_versionNumber a) g ?s' = (Inl e, ?s')"
    using assignment_optimistic.miss [of ?s' aid "a_versionNumber a" g] by auto
  then show ?thesis
    using 1 by auto
qed

lemma second_writer_loses_witness:
  "\<exists>s' b e. updateOptimistic 12 1 (\<lambda>a. a\<lparr>a_status := A_ACCEPTED\<rparr>) (after 1) = (Inr b, s') \<and>
     updateOptimistic 12 1 (\<lambda>a. a\<lparr>a_status := A_EXPIRED\<rparr>) s' = (Inl e, s')"
proof -
  have "map_option a_versionNumber (assignmentOf 12 (after 1)) = Some 1"
    by code_simp
  then obtain a where "assignmentOf 12 (after 1) = Some a" "a_versionNumber a = 1"
    by auto
  then show ?thesis
    using second_writer_loses [OF after_reachable, of 12 1 a "\<lambda>a. a\<lparr>a_status := A_ACCEPTED\<rparr>"
        "\<lambda>a. a\<lparr>a_status := A_EXPIRED\<rparr>"] by auto
qed

lemma offer_answered_once_witness:
  "\<exists>e. decline 12 2 (snd (accept 12 2 (after 1))) = (Inl e, snd (accept 12 2 (after 1)))"
proof -
  have "(case fst (accept 12 2 (after 1)) of Inl _ \<Rightarrow> False | Inr _ \<Rightarrow> True)"
    by code_simp
  then obtain r where r: "accept 12 2 (after 1) = (Inr r, snd (accept 12 2 (after 1)))"
    by (metis (no_types, lifting) prod.collapse sum.case_eq_if sum.collapse(2))
  then show ?thesis
    using offer_answered_once [OF r] by blast
qed

section \<open>Sending offers\<close>

lemma offers_created:
  assumes "jobOf jid s = Some j" and "forCollect gs (\<lambda>g. createOfferInTransaction jid g None) s = (Inr rows, s')"
  shows "List.map a_guardianId rows = gs"
    and "a \<in> set rows \<Longrightarrow> a \<in> set (assignments s') \<and> a_jobId a = jid \<and> a_status a = A_OFFERED \<and>
      a_replacesAssignmentId a = None \<and> a_expiresAt a = clock s + OFFER_TTL_MS (config s)"
    and "set (assignments s) \<subseteq> set (assignments s')"
proof -
  have "List.map a_guardianId rows = gs \<and> set (assignments s) \<subseteq> set (assignments s') \<and>
      (\<forall>a \<in> set rows. a \<in> set (assignments s') \<and> a_jobId a = jid \<and> a_status a = A_OFFERED \<and>
        a_replacesAssignmentId a = None \<and> a_expiresAt a = clock s + OFFER_TTL_MS (config s))"
    using assms
  proof (induction gs arbitrary: s j rows)
    case (Cons g gs)
    let ?s1 = "afterOffer jid g None s"
    obtain rest where rest: "forCollect gs (\<lambda>g. createOfferInTransaction jid g None) ?s1 = (Inr rest, s')"
        "rows = offerRow s jid g None # rest"
      using Cons.prems by (auto simp: andThen_eq_Inr createOffer_found)
    note IH = Cons.IH [OF afterOffer_job [OF Cons.prems(1)] rest(1)]
    have "set (assignments ?s1) = insert (offerRow s jid g None) (set (assignments s))"
        "clock ?s1 = clock s" "config ?s1 = config s"
      by (auto simp: afterOffer_def createRow_def)
    then show ?case
      using IH rest(2) by (auto simp: offerRow_def newAssignment_def)
  qed simp
  then show "List.map a_guardianId rows = gs"
    and "a \<in> set rows \<Longrightarrow> a \<in> set (assignments s') \<and> a_jobId a = jid \<and> a_status a = A_OFFERED \<and>
      a_replacesAssignmentId a = None \<and> a_expiresAt a = clock s + OFFER_TTL_MS (config s)"
    and "set (assignments s) \<subseteq> set (assignments s')"
    by blast+
qed

lemma open_slots_bound:
  fixes l u r st k :: int
  assumes "0 < l" and "0 \<le> k" and "l \<le> max 0 (min u (max 0 (max 0 (r - st) - k)))"
  shows "l \<le> min u (r - st - k)"
  using assms by (auto simp: max_def min_def split: if_splits)

text \<open>
  C14: A parallel round offers the job to at most as many guardians as slots are open and the
  configuration allows; each of them is eligible in the district of the site, reachable, and
  has neither answered an offer of this job nor holds one; every offer lasts the configured time.
\<close>

theorem offers_go_to_eligible_guardians:
  assumes "jobOf jid s = Some j" and "parallelRound jid job district s = (Inr (Offers created), s')"
  shows "created \<noteq> [] \<and> int (length created) \<le> min (URGENT_PARALLEL_OFFERS (config s))
      (j_requestedGuardianCount job - staffedOn jid s - openOffers jid s) \<and>
    (\<forall>a \<in> set created. a \<in> set (assignments s') \<and> a_jobId a = jid \<and> a_status a = A_OFFERED \<and>
      a_replacesAssignmentId a = None \<and> a_expiresAt a = clock s + OFFER_TTL_MS (config s) \<and>
      reachableNow s (a_guardianId a) \<and> \<not> excludedFrom jid s (a_guardianId a) \<and>
      (\<exists>g \<in> set (guardians s). g_id g = a_guardianId a \<and> eligibleRow (normalizeDistrict district) s g))"
proof -
  let ?open = "max 0 (max 0 (j_requestedGuardianCount job - staffedOn jid s) - openOffers jid s)"
  obtain pk s1 where pk: "pickParallelReachableGuardians district jid
        (min (URGENT_PARALLEL_OFFERS (config s)) ?open) s = (Inr pk, s1)"
      "pp_guardians pk \<noteq> []" "?open \<noteq> 0"
      "forCollect (pp_guardians pk) (\<lambda>g. createOfferInTransaction jid g None) s1 = (Inr created, s')"
    using assms(2)
    by (auto simp: parallelRound_def andThen_eq_Inr progress_answer buildStaffingProgress_def Let_def
        staffedOn_def openOffers_def split: if_splits)
  note frame = pickParallel_spec [OF pk(1)]
  have s1: "clock s1 = clock s" "config s1 = config s" "jobOf jid s1 = Some j"
    using frame(3) assms(1) by (auto simp: presence_dropped_def jobOf_def)
  note rows = offers_created [OF s1(3) pk(4)]
  have len: "length created = length (pp_guardians pk)"
    using rows(1) by (metis length_map)
  have "int (length created) \<le> min (URGENT_PARALLEL_OFFERS (config s))
      (j_requestedGuardianCount job - staffedOn jid s - openOffers jid s)"
  proof -
    have "0 < length (pp_guardians pk)" "0 \<le> openOffers jid s"
      using pk(2) by (simp_all add: openOffers_def)
    moreover have "int (length (pp_guardians pk)) \<le> max 0 (min (URGENT_PARALLEL_OFFERS (config s)) ?open)"
      using frame(1) by linarith
    ultimately show ?thesis
      unfolding len by (intro open_slots_bound) simp_all
  qed
  moreover have "created \<noteq> []"
    using len pk(2) by auto
  moreover have "a_guardianId a \<in> set (pp_guardians pk)" if "a \<in> set created" for a
    using that rows(1) by (metis image_eqI list.set_map)
  ultimately show ?thesis
    using rows(2) frame(2) s1 by simp
qed

lemma offers_go_to_eligible_guardians_witness:
  "\<exists>created s'. parallelRound 10 (bookedJob 2) ''Gasabo'' (booked 2) = (Inr (Offers created), s') \<and>
     length created = 2 \<and> (\<forall>a \<in> set created. reachableNow (booked 2) (a_guardianId a))"
proof -
  let ?m = "parallelRound 10 (bookedJob 2) ''Gasabo'' (booked 2)"
  have "(case fst ?m of Inr (Offers c) \<Rightarrow> length c = 2 | _ \<Rightarrow> False)" "jobOf 10 (booked 2) = Some (bookedJob 2)"
    by code_simp+
  then obtain created where c: "?m = (Inr (Offers created), snd ?m)" "length created = 2"
    by (auto simp: prod_eq_iff split: sum.splits round_outcome.splits)
  then show ?thesis
    using offers_go_to_eligible_guardians [OF _ c(1)] \<open>jobOf 10 (booked 2) = Some (bookedJob 2)\<close>
    by blast
qed

end
