(* ===== verification/Endings.thy ===== *)
theory Endings
  imports Offers
begin

text \<open>
  How jobs and assignments end: what the cancellation of a job leaves behind, how a substitute
  takes over, and what a no-show does to a job that was fully assigned.
\<close>

section \<open>Steps that only cancel assignments\<close>

definition cancelled :: "assignment \<Rightarrow> assignment" where
  "cancelled a = a\<lparr>a_status := A_CANCELLED\<rparr>"

definition onlyCancels :: "sys \<Rightarrow> sys \<Rightarrow> bool" where
  "onlyCancels s s' \<longleftrightarrow> list_all2 (\<lambda>a b. b = a \<or> b = cancelled a) (assignments s) (assignments s')"

named_theorems cancel_rules \<open>steps that only cancel assignments\<close>

interpretation onlyCancels: state_preorder onlyCancels
proof
  show "onlyCancels s s" for s
    by (simp add: onlyCancels_def list.rel_refl)
next
  fix s t u
  assume "onlyCancels s t" "onlyCancels t u"
  then show "onlyCancels s u"
    unfolding onlyCancels_def
    by (rule list_all2_trans [rotated]) (auto simp: cancelled_def)
qed

lemma keepsTables_onlyCancels: "keepsTables s s' \<Longrightarrow> onlyCancels s s'"
  by (simp add: keepsTables_def onlyCancels_def list.rel_refl)

lemma onlyCancels_simple [cancel_rules]:
  "onlyCancels s (snd (setAvailable gid s))" "onlyCancels s (snd (auditLog by act e s))"
  "onlyCancels s (snd (send m s))" "onlyCancels s (snd (cancelOfferExpiry aid s))"
  by (intro keepsTables_onlyCancels frame_rules)+

lemma onlyCancels_updateAssignments [cancel_rules]:
  "onlyCancels s (snd (updateAssignments p (\<lambda>a. a\<lparr>a_status := A_CANCELLED\<rparr>) s))"
  by (auto simp: updateAssignments_def onlyCancels_def updateMany_def list_all2_conv_all_nth cancelled_def)

lemma onlyCancels_updateAssignment [cancel_rules]:
  "onlyCancels s (snd (updateAssignment aid (\<lambda>a. a\<lparr>a_status := A_CANCELLED\<rparr>) s))"
  by (auto simp: updateAssignment_def onlyCancels_def updateMany_def list_all2_conv_all_nth cancelled_def
      split: option.split)

lemma onlyCancels_releaseInFlight [cancel_rules]:
  "onlyCancels s (snd (releaseInFlightOffersForJob jid s))"
  unfolding releaseInFlightOffersForJob_def by (intro onlyCancels.rules cancel_rules)

lemma onlyCancels_releaseActive [cancel_rules]:
  "onlyCancels s (snd (releaseActiveStaffedAssignmentsForJob jid s))"
  unfolding releaseActiveStaffedAssignmentsForJob_def by (intro onlyCancels.rules cancel_rules)

text \<open>What holds of every assignment and of every cancelled one keeps holding.\<close>

lemma onlyCancels_all:
  assumes "onlyCancels s s'" and "\<And>a. a \<in> set (assignments s) \<Longrightarrow> q a" and "\<And>a. q a \<Longrightarrow> q (cancelled a)"
    and "b \<in> set (assignments s')"
  shows "q b"
  using list_all2_right [OF assms(1) [unfolded onlyCancels_def] assms(4)] assms(2,3) by auto

text \<open>Cancelling all rows a filter finds leaves none of them.\<close>

lemma cancelled_all:
  assumes "b \<in> set (assignments (snd (updateAssignments (\<lambda>a. a_id a \<in> set (List.map a_id (findMany p (assignments s))))
      (\<lambda>a. a\<lparr>a_status := A_CANCELLED\<rparr>) s)))"
    and "\<And>a. \<not> p (cancelled a)"
  shows "\<not> p b"
  using assms by (auto simp: updateAssignments_def set_updateMany findMany_def cancelled_def)

lemma releaseInFlight_none:
  assumes "releaseInFlightOffersForJob jid s = (Inr u, s')" and "b \<in> set (assignments s')"
  shows "\<not> (a_jobId b = jid \<and> a_status b = A_OFFERED)"
proof -
  let ?p = "\<lambda>a. a_jobId a = jid \<and> a_status a = A_OFFERED"
  let ?off = "findMany ?p (assignments s)"
  show ?thesis
  proof (cases "?off = []")
    case True
    then have "s' = s"
      using assms(1) by (simp add: releaseInFlightOffersForJob_def)
    then show ?thesis
      using True assms(2) by (auto simp: findMany_def filter_empty_conv)
  next
    case False
    then obtain s1 s2 where 1: "forEach ?off (\<lambda>a. cancelOfferExpiry (a_id a)) s = (Inr (), s1)"
      and 2: "updateAssignments ?p (\<lambda>a. a\<lparr>a_status := A_CANCELLED\<rparr>) s1 = (Inr (), s2)"
      and 3: "forEach ?off (\<lambda>a. setAvailable (a_guardianId a)) s2 = (Inr u, s')"
      using assms(1) by (auto simp: releaseInFlightOffersForJob_def andThen_eq_Inr)
    have "keepsTables s2 (snd (forEach ?off (\<lambda>a. setAvailable (a_guardianId a)) s2))"
      by (intro keepsTables.rules frame_rules)
    then have "assignments s' = assignments s2"
      using 3 by (simp add: keepsTables_def)
    moreover have "assignments s2 = updateMany ?p (\<lambda>a. a\<lparr>a_status := A_CANCELLED\<rparr>) (assignments s1)"
      using arg_cong [OF 2, of "\<lambda>x. assignments (snd x)"] by (simp add: updateAssignments_def)
    ultimately have "b \<in> set (updateMany ?p (\<lambda>a. a\<lparr>a_status := A_CANCELLED\<rparr>) (assignments s1))"
      using assms(2) by simp
    then obtain r where "b = (if ?p r then r\<lparr>a_status := A_CANCELLED\<rparr> else r)"
      unfolding set_updateMany by blast
    then show ?thesis
      by (cases "?p r") simp_all
  qed
qed

lemma releaseActive_none:
  assumes "releaseActiveStaffedAssignmentsForJob jid s = (Inr u, s')" and "b \<in> set (assignments s')"
  shows "\<not> (a_jobId b = jid \<and> a_replacesAssignmentId b = None \<and>
    a_status b \<in> {A_ACCEPTED, A_EN_ROUTE, A_ON_SITE, A_EARLY_RELEASE_REQUESTED, A_REPLACEMENT_REQUESTED})"
proof -
  let ?p = "\<lambda>a. a_jobId a = jid \<and> a_replacesAssignmentId a = None \<and>
    a_status a \<in> {A_ACCEPTED, A_EN_ROUTE, A_ON_SITE, A_EARLY_RELEASE_REQUESTED, A_REPLACEMENT_REQUESTED}"
  let ?act = "findMany ?p (assignments s)"
  show ?thesis
  proof (cases "?act = []")
    case True
    then have "s' = s"
      using assms(1) by (simp add: releaseActiveStaffedAssignmentsForJob_def)
    then show ?thesis
      using True assms(2) by (auto simp: findMany_def filter_empty_conv)
  next
    case False
    then obtain s2 where 2: "updateAssignments (\<lambda>a. a_id a \<in> set (List.map a_id ?act))
          (\<lambda>a. a\<lparr>a_status := A_CANCELLED\<rparr>) s = (Inr (), s2)"
      and 3: "forEach ?act (\<lambda>a. setAvailable (a_guardianId a)) s2 = (Inr u, s')"
      using assms(1) by (auto simp: releaseActiveStaffedAssignmentsForJob_def andThen_eq_Inr)
    have "keepsTables s2 (snd (forEach ?act (\<lambda>a. setAvailable (a_guardianId a)) s2))"
      by (intro keepsTables.rules frame_rules)
    then have "assignments s' = assignments s2"
      using 3 by (simp add: keepsTables_def)
    then have "\<not> ?p b"
      using cancelled_all [of b ?p s] 2 assms(2) by (simp add: cancelled_def)
    then show ?thesis .
  qed
qed

lemma onlyCancels_releasePipeline [cancel_rules]:
  "onlyCancels s (snd (releaseReplacementPipelineForJob jid s))"
  unfolding releaseReplacementPipelineForJob_def by (intro onlyCancels.rules cancel_rules)

lemma releasePipeline_none:
  assumes "releaseReplacementPipelineForJob jid s = (Inr u, s')" and "b \<in> set (assignments s')"
    and "a_jobId b = jid"
  shows "a_status b \<noteq> A_OFFERED"
    and "\<not> (a_replacesAssignmentId b \<noteq> None \<and> a_status b \<in> {A_ACCEPTED, A_EN_ROUTE})"
proof -
  let ?p = "\<lambda>a. a_jobId a = jid \<and> a_replacesAssignmentId a \<noteq> None \<and> a_status a \<in> {A_ACCEPTED, A_EN_ROUTE}"
  let ?pipe = "\<lambda>s. whenever (findMany ?p (assignments s) \<noteq> [])
       (andThen (updateAssignments (\<lambda>a. a_id a \<in> set (List.map a_id (findMany ?p (assignments s))))
          (\<lambda>a. a\<lparr>a_status := A_CANCELLED\<rparr>)) (\<lambda>_.
        forEach (findMany ?p (assignments s)) (\<lambda>a. setAvailable (a_guardianId a)))) s"
  obtain s1 s2 where 1: "releaseInFlightOffersForJob jid s = (Inr (), s1)"
    and 2: "?pipe s1 = (Inr (), s2)" and 3: "onlyCancels s2 s'"
  proof -
    let ?rest = "andThen (reads (jobOf jid)) (\<lambda>found.
     case (case found of None \<Rightarrow> None | Some j \<Rightarrow> j_replacementDepartingAssignmentId j) of
       None \<Rightarrow> ok ()
     | Some departingId \<Rightarrow>
         andThen (reads (assignmentOf departingId)) (\<lambda>foundDeparting.
         case foundDeparting of None \<Rightarrow> ok ()
         | Some d \<Rightarrow>
             if a_status d \<noteq> A_AWAITING_RELIEF \<and>
                \<not> (a_status d = A_ON_SITE \<and> a_replacementResolution d = Some RR_APPROVED)
             then ok () else
             andThen (updateAssignment (a_id d) (\<lambda>a. a\<lparr>a_status := A_CANCELLED\<rparr>)) (\<lambda>_.
             andThen (setAvailable (a_guardianId d)) (\<lambda>_.
             send (NotifyGuardian (a_guardianId d) ''Job cancelled'')))))"
    obtain s1 s2 where *: "releaseInFlightOffersForJob jid s = (Inr (), s1)"
        "?pipe s1 = (Inr (), s2)" "?rest s2 = (Inr u, s')"
      using assms(1) unfolding releaseReplacementPipelineForJob_def by (auto simp: andThen_eq_Inr)
    have "onlyCancels s2 (snd (?rest s2))"
      by (intro onlyCancels.rules cancel_rules)
    then have "onlyCancels s2 s'"
      unfolding *(3) by simp
    with *(1,2) show ?thesis
      by (rule that)
  qed
  have none1: "a_jobId a = jid \<longrightarrow> a_status a \<noteq> A_OFFERED" if "a \<in> set (assignments s1)" for a
    using releaseInFlight_none [OF 1 that] by blast
  have "onlyCancels s1 (snd (?pipe s1))"
    by (intro onlyCancels.rules cancel_rules)
  then have 12: "onlyCancels s1 s2"
    using 2 by simp
  have none2: "\<not> ?p a" if a: "a \<in> set (assignments s2)" for a
  proof (cases "findMany ?p (assignments s1) = []")
    case True
    then have "s2 = s1"
      using 2 by simp
    then show ?thesis
      using True a by (auto simp: findMany_def filter_empty_conv)
  next
    case False
    then obtain t where t: "updateAssignments (\<lambda>a. a_id a \<in> set (List.map a_id (findMany ?p (assignments s1))))
          (\<lambda>a. a\<lparr>a_status := A_CANCELLED\<rparr>) s1 = (Inr (), t)"
        "forEach (findMany ?p (assignments s1)) (\<lambda>a. setAvailable (a_guardianId a)) t = (Inr (), s2)"
      using 2 by (auto simp: andThen_eq_Inr)
    have "keepsTables t (snd (forEach (findMany ?p (assignments s1)) (\<lambda>a. setAvailable (a_guardianId a)) t))"
      by (intro keepsTables.rules frame_rules)
    then have "assignments s2 = assignments t"
      using t(2) by (simp add: keepsTables_def)
    then show ?thesis
      using cancelled_all [of a ?p s1] t(1) a by (simp add: cancelled_def)
  qed
  have "a_jobId b = jid \<longrightarrow> a_status b \<noteq> A_OFFERED"
    by (rule onlyCancels_all [OF onlyCancels.trans [OF 12 3] none1 _ assms(2)]) (simp_all add: cancelled_def)
  then show "a_status b \<noteq> A_OFFERED"
    using assms(3) by simp
  have "\<not> ?p b"
    by (rule onlyCancels_all [OF 3 none2 _ assms(2)]) (simp_all add: cancelled_def)
  then show "\<not> (a_replacesAssignmentId b \<noteq> None \<and> a_status b \<in> {A_ACCEPTED, A_EN_ROUTE})"
    using assms(3) by simp
qed

section \<open>What single writes do\<close>

lemma updateAssignment_effect:
  assumes "updateAssignment aid f s = (Inr u, s')" and "\<And>a. a_id (f a) = a_id a"
  obtains a where "assignmentOf aid s = Some a" "assignmentOf aid s' = Some (f a)"
    "\<And>k. k \<noteq> aid \<Longrightarrow> assignmentOf k s' = assignmentOf k s" "jobs s' = jobs s" "clock s' = clock s"
    "List.map a_id (assignments s') = List.map a_id (assignments s)"
proof (cases "assignmentOf aid s")
  case None
  then show ?thesis
    using assms(1) by (simp add: updateAssignment_def)
next
  case (Some a)
  let ?s = "s\<lparr>assignments := updateMany (\<lambda>a. a_id a = aid) f (assignments s)\<rparr>"
  have s': "s' = ?s"
    using assms(1) Some by (simp add: updateAssignment_def)
  have "assignmentOf aid ?s = Some (f a)" "k \<noteq> aid \<Longrightarrow> assignmentOf k ?s = assignmentOf k s" for k
    using assignment_table.lookup_modify_same [of f, OF assms(2)] Some
      assignment_table.lookup_modify_other [of f, OF assms(2)]
    by (simp_all add: assignmentOf_def)
  moreover have "List.map a_id (assignments ?s) = List.map a_id (assignments s)"
    by (simp add: updateMany_keys [of a_id f, OF assms(2)])
  ultimately show ?thesis
    by (intro that [OF Some]) (simp_all add: s')
qed

lemma updateOptimistic_effect:
  assumes "updateOptimistic aid v f s = (Inr b, s')" and "\<And>a. a_id (f a) = a_id a"
    and "distinct (List.map a_id (assignments s))"
  obtains a where "assignmentOf aid s = Some a" "a_versionNumber a = v"
    "b = (f a)\<lparr>a_versionNumber := v + 1\<rparr>" "assignmentOf aid s' = Some b"
    "\<And>k. k \<noteq> aid \<Longrightarrow> assignmentOf k s' = assignmentOf k s" "jobs s' = jobs s" "clock s' = clock s"
    "List.map a_id (assignments s') = List.map a_id (assignments s)"
proof (cases "assignmentOf aid s")
  case None
  then show ?thesis
    using assms(1) by (simp add: updateOptimistic_missing)
next
  case (Some a)
  let ?F = "\<lambda>r. (f r)\<lparr>a_versionNumber := a_versionNumber r + 1\<rparr>"
  let ?s = "s\<lparr>assignments := updateMany (\<lambda>r. a_id r = aid) ?F (assignments s)\<rparr>"
  have key: "a_id (?F r) = a_id r" for r
    using assms(2) by simp
  have found: "updateOptimistic aid v f s = (if a_versionNumber a = v
      then (Inr ((f a)\<lparr>a_versionNumber := v + 1\<rparr>), ?s)
      else (Inl (Conflict ''Assignment was modified concurrently''), s))"
    by (rule updateOptimistic_found [OF assms(3) Some assms(2)])
  then have v: "a_versionNumber a = v" and b: "b = (f a)\<lparr>a_versionNumber := v + 1\<rparr>" and s': "s' = ?s"
    using assms(1) by (auto split: if_splits)
  have "assignmentOf aid ?s = Some (?F a)" "k \<noteq> aid \<Longrightarrow> assignmentOf k ?s = assignmentOf k s" for k
    using assignment_table.lookup_modify_same [of ?F, OF key] Some
      assignment_table.lookup_modify_other [of ?F, OF key]
    by (simp_all add: assignmentOf_def)
  moreover have "List.map a_id (assignments ?s) = List.map a_id (assignments s)"
    by (simp add: updateMany_keys [of a_id ?F, OF key])
  ultimately show ?thesis
    by (intro that [OF Some v b]) (simp_all add: s' b v)
qed

lemma updateJob_effect:
  assumes "updateJob jid f s = (Inr u, s')" and "\<And>j. j_id (f j) = j_id j"
  obtains j where "jobOf jid s = Some j" "jobOf jid s' = Some (f j)" "assignments s' = assignments s"
proof (cases "jobOf jid s")
  case None
  then show ?thesis
    using assms(1) by (simp add: updateJob_def)
next
  case (Some j)
  then have "jobOf jid (s\<lparr>jobs := updateMany (\<lambda>j. j_id j = jid) f (jobs s)\<rparr>) = Some (f j)"
    using job_table.lookup_modify_same [of f, OF assms(2)] by (simp add: jobOf_def)
  moreover have "s' = s\<lparr>jobs := updateMany (\<lambda>j. j_id j = jid) f (jobs s)\<rparr>"
    using assms(1) Some by (simp add: updateJob_def)
  ultimately show ?thesis
    by (intro that [OF Some]) simp_all
qed

lemma changeJobStatus_effect:
  assumes "changeJobStatus jid f old new by reason s = (Inr u, s')" and "\<And>j. j_id (f j) = j_id j"
  obtains j where "jobOf jid s = Some j" "jobOf jid s' = Some ((f j)\<lparr>j_status := new\<rparr>)"
    "assignments s' = assignments s"
proof -
  obtain s1 where 1: "updateJob jid (\<lambda>j. (f j)\<lparr>j_status := new\<rparr>) s = (Inr (), s1)"
      "recordJobStatus jid (Some old) new by reason s1 = (Inr u, s')"
    using assms(1) by (auto simp: changeJobStatus_def andThen_eq_Inr)
  have "keepsTables s1 (snd (recordJobStatus jid (Some old) new by reason s1))"
    by (simp add: keepsTables_def recordJobStatus_def)
  then have k: "keepsTables s1 s'"
    using 1(2) by simp
  obtain j where "jobOf jid s = Some j" "jobOf jid s1 = Some ((f j)\<lparr>j_status := new\<rparr>)"
      "assignments s1 = assignments s"
    by (rule updateJob_effect [OF 1(1)]) (simp_all add: assms(2))
  then show ?thesis
    using k by (intro that) (simp_all add: keepsTables_lookups(2), simp add: keepsTables_def)
qed

section \<open>Cancelling a job\<close>

lemma cancel_parts:
  assumes "cancel jid actor reason s = (Inr r, s')"
  obtains job s1 s2 s3 where "jobOf jid s = Some job"
    "j_status job \<notin> {J_COMPLETED, J_CANCELLED, J_AWAITING_CONFIRMATION}"
    "releaseReplacementPipelineForJob jid s = (Inr (), s1)"
    "releaseActiveStaffedAssignmentsForJob jid s1 = (Inr (), s2)"
    "changeJobStatus jid (\<lambda>j. j) (j_status job) J_CANCELLED (Some (sub actor))
       (map_option FreeText reason) s2 = (Inr (), s3)"
    "keepsTables s3 s'" "r = (jid, J_CANCELLED)"
proof -
  let ?tail = "\<lambda>job. andThen (auditLog (Some (sub actor)) ''JOB_CANCELLED'' jid) (\<lambda>_.
     andThen (send (EmailOrgOwners (j_organizationId job) ''job.cancelled'')) (\<lambda>_.
     andThen (send (NotifyOrgOwners (j_organizationId job) ''Job cancelled'')) (\<lambda>_.
     ok (jid, J_CANCELLED))))"
  let ?org = "\<lambda>job. whenever (\<not> isOps actor) (assertOrgVerifiedForMutations (j_organizationId job))"
  obtain job s0 s01 s1 s2 s3 where *: "assertJobAccess jid actor s = (Inr job, s0)"
      "?org job s0 = (Inr (), s01)"
      "j_status job \<notin> {J_COMPLETED, J_CANCELLED, J_AWAITING_CONFIRMATION}"
      "releaseReplacementPipelineForJob jid s01 = (Inr (), s1)"
      "releaseActiveStaffedAssignmentsForJob jid s1 = (Inr (), s2)"
      "changeJobStatus jid (\<lambda>j. j) (j_status job) J_CANCELLED (Some (sub actor))
        (map_option FreeText reason) s2 = (Inr (), s3)" "?tail job s3 = (Inr r, s')"
    using assms unfolding cancel_def
    by (auto simp: andThen_eq_Inr transaction_eq_Inr ensure_def split: if_splits)
  have "snd (?org job s0) = s0"
    by (rule whenever_state) simp
  then have states: "s01 = s" "s0 = s"
    using *(1,2) assertJobAccess_state [of jid actor s] by simp_all
  have "jobOf jid s = Some job"
    using assertJobAccess_row [of jid actor s job] *(1) by simp
  moreover have "keepsTables s3 (snd (?tail job s3))"
    by (intro keepsTables.rules frame_rules)
  then have "keepsTables s3 s'"
    unfolding *(7) by simp
  moreover have "r = (jid, J_CANCELLED)"
    using *(7) by (auto simp: andThen_eq_Inr)
  ultimately show ?thesis
    using *(3-6) states by (intro that [of job s1 s2 s3]) simp_all
qed

text \<open>
  C15: Cancelling: only a job that is not over can be cancelled.  Afterwards it is \<open>CANCELLED\<close>,
  none of its offers is open, no guardian of the initial round is still on the way or on site,
  and no substitute is on the way.  (A substitute that has already taken over is not released.)
\<close>

theorem cancel_effect:
  assumes "cancel jid actor reason s = (Inr r, s')"
  shows "(\<exists>j. jobOf jid s = Some j \<and> j_status j \<notin> {J_COMPLETED, J_CANCELLED, J_AWAITING_CONFIRMATION}) \<and>
    map_option j_status (jobOf jid s') = Some J_CANCELLED \<and>
    (\<forall>a \<in> set (assignments s'). a_jobId a = jid \<longrightarrow> a_status a \<noteq> A_OFFERED \<and>
      (a_replacesAssignmentId a = None \<longrightarrow> a_status a \<notin> {A_ACCEPTED, A_EN_ROUTE, A_ON_SITE,
         A_EARLY_RELEASE_REQUESTED, A_REPLACEMENT_REQUESTED}) \<and>
      (a_replacesAssignmentId a \<noteq> None \<longrightarrow> a_status a \<notin> {A_ACCEPTED, A_EN_ROUTE}))"
proof -
  obtain job s1 s2 s3 where *: "jobOf jid s = Some job"
      "j_status job \<notin> {J_COMPLETED, J_CANCELLED, J_AWAITING_CONFIRMATION}"
      "releaseReplacementPipelineForJob jid s = (Inr (), s1)"
      "releaseActiveStaffedAssignmentsForJob jid s1 = (Inr (), s2)"
      "changeJobStatus jid (\<lambda>j. j) (j_status job) J_CANCELLED (Some (sub actor))
         (map_option FreeText reason) s2 = (Inr (), s3)" "keepsTables s3 s'"
    using assms by (rule cancel_parts) blast
  have status: "\<exists>j. jobOf jid s3 = Some (j\<lparr>j_status := J_CANCELLED\<rparr>)" and rows: "assignments s3 = assignments s2"
    using changeJobStatus_effect [OF *(5)] by metis+
  have set': "set (assignments s') = set (assignments s2)"
    using *(6) rows by (simp add: keepsTables_def)
  have 12: "onlyCancels s1 s2"
    using onlyCancels_releaseActive [of s1 jid] *(4) by simp
  let ?q = "\<lambda>a. a_jobId a = jid \<longrightarrow> a_status a \<noteq> A_OFFERED \<and>
      \<not> (a_replacesAssignmentId a \<noteq> None \<and> a_status a \<in> {A_ACCEPTED, A_EN_ROUTE})"
  have "?q a" if "a \<in> set (assignments s2)" for a
    by (rule onlyCancels_all [OF 12 _ _ that])
      (use releasePipeline_none [OF *(3)] in \<open>auto simp: cancelled_def\<close>)
  moreover note releaseActive_none [OF *(4)]
  moreover have "map_option j_status (jobOf jid s') = Some J_CANCELLED"
    using status keepsTables_lookups(2) [OF *(6)] by auto
  ultimately show ?thesis
    using *(1,2) unfolding set' by blast
qed

section \<open>The handoff\<close>

lemma handoffTransaction_effect:
  assumes "handoffTransaction orig subst s = (Inr r, s')" and "distinct (List.map a_id (assignments s))"
    and "a_id orig \<noteq> a_id subst"
  shows "\<exists>o' a' j'. assignmentOf (a_id orig) s' = Some o' \<and> a_status o' = A_COMPLETED \<and>
    a_completedAt o' = Some (clock s) \<and> assignmentOf (a_id subst) s' = Some a' \<and>
    a_status a' = A_ON_SITE \<and> a_arrivedAt a' = Some (clock s) \<and>
    jobOf (a_jobId subst) s' = Some j' \<and> j_status j' = J_IN_PROGRESS \<and>
    j_replacementDepartingAssignmentId j' = None"
proof -
  obtain b1 s1 s2 b3 s3 s4 s5 s6 s7 where *:
    "updateOptimistic (a_id orig) (a_versionNumber orig) (\<lambda>a. a\<lparr>a_status := A_COMPLETED\<rparr>) s = (Inr b1, s1)"
    "updateAssignment (a_id orig) (\<lambda>a. a\<lparr>a_completedAt := Some (clock s)\<rparr>) s1 = (Inr (), s2)"
    "updateOptimistic (a_id subst) (a_versionNumber subst) (\<lambda>a. a\<lparr>a_status := A_ON_SITE\<rparr>) s2 = (Inr b3, s3)"
    "updateAssignment (a_id subst) (\<lambda>a. a\<lparr>a_arrivedAt := Some (clock s)\<rparr>) s3 = (Inr (), s4)"
    "transitionFromSeekingReplacementToInProgress (a_jobId subst) None s4 = (Inr (), s5)"
    "updateJob (a_jobId subst) (\<lambda>j. j\<lparr>j_replacementDepartingAssignmentId := None,
       j_dispatchFailureReason := None\<rparr>) s5 = (Inr (), s6)"
    "updateShift (a_guardianId orig)
       (\<lambda>r. r\<lparr>s_shiftStatus := S_AVAILABLE, s_availableForJobs := True\<rparr>) s6 = (Inr (), s7)" "s7 = s'"
    using assms(1) unfolding handoffTransaction_def by (auto simp: andThen_eq_Inr)
  obtain a1 where 1: "assignmentOf (a_id orig) s1 = Some b1" "b1 = a1\<lparr>a_status := A_COMPLETED,
      a_versionNumber := a_versionNumber orig + 1\<rparr>" "List.map a_id (assignments s1) = List.map a_id (assignments s)"
    by (rule updateOptimistic_effect [OF *(1) _ assms(2)]) auto
  obtain 2: "assignmentOf (a_id orig) s2 = Some (b1\<lparr>a_completedAt := Some (clock s)\<rparr>)"
      "List.map a_id (assignments s2) = List.map a_id (assignments s1)"
    by (rule updateAssignment_effect [OF *(2)]) (use 1(1) in auto)
  have dist2: "distinct (List.map a_id (assignments s2))"
    using assms(2) 1(3) 2(2) by simp
  obtain a3 where 3: "assignmentOf (a_id subst) s3 = Some b3" "b3 = a3\<lparr>a_status := A_ON_SITE,
      a_versionNumber := a_versionNumber subst + 1\<rparr>" "assignmentOf (a_id orig) s3 = assignmentOf (a_id orig) s2"
    by (rule updateOptimistic_effect [OF *(3) _ dist2]) (use assms(3) in auto)
  obtain 4: "assignmentOf (a_id subst) s4 = Some (b3\<lparr>a_arrivedAt := Some (clock s)\<rparr>)"
      "assignmentOf (a_id orig) s4 = assignmentOf (a_id orig) s3"
    by (rule updateAssignment_effect [OF *(4)]) (use 3(1) assms(3) in auto)
  obtain j5 where 5: "jobOf (a_jobId subst) s5 = Some j5" "j_status j5 = J_IN_PROGRESS"
      "assignments s5 = assignments s4"
    using transition_status [OF *(5) [unfolded transitionFromSeekingReplacementToInProgress_def]] by blast
  obtain j6 where 6: "jobOf (a_jobId subst) s6 = Some j6" "j_status j6 = J_IN_PROGRESS"
      "j_replacementDepartingAssignmentId j6 = None" "assignments s6 = assignments s5"
    by (rule updateJob_effect [OF *(6)]) (use 5(1,2) in auto)
  have 7: "keepsTables s6 s'"
    using keepsTables_updateShift [of s6 "a_guardianId orig"] *(7,8) by (metis snd_conv)
  have "assignmentOf k s' = assignmentOf k s4" for k
    using keepsTables_lookups(1) [OF 7] 6(4) 5(3) by (simp add: assignmentOf_def)
  then show ?thesis
    using 1(2) 2(1) 3 4 6(1-3) keepsTables_lookups(2) [OF 7] by simp
qed

text \<open>
  C16: The handoff: when a substitute arrives, the guardian it relieves was waiting for relief
  with the replacement approved; it is \<open>COMPLETED\<close> at the very instant the substitute is
  \<open>ON_SITE\<close>, so the coverage has neither gap nor overlap, and the job is \<open>IN_PROGRESS\<close> again
  with nobody departing.
\<close>

theorem handoff_effect:
  assumes "reachable s" and "onSite aid gid s = (Inr r, s')"
    and "assignmentOf aid s = Some a" and "a_replacesAssignmentId a = Some oid"
    and "jobOf (a_jobId a) s = Some j" and "j_status j = J_SEEKING_REPLACEMENT"
  shows "(\<exists>orig. assignmentOf oid s = Some orig \<and> a_status orig = A_AWAITING_RELIEF \<and>
      a_replacementResolution orig = Some RR_APPROVED) \<and>
    (\<exists>o' a' j'. assignmentOf oid s' = Some o' \<and> a_status o' = A_COMPLETED \<and>
      a_completedAt o' = Some (clock s) \<and> assignmentOf aid s' = Some a' \<and>
      a_status a' = A_ON_SITE \<and> a_arrivedAt a' = Some (clock s) \<and>
      jobOf (a_jobId a) s' = Some j' \<and> j_status j' = J_IN_PROGRESS \<and>
      j_replacementDepartingAssignmentId j' = None)"
proof -
  have a: "a_id a = aid"
    using assms(3) by (auto simp: assignmentOf_def dest: findUnique_SomeD)
  have enroute: "a_status a = A_EN_ROUTE" and exec: "executeReplacementHandoff a j s = (Inr r, s')"
    using assms(2-6) by (auto simp: onSite_def readAssignment_Inr andThen_eq_Inr ensure_def split: if_splits)
  let ?tail = "\<lambda>x. andThen (auditLog None ''REPLACEMENT_HANDOFF_COMPLETED'' (a_id a)) (\<lambda>_.
     andThen (send (EmailOrgOwners (j_organizationId j) ''assignment.replacementCompleted'')) (\<lambda>_.
     andThen (send (NotifyOrgOwners (j_organizationId j) ''Officer replaced'')) (\<lambda>_. ok x)))"
  obtain orig x s0 s1 where *: "assignmentOf oid s = Some orig" "a_status orig = A_AWAITING_RELIEF"
      "a_replacementResolution orig = Some RR_APPROVED"
      "assertSeekingReplacementState (Some orig) (Some a) s = (Inr (), s0)"
      "handoffTransaction orig a s0 = (Inr x, s1)" "?tail x s1 = (Inr r, s')"
    using exec assms(4) unfolding executeReplacementHandoff_def
    by (auto simp: andThen_eq_Inr transaction_eq_Inr ensure_def orThrow_def split: if_splits option.splits)
  have "s0 = s"
    using *(4) by (auto simp: assertSeekingReplacementState_def andThen_eq_Inr ensure_def split: if_splits)
  have "keepsTables s1 (snd (?tail x s1))"
    by (intro keepsTables.rules frame_rules)
  then have k: "keepsTables s1 s'"
    unfolding *(6) by simp
  have oid: "a_id orig = oid"
    using *(1) by (auto simp: assignmentOf_def dest: findUnique_SomeD)
  have "orig \<noteq> a"
    using *(2) enroute by auto
  then have "oid \<noteq> aid"
    using *(1) assms(3) by auto
  moreover have "distinct (List.map a_id (assignments s))"
    using reachable_is_good [OF assms(1)] by (simp add: good_def wf_def)
  ultimately show ?thesis
    using handoffTransaction_effect [of orig a s x s1] *(1-3,5) \<open>s0 = s\<close> a oid keepsTables_lookups [OF k]
    by simp
qed

text \<open>A replacement, from the request to the arrival of the substitute, and a cancellation.\<close>

definition relief :: "event list" where
  "relief = [OfLoops OutboxTick, OfAssignments (AcceptOffer 12 2), OfAssignments (GoEnRoute 12 2),
     OfAssignments (ArriveOnSite 12 2), OfAssignments (RequestReplacement 12 2 ''ill''),
     OfAssignments (ApproveReplacement 12 6), OfLoops OutboxTick, OfAssignments (AcceptOffer 14 3),
     OfAssignments (GoEnRoute 14 3)]"

definition relieved :: sys where
  "relieved = run relief (booked 1)"

lemma relieved_reachable: "reachable relieved"
  unfolding relieved_def by (rule run_reachable) (rule booked_reachable)

lemma relieved_snapshot:
  "(map_option (\<lambda>a. (a_guardianId a, a_jobId a, a_replacesAssignmentId a)) (assignmentOf 14 relieved),
    map_option j_status (jobOf 10 relieved),
    (case fst (onSite 14 3 relieved) of Inl _ \<Rightarrow> False | Inr _ \<Rightarrow> True)) =
   (Some (3, 10, Some 12), Some J_SEEKING_REPLACEMENT, True)"
  by code_simp

lemma handoff_effect_witness:
  "\<exists>o' a'. assignmentOf 12 (snd (onSite 14 3 relieved)) = Some o' \<and> a_status o' = A_COMPLETED \<and>
     assignmentOf 14 (snd (onSite 14 3 relieved)) = Some a' \<and> a_arrivedAt a' = a_completedAt o'"
proof -
  obtain a j where a: "assignmentOf 14 relieved = Some a" "a_replacesAssignmentId a = Some 12"
      "a_jobId a = 10" "jobOf 10 relieved = Some j" "j_status j = J_SEEKING_REPLACEMENT"
    using relieved_snapshot by auto
  obtain r where "onSite 14 3 relieved = (Inr r, snd (onSite 14 3 relieved))"
    using relieved_snapshot by (cases "onSite 14 3 relieved"; cases "fst (onSite 14 3 relieved)") auto
  from handoff_effect [OF relieved_reachable this a(1,2) _ a(5)] a(3,4) show ?thesis
    by auto
qed

lemma cancel_effect_witness:
  "map_option j_status (jobOf 10 (snd (cancel 10 owner None (after 2)))) = Some J_CANCELLED \<and>
   findMany (\<lambda>a. a_jobId a = 10 \<and> a_status a = A_OFFERED)
     (assignments (snd (cancel 10 owner None (after 2)))) = []"
proof -
  have "(case fst (cancel 10 owner None (after 2)) of Inl _ \<Rightarrow> False | Inr _ \<Rightarrow> True)"
    by code_simp
  then obtain r where "cancel 10 owner None (after 2) = (Inr r, snd (cancel 10 owner None (after 2)))"
    by (cases "cancel 10 owner None (after 2)"; cases "fst (cancel 10 owner None (after 2))") auto
  from cancel_effect [OF this] show ?thesis
    by (auto simp: findMany_def filter_empty_conv)
qed

text \<open>
  A substitute that has taken over survives the cancellation of the job: the job is
  \<open>CANCELLED\<close> and the substitute's assignment is still \<open>ON_SITE\<close>.
\<close>

theorem cancelled_job_keeps_substitute:
  "let s = run [OfAssignments (ArriveOnSite 14 3), OfJobs (CancelJob 10 owner None)] relieved
   in reachable s \<and> map_option j_status (jobOf 10 s) = Some J_CANCELLED \<and>
      map_option a_status (assignmentOf 14 s) = Some A_ON_SITE"
proof -
  have "map_option j_status (jobOf 10 (run [OfAssignments (ArriveOnSite 14 3),
         OfJobs (CancelJob 10 owner None)] relieved)) = Some J_CANCELLED \<and>
      map_option a_status (assignmentOf 14 (run [OfAssignments (ArriveOnSite 14 3),
         OfJobs (CancelJob 10 owner None)] relieved)) = Some A_ON_SITE"
    by code_simp
  then show ?thesis
    using run_reachable [OF relieved_reachable] by (simp only: Let_def simp_thms)
qed

end
