(* ===== verification/Absences.thy ===== *)
theory Absences
  imports Endings
begin

text \<open>
  No-shows and deadlines: what a no-show does to the job it leaves, and which jobs a run of the
  reconciliation leaves in dispatch.
\<close>

section \<open>One row of a table\<close>

lemma countWhere_update_one:
  assumes "distinct (List.map key rows)" and "findUnique key k rows = Some r"
  shows "countWhere p (updateMany (\<lambda>r. key r = k) f rows) =
    countWhere p rows - (if p r then 1 else 0) + (if p (f r) then 1 else 0)"
  using assms
proof (induction rows)
  case (Cons x rows)
  show ?case
  proof (cases "key x = k")
    case True
    have "updateMany (\<lambda>r. key r = k) f rows = rows"
      using Cons.prems(1) True by (intro updateMany_none) (auto simp: image_iff)
    then show ?thesis
      using Cons.prems(2) True by simp
  next
    case False
    then show ?thesis
      using Cons by simp
  qed
qed simp

lemma setAvailable_effect:
  assumes "shiftOf gid s = Some sh"
  obtains s' where "setAvailable gid s = (Inr (), s')" "jobs s' = jobs s" "clock s' = clock s"
    "assignments s' = assignments s"
    "shiftOf gid s' = Some (if s_shiftStatus sh = S_OFF_DUTY then sh
       else sh\<lparr>s_shiftStatus := S_AVAILABLE, s_availableForJobs := True\<rparr>)"
proof (cases "s_shiftStatus sh = S_OFF_DUTY")
  case True
  then show ?thesis
    using assms by (intro that [of s]) (simp_all add: setAvailable_def)
next
  case False
  let ?f = "\<lambda>r. r\<lparr>s_shiftStatus := S_AVAILABLE, s_availableForJobs := True\<rparr>"
  let ?s' = "s\<lparr>shifts := updateMany (\<lambda>r. s_guardianId r = gid) ?f (shifts s)\<rparr>"
  have "shiftOf gid ?s' = Some (?f sh)"
    using shift_table.lookup_modify_same [of ?f gid "shifts s" sh] assms by (simp add: shiftOf_def)
  then show ?thesis
    using False assms by (intro that [of ?s']) (simp_all add: setAvailable_def updateShift_def)
qed

lemma countNoShow_effect:
  obtains s' where "countNoShow gid s = (Inr (), s')" "shifts s' = shifts s" "jobs s' = jobs s"
    "clock s' = clock s" "assignments s' = assignments s"
  by (simp add: countNoShow_def Let_def)

section \<open>A no-show on a fully assigned job\<close>

lemma noShow_writes:
  assumes dist: "distinct (List.map a_id (assignments s))" and a: "assignmentOf aid s = Some a"
    and a_id: "a_id a = aid" and shift: "shiftOf (a_guardianId a) s = Some sh"
  obtains s4 where "noShowTransaction a job inp s =
      applyUnfilledSlotRedispatch (a_jobId a) job (ns_actorUserId inp) (Some (NoShowCode (ns_reasonCode inp))) s4"
    "jobs s4 = jobs s" "clock s4 = clock s"
    "shiftOf (a_guardianId a) s4 = Some (if s_shiftStatus sh = S_OFF_DUTY then sh
       else sh\<lparr>s_shiftStatus := S_AVAILABLE, s_availableForJobs := True\<rparr>)"
    "\<And>p. (\<And>b c. a_jobId b = a_jobId c \<Longrightarrow> a_replacesAssignmentId b = a_replacesAssignmentId c \<Longrightarrow>
        a_status b = a_status c \<Longrightarrow> p b = p c) \<Longrightarrow>
       countWhere p (assignments s4) = countWhere p (assignments s) -
         (if p a then 1 else 0) + (if p (a\<lparr>a_status := A_NO_SHOW\<rparr>) then 1 else 0)"
proof -
  let ?f = "\<lambda>a. a\<lparr>a_status := A_NO_SHOW\<rparr>"
  let ?F = "\<lambda>r. (?f r)\<lparr>a_versionNumber := a_versionNumber r + 1\<rparr>"
  let ?s1 = "s\<lparr>assignments := updateMany (\<lambda>r. a_id r = aid) ?F (assignments s)\<rparr>"
  let ?g = "\<lambda>b. b\<lparr>a_noShowReason := keepOr (ns_reasonNote inp) (a_noShowReason b),
       a_noShowReasonCode := Some (ns_reasonCode inp), a_noShowTriggerType := Some (ns_triggerType inp),
       a_noShowReportedByUserId := keepOr (ns_actorUserId inp) (a_noShowReportedByUserId b),
       a_noShowReportedByRole := keepOr (ns_actorRole inp) (a_noShowReportedByRole b),
       a_noShowAt := Some (clock ?s1)\<rparr>"
  let ?s2 = "?s1\<lparr>assignments := updateMany (\<lambda>r. a_id r = aid) ?g (assignments ?s1)\<rparr>"
  have 1: "updateOptimistic (a_id a) (a_versionNumber a) ?f s =
      (Inr ((?f a)\<lparr>a_versionNumber := a_versionNumber a + 1\<rparr>), ?s1)"
    using updateOptimistic_found [OF dist a, of ?f "a_versionNumber a"] a_id by simp
  have key: "a_id (?F r) = a_id r" "a_id (?g r) = a_id r" for r
    by simp_all
  have found1: "assignmentOf aid ?s1 = Some (?F a)"
    using assignment_table.lookup_modify_same [of ?F, OF key(1)] a by (simp add: assignmentOf_def)
  then have 2: "updateAssignment (a_id a) ?g ?s1 = (Inr (), ?s2)"
    by (simp add: updateAssignment_def a_id)
  obtain s3 where 3: "countNoShow (a_guardianId a) ?s2 = (Inr (), s3)" "shifts s3 = shifts ?s2"
      "jobs s3 = jobs ?s2" "clock s3 = clock ?s2" "assignments s3 = assignments ?s2"
    by (rule countNoShow_effect)
  have shift3: "shiftOf (a_guardianId a) s3 = Some sh"
    using shift 3(2) by (simp add: shiftOf_def)
  obtain s4 where 4: "setAvailable (a_guardianId a) s3 = (Inr (), s4)" "jobs s4 = jobs s3"
      "clock s4 = clock s3" "assignments s4 = assignments s3"
      "shiftOf (a_guardianId a) s4 = Some (if s_shiftStatus sh = S_OFF_DUTY then sh
         else sh\<lparr>s_shiftStatus := S_AVAILABLE, s_availableForJobs := True\<rparr>)"
    by (rule setAvailable_effect [OF shift3])
  have count: "countWhere p (assignments s4) = countWhere p (assignments s) -
         (if p a then 1 else 0) + (if p (?f a) then 1 else 0)"
    if p: "\<And>b c. a_jobId b = a_jobId c \<Longrightarrow> a_replacesAssignmentId b = a_replacesAssignmentId c \<Longrightarrow>
        a_status b = a_status c \<Longrightarrow> p b = p c" for p
  proof -
    have "countWhere p (assignments ?s2) = countWhere p (assignments ?s1) -
        (if p (?F a) then 1 else 0) + (if p (?g (?F a)) then 1 else 0)"
      using countWhere_update_one [of a_id "assignments ?s1" aid "?F a" p ?g] found1 dist
      by (simp add: assignmentOf_def updateMany_keys [of a_id ?F, OF key(1)])
    also have "p (?g (?F a)) = p (?F a)"
      by (rule p) simp_all
    also have "countWhere p (assignments ?s1) = countWhere p (assignments s) -
        (if p a then 1 else 0) + (if p (?F a) then 1 else 0)"
      using countWhere_update_one [of a_id "assignments s" aid a p ?F] a dist
      by (simp add: assignmentOf_def)
    also have "p (?F a) = p (?f a)"
      by (rule p) simp_all
    finally show ?thesis
      unfolding 4(4) 3(5) by simp
  qed
  have "noShowTransaction a job inp s = applyUnfilledSlotRedispatch (a_jobId a) job (ns_actorUserId inp)
      (Some (NoShowCode (ns_reasonCode inp))) s4"
    by (simp only: noShowTransaction_def andThen_def 1 2 3(1) 4(1) now_apply prod.case sum.case)
  moreover have "jobs s4 = jobs s" "clock s4 = clock s"
    unfolding 4(2,3) 3(3,4) by simp_all
  ultimately show ?thesis
    using 4(5) count by (rule that)
qed

text \<open>The writes of a no-show leave the job with fewer guardians than it asked for.\<close>

lemma noShow_understaffs:
  assumes "good s" and "assignmentOf aid s = Some a" and "a_status a \<in> {A_OFFERED, A_ACCEPTED, A_EN_ROUTE}"
    and "a_replacesAssignmentId a = None" and "jobOf (a_jobId a) s = Some j"
    and "shiftOf (a_guardianId a) s = Some sh"
  obtains s4 where "noShowTransaction a j inp s = applyUnfilledSlotRedispatch (a_jobId a) j
      (ns_actorUserId inp) (Some (NoShowCode (ns_reasonCode inp))) s4"
    "jobs s4 = jobs s"
    "shiftOf (a_guardianId a) s4 = Some (if s_shiftStatus sh = S_OFF_DUTY then sh
       else sh\<lparr>s_shiftStatus := S_AVAILABLE, s_availableForJobs := True\<rparr>)"
    "countWhere (\<lambda>b. a_jobId b = a_jobId a \<and> a_replacesAssignmentId b = None \<and>
       a_status b \<in> set STAFFED_ASSIGNMENT_STATUSES) (assignments s4) < j_requestedGuardianCount j"
proof -
  note good = assms(1)
  have dist: "distinct (List.map a_id (assignments s))"
    using good by (simp add: good_def wf_def)
  have a: "a \<in> set (assignments s)" "a_id a = aid"
    using assms(2) by (auto simp: assignmentOf_def dest: findUnique_SomeD)
  let ?staffed = "\<lambda>b. a_jobId b = a_jobId a \<and> a_replacesAssignmentId b = None \<and>
    a_status b \<in> set STAFFED_ASSIGNMENT_STATUSES"
  obtain s4 where s4: "noShowTransaction a j inp s = applyUnfilledSlotRedispatch (a_jobId a) j
        (ns_actorUserId inp) (Some (NoShowCode (ns_reasonCode inp))) s4"
      "jobs s4 = jobs s"
      "shiftOf (a_guardianId a) s4 = Some (if s_shiftStatus sh = S_OFF_DUTY then sh
         else sh\<lparr>s_shiftStatus := S_AVAILABLE, s_availableForJobs := True\<rparr>)"
      "countWhere ?staffed (assignments s4) = countWhere ?staffed (assignments s) -
         (if ?staffed a then 1 else 0) + (if ?staffed (a\<lparr>a_status := A_NO_SHOW\<rparr>) then 1 else 0)"
  proof (rule noShow_writes [OF dist assms(2) a(2) assms(6), where job = j and inp = inp])
    fix s4
    assume w: "noShowTransaction a j inp s = applyUnfilledSlotRedispatch (a_jobId a) j
        (ns_actorUserId inp) (Some (NoShowCode (ns_reasonCode inp))) s4" "jobs s4 = jobs s"
      "shiftOf (a_guardianId a) s4 = Some (if s_shiftStatus sh = S_OFF_DUTY then sh
         else sh\<lparr>s_shiftStatus := S_AVAILABLE, s_availableForJobs := True\<rparr>)"
      and count: "\<And>p. (\<And>b c. a_jobId b = a_jobId c \<Longrightarrow> a_replacesAssignmentId b = a_replacesAssignmentId c \<Longrightarrow>
        a_status b = a_status c \<Longrightarrow> p b = p c) \<Longrightarrow>
       countWhere p (assignments s4) = countWhere p (assignments s) -
         (if p a then 1 else 0) + (if p (a\<lparr>a_status := A_NO_SHOW\<rparr>) then 1 else 0)"
    have "countWhere ?staffed (assignments s4) = countWhere ?staffed (assignments s) -
         (if ?staffed a then 1 else 0) + (if ?staffed (a\<lparr>a_status := A_NO_SHOW\<rparr>) then 1 else 0)"
      by (rule count [of ?staffed]) simp
    with w show thesis
      by (rule that)
  qed
  have "slots_taken (a_jobId a) s \<le> max 0 (j_requestedGuardianCount j)"
    using good jobOf_in [OF assms(5)] by (auto simp: good_def slots_ok_def)
  moreover have "0 < slots_taken (a_jobId a) s"
    using a(1) assms(3,4) unfolding slots_taken_def countWhere_pos_iff by auto
  moreover have "countWhere ?staffed (assignments s) \<le> slots_taken (a_jobId a) s -
      (if a_status a = A_OFFERED then 1 else 0)"
  proof (cases "a_status a = A_OFFERED")
    case True
    then have "0 < countWhere (\<lambda>b. a_jobId b = a_jobId a \<and> a_replacesAssignmentId b = None \<and>
        a_status b = A_OFFERED) (assignments s)"
      using a(1) assms(4) unfolding countWhere_pos_iff by auto
    then show ?thesis
      using True slots_taken_split [of "a_jobId a" s] by simp
  next
    case False
    then show ?thesis
      using slots_taken_split [of "a_jobId a" s] by simp
  qed
  moreover have "?staffed a \<longleftrightarrow> a_status a \<noteq> A_OFFERED" "\<not> ?staffed (a\<lparr>a_status := A_NO_SHOW\<rparr>)"
    using assms(3,4) by (auto simp: STAFFED_ASSIGNMENT_STATUSES_def)
  ultimately have "countWhere ?staffed (assignments s4) < j_requestedGuardianCount j"
    unfolding s4(4) by (auto split: if_splits)
  then show thesis
    using that s4(1-3) by blast
qed

text \<open>
  C18: The no-show of a guardian on a fully assigned job fails: the service tries to move the
  job from \<open>ASSIGNED\<close> to \<open>PARTIALLY_ASSIGNED\<close>, which the lifecycle refuses, and the report is
  rolled back.  Only the guardian's shift row is left changed: unless off duty, the absent
  guardian has become available for other jobs while still holding the assignment.
\<close>

theorem no_show_on_assigned_job_fails:
  assumes "reachable s" and "assignmentOf aid s = Some a" and "a_status a \<in> {A_OFFERED, A_ACCEPTED, A_EN_ROUTE}"
    and "a_replacesAssignmentId a = None" and "jobOf (a_jobId a) s = Some j" and "j_status j = J_ASSIGNED"
    and "shiftOf (a_guardianId a) s = Some sh"
  shows "\<exists>s'. applyNoShow aid inp s =
      (Inl (BadRequest ''Cannot move job from ASSIGNED to PARTIALLY_ASSIGNED''), s') \<and>
    jobs s' = jobs s \<and> assignments s' = assignments s \<and> performance s' = performance s \<and>
    (s_shiftStatus sh \<noteq> S_OFF_DUTY \<longrightarrow> map_option s_availableForJobs (shiftOf (a_guardianId a) s') = Some True)"
proof -
  obtain s4 where s4: "noShowTransaction a j inp s = applyUnfilledSlotRedispatch (a_jobId a) j
        (ns_actorUserId inp) (Some (NoShowCode (ns_reasonCode inp))) s4"
      "jobs s4 = jobs s"
      "shiftOf (a_guardianId a) s4 = Some (if s_shiftStatus sh = S_OFF_DUTY then sh
         else sh\<lparr>s_shiftStatus := S_AVAILABLE, s_availableForJobs := True\<rparr>)"
    and few: "countWhere (\<lambda>b. a_jobId b = a_jobId a \<and> a_replacesAssignmentId b = None \<and>
       a_status b \<in> set STAFFED_ASSIGNMENT_STATUSES) (assignments s4) < j_requestedGuardianCount j"
    by (rule noShow_understaffs [OF reachable_is_good [OF assms(1)] assms(2-5,7)])
  have job4: "jobOf (a_jobId a) s4 = Some j"
    using assms(5) s4(2) by (simp add: jobOf_def)
  have "transitionToPartiallyAssigned (a_jobId a) by reason s4 =
      (Inl (BadRequest ''Cannot move job from ASSIGNED to PARTIALLY_ASSIGNED''), s4)" for "by" reason
    unfolding transitionToPartiallyAssigned_def
    by (subst transition_rejected [OF job4]) (simp_all add: assms(6))
  then have "noShowTransaction a j inp s =
      (Inl (BadRequest ''Cannot move job from ASSIGNED to PARTIALLY_ASSIGNED''), s4)"
    unfolding s4(1) applyUnfilledSlotRedispatch_def
    using few assms(6)
    by (simp add: progress_answer buildStaffingProgress_def Let_def andThen_def)
  then have "applyNoShow aid inp s = (Inl (BadRequest ''Cannot move job from ASSIGNED to PARTIALLY_ASSIGNED''),
      s\<lparr>shifts := shifts s4\<rparr>)"
    using assms(2,3,5)
    by (auto simp: applyNoShow_def readAssignment_def NO_SHOW_ALLOWED_FROM_STATUSES_def transaction_def
        rollbackKeepingShifts_def andThen_def)
  then show ?thesis
    using s4(3) by (auto simp: shiftOf_def)
qed

lemma no_show_on_assigned_job_fails_witness:
  "\<exists>s'. noShow 12 CLIENT_UNREACHABLE None 6 OPS_ADMIN (after 2) =
     (Inl (BadRequest ''Cannot move job from ASSIGNED to PARTIALLY_ASSIGNED''), s') \<and>
   map_option s_availableForJobs (shiftOf 2 s') = Some True"
proof -
  have "(map_option (\<lambda>a. (a_guardianId a, a_jobId a, a_replacesAssignmentId a, a_status a)) (assignmentOf 12 (after 2)),
      map_option s_shiftStatus (shiftOf 2 (after 2)), map_option j_status (jobOf 10 (after 2))) =
      (Some (2, 10, None, A_ACCEPTED), Some S_BUSY, Some J_ASSIGNED)"
    by code_simp
  then obtain a j sh where "assignmentOf 12 (after 2) = Some a" "a_guardianId a = 2" "a_jobId a = 10"
      "a_replacesAssignmentId a = None" "a_status a = A_ACCEPTED" "shiftOf 2 (after 2) = Some sh"
      "s_shiftStatus sh = S_BUSY" "jobOf 10 (after 2) = Some j" "j_status j = J_ASSIGNED"
    by auto
  then show ?thesis
    unfolding noShow_def
    using no_show_on_assigned_job_fails [OF after_reachable [of 2], where aid = 12 and a = a and j = j and sh = sh
        and inp = "\<lparr>ns_reasonCode = CLIENT_UNREACHABLE, ns_reasonNote = None, ns_triggerType = NS_MANUAL,
          ns_actorUserId = Some 6, ns_actorRole = Some OPS_ADMIN\<rparr>"] by auto
qed

end
