(* ===== verification/Books.thy ===== *)
theory Books
  imports Persistence
begin

text \<open>
  The money: what an invoice adds up to, how many hours are billed and paid, which policy
  decides, and what payments, payouts, disputes and voiding do to the books.
\<close>

section \<open>Amounts\<close>

text \<open>The sum of the amounts of the line items with given codes.\<close>

definition amountOf :: "string list \<Rightarrow> line_item list \<Rightarrow> rat" where
  "amountOf codes items = sum_list (List.map (\<lambda>i. case li_amount i of None \<Rightarrow> 0 | Some x \<Rightarrow> x)
     (filter (\<lambda>i. li_code i \<in> set codes) items))"

lemma amountOf_append [simp]: "amountOf codes (xs @ ys) = amountOf codes xs + amountOf codes ys"
  by (simp add: amountOf_def)

lemma amountOf_Cons [simp]:
  "amountOf codes (i # items) = (if li_code i \<in> set codes
     then (case li_amount i of None \<Rightarrow> 0 | Some x \<Rightarrow> x) else 0) + amountOf codes items"
  "amountOf codes [] = 0"
  by (simp_all add: amountOf_def)

lemma amountOf_information [simp]:
  "amountOf codes (informationItems input) = 0"
  unfolding informationItems_def Let_def by (simp add: info_def)

lemma informationItems_no_amount:
  "i \<in> set (informationItems input) \<Longrightarrow> li_amount i = None"
  unfolding informationItems_def Let_def by (auto simp: info_def split: if_splits option.splits)

text \<open>
  C19: The hourly invoice: its subtotal is the surcharged rate times the billed hours times the
  guardians requested, and is the amount of the service line; each split line is the subtotal
  times its share of the booking policy, and no further line carries an amount.  Nothing makes the
  four shares one: the split lines add up to the subtotal exactly when they are, or when there is
  nothing to split.
\<close>

theorem invoice_adds_up:
  assumes "computeInvoiceAmounts input = Inr r" and "ai_pricingModel input = HOURLY"
    and "ai_hourlyRate input = Some rate" and "ai_bookingPolicy input = Some policy"
  shows "ar_subtotal r = rate * ai_surchargeMultiplier input * bd_billableHours (ar_duration r) *
      rat_of_int (j_requestedGuardianCount (ai_job input)) \<and>
    amountOf [''service''] (ar_lineItems r) = ar_subtotal r \<and>
    amountOf [''split_guardian''] (ar_lineItems r) = ar_subtotal r * guardianSharePct policy \<and>
    amountOf [''split_platform''] (ar_lineItems r) = ar_subtotal r * platformSharePct policy \<and>
    amountOf [''split_gateway''] (ar_lineItems r) = ar_subtotal r * gatewaySharePct policy \<and>
    amountOf [''split_reserve''] (ar_lineItems r) = ar_subtotal r * reserveSharePct policy \<and>
    (\<forall>i \<in> set (ar_lineItems r). li_amount i = None \<or> li_code i \<in>
      {''service'', ''split_guardian'', ''split_platform'', ''split_gateway'', ''split_reserve''}) \<and>
    amountOf [''split_guardian'', ''split_platform'', ''split_gateway'', ''split_reserve''] (ar_lineItems r) =
      ar_subtotal r * (guardianSharePct policy + platformSharePct policy + gatewaySharePct policy +
        reserveSharePct policy) \<and>
    (amountOf [''split_guardian'', ''split_platform'', ''split_gateway'', ''split_reserve''] (ar_lineItems r) =
        ar_subtotal r \<longleftrightarrow>
      ar_subtotal r = 0 \<or>
      guardianSharePct policy + platformSharePct policy + gatewaySharePct policy + reserveSharePct policy = 1)"
proof -
  obtain ar co where times: "ai_arrivedAt input = Some ar" "ai_completedAt input = Some co"
    using assms(1) by (auto simp: computeInvoiceAmounts_def split: option.splits)
  let ?d = "invoiceDuration input ar co"
  define gross where "gross = rate * ai_surchargeMultiplier input * bd_billableHours ?d *
    rat_of_int (j_requestedGuardianCount (ai_job input))"
  have r: "r = \<lparr>ar_duration = ?d, ar_subtotal = gross,
      ar_lineItems = informationItems input @ [charge ''service'' gross] @
        (if ai_surchargeReasons input \<noteq> [] then [info ''surcharge''] else []) @ splitItems gross policy\<rparr>"
    using assms times by (auto simp: computeInvoiceAmounts_def Let_def gross_def)
  have split: "splitItems gross policy = [charge ''split_guardian'' (gross * guardianSharePct policy),
      charge ''split_platform'' (gross * platformSharePct policy),
      charge ''split_gateway'' (gross * gatewaySharePct policy),
      charge ''split_reserve'' (gross * reserveSharePct policy)]"
    by (simp add: splitItems_def computeRevenueSplit_def)
  have split_lines: "amountOf [''split_guardian'', ''split_platform'', ''split_gateway'', ''split_reserve'']
      (ar_lineItems r) = gross * (guardianSharePct policy + platformSharePct policy + gatewaySharePct policy +
        reserveSharePct policy)"
    by (simp add: r split charge_def info_def distrib_left)
  have subtotal: "ar_subtotal r = rate * ai_surchargeMultiplier input * bd_billableHours (ar_duration r) *
      rat_of_int (j_requestedGuardianCount (ai_job input))"
    by (simp add: r gross_def)
  show ?thesis
    unfolding split_lines
    by (intro conjI subtotal) (auto simp: r split charge_def info_def dest: informationItems_no_amount)
qed

text \<open>
  C20: The hours billed and paid never exceed the booked window or, if longer, the guaranteed
  minimum; the minimum is honoured under the guaranteed models; a booked block is billed in
  full, and actual time never counts more hours than were worked.
\<close>

theorem hours_within_bounds:
  assumes "0 \<le> minimum"
  shows "let b = bd_billableHours (computeBillableDuration m minimum ss se ar co);
             p = pd_payableHours (computePayableDuration pm minimum ss se ar co er ap);
             window = hoursBetween ss se; worked = hoursBetween ar co
    in 0 \<le> b \<and> b \<le> max minimum window \<and> 0 \<le> p \<and> p \<le> max minimum window \<and>
       (m = BOOKED_BLOCK \<longrightarrow> b = window) \<and> (m = BM_ACTUAL_TIME \<longrightarrow> b \<le> worked) \<and>
       (m = BM_MINIMUM_GUARANTEED \<longrightarrow> minimum \<le> b) \<and>
       (pm = PM_ACTUAL_TIME \<longrightarrow> p \<le> worked) \<and>
       (pm = PM_MINIMUM_GUARANTEED \<and> (er \<longrightarrow> ap) \<longrightarrow> minimum \<le> p)"
  unfolding Let_def billable_hours payable_hours effectivePayModelForEarning_def
  using assms hoursBetween_nonneg [of ss se] hoursBetween_nonneg [of ar co]
  by (cases m; cases pm) (auto simp: min_max_bounds max_def min_def)

lemma invoice_adds_up_witness:
  "\<exists>r. computeInvoiceAmounts \<lparr>ai_job = bookedJob 2, ai_arrivedAt = Some 28800000,
      ai_completedAt = Some 36000000, ai_earlyReleaseResolution = None,
      ai_policy = hd (billingPolicies town), ai_pricingModel = HOURLY, ai_hourlyRate = Some 3000,
      ai_flatFee = None, ai_replacementHandoff = False, ai_bookingPolicy = Some (booking town),
      ai_surchargeMultiplier = 1, ai_surchargeReasons = []\<rparr> = Inr r \<and>
    ar_subtotal r = 48000 \<and>
    amountOf [''split_guardian'', ''split_platform'', ''split_gateway'', ''split_reserve''] (ar_lineItems r) = 48000"
proof -
  let ?input = "\<lparr>ai_job = bookedJob 2, ai_arrivedAt = Some 28800000,
      ai_completedAt = Some 36000000, ai_earlyReleaseResolution = None,
      ai_policy = hd (billingPolicies town), ai_pricingModel = HOURLY, ai_hourlyRate = Some 3000,
      ai_flatFee = None, ai_replacementHandoff = False, ai_bookingPolicy = Some (booking town),
      ai_surchargeMultiplier = 1, ai_surchargeReasons = []\<rparr>"
  have "(case computeInvoiceAmounts ?input of Inl _ \<Rightarrow> False | Inr r \<Rightarrow> ar_subtotal r = 48000)"
    by code_simp
  then obtain r where r: "computeInvoiceAmounts ?input = Inr r" "ar_subtotal r = 48000"
    by (auto split: sum.splits)
  have "guardianSharePct (booking town) + platformSharePct (booking town) + gatewaySharePct (booking town) +
      reserveSharePct (booking town) = 1"
    by code_simp
  then show ?thesis
    using invoice_adds_up [OF r(1), of 3000 "booking town"] r by simp
qed

lemma hours_within_bounds_witness:
  "pd_payableHours (computePayableDuration PM_MINIMUM_GUARANTEED 4 28800000 57600000 28800000
      36000000 False False) \<ge> 4 \<and>
   bd_billableHours (computeBillableDuration BOOKED_BLOCK 4 28800000 57600000 28800000 36000000) = 8"
  using hours_within_bounds [of 4 BOOKED_BLOCK 28800000 57600000 28800000 36000000
      PM_MINIMUM_GUARANTEED False False]
  by (simp add: Let_def) (simp add: hoursBetween_def)

section \<open>Who decides\<close>

text \<open>
  An override wins: a billing (pay) policy in force that applies to the job and has a higher
  priority than every other such policy is the one resolved, wherever it stands in the table;
  when nothing applies the lookup answers 404.
\<close>

theorem policy_overrides_win:
  "(\<forall>p \<in> set (billingPolicies s). inForceAt t (bp_validFrom p) (bp_validUntil p) \<longrightarrow>
      billingPolicyApplies (org, jt, t) p \<longrightarrow>
      (\<forall>q \<in> set (billingPolicies s). inForceAt t (bp_validFrom q) (bp_validUntil q) \<longrightarrow>
        billingPolicyApplies (org, jt, t) q \<longrightarrow> q \<noteq> p \<longrightarrow> bp_priority q < bp_priority p) \<longrightarrow>
      resolveBillingPolicy org jt t s = (Inr p, s)) \<and>
   (\<forall>p \<in> set (payPolicies s). inForceAt t (pp_validFrom p) (pp_validUntil p) \<longrightarrow>
      payPolicyApplies (jt, et, t) p \<longrightarrow>
      (\<forall>q \<in> set (payPolicies s). inForceAt t (pp_validFrom q) (pp_validUntil q) \<longrightarrow>
        payPolicyApplies (jt, et, t) q \<longrightarrow> q \<noteq> p \<longrightarrow> pp_priority q < pp_priority p) \<longrightarrow>
      fst (resolvePayPolicy jt et t s) = Inr \<lparr>rp_model = pp_model p,
        rp_minimumHours = pp_minimumHours p, rp_applyOnEarlyRelease = pp_applyOnEarlyRelease p\<rparr>) \<and>
   ((\<forall>p \<in> set (billingPolicies s). \<not> (inForceAt t (bp_validFrom p) (bp_validUntil p) \<and>
      billingPolicyApplies (org, jt, t) p)) \<longrightarrow>
    resolveBillingPolicy org jt t s = (Inl (NotFound ''No billing policy matched''), s))"
proof (intro conjI ballI impI)
  fix p
  assume "p \<in> set (billingPolicies s)" "inForceAt t (bp_validFrom p) (bp_validUntil p)"
    "billingPolicyApplies (org, jt, t) p"
    "\<forall>q \<in> set (billingPolicies s). inForceAt t (bp_validFrom q) (bp_validUntil q) \<longrightarrow>
        billingPolicyApplies (org, jt, t) q \<longrightarrow> q \<noteq> p \<longrightarrow> bp_priority q < bp_priority p"
  then show "resolveBillingPolicy org jt t s = (Inr p, s)"
    using billing_policy.override_wins [of p "billingPolicies s" "(org, jt, t)"]
    by (simp add: resolveBillingPolicy_def)
next
  fix p
  assume "p \<in> set (payPolicies s)" "inForceAt t (pp_validFrom p) (pp_validUntil p)"
    "payPolicyApplies (jt, et, t) p"
    "\<forall>q \<in> set (payPolicies s). inForceAt t (pp_validFrom q) (pp_validUntil q) \<longrightarrow>
        payPolicyApplies (jt, et, t) q \<longrightarrow> q \<noteq> p \<longrightarrow> pp_priority q < pp_priority p"
  then show "fst (resolvePayPolicy jt et t s) = Inr \<lparr>rp_model = pp_model p,
        rp_minimumHours = pp_minimumHours p, rp_applyOnEarlyRelease = pp_applyOnEarlyRelease p\<rparr>"
    using pay_policy.override_wins [of p "payPolicies s" "(jt, et, t)"]
    by (simp add: resolvePayPolicy_def)
next
  assume none: "\<forall>p \<in> set (billingPolicies s). \<not> (inForceAt t (bp_validFrom p) (bp_validUntil p) \<and>
      billingPolicyApplies (org, jt, t) p)"
  have "firstByPriority bp_priority (\<lambda>p. inForceAt t (bp_validFrom p) (bp_validUntil p))
      (billingPolicyApplies (org, jt, t)) (billingPolicies s) = None"
    using billing_policy.resolved [of "(org, jt, t)" "billingPolicies s"] none
    by (cases "firstByPriority bp_priority (\<lambda>p. inForceAt t (bp_validFrom p) (bp_validUntil p))
      (billingPolicyApplies (org, jt, t)) (billingPolicies s)") auto
  then show "resolveBillingPolicy org jt t s = (Inl (NotFound ''No billing policy matched''), s)"
    by (simp add: resolveBillingPolicy_def)
qed

text \<open>A client of the town with a policy of its own.\<close>

definition overridden :: sys where
  "overridden = town\<lparr>billingPolicies := hd (billingPolicies town) #
     [(hd (billingPolicies town))\<lparr>bp_priority := 5, bp_organizationId := Some 9, bp_model := BM_ACTUAL_TIME\<rparr>]\<rparr>"

lemma policy_overrides_win_witness:
  "fst (resolveBillingPolicy 9 STANDARD_GUARDIAN 28800000 overridden) =
     Inr (last (billingPolicies overridden))"
proof -
  have "\<forall>p \<in> set (billingPolicies overridden). p = last (billingPolicies overridden) \<longrightarrow>
      inForceAt 28800000 (bp_validFrom p) (bp_validUntil p) \<and>
      billingPolicyApplies (9, STANDARD_GUARDIAN, 28800000) p \<and>
      (\<forall>q \<in> set (billingPolicies overridden). q \<noteq> p \<longrightarrow> bp_priority q < bp_priority p)"
    by code_simp
  moreover have "last (billingPolicies overridden) \<in> set (billingPolicies overridden)"
    by (simp add: overridden_def)
  ultimately show ?thesis
    using policy_overrides_win [of overridden 28800000 9 STANDARD_GUARDIAN FULL_TIME] by auto
qed

section \<open>Night shifts\<close>

lemma hour_of_sample:
  assumes "t mod 3600000 = (0::int)" and "t \<le> u" and "u < t + 3600000"
  shows "getUTCHours u = getUTCHours t"
proof -
  have "u div 3600000 = t div 3600000"
    using assms by (auto intro: div_eq_dividend_iff [THEN iffD2])
  then show ?thesis by (simp add: getUTCHours_def)
qed

text \<open>
  C22: For a shift that starts on the hour the loop decides exactly whether some instant of the
  shift lies between 22:00 and 06:00 UTC.
\<close>

theorem night_shift_on_the_hour:
  assumes "start mod 3600000 = 0"
  shows "isNightShift start end \<longleftrightarrow> (\<exists>t. start \<le> t \<and> t < end \<and> nightHour (getUTCHours t))"
proof
  assume "isNightShift start end"
  then obtain k :: nat where "start + int k * 3600000 < end" "nightHour (getUTCHours (start + int k * 3600000))"
    unfolding isNightShift_samples by blast
  then show "\<exists>t. start \<le> t \<and> t < end \<and> nightHour (getUTCHours t)"
    by (intro exI [of _ "start + int k * 3600000"]) simp
next
  assume "\<exists>t. start \<le> t \<and> t < end \<and> nightHour (getUTCHours t)"
  then obtain t where t: "start \<le> t" "t < end" "nightHour (getUTCHours t)"
    by blast
  define k where "k = nat ((t - start) div 3600000)"
  have k: "int k = (t - start) div 3600000"
    using t(1) by (simp add: k_def pos_imp_zdiv_nonneg_iff)
  have near: "start + int k * 3600000 \<le> t" "t < start + int k * 3600000 + 3600000"
    unfolding k
    using div_mult_mod_eq [of "t - start" 3600000] pos_mod_bound [of 3600000 "t - start"]
      pos_mod_sign [of 3600000 "t - start"] by linarith+
  moreover have "(start + int k * 3600000) mod 3600000 = 0"
    using assms by simp
  ultimately have "getUTCHours t = getUTCHours (start + int k * 3600000)"
    by (intro hour_of_sample) simp_all
  then show "isNightShift start end"
    unfolding isNightShift_samples using near(1) t(2,3) by (intro exI [of _ k]) simp
qed

lemma night_shift_on_the_hour_witness: "isNightShift 75600000 82800000"
proof -
  have "nightHour (getUTCHours 79200000)"
    by code_simp
  then show ?thesis
    using night_shift_on_the_hour [of 75600000 82800000] by auto
qed

text \<open>Off the hour the samples can miss the night: from 21:30 to 22:30 only 21:30 is looked at.\<close>

lemma night_shift_missed:
  "\<not> isNightShift 77400000 81000000 \<and> nightHour (getUTCHours 79200000)"
  by code_simp

text \<open>
  The same loop with a bound on its rounds; \<open>None\<close> is a loop that is still running after them.
\<close>

primrec nightLoop :: "nat \<Rightarrow> instant \<Rightarrow> instant \<Rightarrow> bool option" where
  "nightLoop 0 cursor end = None"
| "nightLoop (Suc rounds) cursor end =
     (if cursor < end
      then if nightHour (getUTCHours cursor) then Some True else nightLoop rounds (cursor + 3600000) end
      else Some False)"

lemma nightLoop_result: "nightLoop n cursor end = Some b \<Longrightarrow> isNightShift cursor end = b"
proof (induction n arbitrary: cursor)
  case (Suc n)
  then show ?case
    by (subst isNightShift.simps) (auto split: if_splits)
qed simp

lemma next_hour: "getUTCHours (t + 3600000) = (getUTCHours t + 1) mod 24"
proof -
  have "(t + 3600000) div 3600000 = t div 3600000 + 1"
    by simp
  then show ?thesis
    by (simp add: getUTCHours_def mod_add_left_eq)
qed

text \<open>By day an hour is between 6 and 21, and each round brings the night an hour nearer.\<close>

lemma nightLoop_by_day:
  "6 \<le> getUTCHours cursor \<Longrightarrow> 22 - getUTCHours cursor \<le> int n \<Longrightarrow> nightLoop (Suc n) cursor end \<noteq> None"
proof (induction n arbitrary: cursor)
  case (Suc n)
  show ?case
  proof (cases "22 \<le> getUTCHours cursor")
    case False
    then have "getUTCHours (cursor + 3600000) = getUTCHours cursor + 1"
      using Suc.prems(1) by (simp add: next_hour)
    then have "nightLoop (Suc n) (cursor + 3600000) end \<noteq> None"
      using Suc by (intro Suc.IH) simp_all
    then show ?thesis
      by (subst nightLoop.simps(2)) (auto simp del: nightLoop.simps)
  qed (auto simp: nightHour_def)
qed (auto simp: nightHour_def)

text \<open>
  C13: The loop over the hours of a shift ends, and soon: however long the shift, it has its answer
  within seventeen rounds, since no seventeen hours in a row are all by day.
\<close>

theorem night_loop_ends: "nightLoop 17 start end = Some (isNightShift start end)"
proof -
  have "nightLoop 17 start end \<noteq> None"
  proof (cases "getUTCHours start < 6")
    case True
    then show ?thesis
      by (auto simp: eval_nat_numeral nightHour_def)
  next
    case False
    then show ?thesis
      using nightLoop_by_day [of start 16] by simp
  qed
  then show ?thesis
    using nightLoop_result [of 17 start "end"] by auto
qed

section \<open>Payments and payouts\<close>

text \<open>Creating a row under a key that is free, with its audit entry.\<close>

lemma insertPayment_free:
  assumes "paymentByKey (p_idempotencyKey row) s = None"
  obtains q s' where "andThen (insertPayment row) (\<lambda>p. andThen (auditLog who act (p_id p)) (\<lambda>_. ok p)) s =
      (Inr q, s')" "paymentByKey (p_idempotencyKey row) s' = Some q" "q = row\<lparr>p_id := nextId s\<rparr>"
proof -
  let ?q = "row\<lparr>p_id := nextId s\<rparr>"
  let ?s1 = "s\<lparr>nextId := Suc (nextId s), payments := createRow ?q (payments s)\<rparr>"
  have 1: "insertPayment row s = (Inr ?q, ?s1)"
    using assms by (simp add: insertPayment_def Let_def)
  define s2 where "s2 = snd (auditLog who act (p_id ?q) ?s1)"
  have s2: "payments s2 = payments ?s1" and audit: "auditLog who act (p_id ?q) ?s1 = (Inr (), s2)"
    by (simp_all add: s2_def auditLog_def)
  have "andThen (insertPayment row) (\<lambda>p. andThen (auditLog who act (p_id p)) (\<lambda>_. ok p)) s = (Inr ?q, s2)"
    by (simp only: andThen_def 1 audit ok_apply prod.case sum.case)
  moreover have "paymentByKey (p_idempotencyKey row) s2 = Some ?q"
    using assms unfolding paymentByKey_def s2 by (simp add: createRow_def findUnique_append)
  ultimately show ?thesis
    by (rule that) (rule refl)
qed

text \<open>
  C23: Payments are idempotent: once \<open>createPayment\<close> has answered with a payment, every further
  call with the same key, whatever else it asks for, answers with that very payment and writes
  nothing.
\<close>

theorem create_payment_idempotent:
  assumes "createPayment input s = (Inr p, s')" and "ci_idempotencyKey again = ci_idempotencyKey input"
  shows "createPayment again s' = (Inr p, s')"
proof -
  have "paymentByKey (ci_idempotencyKey input) s' = Some p"
  proof (cases "paymentByKey (ci_idempotencyKey input) s")
    case (Some q)
    then show ?thesis
      using assms(1) by (simp add: createPayment_def)
  next
    case None
    have book: "assertCanBookJobs org u = (Inr (), v) \<Longrightarrow> v = u" for org u v
      using assertCanBookJobs_state [of org u] by simp
    obtain row h where run: "tryCatch (andThen (insertPayment row) (\<lambda>p.
          andThen (auditLog None ''PAYMENT_CREATED'' (p_id p)) (\<lambda>_. ok p))) h s = (Inr p, s')"
      and key: "p_idempotencyKey row = ci_idempotencyKey input"
    proof -
      obtain i where i: "invoiceOf (ci_invoiceId input) s = Some i"
        using assms(1) None by (cases "invoiceOf (ci_invoiceId input) s") (simp_all add: createPayment_def)
      have checks: "i_status i \<noteq> I_DISPUTED" "i_status i = I_ISSUED \<or> i_status i = I_PARTIALLY_PAID"
          "assertCanBookJobs (i_organizationId i) s = (Inr (), s)"
        using assms(1) None i
        by (auto simp: createPayment_def andThen_eq_Inr ensure_def split: if_splits dest: book)
      have pass: "andThen (assertCanBookJobs (i_organizationId i)) f s = f () s" for f :: "unit \<Rightarrow> payment op"
        by (simp add: andThen_def checks(3))
      show ?thesis
        by (rule that [OF assms(1) [unfolded createPayment_def, simplified None i checks(1,2) pass
            option.case orThrow_simps andThen_simps ensure_simps reads_apply simp_thms if_True]]) simp
    qed
    obtain q s2 where "andThen (insertPayment row) (\<lambda>p. andThen (auditLog None ''PAYMENT_CREATED'' (p_id p)) (\<lambda>_. ok p)) s =
      (Inr q, s2)" "paymentByKey (p_idempotencyKey row) s2 = Some q"
      by (rule insertPayment_free [where row = row and s = s and act = "''PAYMENT_CREATED''" and who = None])
        (use None key in auto)
    then show ?thesis
      using run key by (simp add: tryCatch_Inr)
  qed
  then show ?thesis
    using assms(2) by (simp add: createPayment_def)
qed

text \<open>The invoice with a payment that the witnesses start from.\<close>

lemma payment_rows:
  "(case fst (createPayment \<lparr>ci_invoiceId = 13, ci_provider = CASH, ci_amount = 28320,
      ci_idempotencyKey = ''pay-1'', ci_externalTxnId = None\<rparr> (after 7)) of
      Inl _ \<Rightarrow> None | Inr p \<Rightarrow> Some (p_id p, p_invoiceId p)) = Some (15, 13)"
  by code_simp

lemma create_payment_idempotent_witness:
  "\<exists>p s'. createPayment \<lparr>ci_invoiceId = 13, ci_provider = CASH, ci_amount = 28320,
      ci_idempotencyKey = ''pay-1'', ci_externalTxnId = None\<rparr> (after 7) = (Inr p, s') \<and>
    createPayment \<lparr>ci_invoiceId = 13, ci_provider = MOMO_MTN, ci_amount = 1,
      ci_idempotencyKey = ''pay-1'', ci_externalTxnId = None\<rparr> s' = (Inr p, s')"
proof -
  let ?first = "\<lparr>ci_invoiceId = 13, ci_provider = CASH, ci_amount = 28320,
      ci_idempotencyKey = ''pay-1'', ci_externalTxnId = None\<rparr>"
  obtain p s' where "createPayment ?first (after 7) = (Inr p, s')"
    using payment_rows by (cases "createPayment ?first (after 7)"; cases "fst (createPayment ?first (after 7))") auto
  then show ?thesis
    using create_payment_idempotent by fastforce
qed

text \<open>Accruing only adds earnings.\<close>

definition accruedFor :: "id \<Rightarrow> sys \<Rightarrow> sys \<Rightarrow> bool" where
  "accruedFor aid s s' \<longleftrightarrow> set (earnings s) \<subseteq> set (earnings s') \<and> invoices s' = invoices s \<and>
     (\<exists>e \<in> set (earnings s'). e_assignmentId e = aid)"

lemma accruedFor_new:
  "e_assignmentId row = aid \<Longrightarrow> accruedFor aid s (snd (andThen (createEarning row) (\<lambda>eid.
     andThen (auditLog who act eid) (\<lambda>_. ok [eid])) s))"
  by (auto simp: accruedFor_def andThen_def createEarning_def createRow_def auditLog_def)

lemma accrueOne_adds:
  assumes "accrueOne i job a s = (Inr ids, s')"
  shows "accruedFor (a_id a) s s'"
proof (cases "findUnique e_assignmentId (a_id a) (earnings s)")
  case (Some e)
  then have "s' = s" "e \<in> set (earnings s)" "e_assignmentId e = a_id a"
    using assms by (auto simp: accrueOne_def dest: findUnique_SomeD)
  then show ?thesis
    unfolding accruedFor_def by blast
next
  case None
  obtain g where g: "guardianOf (a_guardianId a) s = Some g"
    using assms None by (cases "guardianOf (a_guardianId a) s") (simp_all add: accrueOne_def)
  obtain pol where pol: "earningPolicy a g job s = (Inr pol, s)"
    using assms None g earningPolicy_state [of a g job s]
    by (cases "earningPolicy a g job s"; cases "fst (earningPolicy a g job s)")
      (auto simp: accrueOne_def andThen_def)
  have policy: "andThen (earningPolicy a g job) f s = f pol s" for f :: "resolved_pay_policy \<Rightarrow> id list op"
    by (simp add: andThen_def pol)
  have "accruedFor (a_id a) s (snd (accrueOne i job a s))"
    unfolding accrueOne_def Let_def
    by (simp add: None g policy del: split_paired_All split: if_split)
      (intro conjI impI accruedFor_new; simp)
  then show ?thesis
    by (simp add: assms)
qed

lemma accrueAll_adds:
  assumes "forCollect as (accrueOne i job) s = (Inr ids, s')"
  shows "set (earnings s) \<subseteq> set (earnings s') \<and> invoices s' = invoices s \<and>
    (\<forall>a \<in> set as. \<exists>e \<in> set (earnings s'). e_assignmentId e = a_id a)"
  using assms
proof (induction as arbitrary: s ids)
  case (Cons a as)
  obtain x s1 rest where "accrueOne i job a s = (Inr x, s1)"
    and 2: "forCollect as (accrueOne i job) s1 = (Inr rest, s')"
    using Cons.prems by (auto simp: andThen_eq_Inr)
  then have "accruedFor (a_id a) s s1"
    by (intro accrueOne_adds)
  with Cons.IH [OF 2] show ?case
    unfolding accruedFor_def by auto
qed simp

text \<open>Steps outside the books.\<close>

definition keepsBooks :: "sys \<Rightarrow> sys \<Rightarrow> bool" where
  "keepsBooks s s' \<longleftrightarrow> jobs s' = jobs s \<and> assignments s' = assignments s \<and> invoices s' = invoices s \<and>
     earnings s' = earnings s \<and> payouts s' = payouts s \<and> clock s' = clock s"

named_theorems book_rules \<open>steps outside the books\<close>

interpretation keepsBooks: state_preorder keepsBooks
  by unfold_locales (simp_all add: keepsBooks_def)

lemma keepsBooks_simple [book_rules]:
  "keepsBooks s (snd (now s))" "keepsBooks s (snd (auditLog who act e s))" "keepsBooks s (snd (send m s))"
  by (simp_all add: keepsBooks_def auditLog_def send_def)

lemma updateInvoice_effect:
  assumes "updateInvoice iid f s = (Inr u, s')" and "\<And>i. i_id (f i) = i_id i"
  obtains i where "invoiceOf iid s = Some i" "invoiceOf iid s' = Some (f i)"
    "jobs s' = jobs s" "assignments s' = assignments s" "earnings s' = earnings s" "clock s' = clock s"
proof (cases "invoiceOf iid s")
  case None
  then show ?thesis
    using assms(1) by (simp add: updateInvoice_def)
next
  case (Some i)
  let ?s' = "s\<lparr>invoices := updateMany (\<lambda>i. i_id i = iid) f (invoices s)\<rparr>"
  have "invoiceOf iid ?s' = Some (f i)"
    using invoice_table.lookup_modify_same [of f, OF assms(2)] Some by (simp add: invoiceOf_def)
  moreover have "s' = ?s'"
    using assms(1) Some by (simp add: updateInvoice_def)
  ultimately show ?thesis
    by (intro that [OF Some]) simp_all
qed

lemma confirmPayment_parts:
  assumes "confirmPayment pid ext s = (Inr p, s')"
  obtains payment s0 s1 s2 ids where "paymentOf pid s = Some payment"
    "updatePayment (p_id payment) (\<lambda>p. p\<lparr>p_status := P_COMPLETED, p_paidAt := Some (clock s),
         p_externalTxnId := (case ext of None \<Rightarrow> p_externalTxnId payment | Some x \<Rightarrow> Some x)\<rparr>) s = (Inr p, s0)"
    "updateInvoice (p_invoiceId payment) (\<lambda>i. i\<lparr>i_status := I_PAID\<rparr>) s0 = (Inr (), s1)"
    "keepsBooks s1 s2" "accrueForPaidInvoice (p_invoiceId payment) s2 = (Inr ids, s')"
proof -
  let ?mid = "\<lambda>payment. andThen (auditLog None ''PAYMENT_CONFIRMED'' pid) (\<lambda>_.
     andThen (reads (invoiceOf (p_invoiceId payment))) (\<lambda>foundInvoice.
     case foundInvoice of None \<Rightarrow> ok ()
       | Some i \<Rightarrow> andThen (send (EmailOrgOwners (i_organizationId i) ''billing.paymentConfirmed'')) (\<lambda>_.
                   send (NotifyOrgOwners (i_organizationId i) ''Payment confirmed''))))"
  obtain payment where found: "paymentOf pid s = Some payment"
    using assms by (cases "paymentOf pid s") (simp_all add: confirmPayment_def)
  obtain s0 s1 s2 ids where *:
    "updatePayment (p_id payment) (\<lambda>p. p\<lparr>p_status := P_COMPLETED, p_paidAt := Some (clock s),
         p_externalTxnId := (case ext of None \<Rightarrow> p_externalTxnId payment | Some x \<Rightarrow> Some x)\<rparr>) s = (Inr p, s0)"
    "updateInvoice (p_invoiceId payment) (\<lambda>i. i\<lparr>i_status := I_PAID\<rparr>) s0 = (Inr (), s1)"
    "?mid payment s1 = (Inr (), s2)" "accrueForPaidInvoice (p_invoiceId payment) s2 = (Inr ids, s')"
    using assms unfolding confirmPayment_def
    by (auto simp: found andThen_eq_Inr transaction_eq_Inr)
  have "keepsBooks s1 (snd (?mid payment s1))"
    by (intro keepsBooks.rules book_rules)
  then have "keepsBooks s1 s2"
    unfolding *(3) by simp
  then show ?thesis
    by (rule that [OF found *(1,2) _ *(4)])
qed

text \<open>
  C24: Confirming a payment settles the invoice: the payment is \<open>COMPLETED\<close> now, its invoice is
  \<open>PAID\<close> - whatever status it had, disputed and void included, and whatever the amount - and
  every completed assignment of the job has an earning.
\<close>

theorem confirmed_payment_settles:
  assumes "confirmPayment pid ext s = (Inr p, s')"
  shows "p_status p = P_COMPLETED \<and> p_paidAt p = Some (clock s) \<and>
    (\<exists>i. invoiceOf (p_invoiceId p) s = Some i \<and> map_option i_status (invoiceOf (p_invoiceId p) s') = Some I_PAID \<and>
      (\<forall>a \<in> set (completedAssignments (i_jobId i) s). \<exists>e \<in> set (earnings s'). e_assignmentId e = a_id a))"
proof -
  obtain payment s0 s1 s2 ids where *: "paymentOf pid s = Some payment"
    "updatePayment (p_id payment) (\<lambda>p. p\<lparr>p_status := P_COMPLETED, p_paidAt := Some (clock s),
         p_externalTxnId := (case ext of None \<Rightarrow> p_externalTxnId payment | Some x \<Rightarrow> Some x)\<rparr>) s = (Inr p, s0)"
    "updateInvoice (p_invoiceId payment) (\<lambda>i. i\<lparr>i_status := I_PAID\<rparr>) s0 = (Inr (), s1)"
    "keepsBooks s1 s2" "accrueForPaidInvoice (p_invoiceId payment) s2 = (Inr ids, s')"
    using assms by (rule confirmPayment_parts)
  have "p_id payment = pid"
    using *(1) by (auto simp: paymentOf_def dest: findUnique_SomeD)
  then have p: "p_status p = P_COMPLETED" "p_paidAt p = Some (clock s)" "p_invoiceId p = p_invoiceId payment"
      and s0: "invoices s0 = invoices s" "assignments s0 = assignments s"
    using *(1,2) by (auto simp: updatePayment_def)
  obtain i where i: "invoiceOf (p_invoiceId payment) s0 = Some i"
      "invoiceOf (p_invoiceId payment) s1 = Some (i\<lparr>i_status := I_PAID\<rparr>)" "assignments s1 = assignments s0"
    by (rule updateInvoice_effect [OF *(3)]) auto
  have i2: "invoiceOf (p_invoiceId payment) s2 = Some (i\<lparr>i_status := I_PAID\<rparr>)"
      "completedAssignments (i_jobId i) s2 = completedAssignments (i_jobId i) s"
    using *(4) i(2,3) s0(2) by (simp_all add: keepsBooks_def invoiceOf_def completedAssignments_def)
  obtain job ids' where all: "forCollect (completedAssignments (i_jobId i) s2)
      (accrueOne (i\<lparr>i_status := I_PAID\<rparr>) job) s2 = (Inr ids', s')"
    using *(5) i2(1) unfolding accrueForPaidInvoice_def
    by (auto simp: andThen_eq_Inr orThrow_def split: option.splits)
  have "invoiceOf (p_invoiceId p) s = Some i"
    using i(1) p(3) s0(1) by (simp add: invoiceOf_def)
  moreover have "map_option i_status (invoiceOf (p_invoiceId p) s') = Some I_PAID"
    using accrueAll_adds [OF all] i2(1) p(3) by (simp add: invoiceOf_def)
  ultimately show ?thesis
    using p(1,2) accrueAll_adds [OF all] i2(2) by auto
qed

lemma confirm_ok: "(case fst (confirmPayment 15 None (after 8)) of Inl _ \<Rightarrow> False | Inr p \<Rightarrow> p_invoiceId p = 13)"
  by code_simp

lemma confirmed_payment_settles_witness:
  "map_option i_status (invoiceOf 13 (snd (confirmPayment 15 None (after 8)))) = Some I_PAID"
proof -
  obtain p where "confirmPayment 15 None (after 8) = (Inr p, snd (confirmPayment 15 None (after 8)))"
      "p_invoiceId p = 13"
    using confirm_ok
    by (cases "confirmPayment 15 None (after 8)"; cases "fst (confirmPayment 15 None (after 8))") auto
  then show ?thesis
    using confirmed_payment_settles by fastforce
qed

section \<open>Voiding and disputes\<close>

lemma cancelEarnings_nothing:
  assumes "\<And>e. e \<in> set (earnings s) \<Longrightarrow> e_invoiceId e \<noteq> iid"
  shows "cancelEarningsForInvoice iid s = (Inr 0, s)"
proof -
  have "findMany (\<lambda>e. e_invoiceId e = iid \<and> e_status e = E_PENDING_PAYOUT) (earnings s) = []"
      "countWhere (\<lambda>e. e_invoiceId e = iid \<and> e_status e = E_PAID) (earnings s) = 0"
    using assms by (auto simp: findMany_def filter_empty_conv countWhere_0_iff)
  then show ?thesis
    by (simp add: cancelEarningsForInvoice_def andThen_def)
qed

lemma send_audit_apply:
  "send m s = (Inr (), s\<lparr>messages := messages s @ [m]\<rparr>)"
  "auditLog who act e s = (Inr (), s\<lparr>audits := createRow
     \<lparr>au_actorUserId = who, au_action = act, au_entityId = e\<rparr> (audits s)\<rparr>)"
  by (simp_all add: send_def auditLog_def)

text \<open>
  Voiding: a paid invoice is refused and nothing changes, a void one stays as it is, and any
  other becomes \<open>VOID\<close> with its reason.  No earning ever changes: earnings exist only for paid
  invoices, so the cancellation of earnings at the end of \<open>voidInvoice\<close> never finds one.
\<close>

theorem void_effect:
  assumes "reachable s" and "invoiceOf iid s = Some i"
  shows "(i_status i = I_PAID \<longrightarrow>
      voidInvoice iid who reason None s = (Inl (BadRequest ''Cannot void a paid invoice''), s)) \<and>
    (i_status i = I_VOID \<longrightarrow> voidInvoice iid who reason None s = (Inr i, s)) \<and>
    (i_status i \<notin> {I_PAID, I_VOID} \<longrightarrow> (\<exists>v s'. voidInvoice iid who reason None s = (Inr v, s') \<and>
      i_status v = I_VOID \<and> i_voidReason v = Some reason \<and> invoiceOf iid s' = Some v \<and>
      earnings s' = earnings s))"
proof (intro conjI impI)
  show "voidInvoice iid who reason None s = (Inl (BadRequest ''Cannot void a paid invoice''), s)"
    if "i_status i = I_PAID"
    using that assms(2) by (simp add: voidInvoice_def andThen_ensure)
  show "voidInvoice iid who reason None s = (Inr i, s)" if "i_status i = I_VOID"
    using that assms(2) by (simp add: voidInvoice_def)
next
  assume st: "i_status i \<notin> {I_PAID, I_VOID}"
  have ledger: "ledger_ok s"
    using reachable_is_good [OF assms(1)] by (simp add: good_def)
  have i: "i \<in> set (invoices s)" "i_id i = iid"
    using assms(2) by (auto simp: invoiceOf_def dest: findUnique_SomeD)
  have no: "e_invoiceId e \<noteq> iid" if e: "e \<in> set (earnings s)" for e
  proof
    assume "e_invoiceId e = iid"
    then obtain k where k: "k \<in> set (invoices s)" "i_id k = iid" "i_status k = I_PAID"
      using ledger e unfolding ledger_ok_def by metis
    then have "k = i"
      using distinct_key_unique [of i_id "invoices s" k i] ledger i by (simp add: ledger_ok_def)
    then show False using st k(3) by simp
  qed
  let ?f = "\<lambda>r. r\<lparr>i_status := I_VOID, i_voidReason := Some reason, i_replacementInvoiceId := None,
       i_disputeResolvedAt := (if i_status i = I_DISPUTED then Some (clock s) else i_disputeResolvedAt r),
       i_disputeResolvedBy := (if i_status i = I_DISPUTED then Some who else i_disputeResolvedBy r),
       i_disputeResolutionNote := (if i_status i = I_DISPUTED then Some reason else i_disputeResolutionNote r)\<rparr>"
  obtain s1 where s1: "updateInvoice iid ?f s = (Inr (), s1)" "invoiceOf iid s1 = Some (?f i)"
      "earnings s1 = earnings s"
  proof -
    let ?s1 = "s\<lparr>invoices := updateMany (\<lambda>r. i_id r = iid) ?f (invoices s)\<rparr>"
    have "invoiceOf iid ?s1 = Some (?f i)"
      using invoice_table.lookup_modify_same [of ?f iid "invoices s" i] assms(2) by (simp add: invoiceOf_def)
    moreover have "updateInvoice iid ?f s = (Inr (), ?s1)"
      by (simp add: updateInvoice_def assms(2))
    ultimately show ?thesis
      by (intro that [of ?s1]) simp_all
  qed
  have step: "andThen (updateInvoice iid ?f) g s = g () s1" for g :: "unit \<Rightarrow> invoice op"
    by (simp only: andThen_def s1(1) prod.case sum.case)
  have cancel: "andThen (cancelEarningsForInvoice iid) g t = g 0 t" if "earnings t = earnings s"
    for g :: "int \<Rightarrow> invoice op" and t
    using cancelEarnings_nothing [of t iid] no that by (simp add: andThen_def)
  have more: "andThen (auditLog who act e) g t = g () (snd (auditLog who act e t))"
      "andThen (send m) g t = g () (snd (send m t))" for who act e m t and g :: "unit \<Rightarrow> invoice op"
    by (simp_all add: andThen_def send_audit_apply)
  obtain s' where "voidInvoice iid who reason None s = (Inr (?f i), s')" "invoices s' = invoices s1"
      "earnings s' = earnings s1"
  proof (rule that)
    let ?t = "snd (send (NotifyOrgOwners (i_organizationId i) ''Invoice voided'')
       (snd (send (EmailOrgOwners (i_organizationId i) ''billing.invoiceVoided'')
         (snd (auditLog (Some who) ''INVOICE_VOIDED'' iid s1)))))"
    show "voidInvoice iid who reason None s = (Inr (?f i), ?t)"
      using st by (simp add: voidInvoice_def assms(2) Let_def step s1(2) more cancel send_audit_apply s1(3))
    show "invoices ?t = invoices s1" "earnings ?t = earnings s1"
      by (simp_all add: send_audit_apply)
  qed
  then show "\<exists>v s'. voidInvoice iid who reason None s = (Inr v, s') \<and>
      i_status v = I_VOID \<and> i_voidReason v = Some reason \<and> invoiceOf iid s' = Some v \<and>
      earnings s' = earnings s"
    using s1(2,3) by (intro exI [of _ "?f i"] exI [of _ s']) (simp add: invoiceOf_def)
qed

lemma void_effect_witness:
  "voidInvoice 13 7 ''wrong'' None (after 9) = (Inl (BadRequest ''Cannot void a paid invoice''), after 9)"
proof -
  obtain i where "invoiceOf 13 (after 9) = Some i" "i_status i = I_PAID"
    by (rule paid_rows)
  then show ?thesis
    using void_effect [OF after_reachable] by blast
qed

lemma updateInvoice_apply:
  assumes "invoiceOf iid s = Some i" and "\<And>r. i_id (f r) = i_id r"
  obtains s1 where "updateInvoice iid f s = (Inr (), s1)" "invoiceOf iid s1 = Some (f i)"
    "earnings s1 = earnings s" "orgUsers s1 = orgUsers s"
proof -
  let ?s1 = "s\<lparr>invoices := updateMany (\<lambda>r. i_id r = iid) f (invoices s)\<rparr>"
  have "invoiceOf iid ?s1 = Some (f i)"
    using invoice_table.lookup_modify_same [of f iid "invoices s" i] assms by (simp add: invoiceOf_def)
  moreover have "updateInvoice iid f s = (Inr (), ?s1)"
    by (simp add: updateInvoice_def assms(1))
  ultimately show ?thesis
    by (intro that [of ?s1]) simp_all
qed

text \<open>The tail of the invoice operations: an audit entry, two messages, the row read before.\<close>

lemma invoice_tail:
  "\<exists>s'. andThen (auditLog who act e) (\<lambda>_. andThen (send m) (\<lambda>_. andThen (send m') (\<lambda>_.
      orThrow (Some v) err))) s = (Inr v, s') \<and> invoices s' = invoices s \<and> earnings s' = earnings s"
  by (simp add: andThen_def send_audit_apply)

lemma disputeInvoice_effect:
  assumes "disputeInvoice iid actor reason s = (Inr d, s1)" and "invoiceOf iid s = Some i"
    and "i_status i \<noteq> I_DISPUTED"
  shows "d = i\<lparr>i_status := I_DISPUTED, i_disputeReason := Some reason, i_disputedAt := Some (clock s),
       i_disputedBy := Some (sub actor), i_statusBeforeDispute := Some (i_status i)\<rparr>"
    and "invoiceOf iid s1 = Some d" and "isDisputableStatus (i_status i)"
proof -
  let ?f = "\<lambda>r. r\<lparr>i_status := I_DISPUTED, i_disputeReason := Some reason, i_disputedAt := Some (clock s),
       i_disputedBy := Some (sub actor), i_statusBeforeDispute := Some (i_status i)\<rparr>"
  have member: "assertOrgMember (i_organizationId i) actor s = (Inr (), s)"
    using assms assertOrgMember_state [of "i_organizationId i" actor s]
    by (cases "assertOrgMember (i_organizationId i) actor s";
        cases "fst (assertOrgMember (i_organizationId i) actor s)")
      (auto simp: disputeInvoice_def andThen_def)
  have pass: "andThen (assertOrgMember (i_organizationId i) actor) g s = g () s" for g :: "unit \<Rightarrow> invoice op"
    by (simp add: andThen_def member)
  show disputable: "isDisputableStatus (i_status i)"
    using assms by (simp add: disputeInvoice_def pass andThen_ensure split: if_splits)
  obtain t where t: "updateInvoice iid ?f s = (Inr (), t)" "invoiceOf iid t = Some (?f i)"
    by (rule updateInvoice_apply [OF assms(2), of ?f]) simp
  have step: "andThen (updateInvoice iid ?f) g s = g () t" for g :: "unit \<Rightarrow> invoice op"
    by (simp only: andThen_def t(1) prod.case sum.case)
  obtain s' where s': "disputeInvoice iid actor reason s = (Inr (?f i), s')" "invoices s' = invoices t"
    using invoice_tail [of "Some (sub actor)" "''INVOICE_DISPUTED''" iid
        "EmailOrgOwners (i_organizationId i) ''billing.invoiceDisputed''"
        "NotifyOrgOwners (i_organizationId i) ''Invoice disputed''" "?f i" "PrismaError ''P2025''" t]
      assms(3) disputable
    by (auto simp: disputeInvoice_def assms(2) pass step t(2))
  then show "d = ?f i" "invoiceOf iid s1 = Some d"
    using assms(1) t(2) by (simp_all add: invoiceOf_def)
qed

text \<open>
  C26: A dispute that is cleared leaves no trace in the invoice's course: after disputing an
  invoice and clearing the dispute it has the status it had before, with the same amounts.
\<close>

theorem dispute_clear_roundtrip:
  assumes "disputeInvoice iid actor reason s = (Inr d, s1)" and "invoiceOf iid s = Some i"
    and "i_status i \<noteq> I_DISPUTED" and "rd_action body = CLEAR"
  shows "i_status d = I_DISPUTED \<and> (\<exists>r s2. resolveDispute iid uid body s1 = (Inr r, s2) \<and>
    invoiceOf iid s2 = Some r \<and> i_status r = i_status i \<and> i_subtotal r = i_subtotal i \<and>
    i_taxAmount r = i_taxAmount i \<and> i_total r = i_total i \<and> i_lineItems r = i_lineItems i)"
proof
  note d = disputeInvoice_effect [OF assms(1-3)]
  show disputed: "i_status d = I_DISPUTED"
    by (simp add: d(1))
  let ?f = "\<lambda>r. r\<lparr>i_status := i_status i, i_disputeResolvedAt := Some (clock s1),
       i_disputeResolvedBy := Some uid, i_disputeResolutionNote := rd_note body\<rparr>"
  obtain t where t: "updateInvoice iid ?f s1 = (Inr (), t)" "invoiceOf iid t = Some (?f d)"
    by (rule updateInvoice_apply [OF d(2), of ?f]) simp
  have step: "andThen (updateInvoice iid ?f) g s1 = g () t" for g :: "unit \<Rightarrow> invoice op"
    by (simp only: andThen_def t(1) prod.case sum.case)
  have before: "i_statusBeforeDispute d = Some (i_status i)"
    by (simp add: d(1))
  obtain s' where s': "resolveDispute iid uid body s1 = (Inr (?f d), s')" "invoices s' = invoices t"
    using invoice_tail [of "Some uid" "''INVOICE_DISPUTE_CLEARED''" iid
        "EmailOrgOwners (i_organizationId d) ''billing.invoiceDisputeResolved''"
        "NotifyOrgOwners (i_organizationId d) ''Invoice dispute resolved''" "?f d" "PrismaError ''P2025''" t]
    by (auto simp: resolveDispute_def d(2) disputed assms(4) before Let_def step t(2))
  show "\<exists>r s2. resolveDispute iid uid body s1 = (Inr r, s2) \<and>
    invoiceOf iid s2 = Some r \<and> i_status r = i_status i \<and> i_subtotal r = i_subtotal i \<and>
    i_taxAmount r = i_taxAmount i \<and> i_total r = i_total i \<and> i_lineItems r = i_lineItems i"
    using s' t(2) d(1) by (intro exI [of _ "?f d"] exI [of _ s']) (simp add: invoiceOf_def)
qed

lemma dispute_ok:
  "(case fst (disputeInvoice 13 owner ''hours'' (after 7)) of Inl _ \<Rightarrow> False | Inr _ \<Rightarrow> True) \<and>
   map_option i_status (invoiceOf 13 (after 7)) = Some I_ISSUED"
  by code_simp

lemma dispute_clear_roundtrip_witness:
  "\<exists>s1 r s2. s1 = snd (disputeInvoice 13 owner ''hours'' (after 7)) \<and>
     resolveDispute 13 6 \<lparr>rd_action = CLEAR, rd_note = None, rd_voidReason = None,
       rd_replacementInvoiceId = None\<rparr> s1 = (Inr r, s2) \<and> i_status r = I_ISSUED"
proof -
  obtain i where i: "invoiceOf 13 (after 7) = Some i" "i_status i = I_ISSUED"
    using dispute_ok by auto
  obtain d where "disputeInvoice 13 owner ''hours'' (after 7) =
      (Inr d, snd (disputeInvoice 13 owner ''hours'' (after 7)))"
    using dispute_ok
    by (cases "disputeInvoice 13 owner ''hours'' (after 7)";
        cases "fst (disputeInvoice 13 owner ''hours'' (after 7))") auto
  from dispute_clear_roundtrip [OF this i(1), of "\<lparr>rd_action = CLEAR, rd_note = None, rd_voidReason = None,
       rd_replacementInvoiceId = None\<rparr>" 6] i(2) show ?thesis
    by auto
qed

section \<open>Payouts\<close>

lemma all_found:
  assumes "distinct (List.map key rows)" and "length (findMany (\<lambda>r. key r \<in> set ks \<and> p r) rows) = length ks"
    and "k \<in> set ks"
  shows "\<exists>r. findUnique key k rows = Some r \<and> p r"
proof -
  let ?es = "findMany (\<lambda>r. key r \<in> set ks \<and> p r) rows"
  have dist: "distinct (List.map key ?es)"
    using assms(1) by (auto simp: findMany_def distinct_map inj_on_def)
  have sub: "set (List.map key ?es) \<subseteq> set ks"
    by (auto simp: findMany_def)
  have "card (set ks) \<le> card (set (List.map key ?es))"
    using assms(2) card_length [of ks] distinct_card [OF dist] by simp
  then have "set (List.map key ?es) = set ks"
    using card_subset_eq [OF _ sub] card_mono [OF _ sub] by simp
  then have "k \<in> set (List.map key ?es)"
    using assms(3) by simp
  then obtain r where "r \<in> set rows" "key r = k" "p r"
    by (auto simp: findMany_def)
  then show ?thesis
    using findUnique_distinct [OF assms(1)] by blast
qed

lemma createPayout_parts:
  assumes "createPayout gid dto who s = (Inr p, s')" and "payoutByKey (cp_idempotencyKey dto) s = None"
  obtains g where "guardianOf gid s = Some g"
    "length (findMany (\<lambda>e. e_id e \<in> set (cp_earningIds dto) \<and> e_guardianId e = gid \<and>
       e_status e = E_PENDING_PAYOUT) (earnings s)) = length (cp_earningIds dto)"
    "0 < po_amount p" "po_amount p = sumAmounts (findMany (\<lambda>e. e_id e \<in> set (cp_earningIds dto) \<and>
       e_guardianId e = gid \<and> e_status e = E_PENDING_PAYOUT) (earnings s))"
    "po_id p = nextId s" "po_status p = PO_PENDING" "po_guardianId p = gid" "payouts s' = payouts s @ [p]"
    "earnings s' = updateMany (\<lambda>e. e_id e \<in> set (cp_earningIds dto))
       (\<lambda>e. e\<lparr>e_payoutId := Some (po_id p)\<rparr>) (earnings s)"
proof -
  let ?es = "findMany (\<lambda>e. e_id e \<in> set (cp_earningIds dto) \<and> e_guardianId e = gid \<and>
       e_status e = E_PENDING_PAYOUT) (earnings s)"
  obtain g where g: "guardianOf gid s = Some g"
    using assms by (cases "guardianOf gid s") (simp_all add: createPayout_def andThen_ensure split: if_splits)
  have ok: "length ?es = length (cp_earningIds dto)" "\<not> sumAmounts ?es \<le> 0"
    using assms g by (auto simp: createPayout_def andThen_ensure split: if_splits)
  let ?row = "\<lparr>po_id = 0, po_guardianId = gid, po_amount = sumAmounts ?es,
              po_currency = g_payCurrency g, po_provider = cp_provider dto, po_status = PO_PENDING,
              po_externalTxnId = cp_externalTxnId dto, po_idempotencyKey = cp_idempotencyKey dto,
              po_paidAt = None, po_createdByUserId = who\<rparr>"
  let ?q = "?row\<lparr>po_id := nextId s\<rparr>"
  let ?s1 = "s\<lparr>nextId := Suc (nextId s), payouts := createRow ?q (payouts s)\<rparr>"
  let ?s2 = "?s1\<lparr>earnings := updateMany (\<lambda>e. e_id e \<in> set (cp_earningIds dto))
       (\<lambda>e. e\<lparr>e_payoutId := Some (nextId s)\<rparr>) (earnings s)\<rparr>"
  have 1: "insertPayout ?row s = (Inr ?q, ?s1)"
    using assms(2) by (simp add: insertPayout_def Let_def)
  have 2: "updateEarnings (\<lambda>e. e_id e \<in> set (cp_earningIds dto))
       (\<lambda>e. e\<lparr>e_payoutId := Some (po_id ?q)\<rparr>) ?s1 = (Inr (), ?s2)"
    by (simp add: updateEarnings_def)
  have "createPayout gid dto who s = (Inr ?q, snd (auditLog (Some who) ''GUARDIAN_PAYOUT_CREATED'' (nextId s) ?s2))"
    using assms(2) g ok 1 2
    by (simp add: createPayout_def tryCatch_def transaction_def andThen_def auditLog_def)
  then have "p = ?q" "s' = snd (auditLog (Some who) ''GUARDIAN_PAYOUT_CREATED'' (nextId s) ?s2)"
    using assms(1) by simp_all
  then show ?thesis
    using g ok by (intro that [OF g ok(1)]) (simp_all add: auditLog_def createRow_def)
qed

text \<open>
  C27: A new payout takes exactly the earnings it names: each of them exists, is the guardian's
  and is pending; the payout, a new row, amounts to their sum, which is positive; and afterwards
  the table of earnings is the one before with the payout noted on these rows and on no others.
\<close>

theorem payout_takes_its_earnings:
  assumes "reachable s" and "createPayout gid dto who s = (Inr p, s')"
    and "payoutByKey (cp_idempotencyKey dto) s = None"
  shows "earnings s' = List.map (\<lambda>e. if e_id e \<in> set (cp_earningIds dto)
      then e\<lparr>e_payoutId := Some (po_id p)\<rparr> else e) (earnings s) \<and>
    payouts s' = payouts s @ [p] \<and> po_id p = nextId s \<and>
    0 < po_amount p \<and> po_status p = PO_PENDING \<and> po_guardianId p = gid \<and>
    po_amount p = sum_list (List.map e_amount
      (filter (\<lambda>e. e_id e \<in> set (cp_earningIds dto)) (earnings s))) \<and>
    (\<forall>k \<in> set (cp_earningIds dto). \<exists>e. findUnique e_id k (earnings s) = Some e \<and>
      e_guardianId e = gid \<and> e_status e = E_PENDING_PAYOUT)"
proof -
  let ?ids = "set (cp_earningIds dto)"
  let ?p = "\<lambda>e. e_guardianId e = gid \<and> e_status e = E_PENDING_PAYOUT"
  have len: "length (findMany (\<lambda>e. e_id e \<in> ?ids \<and> ?p e) (earnings s)) = length (cp_earningIds dto)"
    and amount: "po_amount p = sumAmounts (findMany (\<lambda>e. e_id e \<in> ?ids \<and> ?p e) (earnings s))"
    and rest: "0 < po_amount p" "po_status p = PO_PENDING" "po_guardianId p = gid" "po_id p = nextId s"
      "payouts s' = payouts s @ [p]"
    and rows: "earnings s' = updateMany (\<lambda>e. e_id e \<in> ?ids) (\<lambda>e. e\<lparr>e_payoutId := Some (po_id p)\<rparr>) (earnings s)"
    using createPayout_parts [OF assms(2,3)] by blast+
  have dist: "distinct (List.map e_id (earnings s))"
    using reachable_is_good [OF assms(1)] by (simp add: good_def ledger_ok_def)
  have found: "\<exists>e. findUnique e_id k (earnings s) = Some e \<and> ?p e" if "k \<in> ?ids" for k
    using all_found [OF dist len that] .
  have "?p e" if e: "e \<in> set (earnings s)" "e_id e \<in> ?ids" for e
    using found [OF e(2)] findUnique_distinct [OF dist e(1)] by auto
  then have "findMany (\<lambda>e. e_id e \<in> ?ids \<and> ?p e) (earnings s) = filter (\<lambda>e. e_id e \<in> ?ids) (earnings s)"
    by (auto simp: findMany_def intro!: filter_cong)
  then show ?thesis
    using rest found by (auto simp: amount sumAmounts_def rows updateMany_def)
qed

lemma payout_state:
  "(payoutByKey ''po-1'' (after 9) = None,
    case fst (createPayout 2 \<lparr>cp_earningIds = [16], cp_provider = CASH, cp_externalTxnId = None,
      cp_idempotencyKey = ''po-1''\<rparr> 6 (after 9)) of Inl _ \<Rightarrow> False | Inr _ \<Rightarrow> True) = (True, True)"
  by code_simp

lemma payout_takes_its_earnings_witness:
  "\<exists>p s'. createPayout 2 \<lparr>cp_earningIds = [16], cp_provider = CASH, cp_externalTxnId = None,
      cp_idempotencyKey = ''po-1''\<rparr> 6 (after 9) = (Inr p, s') \<and> 0 < po_amount p \<and>
    po_amount p = sum_list (List.map e_amount (filter (\<lambda>e. e_id e = 16) (earnings (after 9)))) \<and>
    earnings s' = List.map (\<lambda>e. if e_id e = 16 then e\<lparr>e_payoutId := Some (po_id p)\<rparr> else e) (earnings (after 9))"
proof -
  let ?dto = "\<lparr>cp_earningIds = [16], cp_provider = CASH, cp_externalTxnId = None,
      cp_idempotencyKey = ''po-1''\<rparr>"
  obtain p s' where p: "createPayout 2 ?dto 6 (after 9) = (Inr p, s')"
    using payout_state by (cases "createPayout 2 ?dto 6 (after 9)"; cases "fst (createPayout 2 ?dto 6 (after 9))") auto
  have "payoutByKey (cp_idempotencyKey ?dto) (after 9) = None"
    using payout_state by simp
  from payout_takes_its_earnings [OF after_reachable p this] show ?thesis
    using p by simp
qed

text \<open>
  The same earning can be paid twice: nothing in \<open>createPayout\<close> asks whether an earning is
  already in a payout, so two payouts with different keys both take it and both are completed.
\<close>

theorem earning_paid_twice:
  "let dto = (\<lambda>key. \<lparr>cp_earningIds = [16], cp_provider = CASH, cp_externalTxnId = None,
         cp_idempotencyKey = key\<rparr>);
       s = run [OfBilling (CreatePayout 2 (dto ''po-1'') 6), OfBilling (CreatePayout 2 (dto ''po-2'') 6),
         OfBilling (ConfirmPayout 17 None), OfBilling (ConfirmPayout 18 None)] (after 9)
   in reachable s \<and> List.map e_amount (earnings s) = [4000] \<and>
      List.map (\<lambda>p. (po_status p, po_amount p)) (payouts s) =
        [(PO_COMPLETED, 4000), (PO_COMPLETED, 4000)]"
proof -
  let ?dto = "\<lambda>key. \<lparr>cp_earningIds = [16], cp_provider = CASH, cp_externalTxnId = None,
         cp_idempotencyKey = key\<rparr>"
  let ?es = "[OfBilling (CreatePayout 2 (?dto ''po-1'') 6), OfBilling (CreatePayout 2 (?dto ''po-2'') 6),
         OfBilling (ConfirmPayout 17 None), OfBilling (ConfirmPayout 18 None)]"
  have "List.map e_amount (earnings (run ?es (after 9))) = [4000] \<and>
      List.map (\<lambda>p. (po_status p, po_amount p)) (payouts (run ?es (after 9))) =
        [(PO_COMPLETED, 4000), (PO_COMPLETED, 4000)]"
    by code_simp
  then show ?thesis
    using run_reachable [OF after_reachable] by (simp only: Let_def simp_thms)
qed

end
