(* ===== verification/Identity.thy ===== *)
theory Identity
  imports Policies "HOL-Library.Char_ord" "HOL-Library.List_Lexorder"
begin

text \<open>
  The identity schema: users with their roles, one-time passwords, refresh tokens and the
  permission tables, around the backend's other tables.  The record \<open>site\<close> has the whole of
  \<open>sys\<close> as its field \<open>backend\<close>; a method of another service is run on it with \<open>inBackend\<close>.
  The theory also holds the small pure routines of \<open>auth/phone.util.ts\<close>, \<open>auth/login.util.ts\<close>
  and \<open>auth/password.service.ts\<close>.

  What is not the program's own stands in the record \<open>env\<close>, an argument of the methods that use
  it: \<open>bcrypt\<close>, the JSON web token library, the random numbers, the SMS gateway and the
  environment variables.  A token is a value of an arbitrary type \<open>'tok\<close>.
\<close>

section \<open>Enums and rows\<close>

datatype user_status = U_ACTIVE | U_SUSPENDED | U_PENDING_VERIFICATION | U_DELETED

datatype onboarding_step =
  PHONE_VERIFIED | PROFILE_COMPLETE | DOCUMENTS_UPLOADED | PAYMENT_COMPLETE | SUBMITTED

datatype org_type =
    BAR | HOTEL | EVENT_COMPANY | NGO | SCHOOL | RESTAURANT | INDIVIDUAL | COMPOUND | LOGISTICS
  | OTHER_ORG

datatype mobile_money_provider = MM_MOMO_MTN | MM_AIRTEL_MONEY

datatype document_type = TIN_CERTIFICATE | BUSINESS_REGISTRATION | NATIONAL_ID | OTHER_DOCUMENT

record user =
  u_id :: id
  u_phoneNumber :: string
  u_email :: "string option"
  u_fullName :: "string option"
  u_passwordHash :: "string option"
  u_passwordSetAt :: "instant option"
  u_status :: user_status
  u_isPhoneVerified :: bool
  u_isEmailVerified :: bool
  u_lastLoginAt :: "instant option"
  u_onboardingStep :: "onboarding_step option"
  u_onboardingCompletedAt :: "instant option"
  u_roles :: "role_code list"

record otp_session =
  ot_id :: id
  ot_phoneNumber :: string
  ot_otpHash :: string
  ot_expiresAt :: instant
  ot_attempts :: int
  ot_verifiedAt :: "instant option"
  ot_ipAddress :: "string option"
  ot_deviceFingerprint :: "string option"
  ot_createdAt :: instant

record refresh_token =
  rt_userId :: id
  rt_jti :: id
  rt_familyId :: id
  rt_expiresAt :: instant
  rt_revokedAt :: "instant option"

text \<open>
  The key \<open>perms:user:role:org\<close> of a cached permission list; the parts of the template string
  contain no colon, so the key stands for its parts.
\<close>

record cache_key =
  ck_userId :: id
  ck_activeRole :: role_code
  ck_activeOrgId :: "id option"

record cache_entry =
  ce_value :: "string list"
  ce_expiresAt :: instant

text \<open>
  The columns of organizations and locations that booking and billing do not read; a row of these
  tables stands beside the row of the same key in \<open>orgs\<close> and \<open>locations\<close>.
\<close>

record org_profile =
  op_id :: id
  op_legalName :: string
  op_tradingName :: "string option"
  op_tinNumber :: "string option"
  op_orgType :: org_type
  op_mobileMoneyProvider :: mobile_money_provider
  op_mobileMoneyPhone :: string
  op_verificationRejectionReason :: "string option"
  op_applicationSubmittedAt :: "instant option"

record location_profile =
  lo_id :: id
  lo_name :: string
  lo_sector :: "string option"
  lo_cell :: "string option"
  lo_village :: "string option"
  lo_address :: "string option"
  lo_latitude :: rat
  lo_longitude :: rat
  lo_siteSetupCompletedAt :: "instant option"
  lo_status :: string

record org_document =
  od_id :: id
  od_organizationId :: id
  od_documentId :: id
  od_documentType :: document_type

record stored_document =
  sd_id :: id
  sd_mimeType :: string
  sd_sizeBytes :: int
  sd_content :: "string option"
  sd_uploadedBy :: "id option"
  sd_createdAt :: instant

text \<open>An in-app notification; \<open>Inbox\<close> has the service that writes and reads them.\<close>

record notice =
  n_id :: id
  n_userId :: id
  n_title :: string
  n_body :: string
  n_payload :: "(string \<times> string) list option"
  n_readAt :: "instant option"
  n_createdAt :: instant

record site =
  backend :: sys
  users :: "user list"
  otpSessions :: "otp_session list"
  refreshTokens :: "refresh_token list"
  rolePermissions :: "(role_code \<times> string) list"
  orgMemberRolePermissions :: "(role_code \<times> string) list"
  memoryRevoked :: "id \<rightharpoonup> instant"
  memoryCache :: "cache_key \<rightharpoonup> cache_entry"
  smsSent :: "(string \<times> string) list"
  orgProfiles :: "org_profile list"
  locationProfiles :: "location_profile list"
  orgDocuments :: "org_document list"
  storedDocuments :: "stored_document list"
  notices :: "notice list"

type_synonym 'a call = "(site, 'a) handler"

text \<open>The caller with the columns of the token the other services do not read.\<close>

record auth_user = actor +
  phone :: string
  activeRole :: role_code

section \<open>Third parties and the environment\<close>

text \<open>What the four kinds of tokens say; the last two carry a \<open>purpose\<close>.\<close>

datatype claims =
    AccessClaims auth_user
  | RefreshClaims id id id
  | OnboardingClaims id "id option"
  | SetupClaims id

record 'tok env =
  bcryptHash :: "int \<Rightarrow> int \<Rightarrow> string \<Rightarrow> string"
  bcryptCompare :: "string \<Rightarrow> string \<Rightarrow> bool"
  signAsync :: "string \<Rightarrow> claims \<Rightarrow> instant \<Rightarrow> string \<Rightarrow> 'tok"
  verifyAsync :: "string \<Rightarrow> instant \<Rightarrow> 'tok \<Rightarrow> claims option"
  entropy :: "nat \<Rightarrow> int"
  smsFailure :: "string \<Rightarrow> instant \<Rightarrow> http_error option"
  smsConfigured :: bool
  mailFailure :: "string \<Rightarrow> instant \<Rightarrow> bool"
  production :: bool
  JWT_SECRET :: string
  JWT_REFRESH_SECRET :: string
  JWT_EXPIRES_IN :: string
  JWT_REFRESH_EXPIRES_IN :: string
  PERMISSION_CACHE_TTL_SECONDS :: int
  DOCUMENT_MAX_BYTES :: int

text \<open>
  What the token library documents: a signed token verifies with the secret it was signed with,
  to the claims that were signed, while it has not expired, and with no other secret.  \<open>lives\<close>
  says until when a token signed at an instant with an \<open>expiresIn\<close> is alive.
\<close>

definition jwt_laws :: "'tok env \<Rightarrow> (instant \<Rightarrow> string \<Rightarrow> instant) \<Rightarrow> bool" where
  "jwt_laws E lives \<longleftrightarrow> (\<forall>k k' c iat e t.
     verifyAsync E k' t (signAsync E k c iat e) = (if k' = k \<and> t < lives iat e then Some c else None))"

section \<open>Steps on the site\<close>

definition inBackend :: "'a op \<Rightarrow> 'a call" where
  "inBackend m = (\<lambda>s. case m (backend s) of (r, b) \<Rightarrow> (r, s\<lparr>backend := b\<rparr>))"

definition siteNow :: "instant call" where
  "siteNow = reads (\<lambda>s. clock (backend s))"

definition siteId :: "id call" where
  "siteId = inBackend freshId"

lemma andThen_siteNow [simp]: "andThen siteNow f s = f (clock (backend s)) s"
  by (simp add: siteNow_def)

lemma siteNow_apply [simp]: "siteNow s = (Inr (clock (backend s)), s)"
  by (simp add: siteNow_def)

lemma siteId_apply [simp]:
  "siteId s = (Inr (nextId (backend s)),
     s\<lparr>backend := (backend s)\<lparr>nextId := Suc (nextId (backend s))\<rparr>\<rparr>)"
  by (simp add: siteId_def inBackend_def freshId_def)

lemma andThen_siteId [simp]:
  "andThen siteId f s = f (nextId (backend s))
     (s\<lparr>backend := (backend s)\<lparr>nextId := Suc (nextId (backend s))\<rparr>\<rparr>)"
  by (simp add: andThen_def)

definition userOf :: "id \<Rightarrow> site \<Rightarrow> user option" where
  "userOf uid s = findUnique u_id uid (users s)"

definition userByPhone :: "string \<Rightarrow> site \<Rightarrow> user option" where
  "userByPhone p s = findUnique u_phoneNumber p (users s)"

definition userByEmail :: "string \<Rightarrow> site \<Rightarrow> user option" where
  "userByEmail e s = findUnique u_email (Some e) (users s)"

definition tokenOf :: "id \<Rightarrow> site \<Rightarrow> refresh_token option" where
  "tokenOf jti s = findUnique rt_jti jti (refreshTokens s)"

definition sessionOf :: "id \<Rightarrow> site \<Rightarrow> otp_session option" where
  "sessionOf oid s = findUnique ot_id oid (otpSessions s)"

definition updateUser :: "id \<Rightarrow> (user \<Rightarrow> user) \<Rightarrow> unit call" where
  "updateUser uid f = (\<lambda>s. case userOf uid s of
     None \<Rightarrow> (Inl (PrismaError ''P2025''), s)
   | Some _ \<Rightarrow> (Inr (), s\<lparr>users := updateMany (\<lambda>u. u_id u = uid) f (users s)\<rparr>))"

definition updateOtp :: "id \<Rightarrow> (otp_session \<Rightarrow> otp_session) \<Rightarrow> unit call" where
  "updateOtp oid f = (\<lambda>s. case sessionOf oid s of
     None \<Rightarrow> (Inl (PrismaError ''P2025''), s)
   | Some _ \<Rightarrow> (Inr (), s\<lparr>otpSessions := updateMany (\<lambda>r. ot_id r = oid) f (otpSessions s)\<rparr>))"

definition updateToken :: "id \<Rightarrow> (refresh_token \<Rightarrow> refresh_token) \<Rightarrow> unit call" where
  "updateToken jti f = (\<lambda>s. case tokenOf jti s of
     None \<Rightarrow> (Inl (PrismaError ''P2025''), s)
   | Some _ \<Rightarrow> (Inr (), s\<lparr>refreshTokens := updateMany (\<lambda>r. rt_jti r = jti) f (refreshTokens s)\<rparr>))"

definition siteAudit :: "id \<Rightarrow> string \<Rightarrow> id \<Rightarrow> unit call" where
  "siteAudit actorUserId action entityId = inBackend (auditLog (Some actorUserId) action entityId)"

definition emailUser :: "id \<Rightarrow> string \<Rightarrow> unit call" where
  "emailUser uid template = inBackend (send (EmailUser uid template))"

definition notifyUser :: "id \<Rightarrow> string \<Rightarrow> unit call" where
  "notifyUser uid title = inBackend (send (NotifyUser uid title))"

definition profileOf :: "id \<Rightarrow> site \<Rightarrow> org_profile option" where
  "profileOf oid s = findUnique op_id oid (orgProfiles s)"

definition documentOf :: "id \<Rightarrow> site \<Rightarrow> stored_document option" where
  "documentOf did s = findUnique sd_id did (storedDocuments s)"

definition addressOf :: "id \<Rightarrow> site \<Rightarrow> location_profile option" where
  "addressOf lid s = findUnique lo_id lid (locationProfiles s)"

text \<open>The document and the guardian of every certification that was filed with a document.\<close>

definition certificationDocuments :: "site \<Rightarrow> (id \<times> id) list" where
  "certificationDocuments s = concat (List.map (\<lambda>g. List.map (\<lambda>c. (the (c_documentId c), g_id g))
     (filter (\<lambda>c. c_documentId c \<noteq> None) (g_certifications g))) (guardians (backend s)))"

text \<open>The new value of a column: what the request gives, or else what is stored.\<close>

definition given :: "'a option \<Rightarrow> 'a \<Rightarrow> 'a" where
  "given x stored = (case x of None \<Rightarrow> stored | Some v \<Rightarrow> v)"

text \<open>A nullable string that JavaScript takes for true.\<close>

definition truthy :: "string option \<Rightarrow> bool" where
  "truthy x = (case x of None \<Rightarrow> False | Some str \<Rightarrow> str \<noteq> [])"

interpretation user_table: row_store u_id "findUnique u_id"
  "\<lambda>k. updateMany (\<lambda>r. u_id r = k)" createRow
  by (rule list_table_row_store)

interpretation otp_table: row_store ot_id "findUnique ot_id"
  "\<lambda>k. updateMany (\<lambda>r. ot_id r = k)" createRow
  by (rule list_table_row_store)

interpretation token_table: row_store rt_jti "findUnique rt_jti"
  "\<lambda>k. updateMany (\<lambda>r. rt_jti r = k)" createRow
  by (rule list_table_row_store)

section \<open>Phone numbers\<close>

definition removeWhitespace :: "string \<Rightarrow> string" where
  "removeWhitespace str = filter (\<lambda>c. c \<notin> set jsWhitespace) str"

definition isDigit :: "char \<Rightarrow> bool" where
  "isDigit c \<longleftrightarrow> c \<in> set ''0123456789''"

text \<open>The regular expression \<open>^\+[1-9]\d{7,14}$\<close>.\<close>

definition E164_REGEX :: "string \<Rightarrow> bool" where
  "E164_REGEX str \<longleftrightarrow> (case str of
     p # d # ds \<Rightarrow> p = CHR ''+'' \<and> isDigit d \<and> d \<noteq> CHR ''0'' \<and>
       list_all isDigit ds \<and> 7 \<le> length ds \<and> length ds \<le> 14
   | _ \<Rightarrow> False)"

definition normalizePhone :: "string \<Rightarrow> http_error + string" where
  "normalizePhone value =
     (let trimmed = removeWhitespace (trimBy jsWhitespace value);
          normalized =
            (if take 1 trimmed \<noteq> ''+'' then
               if take 1 trimmed = ''0'' then ''+25'' @ drop 1 trimmed
               else if take 3 trimmed = ''250'' then ''+'' @ trimmed
               else ''+'' @ trimmed
             else trimmed)
      in if E164_REGEX normalized then Inr normalized
         else Inl (BadRequest ''Phone must be valid E.164 format (e.g. +250788123456)''))"

section \<open>Login identifiers\<close>

datatype login_identifier = EmailLogin string | PhoneLogin string

text \<open>
  The regular expression \<open>^[^\s@]+@[^\s@]+\.[^\s@]+$\<close>: one at sign, no white space, and a dot in
  the domain that is neither its first nor its last character.
\<close>

definition EMAIL_REGEX :: "string \<Rightarrow> bool" where
  "EMAIL_REGEX str \<longleftrightarrow>
     (let name = takeWhile (\<lambda>c. c \<noteq> CHR ''@'') str;
          domain = drop 1 (dropWhile (\<lambda>c. c \<noteq> CHR ''@'') str)
      in list_all (\<lambda>c. c \<notin> set jsWhitespace) str \<and> name \<noteq> [] \<and>
         CHR ''@'' \<in> set str \<and> CHR ''@'' \<notin> set domain \<and>
         CHR ''.'' \<in> set (butlast (drop 1 domain)))"

definition parseLoginIdentifier :: "string \<Rightarrow> http_error + login_identifier" where
  "parseLoginIdentifier login =
     (let trimmed = trimBy jsWhitespace login in
      if trimmed = [] then Inl (BadRequest ''INVALID_LOGIN'')
      else if CHR ''@'' \<in> set trimmed then
        if EMAIL_REGEX trimmed then Inr (EmailLogin (List.map toLowerChar trimmed))
        else Inl (BadRequest ''INVALID_LOGIN'')
      else case normalizePhone trimmed of
          Inl e \<Rightarrow> Inl e
        | Inr p \<Rightarrow> Inr (PhoneLogin p))"

text \<open>A pure routine that may throw, as a step of a method.\<close>

definition lift :: "http_error + 'a \<Rightarrow> ('s, 'a) handler" where
  "lift r = (case r of Inl e \<Rightarrow> throw e | Inr a \<Rightarrow> ok a)"

lemma lift_simps [simp]: "lift (Inl e) = throw e" "lift (Inr a) = ok a"
  by (simp_all add: lift_def)

section \<open>Passwords\<close>

definition MIN_PASSWORD_LENGTH :: nat where
  "MIN_PASSWORD_LENGTH = 8"

definition BCRYPT_ROUNDS :: int where
  "BCRYPT_ROUNDS = 12"

definition assertPolicy :: "string \<Rightarrow> ('s, unit) handler" where
  "assertPolicy plain = ensure (\<not> length plain < MIN_PASSWORD_LENGTH)
     (BadRequest ''Password must be at least 8 characters'')"

definition assertMatch :: "string \<Rightarrow> string \<Rightarrow> ('s, unit) handler" where
  "assertMatch plain confirm = ensure (plain = confirm) (BadRequest ''Passwords do not match'')"

text \<open>Every call of \<open>bcrypt.hash\<close> draws a new salt.\<close>

definition hashPassword :: "'tok env \<Rightarrow> string \<Rightarrow> string call" where
  "hashPassword E plain = andThen (assertPolicy plain) (\<lambda>_.
     andThen siteId (\<lambda>draw. ok (bcryptHash E (entropy E draw) BCRYPT_ROUNDS plain)))"

definition verifyPassword :: "'tok env \<Rightarrow> string \<Rightarrow> string \<Rightarrow> bool" where
  "verifyPassword E plain stored = bcryptCompare E plain stored"

end
