(* ===== verification/Otp.thy ===== *)
theory Otp
  imports Identity
begin

text \<open>
  One-time passwords (\<open>auth/otp.service.ts\<close>): a session per code sent, five guesses per session,
  one code a minute for a phone, and a lock of a quarter of an hour after five wrong guesses.
\<close>

definition OTP_TTL_MS :: int where
  "OTP_TTL_MS = 5 * 60000"

definition OTP_COOLDOWN_MS :: int where
  "OTP_COOLDOWN_MS = 60000"

definition LOCKOUT_MS :: int where
  "LOCKOUT_MS = 15 * 60000"

definition MAX_ATTEMPTS :: int where
  "MAX_ATTEMPTS = 5"

lemmas otp_constants = OTP_TTL_MS_def OTP_COOLDOWN_MS_def LOCKOUT_MS_def MAX_ATTEMPTS_def

text \<open>\<open>findFirst({ where, orderBy: { createdAt: 'desc' } })\<close>.\<close>

definition latestSession :: "(otp_session \<Rightarrow> bool) \<Rightarrow> site \<Rightarrow> otp_session option" where
  "latestSession p s =
     (case orderByDesc ot_createdAt (findMany p (otpSessions s)) of [] \<Rightarrow> None | r # _ \<Rightarrow> Some r)"

text \<open>\<open>randomInt(100000, 999999)\<close>, whose upper bound is exclusive.\<close>

definition generateCode :: "'tok env \<Rightarrow> string call" where
  "generateCode E = andThen siteId (\<lambda>draw.
     ok (showInt (100000 + entropy E draw mod 899999)))"

text \<open>
  The gateway's answer depends on the number and the moment; a failure matters in production only.
\<close>

definition deliverOtpSms :: "'tok env \<Rightarrow> string \<Rightarrow> string \<Rightarrow> unit call" where
  "deliverOtpSms E recipient code =
     (if \<not> smsConfigured E then
        ensure (\<not> production E) (ServiceUnavailable ''SMS delivery is not configured'')
      else andThen siteNow (\<lambda>t. case smsFailure E recipient t of
          Some err \<Rightarrow> ensure (\<not> production E) err
        | None \<Rightarrow> writes (\<lambda>s. s\<lparr>smsSent := smsSent s @ [(recipient, code)]\<rparr>)))"

definition deliverOtpEmail :: "string \<Rightarrow> unit call" where
  "deliverOtpEmail recipient = andThen (reads (userByPhone recipient)) (\<lambda>found.
     case found of None \<Rightarrow> ok ()
     | Some u \<Rightarrow> (case u_email u of None \<Rightarrow> ok ()
         | Some email \<Rightarrow> whenever (trimBy jsWhitespace email \<noteq> [])
             (emailUser (u_id u) ''SECURITY_OTP_CODE'')))"

text \<open>\<open>Promise.all\<close> starts both deliveries; the e-mail goes out also when the SMS fails.\<close>

definition deliverOtp :: "'tok env \<Rightarrow> string \<Rightarrow> string \<Rightarrow> unit call" where
  "deliverOtp E recipient code = andThen (deliverOtpEmail recipient) (\<lambda>_. deliverOtpSms E recipient code)"

record otp_answer =
  oa_otpId :: id
  oa_expiresAt :: instant
  oa_devCode :: "string option"

definition requestOtp :: "'tok env \<Rightarrow> string \<Rightarrow> string option \<Rightarrow> string option \<Rightarrow> otp_answer call" where
  "requestOtp E value ipAddress deviceFingerprint =
     andThen (lift (normalizePhone value)) (\<lambda>normalized.
     andThen (reads (latestSession (\<lambda>r. ot_phoneNumber r = normalized))) (\<lambda>recent.
     andThen siteNow (\<lambda>t.
     andThen (case recent of None \<Rightarrow> ok () | Some r \<Rightarrow>
       andThen (ensure (\<not> t - ot_createdAt r < OTP_COOLDOWN_MS)
         (TooManyRequests ''OTP already sent. Please wait.'')) (\<lambda>_.
       ensure (\<not> (ot_attempts r \<ge> MAX_ATTEMPTS \<and> ot_verifiedAt r = None \<and>
                  ot_createdAt r + LOCKOUT_MS > t))
         (TooManyRequests ''Too many attempts. Try again later.''))) (\<lambda>_.
     andThen (generateCode E) (\<lambda>code.
     andThen siteId (\<lambda>draw. let otpHash = bcryptHash E (entropy E draw) 10 code in
     andThen siteId (\<lambda>oid.
     andThen (writes (\<lambda>s. s\<lparr>otpSessions := createRow
       \<lparr>ot_id = oid, ot_phoneNumber = normalized, ot_otpHash = otpHash,
        ot_expiresAt = t + OTP_TTL_MS, ot_attempts = 0, ot_verifiedAt = None,
        ot_ipAddress = ipAddress, ot_deviceFingerprint = deviceFingerprint,
        ot_createdAt = t\<rparr> (otpSessions s)\<rparr>)) (\<lambda>_.
     andThen (deliverOtp E normalized code) (\<lambda>_.
     ok \<lparr>oa_otpId = oid, oa_expiresAt = t + OTP_TTL_MS,
         oa_devCode = (if production E then None else Some code)\<rparr>)))))))))"

definition verifyOtp :: "'tok env \<Rightarrow> string \<Rightarrow> string \<Rightarrow> string call" where
  "verifyOtp E value code =
     andThen (lift (normalizePhone value)) (\<lambda>normalized.
     andThen siteNow (\<lambda>t.
     andThen (reads (latestSession (\<lambda>r. ot_phoneNumber r = normalized \<and>
       ot_verifiedAt r = None \<and> ot_expiresAt r > t))) (\<lambda>found.
     andThen (orThrow found (BadRequest ''Invalid or expired OTP'')) (\<lambda>otp.
     andThen (ensure (\<not> ot_attempts otp \<ge> MAX_ATTEMPTS)
       (TooManyRequests ''OTP attempts exceeded'')) (\<lambda>_.
     if \<not> bcryptCompare E code (ot_otpHash otp) then
       andThen (updateOtp (ot_id otp) (\<lambda>r. r\<lparr>ot_attempts := ot_attempts r + 1\<rparr>)) (\<lambda>_.
       throw (BadRequest ''Invalid or expired OTP''))
     else
       andThen (updateOtp (ot_id otp) (\<lambda>r. r\<lparr>ot_verifiedAt := Some t\<rparr>)) (\<lambda>_.
       ok normalized))))))"

end
