(* ===== verification/Tokens.thy ===== *)
theory Tokens
  imports Otp
begin

text \<open>
  Access and refresh tokens (\<open>auth/token.service.ts\<close>), the list of revoked tokens of
  \<open>redis/redis.service.ts\<close> (in-memory form), what a token's user may do
  (\<open>auth-user.loader.ts\<close>), and the check of an access token (\<open>strategies/jwt.strategy.ts\<close>).
\<close>

section \<open>The user behind a token\<close>

definition loadAuthUserPayload :: "id \<Rightarrow> id option \<Rightarrow> auth_user option call" where
  "loadAuthUserPayload userId preferredOrgId = reads (\<lambda>s. case userOf userId s of
     None \<Rightarrow> None
   | Some u \<Rightarrow>
       if u_status u = U_DELETED \<or> u_roles u = [] then None else
       let role = (case find (\<lambda>r. r = GUARDIAN) (u_roles u) of
             Some r \<Rightarrow> r
           | None \<Rightarrow> (case find (\<lambda>r. r = CLIENT_OWNER \<or> r = CLIENT_STAFF) (u_roles u) of
               Some r \<Rightarrow> r | None \<Rightarrow> hd (u_roles u)));
           orgIds = List.map m_organizationId
             (findMany (\<lambda>m. m_userId m = userId) (orgUsers (backend s)));
           active = (case preferredOrgId of
             Some p \<Rightarrow> if p \<in> set orgIds then Some p
                       else if orgIds = [] then None else Some (hd orgIds)
           | None \<Rightarrow> if orgIds = [] then None else Some (hd orgIds))
       in Some \<lparr>sub = u_id u, roles = u_roles u, activeOrgId = active, orgId = active,
            organizationIds = orgIds,
            actorGuardianId = map_option g_id (findUnique g_userId userId (guardians (backend s))),
            phone = u_phoneNumber u, activeRole = role\<rparr>)"

section \<open>Revoked refresh tokens\<close>

definition redis_revokeRefreshToken :: "id \<Rightarrow> int \<Rightarrow> unit call" where
  "redis_revokeRefreshToken jti ttlSeconds = writes (\<lambda>s. s\<lparr>memoryRevoked :=
     (memoryRevoked s)(jti \<mapsto> clock (backend s) + ttlSeconds * 1000)\<rparr>)"

text \<open>Reading a lapsed entry deletes it.\<close>

definition isRefreshTokenRevoked :: "id \<Rightarrow> bool call" where
  "isRefreshTokenRevoked jti = (\<lambda>s. case memoryRevoked s jti of
     None \<Rightarrow> (Inr False, s)
   | Some expiresAt \<Rightarrow>
       if clock (backend s) > expiresAt
       then (Inr False, s\<lparr>memoryRevoked := (memoryRevoked s)(jti := None)\<rparr>)
       else (Inr True, s))"

definition revokeRefreshToken :: "id \<Rightarrow> instant \<Rightarrow> unit call" where
  "revokeRefreshToken jti expiresAt = andThen siteNow (\<lambda>t.
     redis_revokeRefreshToken jti (max 1 ((expiresAt - t) div 1000)))"

section \<open>Expiry\<close>

primrec parseNat :: "string \<Rightarrow> int \<Rightarrow> int" where
  "parseNat [] acc = acc"
| "parseNat (c # cs) acc = parseNat cs (acc * 10 + (int (of_char c) - 48))"

definition unitMs :: "char \<Rightarrow> int option" where
  "unitMs c = (if c = CHR ''s'' then Some 1000 else if c = CHR ''m'' then Some 60000
     else if c = CHR ''h'' then Some 3600000 else if c = CHR ''d'' then Some 86400000 else None)"

text \<open>The regular expression \<open>^(\d+)([smhd])$\<close>; anything else is seven days.\<close>

definition parseExpiry :: "string \<Rightarrow> instant \<Rightarrow> instant" where
  "parseExpiry value t =
     (let week = t + 7 * 24 * 60 * 60 * 1000 in
      if value = [] then week else
      case unitMs (last value) of
        None \<Rightarrow> week
      | Some m \<Rightarrow> if butlast value \<noteq> [] \<and> list_all isDigit (butlast value)
                  then t + parseNat (butlast value) 0 * m else week)"

section \<open>Issuing and refreshing\<close>

record 'tok token_pair =
  accessToken :: 'tok
  refreshToken :: 'tok
  expiresIn :: string

definition issueTokens :: "'tok env \<Rightarrow> auth_user \<Rightarrow> id option \<Rightarrow> 'tok token_pair call" where
  "issueTokens E payload existingFamilyId =
     andThen siteId (\<lambda>jti.
     andThen (case existingFamilyId of Some f \<Rightarrow> ok f | None \<Rightarrow> siteId) (\<lambda>familyId.
     andThen siteNow (\<lambda>t.
     let access = signAsync E (JWT_SECRET E) (AccessClaims payload) t (JWT_EXPIRES_IN E);
         refresh = signAsync E (JWT_REFRESH_SECRET E) (RefreshClaims (sub payload) jti familyId) t
           (JWT_REFRESH_EXPIRES_IN E);
         expiresAt = parseExpiry (JWT_REFRESH_EXPIRES_IN E) t
     in andThen (writes (\<lambda>s. s\<lparr>refreshTokens := createRow
          \<lparr>rt_userId = sub payload, rt_jti = jti, rt_familyId = familyId,
           rt_expiresAt = expiresAt, rt_revokedAt = None\<rparr> (refreshTokens s)\<rparr>)) (\<lambda>_.
        ok \<lparr>accessToken = access, refreshToken = refresh, expiresIn = JWT_EXPIRES_IN E\<rparr>))))"

text \<open>
  A token that verifies without being a refresh token (which takes equal secrets) has no
  identifier, and the lookup without a key is rejected by the database client.
\<close>

definition refreshTokensOf :: "'tok env \<Rightarrow> 'tok \<Rightarrow> 'tok token_pair call" where
  "refreshTokensOf E tok = andThen siteNow (\<lambda>t.
     case verifyAsync E (JWT_REFRESH_SECRET E) t tok of
       None \<Rightarrow> throw (Unauthorized ''Invalid refresh token'')
     | Some (RefreshClaims userId jti familyId) \<Rightarrow>
         andThen (isRefreshTokenRevoked jti) (\<lambda>revoked.
         andThen (ensure (\<not> revoked) (Unauthorized ''Refresh token revoked'')) (\<lambda>_.
         andThen (reads (tokenOf jti)) (\<lambda>found.
         andThen (orThrow found (Unauthorized ''Refresh token revoked'')) (\<lambda>stored.
         andThen (ensure (\<not> (rt_revokedAt stored \<noteq> None \<or> rt_expiresAt stored < t))
           (Unauthorized ''Refresh token revoked'')) (\<lambda>_.
         andThen (revokeRefreshToken jti (rt_expiresAt stored)) (\<lambda>_.
         andThen (loadAuthUserPayload userId None) (\<lambda>payload.
         andThen (orThrow payload (Unauthorized ''User not found'')) (\<lambda>p.
         issueTokens E p (Some (rt_familyId stored))))))))))
     | Some _ \<Rightarrow> throw (PrismaError ''PrismaClientValidationError''))"

section \<open>Tokens with a purpose\<close>

definition issueOnboardingToken :: "'tok env \<Rightarrow> id \<Rightarrow> id option \<Rightarrow> 'tok call" where
  "issueOnboardingToken E userId organizationId = andThen siteNow (\<lambda>t.
     ok (signAsync E (JWT_SECRET E) (OnboardingClaims userId organizationId) t ''7d''))"

text \<open>The header is given as the token after \<open>Bearer\<close>, if it has that form.\<close>

definition verifyOnboardingToken :: "'tok env \<Rightarrow> 'tok option \<Rightarrow> (id \<times> id option) call" where
  "verifyOnboardingToken E header =
     andThen (orThrow header (Unauthorized ''ONBOARDING_TOKEN_INVALID'')) (\<lambda>tok.
     andThen siteNow (\<lambda>t. case verifyAsync E (JWT_SECRET E) t tok of
       Some (OnboardingClaims userId org) \<Rightarrow> ok (userId, org)
     | _ \<Rightarrow> throw (Unauthorized ''ONBOARDING_TOKEN_INVALID'')))"

definition issueSetupToken :: "'tok env \<Rightarrow> id \<Rightarrow> 'tok call" where
  "issueSetupToken E userId = andThen siteNow (\<lambda>t.
     ok (signAsync E (JWT_SECRET E) (SetupClaims userId) t ''15m''))"

definition verifySetupToken :: "'tok env \<Rightarrow> 'tok \<Rightarrow> id call" where
  "verifySetupToken E tok = andThen siteNow (\<lambda>t. case verifyAsync E (JWT_SECRET E) t tok of
       Some (SetupClaims userId) \<Rightarrow> ok userId
     | _ \<Rightarrow> throw (Unauthorized ''Invalid or expired setup token''))"

definition tryResolveAccessUserId :: "'tok env \<Rightarrow> 'tok option \<Rightarrow> id option call" where
  "tryResolveAccessUserId E header = andThen siteNow (\<lambda>t. ok (case header of
       None \<Rightarrow> None
     | Some tok \<Rightarrow> (case verifyAsync E (JWT_SECRET E) t tok of
           Some (AccessClaims p) \<Rightarrow> Some (sub p)
         | Some (RefreshClaims userId _ _) \<Rightarrow> Some userId
         | _ \<Rightarrow> None)))"

section \<open>Ending sessions\<close>

definition revokeAllRefreshTokensForUser :: "id \<Rightarrow> unit call" where
  "revokeAllRefreshTokensForUser userId = andThen siteNow (\<lambda>t.
     andThen (reads (\<lambda>s. findMany (\<lambda>r. rt_userId r = userId \<and> rt_revokedAt r = None \<and>
       rt_expiresAt r > t) (refreshTokens s))) (\<lambda>active.
     forEach active (\<lambda>stored. andThen (revokeRefreshToken (rt_jti stored) (rt_expiresAt stored)) (\<lambda>_.
       updateToken (rt_jti stored) (\<lambda>r. r\<lparr>rt_revokedAt := Some t\<rparr>)))))"

text \<open>Every error is swallowed; a token that is not a refresh token has no row.\<close>

definition token_logout :: "'tok env \<Rightarrow> 'tok \<Rightarrow> unit call" where
  "token_logout E tok = andThen siteNow (\<lambda>t.
     case verifyAsync E (JWT_REFRESH_SECRET E) t tok of
       Some (RefreshClaims _ jti _) \<Rightarrow>
         tryCatch (andThen (reads (tokenOf jti)) (\<lambda>found. case found of
             None \<Rightarrow> ok ()
           | Some stored \<Rightarrow> andThen (revokeRefreshToken jti (rt_expiresAt stored)) (\<lambda>_.
               updateToken jti (\<lambda>r. r\<lparr>rt_revokedAt := Some t\<rparr>)))) (\<lambda>_. ok ())
     | _ \<Rightarrow> ok ())"

section \<open>Checking an access token\<close>

text \<open>
  The strategy lets the library verify the token and then trusts its \<open>sub\<close>; of the claims it
  reads \<open>activeOrgId\<close> and \<open>orgId\<close>, which the tokens with a purpose may carry too.
\<close>

definition preferredOrg :: "claims \<Rightarrow> id option" where
  "preferredOrg c = (case c of
       AccessClaims p \<Rightarrow> (case activeOrgId p of Some a \<Rightarrow> Some a | None \<Rightarrow> orgId p)
     | RefreshClaims _ _ _ \<Rightarrow> None
     | OnboardingClaims _ org \<Rightarrow> org
     | SetupClaims _ \<Rightarrow> None)"

definition claimsSub :: "claims \<Rightarrow> id" where
  "claimsSub c = (case c of AccessClaims p \<Rightarrow> sub p | RefreshClaims u _ _ \<Rightarrow> u
     | OnboardingClaims u _ \<Rightarrow> u | SetupClaims u \<Rightarrow> u)"

definition jwt_validate :: "'tok env \<Rightarrow> 'tok option \<Rightarrow> auth_user call" where
  "jwt_validate E header = andThen siteNow (\<lambda>t.
     case header of None \<Rightarrow> throw (Unauthorized ''Unauthorized'')
     | Some tok \<Rightarrow> (case verifyAsync E (JWT_SECRET E) t tok of
         None \<Rightarrow> throw (Unauthorized ''Unauthorized'')
       | Some c \<Rightarrow> andThen (loadAuthUserPayload (claimsSub c) (preferredOrg c)) (\<lambda>fresh.
           orThrow fresh (Unauthorized ''Unauthorized''))))"

end
