(* ===== verification/SignIn.thy ===== *)
theory SignIn
  imports Tokens
begin

text \<open>
  Signing in and out (\<open>auth/auth.service.ts\<close>) behind the gates of \<open>auth/auth-gates.ts\<close>.
\<close>

section \<open>Gates\<close>

definition assertUserCanSignIn :: "user \<Rightarrow> unit call" where
  "assertUserCanSignIn u =
     andThen (ensure (u_status u \<noteq> U_DELETED) (Forbidden ''ACCOUNT_DELETED'')) (\<lambda>_.
     andThen (ensure (u_status u \<noteq> U_SUSPENDED) (Forbidden ''ACCOUNT_SUSPENDED'')) (\<lambda>_.
     andThen (ensure (\<not> (u_status u = U_PENDING_VERIFICATION \<and> u_onboardingCompletedAt u = None))
       (Forbidden ''ONBOARDING_INCOMPLETE'')) (\<lambda>_.
     andThen (ensure (u_status u \<noteq> U_PENDING_VERIFICATION) (Forbidden ''PENDING_VERIFICATION'')) (\<lambda>_.
     andThen (ensure (u_status u = U_ACTIVE) (Forbidden ''ACCOUNT_INACTIVE'')) (\<lambda>_.
     if GUARDIAN \<in> set (u_roles u) then
       andThen (reads (\<lambda>s. findUnique g_userId (u_id u) (guardians (backend s)))) (\<lambda>found.
       andThen (orThrow found (Forbidden ''GUARDIAN_PROFILE_MISSING'')) (\<lambda>g.
       andThen (ensure (g_status g \<noteq> G_SUSPENDED) (Forbidden ''GUARDIAN_SUSPENDED'')) (\<lambda>_.
       andThen (ensure (g_status g \<noteq> G_INACTIVE) (Forbidden ''GUARDIAN_NOT_ACTIVATED'')) (\<lambda>_.
       ensure (g_status g = G_ACTIVE) (Forbidden ''GUARDIAN_NOT_ACTIVATED'')))))
     else
       let isClient = (CLIENT_OWNER \<in> set (u_roles u) \<or> CLIENT_STAFF \<in> set (u_roles u));
           isStaff = (SUPER_ADMIN \<in> set (u_roles u) \<or> OPS_ADMIN \<in> set (u_roles u))
       in andThen (ensure (isClient \<or> isStaff) (Forbidden ''NO_APP_ACCESS'')) (\<lambda>_.
          ensure (\<not> (isClient \<and> \<not> u_isPhoneVerified u)) (Forbidden ''PHONE_NOT_VERIFIED'')))))))"

section \<open>The answer to a sign-in\<close>

text \<open>The names of users and organizations are left out of the answers.\<close>

record org_summary =
  os_id :: id
  os_role :: role_code
  os_verificationStatus :: verification_status
  os_canBookJobs :: bool
  os_needsSiteSetup :: bool
  os_primaryLocationId :: "id option"

datatype 'tok auth_response =
    PasswordSetup 'tok auth_user "org_summary list"
  | SignedIn "'tok token_pair" auth_user "org_summary list"

definition membershipRole :: "org_user \<Rightarrow> role_code" where
  "membershipRole m = (if m_isOwner m then CLIENT_OWNER else CLIENT_STAFF)"

definition summarizeOrg :: "org_user \<Rightarrow> org_summary call" where
  "summarizeOrg m = andThen (inBackend (getBookingEligibility (m_organizationId m))) (\<lambda>booking.
     andThen (reads (\<lambda>s. orgOf (m_organizationId m) (backend s))) (\<lambda>found.
     andThen (orThrow found (InternalError ''organization'')) (\<lambda>org.
     ok \<lparr>os_id = o_id org, os_role = membershipRole m,
         os_verificationStatus = o_verificationStatus org,
         os_canBookJobs = canBookJobs booking, os_needsSiteSetup = needsSiteSetup booking,
         os_primaryLocationId = primaryLocationId booking\<rparr>)))"

definition buildAuthResponse :: "'tok env \<Rightarrow> id \<Rightarrow> bool \<Rightarrow> 'tok auth_response call" where
  "buildAuthResponse E userId requiresPasswordSetup =
     andThen (loadAuthUserPayload userId None) (\<lambda>loaded.
     andThen (orThrow loaded (InternalError ''Failed to load user after auth'')) (\<lambda>payload.
     andThen (reads (\<lambda>s. findMany (\<lambda>m. m_userId m = userId) (orgUsers (backend s)))) (\<lambda>memberships.
     andThen (reads (userOf userId)) (\<lambda>record.
     andThen (orThrow record (InternalError ''userRecord'')) (\<lambda>u.
     andThen (forCollect memberships summarizeOrg) (\<lambda>organizations.
     if requiresPasswordSetup \<or> u_passwordSetAt u = None then
       andThen (issueSetupToken E userId) (\<lambda>setupToken.
       ok (PasswordSetup setupToken payload organizations))
     else
       andThen (issueTokens E payload None) (\<lambda>pair.
       andThen (case actorGuardianId payload of None \<Rightarrow> ok ()
                | Some gid \<Rightarrow> inBackend (autoStartOnLogin gid)) (\<lambda>_.
       andThen (siteAudit userId ''LOGIN'' userId) (\<lambda>_.
       ok (SignedIn pair payload organizations))))))))))"

section \<open>Signing in\<close>

definition signInRequestOtp ::
  "'tok env \<Rightarrow> string \<Rightarrow> string option \<Rightarrow> string option \<Rightarrow> otp_answer call" where
  "signInRequestOtp E value ipAddress deviceFingerprint =
     andThen (lift (normalizePhone value)) (\<lambda>normalized.
     andThen (reads (userByPhone normalized)) (\<lambda>found.
     andThen (orThrow found (NotFound ''USER_NOT_REGISTERED'')) (\<lambda>u.
     andThen (ensure (u_status u \<noteq> U_DELETED) (NotFound ''USER_NOT_REGISTERED'')) (\<lambda>_.
     requestOtp E normalized ipAddress deviceFingerprint))))"

definition signInVerifyOtp :: "'tok env \<Rightarrow> string \<Rightarrow> string \<Rightarrow> 'tok auth_response call" where
  "signInVerifyOtp E value code =
     andThen (verifyOtp E value code) (\<lambda>normalized.
     andThen (reads (userByPhone normalized)) (\<lambda>found.
     andThen (orThrow found (NotFound ''USER_NOT_REGISTERED'')) (\<lambda>u.
     andThen (assertUserCanSignIn u) (\<lambda>_. andThen siteNow (\<lambda>t.
     andThen (updateUser (u_id u) (\<lambda>r. r\<lparr>u_isPhoneVerified := True, u_lastLoginAt := Some t\<rparr>)) (\<lambda>_.
     buildAuthResponse E (u_id u) (u_passwordSetAt u = None)))))))"

definition userByLogin :: "login_identifier \<Rightarrow> site \<Rightarrow> user option" where
  "userByLogin l s = (case l of EmailLogin e \<Rightarrow> userByEmail e s | PhoneLogin p \<Rightarrow> userByPhone p s)"

definition signInWithPassword :: "'tok env \<Rightarrow> string \<Rightarrow> string \<Rightarrow> 'tok auth_response call" where
  "signInWithPassword E login password =
     andThen (lift (parseLoginIdentifier login)) (\<lambda>identifier.
     andThen (reads (userByLogin identifier)) (\<lambda>found.
     andThen (orThrow found (Unauthorized ''INVALID_CREDENTIALS'')) (\<lambda>u.
     andThen (orThrow (u_passwordHash u) (Unauthorized ''INVALID_CREDENTIALS'')) (\<lambda>stored.
     andThen (ensure (verifyPassword E password stored) (Unauthorized ''INVALID_CREDENTIALS'')) (\<lambda>_.
     andThen (assertUserCanSignIn u) (\<lambda>_. andThen siteNow (\<lambda>t.
     andThen (updateUser (u_id u) (\<lambda>r. r\<lparr>u_lastLoginAt := Some t\<rparr>)) (\<lambda>_.
     buildAuthResponse E (u_id u) (u_passwordSetAt u = None)))))))))"

definition issueFullAuthResponse :: "'tok env \<Rightarrow> id \<Rightarrow> 'tok auth_response call" where
  "issueFullAuthResponse E userId = buildAuthResponse E userId False"

section \<open>Passwords\<close>

definition findUserForPasswordReset :: "string \<Rightarrow> user call" where
  "findUserForPasswordReset login =
     andThen (lift (parseLoginIdentifier login)) (\<lambda>identifier.
     andThen (reads (userByLogin identifier)) (\<lambda>found.
     andThen (orThrow found (NotFound ''USER_NOT_REGISTERED'')) (\<lambda>u.
     andThen (ensure (u_status u \<noteq> U_DELETED) (NotFound ''USER_NOT_REGISTERED'')) (\<lambda>_.
     andThen (ensure (u_passwordHash u \<noteq> None) (BadRequest ''PASSWORD_NOT_SET'')) (\<lambda>_. ok u)))))"

definition passwordResetRequest :: "'tok env \<Rightarrow> string \<Rightarrow> otp_answer call" where
  "passwordResetRequest E login = andThen (findUserForPasswordReset login) (\<lambda>u.
     requestOtp E (u_phoneNumber u) None None)"

definition passwordResetConfirm ::
  "'tok env \<Rightarrow> string \<Rightarrow> string \<Rightarrow> string \<Rightarrow> string \<Rightarrow> 'tok auth_response call" where
  "passwordResetConfirm E login code password confirm =
     andThen (assertMatch password confirm) (\<lambda>_.
     andThen (findUserForPasswordReset login) (\<lambda>u.
     andThen (verifyOtp E (u_phoneNumber u) code) (\<lambda>_.
     andThen (assertUserCanSignIn u) (\<lambda>_.
     andThen (hashPassword E password) (\<lambda>hashed. andThen siteNow (\<lambda>t.
     andThen (updateUser (u_id u)
       (\<lambda>r. r\<lparr>u_passwordHash := Some hashed, u_passwordSetAt := Some t\<rparr>)) (\<lambda>_.
     andThen (revokeAllRefreshTokensForUser (u_id u)) (\<lambda>_.
     andThen (siteAudit (u_id u) ''PASSWORD_RESET'' (u_id u)) (\<lambda>_.
     andThen (emailUser (u_id u) ''SECURITY_PASSWORD_RESET_COMPLETED'') (\<lambda>_.
     buildAuthResponse E (u_id u) False))))))))))"

definition setPassword ::
  "'tok env \<Rightarrow> string \<Rightarrow> string \<Rightarrow> 'tok option \<Rightarrow> id option \<Rightarrow> 'tok auth_response call" where
  "setPassword E password confirm setupToken authenticatedUserId =
     andThen (assertMatch password confirm) (\<lambda>_.
     andThen (case setupToken of None \<Rightarrow> ok authenticatedUserId
              | Some tok \<Rightarrow> andThen (verifySetupToken E tok) (\<lambda>u. ok (Some u))) (\<lambda>who.
     andThen (orThrow who (Unauthorized ''Authentication required'')) (\<lambda>userId.
     andThen (hashPassword E password) (\<lambda>hashed. andThen siteNow (\<lambda>t.
     andThen (updateUser userId
       (\<lambda>r. r\<lparr>u_passwordHash := Some hashed, u_passwordSetAt := Some t\<rparr>)) (\<lambda>_.
     andThen (siteAudit userId ''PASSWORD_SET'' userId) (\<lambda>_.
     andThen (emailUser userId ''SECURITY_PASSWORD_SET'') (\<lambda>_.
     buildAuthResponse E userId False))))))))"

section \<open>Context and log-out\<close>

definition setContext :: "'tok env \<Rightarrow> id \<Rightarrow> id \<Rightarrow> (id \<times> 'tok token_pair) call" where
  "setContext E userId organizationId =
     andThen (reads (\<lambda>s. findFirst (\<lambda>m. m_organizationId m = organizationId \<and> m_userId m = userId)
       (orgUsers (backend s)))) (\<lambda>membership.
     andThen (ensure (membership \<noteq> None) (Forbidden ''Not a member of this organization'')) (\<lambda>_.
     andThen (loadAuthUserPayload userId (Some organizationId)) (\<lambda>loaded.
     andThen (orThrow loaded (NotFound ''User not found'')) (\<lambda>payload.
     andThen (issueTokens E payload None) (\<lambda>pair.
     andThen (siteAudit userId ''ORG_CONTEXT_SWITCH'' organizationId) (\<lambda>_.
     ok (organizationId, pair)))))))"

definition refresh :: "'tok env \<Rightarrow> 'tok \<Rightarrow> 'tok token_pair call" where
  "refresh E tok = refreshTokensOf E tok"

definition logout :: "'tok env \<Rightarrow> 'tok \<Rightarrow> id option \<Rightarrow> unit call" where
  "logout E tok userId = andThen (token_logout E tok) (\<lambda>_.
     case userId of None \<Rightarrow> ok () | Some u \<Rightarrow> siteAudit u ''LOGOUT'' u)"

text \<open>The endpoints kept for old clients only throw.\<close>

definition deprecatedOtpRequest :: "unit call" where
  "deprecatedOtpRequest = throw (Gone ''ENDPOINT_DEPRECATED'')"

definition deprecatedOtpVerify :: "unit call" where
  "deprecatedOtpVerify = throw (Gone ''ENDPOINT_DEPRECATED'')"

definition registerClientRequestOtp :: "unit call" where
  "registerClientRequestOtp = throw (Gone ''ENDPOINT_DEPRECATED'')"

definition registerClientVerify :: "unit call" where
  "registerClientVerify = throw (Gone ''ENDPOINT_DEPRECATED'')"

definition registerApplication :: "unit call" where
  "registerApplication = throw (Gone ''ENDPOINT_DEPRECATED'')"

end
