(* ===== verification/Permissions.thy ===== *)
theory Permissions
  imports SignIn
begin

text \<open>
  What a signed-in caller may do: the cached permission lists of
  \<open>auth/permission-resolver.service.ts\<close> and the guards of \<open>auth/guards\<close> that every request
  passes.  What the decorators of a route say is the argument \<open>route\<close> of a guard.
\<close>

section \<open>The cache\<close>

definition cacheGet :: "cache_key \<Rightarrow> string list option call" where
  "cacheGet key = (\<lambda>s. case memoryCache s key of
     None \<Rightarrow> (Inr None, s)
   | Some entry \<Rightarrow>
       if clock (backend s) > ce_expiresAt entry
       then (Inr None, s\<lparr>memoryCache := (memoryCache s)(key := None)\<rparr>)
       else (Inr (Some (ce_value entry)), s))"

definition cacheSet :: "cache_key \<Rightarrow> string list \<Rightarrow> int \<Rightarrow> unit call" where
  "cacheSet key val ttlSeconds = writes (\<lambda>s. s\<lparr>memoryCache := (memoryCache s)(key \<mapsto>
     \<lparr>ce_value = val, ce_expiresAt = clock (backend s) + ttlSeconds * 1000\<rparr>)\<rparr>)"

text \<open>\<open>cacheDelByPrefix('perms:user:')\<close>.\<close>

definition cacheDelByUser :: "id \<Rightarrow> unit call" where
  "cacheDelByUser userId = writes (\<lambda>s. s\<lparr>memoryCache :=
     (\<lambda>key. if ck_userId key = userId then None else memoryCache s key)\<rparr>)"

section \<open>The resolver\<close>

definition cacheKey :: "auth_user \<Rightarrow> cache_key" where
  "cacheKey actor = \<lparr>ck_userId = sub actor, ck_activeRole = activeRole actor,
     ck_activeOrgId = activeOrgId actor\<rparr>"

definition rolePermissionCodes :: "role_code \<Rightarrow> site \<Rightarrow> string list" where
  "rolePermissionCodes r s = List.map snd (findMany (\<lambda>p. fst p = r) (rolePermissions s))"

definition loadFromDb :: "auth_user \<Rightarrow> string list call" where
  "loadFromDb actor = reads (\<lambda>s. case userOf (sub actor) s of
     None \<Rightarrow> []
   | Some u \<Rightarrow>
       let ofRoles = concat (List.map (\<lambda>r. rolePermissionCodes r s) (u_roles u));
           ofOrg = (case activeOrgId actor of None \<Rightarrow> []
             | Some org \<Rightarrow> (case findFirst (\<lambda>m. m_organizationId m = org \<and> m_userId m = u_id u)
                   (orgUsers (backend s)) of
                 None \<Rightarrow> []
               | Some m \<Rightarrow> List.map snd (findMany (\<lambda>p. fst p = membershipRole m)
                   (orgMemberRolePermissions s))))
       in sort (toSet (ofRoles @ ofOrg)))"

definition resolve :: "'tok env \<Rightarrow> auth_user \<Rightarrow> string list call" where
  "resolve E actor =
     andThen (cacheGet (cacheKey actor)) (\<lambda>cached. case cached of
       Some permissions \<Rightarrow> ok permissions
     | None \<Rightarrow> andThen (loadFromDb actor) (\<lambda>permissions.
         andThen (cacheSet (cacheKey actor) permissions (PERMISSION_CACHE_TTL_SECONDS E)) (\<lambda>_.
         ok permissions)))"

definition invalidateUser :: "id \<Rightarrow> unit call" where
  "invalidateUser userId = cacheDelByUser userId"

section \<open>The guards\<close>

datatype permission_mode = any_of | all_of

record route =
  isPublic :: bool
  requiredPermissions :: "string list"
  permissionMode :: permission_mode
  skipOrgScope :: bool
  orgScopeParam :: bool
  requiredRoles :: "role_code list"

definition SENSITIVE_PREFIXES :: "string list" where
  "SENSITIVE_PREFIXES = [''admin:'', ''payments:'', ''organizations:verify'']"

definition startsWith :: "string \<Rightarrow> string \<Rightarrow> bool" where
  "startsWith str pre \<longleftrightarrow> take (length pre) str = pre"

definition permissionsGuard :: "'tok env \<Rightarrow> route \<Rightarrow> auth_user option \<Rightarrow> bool call" where
  "permissionsGuard E r requester =
     (if isPublic r \<or> requiredPermissions r = [] then ok True else
      andThen (orThrow requester (Forbidden ''PERMISSION_DENIED'')) (\<lambda>actor.
      andThen (resolve E actor) (\<lambda>permissions.
      let allowed = (case permissionMode r of
            any_of \<Rightarrow> list_ex (\<lambda>p. p \<in> set permissions) (requiredPermissions r)
          | all_of \<Rightarrow> list_all (\<lambda>p. p \<in> set permissions) (requiredPermissions r));
          missing = find (\<lambda>p. p \<notin> set permissions) (requiredPermissions r)
      in if allowed then ok True else
         andThen (case missing of None \<Rightarrow> ok ()
           | Some m \<Rightarrow> whenever (list_ex (startsWith m) SENSITIVE_PREFIXES)
               (siteAudit (sub actor) ''PERMISSION_DENIED'' (sub actor))) (\<lambda>_.
         throw (Forbidden ''PERMISSION_DENIED'')))))"

text \<open>
  The organization of the request is the named path or body parameter or the path's \<open>id\<close>,
  whichever is there first.
\<close>

definition orgScopeGuard :: "route \<Rightarrow> auth_user option \<Rightarrow> id option \<Rightarrow> http_error + bool" where
  "orgScopeGuard r requester org =
     (if isPublic r \<or> skipOrgScope r \<or> \<not> orgScopeParam r then Inr True else
      case requester of None \<Rightarrow> Inr True
      | Some actor \<Rightarrow>
          if SUPER_ADMIN \<in> set (roles actor) \<or> OPS_ADMIN \<in> set (roles actor) then Inr True else
          (case org of None \<Rightarrow> Inr True
           | Some requested \<Rightarrow>
               let active = (case activeOrgId actor of Some a \<Rightarrow> Some a | None \<Rightarrow> orgId actor) in
               if active \<noteq> None \<and> Some requested \<noteq> active \<and> requested \<notin> set (organizationIds actor)
               then Inl (Forbidden ''Organization scope mismatch'')
               else if active \<noteq> None \<and> Some requested \<noteq> active
               then Inl (Forbidden ''Organization scope mismatch'')
               else Inr True))"

definition rolesGuard :: "route \<Rightarrow> auth_user \<Rightarrow> bool" where
  "rolesGuard r requester =
     (requiredRoles r = [] \<or> list_ex (\<lambda>x. x \<in> set (roles requester)) (requiredRoles r))"

text \<open>The first guard: a public route needs no token.\<close>

definition jwtAuthGuard :: "'tok env \<Rightarrow> route \<Rightarrow> 'tok option \<Rightarrow> auth_user option call" where
  "jwtAuthGuard E r header =
     (if isPublic r then ok None else andThen (jwt_validate E header) (\<lambda>actor. ok (Some actor)))"

end
