(* ===== verification/Sessions.thy ===== *)
theory Sessions
  imports Permissions Evolution "HOL-Library.Sublist"
begin

text \<open>
  How the tables of tokens and one-time codes evolve, whatever calls the identity services get,
  in whatever order, and whatever the rest of the backend does meanwhile.  \<open>site_ok\<close> is the
  invariant, \<open>site_evolves\<close> the relation between two states of a run; it is a preorder and every
  call is shown to stay inside it.
\<close>

section \<open>Rows\<close>

definition token_step :: "refresh_token \<Rightarrow> refresh_token \<Rightarrow> bool" where
  "token_step r r' \<longleftrightarrow> rt_jti r' = rt_jti r \<and> rt_userId r' = rt_userId r \<and>
     rt_familyId r' = rt_familyId r \<and> rt_expiresAt r' = rt_expiresAt r \<and>
     (rt_revokedAt r \<noteq> None \<longrightarrow> rt_revokedAt r' \<noteq> None)"

definition otp_step :: "otp_session \<Rightarrow> otp_session \<Rightarrow> bool" where
  "otp_step r r' \<longleftrightarrow> ot_id r' = ot_id r \<and> ot_phoneNumber r' = ot_phoneNumber r \<and>
     ot_otpHash r' = ot_otpHash r \<and> ot_expiresAt r' = ot_expiresAt r \<and>
     ot_createdAt r' = ot_createdAt r \<and> ot_attempts r \<le> ot_attempts r' \<and>
     (ot_verifiedAt r \<noteq> None \<longrightarrow> ot_verifiedAt r' = ot_verifiedAt r \<and> ot_attempts r' = ot_attempts r)"

lemma token_step_refl [simp]: "token_step r r"
  by (simp add: token_step_def)

lemma token_step_trans: "token_step q r \<Longrightarrow> token_step r t \<Longrightarrow> token_step q t"
  by (simp add: token_step_def)

lemma otp_step_refl [simp]: "otp_step r r"
  by (simp add: otp_step_def)

lemma otp_step_trans: "otp_step q r \<Longrightarrow> otp_step r t \<Longrightarrow> otp_step q t"
  by (auto simp: otp_step_def)

section \<open>The invariant and the relation\<close>

definition site_ok :: "site \<Rightarrow> bool" where
  "site_ok s \<longleftrightarrow>
     distinct (map rt_jti (refreshTokens s)) \<and> distinct (map ot_id (otpSessions s)) \<and>
     (\<forall>r \<in> set (refreshTokens s). rt_jti r < nextId (backend s)) \<and>
     (\<forall>jti x. memoryRevoked s jti = Some x \<longrightarrow> jti < nextId (backend s)) \<and>
     (\<forall>r \<in> set (otpSessions s). ot_id r < nextId (backend s) \<and>
        0 \<le> ot_attempts r \<and> ot_attempts r \<le> MAX_ATTEMPTS)"

text \<open>
  A revocation noted in the memory of the process holds until it lapses, or until the row of
  the token says for good that it is revoked.
\<close>

definition revoked_row :: "id \<Rightarrow> site \<Rightarrow> bool" where
  "revoked_row jti s \<longleftrightarrow> (\<exists>r. tokenOf jti s = Some r \<and> rt_revokedAt r \<noteq> None)"

definition memory_holds :: "site \<Rightarrow> site \<Rightarrow> bool" where
  "memory_holds s s' \<longleftrightarrow> (\<forall>jti x. memoryRevoked s jti = Some x \<longrightarrow>
     memoryRevoked s' jti = Some x \<or> x < clock (backend s') \<or> revoked_row jti s')"

text \<open>
  The notifications of users are as they were, but for those of the users in \<open>gone\<close>: deleting
  an account deletes its notifications.
\<close>

definition mail_kept :: "id set \<Rightarrow> site \<Rightarrow> site \<Rightarrow> bool" where
  "mail_kept gone s s' \<longleftrightarrow> nextId (backend s) \<le> nextId (backend s') \<and>
     subseq (notices s') (notices s) \<and>
     filter (\<lambda>n. n_userId n \<notin> gone) (notices s') = filter (\<lambda>n. n_userId n \<notin> gone) (notices s)"

interpretation mail_kept: state_preorder "mail_kept gone"
  by standard (auto simp: mail_kept_def intro: subseq_order.trans)

definition site_evolves :: "id set \<Rightarrow> site \<Rightarrow> site \<Rightarrow> bool" where
  "site_evolves gone s s' \<longleftrightarrow> mail_kept gone s s' \<and> (site_ok s \<longrightarrow>
     site_ok s' \<and> clock (backend s) \<le> clock (backend s') \<and>
     nextId (backend s) \<le> nextId (backend s') \<and>
     table_evolves token_step (\<lambda>_. True) (refreshTokens s) (refreshTokens s') \<and>
     table_evolves otp_step (\<lambda>_. True) (otpSessions s) (otpSessions s') \<and> memory_holds s s')"

lemma token_survives:
  assumes "site_ok s'" and "table_evolves token_step (\<lambda>_. True) (refreshTokens s) (refreshTokens s')"
    and "tokenOf jti s = Some r"
  shows "\<exists>r'. tokenOf jti s' = Some r' \<and> token_step r r'"
proof -
  have r: "r \<in> set (refreshTokens s)" "rt_jti r = jti"
    using findUnique_SomeD [of rt_jti jti "refreshTokens s" r] assms(3) by (auto simp: tokenOf_def)
  then obtain r' where "r' \<in> set (refreshTokens s')" "token_step r r'"
    using table_evolves_old [OF assms(2)] by blast
  then show ?thesis
    using findUnique_distinct [of rt_jti "refreshTokens s'" r'] assms(1) r
    by (auto simp: tokenOf_def site_ok_def token_step_def)
qed

lemma revoked_row_stays:
  assumes "site_evolves gone s s'" and "site_ok s" and "revoked_row jti s"
  shows "revoked_row jti s'"
proof -
  obtain r where "tokenOf jti s = Some r" "rt_revokedAt r \<noteq> None"
    using assms(3) by (auto simp: revoked_row_def)
  moreover obtain r' where "tokenOf jti s' = Some r'" "token_step r r'"
    using token_survives assms(1,2) calculation(1) unfolding site_evolves_def by blast
  ultimately show ?thesis
    by (auto simp: revoked_row_def token_step_def)
qed

interpretation unchanged: state_preorder "\<lambda>s s'. s' = s"
  by standard auto

interpretation site_evolves: state_preorder "site_evolves gone"
proof
  show "site_evolves gone s s" for s
    by (simp add: site_evolves_def memory_holds_def mail_kept.refl)
next
  fix s t u
  assume st: "site_evolves gone s t" and tu: "site_evolves gone t u"
  have "site_ok u \<and> clock (backend s) \<le> clock (backend u) \<and>
      nextId (backend s) \<le> nextId (backend u) \<and>
      table_evolves token_step (\<lambda>_. True) (refreshTokens s) (refreshTokens u) \<and>
      table_evolves otp_step (\<lambda>_. True) (otpSessions s) (otpSessions u) \<and> memory_holds s u"
    if s: "site_ok s"
  proof -
    have t: "site_ok t"
      using st s by (simp add: site_evolves_def)
    have "memory_holds s u"
      unfolding memory_holds_def
    proof (intro allI impI)
      fix jti x
      assume "memoryRevoked s jti = Some x"
      then consider "memoryRevoked t jti = Some x" | "x < clock (backend t)" | "revoked_row jti t"
        using st s unfolding site_evolves_def memory_holds_def by blast
      then show "memoryRevoked u jti = Some x \<or> x < clock (backend u) \<or> revoked_row jti u"
      proof cases
        case 1
        then show ?thesis
          using tu t unfolding site_evolves_def memory_holds_def by blast
      next
        case 2
        then show ?thesis
          using tu t by (simp add: site_evolves_def)
      next
        case 3
        then show ?thesis
          using revoked_row_stays [OF tu t] by simp
      qed
    qed
    then show ?thesis
      using st tu s t unfolding site_evolves_def
      by (auto intro: table_evolves_trans token_step_trans otp_step_trans)
  qed
  moreover have "mail_kept gone s u"
    using st tu unfolding site_evolves_def by (blast intro: mail_kept.trans)
  ultimately show "site_evolves gone s u"
    by (simp add: site_evolves_def)
qed

declare site_evolves.refl [simp]

section \<open>The primitive steps\<close>

named_theorems site_rules \<open>calls and their steps stay inside \<open>site_evolves\<close>\<close>

lemma site_frame:
  assumes "refreshTokens s' = refreshTokens s" and "otpSessions s' = otpSessions s"
    and "memoryRevoked s' = memoryRevoked s" and "clock (backend s) \<le> clock (backend s')"
    and "nextId (backend s) \<le> nextId (backend s')" and "notices s' = notices s"
  shows "site_evolves gone s s'"
  using assms by (fastforce simp: site_evolves_def mail_kept_def site_ok_def memory_holds_def)

lemma site_inBackend:
  assumes "\<And>b. clock b \<le> clock (snd (m b)) \<and> nextId b \<le> nextId (snd (m b))"
  shows "site_evolves gone s (snd (inBackend m s))"
  using assms [of "backend s"]
  by (cases "m (backend s)") (auto simp: inBackend_def intro!: site_frame)

lemma site_siteNow [site_rules]: "site_evolves gone s (snd (siteNow s))"
  by simp

lemma site_siteId [site_rules]: "site_evolves gone s (snd (siteId s))"
  unfolding siteId_def by (rule site_inBackend) (simp add: freshId_def)

lemma site_audit [site_rules]: "site_evolves gone s (snd (siteAudit who action target s))"
  unfolding siteAudit_def by (rule site_inBackend) (simp add: auditLog_def)

lemma site_emailUser [site_rules]: "site_evolves gone s (snd (emailUser uid template s))"
  unfolding emailUser_def by (rule site_inBackend) (simp add: send_def)

lemma site_updateUser [site_rules]: "site_evolves gone s (snd (updateUser uid f s))"
  by (auto simp: updateUser_def split: option.split intro!: site_frame)

lemma site_lift [site_rules]: "site_evolves gone s (snd (lift r s))"
  by (cases r) simp_all

lemma site_assertPolicy [site_rules]: "site_evolves gone s (snd (assertPolicy plain s))"
  unfolding assertPolicy_def by (rule site_evolves.ensure)

lemma site_assertMatch [site_rules]: "site_evolves gone s (snd (assertMatch plain confirm s))"
  unfolding assertMatch_def by (rule site_evolves.ensure)

lemma site_hashPassword [site_rules]: "site_evolves gone s (snd (hashPassword E plain s))"
  unfolding hashPassword_def by (intro site_evolves.rules site_rules)

lemma site_new_otp:
  assumes "ot_id row = nextId (backend s)" and "ot_attempts row = 0"
  shows "site_evolves gone s (s\<lparr>backend := (backend s)\<lparr>nextId := Suc (nextId (backend s))\<rparr>,
    otpSessions := createRow row (otpSessions s)\<rparr>)"
  unfolding site_evolves_def mail_kept_def
  using assms
  by (auto simp: site_ok_def memory_holds_def MAX_ATTEMPTS_def less_Suc_eq createRow_def
      intro!: table_evolves_createRow [unfolded createRow_def])

lemma site_then_new_otp:
  assumes "\<And>oid t. ot_id (row oid) = oid \<and> ot_attempts (row oid) = 0"
    and "\<And>oid t. site_evolves gone t (snd (k oid t))"
  shows "site_evolves gone s (snd (andThen siteId (\<lambda>oid.
    andThen (writes (\<lambda>s. s\<lparr>otpSessions := createRow (row oid) (otpSessions s)\<rparr>)) (\<lambda>_. k oid)) s))"
  using site_evolves.trans [OF site_new_otp [of "row (nextId (backend s))" s] assms(2)] assms(1)
  by simp

lemma site_new_token:
  assumes "rt_jti row = nextId (backend s)" and "nextId (backend s) < m"
  shows "site_evolves gone s (s\<lparr>backend := (backend s)\<lparr>nextId := m\<rparr>,
    refreshTokens := createRow row (refreshTokens s)\<rparr>)"
  unfolding site_evolves_def mail_kept_def
  using assms
  by (auto simp: site_ok_def memory_holds_def createRow_def dest: less_trans
      intro!: table_evolves_createRow [unfolded createRow_def])

lemma updateOtp_keeps:
  assumes "site_ok s"
    and "\<And>r. r \<in> set (otpSessions s) \<Longrightarrow> ot_id r = oid \<Longrightarrow>
      otp_step r (f r) \<and> ot_attempts (f r) \<le> MAX_ATTEMPTS"
  shows "site_evolves gone s (snd (updateOtp oid f s))"
proof -
  let ?rows = "updateMany (\<lambda>r. ot_id r = oid) f (otpSessions s)"
  have ids: "map ot_id ?rows = map ot_id (otpSessions s)"
    using assms(2) by (auto simp: updateMany_def otp_step_def)
  have "site_ok (s\<lparr>otpSessions := ?rows\<rparr>)"
    using assms by (fastforce simp: site_ok_def ids set_updateMany otp_step_def)
  then have "site_evolves gone s (s\<lparr>otpSessions := ?rows\<rparr>)"
    using assms(2) by (auto simp: site_evolves_def mail_kept_def memory_holds_def intro!: table_evolves_updateMany)
  then show ?thesis
    by (simp add: updateOtp_def split: option.split)
qed

lemma site_updateOtp:
  assumes "\<And>r. site_ok s \<Longrightarrow> r \<in> set (otpSessions s) \<Longrightarrow> ot_id r = oid \<Longrightarrow>
      otp_step r (f r) \<and> ot_attempts (f r) \<le> MAX_ATTEMPTS"
  shows "site_evolves gone s (snd (updateOtp oid f s))"
proof (cases "site_ok s")
  case True
  show ?thesis
    by (rule updateOtp_keeps [OF True]) (use True assms in blast)
qed (auto simp: site_evolves_def mail_kept_def updateOtp_def split: option.split)

lemma site_isRevoked [site_rules]: "site_evolves gone s (snd (isRefreshTokenRevoked jti s))"
  by (auto simp: isRefreshTokenRevoked_def site_evolves_def site_ok_def memory_holds_def mail_kept_def
      split: option.split)

lemma isRevoked_False: "isRefreshTokenRevoked jti s = (Inr False, s') \<Longrightarrow> memoryRevoked s' jti = None"
  by (auto simp: isRefreshTokenRevoked_def split: option.splits if_splits)

lemma revokeRefreshToken_apply:
  "revokeRefreshToken jti e s = (Inr (), s\<lparr>memoryRevoked := (memoryRevoked s)
     (jti \<mapsto> clock (backend s) + max 1 ((e - clock (backend s)) div 1000) * 1000)\<rparr>)"
  by (simp add: revokeRefreshToken_def redis_revokeRefreshToken_def)

lemma token_below: "site_ok s \<Longrightarrow> tokenOf jti s = Some r \<Longrightarrow> jti < nextId (backend s)"
  by (auto simp: site_ok_def tokenOf_def dest!: findUnique_SomeD)

lemma site_revoke_first:
  assumes "memoryRevoked s jti = None" and "tokenOf jti s = Some r"
  shows "site_evolves gone s (snd (revokeRefreshToken jti e s))"
  using assms token_below [OF _ assms(2)]
  by (auto simp: revokeRefreshToken_apply site_evolves_def site_ok_def memory_holds_def mail_kept_def)

lemma site_revoke_both:
  assumes "tokenOf jti s \<noteq> None"
  shows "site_evolves gone s (snd (andThen (revokeRefreshToken jti e)
    (\<lambda>_. updateToken jti (\<lambda>r. r\<lparr>rt_revokedAt := Some t\<rparr>)) s))"
proof (cases "site_ok s")
  case ok: True
  let ?f = "\<lambda>r. r\<lparr>rt_revokedAt := Some t\<rparr>"
  let ?x = "clock (backend s) + max 1 ((e - clock (backend s)) div 1000) * 1000"
  define s' where "s' = s\<lparr>memoryRevoked := (memoryRevoked s)(jti \<mapsto> ?x),
      refreshTokens := updateMany (\<lambda>r. rt_jti r = jti) ?f (refreshTokens s)\<rparr>"
  have eq: "snd (andThen (revokeRefreshToken jti e) (\<lambda>_. updateToken jti ?f) s) = s'"
    using assms by (auto simp: s'_def andThen_def revokeRefreshToken_apply updateToken_def
        tokenOf_def split: option.splits)
  have tab: "table_evolves token_step (\<lambda>_. True) (refreshTokens s) (refreshTokens s')"
    unfolding s'_def by (auto simp: token_step_def intro!: table_evolves_updateMany)
  have "map rt_jti (refreshTokens s') = map rt_jti (refreshTokens s)"
    unfolding s'_def by (simp add: updateMany_def)
  moreover have "\<forall>r \<in> set (refreshTokens s'). rt_jti r < nextId (backend s')"
    using ok unfolding s'_def by (auto simp: site_ok_def set_updateMany)
  moreover have "\<forall>k x. memoryRevoked s' k = Some x \<longrightarrow> k < nextId (backend s')"
    using ok token_below [OF ok] assms by (auto simp: s'_def site_ok_def)
  moreover have frame: "otpSessions s' = otpSessions s" "backend s' = backend s"
    by (simp_all add: s'_def)
  ultimately have ok': "site_ok s'"
    using ok unfolding site_ok_def by simp
  have "tokenOf jti s' = map_option ?f (tokenOf jti s)"
    unfolding s'_def tokenOf_def by (auto simp: findUnique_updateMany option.map_comp o_def
        dest: findUnique_SomeD intro!: option.map_cong)
  then have "revoked_row jti s'"
    using assms by (auto simp: revoked_row_def)
  then have "memory_holds s s'"
    by (auto simp: memory_holds_def s'_def)
  then have "site_ok s' \<and> clock (backend s) \<le> clock (backend s') \<and>
      nextId (backend s) \<le> nextId (backend s') \<and>
      table_evolves token_step (\<lambda>_. True) (refreshTokens s) (refreshTokens s') \<and>
      table_evolves otp_step (\<lambda>_. True) (otpSessions s) (otpSessions s') \<and> memory_holds s s'"
    using ok' tab frame by simp
  moreover have "mail_kept gone s s'"
    by (simp add: mail_kept_def s'_def)
  ultimately show ?thesis
    by (simp add: eq site_evolves_def)
qed (auto simp: site_evolves_def mail_kept_def andThen_def revokeRefreshToken_apply updateToken_def split: option.split)

lemma tokens_after_revoking:
  "tokenOf k (snd (andThen (revokeRefreshToken jti e)
    (\<lambda>_. updateToken jti (\<lambda>r. r\<lparr>rt_revokedAt := Some t\<rparr>)) s)) = None \<longleftrightarrow> tokenOf k s = None"
  by (auto simp: andThen_def revokeRefreshToken_apply updateToken_def tokenOf_def
      findUnique_updateMany split: option.splits)

lemma site_revoke_each:
  assumes "\<And>r. r \<in> set rows \<Longrightarrow> tokenOf (rt_jti r) s \<noteq> None"
  shows "site_evolves gone s (snd (forEach rows (\<lambda>stored.
    andThen (revokeRefreshToken (rt_jti stored) (rt_expiresAt stored))
      (\<lambda>_. updateToken (rt_jti stored) (\<lambda>r. r\<lparr>rt_revokedAt := Some t\<rparr>))) s))"
  using assms
proof (induction rows arbitrary: s)
  case Nil
  then show ?case by simp
next
  case (Cons row rows)
  show ?case
    unfolding forEach.simps
  proof (rule site_evolves.andThen)
    let ?pair = "andThen (revokeRefreshToken (rt_jti row) (rt_expiresAt row))
      (\<lambda>_. updateToken (rt_jti row) (\<lambda>r. r\<lparr>rt_revokedAt := Some t\<rparr>))"
    show "site_evolves gone s (snd (?pair s))"
      by (rule site_revoke_both) (simp add: Cons.prems)
    fix a s'
    assume "?pair s = (Inr a, s')"
    then have "s' = snd (?pair s)" by simp
    then have "tokenOf (rt_jti r) s' \<noteq> None" if "r \<in> set rows" for r
      using Cons.prems [of r] that tokens_after_revoking [of "rt_jti r"] by simp
    then show "site_evolves gone s' (snd (forEach rows (\<lambda>stored.
        andThen (revokeRefreshToken (rt_jti stored) (rt_expiresAt stored))
          (\<lambda>_. updateToken (rt_jti stored) (\<lambda>r. r\<lparr>rt_revokedAt := Some t\<rparr>))) s'))"
      by (rule Cons.IH)
  qed
qed

section \<open>The calls\<close>

lemma latestSession_SomeD: "latestSession p s = Some r \<Longrightarrow> r \<in> set (otpSessions s) \<and> p r"
proof -
  assume "latestSession p s = Some r"
  then have "r \<in> set (orderByDesc ot_createdAt (findMany p (otpSessions s)))"
    by (auto simp: latestSession_def simp del: set_orderByDesc split: list.splits)
  then show ?thesis
    by (simp add: findMany_def)
qed

lemma site_generateCode [site_rules]: "site_evolves gone s (snd (generateCode E s))"
  unfolding generateCode_def by (intro site_evolves.rules site_rules)

lemma site_deliverOtp [site_rules]: "site_evolves gone s (snd (deliverOtp E recipient code s))"
  unfolding deliverOtp_def deliverOtpEmail_def deliverOtpSms_def
  by (intro site_evolves.rules site_rules site_evolves.writes site_frame) simp_all

lemma site_requestOtp [site_rules]: "site_evolves gone s (snd (requestOtp E value ip device s))"
  unfolding requestOtp_def Let_def
  by (intro site_evolves.rules site_rules site_then_new_otp) simp_all

lemma latestSession_row:
  assumes "site_ok s" and "latestSession p s = Some otp"
    and "r \<in> set (otpSessions s)" and "ot_id r = ot_id otp"
  shows "r = otp \<and> p r"
  using assms latestSession_SomeD [OF assms(2)]
    distinct_key_unique [of ot_id "otpSessions s" r otp]
  by (auto simp: site_ok_def)

lemma site_verifyOtp [site_rules]: "site_evolves gone s (snd (verifyOtp E value code s))"
  unfolding verifyOtp_def
proof (intro site_evolves.rules site_rules, goal_cases)
  case (1 n s1 t s2 otp)
  show ?case
    by (rule site_updateOtp) (use 1 in \<open>auto simp: otp_step_def dest!: latestSession_row\<close>)
next
  case (2 n s1 t s2 otp)
  have "ot_attempts r \<le> MAX_ATTEMPTS" if "site_ok s2" "r \<in> set (otpSessions s2)" for r
    using that by (simp add: site_ok_def)
  then show ?case
    by (intro site_updateOtp) (use 2 in \<open>auto simp: otp_step_def dest!: latestSession_row\<close>)
qed

lemma site_issueTokens [site_rules]: "site_evolves gone s (snd (issueTokens E payload family s))"
  by (cases family) (auto simp: issueTokens_def Let_def intro!: site_new_token)

lemma site_refreshTokensOf [site_rules]: "site_evolves gone s (snd (refreshTokensOf E tok s))"
proof (cases "verifyAsync E (JWT_REFRESH_SECRET E) (clock (backend s)) tok")
  case (Some c)
  show ?thesis
  proof (cases c)
    case (RefreshClaims u jti f)
    show ?thesis
      unfolding refreshTokensOf_def
      by (simp add: Some RefreshClaims, rule site_evolves.andThen [OF site_isRevoked],
          intro site_evolves.rules site_rules site_revoke_first)
        (simp_all add: isRevoked_False loadAuthUserPayload_def)
  qed (simp_all add: refreshTokensOf_def Some)
qed (simp add: refreshTokensOf_def)

text \<open>Services of the other schemas neither turn back the clock nor the counter of keys.\<close>

definition ticks :: "sys \<Rightarrow> sys \<Rightarrow> bool" where
  "ticks b b' \<longleftrightarrow> clock b \<le> clock b' \<and> nextId b \<le> nextId b'"

interpretation ticks: state_preorder ticks
  by standard (auto simp: ticks_def)

lemma ticks_updateShift: "ticks b (snd (updateShift gid f b))"
  by (auto simp: updateShift_def ticks_def split: option.split)

lemma ticks_autoStartOnLogin: "ticks b (snd (autoStartOnLogin gid b))"
  unfolding autoStartOnLogin_def startShift_def assertDispatchEligible_def assertProfileEligible_def
    now_def
  by (intro ticks.rules ticks.tryCatch ticks.writes) (simp_all add: ticks_def)

lemma site_ticks: "(\<And>b. ticks b (snd (m b))) \<Longrightarrow> site_evolves gone s (snd (inBackend m s))"
  by (rule site_inBackend) (simp add: ticks_def)

lemma site_autoStart [site_rules]: "site_evolves gone s (snd (inBackend (autoStartOnLogin gid) s))"
  by (rule site_ticks) (rule ticks_autoStartOnLogin)

lemma site_loadAuthUserPayload [site_rules]:
  "site_evolves gone s (snd (loadAuthUserPayload userId org s))"
  unfolding loadAuthUserPayload_def by (rule site_evolves.reads)

lemma site_summarizeOrg [site_rules]: "site_evolves gone s (snd (summarizeOrg m s))"
  unfolding summarizeOrg_def
  by (intro site_evolves.rules site_ticks)
    (simp_all add: ticks_def getBookingEligibility_def getPrimaryLocation_def Let_def)

lemma site_issueSetupToken [site_rules]: "site_evolves gone s (snd (issueSetupToken E uid s))"
  by (simp add: issueSetupToken_def)

lemma site_buildAuthResponse [site_rules]: "site_evolves gone s (snd (buildAuthResponse E uid b s))"
  unfolding buildAuthResponse_def by (intro site_evolves.rules site_rules)

lemma site_assertUserCanSignIn [site_rules]: "site_evolves gone s (snd (assertUserCanSignIn u s))"
  unfolding assertUserCanSignIn_def Let_def by (intro site_evolves.rules site_rules)

lemma site_signInRequestOtp [site_rules]: "site_evolves gone s (snd (signInRequestOtp E value ip device s))"
  unfolding signInRequestOtp_def by (intro site_evolves.rules site_rules)

lemma site_signInVerifyOtp [site_rules]: "site_evolves gone s (snd (signInVerifyOtp E value code s))"
  unfolding signInVerifyOtp_def by (intro site_evolves.rules site_rules)

lemma site_signInWithPassword [site_rules]: "site_evolves gone s (snd (signInWithPassword E login pw s))"
  unfolding signInWithPassword_def by (intro site_evolves.rules site_rules)

lemma site_findUserForPasswordReset [site_rules]:
  "site_evolves gone s (snd (findUserForPasswordReset login s))"
  unfolding findUserForPasswordReset_def by (intro site_evolves.rules site_rules)

lemma site_passwordResetRequest [site_rules]: "site_evolves gone s (snd (passwordResetRequest E login s))"
  unfolding passwordResetRequest_def by (intro site_evolves.rules site_rules)

lemma site_revokeAll [site_rules]: "site_evolves gone s (snd (revokeAllRefreshTokensForUser uid s))"
proof -
  have "tokenOf (rt_jti r) s \<noteq> None" if "r \<in> set (refreshTokens s)" for r
    using that by (auto simp: tokenOf_def findUnique_None_iff)
  then show ?thesis
    unfolding revokeAllRefreshTokensForUser_def
    by (simp, intro site_revoke_each) (auto simp: findMany_def)
qed

lemma site_passwordResetConfirm [site_rules]:
  "site_evolves gone s (snd (passwordResetConfirm E login code pw confirm s))"
  unfolding passwordResetConfirm_def by (intro site_evolves.rules site_rules)

lemma site_verifySetupToken [site_rules]: "site_evolves gone s (snd (verifySetupToken E tok s))"
  by (auto simp: verifySetupToken_def split: option.split claims.split)

lemma site_setPassword [site_rules]: "site_evolves gone s (snd (setPassword E pw confirm tok who s))"
  unfolding setPassword_def by (intro site_evolves.rules site_rules)

lemma site_setContext [site_rules]: "site_evolves gone s (snd (setContext E uid org s))"
  unfolding setContext_def by (intro site_evolves.rules site_rules)

lemma site_token_logout [site_rules]: "site_evolves gone s (snd (token_logout E tok s))"
proof (cases "verifyAsync E (JWT_REFRESH_SECRET E) (clock (backend s)) tok")
  case (Some c)
  show ?thesis
  proof (cases c)
    case (RefreshClaims u jti f)
    show ?thesis
      unfolding token_logout_def
      by (simp add: Some RefreshClaims, intro site_evolves.tryCatch site_evolves.reads_then
          site_evolves.option_split_handler site_evolves.ok site_revoke_both) simp
  qed (simp_all add: token_logout_def Some)
qed (simp add: token_logout_def)

lemma site_logout [site_rules]: "site_evolves gone s (snd (logout E tok uid s))"
  unfolding logout_def by (intro site_evolves.rules site_rules)

lemma site_refresh [site_rules]: "site_evolves gone s (snd (refresh E tok s))"
  unfolding refresh_def by (rule site_refreshTokensOf)

lemma site_jwt_validate [site_rules]: "site_evolves gone s (snd (jwt_validate E header s))"
  unfolding jwt_validate_def by (intro site_evolves.rules site_rules)

lemma site_jwtAuthGuard [site_rules]: "site_evolves gone s (snd (jwtAuthGuard E r header s))"
  unfolding jwtAuthGuard_def by (intro site_evolves.rules site_rules)

lemma site_cacheGet [site_rules]: "site_evolves gone s (snd (cacheGet key s))"
  by (auto simp: cacheGet_def split: option.split intro!: site_frame)

lemma site_resolve [site_rules]: "site_evolves gone s (snd (resolve E actor s))"
  unfolding resolve_def loadFromDb_def cacheSet_def
  by (intro site_evolves.rules site_rules site_evolves.writes site_frame) simp_all

lemma site_permissionsGuard [site_rules]: "site_evolves gone s (snd (permissionsGuard E r who s))"
  unfolding permissionsGuard_def Let_def by (intro site_evolves.rules site_rules)

lemma site_invalidateUser [site_rules]: "site_evolves gone s (snd (invalidateUser uid s))"
  unfolding invalidateUser_def cacheDelByUser_def
  by (intro site_evolves.writes site_frame) simp_all

end
