(* ===== verification/Documents.thy ===== *)
theory Documents
  imports Permissions
begin

text \<open>
  Stored documents (\<open>documents/documents.service.ts\<close>): uploads within a size and of three types, and
  who may read them.  The permissions of the caller are those the permission guard put on the
  request.  A content is a string of bytes.
\<close>

section \<open>Uploads\<close>

definition ALLOWED_DOCUMENT_MIME_TYPES :: "string list" where
  "ALLOWED_DOCUMENT_MIME_TYPES = [''image/jpeg'', ''image/png'', ''application/pdf'']"

definition ADMIN_VERIFICATION_READ :: string where
  "ADMIN_VERIFICATION_READ = ''admin:verification:read''"

definition validateUpload :: "'tok env \<Rightarrow> string \<Rightarrow> string \<Rightarrow> ('s, unit) handler" where
  "validateUpload E buffer mimeType =
     andThen (ensure (\<not> int (length buffer) > DOCUMENT_MAX_BYTES E) (BadRequest ''DOCUMENT_TOO_LARGE'')) (\<lambda>_.
     ensure (mimeType \<in> set ALLOWED_DOCUMENT_MIME_TYPES) (BadRequest ''DOCUMENT_MIME_NOT_ALLOWED''))"

record upload_result =
  ur_documentId :: id
  ur_mimeType :: string
  ur_sizeBytes :: int

text \<open>The storage key is made of the uploader and the fresh identifier and so is never taken.\<close>

definition upload :: "'tok env \<Rightarrow> id \<Rightarrow> string \<Rightarrow> string \<Rightarrow> upload_result call" where
  "upload E actorSub buffer mimeType =
     andThen (validateUpload E buffer mimeType) (\<lambda>_.
     andThen siteId (\<lambda>documentId. andThen siteNow (\<lambda>t.
     andThen (writes (\<lambda>s. s\<lparr>storedDocuments := createRow
       \<lparr>sd_id = documentId, sd_mimeType = mimeType, sd_sizeBytes = int (length buffer),
        sd_content = Some buffer, sd_uploadedBy = Some actorSub, sd_createdAt = t\<rparr>
       (storedDocuments s)\<rparr>)) (\<lambda>_.
     andThen (siteAudit actorSub ''DOCUMENT_UPLOADED'' documentId) (\<lambda>_.
     ok \<lparr>ur_documentId = documentId, ur_mimeType = mimeType, ur_sizeBytes = int (length buffer)\<rparr>)))))"

section \<open>Reading\<close>

definition isLinkedForAdminReview :: "id \<Rightarrow> bool call" where
  "isLinkedForAdminReview documentId = reads (\<lambda>s.
     findFirst (\<lambda>d. od_documentId d = documentId) (orgDocuments s) \<noteq> None \<or>
     findFirst (\<lambda>c. fst c = documentId) (certificationDocuments s) \<noteq> None)"

definition assertCanAccess :: "id \<Rightarrow> auth_user \<Rightarrow> string list \<Rightarrow> unit call" where
  "assertCanAccess documentId actor permissions =
     andThen (reads (documentOf documentId)) (\<lambda>found.
     andThen (orThrow found (NotFound ''Document not found'')) (\<lambda>doc.
     if sd_uploadedBy doc = Some (sub actor) then ok () else
     andThen (case actorGuardianId actor of None \<Rightarrow> ok None
       | Some gid \<Rightarrow> reads (\<lambda>s. findFirst (\<lambda>c. c = (documentId, gid)) (certificationDocuments s)))
       (\<lambda>ownCert.
     if ownCert \<noteq> None then ok () else
     andThen (if ADMIN_VERIFICATION_READ \<in> set permissions then isLinkedForAdminReview documentId
       else ok False) (\<lambda>linked.
     ensure linked (NotFound ''Document not found'')))))"

text \<open>The identifier, the type, the size as text and the instant of the upload.\<close>

definition getMetadata :: "id \<Rightarrow> auth_user \<Rightarrow> string list \<Rightarrow> (id \<times> string \<times> string \<times> instant) call" where
  "getMetadata documentId actor permissions =
     andThen (assertCanAccess documentId actor permissions) (\<lambda>_.
     andThen (reads (documentOf documentId)) (\<lambda>found.
     andThen (orThrow found (NotFound ''Document not found'')) (\<lambda>doc.
     ok (sd_id doc, sd_mimeType doc, showInt (sd_sizeBytes doc), sd_createdAt doc))))"

definition loadDocumentContent :: "id \<Rightarrow> (string \<times> string) call" where
  "loadDocumentContent documentId =
     andThen (reads (documentOf documentId)) (\<lambda>found.
     andThen (orThrow found (NotFound ''Document not found'')) (\<lambda>doc.
     andThen (orThrow (sd_content doc) (NotFound ''Document not found'')) (\<lambda>content.
     ok (content, sd_mimeType doc))))"

definition getContent :: "id \<Rightarrow> auth_user \<Rightarrow> string list \<Rightarrow> (string \<times> string) call" where
  "getContent documentId actor permissions =
     andThen (assertCanAccess documentId actor permissions) (\<lambda>_. loadDocumentContent documentId)"

definition getVerificationDocumentContent ::
  "id \<Rightarrow> auth_user \<Rightarrow> string list \<Rightarrow> (string \<times> string) call" where
  "getVerificationDocumentContent documentId actor permissions =
     andThen (ensure (ADMIN_VERIFICATION_READ \<in> set permissions) (Forbidden ''FORBIDDEN'')) (\<lambda>_.
     andThen (isLinkedForAdminReview documentId) (\<lambda>linked.
     andThen (ensure linked (NotFound ''Document not found'')) (\<lambda>_.
     loadDocumentContent documentId)))"

section \<open>Who can read a document\<close>

text \<open>
  Its uploader, the guardian whose certification it proves, and a reviewer once it is linked to an
  organization or a certification.
\<close>

lemma assertCanAccess_iff:
  "fst (assertCanAccess did actor permissions s) = Inr () \<longleftrightarrow>
     (\<exists>doc. documentOf did s = Some doc \<and>
       (sd_uploadedBy doc = Some (sub actor) \<or>
        (\<exists>gid. actorGuardianId actor = Some gid \<and> (did, gid) \<in> set (certificationDocuments s)) \<or>
        ADMIN_VERIFICATION_READ \<in> set permissions \<and>
          (did \<in> od_documentId ` set (orgDocuments s) \<or> did \<in> fst ` set (certificationDocuments s))))"
proof (cases "documentOf did s")
  case (Some doc)
  show ?thesis
    by (cases "actorGuardianId actor")
      (auto simp: assertCanAccess_def Some isLinkedForAdminReview_def ensure_def findFirst_None_iff
        image_iff Bex_def simp del: not_None_eq)
qed (simp add: assertCanAccess_def)

text \<open>A document that was uploaded is read back by its uploader as it was sent.\<close>

lemma upload_content:
  assumes "upload E (sub actor) buffer mimeType s = (Inr r, s')"
    and "documentOf (nextId (backend s)) s = None"
  shows "getContent (ur_documentId r) actor permissions s' = (Inr (buffer, mimeType), s') \<and>
    mimeType \<in> set ALLOWED_DOCUMENT_MIME_TYPES \<and> int (length buffer) \<le> DOCUMENT_MAX_BYTES E"
  using assms
  by (auto simp: upload_def validateUpload_def ensure_def siteAudit_def inBackend_def auditLog_def
      getContent_def assertCanAccess_def loadDocumentContent_def documentOf_def createRow_def
      findUnique_append andThen_def split: if_splits)

end
