(* ===== verification/Onboarding.thy ===== *)
theory Onboarding
  imports Documents
begin

text \<open>
  Registration of a client (\<open>auth/register-onboarding.service.ts\<close>, \<open>onboarding-token.util.ts\<close>,
  \<open>policies/org-verification-documents.policy.ts\<close>, \<open>regions/district-coordinates.ts\<close>): a phone is
  verified, then profile, business, payment, location and documents are filled in under an
  onboarding token, and the application is submitted.
\<close>

section \<open>Districts\<close>

definition DISTRICT_COORDINATES :: "(string \<times> rat \<times> rat) list" where
  "DISTRICT_COORDINATES =
    [(''Gasabo'', - 19441 / 10000, 301043 / 10000),
     (''Kicukiro'', - 19897 / 10000, 301129 / 10000),
     (''Nyarugenge'', - 19706 / 10000, 301044 / 10000),
     (''Bugesera'', - 21557 / 10000, 302306 / 10000),
     (''Gatsibo'', - 16728 / 10000, 304348 / 10000),
     (''Kayonza'', - 1858 / 1000, 305783 / 10000),
     (''Kirehe'', - 2165 / 1000, 306438 / 10000),
     (''Ngoma'', - 23144 / 10000, 305456 / 10000),
     (''Nyagatare'', - 12928 / 10000, 306786 / 10000),
     (''Rwamagana'', - 19487 / 10000, 304347 / 10000),
     (''Huye'', - 25967 / 10000, 297394 / 10000),
     (''Kamonyi'', - 20311 / 10000, 298789 / 10000),
     (''Muhanga'', - 20838 / 10000, 29754 / 1000),
     (''Nyamagabe'', - 2484 / 1000, 29559 / 1000),
     (''Nyanza'', - 23517 / 10000, 297509 / 10000),
     (''Nyaruguru'', - 2481 / 1000, 29589 / 1000),
     (''Ruhango'', - 2256 / 1000, 29789 / 1000),
     (''Karongi'', - 2062 / 1000, 29348 / 1000),
     (''Ngororero'', - 1868 / 1000, 2964 / 100),
     (''Nyabihu'', - 1658 / 1000, 2952 / 100),
     (''Nyamasheke'', - 2408 / 1000, 29088 / 1000),
     (''Rubavu'', - 1693 / 1000, 29256 / 1000),
     (''Rutsiro'', - 2067 / 1000, 29344 / 1000),
     (''Burera'', - 1558 / 1000, 2986 / 100),
     (''Gakenke'', - 1672 / 1000, 29758 / 1000),
     (''Gicumbi'', - 1576 / 1000, 30065 / 1000),
     (''Musanze'', - 1499 / 1000, 29635 / 1000),
     (''Rulindo'', - 1741 / 1000, 2993 / 100)]"

definition normalizeDistrictName :: "string \<Rightarrow> string" where
  "normalizeDistrictName district =
     (let trimmed = trimBy jsWhitespace district in
      case find (\<lambda>d. List.map toLowerChar d = List.map toLowerChar trimmed)
          (List.map fst DISTRICT_COORDINATES) of
        Some d \<Rightarrow> d | None \<Rightarrow> trimmed)"

text \<open>No district is taken to be named like a property every JavaScript object has.\<close>

definition resolveDistrictCoordinates :: "string \<Rightarrow> (string \<times> rat \<times> rat) option" where
  "resolveDistrictCoordinates district =
     find (\<lambda>d. fst d = normalizeDistrictName district) DISTRICT_COORDINATES"

section \<open>Documents an application needs\<close>

definition INDIVIDUAL_ALLOWED :: "document_type list" where
  "INDIVIDUAL_ALLOWED = [NATIONAL_ID, TIN_CERTIFICATE]"

definition BUSINESS_ALLOWED :: "document_type list" where
  "BUSINESS_ALLOWED = [TIN_CERTIFICATE, BUSINESS_REGISTRATION]"

definition getRequiredDocumentOptions :: "org_type \<Rightarrow> document_type list" where
  "getRequiredDocumentOptions orgType = (if orgType = INDIVIDUAL then INDIVIDUAL_ALLOWED else BUSINESS_ALLOWED)"

definition isDocumentTypeAllowedForOrg :: "org_type \<Rightarrow> document_type \<Rightarrow> bool" where
  "isDocumentTypeAllowedForOrg orgType documentType \<longleftrightarrow>
     documentType = OTHER_DOCUMENT \<or> documentType \<in> set (getRequiredDocumentOptions orgType)"

definition hasSatisfyingVerificationDocument :: "org_type \<Rightarrow> document_type list \<Rightarrow> bool" where
  "hasSatisfyingVerificationDocument orgType documentTypes =
     (let satisfying = filter (\<lambda>t. t \<noteq> OTHER_DOCUMENT) documentTypes in
      if orgType = INDIVIDUAL then list_ex (\<lambda>t. t \<in> set INDIVIDUAL_ALLOWED) satisfying
      else list_ex (\<lambda>t. t \<in> set BUSINESS_ALLOWED) satisfying)"

section \<open>The onboarding token\<close>

record onboarding_context =
  oc_userId :: id
  oc_organizationId :: "id option"
  oc_phone :: string

definition membershipsOf :: "id \<Rightarrow> site \<Rightarrow> org_user list" where
  "membershipsOf userId s = findMany (\<lambda>m. m_userId m = userId) (orgUsers (backend s))"

text \<open>\<open>take: 1, orderBy: { createdAt: 'asc' }\<close>: memberships are kept in the order of their creation.\<close>

definition firstOrg :: "id \<Rightarrow> site \<Rightarrow> id option" where
  "firstOrg userId s = (case membershipsOf userId s of [] \<Rightarrow> None | m # _ \<Rightarrow> Some (m_organizationId m))"

definition resolveOnboardingContext :: "'tok env \<Rightarrow> 'tok option \<Rightarrow> onboarding_context call" where
  "resolveOnboardingContext E header =
     andThen (verifyOnboardingToken E header) (\<lambda>(userId, tokenOrg).
     andThen (reads (userOf userId)) (\<lambda>found.
     andThen (orThrow found (Unauthorized ''ONBOARDING_TOKEN_INVALID'')) (\<lambda>u.
     andThen (ensure (u_onboardingCompletedAt u = None) (Unauthorized ''ONBOARDING_ALREADY_COMPLETED'')) (\<lambda>_.
     andThen (ensure (u_status u = U_PENDING_VERIFICATION) (Unauthorized ''ONBOARDING_TOKEN_INVALID'')) (\<lambda>_.
     andThen (reads (firstOrg userId)) (\<lambda>membership.
     andThen (ensure (\<not> (tokenOrg \<noteq> None \<and> membership \<noteq> None \<and> membership \<noteq> tokenOrg))
       (Unauthorized ''ONBOARDING_TOKEN_INVALID'')) (\<lambda>_.
     ok \<lparr>oc_userId = userId,
         oc_organizationId = (case tokenOrg of Some org \<Rightarrow> Some org | None \<Rightarrow> membership),
         oc_phone = u_phoneNumber u\<rparr>)))))))"

definition toOnboardingActor :: "onboarding_context \<Rightarrow> auth_user" where
  "toOnboardingActor ctx = \<lparr>sub = oc_userId ctx, roles = [], activeOrgId = oc_organizationId ctx,
     orgId = oc_organizationId ctx,
     organizationIds = (case oc_organizationId ctx of None \<Rightarrow> [] | Some org \<Rightarrow> [org]),
     actorGuardianId = None, phone = oc_phone ctx, activeRole = CLIENT_OWNER\<rparr>"

definition requireOnboardingOrg :: "onboarding_context \<Rightarrow> (onboarding_context \<times> id) call" where
  "requireOnboardingOrg ctx =
     andThen (orThrow (oc_organizationId ctx) (Unauthorized ''ONBOARDING_ORG_REQUIRED'')) (\<lambda>org. ok (ctx, org))"

definition onboardingOrg :: "'tok env \<Rightarrow> 'tok option \<Rightarrow> (onboarding_context \<times> id) call" where
  "onboardingOrg E header = andThen (resolveOnboardingContext E header) requireOnboardingOrg"

section \<open>Starting\<close>

definition startRegistration :: "'tok env \<Rightarrow> string \<Rightarrow> otp_answer call" where
  "startRegistration E value = andThen (lift (normalizePhone value)) (\<lambda>normalized.
     requestOtp E normalized None None)"

record 'tok start_answer =
  sa_userId :: id
  sa_organizationId :: "id option"
  sa_onboardingToken :: 'tok

definition setStep :: "id \<Rightarrow> onboarding_step \<Rightarrow> unit call" where
  "setStep userId step = updateUser userId (\<lambda>u. u\<lparr>u_onboardingStep := Some step\<rparr>)"

definition newApplicant :: "id \<Rightarrow> string \<Rightarrow> user" where
  "newApplicant uid number = \<lparr>u_id = uid, u_phoneNumber = number, u_email = None, u_fullName = None,
     u_passwordHash = None, u_passwordSetAt = None, u_status = U_PENDING_VERIFICATION,
     u_isPhoneVerified = True, u_isEmailVerified = False, u_lastLoginAt = None,
     u_onboardingStep = Some PHONE_VERIFIED, u_onboardingCompletedAt = None, u_roles = [CLIENT_OWNER]\<rparr>"

text \<open>The roles are seeded.\<close>

definition verifyRegistrationStart :: "'tok env \<Rightarrow> string \<Rightarrow> string \<Rightarrow> 'tok start_answer call" where
  "verifyRegistrationStart E value code =
     andThen (verifyOtp E value code) (\<lambda>normalized.
     andThen (reads (userByPhone normalized)) (\<lambda>existing.
     andThen (ensure (case existing of None \<Rightarrow> True | Some u \<Rightarrow> u_onboardingCompletedAt u = None)
       (Conflict ''PHONE_ALREADY_REGISTERED'')) (\<lambda>_.
     andThen (case existing of
         Some u \<Rightarrow>
           andThen (reads (firstOrg (u_id u))) (\<lambda>org.
           andThen (updateUser (u_id u) (\<lambda>r. r\<lparr>u_isPhoneVerified := True,
             u_onboardingStep := Some PHONE_VERIFIED\<rparr>)) (\<lambda>_. ok (u_id u, org)))
       | None \<Rightarrow>
           andThen siteId (\<lambda>uid.
           andThen (writes (\<lambda>s. s\<lparr>users := createRow (newApplicant uid normalized) (users s)\<rparr>)) (\<lambda>_.
           ok (uid, None)))) (\<lambda>(userId, organizationId).
     andThen (issueOnboardingToken E userId organizationId) (\<lambda>tok.
     ok \<lparr>sa_userId = userId, sa_organizationId = organizationId, sa_onboardingToken = tok\<rparr>)))))"

section \<open>Filling in\<close>

record profile_dto =
  pd_fullName :: string
  pd_email :: string
  pd_password :: string
  pd_confirmPassword :: string

text \<open>The e-mail column is unique: another user's address is refused by the database.\<close>

definition patchProfile :: "'tok env \<Rightarrow> 'tok option \<Rightarrow> profile_dto \<Rightarrow> onboarding_step call" where
  "patchProfile E header dto =
     andThen (assertMatch (pd_password dto) (pd_confirmPassword dto)) (\<lambda>_.
     andThen (resolveOnboardingContext E header) (\<lambda>ctx.
     andThen (hashPassword E (pd_password dto)) (\<lambda>hashed. andThen siteNow (\<lambda>t.
     andThen (reads (userByEmail (pd_email dto))) (\<lambda>owner.
     andThen (ensure (case owner of None \<Rightarrow> True | Some u \<Rightarrow> u_id u = oc_userId ctx) (PrismaError ''P2002'')) (\<lambda>_.
     andThen (updateUser (oc_userId ctx) (\<lambda>u. u\<lparr>u_fullName := Some (pd_fullName dto),
       u_email := Some (pd_email dto), u_passwordHash := Some hashed, u_passwordSetAt := Some t,
       u_onboardingStep := Some PROFILE_COMPLETE\<rparr>)) (\<lambda>_.
     ok PROFILE_COMPLETE)))))))"

record business_dto =
  bd_legalName :: string
  bd_tradingName :: "string option"
  bd_orgType :: org_type
  bd_tinNumber :: "string option"

text \<open>\<open>undefined\<close> in an update leaves the column alone.\<close>

definition orKeep :: "'a option \<Rightarrow> 'a option \<Rightarrow> 'a option" where
  "orKeep sent stored = (case sent of None \<Rightarrow> stored | Some x \<Rightarrow> Some x)"

text \<open>The tax number of an organization is unique.\<close>

definition tinFree :: "id option \<Rightarrow> string option \<Rightarrow> site \<Rightarrow> bool" where
  "tinFree org tin s = (tin = None \<or>
     list_all (\<lambda>p. op_tinNumber p = tin \<longrightarrow> Some (op_id p) = org) (orgProfiles s))"

definition createOrgRows :: "id \<Rightarrow> business_dto \<Rightarrow> string \<Rightarrow> id call" where
  "createOrgRows userId dto number =
     andThen (reads (tinFree None (bd_tinNumber dto))) (\<lambda>free.
     andThen (ensure free (PrismaError ''P2002'')) (\<lambda>_.
     andThen siteId (\<lambda>org.
     andThen (writes (\<lambda>s. s\<lparr>
       orgProfiles := createRow \<lparr>op_id = org, op_legalName = bd_legalName dto,
         op_tradingName = bd_tradingName dto, op_tinNumber = bd_tinNumber dto,
         op_orgType = bd_orgType dto, op_mobileMoneyProvider = MM_MOMO_MTN,
         op_mobileMoneyPhone = number, op_verificationRejectionReason = None,
         op_applicationSubmittedAt = None\<rparr> (orgProfiles s),
       backend := (backend s)\<lparr>
         orgs := createRow \<lparr>o_id = org, o_verificationStatus = V_PENDING\<rparr> (orgs (backend s)),
         orgUsers := createRow \<lparr>m_organizationId = org, m_userId = userId, m_isOwner = True\<rparr>
           (orgUsers (backend s))\<rparr>\<rparr>)) (\<lambda>_. ok org))))"

definition updateProfile :: "id \<Rightarrow> (org_profile \<Rightarrow> org_profile) \<Rightarrow> unit call" where
  "updateProfile org f = (\<lambda>s. case profileOf org s of
     None \<Rightarrow> (Inl (PrismaError ''P2025''), s)
   | Some _ \<Rightarrow> (Inr (), s\<lparr>orgProfiles := updateMany (\<lambda>p. op_id p = org) f (orgProfiles s)\<rparr>))"

record 'tok business_answer =
  ba_organizationId :: id
  ba_onboardingToken :: 'tok
  ba_requiredDocuments :: "document_type list"

definition patchBusiness :: "'tok env \<Rightarrow> 'tok option \<Rightarrow> business_dto \<Rightarrow> 'tok business_answer call" where
  "patchBusiness E header dto =
     andThen (resolveOnboardingContext E header) (\<lambda>ctx.
     andThen (reads (userOf (oc_userId ctx))) (\<lambda>found.
     andThen (orThrow found (NotFound ''User not found'')) (\<lambda>u.
     andThen (case oc_organizationId ctx of
         None \<Rightarrow> createOrgRows (oc_userId ctx) dto (u_phoneNumber u)
       | Some org \<Rightarrow>
           andThen (reads (tinFree (Some org) (bd_tinNumber dto))) (\<lambda>free.
           andThen (ensure free (PrismaError ''P2002'')) (\<lambda>_.
           andThen (updateProfile org (\<lambda>p. p\<lparr>op_legalName := bd_legalName dto,
             op_tradingName := orKeep (bd_tradingName dto) (op_tradingName p),
             op_tinNumber := orKeep (bd_tinNumber dto) (op_tinNumber p),
             op_orgType := bd_orgType dto\<rparr>)) (\<lambda>_. ok org)))) (\<lambda>org.
     andThen (setStep (oc_userId ctx) PROFILE_COMPLETE) (\<lambda>_.
     andThen (issueOnboardingToken E (oc_userId ctx) (Some org)) (\<lambda>tok.
     ok \<lparr>ba_organizationId = org, ba_onboardingToken = tok,
         ba_requiredDocuments = getRequiredDocumentOptions (bd_orgType dto)\<rparr>))))))"

definition advanceStepAfterPayment :: "id \<Rightarrow> onboarding_step call" where
  "advanceStepAfterPayment userId = andThen (reads (userOf userId)) (\<lambda>found.
     ok (case found of None \<Rightarrow> PROFILE_COMPLETE
       | Some u \<Rightarrow> (case u_onboardingStep u of None \<Rightarrow> PROFILE_COMPLETE
           | Some step \<Rightarrow> if step = DOCUMENTS_UPLOADED \<or> step = PAYMENT_COMPLETE then PAYMENT_COMPLETE
                          else step)))"

definition patchPayment ::
  "'tok env \<Rightarrow> 'tok option \<Rightarrow> mobile_money_provider \<Rightarrow> string \<Rightarrow> onboarding_step call" where
  "patchPayment E header provider number =
     andThen (onboardingOrg E header) (\<lambda>(ctx, org).
     andThen (lift (normalizePhone number)) (\<lambda>mobileMoneyPhone.
     andThen (updateProfile org (\<lambda>p. p\<lparr>op_mobileMoneyProvider := provider,
       op_mobileMoneyPhone := mobileMoneyPhone\<rparr>)) (\<lambda>_.
     advanceStepAfterPayment (oc_userId ctx))))"

record location_dto =
  ld_name :: string
  ld_district :: string
  ld_address :: string
  ld_sector :: "string option"
  ld_cell :: "string option"
  ld_village :: "string option"

definition updateLocationRow :: "id \<Rightarrow> (location_row \<Rightarrow> location_row) \<Rightarrow>
    (location_profile \<Rightarrow> location_profile) \<Rightarrow> unit call" where
  "updateLocationRow lid f g = writes (\<lambda>s. s\<lparr>
     locationProfiles := updateMany (\<lambda>p. lo_id p = lid) g (locationProfiles s),
     backend := (backend s)\<lparr>locations := updateMany (\<lambda>l. l_id l = lid) f (locations (backend s))\<rparr>\<rparr>)"

definition createLocationRow :: "location_row \<Rightarrow> location_profile \<Rightarrow> unit call" where
  "createLocationRow l p = writes (\<lambda>s. s\<lparr>locationProfiles := createRow p (locationProfiles s),
     backend := (backend s)\<lparr>locations := createRow l (locations (backend s))\<rparr>\<rparr>)"

definition primaryLocation :: "id \<Rightarrow> site \<Rightarrow> location_row option" where
  "primaryLocation org s = findFirst (\<lambda>l. l_organizationId l = org \<and> l_isPrimary l) (locations (backend s))"

definition patchLocation :: "'tok env \<Rightarrow> 'tok option \<Rightarrow> location_dto \<Rightarrow> (onboarding_step \<times> string) call" where
  "patchLocation E header dto =
     andThen (onboardingOrg E header) (\<lambda>(ctx, org).
     andThen (orThrow (resolveDistrictCoordinates (ld_district dto)) (BadRequest ''INVALID_DISTRICT''))
       (\<lambda>(district, lat, lon).
     andThen siteNow (\<lambda>t.
     andThen (reads (primaryLocation org)) (\<lambda>existing.
     andThen (case existing of
         Some l \<Rightarrow> updateLocationRow (l_id l)
           (\<lambda>r. r\<lparr>l_district := district, l_coordinatePrecision := DISTRICT_APPROX, l_isPrimary := True\<rparr>)
           (\<lambda>p. p\<lparr>lo_name := ld_name dto, lo_sector := orKeep (ld_sector dto) (lo_sector p),
              lo_cell := orKeep (ld_cell dto) (lo_cell p),
              lo_village := orKeep (ld_village dto) (lo_village p),
              lo_address := Some (ld_address dto), lo_latitude := lat, lo_longitude := lon\<rparr>)
       | None \<Rightarrow> andThen siteId (\<lambda>lid. createLocationRow
           \<lparr>l_id = lid, l_organizationId = org, l_district = district, l_isPrimary = True,
            l_coordinatePrecision = DISTRICT_APPROX, l_createdAt = t\<rparr>
           \<lparr>lo_id = lid, lo_name = ld_name dto, lo_sector = ld_sector dto, lo_cell = ld_cell dto,
            lo_village = ld_village dto, lo_address = Some (ld_address dto), lo_latitude = lat,
            lo_longitude = lon, lo_siteSetupCompletedAt = None, lo_status = ''ACTIVE''\<rparr>)) (\<lambda>_.
     andThen (setStep (oc_userId ctx) PAYMENT_COMPLETE) (\<lambda>_.
     ok (PAYMENT_COMPLETE, district)))))))"

text \<open>The fresh document is linked; the pair of organization and document is never there yet.\<close>

definition registerDocumentUpload ::
  "'tok env \<Rightarrow> 'tok option \<Rightarrow> string \<Rightarrow> string \<Rightarrow> document_type \<Rightarrow> upload_result call" where
  "registerDocumentUpload E header buffer mimeType documentType =
     andThen (onboardingOrg E header) (\<lambda>(ctx, org).
     andThen (reads (profileOf org)) (\<lambda>found.
     andThen (ensure (case found of None \<Rightarrow> True
         | Some p \<Rightarrow> isDocumentTypeAllowedForOrg (op_orgType p) documentType)
       (BadRequest ''DOCUMENT_TYPE_NOT_ALLOWED_FOR_ORG'')) (\<lambda>_.
     andThen (upload E (sub (toOnboardingActor ctx)) buffer mimeType) (\<lambda>uploaded.
     andThen siteId (\<lambda>link.
     andThen (writes (\<lambda>s. s\<lparr>orgDocuments := createRow
       \<lparr>od_id = link, od_organizationId = org, od_documentId = ur_documentId uploaded,
        od_documentType = documentType\<rparr> (orgDocuments s)\<rparr>)) (\<lambda>_.
     andThen (siteAudit (oc_userId ctx) ''ORG_VERIFICATION_DOCUMENT_LINKED'' link) (\<lambda>_.
     andThen (reads (\<lambda>s. countWhere (\<lambda>d. od_organizationId d = org) (orgDocuments s))) (\<lambda>docCount.
     andThen (whenever (docCount \<ge> 1) (setStep (oc_userId ctx) DOCUMENTS_UPLOADED)) (\<lambda>_.
     ok uploaded)))))))))"

section \<open>Status, submission, resumption\<close>

record registration_status =
  rs_onboardingStep :: onboarding_step
  rs_phoneVerified :: bool
  rs_submitted :: bool
  rs_organization :: "(id \<times> org_type \<times> verification_status \<times> string option \<times> string option) option"
  rs_documents :: "document_type list"
  rs_requiredDocuments :: "document_type list"
  rs_primaryLocationId :: "id option"
  rs_canBookJobs :: bool
  rs_needsSiteSetup :: bool
  rs_canSignIn :: bool

definition documentTypesOf :: "id \<Rightarrow> site \<Rightarrow> document_type list" where
  "documentTypesOf org s = List.map od_documentType (findMany (\<lambda>d. od_organizationId d = org) (orgDocuments s))"

definition getRegistrationStatus :: "'tok env \<Rightarrow> 'tok option \<Rightarrow> registration_status call" where
  "getRegistrationStatus E header =
     andThen (resolveOnboardingContext E header) (\<lambda>ctx.
     reads (\<lambda>s.
       let u = userOf (oc_userId ctx) s;
           org = oc_organizationId ctx;
           row = Option.bind org (\<lambda>x. orgOf x (backend s));
           profile = Option.bind org (\<lambda>x. profileOf x s);
           primary = Option.bind org (\<lambda>x. primaryLocation x s);
           submitted = (Option.bind u u_onboardingCompletedAt \<noteq> None);
           orgVerified = (map_option o_verificationStatus row = Some V_VERIFIED);
           primaryPinned = (map_option l_coordinatePrecision primary = Some USER_PINNED)
       in \<lparr>rs_onboardingStep = (case Option.bind u u_onboardingStep of None \<Rightarrow> PHONE_VERIFIED | Some x \<Rightarrow> x),
           rs_phoneVerified = (case u of None \<Rightarrow> False | Some x \<Rightarrow> u_isPhoneVerified x),
           rs_submitted = submitted,
           rs_organization = (case (row, profile) of
               (Some o1, Some p) \<Rightarrow> Some (o_id o1, op_orgType p, o_verificationStatus o1,
                 op_verificationRejectionReason p, op_tinNumber p)
             | _ \<Rightarrow> None),
           rs_documents = (case org of None \<Rightarrow> [] | Some x \<Rightarrow> documentTypesOf x s),
           rs_requiredDocuments = (case profile of None \<Rightarrow> []
             | Some p \<Rightarrow> getRequiredDocumentOptions (op_orgType p)),
           rs_primaryLocationId = map_option l_id primary,
           rs_canBookJobs = (submitted \<and> orgVerified \<and> primaryPinned),
           rs_needsSiteSetup = (submitted \<and> orgVerified \<and> \<not> primaryPinned),
           rs_canSignIn = submitted\<rparr>))"

definition submitRegistration :: "'tok env \<Rightarrow> 'tok option \<Rightarrow> 'tok auth_response call" where
  "submitRegistration E header =
     andThen (onboardingOrg E header) (\<lambda>(ctx, org).
     andThen (reads (userOf (oc_userId ctx))) (\<lambda>foundUser.
     andThen (reads (profileOf org)) (\<lambda>profile.
     andThen (reads (\<lambda>s. Option.bind (primaryLocation org s) (\<lambda>l. addressOf (l_id l) s))) (\<lambda>site.
     andThen (reads (documentTypesOf org)) (\<lambda>docTypes.
     andThen (orThrow foundUser (BadRequest ''INCOMPLETE_ONBOARDING'')) (\<lambda>u.
     andThen (ensure (truthy (u_fullName u) \<and> truthy (u_email u) \<and> truthy (u_passwordHash u))
       (BadRequest ''INCOMPLETE_ONBOARDING'')) (\<lambda>_.
     andThen (orThrow profile (BadRequest ''INCOMPLETE_ONBOARDING'')) (\<lambda>p.
     andThen (ensure (op_legalName p \<noteq> []) (BadRequest ''INCOMPLETE_ONBOARDING'')) (\<lambda>_.
     andThen (ensure (truthy (map_option (trimBy jsWhitespace) (op_tinNumber p)))
       (BadRequest ''TIN_REQUIRED'')) (\<lambda>_.
     andThen (ensure (truthy (Option.bind site lo_address)) (BadRequest ''INCOMPLETE_ONBOARDING'')) (\<lambda>_.
     andThen (ensure (u_isPhoneVerified u) (BadRequest ''PHONE_NOT_VERIFIED'')) (\<lambda>_.
     andThen (ensure (hasSatisfyingVerificationDocument (op_orgType p) docTypes)
       (BadRequest ''DOCUMENTS_REQUIRED'')) (\<lambda>_. andThen siteNow (\<lambda>t.
     andThen (updateUser (oc_userId ctx) (\<lambda>r. r\<lparr>u_status := U_ACTIVE,
       u_onboardingStep := Some SUBMITTED, u_onboardingCompletedAt := Some t\<rparr>)) (\<lambda>_.
     andThen (updateProfile org (\<lambda>r. r\<lparr>op_applicationSubmittedAt := Some t\<rparr>)) (\<lambda>_.
     andThen (siteAudit (oc_userId ctx) ''CLIENT_APPLICATION_SUBMITTED'' (oc_userId ctx)) (\<lambda>_.
     andThen (emailUser (oc_userId ctx) ''ONBOARDING_APPLICATION_SUBMITTED'') (\<lambda>_.
     andThen (notifyUser (oc_userId ctx) ''Application submitted'') (\<lambda>_.
     issueFullAuthResponse E (oc_userId ctx))))))))))))))))))))"

datatype 'tok resume_answer =
    OtpSent
  | Resumed 'tok registration_status

definition resumeRegistration :: "'tok env \<Rightarrow> string \<Rightarrow> string option \<Rightarrow> 'tok resume_answer call" where
  "resumeRegistration E value password =
     andThen (lift (normalizePhone value)) (\<lambda>number.
     andThen (reads (userByPhone number)) (\<lambda>found.
     andThen (orThrow found (NotFound ''USER_NOT_REGISTERED'')) (\<lambda>u.
     andThen (ensure (u_onboardingCompletedAt u = None) (Conflict ''PHONE_ALREADY_REGISTERED'')) (\<lambda>_.
     if truthy password then
       andThen (orThrow (u_passwordHash u) (Unauthorized ''PASSWORD_NOT_SET'')) (\<lambda>stored.
       andThen (ensure (verifyPassword E (the password) stored) (Unauthorized ''INVALID_CREDENTIALS'')) (\<lambda>_.
       andThen (reads (firstOrg (u_id u))) (\<lambda>org.
       andThen (issueOnboardingToken E (u_id u) org) (\<lambda>tok.
       andThen (getRegistrationStatus E (Some tok)) (\<lambda>status.
       ok (Resumed tok status))))))
     else
       andThen (requestOtp E number None None) (\<lambda>_. ok OtpSent)))))"

end
