(* ===== verification/Organizations.thy ===== *)
theory Organizations
  imports Onboarding
begin

text \<open>
  Organizations, their sites and their members (\<open>organizations/organizations.service.ts\<close>), the
  reviews that open and close an account (\<open>admin/admin-verification.service.ts\<close>), and the caller's
  own account (\<open>users/users.service.ts\<close>).
\<close>

section \<open>Organizations\<close>

definition membershipIn :: "id \<Rightarrow> id \<Rightarrow> site \<Rightarrow> org_user option" where
  "membershipIn org userId s =
     findFirst (\<lambda>m. m_organizationId m = org \<and> m_userId m = userId) (orgUsers (backend s))"

definition assertOwnerOrOps :: "id \<Rightarrow> actor \<Rightarrow> unit call" where
  "assertOwnerOrOps org actor =
     (if isOps actor then ok () else
      andThen (reads (membershipIn org (sub actor))) (\<lambda>membership.
      ensure (case membership of None \<Rightarrow> False | Some m \<Rightarrow> m_isOwner m)
        (Forbidden ''Client owner access required'')))"

text \<open>An assignment of a role to an unknown user breaks the foreign key (code \<open>P2003\<close>).\<close>

definition grantRole :: "id \<Rightarrow> role_code \<Rightarrow> unit call" where
  "grantRole userId r = andThen (reads (userOf userId)) (\<lambda>found.
     andThen (ensure (found \<noteq> None) (PrismaError ''P2003'')) (\<lambda>_.
     updateUser userId (\<lambda>u. if r \<in> set (u_roles u) then u else u\<lparr>u_roles := u_roles u @ [r]\<rparr>)))"

definition createOrganization :: "business_dto \<Rightarrow> actor \<Rightarrow> id call" where
  "createOrganization dto actor =
     andThen (transaction (\<lambda>s s'. s)
       (andThen (grantRole (sub actor) CLIENT_OWNER) (\<lambda>_.
        andThen (reads (userOf (sub actor))) (\<lambda>owner.
        createOrgRows (sub actor) dto
          (case owner of None \<Rightarrow> ''+250700000000'' | Some u \<Rightarrow> u_phoneNumber u))))) (\<lambda>org.
     andThen (siteAudit (sub actor) ''ORG_CREATED'' org) (\<lambda>_. ok org))"

text \<open>An organization with its locations, as the listings include it.\<close>

record organization_view =
  ov_row :: org_row
  ov_profile :: "org_profile option"
  ov_locations :: "location_row list"

definition organizationView :: "id \<Rightarrow> site \<Rightarrow> organization_view option" where
  "organizationView org s = map_option (\<lambda>o1. \<lparr>ov_row = o1, ov_profile = profileOf org s,
     ov_locations = findMany (\<lambda>l. l_organizationId l = org) (locations (backend s))\<rparr>) (orgOf org (backend s))"

definition listForUser :: "actor \<Rightarrow> organization_view list call" where
  "listForUser actor = reads (\<lambda>s.
     List.map_filter (\<lambda>m. organizationView (m_organizationId m) s) (membershipsOf (sub actor) s))"

definition getOrganization :: "id \<Rightarrow> actor \<Rightarrow> organization_view call" where
  "getOrganization org actor =
     andThen (inBackend (assertOrgMember org actor)) (\<lambda>_.
     andThen (reads (organizationView org)) (\<lambda>found.
     orThrow found (NotFound ''Organization not found'')))"

record organization_update =
  ou_legalName :: "string option"
  ou_tradingName :: "string option"
  ou_tinNumber :: "string option"
  ou_orgType :: "org_type option"

definition updateOrganization :: "id \<Rightarrow> organization_update \<Rightarrow> actor \<Rightarrow> unit call" where
  "updateOrganization org dto actor =
     andThen (assertOwnerOrOps org actor) (\<lambda>_.
     andThen (reads (tinFree (Some org) (ou_tinNumber dto))) (\<lambda>free.
     andThen (ensure free (PrismaError ''P2002'')) (\<lambda>_.
     andThen (updateProfile org (\<lambda>p. p\<lparr>op_legalName := given (ou_legalName dto) (op_legalName p),
       op_tradingName := orKeep (ou_tradingName dto) (op_tradingName p),
       op_tinNumber := orKeep (ou_tinNumber dto) (op_tinNumber p),
       op_orgType := given (ou_orgType dto) (op_orgType p)\<rparr>)) (\<lambda>_.
     siteAudit (sub actor) ''ORG_UPDATED'' org))))"

section \<open>Sites\<close>

text \<open>\<open>orderBy: { createdAt: 'desc' }\<close>.\<close>

definition listLocations :: "id \<Rightarrow> actor \<Rightarrow> location_row list call" where
  "listLocations org actor =
     andThen (inBackend (assertOrgMember org actor)) (\<lambda>_.
     reads (\<lambda>s. orderByDesc l_createdAt (findMany (\<lambda>l. l_organizationId l = org) (locations (backend s)))))"

text \<open>The opening hours of a location are not kept.\<close>

record site_dto =
  sl_name :: string
  sl_district :: string
  sl_sector :: "string option"
  sl_cell :: "string option"
  sl_village :: "string option"
  sl_address :: "string option"
  sl_latitude :: rat
  sl_longitude :: rat

definition addLocation :: "id \<Rightarrow> site_dto \<Rightarrow> actor \<Rightarrow> id call" where
  "addLocation org dto actor =
     andThen (assertOwnerOrOps org actor) (\<lambda>_. andThen siteNow (\<lambda>t.
     andThen (reads (\<lambda>s. orgOf org (backend s))) (\<lambda>found.
     andThen (ensure (found \<noteq> None) (PrismaError ''P2003'')) (\<lambda>_.
     andThen siteId (\<lambda>lid.
     andThen (createLocationRow
       \<lparr>l_id = lid, l_organizationId = org, l_district = sl_district dto, l_isPrimary = False,
        l_coordinatePrecision = USER_PINNED, l_createdAt = t\<rparr>
       \<lparr>lo_id = lid, lo_name = sl_name dto, lo_sector = sl_sector dto, lo_cell = sl_cell dto,
        lo_village = sl_village dto, lo_address = sl_address dto, lo_latitude = sl_latitude dto,
        lo_longitude = sl_longitude dto, lo_siteSetupCompletedAt = Some t, lo_status = ''ACTIVE''\<rparr>) (\<lambda>_.
     andThen (siteAudit (sub actor) ''LOCATION_CREATED'' lid) (\<lambda>_. ok lid)))))))"

record location_update =
  lu_name :: "string option"
  lu_district :: "string option"
  lu_sector :: "string option"
  lu_status :: "string option"

definition updateLocation :: "id \<Rightarrow> id \<Rightarrow> location_update \<Rightarrow> actor \<Rightarrow> unit call" where
  "updateLocation org locationId dto actor =
     andThen (assertOwnerOrOps org actor) (\<lambda>_.
     andThen (reads (\<lambda>s. findFirst (\<lambda>l. l_id l = locationId \<and> l_organizationId l = org)
       (locations (backend s)))) (\<lambda>found.
     andThen (orThrow found (NotFound ''Location not found'')) (\<lambda>_.
     updateLocationRow locationId (\<lambda>l. l\<lparr>l_district := given (lu_district dto) (l_district l)\<rparr>)
       (\<lambda>p. p\<lparr>lo_name := given (lu_name dto) (lo_name p),
          lo_sector := orKeep (lu_sector dto) (lo_sector p),
          lo_status := given (lu_status dto) (lo_status p)\<rparr>))))"

record complete_site_dto =
  cs_latitude :: rat
  cs_longitude :: rat
  cs_name :: "string option"
  cs_address :: "string option"

definition completePrimarySite :: "id \<Rightarrow> complete_site_dto \<Rightarrow> actor \<Rightarrow> id call" where
  "completePrimarySite org dto actor =
     andThen (assertOwnerOrOps org actor) (\<lambda>_. andThen siteNow (\<lambda>t.
     andThen (reads (\<lambda>s. orgOf org (backend s))) (\<lambda>found.
     andThen (orThrow found (NotFound ''Organization not found'')) (\<lambda>o1.
     andThen (ensure (o_verificationStatus o1 = V_VERIFIED) (Forbidden ''ORG_PENDING_VERIFICATION'')) (\<lambda>_.
     andThen (inBackend (getPrimaryLocation org)) (\<lambda>primary.
     andThen (orThrow primary (NotFound ''Primary location not found'')) (\<lambda>l.
     andThen (updateLocationRow (l_id l) (\<lambda>r. r\<lparr>l_coordinatePrecision := USER_PINNED\<rparr>)
       (\<lambda>p. p\<lparr>lo_latitude := cs_latitude dto, lo_longitude := cs_longitude dto,
          lo_siteSetupCompletedAt := Some t,
          lo_name := (if truthy (cs_name dto) then the (cs_name dto) else lo_name p),
          lo_address := (if truthy (cs_address dto) then cs_address dto else lo_address p)\<rparr>)) (\<lambda>_.
     andThen (siteAudit (sub actor) ''PRIMARY_LOCATION_SITE_SETUP_COMPLETED'' (l_id l)) (\<lambda>_.
     ok (l_id l))))))))))"

section \<open>Members\<close>

definition listMembers :: "id \<Rightarrow> actor \<Rightarrow> (org_user \<times> user option) list call" where
  "listMembers org actor =
     andThen (assertOwnerOrOps org actor) (\<lambda>_.
     reads (\<lambda>s. List.map (\<lambda>m. (m, userOf (m_userId m) s))
       (findMany (\<lambda>m. m_organizationId m = org) (orgUsers (backend s)))))"

text \<open>The columns \<open>create\<close> is not given have the schema's defaults.\<close>

definition invitedUser :: "id \<Rightarrow> string \<Rightarrow> string option \<Rightarrow> user" where
  "invitedUser uid number email = \<lparr>u_id = uid, u_phoneNumber = number, u_email = email,
     u_fullName = None, u_passwordHash = None, u_passwordSetAt = None, u_status = U_ACTIVE,
     u_isPhoneVerified = False, u_isEmailVerified = False, u_lastLoginAt = None,
     u_onboardingStep = None, u_onboardingCompletedAt = None, u_roles = [CLIENT_STAFF]\<rparr>"

definition emailFree :: "id option \<Rightarrow> string option \<Rightarrow> site \<Rightarrow> bool" where
  "emailFree userId email s = (email = None \<or>
     list_all (\<lambda>u. u_email u = email \<longrightarrow> Some (u_id u) = userId) (users s))"

definition upsertMembership :: "id \<Rightarrow> id \<Rightarrow> bool \<Rightarrow> unit call" where
  "upsertMembership org userId owner = andThen (reads (membershipIn org userId)) (\<lambda>found.
     writes (\<lambda>s. s\<lparr>backend := (backend s)\<lparr>orgUsers :=
       (case found of
          None \<Rightarrow> createRow \<lparr>m_organizationId = org, m_userId = userId, m_isOwner = owner\<rparr> (orgUsers (backend s))
        | Some _ \<Rightarrow> updateMany (\<lambda>m. m_organizationId m = org \<and> m_userId m = userId)
            (\<lambda>m. m\<lparr>m_isOwner := owner\<rparr>) (orgUsers (backend s)))\<rparr>\<rparr>))"

definition inviteMember :: "id \<Rightarrow> string \<Rightarrow> bool \<Rightarrow> string option \<Rightarrow> actor \<Rightarrow> id call" where
  "inviteMember org number owner email actor =
     andThen (assertOwnerOrOps org actor) (\<lambda>_.
     andThen (reads (userByPhone number)) (\<lambda>found.
     andThen (case found of
         Some u \<Rightarrow> ok (u_id u)
       | None \<Rightarrow>
           andThen (reads (emailFree None email)) (\<lambda>free.
           andThen (ensure free (PrismaError ''P2002'')) (\<lambda>_.
           andThen siteId (\<lambda>uid.
           andThen (writes (\<lambda>s. s\<lparr>users := createRow (invitedUser uid number email) (users s)\<rparr>)) (\<lambda>_.
           ok uid))))) (\<lambda>userId.
     andThen (upsertMembership org userId owner) (\<lambda>_.
     andThen (siteAudit (sub actor) ''MEMBER_INVITED'' userId) (\<lambda>_.
     andThen (invalidateUser userId) (\<lambda>_.
     andThen (invalidateUser (sub actor)) (\<lambda>_. ok userId)))))))"

definition removeMember :: "id \<Rightarrow> id \<Rightarrow> actor \<Rightarrow> unit call" where
  "removeMember org userId actor =
     andThen (assertOwnerOrOps org actor) (\<lambda>_.
     andThen (ensure (userId \<noteq> sub actor) (BadRequest ''Cannot remove yourself'')) (\<lambda>_.
     andThen (reads (membershipIn org userId)) (\<lambda>found.
     andThen (ensure (found \<noteq> None) (PrismaError ''P2025'')) (\<lambda>_.
     andThen (writes (\<lambda>s. s\<lparr>backend := (backend s)\<lparr>orgUsers :=
       filter (\<lambda>m. \<not> (m_organizationId m = org \<and> m_userId m = userId)) (orgUsers (backend s))\<rparr>\<rparr>)) (\<lambda>_.
     andThen (siteAudit (sub actor) ''MEMBER_REMOVED'' userId) (\<lambda>_.
     invalidateUser userId))))))"

section \<open>Reviews\<close>

definition updateOrg :: "id \<Rightarrow> (org_row \<Rightarrow> org_row) \<Rightarrow> (org_profile \<Rightarrow> org_profile) \<Rightarrow> unit call" where
  "updateOrg org f g = (\<lambda>s. case orgOf org (backend s) of
     None \<Rightarrow> (Inl (PrismaError ''P2025''), s)
   | Some _ \<Rightarrow> (Inr (), s\<lparr>orgProfiles := updateMany (\<lambda>p. op_id p = org) g (orgProfiles s),
       backend := (backend s)\<lparr>orgs := updateMany (\<lambda>r. o_id r = org) f (orgs (backend s))\<rparr>\<rparr>))"

definition notifyOwners :: "id \<Rightarrow> string \<Rightarrow> string \<Rightarrow> unit call" where
  "notifyOwners org title template = andThen (inBackend (send (NotifyOrgOwners org title))) (\<lambda>_.
     inBackend (send (EmailOrgOwners org template)))"

definition reviewOrganization ::
  "id \<Rightarrow> verification_status \<Rightarrow> id \<Rightarrow> string option \<Rightarrow> unit call" where
  "reviewOrganization org status actorUserId reason =
     andThen (ensure (\<not> (status = V_REJECTED \<and> \<not> truthy (map_option (trimBy jsWhitespace) reason)))
       (BadRequest ''REJECTION_REASON_REQUIRED'')) (\<lambda>_.
     andThen (updateOrg org (\<lambda>r. r\<lparr>o_verificationStatus := status\<rparr>)
       (\<lambda>p. p\<lparr>op_verificationRejectionReason :=
          (if status = V_REJECTED then map_option (trimBy jsWhitespace) reason else None)\<rparr>)) (\<lambda>_.
     andThen (siteAudit actorUserId ''ORG_VERIFICATION_REVIEW'' org) (\<lambda>_.
     case status of
       V_VERIFIED \<Rightarrow> notifyOwners org ''Business approved'' ''VERIFICATION_ORG_APPROVED''
     | V_REJECTED \<Rightarrow> notifyOwners org ''Application needs attention'' ''VERIFICATION_ORG_REJECTED''
     | V_PENDING \<Rightarrow> ok ())))"

text \<open>The search is over ASCII names, without regard to case.\<close>

definition containsText :: "string \<Rightarrow> string \<Rightarrow> bool" where
  "containsText needle hay \<longleftrightarrow> (\<exists>k \<in> set [0..<Suc (length hay)].
     take (length needle) (drop k (List.map toLowerChar hay)) = List.map toLowerChar needle)"

definition matchesSearch :: "string \<Rightarrow> org_profile \<Rightarrow> bool" where
  "matchesSearch trimmed p \<longleftrightarrow> containsText trimmed (op_legalName p) \<or>
     (case op_tradingName p of None \<Rightarrow> False | Some x \<Rightarrow> containsText trimmed x) \<or>
     (case op_tinNumber p of None \<Rightarrow> False | Some x \<Rightarrow> containsText trimmed x)"

text \<open>\<open>orderBy: { createdAt: 'desc' }\<close>: the rows are kept in the order of their creation.\<close>

definition listOrganizations ::
  "pagination \<Rightarrow> verification_status option \<Rightarrow> string option \<Rightarrow> (org_row list \<times> page_meta) call" where
  "listOrganizations query status search = reads (\<lambda>s.
     let trimmed = map_option (trimBy jsWhitespace) search in
     paginated query (rev (findMany (\<lambda>r.
       (case status of None \<Rightarrow> True | Some x \<Rightarrow> o_verificationStatus r = x) \<and>
       (\<not> truthy trimmed \<or>
        (case profileOf (o_id r) s of None \<Rightarrow> False | Some p \<Rightarrow> matchesSearch (the trimmed) p)))
       (orgs (backend s)))))"

definition listPendingOrganizations :: "org_row list call" where
  "listPendingOrganizations =
     reads (\<lambda>s. findMany (\<lambda>r. o_verificationStatus r = V_PENDING) (orgs (backend s)))"

section \<open>The caller's account\<close>

record me =
  me_user :: user
  me_permissions :: "string list"
  me_organizations :: "org_summary list"
  me_guardianId :: "id option"
  me_onboardingCompleted :: bool

definition getMe :: "'tok env \<Rightarrow> auth_user \<Rightarrow> me call" where
  "getMe E actor =
     andThen (reads (userOf (sub actor))) (\<lambda>found.
     andThen (orThrow found (NotFound ''User not found'')) (\<lambda>u.
     andThen (reads (membershipsOf (sub actor))) (\<lambda>memberships.
     andThen (reads (\<lambda>s. findUnique g_userId (sub actor) (guardians (backend s)))) (\<lambda>g.
     andThen (resolve E actor) (\<lambda>permissionList.
     andThen (forCollect memberships summarizeOrg) (\<lambda>organizations.
     ok \<lparr>me_user = u, me_permissions = permissionList, me_organizations = organizations,
         me_guardianId = map_option g_id g,
         me_onboardingCompleted = (u_onboardingCompletedAt u \<noteq> None)\<rparr>))))))"

definition updateMe :: "actor \<Rightarrow> string option \<Rightarrow> unit call" where
  "updateMe actor email =
     andThen (reads (emailFree (Some (sub actor)) email)) (\<lambda>free.
     andThen (ensure free (PrismaError ''P2002'')) (\<lambda>_.
     updateUser (sub actor) (\<lambda>u. u\<lparr>u_email := orKeep email (u_email u)\<rparr>)))"

end
