(* ===== verification/Accounts.thy ===== *)
theory Accounts
  imports Organizations
begin

text \<open>
  Deleting users (\<open>admin/admin-users.service.ts\<close>).  A soft deletion anonymizes the user and ends
  its sessions; a hard deletion removes the rows, as far as the foreign keys of the schema let it:
  rows that must have the user are restricted (code \<open>P2003\<close>), optional references become null,
  and dependent rows go with it.  Both remove the user's in-app notifications.
\<close>

section \<open>What stands in the way\<close>

datatype deletion_mode = soft | hard

definition ACTIVE_JOB_STATUSES :: "job_status list" where
  "ACTIVE_JOB_STATUSES = [J_PENDING, J_DISPATCHING, J_PARTIALLY_ASSIGNED, J_ASSIGNED, J_IN_PROGRESS,
     J_SEEKING_REPLACEMENT]"

definition ACTIVE_ASSIGNMENT_STATUSES :: "assignment_status list" where
  "ACTIVE_ASSIGNMENT_STATUSES = [A_OFFERED, A_ACCEPTED, A_EN_ROUTE, A_ON_SITE]"

definition guardianOfUser :: "id \<Rightarrow> site \<Rightarrow> guardian option" where
  "guardianOfUser userId s = findUnique g_userId userId (guardians (backend s))"

definition loadUserForDeletion :: "id \<Rightarrow> (user \<times> id option) call" where
  "loadUserForDeletion userId =
     andThen (reads (userOf userId)) (\<lambda>found.
     andThen (orThrow found (NotFound ''User not found'')) (\<lambda>u.
     andThen (reads (guardianOfUser userId)) (\<lambda>g. ok (u, map_option g_id g))))"

definition blocker :: "bool \<Rightarrow> string \<Rightarrow> string list" where
  "blocker b text = (if b then [text] else [])"

definition collectBlockers :: "id \<Rightarrow> role_code list \<Rightarrow> bool \<Rightarrow> string list call" where
  "collectBlockers userId userRoles forHardDelete = reads (\<lambda>s.
     let b = backend s;
         activeSuperAdmins = countWhere (\<lambda>u. SUPER_ADMIN \<in> set (u_roles u) \<and> u_status u \<noteq> U_DELETED) (users s);
         activeJobs = countWhere (\<lambda>j. j_createdBy j = userId \<and> j_status j \<in> set ACTIVE_JOB_STATUSES) (jobs b);
         activeAssignments = (case guardianOfUser userId s of None \<Rightarrow> 0
           | Some g \<Rightarrow> countWhere (\<lambda>a. a_guardianId a = g_id g \<and>
               a_status a \<in> set ACTIVE_ASSIGNMENT_STATUSES) (assignments b));
         jobsCreated = countWhere (\<lambda>j. j_createdBy j = userId) (jobs b);
         incidents = countWhere (\<lambda>i. fi_createdBy i = userId) (fieldIncidents b);
         vettings = countWhere (\<lambda>v. vr_vettedByUserId v = userId) (vettingRecords b)
     in blocker (SUPER_ADMIN \<in> set userRoles \<and> activeSuperAdmins \<le> 1) ''LAST_SUPER_ADMIN'' @
        blocker (activeJobs > 0) (''ACTIVE_JOBS_CREATED:'' @ showInt activeJobs) @
        blocker (activeAssignments > 0) (''ACTIVE_GUARDIAN_ASSIGNMENTS:'' @ showInt activeAssignments) @
        blocker (forHardDelete \<and> jobsCreated > 0) (''JOBS_REFERENCE_USER:'' @ showInt jobsCreated) @
        blocker (forHardDelete \<and> incidents > 0) (''FIELD_INCIDENTS_REFERENCE_USER:'' @ showInt incidents) @
        blocker (forHardDelete \<and> vettings > 0) (''VETTING_RECORDS_REFERENCE_USER:'' @ showInt vettings))"

record delete_preview =
  dp_user :: user
  dp_guardianId :: "id option"
  dp_canSoftDelete :: bool
  dp_canHardDelete :: bool
  dp_blockers :: "string list"

definition previewDelete :: "id \<Rightarrow> delete_preview call" where
  "previewDelete userId =
     andThen (loadUserForDeletion userId) (\<lambda>(u, gid).
     andThen (collectBlockers (u_id u) (u_roles u) False) (\<lambda>blockers.
     andThen (collectBlockers (u_id u) (u_roles u) True) (\<lambda>hardBlockers.
     ok \<lparr>dp_user = u, dp_guardianId = gid,
         dp_canSoftDelete = (blockers = [] \<and> u_status u \<noteq> U_DELETED),
         dp_canHardDelete = (hardBlockers = [] \<and> u_status u \<noteq> U_DELETED),
         dp_blockers = toSet (blockers @ hardBlockers)\<rparr>)))"

section \<open>Soft deletion\<close>

record delete_result =
  dr_userId :: id
  dr_mode :: deletion_mode
  dr_guardianId :: "id option"
  dr_tokensRevoked :: int
  dr_notificationsRemoved :: int

definition deletedEmail :: "id \<Rightarrow> string" where
  "deletedEmail userId = ''deleted+'' @ showInt (int userId) @ ''@deleted.invalid''"

definition deletedPhone :: "id \<Rightarrow> string" where
  "deletedPhone userId = ''+9'' @ take 18 (showInt (int userId))"

definition anonymized :: "user \<Rightarrow> user" where
  "anonymized u = u\<lparr>u_status := U_DELETED, u_email := Some (deletedEmail (u_id u)),
     u_phoneNumber := deletedPhone (u_id u), u_fullName := None, u_passwordHash := None,
     u_passwordSetAt := None, u_isEmailVerified := False, u_onboardingStep := None,
     u_onboardingCompletedAt := None\<rparr>"

definition offDuty :: "shift_state \<Rightarrow> shift_state" where
  "offDuty r = r\<lparr>s_shiftStatus := S_OFF_DUTY, s_availableForJobs := False, s_shiftStartedAt := None,
     s_shiftEndsAt := None\<rparr>"

definition forgetActivator :: "id \<Rightarrow> unit call" where
  "forgetActivator userId = writes (\<lambda>s. s\<lparr>backend := (backend s)\<lparr>guardians :=
     updateMany (\<lambda>g. g_activatedBy g = Some userId) (\<lambda>g. g\<lparr>g_activatedBy := None\<rparr>) (guardians (backend s))\<rparr>\<rparr>)"

definition deactivateGuardian :: "id \<Rightarrow> unit call" where
  "deactivateGuardian gid = writes (\<lambda>s. s\<lparr>backend := (backend s)\<lparr>
     guardians := updateMany (\<lambda>g. g_id g = gid) (\<lambda>g. g\<lparr>g_status := G_INACTIVE\<rparr>) (guardians (backend s)),
     shifts := updateMany (\<lambda>r. s_guardianId r = gid) offDuty (shifts (backend s))\<rparr>\<rparr>)"

definition openTokens :: "id \<Rightarrow> site \<Rightarrow> int" where
  "openTokens userId s = countWhere (\<lambda>r. rt_userId r = userId \<and> rt_revokedAt r = None) (refreshTokens s)"

definition revokeTokenRows :: "id \<Rightarrow> unit call" where
  "revokeTokenRows userId = writes (\<lambda>s. s\<lparr>refreshTokens := updateMany
     (\<lambda>r. rt_userId r = userId \<and> rt_revokedAt r = None)
     (\<lambda>r. r\<lparr>rt_revokedAt := Some (clock (backend s))\<rparr>) (refreshTokens s)\<rparr>)"

text \<open>\<open>notification.deleteMany\<close>, with its count.\<close>

definition removeNotices :: "id \<Rightarrow> int call" where
  "removeNotices userId = (\<lambda>s. (Inr (countWhere (\<lambda>n. n_userId n = userId) (notices s)),
     s\<lparr>notices := filter (\<lambda>n. n_userId n \<noteq> userId) (notices s)\<rparr>))"

text \<open>The unique columns of the anonymized user are taken by no one else.\<close>

definition softDeleteUser :: "user \<Rightarrow> id option \<Rightarrow> actor \<Rightarrow> delete_result call" where
  "softDeleteUser u gid actor =
     andThen (transaction (\<lambda>s s'. s)
       (andThen (forgetActivator (u_id u)) (\<lambda>_.
        andThen (case gid of None \<Rightarrow> ok () | Some g \<Rightarrow> deactivateGuardian g) (\<lambda>_.
        andThen (reads (openTokens (u_id u))) (\<lambda>tokensRevoked.
        andThen (revokeTokenRows (u_id u)) (\<lambda>_.
        andThen (removeNotices (u_id u)) (\<lambda>notificationsRemoved.
        andThen (updateUser (u_id u) anonymized) (\<lambda>_.
        ok (tokensRevoked, notificationsRemoved))))))))) (\<lambda>(tokensRevoked, notificationsRemoved).
     andThen (siteAudit (sub actor) ''USER_SOFT_DELETED'' (u_id u)) (\<lambda>_.
     ok \<lparr>dr_userId = u_id u, dr_mode = soft, dr_guardianId = gid, dr_tokensRevoked = tokensRevoked,
         dr_notificationsRemoved = notificationsRemoved\<rparr>))"

section \<open>Hard deletion\<close>

definition removeAssignmentsOf :: "id \<Rightarrow> unit call" where
  "removeAssignmentsOf gid =
     andThen (reads (\<lambda>s. List.map a_id (findMany (\<lambda>a. a_guardianId a = gid) (assignments (backend s))))) (\<lambda>aids.
     whenever (aids \<noteq> [])
       (andThen (writes (\<lambda>s. s\<lparr>backend := (backend s)\<lparr>fieldIncidents :=
          filter (\<lambda>i. fi_assignmentId i \<notin> set aids) (fieldIncidents (backend s))\<rparr>\<rparr>)) (\<lambda>_.
        andThen (reads (\<lambda>s. list_ex (\<lambda>e. e_assignmentId e \<in> set aids) (earnings (backend s)) \<or>
          list_ex (\<lambda>r. re_assignmentId r \<in> set aids) (guardianReviews (backend s)))) (\<lambda>referenced.
        andThen (ensure (\<not> referenced) (PrismaError ''P2003'')) (\<lambda>_.
        writes (\<lambda>s. s\<lparr>backend := (backend s)\<lparr>assignments :=
          updateMany (\<lambda>a. \<exists>x \<in> set aids. a_replacesAssignmentId a = Some x)
            (\<lambda>a. a\<lparr>a_replacesAssignmentId := None\<rparr>)
            (filter (\<lambda>a. a_guardianId a \<noteq> gid) (assignments (backend s)))\<rparr>\<rparr>))))))"

text \<open>The certifications are columns of the guardian; its shift and vetting rows go with it.\<close>

definition removeGuardian :: "id \<Rightarrow> unit call" where
  "removeGuardian gid =
     andThen (reads (\<lambda>s. list_ex (\<lambda>e. e_guardianId e = gid) (earnings (backend s)) \<or>
       list_ex (\<lambda>p. po_guardianId p = gid) (payouts (backend s)) \<or>
       list_ex (\<lambda>r. re_guardianId r = gid) (guardianReviews (backend s)))) (\<lambda>referenced.
     andThen (ensure (\<not> referenced) (PrismaError ''P2003'')) (\<lambda>_.
     writes (\<lambda>s. s\<lparr>backend := (backend s)\<lparr>
       performance := filter (\<lambda>f. f_guardianId f \<noteq> gid) (performance (backend s)),
       locationHistory := filter (\<lambda>l. lp_guardianId l \<noteq> gid) (locationHistory (backend s)),
       shifts := filter (\<lambda>r. s_guardianId r \<noteq> gid) (shifts (backend s)),
       vettingRecords := filter (\<lambda>v. vr_guardianId v \<noteq> gid) (vettingRecords (backend s)),
       guardians := filter (\<lambda>g. g_id g \<noteq> gid) (guardians (backend s))\<rparr>\<rparr>)))"

definition removeUserRow :: "id \<Rightarrow> unit call" where
  "removeUserRow userId =
     andThen (reads (\<lambda>s. list_ex (\<lambda>p. po_createdByUserId p = userId) (payouts (backend s)) \<or>
       list_ex (\<lambda>r. re_reviewerUserId r = userId) (guardianReviews (backend s)))) (\<lambda>referenced.
     andThen (ensure (\<not> referenced) (PrismaError ''P2003'')) (\<lambda>_.
     writes (\<lambda>s. s\<lparr>users := filter (\<lambda>u. u_id u \<noteq> userId) (users s),
       storedDocuments := updateMany (\<lambda>d. sd_uploadedBy d = Some userId)
         (\<lambda>d. d\<lparr>sd_uploadedBy := None\<rparr>) (storedDocuments s),
       backend := (backend s)\<lparr>
         orgUsers := filter (\<lambda>m. m_userId m \<noteq> userId) (orgUsers (backend s)),
         audits := updateMany (\<lambda>a. au_actorUserId a = Some userId)
           (\<lambda>a. a\<lparr>au_actorUserId := None\<rparr>) (audits (backend s)),
         guardians := updateMany (\<lambda>g. g_activatedBy g = Some userId)
           (\<lambda>g. g\<lparr>g_activatedBy := None\<rparr>) (guardians (backend s)),
         invoices := updateMany (\<lambda>i. i_disputeResolvedBy i = Some userId) (\<lambda>i. i\<lparr>i_disputeResolvedBy := None\<rparr>)
           (updateMany (\<lambda>i. i_disputedBy i = Some userId) (\<lambda>i. i\<lparr>i_disputedBy := None\<rparr>)
             (invoices (backend s)))\<rparr>\<rparr>)))"

definition hardDeleteUser :: "id \<Rightarrow> id option \<Rightarrow> actor \<Rightarrow> delete_result call" where
  "hardDeleteUser userId gid actor =
     andThen (transaction (\<lambda>s s'. s)
       (andThen (case gid of None \<Rightarrow> ok ()
          | Some g \<Rightarrow> andThen (removeAssignmentsOf g) (\<lambda>_. andThen (forgetActivator userId) (\<lambda>_. removeGuardian g))) (\<lambda>_.
        andThen (removeNotices userId) (\<lambda>notificationsRemoved.
        andThen (reads (\<lambda>s. countWhere (\<lambda>r. rt_userId r = userId) (refreshTokens s))) (\<lambda>tokensRevoked.
        andThen (writes (\<lambda>s. s\<lparr>refreshTokens := filter (\<lambda>r. rt_userId r \<noteq> userId) (refreshTokens s)\<rparr>)) (\<lambda>_.
        andThen (removeUserRow userId) (\<lambda>_.
        ok (tokensRevoked, notificationsRemoved)))))))) (\<lambda>(tokensRevoked, notificationsRemoved).
     andThen (siteAudit (sub actor) ''USER_HARD_DELETED'' userId) (\<lambda>_.
     ok \<lparr>dr_userId = userId, dr_mode = hard, dr_guardianId = gid, dr_tokensRevoked = tokensRevoked,
         dr_notificationsRemoved = notificationsRemoved\<rparr>))"

section \<open>The requests\<close>

primrec joinWith :: "string \<Rightarrow> string list \<Rightarrow> string" where
  "joinWith sep [] = []"
| "joinWith sep (x # xs) = (if xs = [] then x else x @ sep @ joinWith sep xs)"

text \<open>
  \<open>isHardDeleteAllowed\<close> reads the environment: \<open>allowed\<close> says that \<open>ALLOW_HARD_USER_DELETE\<close> is
  set.  The exception for a blocked deletion carries the blockers, joined as the bulk deletion
  prints them.
\<close>

definition isHardDeleteAllowed :: "'tok env \<Rightarrow> bool \<Rightarrow> bool" where
  "isHardDeleteAllowed E allowed \<longleftrightarrow> \<not> production E \<or> allowed"

definition deleteUser :: "'tok env \<Rightarrow> bool \<Rightarrow> id \<Rightarrow> actor \<Rightarrow> deletion_mode \<Rightarrow> delete_result call" where
  "deleteUser E allowed userId actor mode =
     andThen (ensure (\<not> (mode = hard \<and> \<not> isHardDeleteAllowed E allowed)) (Forbidden ''Hard user deletion is disabled'')) (\<lambda>_.
     andThen (loadUserForDeletion userId) (\<lambda>(u, gid).
     if u_status u = U_DELETED \<and> mode = soft
     then ok \<lparr>dr_userId = u_id u, dr_mode = mode, dr_guardianId = gid, dr_tokensRevoked = 0,
         dr_notificationsRemoved = 0\<rparr>
     else
       andThen (ensure (sub actor \<noteq> userId) (BadRequest ''Cannot delete your own account'')) (\<lambda>_.
       andThen (collectBlockers (u_id u) (u_roles u) (mode = hard)) (\<lambda>blockers.
       andThen (ensure (blockers = []) (Conflict (joinWith ''; '' blockers))) (\<lambda>_.
       if mode = hard then hardDeleteUser (u_id u) gid actor else softDeleteUser u gid actor)))))"

datatype bulk_status = bulk_deleted | bulk_not_found | bulk_blocked string | bulk_already_deleted

definition errorMessage :: "http_error \<Rightarrow> string" where
  "errorMessage e = (case e of BadRequest m \<Rightarrow> m | NotFound m \<Rightarrow> m | Forbidden m \<Rightarrow> m | Conflict m \<Rightarrow> m
     | Unauthorized m \<Rightarrow> m | TooManyRequests m \<Rightarrow> m | PrismaError m \<Rightarrow> m | Gone m \<Rightarrow> m
     | ServiceUnavailable m \<Rightarrow> m | InternalError m \<Rightarrow> m)"

definition normalizeEmail :: "string \<Rightarrow> string" where
  "normalizeEmail e = List.map toLowerChar (trimBy jsWhitespace e)"

definition bulkDeleteByEmail ::
  "'tok env \<Rightarrow> bool \<Rightarrow> string list \<Rightarrow> actor \<Rightarrow> deletion_mode \<Rightarrow> (string \<times> bulk_status) list call" where
  "bulkDeleteByEmail E allowed emails actor mode =
     forCollect (toSet (List.map normalizeEmail emails)) (\<lambda>email.
       andThen (reads (\<lambda>s. findFirst (\<lambda>u. map_option (List.map toLowerChar) (u_email u) = Some email) (users s))) (\<lambda>found.
       case found of
         None \<Rightarrow> ok (email, bulk_not_found)
       | Some u \<Rightarrow>
           if u_status u = U_DELETED \<and> mode = soft then ok (email, bulk_already_deleted)
           else tryCatch (andThen (deleteUser E allowed (u_id u) actor mode) (\<lambda>_. ok (email, bulk_deleted)))
             (\<lambda>e. ok (email, bulk_blocked (errorMessage e)))))"

end
