(* ===== verification/Workforce.thy ===== *)
theory Workforce
  imports Accounts
begin

text \<open>
  The guardians as the administration keeps them (\<open>admin/admin-guardians.service.ts\<close>, the guardian
  parts of \<open>admin/admin-verification.service.ts\<close>, \<open>notifications/credential-delivery.service.ts\<close>)
  and as they see themselves (\<open>guardians/guardians.service.ts\<close>, \<open>guardian-location.service.ts\<close>,
  \<open>guardian-location.util.ts\<close>).  The date of birth and the gender of a user are not kept.
\<close>

section \<open>Rows\<close>

definition updateGuardianRow :: "id \<Rightarrow> (guardian \<Rightarrow> guardian) \<Rightarrow> unit call" where
  "updateGuardianRow gid f = (\<lambda>s. case guardianOf gid (backend s) of
     None \<Rightarrow> (Inl (PrismaError ''P2025''), s)
   | Some _ \<Rightarrow> (Inr (), s\<lparr>backend := (backend s)\<lparr>guardians :=
       updateMany (\<lambda>g. g_id g = gid) f (guardians (backend s))\<rparr>\<rparr>))"

record guardian_view =
  gv_guardian :: guardian
  gv_user :: user
  gv_shift :: "shift_state option"
  gv_vetting :: "vetting_record option"

definition getOne :: "id \<Rightarrow> guardian_view call" where
  "getOne gid =
     andThen (reads (\<lambda>s. guardianOf gid (backend s))) (\<lambda>found.
     andThen (orThrow found (NotFound ''Guardian not found'')) (\<lambda>g.
     andThen (reads (userOf (g_userId g))) (\<lambda>owner.
     andThen (orThrow owner (InternalError ''user'')) (\<lambda>u.
     reads (\<lambda>s. \<lparr>gv_guardian = g, gv_user = u, gv_shift = shiftOf gid (backend s),
       gv_vetting = findUnique vr_guardianId gid (vettingRecords (backend s))\<rparr>)))))"

text \<open>A certification with the metadata of its document.\<close>

definition mapCertificationForResponse :: "certification \<Rightarrow> site \<Rightarrow> certification \<times> stored_document option" where
  "mapCertificationForResponse c s = (c, map_option (\<lambda>d. d\<lparr>sd_content := None\<rparr>)
     (Option.bind (c_documentId c) (\<lambda>did. documentOf did s)))"

definition documentExists :: "id option \<Rightarrow> site \<Rightarrow> bool" where
  "documentExists did s = (case did of None \<Rightarrow> True | Some d \<Rightarrow> documentOf d s \<noteq> None)"

section \<open>Creating a guardian\<close>

record create_guardian_dto =
  cg_phone :: string
  cg_fullName :: string
  cg_email :: "string option"
  cg_nationalId :: string
  cg_reserveForceNumber :: "string option"
  cg_districtBase :: string
  cg_sectorBase :: "string option"
  cg_coverageDistricts :: "string list option"
  cg_employmentType :: "employment_type option"
  cg_yearsExperience :: "int option"
  cg_specializations :: "job_type list option"
  cg_preferredShift :: "preferred_shift option"
  cg_rnpReferenceNumber :: "string option"
  cg_vettingNotes :: "string option"

text \<open>\<open>randomBytes(9).toString('base64url')\<close>: 72 bits in twelve digits.\<close>

definition BASE64URL :: string where
  "BASE64URL = ''ABCDEFGHIJKLMNOPQRSTUVWXYZabcdefghijklmnopqrstuvwxyz0123456789-_''"

primrec base64url :: "nat \<Rightarrow> int \<Rightarrow> string" where
  "base64url 0 v = []"
| "base64url (Suc n) v = base64url n (v div 64) @ [BASE64URL ! nat (v mod 64)]"

definition generateTemporaryPassword :: "'tok env \<Rightarrow> string call" where
  "generateTemporaryPassword E = andThen siteId (\<lambda>draw. ok (''G2-'' @ base64url 12 (entropy E draw)))"

definition guardianCodeFor :: "int \<Rightarrow> string" where
  "guardianCodeFor n = ''G-'' @ padStart 5 (CHR ''0'') (showInt (n + 1))"

definition hashSecret :: "'tok env \<Rightarrow> string \<Rightarrow> string call" where
  "hashSecret E plain = andThen siteId (\<lambda>draw. ok (bcryptHash E (entropy E draw) 12 plain))"

datatype credential_channel = EMAIL_CHANNEL | SMS_CHANNEL | NO_CHANNEL

text \<open>An e-mail that cannot be delivered falls back to an SMS, whose failure is the method's.\<close>

definition sendCredentialsBySms :: "'tok env \<Rightarrow> string \<Rightarrow> string \<Rightarrow> credential_channel call" where
  "sendCredentialsBySms E number secret =
     (if \<not> smsConfigured E then ok NO_CHANNEL
      else andThen siteNow (\<lambda>t. case smsFailure E number t of
          Some err \<Rightarrow> throw err
        | None \<Rightarrow> andThen (writes (\<lambda>s. s\<lparr>smsSent := smsSent s @ [(number, secret)]\<rparr>)) (\<lambda>_. ok SMS_CHANNEL)))"

definition sendGuardianCredentials ::
  "'tok env \<Rightarrow> id \<Rightarrow> string \<Rightarrow> string option \<Rightarrow> string \<Rightarrow> credential_channel call" where
  "sendGuardianCredentials E userId number email secret = andThen siteNow (\<lambda>t.
     if truthy email \<and> \<not> mailFailure E (the email) t
     then andThen (emailUser userId ''GUARDIAN_CREDENTIALS'') (\<lambda>_. ok EMAIL_CHANNEL)
     else sendCredentialsBySms E number secret)"

definition newGuardianUser :: "id \<Rightarrow> string \<Rightarrow> create_guardian_dto \<Rightarrow> string \<Rightarrow> user" where
  "newGuardianUser uid number dto hashed = \<lparr>u_id = uid, u_phoneNumber = number,
     u_email = cg_email dto, u_fullName = Some (cg_fullName dto), u_passwordHash = Some hashed,
     u_passwordSetAt = None, u_status = U_PENDING_VERIFICATION, u_isPhoneVerified = False,
     u_isEmailVerified = False, u_lastLoginAt = None, u_onboardingStep = None,
     u_onboardingCompletedAt = None, u_roles = [GUARDIAN]\<rparr>"

definition newGuardian :: "id \<Rightarrow> id \<Rightarrow> create_guardian_dto \<Rightarrow> string \<Rightarrow> string \<Rightarrow> string option \<Rightarrow> guardian" where
  "newGuardian gid uid dto guardianCode nationalIdHash reserveForceNumberHash = \<lparr>g_id = gid,
     g_userId = uid, g_status = G_INACTIVE, g_verificationStatus = GV_PENDING,
     g_employmentType = given (cg_employmentType dto) PART_TIME, g_reliabilityScore = 100,
     g_districtBase = cg_districtBase dto,
     g_coverageDistricts = (case cg_coverageDistricts dto of None \<Rightarrow> [cg_districtBase dto]
       | Some ds \<Rightarrow> if ds = [] then [cg_districtBase dto] else ds),
     g_hourlyPayRate = None, g_payCurrency = ''RWF'', g_certifications = [],
     g_guardianCode = guardianCode, g_nationalIdHash = nationalIdHash,
     g_reserveForceNumberHash = reserveForceNumberHash, g_sectorBase = cg_sectorBase dto,
     g_yearsExperience = cg_yearsExperience dto,
     g_specializations = (case cg_specializations dto of None \<Rightarrow> [] | Some xs \<Rightarrow> xs),
     g_preferredShift = cg_preferredShift dto, g_rating = 0, g_activatedAt = None,
     g_activatedBy = None\<rparr>"

text \<open>
  The nested \<open>create\<close>: the user, its guardian profile, the shift row and, with a reference number,
  the vetting record.  Phone, e-mail and guardian code are unique.
\<close>

definition createGuardianRows ::
  "create_guardian_dto \<Rightarrow> string \<Rightarrow> string \<Rightarrow> string \<Rightarrow> string option \<Rightarrow> string \<Rightarrow> id \<Rightarrow> (id \<times> id) call" where
  "createGuardianRows dto number guardianCode nationalIdHash reserveHash hashed actorSub =
     andThen (reads (\<lambda>s. emailFree None (cg_email dto) s \<and> userByPhone number s = None \<and>
       findUnique g_guardianCode guardianCode (guardians (backend s)) = None)) (\<lambda>free.
     andThen (ensure free (PrismaError ''P2002'')) (\<lambda>_.
     andThen siteId (\<lambda>uid. andThen siteId (\<lambda>gid. andThen siteId (\<lambda>vid. andThen siteNow (\<lambda>t.
     andThen (writes (\<lambda>s. s\<lparr>users := createRow (newGuardianUser uid number dto hashed) (users s),
       backend := (backend s)\<lparr>
         guardians := createRow (newGuardian gid uid dto guardianCode nationalIdHash reserveHash)
           (guardians (backend s)),
         shifts := createRow \<lparr>s_guardianId = gid, s_shiftStatus = S_OFF_DUTY,
           s_availableForJobs = False, s_shiftStartedAt = None, s_shiftEndsAt = None\<rparr>
           (shifts (backend s)),
         vettingRecords := (if truthy (cg_rnpReferenceNumber dto)
           then createRow \<lparr>vr_id = vid, vr_guardianId = gid, vr_vettedAt = t,
               vr_vettedByUserId = actorSub, vr_rnpReferenceNumber = cg_rnpReferenceNumber dto,
               vr_clearanceDocumentId = None,
               vr_reserveForceVerified = truthy (cg_reserveForceNumber dto),
               vr_notes = cg_vettingNotes dto\<rparr> (vettingRecords (backend s))
           else vettingRecords (backend s))\<rparr>\<rparr>)) (\<lambda>_. ok (uid, gid))))))))"

definition createGuardian :: "'tok env \<Rightarrow> create_guardian_dto \<Rightarrow> actor \<Rightarrow> (id \<times> credential_channel) call" where
  "createGuardian E dto actor =
     andThen (lift (normalizePhone (cg_phone dto))) (\<lambda>number.
     andThen (reads (userByPhone number)) (\<lambda>existing.
     andThen (ensure (existing = None) (Conflict ''Phone number already registered'')) (\<lambda>_.
     andThen (hashSecret E (cg_nationalId dto)) (\<lambda>nationalIdHash.
     andThen (if truthy (cg_reserveForceNumber dto)
       then andThen (hashSecret E (the (cg_reserveForceNumber dto))) (\<lambda>h. ok (Some h)) else ok None) (\<lambda>reserveHash.
     andThen (reads (\<lambda>s. guardianCodeFor (countWhere (\<lambda>_. True) (guardians (backend s))))) (\<lambda>guardianCode.
     andThen (generateTemporaryPassword E) (\<lambda>secret.
     andThen (hashPassword E secret) (\<lambda>hashed.
     andThen (createGuardianRows dto number guardianCode nationalIdHash reserveHash hashed (sub actor)) (\<lambda>(uid, gid).
     andThen (sendGuardianCredentials E uid number (cg_email dto) secret) (\<lambda>channel.
     andThen (siteAudit (sub actor) ''GUARDIAN_CREATED_BY_ADMIN'' gid) (\<lambda>_.
     andThen (siteAudit (sub actor) ''GUARDIAN_CREDENTIALS_DISPATCHED'' uid) (\<lambda>_.
     ok (gid, channel)))))))))))))"

section \<open>Keeping the record\<close>

text \<open>\<open>orderBy: { joinedAt: 'desc' }\<close>.\<close>

definition listGuardians :: "pagination \<Rightarrow> guardian_status option \<Rightarrow> guardian_verification option \<Rightarrow>
    (guardian list \<times> page_meta) call" where
  "listGuardians query status verification = reads (\<lambda>s. paginated query (rev (findMany (\<lambda>g.
     (case status of None \<Rightarrow> True | Some x \<Rightarrow> g_status g = x) \<and>
     (case verification of None \<Rightarrow> True | Some x \<Rightarrow> g_verificationStatus g = x)) (guardians (backend s)))))"

record update_guardian_dto =
  ug_fullName :: "string option"
  ug_email :: "string option"
  ug_districtBase :: "string option"
  ug_sectorBase :: "string option"
  ug_coverageDistricts :: "string list option"
  ug_employmentType :: "employment_type option"
  ug_yearsExperience :: "int option"
  ug_specializations :: "job_type list option"
  ug_preferredShift :: "preferred_shift option"
  ug_hourlyPayRate :: "rat option"

definition updateGuardian :: "id \<Rightarrow> update_guardian_dto \<Rightarrow> actor \<Rightarrow> guardian_view call" where
  "updateGuardian gid dto actor =
     andThen (getOne gid) (\<lambda>v.
     andThen (transaction (\<lambda>s s'. s)
       (andThen (reads (emailFree (Some (u_id (gv_user v))) (ug_email dto))) (\<lambda>free.
        andThen (ensure free (PrismaError ''P2002'')) (\<lambda>_.
        andThen (updateUser (g_userId (gv_guardian v)) (\<lambda>u. u\<lparr>
          u_fullName := orKeep (ug_fullName dto) (u_fullName u),
          u_email := orKeep (ug_email dto) (u_email u)\<rparr>)) (\<lambda>_.
        updateGuardianRow gid (\<lambda>g. g\<lparr>
          g_districtBase := given (ug_districtBase dto) (g_districtBase g),
          g_sectorBase := orKeep (ug_sectorBase dto) (g_sectorBase g),
          g_coverageDistricts := given (ug_coverageDistricts dto) (g_coverageDistricts g),
          g_employmentType := given (ug_employmentType dto) (g_employmentType g),
          g_yearsExperience := orKeep (ug_yearsExperience dto) (g_yearsExperience g),
          g_specializations := given (ug_specializations dto) (g_specializations g),
          g_preferredShift := orKeep (ug_preferredShift dto) (g_preferredShift g),
          g_hourlyPayRate := orKeep (ug_hourlyPayRate dto) (g_hourlyPayRate g)\<rparr>)))))) (\<lambda>_.
     andThen (siteAudit (sub actor) ''GUARDIAN_UPDATED_BY_ADMIN'' gid) (\<lambda>_. getOne gid)))"

record vetting_dto =
  vd_vettedAt :: instant
  vd_rnpReferenceNumber :: "string option"
  vd_clearanceDocumentId :: "id option"
  vd_reserveForceVerified :: "bool option"
  vd_notes :: "string option"

definition upsertVetting :: "id \<Rightarrow> vetting_dto \<Rightarrow> actor \<Rightarrow> id call" where
  "upsertVetting gid dto actor =
     andThen (getOne gid) (\<lambda>v.
     andThen (reads (documentExists (vd_clearanceDocumentId dto))) (\<lambda>known.
     andThen (ensure known (PrismaError ''P2003'')) (\<lambda>_.
     andThen (case gv_vetting v of
         None \<Rightarrow> andThen siteId (\<lambda>vid.
           andThen (writes (\<lambda>s. s\<lparr>backend := (backend s)\<lparr>vettingRecords := createRow
             \<lparr>vr_id = vid, vr_guardianId = gid, vr_vettedAt = vd_vettedAt dto,
              vr_vettedByUserId = sub actor, vr_rnpReferenceNumber = vd_rnpReferenceNumber dto,
              vr_clearanceDocumentId = vd_clearanceDocumentId dto,
              vr_reserveForceVerified = given (vd_reserveForceVerified dto) False,
              vr_notes = vd_notes dto\<rparr> (vettingRecords (backend s))\<rparr>\<rparr>)) (\<lambda>_. ok vid))
       | Some r \<Rightarrow>
           andThen (writes (\<lambda>s. s\<lparr>backend := (backend s)\<lparr>vettingRecords := updateMany
             (\<lambda>r. vr_guardianId r = gid) (\<lambda>r. r\<lparr>vr_vettedAt := vd_vettedAt dto,
               vr_vettedByUserId := sub actor,
               vr_rnpReferenceNumber := orKeep (vd_rnpReferenceNumber dto) (vr_rnpReferenceNumber r),
               vr_clearanceDocumentId := orKeep (vd_clearanceDocumentId dto) (vr_clearanceDocumentId r),
               vr_reserveForceVerified := given (vd_reserveForceVerified dto) (vr_reserveForceVerified r),
               vr_notes := orKeep (vd_notes dto) (vr_notes r)\<rparr>) (vettingRecords (backend s))\<rparr>\<rparr>)) (\<lambda>_.
           ok (vr_id r))) (\<lambda>rid.
     andThen (siteAudit (sub actor) ''GUARDIAN_VETTING_RECORDED'' rid) (\<lambda>_. ok rid)))))"

definition certificationById :: "id \<Rightarrow> site \<Rightarrow> certification option" where
  "certificationById cid s =
     findUnique c_id cid (concat (List.map g_certifications (guardians (backend s))))"

definition listCertificationsForGuardian :: "id \<Rightarrow> (certification \<times> stored_document option) list call" where
  "listCertificationsForGuardian gid =
     andThen (reads (\<lambda>s. guardianOf gid (backend s))) (\<lambda>found.
     andThen (orThrow found (NotFound ''Guardian not found'')) (\<lambda>g.
     reads (\<lambda>s. List.map (\<lambda>c. mapCertificationForResponse c s) (rev (g_certifications g)))))"

definition getCertificationById :: "id \<Rightarrow> (certification \<times> stored_document option) call" where
  "getCertificationById cid =
     andThen (reads (certificationById cid)) (\<lambda>found.
     andThen (orThrow found (NotFound ''Certification not found'')) (\<lambda>c.
     reads (mapCertificationForResponse c)))"

record certification_dto =
  cd_certificationType :: certification_type
  cd_issuer :: string
  cd_issueDate :: instant
  cd_expiryDate :: "instant option"
  cd_documentId :: "id option"

definition addCertification :: "id \<Rightarrow> certification_dto \<Rightarrow> actor \<Rightarrow> id call" where
  "addCertification gid dto actor =
     andThen (getOne gid) (\<lambda>_.
     andThen (reads (documentExists (cd_documentId dto))) (\<lambda>known.
     andThen (ensure known (PrismaError ''P2003'')) (\<lambda>_.
     andThen siteId (\<lambda>cid.
     andThen (updateGuardianRow gid (\<lambda>g. g\<lparr>g_certifications := createRow
       \<lparr>c_id = cid, c_certificationType = cd_certificationType dto, c_issuer = cd_issuer dto,
        c_issueDate = cd_issueDate dto, c_expiryDate = cd_expiryDate dto,
        c_documentId = cd_documentId dto, c_verificationStatus = CV_PENDING\<rparr> (g_certifications g)\<rparr>)) (\<lambda>_.
     andThen (siteAudit (sub actor) ''CERTIFICATION_ADDED_BY_ADMIN'' cid) (\<lambda>_. ok cid))))))"

section \<open>Verification, activation, suspension\<close>

definition reviewGuardian :: "id \<Rightarrow> guardian_verification \<Rightarrow> id \<Rightarrow> unit call" where
  "reviewGuardian gid status actorUserId =
     andThen (updateGuardianRow gid (\<lambda>g. g\<lparr>g_verificationStatus := status\<rparr>)) (\<lambda>_.
     siteAudit actorUserId ''GUARDIAN_VERIFICATION_REVIEW'' gid)"

definition reviewCertification :: "id \<Rightarrow> certification_verification \<Rightarrow> id \<Rightarrow> unit call" where
  "reviewCertification cid status actorUserId =
     andThen (reads (certificationById cid)) (\<lambda>found.
     andThen (orThrow found (NotFound ''Certification not found'')) (\<lambda>_.
     andThen (writes (\<lambda>s. s\<lparr>backend := (backend s)\<lparr>guardians := List.map (\<lambda>g. g\<lparr>g_certifications :=
       updateMany (\<lambda>c. c_id c = cid) (\<lambda>c. c\<lparr>c_verificationStatus := status\<rparr>) (g_certifications g)\<rparr>)
       (guardians (backend s))\<rparr>\<rparr>)) (\<lambda>_.
     siteAudit actorUserId ''CERTIFICATION_VERIFICATION_REVIEW'' cid)))"

definition listPendingGuardians :: "guardian list call" where
  "listPendingGuardians =
     reads (\<lambda>s. findMany (\<lambda>g. g_verificationStatus g = GV_PENDING) (guardians (backend s)))"

text \<open>All certifications in the order of their identifiers, which is that of their creation.\<close>

definition listCertifications :: "pagination \<Rightarrow> certification_verification option \<Rightarrow>
    ((certification \<times> stored_document option) list \<times> page_meta) call" where
  "listCertifications query status = reads (\<lambda>s. paginated query
     (List.map (\<lambda>c. mapCertificationForResponse c s) (orderByAsc c_id
       (findMany (\<lambda>c. c_verificationStatus c = given status CV_PENDING)
         (concat (List.map g_certifications (guardians (backend s))))))))"

definition activate :: "'tok env \<Rightarrow> id \<Rightarrow> actor \<Rightarrow> string option call" where
  "activate E gid actor =
     andThen (getOne gid) (\<lambda>v.
     andThen (ensure (g_verificationStatus (gv_guardian v) = GV_VERIFIED)
       (Conflict ''Guardian identity must be VERIFIED before activation'')) (\<lambda>_.
     andThen siteNow (\<lambda>t.
     andThen (transaction (\<lambda>s s'. s)
       (andThen (updateUser (g_userId (gv_guardian v)) (\<lambda>u. u\<lparr>u_status := U_ACTIVE\<rparr>)) (\<lambda>_.
        updateGuardianRow gid (\<lambda>g. g\<lparr>g_status := G_ACTIVE, g_activatedAt := Some t,
          g_activatedBy := Some (sub actor)\<rparr>)))) (\<lambda>_.
     andThen (requestOtp E (u_phoneNumber (gv_user v)) None None) (\<lambda>otp.
     andThen (siteAudit (sub actor) ''GUARDIAN_ACTIVATED'' gid) (\<lambda>_.
     andThen (emailUser (g_userId (gv_guardian v)) ''GUARDIAN_ACTIVATED'') (\<lambda>_.
     andThen (notifyUser (g_userId (gv_guardian v)) ''Account activated'') (\<lambda>_.
     ok (if production E then None else oa_devCode otp)))))))))"

definition suspend :: "id \<Rightarrow> actor \<Rightarrow> unit call" where
  "suspend gid actor =
     andThen (getOne gid) (\<lambda>v.
     andThen (transaction (\<lambda>s s'. s)
       (andThen (updateGuardianRow gid (\<lambda>g. g\<lparr>g_status := G_SUSPENDED\<rparr>)) (\<lambda>_.
        writes (\<lambda>s. s\<lparr>backend := (backend s)\<lparr>shifts :=
          updateMany (\<lambda>r. s_guardianId r = gid) offDuty (shifts (backend s))\<rparr>\<rparr>)))) (\<lambda>_.
     andThen (siteAudit (sub actor) ''GUARDIAN_SUSPENDED'' gid) (\<lambda>_.
     andThen (emailUser (g_userId (gv_guardian v)) ''GUARDIAN_SUSPENDED'') (\<lambda>_.
     notifyUser (g_userId (gv_guardian v)) ''Account suspended''))))"

section \<open>A guardian's own record\<close>

definition requireGuardian :: "actor \<Rightarrow> id call" where
  "requireGuardian actor = orThrow (actorGuardianId actor) (Forbidden ''Not a guardian'')"

definition guardian_getMe :: "actor \<Rightarrow> guardian call" where
  "guardian_getMe actor = andThen (requireGuardian actor) (\<lambda>gid.
     andThen (reads (\<lambda>s. guardianOf gid (backend s))) (\<lambda>found.
     orThrow found (NotFound ''Guardian profile not found'')))"

text \<open>An empty district leaves the column alone.\<close>

definition guardian_updateMe :: "actor \<Rightarrow> string option \<Rightarrow> employment_type option \<Rightarrow> unit call" where
  "guardian_updateMe actor districtBase employmentType = andThen (requireGuardian actor) (\<lambda>gid.
     andThen (updateGuardianRow gid (\<lambda>g. g\<lparr>
       g_districtBase := (if truthy districtBase then normalizeDistrict (the districtBase) else g_districtBase g),
       g_employmentType := given employmentType (g_employmentType g)\<rparr>)) (\<lambda>_.
     siteAudit (sub actor) ''GUARDIAN_PROFILE_UPDATED'' gid))"

definition guardian_getById :: "id \<Rightarrow> guardian call" where
  "guardian_getById gid = andThen (reads (\<lambda>s. guardianOf gid (backend s))) (\<lambda>found.
     orThrow found (NotFound ''Guardian not found''))"

definition listMyCertifications :: "actor \<Rightarrow> (certification \<times> stored_document option) list call" where
  "listMyCertifications actor = andThen (requireGuardian actor) (\<lambda>gid.
     reads (\<lambda>s. List.map (\<lambda>c. mapCertificationForResponse c s)
       (case guardianOf gid (backend s) of None \<Rightarrow> [] | Some g \<Rightarrow> rev (g_certifications g))))"

definition getMyCertification :: "actor \<Rightarrow> id \<Rightarrow> (certification \<times> stored_document option) call" where
  "getMyCertification actor cid = andThen (requireGuardian actor) (\<lambda>gid.
     andThen (reads (\<lambda>s. Option.bind (guardianOf gid (backend s)) (\<lambda>g. findUnique c_id cid (g_certifications g)))) (\<lambda>found.
     andThen (orThrow found (NotFound ''Certification not found'')) (\<lambda>c.
     reads (mapCertificationForResponse c))))"

definition guardian_addCertification :: "unit call" where
  "guardian_addCertification =
     throw (Forbidden ''Certifications must be added by G2Sentry administrators after vetting'')"

section \<open>Where a guardian is\<close>

datatype location_source = from_presence | from_history

record current_location =
  cl_guardianId :: id
  cl_latitude :: "rat option"
  cl_longitude :: "rat option"
  cl_speed :: "rat option"
  cl_batteryLevel :: "int option"
  cl_recordedAt :: "instant option"
  cl_source :: "location_source option"
  cl_connected :: bool
  cl_reachable :: bool

definition resolveGuardianCurrentLocation ::
  "id \<Rightarrow> presence_entry option \<Rightarrow> location_ping option \<Rightarrow> current_location" where
  "resolveGuardianCurrentLocation gid seen latest = (case seen of
     Some p \<Rightarrow> \<lparr>cl_guardianId = gid, cl_latitude = Some (pe_lat p), cl_longitude = Some (pe_lng p),
       cl_speed = pe_speed p, cl_batteryLevel = pe_battery p, cl_recordedAt = Some (pe_updatedAt p),
       cl_source = Some from_presence, cl_connected = True, cl_reachable = pe_available p\<rparr>
   | None \<Rightarrow> (case latest of
       Some l \<Rightarrow> \<lparr>cl_guardianId = gid, cl_latitude = Some (lp_latitude l),
         cl_longitude = Some (lp_longitude l), cl_speed = lp_speed l,
         cl_batteryLevel = lp_batteryLevel l, cl_recordedAt = Some (lp_recordedAt l),
         cl_source = Some from_history, cl_connected = False, cl_reachable = False\<rparr>
     | None \<Rightarrow> \<lparr>cl_guardianId = gid, cl_latitude = None, cl_longitude = None, cl_speed = None,
         cl_batteryLevel = None, cl_recordedAt = None, cl_source = None, cl_connected = False,
         cl_reachable = False\<rparr>))"

definition latestPing :: "id \<Rightarrow> sys \<Rightarrow> location_ping option" where
  "latestPing gid s = findFirst (\<lambda>_. True) (orderByDesc lp_recordedAt
     (findMany (\<lambda>l. lp_guardianId l = gid) (locationHistory s)))"

definition assertGuardianExists :: "id \<Rightarrow> unit op" where
  "assertGuardianExists gid = andThen (reads (guardianOf gid)) (\<lambda>found.
     ensure (found \<noteq> None) (NotFound ''Guardian not found''))"

definition getCurrent :: "id \<Rightarrow> current_location op" where
  "getCurrent gid =
     andThen (assertGuardianExists gid) (\<lambda>_.
     andThen (getPresence gid) (\<lambda>seen.
     andThen (case seen of Some _ \<Rightarrow> ok None | None \<Rightarrow> reads (latestPing gid)) (\<lambda>latest.
     ok (resolveGuardianCurrentLocation gid seen latest))))"

text \<open>\<open>SELECT DISTINCT ON (guardian_id) ... ORDER BY guardian_id, recorded_at DESC\<close>.\<close>

definition getLatestHistoryByGuardianIds :: "id list \<Rightarrow> (id \<rightharpoonup> location_ping) op" where
  "getLatestHistoryByGuardianIds gids = reads (\<lambda>s gid. if gid \<in> set gids then latestPing gid s else None)"

definition getHistory :: "id \<Rightarrow> pagination \<Rightarrow> instant option \<Rightarrow> (location_ping list \<times> page_meta) op" where
  "getHistory gid query since =
     andThen (assertGuardianExists gid) (\<lambda>_.
     reads (\<lambda>s. paginated query (orderByDesc lp_recordedAt (findMany (\<lambda>l. lp_guardianId l = gid \<and>
       (case since of None \<Rightarrow> True | Some t \<Rightarrow> lp_recordedAt l \<ge> t)) (locationHistory s)))))"

text \<open>The live entries; reading drops the expired ones.\<close>

definition listAllPresences :: "(id \<rightharpoonup> presence_entry) op" where
  "listAllPresences = (\<lambda>s.
     let live = (\<lambda>gid. case presence s gid of None \<Rightarrow> None
           | Some entry \<Rightarrow> if clock s > pe_expiresAt entry then None else Some entry)
     in (Inr live, s\<lparr>presence := live\<rparr>))"

definition getMyLocation :: "actor \<Rightarrow> current_location call" where
  "getMyLocation actor = andThen (requireGuardian actor) (\<lambda>gid. inBackend (getCurrent gid))"

definition getMyLocationHistory ::
  "actor \<Rightarrow> pagination \<Rightarrow> instant option \<Rightarrow> (location_ping list \<times> page_meta) call" where
  "getMyLocationHistory actor query since =
     andThen (requireGuardian actor) (\<lambda>gid. inBackend (getHistory gid query since))"

end
