(* ===== verification/Requests.thy ===== *)
theory Requests
  imports Sessions Workforce
begin

text \<open>
  The runs the properties of the identity services quantify over: every request to sign in, to
  register or to administer an account, the guards of every other request, and between them
  whatever the rest of the backend does.  Each is shown to stay inside \<open>site_evolves\<close>.
\<close>

section \<open>Registration\<close>

lemma site_notifyUser [site_rules]: "site_evolves gone s (snd (notifyUser uid title s))"
  unfolding notifyUser_def by (rule site_inBackend) (simp add: send_def)

lemma site_updateProfile [site_rules]: "site_evolves gone s (snd (updateProfile org f s))"
  by (auto simp: updateProfile_def split: option.split intro!: site_frame)

lemma site_updateLocationRow [site_rules]: "site_evolves gone s (snd (updateLocationRow lid f g s))"
  unfolding updateLocationRow_def by (intro site_evolves.writes site_frame) simp_all

lemma site_createLocationRow [site_rules]: "site_evolves gone s (snd (createLocationRow l p s))"
  unfolding createLocationRow_def by (intro site_evolves.writes site_frame) simp_all

lemma site_setStep [site_rules]: "site_evolves gone s (snd (setStep uid step s))"
  unfolding setStep_def by (rule site_updateUser)

lemma site_verifyOnboardingToken [site_rules]: "site_evolves gone s (snd (verifyOnboardingToken E header s))"
  by (cases header) (auto simp: verifyOnboardingToken_def split: option.split claims.split)

lemma site_issueOnboardingToken [site_rules]: "site_evolves gone s (snd (issueOnboardingToken E uid org s))"
  by (simp add: issueOnboardingToken_def)

lemma site_resolveOnboardingContext [site_rules]:
  "site_evolves gone s (snd (resolveOnboardingContext E header s))"
  unfolding resolveOnboardingContext_def case_prod_unfold by (intro site_evolves.rules site_rules)

lemma site_onboardingOrg [site_rules]: "site_evolves gone s (snd (onboardingOrg E header s))"
  unfolding onboardingOrg_def requireOnboardingOrg_def by (intro site_evolves.rules site_rules)

lemma site_startRegistration [site_rules]: "site_evolves gone s (snd (startRegistration E value s))"
  unfolding startRegistration_def by (intro site_evolves.rules site_rules)

lemma site_verifyRegistrationStart [site_rules]:
  "site_evolves gone s (snd (verifyRegistrationStart E value code s))"
  unfolding verifyRegistrationStart_def case_prod_unfold
  by (intro site_evolves.rules site_rules site_evolves.writes site_frame) simp_all

lemma site_patchProfile [site_rules]: "site_evolves gone s (snd (patchProfile E header dto s))"
  unfolding patchProfile_def by (intro site_evolves.rules site_rules)

lemma site_createOrgRows [site_rules]: "site_evolves gone s (snd (createOrgRows uid dto number s))"
  unfolding createOrgRows_def
  by (intro site_evolves.rules site_rules site_evolves.writes site_frame) simp_all

lemma site_patchBusiness [site_rules]: "site_evolves gone s (snd (patchBusiness E header dto s))"
  unfolding patchBusiness_def by (intro site_evolves.rules site_rules)

lemma site_patchPayment [site_rules]: "site_evolves gone s (snd (patchPayment E header provider number s))"
  unfolding patchPayment_def case_prod_unfold advanceStepAfterPayment_def
  by (intro site_evolves.rules site_rules)

lemma site_patchLocation [site_rules]: "site_evolves gone s (snd (patchLocation E header dto s))"
  unfolding patchLocation_def case_prod_unfold by (intro site_evolves.rules site_rules)

lemma site_upload [site_rules]: "site_evolves gone s (snd (upload E who buffer mimeType s))"
  unfolding upload_def validateUpload_def
  by (intro site_evolves.rules site_rules site_evolves.writes site_frame) simp_all

lemma site_registerDocumentUpload [site_rules]:
  "site_evolves gone s (snd (registerDocumentUpload E header buffer mimeType documentType s))"
  unfolding registerDocumentUpload_def case_prod_unfold
  by (intro site_evolves.rules site_rules site_evolves.writes site_frame) simp_all

lemma site_getRegistrationStatus [site_rules]:
  "site_evolves gone s (snd (getRegistrationStatus E header s))"
  unfolding getRegistrationStatus_def by (intro site_evolves.rules site_rules)

lemma site_submitRegistration [site_rules]: "site_evolves gone s (snd (submitRegistration E header s))"
  unfolding submitRegistration_def issueFullAuthResponse_def case_prod_unfold
  by (intro site_evolves.rules site_rules)

lemma site_resumeRegistration [site_rules]:
  "site_evolves gone s (snd (resumeRegistration E value password s))"
  unfolding resumeRegistration_def by (intro site_evolves.rules site_rules)

section \<open>Accounts and guardians\<close>

text \<open>Revoking the rows of a user leaves the memory of revocations alone.\<close>

lemma site_revokeTokenRows [site_rules]: "site_evolves gone s (snd (revokeTokenRows uid s))"
proof (cases "site_ok s")
  case True
  let ?f = "\<lambda>r. r\<lparr>rt_revokedAt := Some (clock (backend s))\<rparr>"
  let ?rows = "updateMany (\<lambda>r. rt_userId r = uid \<and> rt_revokedAt r = None) ?f (refreshTokens s)"
  have "map rt_jti ?rows = map rt_jti (refreshTokens s)"
    by (simp add: updateMany_def)
  then have "site_ok (s\<lparr>refreshTokens := ?rows\<rparr>)"
    using True by (auto simp: site_ok_def set_updateMany)
  then have "site_evolves gone s (s\<lparr>refreshTokens := ?rows\<rparr>)"
    by (auto simp: site_evolves_def mail_kept_def memory_holds_def token_step_def intro!: table_evolves_updateMany)
  then show ?thesis
    by (simp add: revokeTokenRows_def)
qed (simp add: site_evolves_def mail_kept_def revokeTokenRows_def)

lemma site_collectBlockers [site_rules]: "site_evolves gone s (snd (collectBlockers uid rs h s))"
  unfolding collectBlockers_def by (rule site_evolves.reads)

lemma site_loadUserForDeletion [site_rules]: "site_evolves gone s (snd (loadUserForDeletion uid s))"
  unfolding loadUserForDeletion_def by (intro site_evolves.rules)

lemma site_forgetActivator [site_rules]: "site_evolves gone s (snd (forgetActivator uid s))"
  unfolding forgetActivator_def by (intro site_evolves.writes site_frame) simp_all

lemma site_deactivateGuardian [site_rules]: "site_evolves gone s (snd (deactivateGuardian gid s))"
  unfolding deactivateGuardian_def by (intro site_evolves.writes site_frame) simp_all

lemma site_removeNotices: "uid \<in> gone \<Longrightarrow> site_evolves gone s (snd (removeNotices uid s))"
  by (auto simp: removeNotices_def site_evolves_def mail_kept_def site_ok_def memory_holds_def
      intro!: filter_cong)

lemma site_softDeleteUser:
  "u_id u \<in> gone \<Longrightarrow> site_evolves gone s (snd (softDeleteUser u gid actor s))"
  unfolding softDeleteUser_def case_prod_unfold
  by (intro site_evolves.andThen site_evolves.transaction site_evolves.option_split_handler
      site_evolves.ok site_evolves.reads site_rules site_removeNotices) simp_all

lemma site_deleteSoft:
  assumes "uid \<in> gone"
  shows "site_evolves gone s (snd (deleteUser E allowed uid actor soft s))"
  unfolding deleteUser_def case_prod_unfold
  by (intro site_evolves.rules site_rules site_evolves.if_split_handler site_softDeleteUser)
    (use assms in \<open>auto simp: loadUserForDeletion_def andThen_eq_Inr orThrow_def userOf_def
      dest: findUnique_SomeD split: option.splits\<close>)

text \<open>
  A hard deletion, which may delete what other tables refer to, is not part of the runs; of the
  notifications it deletes the user's own too.
\<close>

lemma mail_frame:
  "nextId (backend s) \<le> nextId (backend s') \<Longrightarrow> notices s' = notices s \<Longrightarrow> mail_kept gone s s'"
  by (simp add: mail_kept_def)

lemma mail_removeAssignments: "mail_kept gone s (snd (removeAssignmentsOf gid s))"
  unfolding removeAssignmentsOf_def by (intro mail_kept.rules mail_kept.writes mail_frame) simp_all

lemma mail_forgetActivator: "mail_kept gone s (snd (forgetActivator uid s))"
  unfolding forgetActivator_def by (intro mail_kept.writes mail_frame) simp_all

lemma mail_removeGuardian: "mail_kept gone s (snd (removeGuardian gid s))"
  unfolding removeGuardian_def by (intro mail_kept.rules mail_kept.writes mail_frame) simp_all

lemma mail_removeUserRow: "mail_kept gone s (snd (removeUserRow uid s))"
  unfolding removeUserRow_def by (intro mail_kept.rules mail_kept.writes mail_frame) simp_all

lemma mail_removeNotices: "uid \<in> gone \<Longrightarrow> mail_kept gone s (snd (removeNotices uid s))"
  using site_removeNotices by (auto simp: site_evolves_def)

lemma mail_hardDeleteUser: "uid \<in> gone \<Longrightarrow> mail_kept gone s (snd (hardDeleteUser uid gid actor s))"
  unfolding hardDeleteUser_def case_prod_unfold
  by (intro mail_kept.andThen mail_kept.transaction mail_kept.option_split_handler mail_kept.ok
      mail_kept.reads mail_kept.writes mail_frame mail_removeAssignments mail_forgetActivator
      mail_removeGuardian mail_removeNotices mail_removeUserRow)
    (simp_all add: siteAudit_def inBackend_def auditLog_def)

lemma mail_deleteHard:
  assumes "uid \<in> gone"
  shows "mail_kept gone s (snd (deleteUser E allowed uid actor hard s))"
  unfolding deleteUser_def case_prod_unfold
  by (intro mail_kept.rules mail_kept.if_split_handler mail_hardDeleteUser)
    (use assms in \<open>auto simp: loadUserForDeletion_def collectBlockers_def andThen_eq_Inr orThrow_def userOf_def
      intro: mail_kept.refl dest: findUnique_SomeD split: option.splits\<close>)

lemma mail_deleteUser:
  "uid \<in> gone \<Longrightarrow> mail_kept gone s (snd (deleteUser E allowed uid actor mode s))"
  using site_deleteSoft [of uid gone s E allowed actor] mail_deleteHard
  by (cases mode) (simp_all add: site_evolves_def)

lemma site_updateGuardianRow [site_rules]: "site_evolves gone s (snd (updateGuardianRow gid f s))"
  by (auto simp: updateGuardianRow_def split: option.split intro!: site_frame)

lemma site_getOne [site_rules]: "site_evolves gone s (snd (getOne gid s))"
  unfolding getOne_def by (intro site_evolves.rules)

lemma site_activate [site_rules]: "site_evolves gone s (snd (activate E gid actor s))"
  unfolding activate_def
  by (intro site_evolves.rules site_rules site_evolves.transaction) simp_all

lemma site_suspend [site_rules]: "site_evolves gone s (snd (suspend gid actor s))"
  unfolding suspend_def
  by (intro site_evolves.rules site_rules site_evolves.transaction site_evolves.writes site_frame) simp_all

lemma site_hashSecret [site_rules]: "site_evolves gone s (snd (hashSecret E plain s))"
  unfolding hashSecret_def by (intro site_evolves.rules site_rules)

lemma site_temporaryPassword [site_rules]: "site_evolves gone s (snd (generateTemporaryPassword E s))"
  unfolding generateTemporaryPassword_def by (intro site_evolves.rules site_rules)

lemma site_createGuardianRows [site_rules]:
  "site_evolves gone s (snd (createGuardianRows dto number code h1 h2 h3 who s))"
  unfolding createGuardianRows_def
  by (intro site_evolves.rules site_rules site_evolves.writes site_frame) simp_all

lemma site_sendGuardianCredentials [site_rules]:
  "site_evolves gone s (snd (sendGuardianCredentials E uid number email secret s))"
  unfolding sendGuardianCredentials_def sendCredentialsBySms_def
  by (intro site_evolves.rules site_rules site_evolves.writes site_frame) simp_all

lemma site_createGuardian [site_rules]: "site_evolves gone s (snd (createGuardian E dto actor s))"
  unfolding createGuardian_def case_prod_unfold by (intro site_evolves.rules site_rules)

section \<open>Runs\<close>

text \<open>
  What the endpoints for accounts are asked, with what the controller hands to the services.  A
  request to any other endpoint passes the guards first (\<open>Request\<close>).
\<close>

datatype 'tok auth_event =
    SignInRequestOtp string "string option" "string option"
  | SignInVerifyOtp string string
  | SignInPassword string string
  | PasswordResetRequest string
  | PasswordResetConfirm string string string string
  | SetPassword string string "'tok option" "'tok option"
  | SetContext id id
  | Refresh 'tok
  | Logout 'tok "id option"
  | Request route "'tok option" "id option"
  | InvalidateUser id
  | RegisterStart string
  | RegisterStartVerify string string
  | RegisterProfile "'tok option" profile_dto
  | RegisterBusiness "'tok option" business_dto
  | RegisterPayment "'tok option" mobile_money_provider string
  | RegisterLocation "'tok option" location_dto
  | RegisterDocument "'tok option" string string document_type
  | RegisterStatus "'tok option"
  | RegisterSubmit "'tok option"
  | RegisterResume string "string option"
  | CreateGuardian create_guardian_dto actor
  | ActivateGuardian id actor
  | SuspendGuardian id actor
  | SoftDeleteUser id actor

definition silently :: "'a call \<Rightarrow> unit call" where
  "silently m = andThen m (\<lambda>_. ok ())"

fun perform :: "'tok env \<Rightarrow> 'tok auth_event \<Rightarrow> unit call" where
  "perform E (SignInRequestOtp value ip device) = silently (signInRequestOtp E value ip device)"
| "perform E (SignInVerifyOtp value code) = silently (signInVerifyOtp E value code)"
| "perform E (SignInPassword login password) = silently (signInWithPassword E login password)"
| "perform E (PasswordResetRequest login) = silently (passwordResetRequest E login)"
| "perform E (PasswordResetConfirm login code password confirm) =
     silently (passwordResetConfirm E login code password confirm)"
| "perform E (SetPassword password confirm setupToken header) =
     andThen (tryResolveAccessUserId E header) (\<lambda>who.
     silently (setPassword E password confirm setupToken who))"
| "perform E (SetContext userId org) = silently (setContext E userId org)"
| "perform E (Refresh tok) = silently (refresh E tok)"
| "perform E (Logout tok userId) = logout E tok userId"
| "perform E (Request r header org) =
     andThen (jwtAuthGuard E r header) (\<lambda>who.
     andThen (permissionsGuard E r who) (\<lambda>_.
     silently (lift (orgScopeGuard r who org))))"
| "perform E (InvalidateUser userId) = invalidateUser userId"
| "perform E (RegisterStart value) = silently (startRegistration E value)"
| "perform E (RegisterStartVerify value code) = silently (verifyRegistrationStart E value code)"
| "perform E (RegisterProfile header dto) = silently (patchProfile E header dto)"
| "perform E (RegisterBusiness header dto) = silently (patchBusiness E header dto)"
| "perform E (RegisterPayment header provider number) = silently (patchPayment E header provider number)"
| "perform E (RegisterLocation header dto) = silently (patchLocation E header dto)"
| "perform E (RegisterDocument header buffer mimeType documentType) =
     silently (registerDocumentUpload E header buffer mimeType documentType)"
| "perform E (RegisterStatus header) = silently (getRegistrationStatus E header)"
| "perform E (RegisterSubmit header) = silently (submitRegistration E header)"
| "perform E (RegisterResume value password) = silently (resumeRegistration E value password)"
| "perform E (CreateGuardian dto actor) = silently (createGuardian E dto actor)"
| "perform E (ActivateGuardian gid actor) = silently (activate E gid actor)"
| "perform E (SuspendGuardian gid actor) = suspend gid actor"
| "perform E (SoftDeleteUser userId actor) = silently (deleteUser E False userId actor soft)"

text \<open>
  Between two calls the rest of the backend does what it likes and time passes, and the users,
  the permission tables, organizations, sites and documents may be edited.
\<close>

inductive auth_step :: "'tok env \<Rightarrow> site \<Rightarrow> site \<Rightarrow> bool" for E where
  call: "auth_step E s (snd (perform E ev s))"
| elsewhere: "ticks (backend s) b \<Longrightarrow> auth_step E s (s\<lparr>backend := b\<rparr>)"
| accounts: "auth_step E s (s\<lparr>users := us, rolePermissions := ps, orgMemberRolePermissions := qs,
    orgProfiles := os, locationProfiles := ls, orgDocuments := ds, storedDocuments := cs\<rparr>)"

lemma site_silently [site_rules]: "site_evolves gone s (snd (m s)) \<Longrightarrow> site_evolves gone s (snd (silently m s))"
  unfolding silently_def by (intro site_evolves.andThen site_evolves.ok)

lemma site_tryResolve [site_rules]: "site_evolves gone s (snd (tryResolveAccessUserId E header s))"
  by (simp add: tryResolveAccessUserId_def)

text \<open>The user whose account a request deletes.\<close>

definition deletes :: "'tok auth_event \<Rightarrow> id option" where
  "deletes ev = (case ev of SoftDeleteUser userId actor \<Rightarrow> Some userId | _ \<Rightarrow> None)"

lemma site_perform:
  assumes "\<And>uid. deletes ev = Some uid \<Longrightarrow> uid \<in> gone"
  shows "site_evolves gone s (snd (perform E ev s))"
  using assms by (cases ev) (auto simp: deletes_def intro!: site_rules site_evolves.andThen site_deleteSoft)

lemma auth_step_evolves: "auth_step E s s' \<Longrightarrow> site_evolves UNIV s s'"
  by (induction rule: auth_step.cases) (auto simp: ticks_def intro: site_perform site_frame)

lemma auth_steps_evolve: "(auth_step E)\<^sup>*\<^sup>* s s' \<Longrightarrow> site_evolves UNIV s s'"
  by (induction rule: rtranclp_induct) (auto intro: site_evolves.trans auth_step_evolves)

lemma site_ok_stays: "site_evolves gone s s' \<Longrightarrow> site_ok s \<Longrightarrow> site_ok s'"
  by (simp add: site_evolves_def mail_kept_def)

end
