(* ===== verification/Office.thy ===== *)
theory Office
  imports Requests
begin

text \<open>
  A small office to try the identity services in: a client owner, a suspended client and a
  guardian, and a transparent stand-in for the third-party libraries (a token is the triple of
  its secret, its claims and its expiry; a hash is the text with a letter in front).
\<close>

definition glass :: "(string \<times> claims \<times> instant) env" where
  "glass = \<lparr>bcryptHash = (\<lambda>salt rounds plain. CHR ''h'' # plain),
     bcryptCompare = (\<lambda>plain stored. stored = CHR ''h'' # plain),
     signAsync = (\<lambda>secret c iat expires. (secret, c, parseExpiry expires iat)),
     verifyAsync = (\<lambda>secret t (secret', c, expiry). if secret = secret' \<and> t < expiry then Some c else None),
     entropy = int, smsFailure = (\<lambda>_ _. None), smsConfigured = False, mailFailure = (\<lambda>_ _. False), production = False,
     JWT_SECRET = ''access'', JWT_REFRESH_SECRET = ''refresh'', JWT_EXPIRES_IN = ''15m'',
     JWT_REFRESH_EXPIRES_IN = ''7d'', PERMISSION_CACHE_TTL_SECONDS = 600,
     DOCUMENT_MAX_BYTES = 10485760\<rparr>"

lemma glass_laws: "jwt_laws glass (\<lambda>iat expires. parseExpiry expires iat)"
  by (simp add: jwt_laws_def glass_def)

definition officeUser :: "id \<Rightarrow> string \<Rightarrow> user_status \<Rightarrow> role_code \<Rightarrow> user" where
  "officeUser uid number status role = \<lparr>u_id = uid, u_phoneNumber = number, u_email = None,
     u_fullName = None, u_passwordHash = Some ''hsecret-1'', u_passwordSetAt = Some 0,
     u_status = status, u_isPhoneVerified = True, u_isEmailVerified = False,
     u_lastLoginAt = None, u_onboardingStep = None, u_onboardingCompletedAt = Some 0,
     u_roles = [role]\<rparr>"

definition officeBackend :: sys where
  "officeBackend = \<lparr>jobs = [], assignments = [], history = [], dispatchAudits = [], shifts = [],
     guardians = [\<lparr>g_id = 4, g_userId = 3, g_status = G_ACTIVE, g_verificationStatus = GV_VERIFIED,
       g_employmentType = FULL_TIME, g_reliabilityScore = 9, g_districtBase = ''gasabo'',
       g_coverageDistricts = [], g_hourlyPayRate = None, g_payCurrency = ''RWF'',
       g_certifications = [], g_guardianCode = ''G'', g_nationalIdHash = '''', g_reserveForceNumberHash = None,
       g_sectorBase = None, g_yearsExperience = None, g_specializations = [], g_preferredShift = None,
       g_rating = 0, g_activatedAt = None, g_activatedBy = None\<rparr>],
     performance = [], orgs = [\<lparr>o_id = 9, o_verificationStatus = V_VERIFIED\<rparr>],
     orgUsers = [\<lparr>m_organizationId = 9, m_userId = 1, m_isOwner = True\<rparr>],
     locations = [], billingPolicies = [], payPolicies = [], pricingRules = [], services = [],
     booking = \<lparr>minimumBookingHours = 4, nightSurchargeMinPct = 0, nightSurchargeMaxPct = 0,
       holidaySurchargeMinPct = 0, holidaySurchargeMaxPct = 0, guardianSharePct = 0,
       platformSharePct = 0, gatewaySharePct = 0, reserveSharePct = 0, vatRate = 0\<rparr>,
     invoices = [], payments = [], earnings = [], payouts = [], outbox = [], audits = [],
     messages = [], expiryTimers = [], presence = (\<lambda>_. None), locationHistory = [],
     vettingRecords = [], guardianReviews = [], fieldIncidents = [],
     nextId = 10, clock = 1000000,
     config = \<lparr>OFFER_TTL_MS = 300000, DISPATCH_WINDOW_MS = 3600000, DISPATCH_POOL_SIZE = 50,
       MAX_OFFERS_PER_JOB = 20, MAX_REPLACEMENT_OFFERS_PER_JOB = 10,
       DISPATCH_UNREACHABLE_GRACE_MS = 600000, URGENT_PARALLEL_OFFERS = 3,
       BILLING_AUTO_CONFIRM_MS = 86400000, GUARDIAN_PAY_MINIMUM_HOURS_FALLBACK = 4\<rparr>\<rparr>"

text \<open>The owner has an open session of the family 6 that lasts until the instant 5000999.\<close>

definition office :: site where
  "office = \<lparr>backend = officeBackend,
     users = [officeUser 1 ''+250788000001'' U_ACTIVE CLIENT_OWNER,
       officeUser 2 ''+250788000002'' U_SUSPENDED CLIENT_OWNER,
       officeUser 3 ''+250788000003'' U_ACTIVE GUARDIAN],
     otpSessions = [],
     refreshTokens = [\<lparr>rt_userId = 1, rt_jti = 5, rt_familyId = 6, rt_expiresAt = 5000999,
       rt_revokedAt = None\<rparr>],
     rolePermissions = [(GUARDIAN, ''assignments:act'')],
     orgMemberRolePermissions = [(CLIENT_OWNER, ''jobs:create''), (CLIENT_OWNER, ''jobs:read'')],
     memoryRevoked = (\<lambda>_. None), memoryCache = (\<lambda>_. None), smsSent = [],
     orgProfiles = [\<lparr>op_id = 9, op_legalName = ''Hotel'', op_tradingName = None, op_tinNumber = None,
       op_orgType = HOTEL, op_mobileMoneyProvider = MM_MOMO_MTN, op_mobileMoneyPhone = ''+250788000001'',
       op_verificationRejectionReason = None, op_applicationSubmittedAt = None\<rparr>],
     locationProfiles = [], orgDocuments = [], storedDocuments = [], notices = []\<rparr>"

definition officeToken :: "string \<times> claims \<times> instant" where
  "officeToken = (''refresh'', RefreshClaims 1 5 6, 5000999)"

definition later :: "int \<Rightarrow> site \<Rightarrow> site" where
  "later ms s = s\<lparr>backend := (backend s)\<lparr>clock := clock (backend s) + ms\<rparr>\<rparr>"

lemma office_ok: "site_ok office"
  by (simp add: site_ok_def office_def officeBackend_def)

lemma later_step: "0 \<le> ms \<Longrightarrow> auth_step E s (later ms s)"
  unfolding later_def by (rule auth_step.elsewhere) (simp add: ticks_def)

lemma later_steps: "0 \<le> ms \<Longrightarrow> (auth_step E)\<^sup>*\<^sup>* s (later ms s)"
  by (rule r_into_rtranclp [of "auth_step E", OF later_step])

lemma clock_later [simp]: "clock (backend (later ms s)) = clock (backend s) + ms"
  by (simp add: later_def)

text \<open>Codes are drawn from the counter, so the first code sent is this one.\<close>

definition firstCode :: string where
  "firstCode = ''100010''"

end
