(* ===== verification/Credentials.thy ===== *)
theory Credentials
  imports Office
begin

text \<open>
  What the identity services promise: how long a credential works and who may use it.  The
  witnesses run in a small office of three accounts with a transparent stand-in for the
  third-party libraries.
\<close>

section \<open>Refused refresh tokens\<close>

definition refused :: "'tok env \<Rightarrow> 'tok \<Rightarrow> site \<Rightarrow> bool" where
  "refused E tok s \<longleftrightarrow> (\<exists>e s'. refreshTokensOf E tok s = (Inl e, s') \<and>
     refreshTokens s' = refreshTokens s)"

lemma isRevoked_tokens: "refreshTokens (snd (isRefreshTokenRevoked jti s)) = refreshTokens s"
  "backend (snd (isRefreshTokenRevoked jti s)) = backend s"
  by (auto simp: isRefreshTokenRevoked_def split: option.split)

lemma isRevoked_answer: "\<exists>b. fst (isRefreshTokenRevoked jti s) = Inr b"
  by (auto simp: isRefreshTokenRevoked_def split: option.split)

lemma refused_by_row:
  assumes "verifyAsync E (JWT_REFRESH_SECRET E) (clock (backend s)) tok = Some (RefreshClaims u jti f)"
    and "tokenOf jti s = Some r" and "rt_revokedAt r \<noteq> None \<or> rt_expiresAt r < clock (backend s)"
  shows "refused E tok s"
proof -
  obtain b s1 where *: "isRefreshTokenRevoked jti s = (Inr b, s1)"
    using isRevoked_answer [of jti s] by (metis prod.collapse)
  then have "refreshTokens s1 = refreshTokens s" "backend s1 = backend s"
    using isRevoked_tokens [of jti s] by simp_all
  then show ?thesis
    using assms * by (cases b) (auto simp: refused_def refreshTokensOf_def andThen_def [of "isRefreshTokenRevoked jti"]
        tokenOf_def ensure_def)
qed

lemma refused_by_memory:
  assumes "verifyAsync E (JWT_REFRESH_SECRET E) (clock (backend s)) tok = Some (RefreshClaims u jti f)"
    and "memoryRevoked s jti = Some x" and "clock (backend s) \<le> x"
  shows "refused E tok s"
  using assms by (auto simp: refused_def refreshTokensOf_def isRefreshTokenRevoked_def andThen_def)

section \<open>Ending every session\<close>

lemma revoke_both_row:
  assumes "tokenOf jti s \<noteq> None"
  shows "revoked_row jti (snd (andThen (revokeRefreshToken jti e)
    (\<lambda>_. updateToken jti (\<lambda>r. r\<lparr>rt_revokedAt := Some t\<rparr>)) s))"
  using assms by (auto simp: andThen_def revokeRefreshToken_apply updateToken_def tokenOf_def
      revoked_row_def findUnique_updateMany dest: findUnique_SomeD)

lemma revoke_each_rows:
  assumes "site_ok s" and "\<And>r. r \<in> set rows \<Longrightarrow> tokenOf (rt_jti r) s \<noteq> None" and "r \<in> set rows"
  shows "revoked_row (rt_jti r) (snd (forEach rows (\<lambda>stored.
    andThen (revokeRefreshToken (rt_jti stored) (rt_expiresAt stored))
      (\<lambda>_. updateToken (rt_jti stored) (\<lambda>r. r\<lparr>rt_revokedAt := Some t\<rparr>))) s))"
  using assms
proof (induction rows arbitrary: s)
  case (Cons row rows)
  let ?pair = "andThen (revokeRefreshToken (rt_jti row) (rt_expiresAt row))
      (\<lambda>_. updateToken (rt_jti row) (\<lambda>r. r\<lparr>rt_revokedAt := Some t\<rparr>))"
  let ?rest = "forEach rows (\<lambda>stored.
    andThen (revokeRefreshToken (rt_jti stored) (rt_expiresAt stored))
      (\<lambda>_. updateToken (rt_jti stored) (\<lambda>r. r\<lparr>rt_revokedAt := Some t\<rparr>)))"
  have some: "tokenOf (rt_jti row) s \<noteq> None"
    by (simp add: Cons.prems)
  obtain s1 where s1: "?pair s = (Inr (), s1)"
    using some by (cases "?pair s")
      (auto simp: andThen_def revokeRefreshToken_apply updateToken_def tokenOf_def split: option.splits)
  have ok: "site_ok s1"
    using site_revoke_both [OF some] s1 Cons.prems(1) site_ok_stays by (metis snd_conv)
  have left: "tokenOf (rt_jti q) s1 \<noteq> None" if "q \<in> set rows" for q
    using tokens_after_revoking [of "rt_jti q" "rt_jti row" "rt_expiresAt row" t s] s1
      Cons.prems(2) [of q] that by auto
  have eq: "snd (andThen ?pair (\<lambda>_. ?rest) s) = snd (?rest s1)"
    using s1 by (simp add: andThen_Inr)
  have "revoked_row (rt_jti row) s1"
    using revoke_both_row [OF some] s1 by (metis snd_conv)
  then have "revoked_row (rt_jti row) (snd (?rest s1))"
    by (rule revoked_row_stays [OF site_revoke_each ok, rotated]) (rule left)
  moreover have "revoked_row (rt_jti r) (snd (?rest s1))" if "r \<in> set rows"
    by (rule Cons.IH [OF ok _ that]) (rule left)
  ultimately show ?case
    using Cons.prems(3) unfolding forEach.simps eq by auto
qed simp

lemma revokeAll_rows:
  assumes "site_ok s" and "r \<in> set (refreshTokens s)" and "rt_userId r = uid"
    and "clock (backend s) < rt_expiresAt r \<or> rt_revokedAt r \<noteq> None"
  shows "revoked_row (rt_jti r) (snd (revokeAllRefreshTokensForUser uid s))"
proof (cases "rt_revokedAt r")
  case None
  have there: "tokenOf (rt_jti q) s \<noteq> None" if "q \<in> set (refreshTokens s)" for q
    using that by (auto simp: tokenOf_def findUnique_None_iff)
  show ?thesis
    unfolding revokeAllRefreshTokensForUser_def
    by (simp, rule revoke_each_rows) (use assms None there in \<open>auto simp: findMany_def\<close>)
next
  case (Some t)
  have "tokenOf (rt_jti r) s = Some r"
    using assms(1,2) by (simp add: tokenOf_def site_ok_def findUnique_distinct)
  then have "revoked_row (rt_jti r) s"
    using Some by (simp add: revoked_row_def)
  then show ?thesis
    using revoked_row_stays [OF site_revokeAll assms(1)] by blast
qed

text \<open>Looking the user up leaves the site alone.\<close>

lemma findUserForPasswordReset_state:
  "findUserForPasswordReset login s = (Inr u, s') \<Longrightarrow> s' = s"
  by (auto simp: findUserForPasswordReset_def andThen_eq_Inr lift_def orThrow_def ensure_def
      split: sum.splits option.splits if_splits)

text \<open>What comes before the revocation changes neither the tokens nor the clock.\<close>

definition sameTokens :: "site \<Rightarrow> site \<Rightarrow> bool" where
  "sameTokens s s' \<longleftrightarrow> refreshTokens s' = refreshTokens s \<and> backend s' = backend s"

interpretation sameTokens: state_preorder sameTokens
  by standard (auto simp: sameTokens_def)

lemma sameTokens_updateOtp: "sameTokens s (snd (updateOtp oid f s))"
  by (auto simp: sameTokens_def updateOtp_def split: option.split)

lemma sameTokens_lift: "sameTokens s (snd (lift r s))"
  by (cases r) (simp_all add: sameTokens_def)

lemma verifyOtp_tokens:
  "refreshTokens (snd (verifyOtp E value code s)) = refreshTokens s"
  "backend (snd (verifyOtp E value code s)) = backend s"
proof -
  have "sameTokens s (snd (verifyOtp E value code s))"
    unfolding verifyOtp_def siteNow_def
    by (intro sameTokens.rules sameTokens_updateOtp sameTokens_lift)
  then show "refreshTokens (snd (verifyOtp E value code s)) = refreshTokens s"
    "backend (snd (verifyOtp E value code s)) = backend s"
    by (simp_all add: sameTokens_def)
qed

lemma assertUserCanSignIn_state: "snd (assertUserCanSignIn u s) = s"
  unfolding assertUserCanSignIn_def Let_def by (intro unchanged.rules)

lemma hashPassword_tokens:
  "refreshTokens (snd (hashPassword E plain s)) = refreshTokens s"
  "clock (backend (snd (hashPassword E plain s))) = clock (backend s)"
  by (auto simp: hashPassword_def assertPolicy_def ensure_def)

lemma updateUser_tokens:
  "refreshTokens (snd (updateUser uid f s)) = refreshTokens s"
  "backend (snd (updateUser uid f s)) = backend s"
  by (auto simp: updateUser_def split: option.split)

lemma passwordReset_revokes:
  assumes ok: "site_ok s" and run: "passwordResetConfirm E login code pw confirm s = (Inr answer, s1)"
    and u: "findUserForPasswordReset login s = (Inr u, s)"
    and r: "r \<in> set (refreshTokens s)" "rt_userId r = u_id u"
    and live: "clock (backend s) < rt_expiresAt r \<or> rt_revokedAt r \<noteq> None"
  shows "revoked_row (rt_jti r) s1"
proof -
  let ?tail = "\<lambda>_. andThen (siteAudit (u_id u) ''PASSWORD_RESET'' (u_id u)) (\<lambda>_.
     andThen (emailUser (u_id u) ''SECURITY_PASSWORD_RESET_COMPLETED'') (\<lambda>_.
     buildAuthResponse E (u_id u) False))"
  obtain n a b h t x s2 s3 s4 s5 s6 where
    1: "verifyOtp E (u_phoneNumber u) code s = (Inr n, s2)"
    and 2: "assertUserCanSignIn u s2 = (Inr a, s3)"
    and 3: "hashPassword E pw s3 = (Inr h, s4)" "t = clock (backend s4)"
    and 4: "updateUser (u_id u) (\<lambda>r. r\<lparr>u_passwordHash := Some h, u_passwordSetAt := Some t\<rparr>) s4 = (Inr b, s5)"
    and 5: "revokeAllRefreshTokensForUser (u_id u) s5 = (Inr x, s6)"
    and 6: "?tail x s6 = (Inr answer, s1)"
    using run u by (auto simp: passwordResetConfirm_def andThen_eq_Inr assertMatch_def ensure_def
        split: if_splits)
  have same: "refreshTokens s5 = refreshTokens s" "clock (backend s5) = clock (backend s)"
    using verifyOtp_tokens [of E "u_phoneNumber u" code s] assertUserCanSignIn_state [of u s2]
      hashPassword_tokens [of E pw s3] updateUser_tokens [of "u_id u" _ s4] 1 2 3 4
    by (metis snd_conv)+
  have "site_evolves UNIV s s2" "site_evolves UNIV s2 s3" "site_evolves UNIV s3 s4" "site_evolves UNIV s4 s5"
    "site_evolves UNIV s5 s6"
    using site_verifyOtp site_assertUserCanSignIn site_hashPassword site_updateUser site_revokeAll
      1 2 3 4 5 by (metis snd_conv)+
  then have ok5: "site_ok s5" and ok6: "site_ok s6"
    using ok site_ok_stays by blast+
  have "revoked_row (rt_jti r) s6"
    using revokeAll_rows [OF ok5, of r "u_id u"] r live same 5 by simp
  moreover have "site_evolves UNIV s6 (snd (?tail x s6))"
    by (intro site_evolves.rules site_rules)
  ultimately show ?thesis
    using revoked_row_stays ok6 6 by (metis snd_conv)
qed

text \<open>
  C29: A password reset ends every session of the account: no refresh token that was issued
  before works afterwards, whatever calls follow.  (A token that expires at the very instant of
  the reset is not looked at by the reset and not yet expired for a refresh.)
\<close>

theorem reset_ends_sessions:
  assumes "site_ok s" and "passwordResetConfirm E login code pw confirm s = (Inr answer, s1)"
    and "findUserForPasswordReset login s = (Inr u, s)"
    and "r \<in> set (refreshTokens s)" and "rt_userId r = u_id u"
    and "rt_expiresAt r \<noteq> clock (backend s)" and "(auth_step E)\<^sup>*\<^sup>* s1 s2"
    and "verifyAsync E (JWT_REFRESH_SECRET E) (clock (backend s2)) tok =
      Some (RefreshClaims w (rt_jti r) f)"
  shows "refused E tok s2"
proof -
  have 1: "site_evolves UNIV s s1"
    using site_passwordResetConfirm assms(2) by (metis snd_conv)
  have 2: "site_evolves UNIV s1 s2"
    using assms(7) by (rule auth_steps_evolve)
  have ok: "site_ok s1" "site_ok s2"
    using 1 2 assms(1) site_ok_stays by blast+
  show ?thesis
  proof (cases "clock (backend s) < rt_expiresAt r \<or> rt_revokedAt r \<noteq> None")
    case True
    then have "revoked_row (rt_jti r) s1"
      using passwordReset_revokes assms by blast
    then have "revoked_row (rt_jti r) s2"
      using revoked_row_stays 2 ok(1) by blast
    then show ?thesis
      using refused_by_row [OF assms(8)] by (auto simp: revoked_row_def)
  next
    case False
    have "site_evolves UNIV s s2"
      using 1 2 by (rule site_evolves.trans)
    moreover have "tokenOf (rt_jti r) s = Some r"
      using assms(1,4) by (simp add: tokenOf_def site_ok_def findUnique_distinct)
    ultimately obtain r' where "tokenOf (rt_jti r) s2 = Some r'" "token_step r r'"
      "clock (backend s) \<le> clock (backend s2)"
      using token_survives assms(1) ok(2) unfolding site_evolves_def by blast
    then show ?thesis
      using refused_by_row [OF assms(8)] False assms(6) by (auto simp: token_step_def)
  qed
qed

text \<open>The owner of the office asks for a reset, and confirms it with the code sent.\<close>

definition resetAsked :: site where
  "resetAsked = snd (passwordResetRequest glass ''+250788000001'' office)"

definition resetDone :: site where
  "resetDone = snd (passwordResetConfirm glass ''+250788000001'' firstCode ''secret-2'' ''secret-2'' resetAsked)"

lemma reset_facts:
  "refreshTokens resetAsked = [\<lparr>rt_userId = 1, rt_jti = 5, rt_familyId = 6, rt_expiresAt = 5000999,
     rt_revokedAt = None\<rparr>]"
  "clock (backend resetAsked) = 1000000" "clock (backend (later 60000 resetDone)) = 1060000"
  "(case fst (passwordResetConfirm glass ''+250788000001'' firstCode ''secret-2'' ''secret-2'' resetAsked) of
     Inl _ \<Rightarrow> False | Inr _ \<Rightarrow> True)"
  "(case fst (findUserForPasswordReset ''+250788000001'' resetAsked) of
     Inl _ \<Rightarrow> False | Inr u \<Rightarrow> u_id u = 1)"
  by code_simp+

lemma reset_ends_sessions_witness: "refused glass officeToken (later 60000 resetDone)"
proof -
  let ?login = "''+250788000001''"
  have ok: "site_ok resetAsked"
    unfolding resetAsked_def by (rule site_ok_stays [OF site_passwordResetRequest office_ok])
  obtain answer where run: "passwordResetConfirm glass ?login firstCode ''secret-2'' ''secret-2'' resetAsked
      = (Inr answer, resetDone)"
    using reset_facts(4) unfolding resetDone_def
    by (cases "passwordResetConfirm glass ?login firstCode ''secret-2'' ''secret-2'' resetAsked") 
      (auto split: sum.splits)
  obtain u where u: "findUserForPasswordReset ?login resetAsked = (Inr u, resetAsked)" "u_id u = 1"
    using reset_facts(5) findUserForPasswordReset_state [of ?login resetAsked]
    by (cases "findUserForPasswordReset ?login resetAsked") (auto split: sum.splits)
  show ?thesis
    by (rule reset_ends_sessions [OF ok run u(1), of "hd (refreshTokens resetAsked)", OF _ _ _ later_steps])
      (auto simp: reset_facts(1,2) u(2) reset_facts(3) [simplified] officeToken_def glass_def)
qed

section \<open>Rotation\<close>

lemma loadAuthUserPayload_apply:
  "\<exists>r. loadAuthUserPayload uid org s = (Inr r, s) \<and> (\<forall>p. r = Some p \<longrightarrow> sub p = uid)"
  by (auto simp: loadAuthUserPayload_def userOf_def Let_def dest: findUnique_SomeD split: option.split)

lemma loadAuthUserPayload_memory:
  "fst (loadAuthUserPayload uid org (s\<lparr>memoryRevoked := m\<rparr>)) = fst (loadAuthUserPayload uid org s)"
  by (simp add: loadAuthUserPayload_def userOf_def split: option.split)

lemma issueTokens_family:
  "issueTokens E p (Some f) s =
     (Inr \<lparr>accessToken = signAsync E (JWT_SECRET E) (AccessClaims p) (clock (backend s)) (JWT_EXPIRES_IN E),
        refreshToken = signAsync E (JWT_REFRESH_SECRET E)
          (RefreshClaims (sub p) (nextId (backend s)) f) (clock (backend s)) (JWT_REFRESH_EXPIRES_IN E),
        expiresIn = JWT_EXPIRES_IN E\<rparr>,
      s\<lparr>backend := (backend s)\<lparr>nextId := Suc (nextId (backend s))\<rparr>,
        refreshTokens := refreshTokens s @ [\<lparr>rt_userId = sub p, rt_jti = nextId (backend s),
          rt_familyId = f, rt_expiresAt = parseExpiry (JWT_REFRESH_EXPIRES_IN E) (clock (backend s)),
          rt_revokedAt = None\<rparr>]\<rparr>)"
  by (simp add: issueTokens_def Let_def createRow_def)

text \<open>What a successful refresh did: the row it found, the note in memory and the new row.\<close>

lemma refreshTokensOf_effect:
  assumes run: "refreshTokensOf E tok s = (Inr pair, s1)"
    and claims: "verifyAsync E (JWT_REFRESH_SECRET E) (clock (backend s)) tok = Some (RefreshClaims u jti f)"
  obtains r row where "tokenOf jti s = Some r" "rt_revokedAt r = None"
    "clock (backend s) \<le> rt_expiresAt r"
    "memoryRevoked s1 jti = Some (clock (backend s) +
       max 1 ((rt_expiresAt r - clock (backend s)) div 1000) * 1000)"
    "refreshTokens s1 = refreshTokens s @ [row]" "rt_familyId row = rt_familyId r"
    "rt_userId row = u" "rt_revokedAt row = None" "clock (backend s1) = clock (backend s)"
    "refreshToken pair = signAsync E (JWT_REFRESH_SECRET E)
       (RefreshClaims u (rt_jti row) (rt_familyId row)) (clock (backend s)) (JWT_REFRESH_EXPIRES_IN E)"
proof -
  obtain b s0 where b: "isRefreshTokenRevoked jti s = (Inr b, s0)"
    using isRevoked_answer [of jti s] by (metis prod.collapse)
  have same: "refreshTokens s0 = refreshTokens s" "backend s0 = backend s"
    using isRevoked_tokens [of jti s] b by simp_all
  have step: "andThen (isRefreshTokenRevoked jti) f s = f b s0" for f :: "bool \<Rightarrow> 'a token_pair call"
    by (simp only: andThen_def b prod.case sum.case)
  obtain r where r: "tokenOf jti s0 = Some r" "rt_revokedAt r = None"
      "clock (backend s) \<le> rt_expiresAt r"
    and rest: "andThen (revokeRefreshToken jti (rt_expiresAt r)) (\<lambda>_.
         andThen (loadAuthUserPayload u None) (\<lambda>payload.
         andThen (orThrow payload (Unauthorized ''User not found'')) (\<lambda>p.
         issueTokens E p (Some (rt_familyId r))))) s0 = (Inr pair, s1)"
    using run b by (cases "tokenOf jti s0"; cases b)
      (auto simp: refreshTokensOf_def claims step ensure_def same split: if_splits)
  define s2 where "s2 = s0\<lparr>memoryRevoked := (memoryRevoked s0)
     (jti \<mapsto> clock (backend s0) + max 1 ((rt_expiresAt r - clock (backend s0)) div 1000) * 1000)\<rparr>"
  have "revokeRefreshToken jti (rt_expiresAt r) s0 = (Inr (), s2)"
    by (simp add: revokeRefreshToken_apply s2_def)
  then obtain p where p: "sub p = u" "issueTokens E p (Some (rt_familyId r)) s2 = (Inr pair, s1)"
    using rest loadAuthUserPayload_apply [of u None s2]
    by (auto simp: andThen_Inr andThen_eq_Inr orThrow_def split: option.splits)
  show ?thesis
    by (rule that [of r "last (refreshTokens s1)", OF _ r(2,3)]) (use r(1) p in \<open>auto simp: issueTokens_family s2_def same tokenOf_def\<close>)
qed

text \<open>The note in memory lasts until less than a second before the token would expire.\<close>

lemma revocation_lasts:
  fixes e t :: int
  shows "e - 1000 \<le> t + max 1 ((e - t) div 1000) * 1000"
proof -
  have "(e - t) div 1000 * 1000 + (e - t) mod 1000 = e - t"
    by (rule div_mult_mod_eq)
  moreover have "(e - t) mod 1000 < 1000"
    by simp
  moreover have "(e - t) div 1000 * 1000 \<le> max 1 ((e - t) div 1000) * 1000"
    by simp
  ultimately show ?thesis
    by linarith
qed

text \<open>
  C30: A refresh token works once: the refresh that it pays for issues a token of the same family
  and for the same user, and until a second before it expires the old one is refused, whatever
  calls follow.
\<close>

theorem refresh_rotates:
  assumes "site_ok s" and "refreshTokensOf E tok s = (Inr pair, s1)"
    and "verifyAsync E (JWT_REFRESH_SECRET E) (clock (backend s)) tok = Some (RefreshClaims u jti f)"
  shows "\<exists>r row. tokenOf jti s = Some r \<and> rt_revokedAt r = None \<and>
    refreshTokens s1 = refreshTokens s @ [row] \<and> rt_familyId row = rt_familyId r \<and>
    rt_userId row = u \<and> rt_jti row \<noteq> jti \<and> rt_revokedAt row = None \<and>
    (\<forall>s2. (auth_step E)\<^sup>*\<^sup>* s1 s2 \<and> clock (backend s2) \<le> rt_expiresAt r - 1000 \<and>
      verifyAsync E (JWT_REFRESH_SECRET E) (clock (backend s2)) tok = Some (RefreshClaims u jti f) \<longrightarrow>
      refused E tok s2)"
proof -
  obtain r row where r: "tokenOf jti s = Some r" "rt_revokedAt r = None"
      "clock (backend s) \<le> rt_expiresAt r"
    and mem: "memoryRevoked s1 jti = Some (clock (backend s) +
       max 1 ((rt_expiresAt r - clock (backend s)) div 1000) * 1000)"
    and row: "refreshTokens s1 = refreshTokens s @ [row]" "rt_familyId row = rt_familyId r"
      "rt_userId row = u" "rt_revokedAt row = None"
    by (rule refreshTokensOf_effect [OF assms(2,3)])
  let ?x = "clock (backend s) + max 1 ((rt_expiresAt r - clock (backend s)) div 1000) * 1000"
  have late: "rt_expiresAt r - 1000 \<le> ?x"
    by (rule revocation_lasts)
  have ev: "site_evolves UNIV s s1"
    using site_refreshTokensOf assms(2) by (metis snd_conv)
  then have ok1: "site_ok s1"
    using assms(1) by (rule site_ok_stays)
  have mem_jti: "rt_jti r = jti" "r \<in> set (refreshTokens s)"
    using r(1) by (auto simp: tokenOf_def dest: findUnique_SomeD)
  have new: "rt_jti row \<noteq> jti"
    using ok1 mem_jti unfolding site_ok_def row(1) by auto
  have spent: "refused E tok s2"
    if steps: "(auth_step E)\<^sup>*\<^sup>* s1 s2" and early: "clock (backend s2) \<le> rt_expiresAt r - 1000"
      and v: "verifyAsync E (JWT_REFRESH_SECRET E) (clock (backend s2)) tok = Some (RefreshClaims u jti f)"
    for s2
  proof -
    have "site_evolves UNIV s1 s2"
      using steps by (rule auth_steps_evolve)
    then have "memoryRevoked s2 jti = Some ?x \<or> ?x < clock (backend s2) \<or> revoked_row jti s2"
      using ok1 mem unfolding site_evolves_def memory_holds_def by blast
    then show ?thesis
      using refused_by_memory [OF v] refused_by_row [OF v] late early
      by (fastforce simp: revoked_row_def)
  qed
  show ?thesis
    using r row new spent by blast
qed

lemma refreshed_clock:
  assumes "refreshTokensOf glass officeToken office = (Inr pair, s1)"
  shows "clock (backend s1) = 1000000"
proof -
  have "clock (backend (snd (refreshTokensOf glass officeToken office))) = 1000000"
    by code_simp
  then show ?thesis
    by (simp add: assms)
qed

lemma refresh_rotates_witness:
  "\<exists>pair s1. refreshTokensOf glass officeToken office = (Inr pair, s1) \<and>
     length (refreshTokens s1) = 2 \<and> refused glass officeToken (later 3999999 s1)"
proof -
  have "(case fst (refreshTokensOf glass officeToken office) of Inl _ \<Rightarrow> False | Inr _ \<Rightarrow> True)"
    by code_simp
  then obtain pair s1 where run: "refreshTokensOf glass officeToken office = (Inr pair, s1)"
    by (cases "refreshTokensOf glass officeToken office") (auto split: sum.splits)
  have clk: "clock (backend s1) = 1000000"
    using run by (rule refreshed_clock)
  have row: "map_option rt_expiresAt (tokenOf 5 office) = Some 5000999" "length (refreshTokens office) = 1"
    by code_simp+
  have v: "verifyAsync glass (JWT_REFRESH_SECRET glass) t officeToken =
      (if t < 5000999 then Some (RefreshClaims 1 5 6) else None)" for t
    by (simp add: glass_def officeToken_def)
  have "(auth_step glass)\<^sup>*\<^sup>* s1 (later 3999999 s1)"
    by (rule later_steps) simp
  then show ?thesis
    using refresh_rotates [OF office_ok run, of 1 5 6] run clk row
    by (fastforce simp: v office_def officeBackend_def)
qed

text \<open>
  The note in memory lapses up to a second before the token, since its life is cut to whole
  seconds, and the row is not marked: in that last moment the spent token works again.
\<close>

lemma spent_token_works_again:
  "(case refreshTokensOf glass officeToken office of (Inl _, _) \<Rightarrow> None
    | (Inr _, s1) \<Rightarrow> (case fst (refreshTokensOf glass officeToken (later 4000500 s1)) of
        Inl _ \<Rightarrow> None | Inr pair \<Rightarrow> Some (expiresIn pair))) = Some ''15m''"
  by code_simp

text \<open>Setting a new password, unlike resetting it, leaves the open sessions alone.\<close>

lemma setting_a_password_keeps_sessions:
  "(case setPassword glass ''secret-3'' ''secret-3'' None (Some 1) office of (Inl _, _) \<Rightarrow> None
    | (Inr _, s1) \<Rightarrow> (case fst (refreshTokensOf glass officeToken s1) of
        Inl _ \<Rightarrow> None | Inr pair \<Rightarrow> Some (expiresIn pair))) = Some ''15m''"
  by code_simp

section \<open>Issued tokens work\<close>

text \<open>A token that is stored, valid and not revoked gets a new pair for the same family.\<close>

lemma refreshTokensOf_run:
  assumes "verifyAsync E (JWT_REFRESH_SECRET E) (clock (backend s)) tok =
      Some (RefreshClaims u (rt_jti row) (rt_familyId row))"
    and "tokenOf (rt_jti row) s = Some row" and "isRefreshTokenRevoked (rt_jti row) s = (Inr False, s)"
    and "rt_revokedAt row = None" and "clock (backend s) \<le> rt_expiresAt row"
    and "fst (loadAuthUserPayload u None s) = Inr (Some q)"
  obtains m where "refreshTokensOf E tok s = issueTokens E q (Some (rt_familyId row)) (s\<lparr>memoryRevoked := m\<rparr>)"
    and "sub q = u"
proof -
  have run: "refreshTokensOf E tok s =
      andThen (revokeRefreshToken (rt_jti row) (rt_expiresAt row)) (\<lambda>_.
         andThen (loadAuthUserPayload u None) (\<lambda>payload.
         andThen (orThrow payload (Unauthorized ''User not found'')) (\<lambda>p.
         issueTokens E p (Some (rt_familyId row))))) s"
    using assms by (simp add: refreshTokensOf_def andThen_def [of "isRefreshTokenRevoked (rt_jti row)"])
  obtain m where m: "revokeRefreshToken (rt_jti row) (rt_expiresAt row) s = (Inr (), s\<lparr>memoryRevoked := m\<rparr>)"
    by (simp add: revokeRefreshToken_apply)
  let ?s = "s\<lparr>memoryRevoked := m\<rparr>"
  obtain r where r: "loadAuthUserPayload u None ?s = (Inr r, ?s)" "\<forall>p. r = Some p \<longrightarrow> sub p = u"
    using loadAuthUserPayload_apply by blast
  have "fst (loadAuthUserPayload u None ?s) = Inr (Some q)"
    by (simp only: loadAuthUserPayload_memory assms(6))
  then have q: "r = Some q" "sub q = u"
    using r by auto
  have "refreshTokensOf E tok s = issueTokens E q (Some (rt_familyId row)) ?s"
    unfolding run andThen_def [of "revokeRefreshToken (rt_jti row) (rt_expiresAt row)"] m
    by (simp add: andThen_def [of "loadAuthUserPayload u None"] r(1) q(1))
  then show thesis
    using q(2) by (rule that)
qed

text \<open>
  C31: A token pair that was issued can be refreshed while its token is alive and its user can
  still be loaded, and the new pair is for the same user in the same family.
\<close>

theorem issued_token_refreshes:
  assumes "jwt_laws E lives" and "site_ok s" and "issueTokens E p fam s = (Inr pair, s1)"
    and "ticks (backend s1) b" and "clock b < lives (clock (backend s)) (JWT_REFRESH_EXPIRES_IN E)"
    and "clock b \<le> parseExpiry (JWT_REFRESH_EXPIRES_IN E) (clock (backend s))"
    and "fst (loadAuthUserPayload (sub p) None (s1\<lparr>backend := b\<rparr>)) = Inr (Some q)"
  shows "\<exists>pair' s2 row row'. refreshTokensOf E (refreshToken pair) (s1\<lparr>backend := b\<rparr>) = (Inr pair', s2) \<and>
    refreshTokens s1 = refreshTokens s @ [row] \<and> refreshTokens s2 = refreshTokens s1 @ [row'] \<and>
    rt_userId row' = sub p \<and> rt_familyId row' = rt_familyId row \<and>
    (\<forall>f. fam = Some f \<longrightarrow> rt_familyId row = f)"
proof -
  define row where "row = \<lparr>rt_userId = sub p, rt_jti = nextId (backend s),
     rt_familyId = (case fam of Some f \<Rightarrow> f | None \<Rightarrow> Suc (nextId (backend s))),
     rt_expiresAt = parseExpiry (JWT_REFRESH_EXPIRES_IN E) (clock (backend s)), rt_revokedAt = None\<rparr>"
  have s1: "refreshTokens s1 = refreshTokens s @ [row]" "memoryRevoked s1 = memoryRevoked s"
    and tok: "refreshToken pair = signAsync E (JWT_REFRESH_SECRET E)
       (RefreshClaims (sub p) (rt_jti row) (rt_familyId row)) (clock (backend s)) (JWT_REFRESH_EXPIRES_IN E)"
    using assms(3) by (auto simp: issueTokens_def Let_def createRow_def row_def split: option.splits)
  let ?s = "s1\<lparr>backend := b\<rparr>"
  have fresh: "nextId (backend s) \<notin> rt_jti ` set (refreshTokens s)"
    using assms(2) by (auto simp: site_ok_def)
  have v: "verifyAsync E (JWT_REFRESH_SECRET E) (clock (backend ?s)) (refreshToken pair) =
      Some (RefreshClaims (sub p) (rt_jti row) (rt_familyId row))"
    using assms(1,5) by (simp add: jwt_laws_def tok)
  have "tokenOf (rt_jti row) ?s = Some row"
    using fresh findUnique_None_iff [of rt_jti "nextId (backend s)" "refreshTokens s"]
    by (simp add: tokenOf_def s1 findUnique_append row_def)
  moreover have "isRefreshTokenRevoked (rt_jti row) ?s = (Inr False, ?s)"
  proof -
    have "memoryRevoked s (nextId (backend s)) = None"
      using assms(2) by (cases "memoryRevoked s (nextId (backend s))") (auto simp: site_ok_def)
    then show ?thesis
      by (simp add: isRefreshTokenRevoked_def s1 row_def)
  qed
  moreover have "rt_revokedAt row = None" "clock (backend ?s) \<le> rt_expiresAt row"
    using assms(6) by (simp_all add: row_def)
  ultimately obtain m where "refreshTokensOf E (refreshToken pair) ?s =
      issueTokens E q (Some (rt_familyId row)) (?s\<lparr>memoryRevoked := m\<rparr>)" and q: "sub q = sub p"
    using refreshTokensOf_run [OF v _ _ _ _ assms(7)] by auto
  then show ?thesis
    using s1(1) q by (auto simp: issueTokens_family row_def)
qed

lemma issued_token_refreshes_witness:
  "\<exists>p pair s1 pair' s2 row'. issueTokens glass p None office = (Inr pair, s1) \<and> sub p = 1 \<and>
     refreshTokensOf glass (refreshToken pair) (later 60000 s1) = (Inr pair', s2) \<and>
     refreshTokens s2 = refreshTokens s1 @ [row'] \<and> rt_userId row' = 1"
proof -
  define p where "p = \<lparr>sub = 1, roles = [CLIENT_OWNER], activeOrgId = Some 9, orgId = Some 9,
     organizationIds = [9], actorGuardianId = None, phone = ''+250788000001'', activeRole = CLIENT_OWNER\<rparr>"
  then have p: "sub p = 1"
    by simp
  obtain pair s1 where run: "issueTokens glass p None office = (Inr pair, s1)"
    by (simp add: issueTokens_def Let_def)
  have s1: "backend s1 = (backend office)\<lparr>nextId := 12\<rparr>" "users s1 = users office"
    using run by (auto simp: issueTokens_def Let_def office_def officeBackend_def)
  have load: "\<exists>q. fst (loadAuthUserPayload (sub p) None (s1\<lparr>backend := backend (later 60000 s1)\<rparr>)) = Inr (Some q)"
    by (simp add: p s1 later_def loadAuthUserPayload_def userOf_def office_def officeUser_def Let_def)
  have laws: "clock (backend (later 60000 s1)) < parseExpiry (JWT_REFRESH_EXPIRES_IN glass) (clock (backend office))"
    unfolding clock_later s1 by (simp add: s1) code_simp
  show ?thesis
    using issued_token_refreshes [OF glass_laws office_ok run, of "backend (later 60000 s1)"] load laws run p
    by (fastforce simp: ticks_def later_def)
qed

end
