(* ===== verification/Access.thy ===== *)
theory Access
  imports Credentials
begin

text \<open>
  One-time codes, the gates in front of a sign-in, and what a request with a token may do.
\<close>

section \<open>One-time codes\<close>

text \<open>The session a code is checked against: the newest that is neither used nor expired.\<close>

definition openSession :: "string \<Rightarrow> site \<Rightarrow> otp_session option" where
  "openSession number s = latestSession (\<lambda>r. ot_phoneNumber r = number \<and> ot_verifiedAt r = None \<and>
     ot_expiresAt r > clock (backend s)) s"

text \<open>
  What a code check does on every branch: a malformed number is rejected; without an open
  session, or after five wrong guesses, the code is refused and nothing changes; a wrong code
  costs a guess; the right code marks the session it was sent for as verified.
\<close>

theorem verifyOtp_effect:
  assumes "site_ok s"
  shows "verifyOtp E value code s =
    (case normalizePhone value of Inl e \<Rightarrow> (Inl e, s) | Inr number \<Rightarrow>
      (case openSession number s of None \<Rightarrow> (Inl (BadRequest ''Invalid or expired OTP''), s)
       | Some otp \<Rightarrow>
          if 5 \<le> ot_attempts otp then (Inl (TooManyRequests ''OTP attempts exceeded''), s)
          else if bcryptCompare E code (ot_otpHash otp) then
            (Inr number, s\<lparr>otpSessions := updateMany (\<lambda>r. r = otp)
               (\<lambda>r. r\<lparr>ot_verifiedAt := Some (clock (backend s))\<rparr>) (otpSessions s)\<rparr>)
          else (Inl (BadRequest ''Invalid or expired OTP''), s\<lparr>otpSessions := updateMany (\<lambda>r. r = otp)
               (\<lambda>r. r\<lparr>ot_attempts := ot_attempts r + 1\<rparr>) (otpSessions s)\<rparr>)))"
proof (cases "normalizePhone value")
  case (Inr number)
  show ?thesis
  proof (cases "openSession number s")
    case (Some otp)
    then have lat: "latestSession (\<lambda>r. ot_phoneNumber r = number \<and> ot_verifiedAt r = None \<and>
        clock (backend s) < ot_expiresAt r) s = Some otp"
      by (simp add: openSession_def)
    then have otp: "otp \<in> set (otpSessions s)"
      by (rule latestSession_SomeD [THEN conjunct1])
    have there: "sessionOf (ot_id otp) s = Some otp"
      using otp assms by (simp add: sessionOf_def site_ok_def findUnique_distinct)
    have only: "updateMany (\<lambda>r. ot_id r = ot_id otp) f (otpSessions s) = updateMany (\<lambda>r. r = otp) f (otpSessions s)" for f
      by (rule updateMany_cong) (use latestSession_row [OF assms lat] in blast)+
    show ?thesis
      using Inr Some lat there by (simp add: verifyOtp_def updateOtp_def only andThen_def MAX_ATTEMPTS_def)
  qed (simp add: Inr verifyOtp_def openSession_def)
qed (simp add: verifyOtp_def)

lemma verifyOtp_effect_witness:
  "verifyOtp glass ''+250788000001'' ''100010'' office =
     (Inl (BadRequest ''Invalid or expired OTP''), office)"
proof -
  have "normalizePhone ''+250788000001'' = Inr ''+250788000001''"
    by code_simp
  moreover have "openSession ''+250788000001'' office = None"
    by (simp add: openSession_def latestSession_def office_def findMany_def orderByDesc_def)
  ultimately show ?thesis
    unfolding verifyOtp_effect [OF office_ok] by simp
qed

lemma session_survives:
  assumes "site_ok s" and "(auth_step E)\<^sup>*\<^sup>* s s'" and "sessionOf oid s = Some r"
  obtains r' where "sessionOf oid s' = Some r'" "otp_step r r'" "ot_attempts r' \<le> 5" "site_ok s'"
proof -
  have ev: "site_evolves UNIV s s'"
    using assms(2) by (rule auth_steps_evolve)
  then have ok: "site_ok s'" and
    tab: "table_evolves otp_step (\<lambda>_. True) (otpSessions s) (otpSessions s')"
    using assms(1) by (auto simp: site_evolves_def)
  have r: "r \<in> set (otpSessions s)" "ot_id r = oid"
    using assms(3) by (auto simp: sessionOf_def dest: findUnique_SomeD)
  then obtain r' where r': "r' \<in> set (otpSessions s')" "otp_step r r'"
    using table_evolves_old [OF tab] by blast
  then have "sessionOf oid s' = Some r'"
    using findUnique_distinct [of ot_id "otpSessions s'" r'] ok r(2)
    by (simp add: sessionOf_def site_ok_def otp_step_def)
  moreover have "ot_attempts r' \<le> 5"
    using ok r'(1) by (simp add: site_ok_def MAX_ATTEMPTS_def)
  ultimately show ?thesis
    using that r'(2) ok by blast
qed

lemma sessionOf_update:
  assumes "sessionOf oid s = Some r" and "\<And>x. ot_id (f x) = ot_id x"
  shows "sessionOf oid (s\<lparr>otpSessions := updateMany (\<lambda>x. x = r) f (otpSessions s)\<rparr>) = Some (f r)"
proof -
  have "findUnique ot_id oid (updateMany (\<lambda>x. x = r) f (otpSessions s)) =
      map_option (\<lambda>x. if x = r then f x else x) (findUnique ot_id oid (otpSessions s))"
    by (rule findUnique_updateMany) (use assms(2) in auto)
  then show ?thesis
    using assms(1) by (simp add: sessionOf_def)
qed

text \<open>
  C32: A one-time code can be guessed at most five times and used once, whatever calls come
  before.  A session keeps its phone, its code and its expiry; its counter only grows and never
  exceeds five, and a verified session keeps the instant and takes no more guesses.  A code check
  that meets the session refuses every code once the counter is five, adds one to the counter for a
  wrong code and marks the session as verified for the right one; and a check that succeeds met an
  open session with guesses left, and with its code.
\<close>

theorem guesses_are_limited:
  assumes "site_ok s" and "(auth_step E)\<^sup>*\<^sup>* s s'" and "sessionOf oid s = Some r"
  shows "\<exists>r'. sessionOf oid s' = Some r' \<and> ot_phoneNumber r' = ot_phoneNumber r \<and>
    ot_otpHash r' = ot_otpHash r \<and> ot_expiresAt r' = ot_expiresAt r \<and>
    ot_attempts r \<le> ot_attempts r' \<and> ot_attempts r' \<le> 5 \<and>
    (ot_verifiedAt r \<noteq> None \<longrightarrow> ot_verifiedAt r' = ot_verifiedAt r \<and> ot_attempts r' = ot_attempts r) \<and>
    (\<forall>login number code answer t. normalizePhone login = Inr number \<longrightarrow> openSession number s' = Some r' \<longrightarrow>
      verifyOtp E login code s' = (answer, t) \<longrightarrow>
      (if 5 \<le> ot_attempts r' then answer = Inl (TooManyRequests ''OTP attempts exceeded'') \<and> t = s'
       else if bcryptCompare E code (ot_otpHash r') then answer = Inr number \<and>
         sessionOf oid t = Some (r'\<lparr>ot_verifiedAt := Some (clock (backend s'))\<rparr>)
       else answer = Inl (BadRequest ''Invalid or expired OTP'') \<and>
         sessionOf oid t = Some (r'\<lparr>ot_attempts := ot_attempts r' + 1\<rparr>))) \<and>
    (\<forall>login number code t. verifyOtp E login code s' = (Inr number, t) \<longrightarrow>
      (\<exists>q. openSession number s' = Some q \<and> ot_verifiedAt q = None \<and> ot_attempts q < 5 \<and>
        bcryptCompare E code (ot_otpHash q)))"
proof -
  obtain r' where r': "sessionOf oid s' = Some r'" "otp_step r r'" "ot_attempts r' \<le> 5" and ok: "site_ok s'"
    using assms by (rule session_survives)
  have check: "if 5 \<le> ot_attempts r' then answer = Inl (TooManyRequests ''OTP attempts exceeded'') \<and> t = s'
       else if bcryptCompare E code (ot_otpHash r') then answer = Inr number \<and>
         sessionOf oid t = Some (r'\<lparr>ot_verifiedAt := Some (clock (backend s'))\<rparr>)
       else answer = Inl (BadRequest ''Invalid or expired OTP'') \<and>
         sessionOf oid t = Some (r'\<lparr>ot_attempts := ot_attempts r' + 1\<rparr>)"
    if "normalizePhone login = Inr number" "openSession number s' = Some r'" "verifyOtp E login code s' = (answer, t)"
    for login number code answer t
    using that verifyOtp_effect [OF ok, of E login code] sessionOf_update [OF r'(1)] by auto
  have success: "\<exists>q. openSession number s' = Some q \<and> ot_verifiedAt q = None \<and> ot_attempts q < 5 \<and>
      bcryptCompare E code (ot_otpHash q)" if "verifyOtp E login code s' = (Inr number, t)" for login number code t
    using that verifyOtp_effect [OF ok, of E login code]
    by (auto simp: openSession_def dest: latestSession_SomeD split: sum.splits option.splits if_splits)
  show ?thesis
    using r' check success by (auto simp: otp_step_def)
qed

definition codeSent :: site where
  "codeSent = snd (signInRequestOtp glass ''+250788000001'' None None office)"

lemma codeSent_ok: "site_ok codeSent"
  unfolding codeSent_def by (rule site_ok_stays [OF site_signInRequestOtp office_ok])

lemma guesses_are_limited_witness:
  "\<exists>r. sessionOf 12 codeSent = Some r \<and> ot_attempts r = 0 \<and>
     sessionOf 12 (snd (verifyOtp glass ''+250788000001'' ''999999'' codeSent)) = Some (r\<lparr>ot_attempts := 1\<rparr>)"
proof -
  obtain r where r: "sessionOf 12 codeSent = Some r" "ot_attempts r = 0"
      "openSession ''+250788000001'' codeSent = Some r" "\<not> bcryptCompare glass ''999999'' (ot_otpHash r)"
  proof -
    have "(openSession ''+250788000001'' codeSent = sessionOf 12 codeSent,
        map_option (\<lambda>r. (ot_attempts r, bcryptCompare glass ''999999'' (ot_otpHash r))) (sessionOf 12 codeSent)) =
        (True, Some (0, False))"
      by code_simp
    then show thesis
      using that by auto
  qed
  have "normalizePhone ''+250788000001'' = Inr ''+250788000001''"
    by code_simp
  then show ?thesis
    using guesses_are_limited [OF codeSent_ok rtranclp.rtrancl_refl r(1), of glass] r
    by (cases "verifyOtp glass ''+250788000001'' ''999999'' codeSent") auto
qed

text \<open>
  The check looks for the newest open session, so that when the newest code has been used an
  earlier one that has not expired works too.
\<close>

lemma earlier_code_still_works:
  "(let s1 = later 61000 codeSent;
        s2 = snd (signInRequestOtp glass ''+250788000001'' None None s1);
        code2 = ''100013'';
        (a, s3) = verifyOtp glass ''+250788000001'' code2 s2;
        (b, s4) = verifyOtp glass ''+250788000001'' firstCode s3
    in (a, b)) = (Inr ''+250788000001'', Inr ''+250788000001'')"
  by code_simp

section \<open>The gates\<close>

text \<open>Who may sign in, in one formula.\<close>

definition maySignIn :: "site \<Rightarrow> user \<Rightarrow> bool" where
  "maySignIn s u \<longleftrightarrow> u_status u = U_ACTIVE \<and>
     (if GUARDIAN \<in> set (u_roles u)
      then map_option g_status (findUnique g_userId (u_id u) (guardians (backend s))) = Some G_ACTIVE
      else if set (u_roles u) \<inter> {CLIENT_OWNER, CLIENT_STAFF} \<noteq> {} then u_isPhoneVerified u
      else set (u_roles u) \<inter> {SUPER_ADMIN, OPS_ADMIN} \<noteq> {})"

lemma maySignIn_backend: "backend s' = backend s \<Longrightarrow> maySignIn s' u = maySignIn s u"
  by (simp only: maySignIn_def)

lemma assertUserCanSignIn_ok:
  assumes "assertUserCanSignIn u s = (Inr x, s')"
  shows "s' = s \<and> maySignIn s u"
proof
  show "s' = s"
    using assertUserCanSignIn_state [of u s] assms by simp
  show "maySignIn s u"
    using assms unfolding assertUserCanSignIn_def andThen_ensure maySignIn_def Let_def
    by (cases "findUnique g_userId (u_id u) (guardians (backend s))")
      (auto simp: andThen_ensure ensure_def split: if_splits)
qed

primrec answerUser :: "'tok auth_response \<Rightarrow> auth_user" where
  "answerUser (PasswordSetup tok u listed) = u"
| "answerUser (SignedIn pair u listed) = u"

lemma buildAuthResponse_user:
  assumes "buildAuthResponse E uid b s = (Inr answer, s')"
  shows "sub (answerUser answer) = uid"
proof -
  obtain r where r: "loadAuthUserPayload uid None s = (Inr r, s)" "\<forall>p. r = Some p \<longrightarrow> sub p = uid"
    using loadAuthUserPayload_apply by blast
  have step: "andThen (loadAuthUserPayload uid None) f s = f r s" for f :: "auth_user option \<Rightarrow> 'a auth_response call"
    by (simp only: andThen_def r(1) prod.case sum.case)
  show ?thesis
    using assms r(2) unfolding buildAuthResponse_def step
    by (auto simp: orThrow_def andThen_eq_Inr split: option.splits if_splits)
qed

text \<open>
  C34: A sign-in that succeeds was for an account that may sign in, with the account's own
  credential: the open code of its phone with guesses left, or its password.  The answer is for
  that account.
\<close>

theorem sign_in_is_gated:
  assumes "site_ok s"
    and "signInVerifyOtp E login credential s = (Inr answer, s') \<or>
      signInWithPassword E login credential s = (Inr answer, s')"
  shows "\<exists>u. maySignIn s u \<and> sub (answerUser answer) = u_id u \<and>
    ((\<exists>number otp. normalizePhone login = Inr number \<and> userByPhone number s = Some u \<and>
        openSession number s = Some otp \<and> ot_attempts otp < 5 \<and>
        bcryptCompare E credential (ot_otpHash otp)) \<or>
     (\<exists>l h. parseLoginIdentifier login = Inr l \<and> userByLogin l s = Some u \<and>
        u_passwordHash u = Some h \<and> bcryptCompare E credential h))"
  using assms(2)
proof
  assume "signInVerifyOtp E login credential s = (Inr answer, s')"
  then obtain number s1 u x s2 where
    v: "verifyOtp E login credential s = (Inr number, s1)" and
    u: "userByPhone number s1 = Some u" and gate: "assertUserCanSignIn u s1 = (Inr x, s2)" and
    ans: "sub (answerUser answer) = u_id u"
    by (auto simp: signInVerifyOtp_def andThen_eq_Inr orThrow_def dest!: buildAuthResponse_user
        split: option.splits)
  obtain otp where otp: "normalizePhone login = Inr number" "openSession number s = Some otp"
      "ot_attempts otp < 5" "bcryptCompare E credential (ot_otpHash otp)"
    and s1: "users s1 = users s" "backend s1 = backend s"
    using v unfolding verifyOtp_effect [OF assms(1)]
    by (auto split: sum.splits option.splits if_splits)
  have "maySignIn s u"
    using assertUserCanSignIn_ok [OF gate] maySignIn_backend [OF s1(2)] by simp
  moreover have "userByPhone number s = Some u"
    using u s1 by (simp add: userByPhone_def)
  ultimately show ?thesis
    using otp ans by blast
next
  assume "signInWithPassword E login credential s = (Inr answer, s')"
  note run = this [unfolded signInWithPassword_def]
  obtain l where l: "parseLoginIdentifier login = Inr l"
    using run by (cases "parseLoginIdentifier login") auto
  obtain u where u: "userByLogin l s = Some u"
    using run by (cases "userByLogin l s") (auto simp: l)
  obtain h where h: "u_passwordHash u = Some h"
    using run by (cases "u_passwordHash u") (auto simp: l u)
  have pw: "bcryptCompare E credential h"
    using run by (cases "bcryptCompare E credential h") (auto simp: l u h verifyPassword_def)
  obtain x s2 where gate: "assertUserCanSignIn u s = (Inr x, s2)" and "sub (answerUser answer) = u_id u"
    using run by (auto simp: l u h pw verifyPassword_def andThen_eq_Inr dest!: buildAuthResponse_user)
  then show ?thesis
    using assertUserCanSignIn_ok [OF gate] l u h pw by blast
qed

lemma sign_in_is_gated_witness:
  "\<exists>u. maySignIn office u \<and> userByPhone ''+250788000001'' office = Some u"
proof -
  have "(case fst (signInWithPassword glass ''+250788000001'' ''secret-1'' office) of
      Inl _ \<Rightarrow> False | Inr _ \<Rightarrow> True)"
    by code_simp
  then obtain answer s' where
    "signInWithPassword glass ''+250788000001'' ''secret-1'' office = (Inr answer, s')"
    by (cases "signInWithPassword glass ''+250788000001'' ''secret-1'' office") (auto split: sum.splits)
  moreover have "parseLoginIdentifier ''+250788000001'' = Inr (PhoneLogin ''+250788000001'')"
    "normalizePhone ''+250788000001'' = Inr ''+250788000001''"
    by code_simp+
  ultimately show ?thesis
    using sign_in_is_gated [OF office_ok, of glass "''+250788000001''" "''secret-1''" answer s']
    by (auto simp: userByLogin_def)
qed

section \<open>Requests\<close>

text \<open>
  C35: A request passes the token check exactly if its token verifies with the access secret and
  names a user that is not deleted and has a role.  Neither the purpose of the token nor a
  suspension of the user matters.
\<close>

theorem access_token_check:
  "(\<exists>actor. fst (jwt_validate E header s) = Inr actor) \<longleftrightarrow>
   (\<exists>tok c u. header = Some tok \<and>
      verifyAsync E (JWT_SECRET E) (clock (backend s)) tok = Some c \<and>
      userOf (claimsSub c) s = Some u \<and> u_status u \<noteq> U_DELETED \<and> u_roles u \<noteq> [])"
  by (auto simp: jwt_validate_def loadAuthUserPayload_def orThrow_def Let_def
      split: option.splits)

text \<open>
  So a token that was issued for setting a password opens every endpoint of its user, and a
  suspended user keeps access with tokens issued before, which can even be refreshed.
\<close>

lemma setup_token_opens_requests:
  "(case fst (issueSetupToken glass 1 office) of Inl _ \<Rightarrow> None
    | Inr tok \<Rightarrow> (case fst (jwt_validate glass (Some tok) office) of
        Inl _ \<Rightarrow> None | Inr actor \<Rightarrow> Some (sub actor, roles actor))) = Some (1, [CLIENT_OWNER])"
  by code_simp

lemma suspended_user_keeps_access:
  "map_option u_status (userOf 2 office) = Some U_SUSPENDED"
  "(case fst (issueOnboardingToken glass 2 None office) of Inl _ \<Rightarrow> None
    | Inr tok \<Rightarrow> (case fst (jwt_validate glass (Some tok) office) of
        Inl _ \<Rightarrow> None | Inr actor \<Rightarrow> Some (sub actor))) = Some 2"
  by code_simp+

definition dbPermissions :: "auth_user \<Rightarrow> site \<Rightarrow> string list" where
  "dbPermissions actor s = (case fst (loadFromDb actor s) of Inr ps \<Rightarrow> ps | _ \<Rightarrow> [])"

definition effectivePermissions :: "auth_user \<Rightarrow> site \<Rightarrow> string set" where
  "effectivePermissions actor s = (case memoryCache s (cacheKey actor) of
     Some entry \<Rightarrow> if clock (backend s) \<le> ce_expiresAt entry then set (ce_value entry)
                   else set (dbPermissions actor s)
   | None \<Rightarrow> set (dbPermissions actor s))"

lemma loadFromDb_apply: "loadFromDb actor s = (Inr (dbPermissions actor s), s)"
  by (simp add: dbPermissions_def loadFromDb_def)

lemma dbPermissions_cache: "dbPermissions actor (s\<lparr>memoryCache := m\<rparr>) = dbPermissions actor s"
  by (simp add: dbPermissions_def loadFromDb_def userOf_def rolePermissionCodes_def Let_def
      split: option.split)

lemma resolve_effective:
  "\<exists>ps s'. resolve E actor s = (Inr ps, s') \<and> set ps = effectivePermissions actor s"
proof -
  have db: "andThen (loadFromDb actor) f t = f (dbPermissions actor t) t"
    for f :: "string list \<Rightarrow> string list call" and t
    by (simp only: andThen_def loadFromDb_apply prod.case sum.case)
  show ?thesis
    unfolding resolve_def andThen_def [of "cacheGet (cacheKey actor)"]
    by (cases "memoryCache s (cacheKey actor)")
      (auto simp: cacheGet_def effectivePermissions_def db dbPermissions_cache cacheSet_def)
qed

lemma throwing: "fst (andThen m (\<lambda>_. throw e) s) \<noteq> Inr x"
  by (auto simp: andThen_def split: prod.split sum.split)

lemma guard_of_caller:
  assumes "\<not> isPublic r" and "requiredPermissions r \<noteq> []"
  shows "fst (permissionsGuard E r (Some actor) s) = Inr True \<longleftrightarrow>
    (case permissionMode r of
       any_of \<Rightarrow> set (requiredPermissions r) \<inter> effectivePermissions actor s \<noteq> {}
     | all_of \<Rightarrow> set (requiredPermissions r) \<subseteq> effectivePermissions actor s)"
proof -
  obtain ps s' where ps: "resolve E actor s = (Inr ps, s')" "set ps = effectivePermissions actor s"
    using resolve_effective by blast
  have step: "andThen (resolve E actor) f s = f ps s'" for f :: "string list \<Rightarrow> bool call"
    by (simp only: andThen_def ps(1) prod.case sum.case)
  show ?thesis
    using assms
    by (cases "permissionMode r")
      (auto simp: permissionsGuard_def step Let_def ps(2) list_ex_iff list_all_iff throwing)
qed

text \<open>
  The permission guard lets a request through exactly if the route is public or asks for
  nothing, or there is a caller who has all (or, where the route says so, any) of the permissions
  asked for: those of the list cached at most ten minutes ago, or else those of the caller's roles
  and of the membership in the active organization.
\<close>

theorem permission_guard_iff:
  "fst (permissionsGuard E r requester s) = Inr True \<longleftrightarrow>
     isPublic r \<or> requiredPermissions r = [] \<or>
     (\<exists>actor. requester = Some actor \<and>
        (case permissionMode r of
           any_of \<Rightarrow> set (requiredPermissions r) \<inter> effectivePermissions actor s \<noteq> {}
         | all_of \<Rightarrow> set (requiredPermissions r) \<subseteq> effectivePermissions actor s))"
proof (cases "isPublic r \<or> requiredPermissions r = []")
  case False
  then show ?thesis
    using guard_of_caller [of r E _ s] by (cases requester) (auto simp: permissionsGuard_def)
qed (auto simp: permissionsGuard_def)

section \<open>Phone numbers\<close>

lemma trimBy_clean: "set str \<inter> set cs = {} \<Longrightarrow> trimBy cs str = str"
proof -
  assume "set str \<inter> set cs = {}"
  then have "dropWhile (\<lambda>c. c \<in> set cs) xs = xs" if "set xs = set str" for xs
    using that by (cases xs) auto
  then show ?thesis
    by (simp add: trimBy_def)
qed

lemma E164_shape:
  assumes "E164_REGEX str"
  obtains d ds where "str = CHR ''+'' # d # ds" "list_all isDigit (d # ds)" "7 \<le> length ds" "length ds \<le> 14"
  using assms unfolding E164_REGEX_def by (simp split: list.splits)

lemma digits_not_white:
  "list_all (\<lambda>c. c \<notin> set jsWhitespace) ''0123456789''" "CHR ''+'' \<notin> set jsWhitespace"
  by code_simp+

lemma isDigit_not_white: "isDigit c \<Longrightarrow> c \<notin> set jsWhitespace"
  using digits_not_white(1) unfolding isDigit_def list_all_iff by blast

lemma E164_clean:
  assumes "E164_REGEX str"
  shows "removeWhitespace (trimBy jsWhitespace str) = str" and "take 1 str = ''+''"
proof -
  obtain d ds where str: "str = CHR ''+'' # d # ds" "list_all isDigit (d # ds)"
    by (rule E164_shape [OF assms])
  then have "\<forall>c \<in> set str. c \<notin> set jsWhitespace"
    using isDigit_not_white digits_not_white(2) by (simp add: list_all_iff)
  then show "removeWhitespace (trimBy jsWhitespace str) = str"
    by (simp add: trimBy_clean disjoint_iff removeWhitespace_def filter_id_conv)
  show "take 1 str = ''+''"
    by (simp add: str)
qed

text \<open>
  C28: What the phone normalization accepts is in international form, eight to fifteen digits
  after the plus sign, and normalizing it again changes nothing.
\<close>

theorem normalizePhone_idempotent:
  assumes "normalizePhone value = Inr number"
  shows "E164_REGEX number \<and> normalizePhone number = Inr number \<and>
    9 \<le> length number \<and> length number \<le> 16"
proof -
  have ok: "E164_REGEX number"
    using assms by (auto simp: normalizePhone_def Let_def split: if_splits)
  then have "9 \<le> length number \<and> length number \<le> 16"
    by (rule E164_shape) simp
  then show ?thesis
    using ok E164_clean [OF ok] by (simp add: normalizePhone_def)
qed

lemma normalizePhone_idempotent_witness:
  "normalizePhone ''+25788123456'' = Inr ''+25788123456''"
proof -
  have "normalizePhone '' 0788 123 456'' = Inr ''+25788123456''"
    by code_simp
  from normalizePhone_idempotent [OF this] show ?thesis
    by blast
qed

text \<open>
  A number in the national form, with its leading zero, does not become the number in
  international form: the country code 250 loses its last digit.
\<close>

lemma national_form_is_lost:
  "normalizePhone ''0788123456'' = Inr ''+25788123456''"
  "normalizePhone ''250788123456'' = Inr ''+250788123456''"
  by code_simp+

end
