(* ===== verification/Session_Store.thy ===== *)
theory Session_Store
  imports Credentials
begin

text \<open>
  The contract of the token service (\<open>auth/token.service.ts\<close>): at any instant the table of refresh
  tokens and the revocations in memory stand for a list of open sessions, and every operation of
  the service does to that list what its name says.
\<close>

section \<open>The abstract store\<close>

record session =
  se_id :: id
  se_user :: id
  se_family :: id
  se_until :: instant

definition close_session :: "id \<Rightarrow> session list \<Rightarrow> session list" where
  "close_session jti S = filter (\<lambda>x. se_id x \<noteq> jti) S"

text \<open>A session at its last instant is left to lapse.\<close>

definition close_sessions_of :: "id \<Rightarrow> instant \<Rightarrow> session list \<Rightarrow> session list" where
  "close_sessions_of uid t S = filter (\<lambda>x. se_user x = uid \<longrightarrow> se_until x = t) S"

definition close_claimed :: "claims option \<Rightarrow> session list \<Rightarrow> session list" where
  "close_claimed c S = (case c of Some (RefreshClaims _ jti _) \<Rightarrow> close_session jti S | _ \<Rightarrow> S)"

text \<open>
  A rotation closes the session it is given and, if the user is known, opens one of the same
  family; what names no open session changes nothing.
\<close>

definition rotate_session ::
  "(id \<Rightarrow> bool) \<Rightarrow> id \<Rightarrow> instant \<Rightarrow> claims option \<Rightarrow> session list \<Rightarrow> bool \<times> session list" where
  "rotate_session known new until c S = (case c of
     Some (RefreshClaims u jti _) \<Rightarrow> (case find (\<lambda>x. se_id x = jti) S of
         None \<Rightarrow> (False, S)
       | Some x \<Rightarrow> if known u
           then (True, close_session jti S @ [\<lparr>se_id = new, se_user = u, se_family = se_family x, se_until = until\<rparr>])
           else (False, close_session jti S))
   | _ \<Rightarrow> (False, S))"

section \<open>The sessions of a site\<close>

definition live :: "site \<Rightarrow> refresh_token \<Rightarrow> bool" where
  "live s r \<longleftrightarrow> rt_revokedAt r = None \<and> clock (backend s) \<le> rt_expiresAt r \<and>
     pred_option (\<lambda>x. x < clock (backend s)) (memoryRevoked s (rt_jti r))"

definition asSession :: "refresh_token \<Rightarrow> session" where
  "asSession r = \<lparr>se_id = rt_jti r, se_user = rt_userId r, se_family = rt_familyId r, se_until = rt_expiresAt r\<rparr>"

definition sessions :: "site \<Rightarrow> session list" where
  "sessions s = List.map asSession (filter (live s) (refreshTokens s))"

text \<open>Whose token may be refreshed: a user that can be loaded.\<close>

definition knownUser :: "site \<Rightarrow> id \<Rightarrow> bool" where
  "knownUser s uid \<longleftrightarrow> fst (loadAuthUserPayload uid None s) \<noteq> Inr None"

lemma live_frame:
  "clock (backend s') = clock (backend s) \<Longrightarrow> memoryRevoked s' (rt_jti r) = memoryRevoked s (rt_jti r) \<Longrightarrow>
   live s' r = live s r"
  by (simp add: live_def)

lemma asSession_simps [simp]:
  "se_id (asSession r) = rt_jti r" "se_user (asSession r) = rt_userId r"
  "se_family (asSession r) = rt_familyId r" "se_until (asSession r) = rt_expiresAt r"
  by (simp_all add: asSession_def)

lemma find_sessions:
  assumes "distinct (List.map rt_jti rows)"
  shows "find (\<lambda>x. se_id x = jti) (List.map asSession (filter p rows)) =
    (case findUnique rt_jti jti rows of None \<Rightarrow> None
     | Some r \<Rightarrow> if p r then Some (asSession r) else None)"
  using assms
proof (induction rows)
  case (Cons r rows)
  show ?case
  proof (cases "rt_jti r = jti")
    case True
    then have "findUnique rt_jti jti rows = None"
      using Cons.prems by (auto simp: findUnique_None_iff)
    then show ?thesis
      using Cons True by (cases "p r") simp_all
  next
    case False
    then show ?thesis
      using Cons by simp
  qed
qed simp

lemma sessions_find:
  "site_ok s \<Longrightarrow> find (\<lambda>x. se_id x = jti) (sessions s) =
    (case tokenOf jti s of None \<Rightarrow> None | Some r \<Rightarrow> if live s r then Some (asSession r) else None)"
  unfolding sessions_def tokenOf_def by (rule find_sessions) (simp add: site_ok_def)

lemma sessions_close:
  assumes "refreshTokens s' = updateMany (\<lambda>r. rt_jti r = jti) f (refreshTokens s)"
    and "\<And>r. rt_jti r = jti \<Longrightarrow> \<not> live s' (f r)" and "\<And>r. rt_jti r \<noteq> jti \<Longrightarrow> live s' r = live s r"
  shows "sessions s' = close_session jti (sessions s)"
proof -
  have "List.map asSession (filter (live s') (updateMany (\<lambda>r. rt_jti r = jti) f rows)) =
      filter (\<lambda>x. se_id x \<noteq> jti) (List.map asSession (filter (live s) rows))" for rows
    using assms(2,3) by (induction rows) auto
  then show ?thesis
    by (simp add: sessions_def close_session_def assms(1))
qed

section \<open>Issuing\<close>

lemma digit_code: "isDigit c \<Longrightarrow> 48 \<le> (of_char c :: nat)"
  by (auto simp: isDigit_def)

lemma parseNat_nonneg: "list_all isDigit xs \<Longrightarrow> 0 \<le> n \<Longrightarrow> 0 \<le> parseNat xs n"
proof (induction xs arbitrary: n)
  case (Cons c xs)
  then have "0 \<le> n * 10 + (int (of_char c) - 48)"
    using digit_code [of c] by simp
  then show ?case
    using Cons by simp
qed simp

lemma parseExpiry_later: "t \<le> parseExpiry expires t"
  using parseNat_nonneg [of "butlast expires" 0]
  by (auto simp: parseExpiry_def Let_def unitMs_def)

lemma sessions_issue:
  assumes "site_ok s"
  shows "sessions (snd (issueTokens E p fam s)) = sessions s @
    [\<lparr>se_id = nextId (backend s), se_user = sub p,
      se_family = (case fam of Some f \<Rightarrow> f | None \<Rightarrow> Suc (nextId (backend s))),
      se_until = parseExpiry (JWT_REFRESH_EXPIRES_IN E) (clock (backend s))\<rparr>]"
proof -
  define row where "row = \<lparr>rt_userId = sub p, rt_jti = nextId (backend s),
    rt_familyId = (case fam of Some f \<Rightarrow> f | None \<Rightarrow> Suc (nextId (backend s))),
    rt_expiresAt = parseExpiry (JWT_REFRESH_EXPIRES_IN E) (clock (backend s)), rt_revokedAt = None\<rparr>"
  define s' where "s' = snd (issueTokens E p fam s)"
  have s': "refreshTokens s' = refreshTokens s @ [row] \<and> memoryRevoked s' = memoryRevoked s \<and>
    clock (backend s') = clock (backend s)"
    by (cases fam) (simp_all add: s'_def issueTokens_def Let_def createRow_def row_def)
  have "memoryRevoked s (nextId (backend s)) = None"
    using assms by (cases "memoryRevoked s (nextId (backend s))") (auto simp: site_ok_def)
  then have "live s' row"
    by (simp add: live_def s' row_def parseExpiry_later)
  moreover have "live s' = live s"
    by (rule ext, rule live_frame) (simp_all add: s')
  ultimately show ?thesis
    by (simp add: sessions_def s' flip: s'_def) (simp add: asSession_def row_def)
qed

section \<open>Closing\<close>

lemma sessions_revoke_both:
  assumes "tokenOf jti s \<noteq> None"
  shows "sessions (snd (andThen (revokeRefreshToken jti e)
    (\<lambda>_. updateToken jti (\<lambda>r. r\<lparr>rt_revokedAt := Some t\<rparr>)) s)) = close_session jti (sessions s)"
proof -
  let ?f = "\<lambda>r. r\<lparr>rt_revokedAt := Some t\<rparr>"
  let ?x = "clock (backend s) + max 1 ((e - clock (backend s)) div 1000) * 1000"
  define s' where "s' = s\<lparr>memoryRevoked := (memoryRevoked s)(jti \<mapsto> ?x),
    refreshTokens := updateMany (\<lambda>r. rt_jti r = jti) ?f (refreshTokens s)\<rparr>"
  have "andThen (revokeRefreshToken jti e) (\<lambda>_. updateToken jti ?f) s = (Inr (), s')"
    using assms by (auto simp: s'_def andThen_def revokeRefreshToken_apply updateToken_def tokenOf_def)
  moreover have "sessions s' = close_session jti (sessions s)"
    by (rule sessions_close [where f = ?f]) (simp_all add: s'_def live_def)
  ultimately show ?thesis
    by simp
qed

lemma sessions_revoke_first:
  "sessions (snd (revokeRefreshToken jti e s)) = close_session jti (sessions s)"
proof -
  define s' where "s' = snd (revokeRefreshToken jti e s)"
  obtain x where s': "refreshTokens s' = refreshTokens s" "clock (backend s') = clock (backend s)"
    "memoryRevoked s' = (memoryRevoked s)(jti \<mapsto> x)" "clock (backend s) \<le> x"
    by (simp add: s'_def revokeRefreshToken_apply)
  show ?thesis
    by (fold s'_def, rule sessions_close [where f = "\<lambda>r. r"]) (use s' in \<open>auto simp: live_def updateMany_def\<close>)
qed

lemma sessions_revoke_each:
  assumes "\<And>r. r \<in> set rows \<Longrightarrow> tokenOf (rt_jti r) s \<noteq> None"
  shows "sessions (snd (forEach rows (\<lambda>stored.
      andThen (revokeRefreshToken (rt_jti stored) (rt_expiresAt stored))
        (\<lambda>_. updateToken (rt_jti stored) (\<lambda>r. r\<lparr>rt_revokedAt := Some t\<rparr>))) s)) =
    filter (\<lambda>x. se_id x \<notin> rt_jti ` set rows) (sessions s)"
  using assms
proof (induction rows arbitrary: s)
  case (Cons row rows)
  let ?pair = "andThen (revokeRefreshToken (rt_jti row) (rt_expiresAt row))
      (\<lambda>_. updateToken (rt_jti row) (\<lambda>r. r\<lparr>rt_revokedAt := Some t\<rparr>))"
  have some: "tokenOf (rt_jti row) s \<noteq> None"
    by (simp add: Cons.prems)
  obtain s1 where s1: "?pair s = (Inr (), s1)"
    using some by (cases "?pair s")
      (auto simp: andThen_def revokeRefreshToken_apply updateToken_def tokenOf_def split: option.splits)
  have left: "tokenOf (rt_jti q) s1 \<noteq> None" if "q \<in> set rows" for q
    using tokens_after_revoking [of "rt_jti q" "rt_jti row" "rt_expiresAt row" t s] s1
      Cons.prems(1) [of q] that by auto
  have "sessions s1 = close_session (rt_jti row) (sessions s)"
    using sessions_revoke_both [OF some, of "rt_expiresAt row" t] s1 by simp
  then show ?case
    using s1 Cons.IH [OF left] by (auto simp: andThen_Inr close_session_def intro!: filter_cong)
qed simp

lemma sessions_revokeAll:
  assumes "site_ok s"
  shows "sessions (snd (revokeAllRefreshTokensForUser uid s)) =
    close_sessions_of uid (clock (backend s)) (sessions s)"
proof -
  let ?active = "findMany (\<lambda>r. rt_userId r = uid \<and> rt_revokedAt r = None \<and> rt_expiresAt r > clock (backend s))
    (refreshTokens s)"
  have there: "tokenOf (rt_jti q) s \<noteq> None" if "q \<in> set ?active" for q
    using that by (auto simp: tokenOf_def findUnique_None_iff findMany_def)
  have key: "se_id x \<notin> rt_jti ` set ?active \<longleftrightarrow> (se_user x = uid \<longrightarrow> se_until x = clock (backend s))"
    if x: "x \<in> set (sessions s)" for x
  proof -
    obtain r where r: "x = asSession r" "r \<in> set (refreshTokens s)" "live s r"
      using x by (auto simp: sessions_def)
    have "inj_on rt_jti (set (refreshTokens s))"
      using assms by (simp add: site_ok_def distinct_map)
    then have "rt_jti r \<in> rt_jti ` set ?active \<longleftrightarrow> r \<in> set ?active"
      by (rule inj_on_image_mem_iff) (use r(2) in \<open>auto simp: findMany_def\<close>)
    then show ?thesis
      using r by (auto simp: findMany_def live_def)
  qed
  have "sessions (snd (revokeAllRefreshTokensForUser uid s)) =
      filter (\<lambda>x. se_id x \<notin> rt_jti ` set ?active) (sessions s)"
    unfolding revokeAllRefreshTokensForUser_def andThen_siteNow andThen_simps
    by (rule sessions_revoke_each) (rule there)
  also have "\<dots> = close_sessions_of uid (clock (backend s)) (sessions s)"
    unfolding close_sessions_of_def using key by (rule filter_cong [OF refl])
  finally show ?thesis .
qed

lemma close_absent:
  assumes "tokenOf jti s = None"
  shows "close_session jti (sessions s) = sessions s"
proof -
  have "\<forall>x \<in> set (sessions s). se_id x \<noteq> jti"
    using assms by (auto simp: sessions_def tokenOf_def findUnique_None_iff)
  then show ?thesis
    by (simp add: close_session_def filter_id_conv)
qed

lemma sessions_logout:
  "sessions (snd (token_logout E tok s)) =
     close_claimed (verifyAsync E (JWT_REFRESH_SECRET E) (clock (backend s)) tok) (sessions s)"
proof -
  have "sessions (snd (tryCatch (andThen (reads (tokenOf jti)) (\<lambda>found. case found of
             None \<Rightarrow> ok ()
           | Some stored \<Rightarrow> andThen (revokeRefreshToken jti (rt_expiresAt stored)) (\<lambda>_.
               updateToken jti (\<lambda>r. r\<lparr>rt_revokedAt := Some t\<rparr>)))) (\<lambda>_. ok ()) s)) =
      close_session jti (sessions s)" for jti t
  proof (cases "tokenOf jti s")
    case (Some r)
    show ?thesis
      using sessions_revoke_both [of jti s "rt_expiresAt r" t] Some
      by (auto simp: tryCatch_def split: sum.splits prod.splits)
  qed (simp add: tryCatch_def close_absent)
  then show ?thesis
    by (auto simp: token_logout_def close_claimed_def split: option.split claims.split)
qed

section \<open>Rotating\<close>

text \<open>Asking whether a token is revoked forgets a lapsed note at most.\<close>

lemma isRevoked_apply:
  "\<exists>m. isRefreshTokenRevoked jti s =
     (Inr (\<not> pred_option (\<lambda>x. x < clock (backend s)) (memoryRevoked s jti)), s\<lparr>memoryRevoked := m\<rparr>) \<and>
     sessions (s\<lparr>memoryRevoked := m\<rparr>) = sessions s"
proof -
  have "sessions (s\<lparr>memoryRevoked := (memoryRevoked s)(jti := None)\<rparr>) = sessions s"
    if "memoryRevoked s jti = Some x" "x < clock (backend s)" for x
    using that by (auto simp: sessions_def live_def intro!: arg_cong [where f = "List.map asSession"] filter_cong
        split: if_splits)
  then show ?thesis
    by (cases "memoryRevoked s jti")
      (auto simp: isRefreshTokenRevoked_def intro: exI [of _ "memoryRevoked s"]
        exI [of _ "(memoryRevoked s)(jti := None)"])
qed

lemma sessions_refresh:
  assumes "site_ok s"
  shows "(\<exists>pair. fst (refreshTokensOf E tok s) = Inr pair, sessions (snd (refreshTokensOf E tok s))) =
    rotate_session (knownUser s) (nextId (backend s))
      (parseExpiry (JWT_REFRESH_EXPIRES_IN E) (clock (backend s)))
      (verifyAsync E (JWT_REFRESH_SECRET E) (clock (backend s)) tok) (sessions s)"
proof (cases "\<exists>u jti f. verifyAsync E (JWT_REFRESH_SECRET E) (clock (backend s)) tok = Some (RefreshClaims u jti f)")
  case False
  then show ?thesis
    by (auto simp: refreshTokensOf_def rotate_session_def split: option.split claims.split)
next
  case True
  then obtain u jti f where
    v: "verifyAsync E (JWT_REFRESH_SECRET E) (clock (backend s)) tok = Some (RefreshClaims u jti f)"
    by blast
  let ?free = "pred_option (\<lambda>x. x < clock (backend s)) (memoryRevoked s jti)"
  obtain m where m: "isRefreshTokenRevoked jti s = (Inr (\<not> ?free), s\<lparr>memoryRevoked := m\<rparr>)"
    "sessions (s\<lparr>memoryRevoked := m\<rparr>) = sessions s"
    using isRevoked_apply by blast
  let ?s1 = "s\<lparr>memoryRevoked := m\<rparr>"
  have ask: "andThen (isRefreshTokenRevoked jti) k s = k (\<not> ?free) ?s1" for k :: "bool \<Rightarrow> 'a token_pair call"
    by (simp only: andThen_def m prod.case sum.case)
  show ?thesis
  proof (cases "\<exists>r. tokenOf jti s = Some r \<and> live s r")
    case False
    then have "find (\<lambda>x. se_id x = jti) (sessions s) = None"
      by (simp add: sessions_find [OF assms] split: option.split)
    moreover have "rt_jti r = jti" if "tokenOf jti s = Some r" for r
      using that by (auto simp: tokenOf_def dest: findUnique_SomeD)
    ultimately show ?thesis
      using False m(2)
      by (cases "tokenOf jti s") (auto simp: refreshTokensOf_def v ask ensure_def rotate_session_def tokenOf_def live_def)
  next
    case True
    then obtain r where r: "tokenOf jti s = Some r" "live s r"
      by blast
    have jti: "rt_jti r = jti"
      using r(1) by (auto simp: tokenOf_def dest: findUnique_SomeD)
    have found: "find (\<lambda>x. se_id x = jti) (sessions s) = Some (asSession r)"
      by (simp add: sessions_find [OF assms] r)
    obtain m2 where m2: "revokeRefreshToken jti (rt_expiresAt r) ?s1 = (Inr (), s\<lparr>memoryRevoked := m2\<rparr>)"
      by (simp add: revokeRefreshToken_apply)
    let ?s2 = "s\<lparr>memoryRevoked := m2\<rparr>"
    have closed: "sessions ?s2 = close_session jti (sessions s)"
      using sessions_revoke_first [of jti "rt_expiresAt r" ?s1] m(2) m2 by simp
    obtain q where q: "loadAuthUserPayload u None ?s2 = (Inr q, ?s2)" "\<forall>p. q = Some p \<longrightarrow> sub p = u"
      using loadAuthUserPayload_apply by blast
    have known: "knownUser s u \<longleftrightarrow> q \<noteq> None"
      using q(1) loadAuthUserPayload_memory [of u None m2 s] by (metis fst_conv knownUser_def sum.inject(2))
    have run: "refreshTokensOf E tok s =
        andThen (orThrow q (Unauthorized ''User not found'')) (\<lambda>p. issueTokens E p (Some (rt_familyId r))) ?s2"
      using r jti
      by (simp add: refreshTokensOf_def v ask live_def tokenOf_def andThen_def [of "revokeRefreshToken jti (rt_expiresAt r)"]
          m2 andThen_def [of "loadAuthUserPayload u None"] q(1))
    have "site_ok ?s2"
    proof -
      have "site_evolves UNIV s ?s1" "site_evolves UNIV ?s1 ?s2"
        using site_isRevoked [of UNIV s jti] site_revoke_first [of ?s1 jti r UNIV "rt_expiresAt r"]
          isRevoked_False [of jti s ?s1] m(1) m2 r jti by (simp_all add: tokenOf_def live_def)
      then show ?thesis
        using assms site_ok_stays by blast
    qed
    then show ?thesis
      using found known closed q(2) jti
      by (cases q) (auto simp: run v rotate_session_def sessions_issue, simp add: issueTokens_family)
  qed
qed

section \<open>The contract\<close>

text \<open>
  C5: The token service implements a store of sessions.  Under the invariant, which every operation
  keeps, issuing opens one session of the user under a fresh identifier; a refresh succeeds exactly
  when its token names an open session and a known user, and then replaces the session by one of
  the same family, while a refresh refused for an unknown user has still closed it and any other
  refusal changes nothing; a logout closes the session its token names; and revoking all tokens of a
  user closes all its sessions but those at their last instant.
\<close>

theorem sessions_refine_store:
  assumes "site_ok s"
  shows "sessions (snd (issueTokens E p fam s)) = sessions s @
      [\<lparr>se_id = nextId (backend s), se_user = sub p,
        se_family = (case fam of Some f \<Rightarrow> f | None \<Rightarrow> Suc (nextId (backend s))),
        se_until = parseExpiry (JWT_REFRESH_EXPIRES_IN E) (clock (backend s))\<rparr>] \<and>
    nextId (backend s) \<notin> se_id ` set (sessions s) \<and>
    (\<exists>pair. fst (refreshTokensOf E tok s) = Inr pair, sessions (snd (refreshTokensOf E tok s))) =
      rotate_session (knownUser s) (nextId (backend s))
        (parseExpiry (JWT_REFRESH_EXPIRES_IN E) (clock (backend s)))
        (verifyAsync E (JWT_REFRESH_SECRET E) (clock (backend s)) tok) (sessions s) \<and>
    sessions (snd (token_logout E tok s)) =
      close_claimed (verifyAsync E (JWT_REFRESH_SECRET E) (clock (backend s)) tok) (sessions s) \<and>
    sessions (snd (revokeAllRefreshTokensForUser uid s)) =
      close_sessions_of uid (clock (backend s)) (sessions s) \<and>
    site_ok (snd (issueTokens E p fam s)) \<and> site_ok (snd (refreshTokensOf E tok s)) \<and>
    site_ok (snd (token_logout E tok s)) \<and> site_ok (snd (revokeAllRefreshTokensForUser uid s))"
proof -
  have "nextId (backend s) \<notin> se_id ` set (sessions s)"
    using assms by (auto simp: sessions_def site_ok_def)
  then show ?thesis
    by (intro conjI sessions_issue sessions_refresh sessions_logout sessions_revokeAll assms
        site_ok_stays [OF site_issueTokens] site_ok_stays [OF site_refreshTokensOf]
        site_ok_stays [OF site_token_logout] site_ok_stays [OF site_revokeAll])
qed

text \<open>The owner refreshes once; the session moves on, and the old token closes nothing any more.\<close>

lemma sessions_refine_store_witness:
  "sessions office = [\<lparr>se_id = 5, se_user = 1, se_family = 6, se_until = 5000999\<rparr>] \<and>
   sessions (snd (refreshTokensOf glass officeToken office)) =
     [\<lparr>se_id = 10, se_user = 1, se_family = 6, se_until = 605800000\<rparr>] \<and>
   sessions (snd (token_logout glass officeToken office)) = [] \<and>
   sessions (snd (token_logout glass officeToken (snd (refreshTokensOf glass officeToken office)))) =
     [\<lparr>se_id = 10, se_user = 1, se_family = 6, se_until = 605800000\<rparr>]"
proof -
  let ?s = "snd (refreshTokensOf glass officeToken office)"
  have start: "sessions office = [\<lparr>se_id = 5, se_user = 1, se_family = 6, se_until = 5000999\<rparr>]"
    by (simp add: sessions_def live_def asSession_def office_def officeBackend_def)
  have claims: "verifyAsync glass (JWT_REFRESH_SECRET glass) 1000000 officeToken = Some (RefreshClaims 1 5 6)"
    and known: "knownUser office 1"
    and until: "parseExpiry (JWT_REFRESH_EXPIRES_IN glass) 1000000 = 605800000"
    and clocks: "clock (backend office) = 1000000" "nextId (backend office) = 10" "clock (backend ?s) = 1000000"
    by code_simp+
  note first = sessions_refine_store [OF office_ok, where E = glass and tok = officeToken, unfolded clocks start claims until]
  have rotated: "sessions ?s = [\<lparr>se_id = 10, se_user = 1, se_family = 6, se_until = 605800000\<rparr>]"
    using first by (simp add: rotate_session_def close_session_def known [simplified])
  have "site_ok ?s"
    using first by blast
  then show ?thesis
    using sessions_refine_store [of ?s, where E = glass and tok = officeToken, unfolded clocks claims] first start rotated
    by (simp add: close_claimed_def close_session_def)
qed

end
