(* ===== verification/Feedback.thy ===== *)
theory Feedback
  imports Organizations
begin

text \<open>
  What is said about an assignment afterwards: the reviews of guardians by clients
  (\<open>guardian-reviews/guardian-reviews.service.ts\<close>, \<open>guardian-review.presenter.ts\<close>) and the incidents
  reported from the field (\<open>createIncident\<close> and \<open>listIncidents\<close> of \<open>jobs/jobs.service.ts\<close>).
\<close>

section \<open>Reviews\<close>

definition RATEABLE_JOB_STATUSES :: "job_status list" where
  "RATEABLE_JOB_STATUSES = [J_AWAITING_CONFIRMATION, J_COMPLETED]"

record review_view =
  vw_id :: id
  vw_jobId :: id
  vw_assignmentId :: id
  vw_guardianId :: id
  vw_organizationId :: id
  vw_organizationName :: "string option"
  vw_jobReferenceNumber :: "string option"
  vw_rating :: int
  vw_comment :: "string option"
  vw_createdAt :: instant
  vw_reviewerUserId :: "id option"

definition displayName :: "org_profile \<Rightarrow> string" where
  "displayName p = (case op_tradingName p of None \<Rightarrow> op_legalName p | Some x \<Rightarrow> x)"

definition mapGuardianReviewForResponse :: "bool \<Rightarrow> site \<Rightarrow> guardian_review \<Rightarrow> review_view" where
  "mapGuardianReviewForResponse includeReviewerId s r = \<lparr>vw_id = re_id r, vw_jobId = re_jobId r,
     vw_assignmentId = re_assignmentId r, vw_guardianId = re_guardianId r,
     vw_organizationId = re_organizationId r,
     vw_organizationName = map_option displayName (profileOf (re_organizationId r) s),
     vw_jobReferenceNumber = map_option j_referenceNumber (jobOf (re_jobId r) (backend s)),
     vw_rating = re_rating r, vw_comment = re_comment r, vw_createdAt = re_createdAt r,
     vw_reviewerUserId = (if includeReviewerId then Some (re_reviewerUserId r) else None)\<rparr>"

definition completedAssignmentsOf :: "id \<Rightarrow> site \<Rightarrow> assignment list" where
  "completedAssignmentsOf jobId s =
     findMany (\<lambda>a. a_jobId a = jobId \<and> a_status a = A_COMPLETED) (assignments (backend s))"

definition resolveCompletedAssignment :: "id \<Rightarrow> id option \<Rightarrow> assignment call" where
  "resolveCompletedAssignment jobId assignmentId = (case assignmentId of
     Some aid \<Rightarrow>
       andThen (reads (\<lambda>s. findFirst (\<lambda>a. a_id a = aid \<and> a_jobId a = jobId) (assignments (backend s)))) (\<lambda>found.
       andThen (orThrow found (NotFound ''Assignment not found for this job'')) (\<lambda>a.
       andThen (ensure (a_status a = A_COMPLETED) (BadRequest ''Only completed assignments can be reviewed'')) (\<lambda>_.
       ok a)))
   | None \<Rightarrow>
       andThen (reads (completedAssignmentsOf jobId)) (\<lambda>completed. case completed of
         [] \<Rightarrow> throw (BadRequest ''No completed assignment to review for this job'')
       | [a] \<Rightarrow> ok a
       | _ \<Rightarrow> throw (BadRequest ''Multiple completed assignments'')))"

definition averageRating :: "guardian_review list \<Rightarrow> rat" where
  "averageRating rows = (if rows = [] then 0
     else of_int (sum_list (List.map re_rating rows)) / of_int (int (length rows)))"

definition reviewsOf :: "id \<Rightarrow> sys \<Rightarrow> guardian_review list" where
  "reviewsOf gid s = findMany (\<lambda>r. re_guardianId r = gid) (guardianReviews s)"

definition recomputeGuardianRating :: "id \<Rightarrow> unit op" where
  "recomputeGuardianRating gid = (\<lambda>s. case guardianOf gid s of
     None \<Rightarrow> (Inl (PrismaError ''P2025''), s)
   | Some _ \<Rightarrow> (Inr (), s\<lparr>guardians := updateMany (\<lambda>g. g_id g = gid)
       (\<lambda>g. g\<lparr>g_rating := averageRating (reviewsOf gid s)\<rparr>) (guardians s)\<rparr>))"

definition trimmedComment :: "string option \<Rightarrow> string option" where
  "trimmedComment comment = (let t = map_option (trimBy jsWhitespace) comment in if truthy t then t else None)"

definition submitForJob :: "id \<Rightarrow> int \<Rightarrow> string option \<Rightarrow> id option \<Rightarrow> actor \<Rightarrow> review_view call" where
  "submitForJob jobId rating comment assignmentId actor =
     andThen (inBackend (assertJobAccess jobId actor)) (\<lambda>j.
     andThen (ensure (j_status j \<in> set RATEABLE_JOB_STATUSES)
       (BadRequest ''Reviews are allowed after guardian completion'')) (\<lambda>_.
     andThen (resolveCompletedAssignment jobId assignmentId) (\<lambda>a.
     andThen (reads (\<lambda>s. findUnique re_assignmentId (a_id a) (guardianReviews (backend s)))) (\<lambda>existing.
     case existing of
       Some r \<Rightarrow> reads (\<lambda>s. mapGuardianReviewForResponse True s r)
     | None \<Rightarrow>
         andThen (transaction (\<lambda>s s'. s)
           (andThen siteId (\<lambda>rid. andThen siteNow (\<lambda>t.
            let r = \<lparr>re_id = rid, re_jobId = jobId, re_assignmentId = a_id a,
                  re_guardianId = a_guardianId a, re_organizationId = j_organizationId j,
                  re_reviewerUserId = sub actor, re_rating = rating,
                  re_comment = trimmedComment comment, re_createdAt = t\<rparr>
            in andThen (inBackend (writes (\<lambda>b. b\<lparr>guardianReviews := createRow r (guardianReviews b)\<rparr>))) (\<lambda>_.
               andThen (inBackend (recomputeGuardianRating (a_guardianId a))) (\<lambda>_. ok r)))))) (\<lambda>r.
         andThen (siteAudit (sub actor) ''GUARDIAN_REVIEW_SUBMITTED'' (re_id r)) (\<lambda>_.
         reads (\<lambda>s. mapGuardianReviewForResponse True s r)))))))"

definition canSeeReviewer :: "actor \<Rightarrow> bool" where
  "canSeeReviewer actor \<longleftrightarrow> isOps actor \<or> actorGuardianId actor = None"

definition getForJob :: "id \<Rightarrow> actor \<Rightarrow> review_view option call" where
  "getForJob jobId actor =
     andThen (inBackend (assertJobAccess jobId actor)) (\<lambda>_.
     reads (\<lambda>s. map_option (mapGuardianReviewForResponse (canSeeReviewer actor) s)
       (findFirst (\<lambda>r. re_jobId r = jobId) (guardianReviews (backend s)))))"

definition assertGuardianReviewListAccess :: "id \<Rightarrow> actor \<Rightarrow> unit call" where
  "assertGuardianReviewListAccess gid actor =
     ensure (isOps actor \<or> actorGuardianId actor = Some gid) (Forbidden ''No access to this guardian reviews'')"

text \<open>The page, the number of reviews and their average.\<close>

definition listForGuardian ::
  "id \<Rightarrow> pagination \<Rightarrow> actor \<Rightarrow> ((review_view list \<times> page_meta) \<times> int \<times> rat) call" where
  "listForGuardian gid query actor =
     andThen (assertGuardianReviewListAccess gid actor) (\<lambda>_.
     reads (\<lambda>s. let rows = reviewsOf gid (backend s);
                    views = List.map (mapGuardianReviewForResponse (canSeeReviewer actor) s)
                      (orderByDesc re_createdAt rows)
                in (paginated query views, int (length rows), averageRating rows)))"

section \<open>Incidents\<close>

definition createIncident :: "id \<Rightarrow> id \<Rightarrow> incident_type \<Rightarrow> incident_severity option \<Rightarrow> string \<Rightarrow>
    id list option \<Rightarrow> actor \<Rightarrow> field_incident op" where
  "createIncident jobId assignmentId incidentType severity description mediaIds actor =
     andThen (assertJobAccess jobId actor) (\<lambda>j.
     andThen (reads (assignmentOf assignmentId)) (\<lambda>found.
     andThen (ensure (map_option a_jobId found = Some (j_id j)) (NotFound ''Assignment not found for job'')) (\<lambda>_.
     andThen (ensure (actorGuardianId actor = None \<or> map_option a_guardianId found = actorGuardianId actor)
       (Forbidden ''Forbidden'')) (\<lambda>_.
     andThen freshId (\<lambda>fid. andThen now (\<lambda>t.
     let row = \<lparr>fi_id = fid, fi_assignmentId = assignmentId, fi_incidentType = incidentType,
           fi_severity = (case severity of None \<Rightarrow> LOW | Some x \<Rightarrow> x), fi_description = description,
           fi_mediaIds = (case mediaIds of None \<Rightarrow> [] | Some xs \<Rightarrow> xs), fi_createdBy = sub actor,
           fi_createdAt = t\<rparr>
     in andThen (writes (\<lambda>s. s\<lparr>fieldIncidents := createRow row (fieldIncidents s)\<rparr>)) (\<lambda>_.
        andThen (auditLog (Some (sub actor)) ''INCIDENT_REPORTED'' fid) (\<lambda>_. ok row))))))))"

definition listIncidents :: "id \<Rightarrow> actor \<Rightarrow> field_incident list op" where
  "listIncidents jobId actor =
     andThen (assertJobAccess jobId actor) (\<lambda>_.
     reads (\<lambda>s. orderByDesc fi_createdAt (findMany (\<lambda>i.
       map_option a_jobId (assignmentOf (fi_assignmentId i) s) = Some jobId) (fieldIncidents s))))"

section \<open>What a review does\<close>

text \<open>The average of ratings between two bounds is between them.\<close>

lemma averageRating_bounds:
  assumes "rows \<noteq> []" and "\<And>r. r \<in> set rows \<Longrightarrow> lo \<le> re_rating r \<and> re_rating r \<le> hi"
  shows "of_int lo \<le> averageRating rows \<and> averageRating rows \<le> of_int hi"
proof -
  have "lo * int (length rows) \<le> sum_list (List.map re_rating rows) \<and>
      sum_list (List.map re_rating rows) \<le> hi * int (length rows)"
    using assms(2) by (induction rows) (auto simp: algebra_simps, fastforce+)
  then have "of_int lo * of_int (int (length rows)) \<le> (of_int (sum_list (List.map re_rating rows)) :: rat) \<and>
      (of_int (sum_list (List.map re_rating rows)) :: rat) \<le> of_int hi * of_int (int (length rows))"
    by (metis of_int_le_iff of_int_mult)
  then show ?thesis
    using assms(1) by (simp add: averageRating_def pos_le_divide_eq pos_divide_le_eq)
qed

end
