(* ===== verification/Clients.thy ===== *)
theory Clients
  imports Office Feedback
begin

text \<open>
  The way of a client from its application to its first booking, and the end of an account: what
  a submission required, how a review and the setup of the site open and close booking, and what a
  deleted user can still do.
\<close>

section \<open>Reviews and booking\<close>

lemma findUnique_id: "findUnique key k rows = Some r \<Longrightarrow> key r = k"
  using findUnique_SomeD by fast

lemma updateOrg_effect:
  assumes "updateOrg org f g s = (Inr (), s')" and "\<And>r. o_id (f r) = o_id r"
  shows "orgOf org (backend s') = map_option f (orgOf org (backend s)) \<and>
    orgOf org (backend s) \<noteq> None \<and> locations (backend s') = locations (backend s) \<and>
    orgUsers (backend s') = orgUsers (backend s)"
  using assms
  by (cases "orgOf org (backend s)")
    (auto simp: updateOrg_def orgOf_def findUnique_updateMany dest: findUnique_id)

lemma notifyOwners_apply: "notifyOwners org title template s = (Inr (), s\<lparr>backend := (backend s)\<lparr>messages :=
    messages (backend s) @ [NotifyOrgOwners org title, EmailOrgOwners org template]\<rparr>\<rparr>)"
  by (simp add: notifyOwners_def andThen_def inBackend_def send_def)

lemma siteAudit_apply: "siteAudit who action target s = (Inr (), s\<lparr>backend := (backend s)\<lparr>audits :=
    audits (backend s) @ [\<lparr>au_actorUserId = Some who, au_action = action, au_entityId = target\<rparr>]\<rparr>\<rparr>)"
  by (simp add: siteAudit_def inBackend_def auditLog_def createRow_def)

lemma andThen_siteAudit [simp]: "andThen (siteAudit who action target) f s = f ()
    (s\<lparr>backend := (backend s)\<lparr>audits :=
      audits (backend s) @ [\<lparr>au_actorUserId = Some who, au_action = action, au_entityId = target\<rparr>]\<rparr>\<rparr>)"
  by (simp add: andThen_def siteAudit_apply)

lemma orgOf_frame: "orgs b' = orgs b \<Longrightarrow> orgOf org b' = orgOf org b"
  by (simp add: orgOf_def)

lemma review_effect:
  assumes "reviewOrganization org status reviewer reason s = (Inr (), s')"
  shows "(\<exists>r. orgOf org (backend s') = Some r \<and> o_verificationStatus r = status) \<and>
    locations (backend s') = locations (backend s) \<and> orgUsers (backend s') = orgUsers (backend s) \<and>
    (status = V_REJECTED \<longrightarrow> truthy (map_option (trimBy jsWhitespace) reason))"
proof -
  let ?f = "\<lambda>r. r\<lparr>o_verificationStatus := status\<rparr>"
  let ?g = "\<lambda>p. p\<lparr>op_verificationRejectionReason :=
      (if status = V_REJECTED then map_option (trimBy jsWhitespace) reason else None)\<rparr>"
  have reason: "\<not> (status = V_REJECTED \<and> \<not> truthy (map_option (trimBy jsWhitespace) reason))"
    using assms by (auto simp: reviewOrganization_def ensure_def split: if_splits)
  obtain s1 where s1: "updateOrg org ?f ?g s = (Inr (), s1)"
    using assms reason by (auto simp: reviewOrganization_def andThen_eq_Inr)
  have step: "andThen (updateOrg org ?f ?g) k s = k () s1" for k :: "unit \<Rightarrow> unit call"
    by (simp only: andThen_def s1 prod.case sum.case)
  define tell where "tell = (case status of
        V_VERIFIED \<Rightarrow> notifyOwners org ''Business approved'' ''VERIFICATION_ORG_APPROVED''
      | V_REJECTED \<Rightarrow> notifyOwners org ''Application needs attention'' ''VERIFICATION_ORG_REJECTED''
      | V_PENDING \<Rightarrow> ok ())"
  have tell: "orgs (backend (snd (tell t))) = orgs (backend t) \<and>
      locations (backend (snd (tell t))) = locations (backend t) \<and>
      orgUsers (backend (snd (tell t))) = orgUsers (backend t)" for t
    by (cases status) (simp_all add: tell_def notifyOwners_apply)
  have "tell (snd (siteAudit reviewer ''ORG_VERIFICATION_REVIEW'' org s1)) = (Inr (), s')"
    using assms reason by (simp add: reviewOrganization_def step siteAudit_apply tell_def)
  note told = this
  have "orgs (backend s') = orgs (backend s1) \<and> locations (backend s') = locations (backend s1) \<and>
      orgUsers (backend s') = orgUsers (backend s1)"
    using tell [of "snd (siteAudit reviewer ''ORG_VERIFICATION_REVIEW'' org s1)"]
    unfolding told by (simp add: siteAudit_apply)
  with updateOrg_effect [OF s1] orgOf_frame [of "backend s'" "backend s1" org] reason show ?thesis
    by auto
qed

definition primaryOf :: "id \<Rightarrow> sys \<Rightarrow> location_row option" where
  "primaryOf org b = findFirst (\<lambda>_. True) (orderByAsc l_createdAt
     (findMany (\<lambda>l. l_organizationId l = org \<and> l_isPrimary l) (locations b)))"

lemma getPrimaryLocation_apply: "getPrimaryLocation org b = (Inr (primaryOf org b), b)"
  by (simp add: getPrimaryLocation_def primaryOf_def)

lemma find_True: "find (\<lambda>_. True) xs = (case xs of [] \<Rightarrow> None | x # _ \<Rightarrow> Some x)"
  by (cases xs) simp_all

text \<open>Pinning a location keeps the order of the locations.\<close>

lemma primaryOf_pinned:
  assumes "locations b' = updateMany (\<lambda>l. l_id l = lid) (\<lambda>l. l\<lparr>l_coordinatePrecision := USER_PINNED\<rparr>) (locations b)"
  shows "primaryOf org b' = map_option
    (\<lambda>l. if l_id l = lid then l\<lparr>l_coordinatePrecision := USER_PINNED\<rparr> else l) (primaryOf org b)"
proof -
  define f :: "location_row \<Rightarrow> location_row" where "f = (\<lambda>l. if l_id l = lid then l\<lparr>l_coordinatePrecision := USER_PINNED\<rparr> else l)"
  have keeps: "l_createdAt (f l) = l_createdAt l" "l_organizationId (f l) = l_organizationId l"
    "l_isPrimary (f l) = l_isPrimary l" for l
    by (simp_all add: f_def)
  have "locations b' = List.map f (locations b)"
    by (simp add: assms updateMany_def f_def)
  moreover have "filter p (List.map f rows) = List.map f (filter (p \<circ> f) rows)" for p rows
    by (simp add: filter_map)
  moreover have "sort_key l_createdAt (List.map f rows) = List.map f (sort_key l_createdAt rows)" for rows
  proof -
    have "insort_key l_createdAt (f x) (List.map f xs) = List.map f (insort_key l_createdAt x xs)" for x xs
      by (induction xs) (simp_all add: keeps)
    then show ?thesis
      by (induction rows) simp_all
  qed
  ultimately show ?thesis
    by (simp add: primaryOf_def findMany_def findFirst_def orderByAsc_def find_True keeps o_def f_def [symmetric]
        split: list.split)
qed

lemma canBook_iff: "fst (assertCanBookJobs org b) = Inr () \<longleftrightarrow>
    map_option o_verificationStatus (orgOf org b) = Some V_VERIFIED \<and>
    map_option l_coordinatePrecision (primaryOf org b) = Some USER_PINNED"
  by (cases "orgOf org b"; cases "primaryOf org b")
    (auto simp: assertCanBookJobs_def getPrimaryLocation_def primaryOf_def ensure_def)

lemma owner_first:
  assumes "andThen (assertOwnerOrOps org actor) k s = (Inr x, s')"
  shows "assertOwnerOrOps org actor s = (Inr (), s)"
  using assms
  by (cases "membershipIn org (sub actor) s")
    (auto simp: assertOwnerOrOps_def andThen_def ensure_def split: if_splits)

lemma owner_only:
  "assertOwnerOrOps org actor s = (Inr (), s) \<longleftrightarrow>
     isOps actor \<or> (\<exists>m. membershipIn org (sub actor) s = Some m \<and> m_isOwner m)"
  by (cases "membershipIn org (sub actor) s") (auto simp: assertOwnerOrOps_def ensure_def)

text \<open>What a successful setup of the site started from, and that booking is open after it.\<close>

lemma completePrimarySite_effect:
  assumes "completePrimarySite org dto actor s = (Inr lid, s')"
  shows "map_option o_verificationStatus (orgOf org (backend s)) = Some V_VERIFIED \<and>
    map_option l_id (primaryOf org (backend s)) = Some lid \<and>
    fst (assertCanBookJobs org (backend s')) = Inr ()"
proof -
  have own: "assertOwnerOrOps org actor s = (Inr (), s)"
    using owner_first [OF assms [unfolded completePrimarySite_def]] .
  have step: "andThen (assertOwnerOrOps org actor) k s = k () s" for k :: "unit \<Rightarrow> id call"
    by (simp only: andThen_def own prod.case sum.case)
  have read: "andThen (inBackend (getPrimaryLocation org)) k t = k (primaryOf org (backend t)) t"
    for k :: "location_row option \<Rightarrow> id call" and t
    by (simp add: andThen_def inBackend_def getPrimaryLocation_apply)
  note run = assms [unfolded completePrimarySite_def step andThen_siteNow]
  obtain o1 where o1: "orgOf org (backend s) = Some o1" "o_verificationStatus o1 = V_VERIFIED"
    using run by (cases "orgOf org (backend s)") (auto simp: ensure_def split: if_splits)
  obtain l where l: "primaryOf org (backend s) = Some l"
    using run by (cases "primaryOf org (backend s)") (auto simp: o1 read)
  have s': "lid = l_id l" "orgs (backend s') = orgs (backend s)" "locations (backend s') =
      updateMany (\<lambda>r. l_id r = l_id l) (\<lambda>r. r\<lparr>l_coordinatePrecision := USER_PINNED\<rparr>) (locations (backend s))"
    using run by (auto simp: o1 l read updateLocationRow_def)
  have "primaryOf org (backend s') = Some (l\<lparr>l_coordinatePrecision := USER_PINNED\<rparr>)"
    by (simp add: primaryOf_pinned [OF s'(3)] l)
  then show ?thesis
    by (simp add: o1 l s'(1) canBook_iff orgOf_frame [OF s'(2)])
qed

text \<open>
  C37: a review decides on booking.  While the last review did not verify the organization, no one
  can book for it and no one, whatever the role, completes the setup of its site; once the site is
  set up after a positive review, booking is open.  A rejection has a reason.
\<close>

theorem booking_follows_review:
  assumes "reviewOrganization org status reviewer reason s = (Inr (), s1)"
  shows "(status \<noteq> V_VERIFIED \<longrightarrow> fst (assertCanBookJobs org (backend s1)) \<noteq> Inr ()) \<and>
    (\<forall>dto actor lid s2. completePrimarySite org dto actor s1 = (Inr lid, s2) \<longrightarrow>
       status = V_VERIFIED \<and> fst (assertCanBookJobs org (backend s2)) = Inr () \<and>
       (isOps actor \<or> (\<exists>m. membershipIn org (sub actor) s1 = Some m \<and> m_isOwner m))) \<and>
    (status = V_REJECTED \<longrightarrow> truthy (map_option (trimBy jsWhitespace) reason))"
proof (intro conjI allI impI)
  obtain r where r: "orgOf org (backend s1) = Some r" "o_verificationStatus r = status"
    using review_effect [OF assms] by blast
  show "fst (assertCanBookJobs org (backend s1)) \<noteq> Inr ()" if "status \<noteq> V_VERIFIED"
    using r that by (auto simp: canBook_iff)
  fix dto actor lid s2
  assume finished: "completePrimarySite org dto actor s1 = (Inr lid, s2)"
  show "status = V_VERIFIED" "fst (assertCanBookJobs org (backend s2)) = Inr ()"
    using completePrimarySite_effect [OF finished] r by auto
  show "isOps actor \<or> (\<exists>m. membershipIn org (sub actor) s1 = Some m \<and> m_isOwner m)"
    using owner_first [OF finished [unfolded completePrimarySite_def]] by (simp add: owner_only)
next
  show "truthy (map_option (trimBy jsWhitespace) reason)" if "status = V_REJECTED"
    using review_effect [OF assms] that by blast
qed

definition candidate :: site where
  "candidate = office\<lparr>backend := officeBackend\<lparr>orgs := [\<lparr>o_id = 9, o_verificationStatus = V_PENDING\<rparr>],
     locations := [\<lparr>l_id = 8, l_organizationId = 9, l_district = ''Gasabo'', l_isPrimary = True,
       l_coordinatePrecision = DISTRICT_APPROX, l_createdAt = 0\<rparr>]\<rparr>\<rparr>"

definition hotelOwner :: actor where
  "hotelOwner = \<lparr>sub = 1, roles = [CLIENT_OWNER], activeOrgId = Some 9, orgId = Some 9,
     organizationIds = [9], actorGuardianId = None\<rparr>"

definition pinned :: complete_site_dto where
  "pinned = \<lparr>cs_latitude = -2, cs_longitude = 30, cs_name = None, cs_address = None\<rparr>"

lemma booking_follows_review_witness:
  "\<exists>s1 s2. fst (assertCanBookJobs 9 (backend candidate)) \<noteq> Inr () \<and>
     reviewOrganization 9 V_VERIFIED 2 None candidate = (Inr (), s1) \<and>
     completePrimarySite 9 pinned hotelOwner s1 = (Inr 8, s2) \<and>
     fst (assertCanBookJobs 9 (backend s2)) = Inr ()"
proof -
  define s1 where "s1 = snd (reviewOrganization 9 V_VERIFIED 2 None candidate)"
  define s2 where "s2 = snd (completePrimarySite 9 pinned hotelOwner s1)"
  have "fst (reviewOrganization 9 V_VERIFIED 2 None candidate) = Inr ()"
    by code_simp
  then have review: "reviewOrganization 9 V_VERIFIED 2 None candidate = (Inr (), s1)"
    by (simp add: s1_def prod_eq_iff)
  have "fst (completePrimarySite 9 pinned hotelOwner s1) = Inr 8"
    unfolding s1_def by code_simp
  then have pin: "completePrimarySite 9 pinned hotelOwner s1 = (Inr 8, s2)"
    by (simp add: s2_def prod_eq_iff)
  moreover have "fst (assertCanBookJobs 9 (backend candidate)) \<noteq> Inr ()"
    by code_simp
  moreover have "fst (assertCanBookJobs 9 (backend s2)) = Inr ()"
    using booking_follows_review [OF review] pin by blast
  ultimately show ?thesis
    using review by blast
qed

section \<open>What an application has to have\<close>

text \<open>Signing a user in writes no user and no organization.\<close>

definition sameAccounts :: "site \<Rightarrow> site \<Rightarrow> bool" where
  "sameAccounts s s' \<longleftrightarrow> users s' = users s \<and> orgs (backend s') = orgs (backend s)"

interpretation sameAccounts: state_preorder sameAccounts
  by standard (auto simp: sameAccounts_def)

named_theorems account_rules \<open>calls that leave users and organizations alone\<close>

lemma accounts_backend:
  assumes "orgs (snd (m (backend s))) = orgs (backend s)"
  shows "sameAccounts s (snd (inBackend m s))"
  using assms by (cases "m (backend s)") (auto simp: inBackend_def sameAccounts_def)

definition sameOrgs :: "sys \<Rightarrow> sys \<Rightarrow> bool" where
  "sameOrgs b b' \<longleftrightarrow> orgs b' = orgs b"

interpretation sameOrgs: state_preorder sameOrgs
  by standard (auto simp: sameOrgs_def)

lemma accounts_autoStart [account_rules]: "sameAccounts s (snd (inBackend (autoStartOnLogin gid) s))"
proof -
  have "sameOrgs b (snd (autoStartOnLogin gid b))" for b
    unfolding autoStartOnLogin_def startShift_def assertDispatchEligible_def assertProfileEligible_def now_def
    by (intro sameOrgs.rules sameOrgs.tryCatch sameOrgs.writes) (simp_all add: sameOrgs_def)
  then show ?thesis
    by (simp add: accounts_backend sameOrgs_def)
qed

lemma accounts_audit [account_rules]: "sameAccounts s (snd (siteAudit who action target s))"
  by (simp add: siteAudit_apply sameAccounts_def)

lemma accounts_email [account_rules]: "sameAccounts s (snd (emailUser uid template s))"
  unfolding emailUser_def by (rule accounts_backend) (simp add: send_def)

lemma accounts_notify [account_rules]: "sameAccounts s (snd (notifyUser uid title s))"
  unfolding notifyUser_def by (rule accounts_backend) (simp add: send_def)

lemma accounts_siteId [account_rules]: "sameAccounts s (snd (siteId s))"
  by (simp add: sameAccounts_def)

lemma accounts_siteNow [account_rules]: "sameAccounts s (snd (siteNow s))"
  by (simp add: sameAccounts_def)

lemma accounts_issueTokens [account_rules]: "sameAccounts s (snd (issueTokens E p f s))"
  unfolding issueTokens_def Let_def
  by (intro sameAccounts.rules sameAccounts.writes account_rules) (simp_all add: sameAccounts_def)

lemma accounts_issueSetupToken [account_rules]: "sameAccounts s (snd (issueSetupToken E uid s))"
  by (simp add: issueSetupToken_def sameAccounts_def)

lemma accounts_loadPayload [account_rules]: "sameAccounts s (snd (loadAuthUserPayload uid org s))"
  unfolding loadAuthUserPayload_def by (rule sameAccounts.reads)

lemma accounts_summarizeOrg [account_rules]: "sameAccounts s (snd (summarizeOrg m s))"
  unfolding summarizeOrg_def
  by (intro sameAccounts.rules accounts_backend)
    (simp add: getBookingEligibility_def getPrimaryLocation_def Let_def)

lemma accounts_buildAuthResponse [account_rules]: "sameAccounts s (snd (buildAuthResponse E uid b s))"
  unfolding buildAuthResponse_def by (intro sameAccounts.rules account_rules)

lemma accounts_updateProfile [account_rules]: "sameAccounts s (snd (updateProfile org f s))"
  by (simp add: updateProfile_def sameAccounts_def split: option.split)

lemma resolveOnboardingContext_state: "snd (resolveOnboardingContext E header s) = s"
proof -
  have "snd (verifyOnboardingToken E header s) = s"
    by (cases header) (auto simp: verifyOnboardingToken_def split: option.split claims.split)
  then show ?thesis
    unfolding resolveOnboardingContext_def case_prod_unfold by (intro unchanged.rules)
qed

lemma onboardingOrg_SomeD:
  assumes "onboardingOrg E header s = (Inr (ctx, org), s')"
  shows "s' = s \<and> oc_organizationId ctx = Some org \<and>
    (\<exists>u. userOf (oc_userId ctx) s = Some u \<and> u_onboardingCompletedAt u = None \<and>
      u_status u = U_PENDING_VERIFICATION)"
proof -
  obtain s1 where ctx: "resolveOnboardingContext E header s = (Inr ctx, s1)"
    and org: "requireOnboardingOrg ctx s1 = (Inr (ctx, org), s')"
    using assms by (auto simp: onboardingOrg_def andThen_eq_Inr requireOnboardingOrg_def orThrow_def
        split: option.splits)
  have "s1 = s"
    using resolveOnboardingContext_state [of E header s] ctx by simp
  moreover have "\<exists>u. userOf (oc_userId ctx) s = Some u \<and> u_onboardingCompletedAt u = None \<and>
      u_status u = U_PENDING_VERIFICATION"
  proof -
    obtain uid tokenOrg s0 where v: "verifyOnboardingToken E header s = (Inr (uid, tokenOrg), s0)"
      using ctx by (auto simp: resolveOnboardingContext_def andThen_eq_Inr)
    have s0: "s0 = s"
      using v by (cases header) (auto simp: verifyOnboardingToken_def split: option.splits claims.splits)
    obtain u where u: "userOf uid s = Some u"
      using ctx v s0 by (cases "userOf uid s") (auto simp: resolveOnboardingContext_def andThen_def)
    then show ?thesis
      using ctx v s0 by (auto simp: resolveOnboardingContext_def andThen_def ensure_def split: if_splits)
  qed
  ultimately show ?thesis
    using org by (auto simp: requireOnboardingOrg_def orThrow_def andThen_eq_Inr split: option.splits)
qed

text \<open>What an applicant has to have given before the application can be submitted.\<close>

definition applicantReady :: "user \<Rightarrow> bool" where
  "applicantReady u \<longleftrightarrow> u_status u = U_PENDING_VERIFICATION \<and> u_onboardingCompletedAt u = None \<and>
     u_isPhoneVerified u \<and> truthy (u_fullName u) \<and> truthy (u_email u) \<and> truthy (u_passwordHash u)"

definition businessReady :: "id \<Rightarrow> site \<Rightarrow> bool" where
  "businessReady org s \<longleftrightarrow> (case profileOf org s of None \<Rightarrow> False
     | Some p \<Rightarrow> op_legalName p \<noteq> [] \<and> truthy (map_option (trimBy jsWhitespace) (op_tinNumber p)) \<and>
         hasSatisfyingVerificationDocument (op_orgType p) (documentTypesOf org s)) \<and>
     truthy (Option.bind (Option.bind (primaryLocation org s) (\<lambda>l. addressOf (l_id l) s)) lo_address)"

definition submittedUser :: "instant \<Rightarrow> user \<Rightarrow> user" where
  "submittedUser t u = u\<lparr>u_status := U_ACTIVE, u_onboardingStep := Some SUBMITTED,
     u_onboardingCompletedAt := Some t\<rparr>"

lemma updateUser_effect:
  assumes "updateUser uid f s = (Inr (), s')" and "\<And>u. u_id (f u) = u_id u"
  shows "userOf uid s' = map_option f (userOf uid s) \<and> userOf uid s \<noteq> None \<and> backend s' = backend s"
  using assms
  by (cases "userOf uid s") (auto simp: updateUser_def userOf_def findUnique_updateMany dest: findUnique_id)

lemma ensure_first:
  assumes "andThen (ensure b e) k s = (Inr x, s')"
  shows "b" and "k () s = (Inr x, s')"
  using assms by (auto simp: ensure_def split: if_splits)

lemma submitRegistration_effect:
  assumes run: "submitRegistration E header s = (Inr x, s')"
    and ctx: "onboardingOrg E header s = (Inr (ctx, org), s)"
  shows "\<exists>u. userOf (oc_userId ctx) s = Some u \<and> applicantReady u \<and> businessReady org s \<and>
    userOf (oc_userId ctx) s' = Some (submittedUser (clock (backend s)) u) \<and>
    orgs (backend s') = orgs (backend s)"
proof -
  define t where "t = clock (backend s)"
  have step: "andThen (onboardingOrg E header) k s = k (ctx, org) s" for k :: "_ \<Rightarrow> 'a auth_response call"
    by (simp only: andThen_def ctx prod.case sum.case)
  note run = run [unfolded submitRegistration_def step prod.case, simplified]
  obtain u where u: "userOf (oc_userId ctx) s = Some u" "u_onboardingCompletedAt u = None"
      "u_status u = U_PENDING_VERIFICATION"
    using onboardingOrg_SomeD [OF ctx] by blast
  note run = run [unfolded u orThrow_simps, simplified]
  note complete = ensure_first(1) [OF run]
  note run = ensure_first(2) [OF run]
  obtain p where p: "profileOf org s = Some p"
    using run by (cases "profileOf org s") simp_all
  note run = run [unfolded p orThrow_simps, simplified]
  note legalName = ensure_first(1) [OF run]
  note run = ensure_first(2) [OF run]
  note tin = ensure_first(1) [OF run]
  note run = ensure_first(2) [OF run]
  note address = ensure_first(1) [OF run]
  note run = ensure_first(2) [OF run]
  note verified = ensure_first(1) [OF run]
  note run = ensure_first(2) [OF run]
  note papers = ensure_first(1) [OF run]
  note run = ensure_first(2) [OF run, simplified]
  define k where "k = (\<lambda>_ :: unit. andThen (updateProfile org (\<lambda>r. r\<lparr>op_applicationSubmittedAt := Some t\<rparr>)) (\<lambda>_.
    andThen (siteAudit (oc_userId ctx) ''CLIENT_APPLICATION_SUBMITTED'' (oc_userId ctx)) (\<lambda>_.
    andThen (emailUser (oc_userId ctx) ''ONBOARDING_APPLICATION_SUBMITTED'') (\<lambda>_.
    andThen (notifyUser (oc_userId ctx) ''Application submitted'') (\<lambda>_.
    issueFullAuthResponse E (oc_userId ctx))))))"
  have kept: "sameAccounts r (snd (k () r))" for r
    unfolding k_def issueFullAuthResponse_def by (intro sameAccounts.rules account_rules)
  have run: "andThen (updateUser (oc_userId ctx) (submittedUser t)) k s = (Inr x, s')"
    using run by (simp only: k_def t_def submittedUser_def [abs_def])
  obtain s1 where s1: "updateUser (oc_userId ctx) (submittedUser t) s = (Inr (), s1)" "k () s1 = (Inr x, s')"
    using run by (auto simp: andThen_eq_Inr)
  have "userOf (oc_userId ctx) s' = Some (submittedUser t u) \<and> orgs (backend s') = orgs (backend s)"
    using updateUser_effect [OF s1(1)] kept [of s1] u by (simp add: s1(2) sameAccounts_def submittedUser_def userOf_def)
  moreover have "applicantReady u"
    using u complete verified by (simp add: applicantReady_def)
  moreover have "businessReady org s"
    using p legalName tin address papers by (simp add: businessReady_def)
  ultimately show ?thesis
    using u by (simp add: t_def)
qed

lemma first_call:
  assumes "andThen m k s = (Inr x, s')"
  obtains a s1 where "m s = (Inr a, s1)" "k a s1 = (Inr x, s')"
  using assms by (auto simp: andThen_eq_Inr)

text \<open>
  C38: an application that is submitted was complete: the applicant, waiting for verification, had
  a verified phone, a name, an e-mail and a password, the organization a legal name, a tax number,
  an address and a document that suffices for its type.  The submission opens sign-in for the
  applicant and decides nothing about the organization, and from then on every onboarding token of
  the applicant is refused.
\<close>

theorem submitted_application_is_complete:
  assumes "submitRegistration E header s = (Inr x, s')"
  shows "\<exists>ctx org u. onboardingOrg E header s = (Inr (ctx, org), s) \<and>
    userOf (oc_userId ctx) s = Some u \<and> applicantReady u \<and> businessReady org s \<and>
    userOf (oc_userId ctx) s' = Some (submittedUser (clock (backend s)) u) \<and>
    orgs (backend s') = orgs (backend s) \<and>
    (\<forall>tok tokenOrg. verifyAsync E (JWT_SECRET E) (clock (backend s')) tok =
        Some (OnboardingClaims (oc_userId ctx) tokenOrg) \<longrightarrow>
      resolveOnboardingContext E (Some tok) s' =
        (Inl (Unauthorized ''ONBOARDING_ALREADY_COMPLETED''), s'))"
proof -
  obtain c s0 where first: "onboardingOrg E header s = (Inr c, s0)"
    using first_call [OF assms [unfolded submitRegistration_def]] by blast
  obtain ctx org where c: "c = (ctx, org)"
    by (cases c)
  have ctx: "onboardingOrg E header s = (Inr (ctx, org), s)"
    using first onboardingOrg_SomeD [of E header s ctx org s0] by (simp add: c)
  have "resolveOnboardingContext E (Some tok) s' = (Inl (Unauthorized ''ONBOARDING_ALREADY_COMPLETED''), s')"
    if "userOf (oc_userId ctx) s' = Some (submittedUser t u)"
      and "verifyAsync E (JWT_SECRET E) (clock (backend s')) tok = Some (OnboardingClaims (oc_userId ctx) tokenOrg)"
    for tok tokenOrg t u
    using that
    by (simp add: resolveOnboardingContext_def verifyOnboardingToken_def andThen_def submittedUser_def ensure_def)
  with submitRegistration_effect [OF assms ctx] ctx show ?thesis
    by blast
qed

text \<open>The candidate's owner before the submission, with a paper and an address.\<close>

definition applying :: site where
  "applying = candidate\<lparr>
     users := [\<lparr>u_id = 1, u_phoneNumber = ''+250788000001'', u_email = Some ''a@b.rw'',
       u_fullName = Some ''Aline'', u_passwordHash = Some ''hsecret-1'', u_passwordSetAt = Some 0,
       u_status = U_PENDING_VERIFICATION, u_isPhoneVerified = True, u_isEmailVerified = False,
       u_lastLoginAt = None, u_onboardingStep = Some DOCUMENTS_UPLOADED,
       u_onboardingCompletedAt = None, u_roles = [CLIENT_OWNER]\<rparr>],
     orgProfiles := [\<lparr>op_id = 9, op_legalName = ''Hotel'', op_tradingName = None,
       op_tinNumber = Some ''102'', op_orgType = HOTEL, op_mobileMoneyProvider = MM_MOMO_MTN,
       op_mobileMoneyPhone = ''+250788000001'', op_verificationRejectionReason = None,
       op_applicationSubmittedAt = None\<rparr>],
     locationProfiles := [\<lparr>lo_id = 8, lo_name = ''Main'', lo_sector = None, lo_cell = None,
       lo_village = None, lo_address = Some ''KN 5'', lo_latitude = 0, lo_longitude = 0,
       lo_siteSetupCompletedAt = None, lo_status = ''ACTIVE''\<rparr>],
     orgDocuments := [\<lparr>od_id = 7, od_organizationId = 9, od_documentId = 6,
       od_documentType = TIN_CERTIFICATE\<rparr>]\<rparr>"

definition applyingToken :: "string \<times> claims \<times> instant" where
  "applyingToken = (''access'', OnboardingClaims 1 (Some 9), 9000000)"

lemma submitted_application_is_complete_witness:
  "\<exists>x s'. submitRegistration glass (Some applyingToken) applying = (Inr x, s') \<and>
     map_option u_status (userOf 1 s') = Some U_ACTIVE \<and>
     resolveOnboardingContext glass (Some applyingToken) s' =
       (Inl (Unauthorized ''ONBOARDING_ALREADY_COMPLETED''), s')"
proof -
  define s' where "s' = snd (submitRegistration glass (Some applyingToken) applying)"
  have "case fst (submitRegistration glass (Some applyingToken) applying) of Inl _ \<Rightarrow> False | Inr _ \<Rightarrow> True"
    by code_simp
  then obtain x where run: "submitRegistration glass (Some applyingToken) applying = (Inr x, s')"
    by (cases "fst (submitRegistration glass (Some applyingToken) applying)") (auto simp: s'_def prod_eq_iff)
  obtain ctx org u where *: "onboardingOrg glass (Some applyingToken) applying = (Inr (ctx, org), applying)"
    "userOf (oc_userId ctx) s' = Some (submittedUser (clock (backend applying)) u)"
    "\<And>tok tokenOrg. verifyAsync glass (JWT_SECRET glass) (clock (backend s')) tok =
        Some (OnboardingClaims (oc_userId ctx) tokenOrg) \<Longrightarrow>
      resolveOnboardingContext glass (Some tok) s' =
        (Inl (Unauthorized ''ONBOARDING_ALREADY_COMPLETED''), s')"
    using submitted_application_is_complete [OF run] by blast
  have "map_sum (\<lambda>_. ()) (\<lambda>c. oc_userId (fst c)) (fst (onboardingOrg glass (Some applyingToken) applying)) = Inr 1"
    by code_simp
  then have uid: "oc_userId ctx = 1"
    using *(1) by simp
  have "verifyAsync glass (JWT_SECRET glass) (clock (backend s')) applyingToken = Some (OnboardingClaims 1 (Some 9))"
    unfolding s'_def by code_simp
  then show ?thesis
    using run *(2,3) uid by (auto simp: submittedUser_def)
qed

section \<open>The end of an account\<close>

text \<open>What both deletions do to the user, its sessions and its notifications.\<close>

lemma siteAudit_people:
  "users (snd (siteAudit who action target s)) = users s \<and>
   refreshTokens (snd (siteAudit who action target s)) = refreshTokens s \<and>
   notices (snd (siteAudit who action target s)) = notices s"
  by (simp add: siteAudit_apply)

lemma softDeleteUser_effect:
  assumes "softDeleteUser u gid actor s = (Inr r, s')" and "userOf (u_id u) s = Some u"
  shows "users s' = updateMany (\<lambda>x. u_id x = u_id u) anonymized (users s)"
    and "refreshTokens s' = updateMany (\<lambda>x. rt_userId x = u_id u \<and> rt_revokedAt x = None)
      (\<lambda>x. x\<lparr>rt_revokedAt := Some (clock (backend s))\<rparr>) (refreshTokens s)"
    and "notices s' = filter (\<lambda>n. n_userId n \<noteq> u_id u) (notices s)"
proof -
  have u: "findUnique u_id (u_id u) (users s) = Some u"
    using assms(2) by (simp add: userOf_def)
  obtain n s1 where s1: "transaction (\<lambda>s s'. s) (andThen (forgetActivator (u_id u)) (\<lambda>_.
        andThen (case gid of None \<Rightarrow> ok () | Some g \<Rightarrow> deactivateGuardian g) (\<lambda>_.
        andThen (reads (openTokens (u_id u))) (\<lambda>tokensRevoked.
        andThen (revokeTokenRows (u_id u)) (\<lambda>_.
        andThen (removeNotices (u_id u)) (\<lambda>notificationsRemoved.
        andThen (updateUser (u_id u) anonymized) (\<lambda>_.
        ok (tokensRevoked, notificationsRemoved)))))))) s = (Inr n, s1)"
    and s': "s' = snd (siteAudit (sub actor) ''USER_SOFT_DELETED'' (u_id u) s1)"
    using assms(1) by (auto simp: softDeleteUser_def andThen_eq_Inr siteAudit_apply split: prod.splits)
  note defs = forgetActivator_def deactivateGuardian_def revokeTokenRows_def removeNotices_def updateUser_def
    transaction_def andThen_def userOf_def u
  have "users s1 = updateMany (\<lambda>x. u_id x = u_id u) anonymized (users s) \<and>
    refreshTokens s1 = updateMany (\<lambda>x. rt_userId x = u_id u \<and> rt_revokedAt x = None)
      (\<lambda>x. x\<lparr>rt_revokedAt := Some (clock (backend s))\<rparr>) (refreshTokens s) \<and>
    notices s1 = filter (\<lambda>n. n_userId n \<noteq> u_id u) (notices s)"
    using s1 by (cases gid) (clarsimp simp: defs, clarsimp simp: defs)
  then show "users s' = updateMany (\<lambda>x. u_id x = u_id u) anonymized (users s)"
    "refreshTokens s' = updateMany (\<lambda>x. rt_userId x = u_id u \<and> rt_revokedAt x = None)
      (\<lambda>x. x\<lparr>rt_revokedAt := Some (clock (backend s))\<rparr>) (refreshTokens s)"
    "notices s' = filter (\<lambda>n. n_userId n \<noteq> u_id u) (notices s)"
    by (simp_all add: s' siteAudit_people)
qed

definition samePeople :: "site \<Rightarrow> site \<Rightarrow> bool" where
  "samePeople s s' \<longleftrightarrow> users s' = users s \<and> refreshTokens s' = refreshTokens s \<and> notices s' = notices s"

interpretation samePeople: state_preorder samePeople
  by standard (auto simp: samePeople_def)

lemma people_removeAssignments: "samePeople s (snd (removeAssignmentsOf gid s))"
  unfolding removeAssignmentsOf_def
  by (intro samePeople.rules samePeople.writes) (simp_all add: samePeople_def)

lemma people_forgetActivator: "samePeople s (snd (forgetActivator uid s))"
  by (simp add: forgetActivator_def samePeople_def)

lemma people_removeGuardian: "samePeople s (snd (removeGuardian gid s))"
  unfolding removeGuardian_def
  by (intro samePeople.rules samePeople.writes) (simp_all add: samePeople_def)

lemma removeUserRow_effect:
  assumes "removeUserRow uid s = (Inr x, s')"
  shows "users s' = filter (\<lambda>u. u_id u \<noteq> uid) (users s) \<and> refreshTokens s' = refreshTokens s \<and>
    notices s' = notices s"
  using assms by (auto simp: removeUserRow_def andThen_def ensure_def split: if_splits)

lemma hardDeleteUser_effect:
  assumes "hardDeleteUser uid gid actor s = (Inr r, s')"
  shows "users s' = filter (\<lambda>u. u_id u \<noteq> uid) (users s)"
    and "refreshTokens s' = filter (\<lambda>x. rt_userId x \<noteq> uid) (refreshTokens s)"
    and "notices s' = filter (\<lambda>n. n_userId n \<noteq> uid) (notices s)"
proof -
  let ?guardian = "case gid of None \<Rightarrow> ok ()
    | Some g \<Rightarrow> andThen (removeAssignmentsOf g) (\<lambda>_. andThen (forgetActivator uid) (\<lambda>_. removeGuardian g))"
  obtain n s1 where s1: "transaction (\<lambda>s s'. s) (andThen ?guardian (\<lambda>_.
        andThen (removeNotices uid) (\<lambda>notificationsRemoved.
        andThen (reads (\<lambda>s. countWhere (\<lambda>r. rt_userId r = uid) (refreshTokens s))) (\<lambda>tokensRevoked.
        andThen (writes (\<lambda>s. s\<lparr>refreshTokens := filter (\<lambda>r. rt_userId r \<noteq> uid) (refreshTokens s)\<rparr>)) (\<lambda>_.
        andThen (removeUserRow uid) (\<lambda>_.
        ok (tokensRevoked, notificationsRemoved))))))) s = (Inr n, s1)"
    and s': "s' = snd (siteAudit (sub actor) ''USER_HARD_DELETED'' uid s1)"
    using assms by (auto simp: hardDeleteUser_def andThen_eq_Inr siteAudit_apply split: prod.splits)
  obtain x s2 where s2: "?guardian s = (Inr x, s2)"
    and rest: "removeUserRow uid (s2\<lparr>notices := filter (\<lambda>n. n_userId n \<noteq> uid) (notices s2),
      refreshTokens := filter (\<lambda>r. rt_userId r \<noteq> uid) (refreshTokens s2)\<rparr>) = (Inr (), s1)"
    using s1 by (cases "?guardian s")
      (auto simp: transaction_def andThen_def removeNotices_def split: sum.splits prod.splits)
  have "samePeople s (snd (?guardian s))"
    by (intro samePeople.option_split_handler samePeople.rules people_removeAssignments people_forgetActivator
        people_removeGuardian)
  then show "users s' = filter (\<lambda>u. u_id u \<noteq> uid) (users s)"
    "refreshTokens s' = filter (\<lambda>x. rt_userId x \<noteq> uid) (refreshTokens s)"
    "notices s' = filter (\<lambda>n. n_userId n \<noteq> uid) (notices s)"
    using removeUserRow_effect [OF rest] by (simp_all add: s' siteAudit_people s2 samePeople_def)
qed

text \<open>A deletion that returns found the user and, unless it had nothing to do, found no blocker.\<close>

lemma deleteUser_effect:
  assumes "deleteUser E allowed uid actor mode s = (Inr r, s')"
  obtains u where "mode = hard \<longrightarrow> isHardDeleteAllowed E allowed" "userOf uid s = Some u"
    "u_status u = U_DELETED" "mode = soft" "s' = s"
  | u where "mode = hard \<longrightarrow> isHardDeleteAllowed E allowed" "userOf uid s = Some u"
      "mode = hard \<or> u_status u \<noteq> U_DELETED" "sub actor \<noteq> uid"
      "fst (collectBlockers uid (u_roles u) (mode = hard) s) = Inr []"
      "(if mode = hard then hardDeleteUser uid (map_option g_id (guardianOfUser uid s)) actor
        else softDeleteUser u (map_option g_id (guardianOfUser uid s)) actor) s = (Inr r, s')"
proof -
  have allowed: "mode = hard \<longrightarrow> isHardDeleteAllowed E allowed"
    using ensure_first(1) [OF assms [unfolded deleteUser_def]] by simp
  note run = ensure_first(2) [OF assms [unfolded deleteUser_def]]
  obtain u where u: "userOf uid s = Some u"
    using run by (cases "userOf uid s") (auto simp: loadUserForDeletion_def andThen_def)
  have id: "u_id u = uid"
    using u by (auto simp: userOf_def dest: findUnique_id)
  have load: "loadUserForDeletion uid s = (Inr (u, map_option g_id (guardianOfUser uid s)), s)"
    by (simp add: loadUserForDeletion_def u)
  have step: "andThen (loadUserForDeletion uid) k s = k (u, map_option g_id (guardianOfUser uid s)) s"
    for k :: "_ \<Rightarrow> delete_result call"
    by (simp only: andThen_def load prod.case sum.case)
  note run = run [unfolded step prod.case id]
  show thesis
  proof (cases "u_status u = U_DELETED \<and> mode = soft")
    case True
    then have "s' = s"
      using run by simp
    then show thesis
      using that(1) [OF allowed u] True by blast
  next
    case False
    note run = run [unfolded if_not_P [OF False]]
    obtain b where b: "collectBlockers uid (u_roles u) (mode = hard) s = (Inr b, s)"
      by (auto simp: collectBlockers_def Let_def)
    have step: "andThen (collectBlockers uid (u_roles u) (mode = hard)) k s = k b s"
      for k :: "_ \<Rightarrow> delete_result call"
      by (simp only: andThen_def b prod.case sum.case)
    have own: "sub actor \<noteq> uid"
      using ensure_first(1) [OF run] .
    note run = ensure_first(2) [OF run, unfolded step]
    have "b = []"
      using ensure_first(1) [OF run] .
    moreover have "mode = hard \<or> u_status u \<noteq> U_DELETED"
      using False by (cases mode) simp_all
    ultimately show thesis
      using that(2) [OF allowed u _ own _ ensure_first(2) [OF run]] b by simp
  qed
qed

lemma blocker_Nil [simp]: "blocker b text = [] \<longleftrightarrow> \<not> b"
  by (simp add: blocker_def)

lemma collectBlockers_empty:
  assumes "fst (collectBlockers uid held forHard s) = Inr []"
  shows "\<forall>j \<in> set (jobs (backend s)). j_createdBy j = uid \<longrightarrow> j_status j \<notin> set ACTIVE_JOB_STATUSES"
    and "\<forall>g. guardianOfUser uid s = Some g \<longrightarrow> (\<forall>a \<in> set (assignments (backend s)).
      a_guardianId a = g_id g \<longrightarrow> a_status a \<notin> set ACTIVE_ASSIGNMENT_STATUSES)"
    and "SUPER_ADMIN \<in> set held \<longrightarrow>
      countWhere (\<lambda>u. SUPER_ADMIN \<in> set (u_roles u) \<and> u_status u \<noteq> U_DELETED) (users s) > 1"
    and "forHard \<longrightarrow> (\<forall>j \<in> set (jobs (backend s)). j_createdBy j \<noteq> uid) \<and>
      (\<forall>i \<in> set (fieldIncidents (backend s)). fi_createdBy i \<noteq> uid) \<and>
      (\<forall>v \<in> set (vettingRecords (backend s)). vr_vettedByUserId v \<noteq> uid)"
proof -
  note blockers = assms [unfolded collectBlockers_def Let_def reads_def fst_conv sum.inject append_is_Nil_conv
      blocker_Nil countWhere_pos_iff]
  show "\<forall>j \<in> set (jobs (backend s)). j_createdBy j = uid \<longrightarrow> j_status j \<notin> set ACTIVE_JOB_STATUSES"
    using blockers by blast
  show "\<forall>g. guardianOfUser uid s = Some g \<longrightarrow> (\<forall>a \<in> set (assignments (backend s)).
      a_guardianId a = g_id g \<longrightarrow> a_status a \<notin> set ACTIVE_ASSIGNMENT_STATUSES)"
    using blockers by (auto simp: countWhere_pos_iff)
  show "SUPER_ADMIN \<in> set held \<longrightarrow>
      countWhere (\<lambda>u. SUPER_ADMIN \<in> set (u_roles u) \<and> u_status u \<noteq> U_DELETED) (users s) > 1"
    using blockers by linarith
  show "forHard \<longrightarrow> (\<forall>j \<in> set (jobs (backend s)). j_createdBy j \<noteq> uid) \<and>
      (\<forall>i \<in> set (fieldIncidents (backend s)). fi_createdBy i \<noteq> uid) \<and>
      (\<forall>v \<in> set (vettingRecords (backend s)). vr_vettedByUserId v \<noteq> uid)"
    using blockers by blast
qed

lemma openTokens_revoked:
  assumes "refreshTokens s' = updateMany (\<lambda>x. rt_userId x = uid \<and> rt_revokedAt x = None)
      (\<lambda>x. x\<lparr>rt_revokedAt := Some t\<rparr>) (refreshTokens s)"
  shows "openTokens uid s' = 0"
  by (auto simp: openTokens_def assms updateMany_def countWhere_def filter_empty_conv)

lemma accounts_isRevoked [account_rules]: "sameAccounts s (snd (isRefreshTokenRevoked jti s))"
  by (auto simp: isRefreshTokenRevoked_def sameAccounts_def split: option.split)

lemma accounts_revoke [account_rules]: "sameAccounts s (snd (revokeRefreshToken jti t s))"
  by (auto simp: revokeRefreshToken_def redis_revokeRefreshToken_def sameAccounts_def)

text \<open>A user whose row is deleted, or gone, is loaded for no token.\<close>

definition signedOff :: "id \<Rightarrow> site \<Rightarrow> bool" where
  "signedOff uid s \<longleftrightarrow> (\<forall>u. userOf uid s = Some u \<longrightarrow> u_status u = U_DELETED)"

lemma deleted_payload:
  "signedOff uid s \<Longrightarrow> loadAuthUserPayload uid org s = (Inr None, s)"
  by (cases "userOf uid s") (simp_all add: loadAuthUserPayload_def signedOff_def)

lemma signedOff_users: "signedOff uid s \<Longrightarrow> users t = users s \<Longrightarrow> signedOff uid t"
  by (simp add: signedOff_def userOf_def)

lemma deleted_cannot_validate:
  assumes "signedOff uid t" and "fst (jwt_validate E header t) = Inr x"
  shows "sub x \<noteq> uid"
proof -
  obtain c t' where c: "loadAuthUserPayload (claimsSub c) (preferredOrg c) t = (Inr (Some x), t')"
    using assms(2) by (auto simp: jwt_validate_def andThen_def orThrow_def split: option.splits prod.splits sum.splits)
  then have "claimsSub c = sub x"
    by (auto simp: loadAuthUserPayload_def userOf_def Let_def dest: findUnique_id split: option.splits if_splits)
  then show ?thesis
    using c deleted_payload [OF assms(1)] by auto
qed

lemma deleted_cannot_refresh:
  assumes "refreshTokensOf E tok t = (Inr pair, t')"
    and "signedOff uid t"
  obtains v jti fam where "verifyAsync E (JWT_REFRESH_SECRET E) (clock (backend t)) tok = Some (RefreshClaims v jti fam)"
    and "v \<noteq> uid"
proof -
  obtain v jti fam where c: "verifyAsync E (JWT_REFRESH_SECRET E) (clock (backend t)) tok = Some (RefreshClaims v jti fam)"
    using assms(1) by (auto simp: refreshTokensOf_def split: option.splits claims.splits)
  have "v \<noteq> uid"
  proof
    assume v: "v = uid"
    note run = assms(1) [unfolded refreshTokensOf_def andThen_siteNow c option.case claims.case v]
    obtain b t1 where t1: "isRefreshTokenRevoked jti t = (Inr b, t1)" and run: "andThen (ensure (\<not> b) (Unauthorized ''Refresh token revoked'')) (\<lambda>_.
         andThen (reads (tokenOf jti)) (\<lambda>found.
         andThen (orThrow found (Unauthorized ''Refresh token revoked'')) (\<lambda>stored.
         andThen (ensure (\<not> (rt_revokedAt stored \<noteq> None \<or> rt_expiresAt stored < clock (backend t)))
           (Unauthorized ''Refresh token revoked'')) (\<lambda>_.
         andThen (revokeRefreshToken jti (rt_expiresAt stored)) (\<lambda>_.
         andThen (loadAuthUserPayload uid None) (\<lambda>payload.
         andThen (orThrow payload (Unauthorized ''User not found'')) (\<lambda>p.
         issueTokens E p (Some (rt_familyId stored))))))))) t1 = (Inr pair, t')"
      using first_call [OF run] by blast
    have "users t1 = users t"
      using accounts_isRevoked [of t jti] t1 by (simp add: sameAccounts_def)
    note run = ensure_first(2) [OF run]
    obtain r where r: "tokenOf jti t1 = Some r"
      using run by (cases "tokenOf jti t1") simp_all
    note run = ensure_first(2) [OF run [simplified andThen_simps r orThrow_simps]]
    obtain n t2 where t2: "revokeRefreshToken jti (rt_expiresAt r) t1 = (Inr n, t2)" and
      run: "andThen (loadAuthUserPayload uid None) (\<lambda>payload.
         andThen (orThrow payload (Unauthorized ''User not found'')) (\<lambda>p.
         issueTokens E p (Some (rt_familyId r)))) t2 = (Inr pair, t')"
      using first_call [OF run] by blast
    have "users t2 = users t1"
      using accounts_revoke [of t1 jti "rt_expiresAt r"] t2 by (simp add: sameAccounts_def)
    then have "loadAuthUserPayload uid None t2 = (Inr None, t2)"
      using deleted_payload [OF signedOff_users [OF assms(2)]] \<open>users t1 = users t\<close> by simp
    then show False
      using run by (simp add: andThen_def)
  qed
  then show thesis
    using that c by blast
qed

text \<open>
  C39: a deleted user is out, whichever way it is deleted.  A soft deletion leaves its row, deleted,
  which the sign-in refuses; a hard deletion, possible only where the environment allows it and
  where no job, incident or vetting refers to the user, leaves no row.  Unless there was nothing
  left to delete, someone else deleted it, it had no active job, its guardian no active assignment,
  and it was not the last administrator; it keeps no open session, no notification, no password and
  no name.  As long as the users stay as the deletion left them, no token of any kind and no refresh
  lets it in again.
\<close>

theorem deleted_user_is_out:
  assumes "deleteUser E allowed uid actor mode s = (Inr r, s')"
  shows "\<exists>u. userOf uid s = Some u \<and>
    (mode = soft \<longrightarrow> (\<exists>u'. userOf uid s' = Some u' \<and> u_status u' = U_DELETED \<and>
      (u_status u \<noteq> U_DELETED \<longrightarrow> u_passwordHash u' = None \<and> u_fullName u' = None) \<and>
      (\<forall>t. assertUserCanSignIn u' t = (Inl (Forbidden ''ACCOUNT_DELETED''), t)))) \<and>
    (mode = hard \<longrightarrow> userOf uid s' = None \<and> isHardDeleteAllowed E allowed \<and>
      (\<forall>j \<in> set (jobs (backend s)). j_createdBy j \<noteq> uid) \<and>
      (\<forall>i \<in> set (fieldIncidents (backend s)). fi_createdBy i \<noteq> uid) \<and>
      (\<forall>v \<in> set (vettingRecords (backend s)). vr_vettedByUserId v \<noteq> uid)) \<and>
    (mode = hard \<or> u_status u \<noteq> U_DELETED \<longrightarrow> sub actor \<noteq> uid \<and> openTokens uid s' = 0 \<and>
      (\<forall>n \<in> set (notices s'). n_userId n \<noteq> uid) \<and>
      (\<forall>j \<in> set (jobs (backend s)). j_createdBy j = uid \<longrightarrow> j_status j \<notin> set ACTIVE_JOB_STATUSES) \<and>
      (\<forall>g. guardianOfUser uid s = Some g \<longrightarrow> (\<forall>a \<in> set (assignments (backend s)).
        a_guardianId a = g_id g \<longrightarrow> a_status a \<notin> set ACTIVE_ASSIGNMENT_STATUSES)) \<and>
      (SUPER_ADMIN \<in> set (u_roles u) \<longrightarrow>
        countWhere (\<lambda>v. SUPER_ADMIN \<in> set (u_roles v) \<and> u_status v \<noteq> U_DELETED) (users s) > 1)) \<and>
    (\<forall>t. users t = users s' \<longrightarrow>
      (\<forall>header x. fst (jwt_validate E header t) = Inr x \<longrightarrow> sub x \<noteq> uid) \<and>
      (\<forall>tok pair t'. refreshTokensOf E tok t = (Inr pair, t') \<longrightarrow>
        (\<exists>v jti fam. verifyAsync E (JWT_REFRESH_SECRET E) (clock (backend t)) tok =
           Some (RefreshClaims v jti fam) \<and> v \<noteq> uid)))"
proof -
  have out: "\<forall>t. users t = users s' \<longrightarrow>
      (\<forall>header x. fst (jwt_validate E header t) = Inr x \<longrightarrow> sub x \<noteq> uid) \<and>
      (\<forall>tok pair t'. refreshTokensOf E tok t = (Inr pair, t') \<longrightarrow>
        (\<exists>v jti fam. verifyAsync E (JWT_REFRESH_SECRET E) (clock (backend t)) tok =
           Some (RefreshClaims v jti fam) \<and> v \<noteq> uid))" if "signedOff uid s'"
    using that by (blast dest: signedOff_users deleted_cannot_validate elim: deleted_cannot_refresh)
  show ?thesis
    using assms
  proof (cases rule: deleteUser_effect)
    case (1 u)
    then show ?thesis
      using out by (simp add: signedOff_def assertUserCanSignIn_def)
  next
    case (2 u)
    have id: "u_id u = uid"
      using 2(2) by (auto simp: userOf_def dest: findUnique_id)
    note free = collectBlockers_empty [OF 2(5)]
    show ?thesis
    proof (cases mode)
      case hard
      note effect = hardDeleteUser_effect [OF 2(6) [unfolded hard if_P [OF refl]]]
      have gone: "userOf uid s' = None" "openTokens uid s' = 0" "\<forall>n \<in> set (notices s'). n_userId n \<noteq> uid"
        by (auto simp: userOf_def effect(1) findUnique_None_iff openTokens_def effect(2) effect(3) countWhere_0_iff)
      then have "signedOff uid s'"
        by (simp add: signedOff_def)
      show ?thesis
        using 2(1,2,4) gone out [OF \<open>signedOff uid s'\<close>] free
        unfolding hard by - (rule exI [of _ u], simp)
    next
      case soft
      note effect = softDeleteUser_effect [OF 2(6) [unfolded soft, simplified], unfolded id, OF 2(2)]
      have u': "userOf uid s' = Some (anonymized u)"
        using 2(2) id by (simp add: userOf_def effect(1) findUnique_updateMany anonymized_def)
      then have "signedOff uid s'"
        by (simp add: signedOff_def anonymized_def)
      have kept: "openTokens uid s' = 0" "\<forall>n \<in> set (notices s'). n_userId n \<noteq> uid"
        using openTokens_revoked [OF effect(2)] by (simp_all add: effect(3))
      have left: "\<exists>u'. userOf uid s' = Some u' \<and> u_status u' = U_DELETED \<and>
          (u_status u \<noteq> U_DELETED \<longrightarrow> u_passwordHash u' = None \<and> u_fullName u' = None) \<and>
          (\<forall>t. assertUserCanSignIn u' t = (Inl (Forbidden ''ACCOUNT_DELETED''), t))"
        using u' by (simp add: anonymized_def assertUserCanSignIn_def)
      show ?thesis
        using 2(2,4) kept left out [OF \<open>signedOff uid s'\<close>] free(1-3)
        unfolding soft by - (rule exI [of _ u], simp)
    qed
  qed
qed

definition operator :: actor where
  "operator = \<lparr>sub = 3, roles = [OPS_ADMIN], activeOrgId = None, orgId = None, organizationIds = [],
     actorGuardianId = None\<rparr>"

lemma deleted_user_is_out_witness:
  "\<exists>r s' u'. deleteUser glass False 1 operator soft office = (Inr r, s') \<and> dr_tokensRevoked r = 1 \<and>
     openTokens 1 office = 1 \<and> openTokens 1 s' = 0 \<and> userOf 1 s' = Some u' \<and>
     assertUserCanSignIn u' s' = (Inl (Forbidden ''ACCOUNT_DELETED''), s')"
proof -
  define s' where "s' = snd (deleteUser glass False 1 operator soft office)"
  define r where "r = \<lparr>dr_userId = 1, dr_mode = soft, dr_guardianId = None, dr_tokensRevoked = 1,
    dr_notificationsRemoved = 0\<rparr>"
  have "fst (deleteUser glass False 1 operator soft office) = Inr r"
    unfolding r_def by code_simp
  then have run: "deleteUser glass False 1 operator soft office = (Inr r, s')"
    by (simp add: s'_def prod_eq_iff)
  have "openTokens 1 office = 1" and active: "map_option u_status (userOf 1 office) = Some U_ACTIVE"
    by code_simp+
  moreover have "dr_tokensRevoked r = 1"
    by (simp add: r_def)
  ultimately show ?thesis
    using deleted_user_is_out [OF run] run by fastforce
qed

end
