(* ===== verification/Catalog.thy ===== *)
theory Catalog
  imports Identity
begin

text \<open>
  The master data of billing and payroll as the administration edits it: billing policies
  (\<open>admin/admin-billing-policies.service.ts\<close>), pay policies (\<open>admin/admin-pay-policies.service.ts\<close>),
  pricing rules (\<open>admin/admin-pricing.service.ts\<close>), the services (\<open>services/services.service.ts\<close>)
  and the booking settings (\<open>services/booking-settings.service.ts\<close>), the last two behind
  \<open>admin/admin-services.service.ts\<close>.  In an update a column that is not given keeps its value; a
  nullable column may be given as null, so its new value is an option of an option.
\<close>

text \<open>The columns of type \<open>Date\<close> keep the day.\<close>

definition toDate :: "instant \<Rightarrow> instant" where
  "toDate t = CURRENT_DATE t"

definition knownOrg :: "id option \<Rightarrow> sys \<Rightarrow> bool" where
  "knownOrg org s = (case org of None \<Rightarrow> True | Some x \<Rightarrow> orgOf x s \<noteq> None)"

section \<open>Billing policies\<close>

record billing_policy_dto =
  bd_priority :: "int option"
  bd_organizationId :: "id option option"
  bd_jobType :: "job_type option option"
  bd_model :: "billing_model option"
  bd_minimumHours :: "rat option"
  bd_prorationEnabled :: "bool option"
  bd_allowEarlyRelease :: "bool option"
  bd_earlyReleaseRequiresClientApproval :: "bool option"
  bd_autoApproveAfterMinutes :: "int option option"
  bd_validFrom :: "instant option"
  bd_validUntil :: "instant option option"

definition listBillingPolicies :: "billing_policy list op" where
  "listBillingPolicies = reads (\<lambda>s. orderByDesc bp_priority (billingPolicies s))"

text \<open>On creation the priority and the model are there, and a null is the same as nothing.\<close>

definition createBillingPolicy :: "int \<Rightarrow> billing_model \<Rightarrow> billing_policy_dto \<Rightarrow> id \<Rightarrow> billing_policy op" where
  "createBillingPolicy priority model dto actorUserId =
     andThen now (\<lambda>t.
     andThen (reads (knownOrg (given (bd_organizationId dto) None))) (\<lambda>known.
     andThen (ensure known (PrismaError ''P2003'')) (\<lambda>_.
     andThen freshId (\<lambda>pid.
     let row = \<lparr>bp_id = pid, bp_priority = priority,
           bp_organizationId = given (bd_organizationId dto) None,
           bp_jobType = given (bd_jobType dto) None,
           bp_validFrom = toDate (given (bd_validFrom dto) t),
           bp_validUntil = map_option toDate (given (bd_validUntil dto) None),
           bp_model = model, bp_minimumHours = given (bd_minimumHours dto) 2,
           bp_prorationEnabled = given (bd_prorationEnabled dto) True,
           bp_allowEarlyRelease = given (bd_allowEarlyRelease dto) False,
           bp_earlyReleaseRequiresClientApproval = given (bd_earlyReleaseRequiresClientApproval dto) True,
           bp_autoApproveAfterMinutes = given (bd_autoApproveAfterMinutes dto) None\<rparr>
     in andThen (writes (\<lambda>s. s\<lparr>billingPolicies := createRow row (billingPolicies s)\<rparr>)) (\<lambda>_.
        andThen (auditLog (Some actorUserId) ''BILLING_POLICY_CREATED'' pid) (\<lambda>_. ok row))))))"

definition updateBillingPolicy :: "id \<Rightarrow> billing_policy_dto \<Rightarrow> id \<Rightarrow> billing_policy op" where
  "updateBillingPolicy pid dto actorUserId =
     andThen (reads (\<lambda>s. findUnique bp_id pid (billingPolicies s))) (\<lambda>existing.
     andThen (orThrow existing (NotFound ''Billing policy not found'')) (\<lambda>old.
     andThen (reads (knownOrg (given (bd_organizationId dto) None))) (\<lambda>known.
     andThen (ensure known (PrismaError ''P2025'')) (\<lambda>_.
     let change = (\<lambda>p. p\<lparr>bp_priority := given (bd_priority dto) (bp_priority p),
           bp_organizationId := given (bd_organizationId dto) (bp_organizationId p),
           bp_jobType := given (bd_jobType dto) (bp_jobType p),
           bp_model := given (bd_model dto) (bp_model p),
           bp_minimumHours := given (bd_minimumHours dto) (bp_minimumHours p),
           bp_prorationEnabled := given (bd_prorationEnabled dto) (bp_prorationEnabled p),
           bp_allowEarlyRelease := given (bd_allowEarlyRelease dto) (bp_allowEarlyRelease p),
           bp_earlyReleaseRequiresClientApproval :=
             given (bd_earlyReleaseRequiresClientApproval dto) (bp_earlyReleaseRequiresClientApproval p),
           bp_autoApproveAfterMinutes := given (bd_autoApproveAfterMinutes dto) (bp_autoApproveAfterMinutes p),
           bp_validFrom := given (map_option toDate (bd_validFrom dto)) (bp_validFrom p),
           bp_validUntil := given (map_option (map_option toDate) (bd_validUntil dto)) (bp_validUntil p)\<rparr>)
     in andThen (writes (\<lambda>s. s\<lparr>billingPolicies :=
          updateMany (\<lambda>p. bp_id p = pid) change (billingPolicies s)\<rparr>)) (\<lambda>_.
        andThen (auditLog (Some actorUserId) ''BILLING_POLICY_UPDATED'' pid) (\<lambda>_. ok (change old)))))))"

section \<open>Pay policies\<close>

record pay_policy_dto =
  yd_priority :: "int option"
  yd_jobType :: "job_type option option"
  yd_employmentType :: "employment_type option option"
  yd_model :: "pay_model option"
  yd_minimumHours :: "rat option"
  yd_applyOnEarlyRelease :: "bool option"
  yd_validFrom :: "instant option"
  yd_validUntil :: "instant option option"

definition listPayPolicies :: "pay_policy list op" where
  "listPayPolicies = reads (\<lambda>s. orderByDesc pp_priority (payPolicies s))"

definition createPayPolicy :: "int \<Rightarrow> pay_model \<Rightarrow> pay_policy_dto \<Rightarrow> id \<Rightarrow> pay_policy op" where
  "createPayPolicy priority model dto actorUserId =
     andThen now (\<lambda>t. andThen freshId (\<lambda>pid.
     let row = \<lparr>pp_id = pid, pp_priority = priority, pp_jobType = given (yd_jobType dto) None,
           pp_employmentType = given (yd_employmentType dto) None,
           pp_validFrom = toDate (given (yd_validFrom dto) t),
           pp_validUntil = map_option toDate (given (yd_validUntil dto) None),
           pp_model = model, pp_minimumHours = given (yd_minimumHours dto) 1,
           pp_applyOnEarlyRelease = given (yd_applyOnEarlyRelease dto) True\<rparr>
     in andThen (writes (\<lambda>s. s\<lparr>payPolicies := createRow row (payPolicies s)\<rparr>)) (\<lambda>_.
        andThen (auditLog (Some actorUserId) ''PAY_POLICY_CREATED'' pid) (\<lambda>_. ok row))))"

definition updatePayPolicy :: "id \<Rightarrow> pay_policy_dto \<Rightarrow> id \<Rightarrow> pay_policy op" where
  "updatePayPolicy pid dto actorUserId =
     andThen (reads (\<lambda>s. findUnique pp_id pid (payPolicies s))) (\<lambda>existing.
     andThen (orThrow existing (NotFound ''Pay policy not found'')) (\<lambda>old.
     let change = (\<lambda>p. p\<lparr>pp_priority := given (yd_priority dto) (pp_priority p),
           pp_jobType := given (yd_jobType dto) (pp_jobType p),
           pp_employmentType := given (yd_employmentType dto) (pp_employmentType p),
           pp_model := given (yd_model dto) (pp_model p),
           pp_minimumHours := given (yd_minimumHours dto) (pp_minimumHours p),
           pp_applyOnEarlyRelease := given (yd_applyOnEarlyRelease dto) (pp_applyOnEarlyRelease p),
           pp_validFrom := given (map_option toDate (yd_validFrom dto)) (pp_validFrom p),
           pp_validUntil := given (map_option (map_option toDate) (yd_validUntil dto)) (pp_validUntil p)\<rparr>)
     in andThen (writes (\<lambda>s. s\<lparr>payPolicies :=
          updateMany (\<lambda>p. pp_id p = pid) change (payPolicies s)\<rparr>)) (\<lambda>_.
        andThen (auditLog (Some actorUserId) ''PAY_POLICY_UPDATED'' pid) (\<lambda>_. ok (change old)))))"

section \<open>Pricing rules\<close>

record pricing_rule_dto =
  qd_priority :: "int option"
  qd_organizationId :: "id option option"
  qd_district :: "string option option"
  qd_jobType :: "job_type option option"
  qd_pricingModel :: "pricing_model option"
  qd_hourlyRate :: "rat option option"
  qd_flatFee :: "rat option option"
  qd_validFrom :: "instant option"
  qd_validUntil :: "instant option option"
  qd_currency :: "string option"

definition listPricingRules :: "pricing_rule list op" where
  "listPricingRules = reads (\<lambda>s. orderByDesc pr_priority (pricingRules s))"

text \<open>
  The body of the request has dates and a currency too, but \<open>create\<close> does not pass them on: the
  rule is in force from today on, for ever, and in francs.
\<close>

definition createPricingRule :: "int \<Rightarrow> pricing_model \<Rightarrow> pricing_rule_dto \<Rightarrow> id \<Rightarrow> pricing_rule op" where
  "createPricingRule priority model dto actorUserId =
     andThen now (\<lambda>t.
     andThen (reads (knownOrg (given (qd_organizationId dto) None))) (\<lambda>known.
     andThen (ensure known (PrismaError ''P2003'')) (\<lambda>_.
     andThen freshId (\<lambda>pid.
     let row = \<lparr>pr_id = pid, pr_priority = priority,
           pr_organizationId = given (qd_organizationId dto) None,
           pr_district = given (qd_district dto) None, pr_jobType = given (qd_jobType dto) None,
           pr_validFrom = toDate t, pr_validUntil = None, pr_pricingModel = model,
           pr_hourlyRate = given (qd_hourlyRate dto) None, pr_flatFee = given (qd_flatFee dto) None,
           pr_currency = ''RWF''\<rparr>
     in andThen (writes (\<lambda>s. s\<lparr>pricingRules := createRow row (pricingRules s)\<rparr>)) (\<lambda>_. ok row)))))"

definition updatePricingRule :: "id \<Rightarrow> pricing_rule_dto \<Rightarrow> id \<Rightarrow> pricing_rule op" where
  "updatePricingRule pid dto actorUserId =
     andThen (reads (\<lambda>s. findUnique pr_id pid (pricingRules s))) (\<lambda>existing.
     andThen (orThrow existing (NotFound ''Pricing rule not found'')) (\<lambda>old.
     andThen (reads (knownOrg (given (qd_organizationId dto) None))) (\<lambda>known.
     andThen (ensure known (PrismaError ''P2003'')) (\<lambda>_.
     let change = (\<lambda>p. p\<lparr>pr_priority := given (qd_priority dto) (pr_priority p),
           pr_organizationId := given (qd_organizationId dto) (pr_organizationId p),
           pr_district := given (qd_district dto) (pr_district p),
           pr_jobType := given (qd_jobType dto) (pr_jobType p),
           pr_pricingModel := given (qd_pricingModel dto) (pr_pricingModel p),
           pr_hourlyRate := given (qd_hourlyRate dto) (pr_hourlyRate p),
           pr_flatFee := given (qd_flatFee dto) (pr_flatFee p),
           pr_validFrom := given (map_option toDate (qd_validFrom dto)) (pr_validFrom p),
           pr_validUntil := given (map_option (map_option toDate) (qd_validUntil dto)) (pr_validUntil p),
           pr_currency := given (qd_currency dto) (pr_currency p)\<rparr>)
     in andThen (writes (\<lambda>s. s\<lparr>pricingRules :=
          updateMany (\<lambda>p. pr_id p = pid) change (pricingRules s)\<rparr>)) (\<lambda>_. ok (change old))))))"

section \<open>Services\<close>

text \<open>\<open>orderBy: [{ sortOrder: 'asc' }, { name: 'asc' }]\<close>; names are compared by their codes.\<close>

definition inListingOrder :: "service_row list \<Rightarrow> service_row list" where
  "inListingOrder rows = orderByAsc sv_sortOrder (orderByAsc sv_name rows)"

definition listAllServices :: "service_row list op" where
  "listAllServices = reads (\<lambda>s. inListingOrder (services s))"

definition listActiveServices :: "service_row list op" where
  "listActiveServices = reads (\<lambda>s. inListingOrder (findMany sv_isActive (services s)))"

record service_dto =
  vd_name :: "string option"
  vd_description :: "string option"
  vd_hourlyRate :: "rat option"
  vd_isActive :: "bool option"
  vd_requiresLicense :: "bool option"
  vd_sortOrder :: "int option"

definition createService :: "job_type \<Rightarrow> string \<Rightarrow> rat \<Rightarrow> service_dto \<Rightarrow> id \<Rightarrow> service_row op" where
  "createService code name hourlyRate dto actorUserId =
     andThen (reads (\<lambda>s. findUnique sv_code code (services s))) (\<lambda>existing.
     andThen (ensure (existing = None) (Conflict ''Service already exists'')) (\<lambda>_.
     andThen freshId (\<lambda>sid.
     let row = \<lparr>sv_id = sid, sv_code = code, sv_name = name, sv_hourlyRate = hourlyRate,
           sv_currency = ''RWF'', sv_isActive = given (vd_isActive dto) True,
           sv_description = vd_description dto, sv_requiresLicense = given (vd_requiresLicense dto) False,
           sv_sortOrder = given (vd_sortOrder dto) 0\<rparr>
     in andThen (writes (\<lambda>s. s\<lparr>services := createRow row (services s)\<rparr>)) (\<lambda>_.
        andThen (auditLog (Some actorUserId) ''SERVICE_CREATED'' sid) (\<lambda>_. ok row)))))"

definition updateService :: "id \<Rightarrow> service_dto \<Rightarrow> id \<Rightarrow> service_row op" where
  "updateService sid dto actorUserId =
     andThen (reads (\<lambda>s. findUnique sv_id sid (services s))) (\<lambda>existing.
     andThen (orThrow existing (NotFound ''Service not found'')) (\<lambda>old.
     let change = (\<lambda>r. r\<lparr>sv_name := given (vd_name dto) (sv_name r),
           sv_description := (case vd_description dto of None \<Rightarrow> sv_description r | Some d \<Rightarrow> Some d),
           sv_hourlyRate := given (vd_hourlyRate dto) (sv_hourlyRate r),
           sv_isActive := given (vd_isActive dto) (sv_isActive r),
           sv_requiresLicense := given (vd_requiresLicense dto) (sv_requiresLicense r),
           sv_sortOrder := given (vd_sortOrder dto) (sv_sortOrder r)\<rparr>)
     in andThen (writes (\<lambda>s. s\<lparr>services := updateMany (\<lambda>r. sv_id r = sid) change (services s)\<rparr>)) (\<lambda>_.
        andThen (auditLog (Some actorUserId) ''SERVICE_UPDATED'' sid) (\<lambda>_. ok (change old)))))"

definition removeService :: "id \<Rightarrow> id \<Rightarrow> unit op" where
  "removeService sid actorUserId =
     andThen (reads (\<lambda>s. findUnique sv_id sid (services s))) (\<lambda>existing.
     andThen (orThrow existing (NotFound ''Service not found'')) (\<lambda>_.
     andThen (writes (\<lambda>s. s\<lparr>services := filter (\<lambda>r. sv_id r \<noteq> sid) (services s)\<rparr>)) (\<lambda>_.
     auditLog (Some actorUserId) ''SERVICE_DELETED'' sid)))"

section \<open>Booking settings\<close>

text \<open>There is one row, with a fixed identifier, which the first read creates.\<close>

definition BOOKING_SETTINGS_ID :: id where
  "BOOKING_SETTINGS_ID = 1"

record booking_settings_dto =
  sd_minimumBookingHours :: "rat option"
  sd_nightSurchargeMinPct :: "rat option"
  sd_nightSurchargeMaxPct :: "rat option"
  sd_holidaySurchargeMinPct :: "rat option"
  sd_holidaySurchargeMaxPct :: "rat option"
  sd_guardianSharePct :: "rat option"
  sd_platformSharePct :: "rat option"
  sd_gatewaySharePct :: "rat option"
  sd_reserveSharePct :: "rat option"
  sd_vatRate :: "rat option"

definition getRawSettings :: "booking_policy op" where
  "getRawSettings = reads booking"

definition updateSettings :: "booking_settings_dto \<Rightarrow> booking_policy op" where
  "updateSettings dto =
     andThen (writes (\<lambda>s. s\<lparr>booking := (booking s)\<lparr>
       minimumBookingHours := given (sd_minimumBookingHours dto) (minimumBookingHours (booking s)),
       nightSurchargeMinPct := given (sd_nightSurchargeMinPct dto) (nightSurchargeMinPct (booking s)),
       nightSurchargeMaxPct := given (sd_nightSurchargeMaxPct dto) (nightSurchargeMaxPct (booking s)),
       holidaySurchargeMinPct := given (sd_holidaySurchargeMinPct dto) (holidaySurchargeMinPct (booking s)),
       holidaySurchargeMaxPct := given (sd_holidaySurchargeMaxPct dto) (holidaySurchargeMaxPct (booking s)),
       guardianSharePct := given (sd_guardianSharePct dto) (guardianSharePct (booking s)),
       platformSharePct := given (sd_platformSharePct dto) (platformSharePct (booking s)),
       gatewaySharePct := given (sd_gatewaySharePct dto) (gatewaySharePct (booking s)),
       reserveSharePct := given (sd_reserveSharePct dto) (reserveSharePct (booking s)),
       vatRate := given (sd_vatRate dto) (vatRate (booking s))\<rparr>\<rparr>)) (\<lambda>_.
     reads booking)"

definition updateBookingSettings :: "booking_settings_dto \<Rightarrow> id \<Rightarrow> booking_policy op" where
  "updateBookingSettings dto actorUserId =
     andThen (updateSettings dto) (\<lambda>updated.
     andThen (auditLog (Some actorUserId) ''BOOKING_SETTINGS_UPDATED'' BOOKING_SETTINGS_ID) (\<lambda>_.
     ok updated))"

definition getMinimumChargeFromServices :: "rat option op" where
  "getMinimumChargeFromServices = reads (\<lambda>s.
     case orderByAsc sv_hourlyRate (findMany sv_isActive (services s)) of
       [] \<Rightarrow> None
     | lowest # _ \<Rightarrow> Some (sv_hourlyRate lowest * minimumBookingHours (booking s)))"

section \<open>What an edit does\<close>

text \<open>A service code stands for one service, whatever is created, edited or removed.\<close>

lemma updateMany_codes: "List.map sv_code (updateMany p change rows) = List.map sv_code rows"
  if "\<And>r. sv_code (change r) = sv_code r" for p change rows
  using that by (simp add: updateMany_def)

lemma service_codes_stay_distinct:
  assumes "distinct (List.map sv_code (services s))"
  shows "distinct (List.map sv_code (services (snd (createService code name rate dto who s)))) \<and>
    distinct (List.map sv_code (services (snd (updateService sid dto who s)))) \<and>
    distinct (List.map sv_code (services (snd (removeService sid who s))))"
proof (intro conjI)
  show "distinct (List.map sv_code (services (snd (createService code name rate dto who s))))"
    using assms
    by (cases "findUnique sv_code code (services s)")
      (auto simp: createService_def Let_def auditLog_def createRow_def findUnique_None_iff)
  show "distinct (List.map sv_code (services (snd (updateService sid dto who s))))"
    using assms
    by (cases "findUnique sv_id sid (services s)")
      (auto simp: updateService_def Let_def auditLog_def updateMany_codes)
  show "distinct (List.map sv_code (services (snd (removeService sid who s))))"
    using assms
    by (cases "findUnique sv_id sid (services s)")
      (auto simp: removeService_def auditLog_def distinct_map_filter)
qed

text \<open>A new rule ignores the dates and the currency it was given.\<close>

lemma new_pricing_rule_never_ends:
  assumes "createPricingRule priority model dto who s = (Inr row, s')"
  shows "pr_validUntil row = None \<and> pr_currency row = ''RWF'' \<and> pr_validFrom row = toDate (clock s) \<and>
    row \<in> set (pricingRules s')"
  using assms
  by (cases "knownOrg (given (qd_organizationId dto) None) s")
    (auto simp: createPricingRule_def Let_def createRow_def)

end
