(* ===== verification/Ledger_Watch.thy ===== *)
theory Ledger_Watch
  imports Tokens Payroll
begin

text \<open>
  The scan for billing anomalies and the reconciliation report (\<open>billing/billing-ops.service.ts\<close>,
  \<open>billing-ops.constants.ts\<close>, \<open>billing-ops-automation.service.ts\<close>).  The alerts are entries of the
  audit log whose action names the kind of alert; these actions are used for nothing else.
\<close>

section \<open>Settings\<close>

text \<open>\<open>Number.parseInt(raw, 10)\<close>: white space, a sign and the digits at the front; \<open>None\<close> is \<open>NaN\<close>.\<close>

definition parseInt10 :: "string \<Rightarrow> int option" where
  "parseInt10 raw =
     (let t = dropWhile (\<lambda>c. c \<in> set jsWhitespace) raw;
          negative = (take 1 t = ''-'');
          digits = takeWhile isDigit (if negative \<or> take 1 t = ''+'' then drop 1 t else t)
      in if digits = [] then None
         else Some (if negative then - parseNat digits 0 else parseNat digits 0))"

definition parsePositiveIntEnv :: "(string \<Rightarrow> string option) \<Rightarrow> string \<Rightarrow> int \<Rightarrow> int" where
  "parsePositiveIntEnv environment name fallback = (case environment name of
     None \<Rightarrow> fallback
   | Some raw \<Rightarrow> (case parseInt10 raw of None \<Rightarrow> fallback
       | Some n \<Rightarrow> if n > 0 then n else fallback))"

definition EARLY_COMPLETION_MINUTES :: "(string \<Rightarrow> string option) \<Rightarrow> int" where
  "EARLY_COMPLETION_MINUTES environment =
     parsePositiveIntEnv environment ''BILLING_OPS_EARLY_COMPLETION_MINUTES'' 30"

definition LATE_ARRIVAL_MINUTES :: "(string \<Rightarrow> string option) \<Rightarrow> int" where
  "LATE_ARRIVAL_MINUTES environment =
     parsePositiveIntEnv environment ''BILLING_OPS_LATE_ARRIVAL_MINUTES'' 15"

definition SCAN_LOOKBACK_HOURS :: "(string \<Rightarrow> string option) \<Rightarrow> int" where
  "SCAN_LOOKBACK_HOURS environment =
     parsePositiveIntEnv environment ''BILLING_OPS_SCAN_LOOKBACK_HOURS'' 24"

definition LOW_SAMPLE_THRESHOLD :: int where
  "LOW_SAMPLE_THRESHOLD = 20"

definition BILLING_ALERT_EARLY_COMPLETION :: string where
  "BILLING_ALERT_EARLY_COMPLETION = ''BILLING_ALERT_EARLY_COMPLETION''"

definition BILLING_ALERT_LATE_ARRIVAL :: string where
  "BILLING_ALERT_LATE_ARRIVAL = ''BILLING_ALERT_LATE_ARRIVAL''"

section \<open>Detection\<close>

text \<open>\<open>Math.round(ms / 60000)\<close>, which rounds halves up.\<close>

definition roundMinutes :: "int \<Rightarrow> int" where
  "roundMinutes ms = (ms + 30000) div 60000"

definition detectEarlyCompletion :: "(string \<Rightarrow> string option) \<Rightarrow> instant option \<Rightarrow> instant \<Rightarrow> int option" where
  "detectEarlyCompletion environment completedAt scheduledEnd = (case completedAt of
     None \<Rightarrow> None
   | Some t \<Rightarrow>
       let earlyByMs = scheduledEnd - t - EARLY_COMPLETION_MINUTES environment * 60000
       in if earlyByMs \<le> 0 then None else Some (roundMinutes earlyByMs))"

definition detectLateArrival :: "(string \<Rightarrow> string option) \<Rightarrow> instant option \<Rightarrow> instant \<Rightarrow> int option" where
  "detectLateArrival environment arrivedAt scheduledStart = (case arrivedAt of
     None \<Rightarrow> None
   | Some t \<Rightarrow>
       let lateByMs = t - scheduledStart - LATE_ARRIVAL_MINUTES environment * 60000
       in if lateByMs \<le> 0 then None else Some (roundMinutes lateByMs))"

section \<open>The scan\<close>

definition alerted :: "string \<Rightarrow> id \<Rightarrow> sys \<Rightarrow> bool" where
  "alerted action assignmentId s \<longleftrightarrow>
     findFirst (\<lambda>e. au_action e = action \<and> au_entityId e = assignmentId) (audits s) \<noteq> None"

definition recordAlertIfNew :: "string \<Rightarrow> id \<Rightarrow> bool op" where
  "recordAlertIfNew action assignmentId =
     andThen (reads (alerted action assignmentId)) (\<lambda>existing.
     if existing then ok False
     else andThen (auditLog None action assignmentId) (\<lambda>_. ok True))"

text \<open>The job of an assignment is there by the foreign key.\<close>

definition earlyOf :: "(string \<Rightarrow> string option) \<Rightarrow> sys \<Rightarrow> assignment \<Rightarrow> int option" where
  "earlyOf environment s a = Option.bind (jobOf (a_jobId a) s)
     (\<lambda>j. detectEarlyCompletion environment (a_completedAt a) (j_scheduledEnd j))"

definition lateOf :: "(string \<Rightarrow> string option) \<Rightarrow> sys \<Rightarrow> assignment \<Rightarrow> int option" where
  "lateOf environment s a = Option.bind (jobOf (a_jobId a) s)
     (\<lambda>j. detectLateArrival environment (a_arrivedAt a) (j_scheduledStart j))"

definition since :: "instant \<Rightarrow> instant option \<Rightarrow> bool" where
  "since start t = (case t of None \<Rightarrow> False | Some x \<Rightarrow> x \<ge> start)"

definition completedSince :: "instant \<Rightarrow> sys \<Rightarrow> assignment list" where
  "completedSince start s = findMany (\<lambda>a. a_status a = A_COMPLETED \<and> since start (a_completedAt a) \<and>
     a_arrivedAt a \<noteq> None) (assignments s)"

definition arrivedSince :: "instant \<Rightarrow> sys \<Rightarrow> assignment list" where
  "arrivedSince start s = findMany (\<lambda>a. since start (a_arrivedAt a)) (assignments s)"

definition scanOne :: "string \<Rightarrow> (sys \<Rightarrow> assignment \<Rightarrow> int option) \<Rightarrow> assignment \<Rightarrow> bool op" where
  "scanOne action detect a = andThen (reads (\<lambda>s. detect s a)) (\<lambda>detail.
     if detail = None then ok False else recordAlertIfNew action (a_id a))"

definition scanRows :: "string \<Rightarrow> (sys \<Rightarrow> assignment \<Rightarrow> int option) \<Rightarrow> assignment list \<Rightarrow> int op" where
  "scanRows action detect rows =
     andThen (forCollect rows (scanOne action detect)) (\<lambda>logged.
     ok (int (length (filter (\<lambda>b. b) logged))))"

text \<open>How many alerts of each kind were logged.\<close>

definition scanBillingAnomalies :: "(string \<Rightarrow> string option) \<Rightarrow> (int \<times> int) op" where
  "scanBillingAnomalies environment =
     andThen (reads (\<lambda>s. clock s - SCAN_LOOKBACK_HOURS environment * 60 * 60 * 1000)) (\<lambda>lookbackStart.
     andThen (reads (completedSince lookbackStart)) (\<lambda>completed.
     andThen (scanRows BILLING_ALERT_EARLY_COMPLETION (earlyOf environment) completed) (\<lambda>earlyCount.
     andThen (reads (arrivedSince lookbackStart)) (\<lambda>arrived.
     andThen (scanRows BILLING_ALERT_LATE_ARRIVAL (lateOf environment) arrived) (\<lambda>lateCount.
     ok (earlyCount, lateCount))))))"

text \<open>The timer drops a run that meets a running one, and swallows its errors.\<close>

definition runScan :: "(string \<Rightarrow> string option) \<Rightarrow> bool \<Rightarrow> unit op" where
  "runScan environment running = (if running then ok () else
     tryCatch (andThen (scanBillingAnomalies environment) (\<lambda>_. ok ())) (\<lambda>_. ok ()))"

section \<open>The reconciliation report\<close>

record reconciliation_filters =
  rf_from :: instant
  rf_to :: instant
  rf_organizationId :: "id option"
  rf_guardianId :: "id option"

record reconciliation_row =
  rr_assignmentId :: id
  rr_jobId :: id
  rr_jobReference :: string
  rr_organizationId :: id
  rr_guardianId :: id
  rr_scheduledStart :: instant
  rr_scheduledEnd :: instant
  rr_arrivedAt :: "instant option"
  rr_completedAt :: "instant option"
  rr_scheduledHours :: rat
  rr_actualHours :: "rat option"
  rr_billableHours :: "rat option"
  rr_billingBasis :: "string option"
  rr_payableHours :: "rat option"
  rr_payBasis :: "string option"
  rr_guardianPayAmount :: "rat option"
  rr_invoiceStatus :: "invoice_status option"
  rr_invoiceTotal :: "rat option"
  rr_earlyReleaseMinutes :: "int option"
  rr_lateArrivalMinutes :: "int option"

text \<open>What an assignment without an earning would pay.\<close>

definition expectedPay :: "job \<Rightarrow> assignment \<Rightarrow> sys \<Rightarrow> (rat \<times> string \<times> rat option) option" where
  "expectedPay j a s = (case (a_arrivedAt a, a_completedAt a) of
     (Some arrivedAt, Some completedAt) \<Rightarrow>
       let duration = computePayableDuration
             (case a_payPolicyModel a of None \<Rightarrow> PM_MINIMUM_GUARANTEED | Some m \<Rightarrow> m)
             (case a_payMinimumHours a of None \<Rightarrow> GUARDIAN_PAY_MINIMUM_HOURS_FALLBACK (config s) | Some h \<Rightarrow> h)
             (j_scheduledStart j) (j_scheduledEnd j) arrivedAt completedAt
             (isEarlyReleaseApproved (a_earlyReleaseResolution a))
             (case a_payApplyOnEarlyRelease a of None \<Rightarrow> True | Some b \<Rightarrow> b);
           rate = (case a_hourlyPayRateAtCommit a of Some r \<Rightarrow> Some r
             | None \<Rightarrow> Option.bind (guardianOf (a_guardianId a) s) g_hourlyPayRate)
       in Some (pd_payableHours duration, pd_payBasis duration,
            map_option (\<lambda>r. toFixed 2 (pd_payableHours duration * r)) rate)
   | _ \<Rightarrow> None)"

definition reconcile :: "(string \<Rightarrow> string option) \<Rightarrow> sys \<Rightarrow> job \<Rightarrow> assignment \<Rightarrow> reconciliation_row" where
  "reconcile environment s j a =
     (let invoice = invoiceOfJob (j_id j) s;
          earning = findUnique e_assignmentId (a_id a) (earnings s);
          actualHours = (case (a_arrivedAt a, a_completedAt a) of
              (Some x, Some y) \<Rightarrow> Some (hoursBetween x y) | _ \<Rightarrow> None);
          expected = (if earning = None then expectedPay j a s else None)
      in \<lparr>rr_assignmentId = a_id a, rr_jobId = j_id j, rr_jobReference = j_referenceNumber j,
          rr_organizationId = j_organizationId j, rr_guardianId = a_guardianId a,
          rr_scheduledStart = j_scheduledStart j, rr_scheduledEnd = j_scheduledEnd j,
          rr_arrivedAt = a_arrivedAt a, rr_completedAt = a_completedAt a,
          rr_scheduledHours = hoursBetween (j_scheduledStart j) (j_scheduledEnd j),
          rr_actualHours = actualHours,
          rr_billableHours = (case Option.bind invoice i_billableHours of None \<Rightarrow> actualHours | Some h \<Rightarrow> Some h),
          rr_billingBasis = Option.bind invoice i_billingBasis,
          rr_payableHours = (case earning of Some e \<Rightarrow> Some (e_payableHours e)
            | None \<Rightarrow> map_option fst expected),
          rr_payBasis = (case earning of Some e \<Rightarrow> Some (e_payBasis e)
            | None \<Rightarrow> map_option (\<lambda>x. fst (snd x)) expected),
          rr_guardianPayAmount = (case earning of Some e \<Rightarrow> Some (e_amount e)
            | None \<Rightarrow> Option.bind expected (\<lambda>x. snd (snd x))),
          rr_invoiceStatus = map_option i_status invoice, rr_invoiceTotal = map_option i_total invoice,
          rr_earlyReleaseMinutes = detectEarlyCompletion environment (a_completedAt a) (j_scheduledEnd j),
          rr_lateArrivalMinutes = detectLateArrival environment (a_arrivedAt a) (j_scheduledStart j)\<rparr>)"

record reconciliation_summary =
  rs_jobCount :: int
  rs_earlyCompletionCount :: int
  rs_lateArrivalCount :: int
  rs_totalScheduledHours :: rat
  rs_totalActualHours :: rat
  rs_totalBillableHours :: rat
  rs_totalPayableHours :: rat
  rs_lowSampleSize :: bool

definition orZero :: "rat option \<Rightarrow> rat" where
  "orZero x = (case x of None \<Rightarrow> 0 | Some h \<Rightarrow> h)"

definition reconciliationSummary :: "reconciliation_row list \<Rightarrow> reconciliation_summary" where
  "reconciliationSummary items = \<lparr>rs_jobCount = int (length items),
     rs_earlyCompletionCount = countWhere (\<lambda>r. rr_earlyReleaseMinutes r \<noteq> None) items,
     rs_lateArrivalCount = countWhere (\<lambda>r. rr_lateArrivalMinutes r \<noteq> None) items,
     rs_totalScheduledHours = sum_list (List.map rr_scheduledHours items),
     rs_totalActualHours = sum_list (List.map (\<lambda>r. orZero (rr_actualHours r)) items),
     rs_totalBillableHours = sum_list (List.map (\<lambda>r. orZero (rr_billableHours r)) items),
     rs_totalPayableHours = sum_list (List.map (\<lambda>r. orZero (rr_payableHours r)) items),
     rs_lowSampleSize = (int (length items) < LOW_SAMPLE_THRESHOLD)\<rparr>"

definition reconcilable :: "reconciliation_filters \<Rightarrow> sys \<Rightarrow> assignment \<Rightarrow> bool" where
  "reconcilable filters s a \<longleftrightarrow> a_status a = A_COMPLETED \<and>
     (case a_completedAt a of None \<Rightarrow> False | Some t \<Rightarrow> rf_from filters \<le> t \<and> t \<le> rf_to filters) \<and>
     (case rf_organizationId filters of None \<Rightarrow> True
      | Some org \<Rightarrow> map_option j_organizationId (jobOf (a_jobId a) s) = Some org) \<and>
     (case rf_guardianId filters of None \<Rightarrow> True | Some gid \<Rightarrow> a_guardianId a = gid)"

definition getReconciliation :: "(string \<Rightarrow> string option) \<Rightarrow> reconciliation_filters \<Rightarrow>
    (reconciliation_row list \<times> reconciliation_summary) op" where
  "getReconciliation environment filters =
     andThen (ensure (\<not> rf_from filters > rf_to filters) (BadRequest ''from must be before to'')) (\<lambda>_.
     reads (\<lambda>s.
       let rows = orderByDesc (\<lambda>a. case a_completedAt a of None \<Rightarrow> 0 | Some t \<Rightarrow> t)
             (findMany (reconcilable filters s) (assignments s));
           items = List.map_filter (\<lambda>a. map_option (\<lambda>j. reconcile environment s j a) (jobOf (a_jobId a) s)) rows
       in (items, reconciliationSummary items)))"

section \<open>Every anomaly is alerted once\<close>

definition withAlert :: "string \<Rightarrow> id \<Rightarrow> sys \<Rightarrow> sys" where
  "withAlert action y s = s\<lparr>audits := audits s @
     [\<lparr>au_actorUserId = None, au_action = action, au_entityId = y\<rparr>]\<rparr>"

lemma recordAlertIfNew_apply:
  "recordAlertIfNew action y s =
     (if alerted action y s then (Inr False, s) else (Inr True, withAlert action y s))"
  by (simp add: recordAlertIfNew_def auditLog_def createRow_def withAlert_def)

lemma alerted_iff: "alerted action y s \<longleftrightarrow> (\<exists>e \<in> set (audits s). au_action e = action \<and> au_entityId e = y)"
  by (auto simp: alerted_def findFirst_None_iff simp del: not_None_eq)

lemma alerted_withAlert: "alerted action' z (withAlert action y s) \<longleftrightarrow>
    alerted action' z s \<or> (action' = action \<and> z = y)"
  by (auto simp: alerted_iff withAlert_def)

text \<open>A scan reads the jobs and writes the audit log.\<close>

definition scanned :: "sys \<Rightarrow> sys \<Rightarrow> bool" where
  "scanned s s' \<longleftrightarrow> (\<exists>extra. s' = s\<lparr>audits := audits s @ extra\<rparr>)"

lemma scanned_refl: "scanned s s"
  unfolding scanned_def by (rule exI [of _ "[]"]) simp

lemma scanned_trans: "scanned s t \<Longrightarrow> scanned t u \<Longrightarrow> scanned s u"
  unfolding scanned_def by auto

interpretation scanned: state_preorder scanned
  by standard (fact scanned_refl, fact scanned_trans)

lemma scanned_withAlert: "scanned s (withAlert action y s)"
  by (auto simp: scanned_def withAlert_def)

definition readsNoAudits :: "(sys \<Rightarrow> assignment \<Rightarrow> 'a) \<Rightarrow> bool" where
  "readsNoAudits f \<longleftrightarrow> (\<forall>s rows. f (s\<lparr>audits := rows\<rparr>) = f s)"

lemma readsNoAudits_scanned: "readsNoAudits f \<Longrightarrow> scanned s s' \<Longrightarrow> f s' = f s"
  by (auto simp: readsNoAudits_def scanned_def)

lemma readsNoAudits_detect: "readsNoAudits (earlyOf environment)" "readsNoAudits (lateOf environment)"
  by (simp_all add: readsNoAudits_def earlyOf_def lateOf_def jobOf_def fun_eq_iff)

lemma scan_loop:
  assumes "readsNoAudits detect"
  shows "\<exists>logged s'. forCollect rows (scanOne action detect) s = (Inr logged, s') \<and> scanned s s' \<and>
    length (audits s') = length (audits s) + length (filter (\<lambda>b. b) logged) \<and>
    ((\<forall>y. (\<exists>a \<in> set rows. a_id a = y \<and> detect s a \<noteq> None) \<longrightarrow> alerted action y s) \<longrightarrow> filter (\<lambda>b. b) logged = []) \<and>
    (\<forall>action' y. alerted action' y s' \<longleftrightarrow> alerted action' y s \<or>
       (action' = action \<and> (\<exists>a \<in> set rows. a_id a = y \<and> detect s a \<noteq> None)))"
proof (induction rows arbitrary: s)
  case Nil
  show ?case
    by (simp add: scanned_refl)
next
  case (Cons a rows)
  define fresh where "fresh \<longleftrightarrow> detect s a \<noteq> None \<and> \<not> alerted action (a_id a) s"
  define s1 where "s1 = (if fresh then withAlert action (a_id a) s else s)"
  have first: "scanOne action detect a s = (Inr fresh, s1)"
    by (simp add: scanOne_def recordAlertIfNew_apply fresh_def s1_def)
  have s1: "scanned s s1" "length (audits s1) = length (audits s) + (if fresh then 1 else 0)"
    by (simp_all add: s1_def scanned_refl scanned_withAlert) (simp add: withAlert_def)
  have marks: "alerted action' y s1 \<longleftrightarrow> alerted action' y s \<or>
      (action' = action \<and> a_id a = y \<and> detect s a \<noteq> None)" for action' y
    by (auto simp: s1_def fresh_def alerted_withAlert)
  obtain logged s2 where rest: "forCollect rows (scanOne action detect) s1 = (Inr logged, s2)" "scanned s1 s2"
    "length (audits s2) = length (audits s1) + length (filter (\<lambda>b. b) logged)"
    "(\<forall>y. (\<exists>a \<in> set rows. a_id a = y \<and> detect s1 a \<noteq> None) \<longrightarrow> alerted action y s1) \<Longrightarrow> filter (\<lambda>b. b) logged = []"
    "\<And>action' y. alerted action' y s2 \<longleftrightarrow> alerted action' y s1 \<or>
       (action' = action \<and> (\<exists>a \<in> set rows. a_id a = y \<and> detect s1 a \<noteq> None))"
    using Cons.IH [of s1] by blast
  have "forCollect (a # rows) (scanOne action detect) s = (Inr (fresh # logged), s2)"
    by (simp add: andThen_def first rest(1))
  moreover have same: "detect s1 = detect s"
    using readsNoAudits_scanned [OF assms(1) s1(1)] .
  moreover have "filter (\<lambda>b. b) (fresh # logged) = []"
    if known: "\<forall>y. (\<exists>x \<in> set (a # rows). a_id x = y \<and> detect s x \<noteq> None) \<longrightarrow> alerted action y s"
  proof -
    have "\<not> fresh"
      using known by (auto simp: fresh_def simp del: not_None_eq)
    moreover have "\<forall>y. (\<exists>x \<in> set rows. a_id x = y \<and> detect s x \<noteq> None) \<longrightarrow> alerted action y s"
      using known by (simp del: not_None_eq)
    ultimately show ?thesis
      using rest(4) by (simp add: s1_def)
  qed
  ultimately show ?case
    using scanned_trans [OF s1(1) rest(2)] s1(2) rest(3,5) marks by auto
qed

lemma scanRows_effect:
  assumes "readsNoAudits detect"
  obtains n s' where "scanRows action detect rows s = (Inr n, s')" "scanned s s'"
    "int (length (audits s')) = int (length (audits s)) + n" "n \<ge> 0"
    "(\<forall>y. (\<exists>a \<in> set rows. a_id a = y \<and> detect s a \<noteq> None) \<longrightarrow> alerted action y s) \<Longrightarrow> n = 0"
    "\<And>action' y. alerted action' y s' \<longleftrightarrow> alerted action' y s \<or>
       (action' = action \<and> (\<exists>a \<in> set rows. a_id a = y \<and> detect s a \<noteq> None))"
  using scan_loop [OF assms, of rows action s] that
  unfolding scanRows_def by (fastforce simp: andThen_def)

text \<open>What the two rules are about, over the rows of the database.\<close>

definition completedEarly :: "(string \<Rightarrow> string option) \<Rightarrow> sys \<Rightarrow> id \<Rightarrow> bool" where
  "completedEarly environment s y \<longleftrightarrow> (\<exists>a j t. a \<in> set (assignments s) \<and> a_id a = y \<and>
     a_status a = A_COMPLETED \<and> a_arrivedAt a \<noteq> None \<and> a_completedAt a = Some t \<and>
     t \<ge> clock s - SCAN_LOOKBACK_HOURS environment * 3600000 \<and> jobOf (a_jobId a) s = Some j \<and>
     t + EARLY_COMPLETION_MINUTES environment * 60000 < j_scheduledEnd j)"

definition arrivedLate :: "(string \<Rightarrow> string option) \<Rightarrow> sys \<Rightarrow> id \<Rightarrow> bool" where
  "arrivedLate environment s y \<longleftrightarrow> (\<exists>a j t. a \<in> set (assignments s) \<and> a_id a = y \<and>
     a_arrivedAt a = Some t \<and> t \<ge> clock s - SCAN_LOOKBACK_HOURS environment * 3600000 \<and>
     jobOf (a_jobId a) s = Some j \<and>
     j_scheduledStart j + LATE_ARRIVAL_MINUTES environment * 60000 < t)"

lemma earlyOf_iff: "earlyOf environment s a \<noteq> None \<longleftrightarrow> (\<exists>t j. a_completedAt a = Some t \<and>
    jobOf (a_jobId a) s = Some j \<and> t + EARLY_COMPLETION_MINUTES environment * 60000 < j_scheduledEnd j)"
  by (cases "a_completedAt a"; cases "jobOf (a_jobId a) s")
    (auto simp: earlyOf_def detectEarlyCompletion_def Let_def)

lemma lateOf_iff: "lateOf environment s a \<noteq> None \<longleftrightarrow> (\<exists>t j. a_arrivedAt a = Some t \<and>
    jobOf (a_jobId a) s = Some j \<and> j_scheduledStart j + LATE_ARRIVAL_MINUTES environment * 60000 < t)"
  by (cases "a_arrivedAt a"; cases "jobOf (a_jobId a) s")
    (auto simp: lateOf_def detectLateArrival_def Let_def)

lemma since_iff: "since start t \<longleftrightarrow> (\<exists>x. t = Some x \<and> x \<ge> start)"
  by (cases t) (simp_all add: since_def)

lemma detected_early:
  "(\<exists>a \<in> set (completedSince (clock s - SCAN_LOOKBACK_HOURS environment * 60 * 60 * 1000) s).
      a_id a = y \<and> earlyOf environment s a \<noteq> None) \<longleftrightarrow> completedEarly environment s y"
  unfolding earlyOf_iff completedEarly_def completedSince_def findMany_def set_filter since_iff
  by (simp add: mult.assoc, intro ex_cong1, auto)

lemma detected_late:
  "(\<exists>a \<in> set (arrivedSince (clock s - SCAN_LOOKBACK_HOURS environment * 60 * 60 * 1000) s).
      a_id a = y \<and> lateOf environment s a \<noteq> None) \<longleftrightarrow> arrivedLate environment s y"
  unfolding lateOf_iff arrivedLate_def arrivedSince_def findMany_def set_filter since_iff
  by (simp add: mult.assoc, intro ex_cong1, auto)

lemma scan_effect:
  obtains early late s' where "scanBillingAnomalies environment s = (Inr (early, late), s')" "scanned s s'"
    "int (length (audits s')) = int (length (audits s)) + early + late" "early \<ge> 0" "late \<ge> 0"
    "(\<forall>y. completedEarly environment s y \<longrightarrow> alerted BILLING_ALERT_EARLY_COMPLETION y s) \<Longrightarrow> early = 0"
    "(\<forall>y. arrivedLate environment s y \<longrightarrow> alerted BILLING_ALERT_LATE_ARRIVAL y s) \<Longrightarrow> late = 0"
    "\<And>action y. alerted action y s' \<longleftrightarrow> alerted action y s \<or>
       (action = BILLING_ALERT_EARLY_COMPLETION \<and> completedEarly environment s y) \<or>
       (action = BILLING_ALERT_LATE_ARRIVAL \<and> arrivedLate environment s y)"
proof -
  define start where "start = clock s - SCAN_LOOKBACK_HOURS environment * 60 * 60 * 1000"
  obtain early s1 where first: "scanRows BILLING_ALERT_EARLY_COMPLETION (earlyOf environment) (completedSince start s) s
      = (Inr early, s1)" "scanned s s1" "int (length (audits s1)) = int (length (audits s)) + early" "early \<ge> 0"
    "(\<forall>y. completedEarly environment s y \<longrightarrow> alerted BILLING_ALERT_EARLY_COMPLETION y s) \<Longrightarrow> early = 0"
    "\<And>action y. alerted action y s1 \<longleftrightarrow> alerted action y s \<or>
       (action = BILLING_ALERT_EARLY_COMPLETION \<and> completedEarly environment s y)"
    using scanRows_effect [OF readsNoAudits_detect(1), of BILLING_ALERT_EARLY_COMPLETION environment
        "completedSince start s" s]
    unfolding start_def detected_early by blast
  have same: "lateOf environment s1 = lateOf environment s" "arrivedSince start s1 = arrivedSince start s"
    using readsNoAudits_scanned [OF readsNoAudits_detect(2) first(2)] first(2)
    by (auto simp: scanned_def arrivedSince_def)
  obtain late s2 where second: "scanRows BILLING_ALERT_LATE_ARRIVAL (lateOf environment) (arrivedSince start s) s1
      = (Inr late, s2)" "scanned s1 s2" "int (length (audits s2)) = int (length (audits s1)) + late" "late \<ge> 0"
    "(\<forall>y. arrivedLate environment s y \<longrightarrow> alerted BILLING_ALERT_LATE_ARRIVAL y s1) \<Longrightarrow> late = 0"
    "\<And>action y. alerted action y s2 \<longleftrightarrow> alerted action y s1 \<or>
       (action = BILLING_ALERT_LATE_ARRIVAL \<and> arrivedLate environment s y)"
    using scanRows_effect [OF readsNoAudits_detect(2), of BILLING_ALERT_LATE_ARRIVAL environment
        "arrivedSince start s" s1]
    unfolding same start_def detected_late by blast
  have "scanBillingAnomalies environment s = (Inr (early, late), s2)"
    unfolding scanBillingAnomalies_def
    by (simp only: andThen_simps start_def [symmetric] andThen_Inr [where m = "scanRows a d r" for a d r,
          OF first(1)] andThen_Inr [where m = "scanRows a d r" for a d r, OF second(1)] same)
      simp
  then show thesis
    using scanned_trans [OF first(2) second(2)] first(3-6) second(3-6)
    by (intro that [of early late s2]) auto
qed

lemma scanned_reads:
  assumes "scanned s s'"
  shows "completedEarly environment s' y = completedEarly environment s y"
    and "arrivedLate environment s' y = arrivedLate environment s y"
  using assms by (auto simp: scanned_def completedEarly_def arrivedLate_def jobOf_def)

text \<open>
  C40: the scan never fails, alerts exactly the assignments that ended too early or began too late
  within the window it looks back on, one entry of the audit log each, and nothing that was alerted
  before: a second scan at the same instant finds nothing to do.
\<close>

theorem scan_alerts_once:
  "\<exists>early late s'. scanBillingAnomalies environment s = (Inr (early, late), s') \<and> scanned s s' \<and>
     int (length (audits s')) = int (length (audits s)) + early + late \<and>
     (\<forall>action y. alerted action y s' \<longleftrightarrow> alerted action y s \<or>
       (action = BILLING_ALERT_EARLY_COMPLETION \<and> completedEarly environment s y) \<or>
       (action = BILLING_ALERT_LATE_ARRIVAL \<and> arrivedLate environment s y)) \<and>
     scanBillingAnomalies environment s' = (Inr (0, 0), s')"
proof -
  obtain early late s' where first: "scanBillingAnomalies environment s = (Inr (early, late), s')" "scanned s s'"
    "int (length (audits s')) = int (length (audits s)) + early + late"
    "\<And>action y. alerted action y s' \<longleftrightarrow> alerted action y s \<or>
       (action = BILLING_ALERT_EARLY_COMPLETION \<and> completedEarly environment s y) \<or>
       (action = BILLING_ALERT_LATE_ARRIVAL \<and> arrivedLate environment s y)"
    by (rule scan_effect [of environment s]) blast
  obtain early' late' s'' where second: "scanBillingAnomalies environment s' = (Inr (early', late'), s'')"
    "scanned s' s''" "int (length (audits s'')) = int (length (audits s')) + early' + late'"
    "(\<forall>y. completedEarly environment s' y \<longrightarrow> alerted BILLING_ALERT_EARLY_COMPLETION y s') \<Longrightarrow> early' = 0"
    "(\<forall>y. arrivedLate environment s' y \<longrightarrow> alerted BILLING_ALERT_LATE_ARRIVAL y s') \<Longrightarrow> late' = 0"
    by (rule scan_effect [of environment s']) blast
  have none: "early' = 0" "late' = 0"
    using second(4,5) first(4) scanned_reads [OF first(2)] by blast+
  then have "s'' = s'"
    using second(2,3) by (auto simp: scanned_def)
  then show ?thesis
    using first second(1) none by blast
qed

end
