(* ===== verification/Routes.thy ===== *)
theory Routes
  imports Access
begin

text \<open>
  The HTTP surface: what the decorators of the controllers say of every endpoint, how a request
  finds its endpoint, and the permissions that the roles are seeded with
  (\<open>prisma/seed/permissions.ts\<close>).  An endpoint names the service method it calls.
\<close>

section \<open>Endpoints\<close>

datatype verb = GET | POST | PATCH | DELETE

datatype segment = Literal string | Param string

record endpoint =
  ep_verb :: verb
  ep_path :: "segment list"
  ep_public :: bool
  ep_permissions :: "string list"
  ep_orgScope :: bool
  ep_handler :: string

text \<open>The parts of a path between its slashes; none for the empty path.\<close>

fun splitPath :: "string \<Rightarrow> string list" where
  "splitPath [] = []"
| "splitPath (c # cs) =
     (if c = CHR ''/'' then [] # (case splitPath cs of [] \<Rightarrow> [[]] | ps \<Rightarrow> ps)
      else case splitPath cs of [] \<Rightarrow> [[c]]
        | p # ps \<Rightarrow> (c # p) # ps)"

definition toSegment :: "string \<Rightarrow> segment" where
  "toSegment part = (if take 1 part = '':'' then Param (drop 1 part) else Literal part)"

text \<open>\<open>@Public()\<close>, \<open>@RequirePermissions\<close> with one permission, \<open>@OrgScope('id')\<close> and no decorator.\<close>

definition open_to_all :: "verb \<Rightarrow> string \<Rightarrow> string \<Rightarrow> endpoint" where
  "open_to_all v path target = \<lparr>ep_verb = v, ep_path = List.map toSegment (splitPath path),
     ep_public = True, ep_permissions = [], ep_orgScope = False, ep_handler = target\<rparr>"

definition signed_in :: "verb \<Rightarrow> string \<Rightarrow> string \<Rightarrow> endpoint" where
  "signed_in v path target = (open_to_all v path target)\<lparr>ep_public := False\<rparr>"

definition needs :: "string \<Rightarrow> verb \<Rightarrow> string \<Rightarrow> string \<Rightarrow> endpoint" where
  "needs permission v path target = (signed_in v path target)\<lparr>ep_permissions := [permission]\<rparr>"

definition org_scoped :: "endpoint \<Rightarrow> endpoint" where
  "org_scoped e = e\<lparr>ep_orgScope := True\<rparr>"

text \<open>\<open>@Controller(base)\<close>.\<close>

definition controller :: "string \<Rightarrow> endpoint list \<Rightarrow> endpoint list" where
  "controller base = List.map (\<lambda>e. e\<lparr>ep_path := Literal base # ep_path e\<rparr>)"

section \<open>Administration\<close>

definition replacementEndpoints :: "endpoint list" where
  "replacementEndpoints =
    [needs ''admin:assignments:replacement'' GET ''assignments/replacement-requests'' ''replacement.listPendingRequests'',
     needs ''admin:assignments:replacement'' POST ''assignments/:id/replacement/approve'' ''replacement.approve'',
     needs ''admin:assignments:replacement'' POST ''assignments/:id/replacement/deny'' ''replacement.deny'',
     needs ''admin:assignments:replacement'' POST ''jobs/:id/replacement/resume-dispatch'' ''replacement.resumeDispatch'',
     needs ''admin:analytics:read'' GET ''jobs/:id/dispatch-debug'' ''dispatching.getDispatchDebug'']"

definition userEndpoints :: "endpoint list" where
  "userEndpoints =
    [needs ''admin:users:delete'' GET ''users/:id/delete-preview'' ''users.previewDelete'',
     needs ''admin:users:delete'' DELETE ''users/:id'' ''users.deleteUser'',
     needs ''admin:users:delete'' POST ''users/bulk-delete'' ''users.bulkDeleteByEmail'']"

definition mapEndpoints :: "endpoint list" where
  "mapEndpoints =
    [needs ''admin:guardians:read'' GET ''map/guardians'' ''map.listGuardianMarkers'',
     needs ''organizations:read'' GET ''map/sites'' ''map.listSiteMarkers'']"

definition guardianAdminEndpoints :: "endpoint list" where
  "guardianAdminEndpoints =
    [needs ''admin:guardians:write'' POST ''guardians'' ''guardians.create'',
     needs ''admin:guardians:read'' GET ''guardians'' ''guardians.list'',
     needs ''admin:guardians:read'' GET ''guardians/:id'' ''guardians.getOne'',
     needs ''admin:guardians:read'' GET ''guardians/:id/certifications'' ''guardians.listCertificationsForGuardian'',
     needs ''admin:guardians:read'' GET ''guardians/:id/location/history'' ''guardianLocation.getHistory'',
     needs ''admin:guardians:read'' GET ''guardians/:id/location'' ''guardianLocation.getCurrent'',
     needs ''admin:guardians:write'' PATCH ''guardians/:id'' ''guardians.update'',
     needs ''admin:guardians:write'' POST ''guardians/:id/vetting'' ''guardians.upsertVetting'',
     needs ''admin:guardians:write'' POST ''guardians/:id/certifications'' ''guardians.addCertification'',
     needs ''admin:guardians:read'' GET ''certifications/:id'' ''guardians.getCertificationById'',
     needs ''admin:guardians:activate'' POST ''guardians/:id/activate'' ''guardians.activate'',
     needs ''admin:guardians:suspend'' POST ''guardians/:id/suspend'' ''guardians.suspend'']"

definition payrollAdminEndpoints :: "endpoint list" where
  "payrollAdminEndpoints =
    [needs ''admin:guardian_earnings:read'' GET ''guardians/:id/earnings'' ''guardianPayroll.getLedger'',
     needs ''admin:guardian_payouts:write'' POST ''guardians/:id/payouts'' ''guardianPayroll.createPayout'',
     needs ''admin:guardian_payouts:read'' GET ''guardian-payouts'' ''guardianPayroll.listAdminPayouts'',
     needs ''admin:guardian_payouts:write'' POST ''guardian-payouts/:id/confirm'' ''guardianPayroll.confirmPayout'']"

definition verificationEndpoints :: "endpoint list" where
  "verificationEndpoints =
    [needs ''admin:verification:read'' GET ''verification/organizations'' ''verification.listPendingOrganizations'',
     needs ''admin:verification:read'' GET ''organizations'' ''verification.listOrganizations'',
     needs ''admin:verification:read'' GET ''verification/documents/:documentId/content''
       ''documents.getVerificationDocumentContent'',
     needs ''admin:verification:write'' PATCH ''verification/organizations/:id'' ''verification.reviewOrganization'',
     needs ''admin:verification:read'' GET ''verification/guardians'' ''verification.listPendingGuardians'',
     needs ''admin:verification:read'' GET ''verification/certifications'' ''verification.listCertifications'',
     needs ''admin:verification:write'' PATCH ''verification/guardians/:id'' ''verification.reviewGuardian'',
     needs ''admin:verification:write'' PATCH ''verification/certifications/:id'' ''verification.reviewCertification'']"

definition catalogueEndpoints :: "endpoint list" where
  "catalogueEndpoints =
    [needs ''admin:pricing:read'' GET ''pricing-rules'' ''pricing.list'',
     needs ''admin:pricing:write'' POST ''pricing-rules'' ''pricing.create'',
     needs ''admin:pricing:write'' PATCH ''pricing-rules/:id'' ''pricing.update'',
     needs ''admin:services:read'' GET ''services'' ''adminServices.listServices'',
     needs ''admin:services:write'' POST ''services'' ''adminServices.createService'',
     needs ''admin:services:write'' PATCH ''services/:id'' ''adminServices.updateService'',
     needs ''admin:services:write'' DELETE ''services/:id'' ''adminServices.deleteService'',
     needs ''admin:services:read'' GET ''booking-settings'' ''adminServices.getBookingSettings'',
     needs ''admin:services:write'' PATCH ''booking-settings'' ''adminServices.updateBookingSettings'']"

definition billingAdminEndpoints :: "endpoint list" where
  "billingAdminEndpoints =
    [needs ''admin:billing:read'' GET ''billing-policies'' ''billingPolicies.list'',
     needs ''admin:billing:write'' POST ''billing-policies'' ''billingPolicies.create'',
     needs ''admin:billing:write'' PATCH ''billing-policies/:id'' ''billingPolicies.update'',
     needs ''admin:billing:read'' GET ''pay-policies'' ''payPolicies.list'',
     needs ''admin:billing:write'' POST ''pay-policies'' ''payPolicies.create'',
     needs ''admin:billing:write'' PATCH ''pay-policies/:id'' ''payPolicies.update'',
     needs ''admin:billing:read'' GET ''billing/reconciliation'' ''billingOps.getReconciliation'',
     needs ''admin:invoices:read'' GET ''invoices'' ''billing.listAdmin'',
     needs ''admin:invoices:resolve_dispute'' POST ''invoices/:id/resolve-dispute'' ''billing.resolveDispute'',
     needs ''admin:payments:read'' GET ''payments'' ''prisma.payment.findMany'']"

definition reportEndpoints :: "endpoint list" where
  "reportEndpoints =
    [needs ''admin:audit:read'' GET ''audit-logs'' ''audit.search'',
     needs ''admin:analytics:read'' GET ''analytics/jobs'' ''analytics.jobFacts'',
     needs ''admin:analytics:read'' GET ''analytics/guardians'' ''analytics.guardianPerformance'',
     needs ''admin:analytics:read'' GET ''analytics/dashboard'' ''analytics.dashboard'',
     needs ''admin:analytics:read'' POST ''analytics/backfill'' ''analytics.backfill'']"

definition adminController :: "endpoint list" where
  "adminController = controller ''admin'' (replacementEndpoints @ userEndpoints @ mapEndpoints @
     guardianAdminEndpoints @ payrollAdminEndpoints @ verificationEndpoints @ catalogueEndpoints @
     billingAdminEndpoints @ reportEndpoints)"

section \<open>Sign-in and registration\<close>

definition registrationEndpoints :: "endpoint list" where
  "registrationEndpoints =
    [open_to_all POST ''register/start'' ''registerOnboarding.startRegistration'',
     open_to_all POST ''register/start/verify'' ''registerOnboarding.verifyRegistrationStart'',
     open_to_all PATCH ''register/profile'' ''registerOnboarding.patchProfile'',
     open_to_all PATCH ''register/business'' ''registerOnboarding.patchBusiness'',
     open_to_all POST ''register/documents'' ''registerOnboarding.registerDocumentUpload'',
     open_to_all PATCH ''register/payment'' ''registerOnboarding.patchPayment'',
     open_to_all PATCH ''register/location'' ''registerOnboarding.patchLocation'',
     open_to_all GET ''register/status'' ''registerOnboarding.getRegistrationStatus'',
     open_to_all POST ''register/submit'' ''registerOnboarding.submitRegistration'',
     open_to_all POST ''register/resume'' ''registerOnboarding.resumeRegistration'']"

definition signInEndpoints :: "endpoint list" where
  "signInEndpoints =
    [open_to_all POST ''sign-in/otp/request'' ''auth.signInRequestOtp'',
     open_to_all POST ''sign-in/otp/verify'' ''auth.signInVerifyOtp'',
     open_to_all POST ''sign-in/password'' ''auth.signInWithPassword'',
     open_to_all POST ''password/set'' ''auth.setPassword'',
     open_to_all POST ''otp/request'' ''auth.deprecatedOtpRequest'',
     open_to_all POST ''otp/verify'' ''auth.deprecatedOtpVerify'',
     open_to_all POST ''password/reset/request'' ''auth.passwordResetRequest'',
     open_to_all POST ''password/reset/confirm'' ''auth.passwordResetConfirm'',
     open_to_all POST ''refresh'' ''auth.refresh'',
     signed_in POST ''logout'' ''auth.logout'',
     signed_in POST ''context'' ''auth.setContext'']"

definition authController :: "endpoint list" where
  "authController = controller ''auth'' (registrationEndpoints @ signInEndpoints)"

section \<open>Guardians, clients, the public\<close>

definition assignmentsController :: "endpoint list" where
  "assignmentsController = controller ''assignments''
    [needs ''assignments:read'' GET ''me'' ''assignments.findForGuardian'',
     needs ''assignments:accept'' POST '':id/accept'' ''assignments.accept'',
     needs ''assignments:decline'' POST '':id/decline'' ''assignments.decline'',
     needs ''assignments:en_route'' POST '':id/en-route'' ''assignments.enRoute'',
     needs ''assignments:on_site'' POST '':id/on-site'' ''assignments.onSite'',
     needs ''assignments:replacement_request'' POST '':id/replacement-request'' ''assignments.requestReplacement'',
     needs ''assignments:early_release'' POST '':id/early-release'' ''assignments.requestEarlyRelease'',
     needs ''assignments:early_release_approve'' POST '':id/early-release/approve'' ''assignments.approveEarlyRelease'',
     needs ''assignments:early_release_reject'' POST '':id/early-release/reject'' ''assignments.rejectEarlyRelease'',
     needs ''assignments:complete'' POST '':id/complete'' ''assignments.complete'',
     needs ''assignments:no_show'' POST '':id/no-show'' ''assignments.noShow'']"

definition guardiansController :: "endpoint list" where
  "guardiansController = controller ''guardians''
    [needs ''guardians:read_self'' GET ''me'' ''guardians.getMe'',
     needs ''guardians:update_self'' PATCH ''me'' ''guardians.updateMe'',
     needs ''guardians:shift'' POST ''me/shift/start'' ''guardians.startShift'',
     needs ''guardians:shift'' POST ''me/shift/end'' ''guardians.endShift'',
     needs ''guardians:heartbeat'' POST ''me/heartbeat'' ''guardians.heartbeat'',
     needs ''guardians:read_self'' GET ''me/location'' ''guardians.getMyLocation'',
     needs ''guardians:read_self'' GET ''me/location/history'' ''guardians.getMyLocationHistory'',
     needs ''jobs:read'' GET ''me/jobs'' ''guardians.listMyJobs'',
     needs ''guardians:read_earnings'' GET ''me/earnings/ledger'' ''payroll.getLedger'',
     needs ''guardians:read_earnings'' GET ''me/earnings'' ''payroll.getSummary'',
     needs ''guardians:read_earnings'' GET ''me/payouts'' ''payroll.listPayouts'',
     needs ''guardians:read_self'' GET ''me/reviews'' ''guardianReviews.listForGuardian'',
     needs ''guardians:read_certifications'' GET ''me/certifications'' ''guardians.listCertifications'',
     needs ''guardians:read_certifications'' GET ''me/certifications/:certificationId'' ''guardians.getMyCertification'',
     needs ''guardians:read_certifications'' POST ''me/certifications'' ''guardians.addCertification'',
     needs ''guardians:read'' GET '':id/location/history'' ''guardians.getLocationHistory'',
     needs ''guardians:read'' GET '':id/reviews'' ''guardianReviews.listForGuardian'',
     needs ''guardians:read'' GET '':id/location'' ''guardians.getLocationById'',
     needs ''guardians:read'' GET '':id'' ''guardians.getById'']"

definition jobsController :: "endpoint list" where
  "jobsController = controller ''jobs''
    [needs ''jobs:create'' POST '''' ''jobs.create'',
     needs ''jobs:read'' GET '''' ''jobs.list'',
     needs ''jobs:read'' GET '':id/timeline'' ''jobs.timeline'',
     needs ''jobs:read'' GET '':id/tracking'' ''jobs.getTracking'',
     needs ''jobs:read_invoice'' GET '':id/invoice'' ''jobs.getInvoice'',
     needs ''jobs:read'' GET '':id/incidents'' ''jobs.listIncidents'',
     needs ''jobs:create_incident'' POST '':id/incidents'' ''jobs.createIncident'',
     needs ''jobs:cancel'' PATCH '':id/cancel'' ''jobs.cancel'',
     needs ''jobs:dispatch'' POST '':id/dispatch'' ''jobs.dispatch'',
     needs ''jobs:complete'' POST '':id/complete'' ''jobs.complete'',
     needs ''jobs:read'' GET '':id/review'' ''guardianReviews.getForJob'',
     needs ''jobs:review'' POST '':id/review'' ''guardianReviews.submitForJob'',
     needs ''jobs:read'' GET '':id'' ''jobs.findOne'']"

definition billingController :: "endpoint list" where
  "billingController = controller ''invoices''
    [needs ''billing:read'' GET '':id'' ''billing.getInvoice'',
     needs ''billing:issue'' POST '':id/issue'' ''billing.issue'',
     needs ''billing:dispute'' POST '':id/dispute'' ''billing.disputeInvoice'',
     needs ''billing:void'' POST '':id/void'' ''billing.voidInvoice'']"

definition paymentsController :: "endpoint list" where
  "paymentsController = controller ''payments''
    [needs ''payments:create'' POST '''' ''payments.createPayment'',
     needs ''payments:confirm'' POST '':id/confirm'' ''payments.confirmPayment'']"

definition webhooksController :: "endpoint list" where
  "webhooksController = controller ''webhooks''
    [open_to_all POST ''payments/:provider'' ''payments.confirmByIdempotencyKey'']"

definition documentsController :: "endpoint list" where
  "documentsController = controller ''documents''
    [needs ''documents:write'' POST '''' ''documents.upload'',
     needs ''documents:read'' GET '':id'' ''documents.getMetadata'',
     needs ''documents:read'' GET '':id/content'' ''documents.getContent'']"

definition organizationsController :: "endpoint list" where
  "organizationsController = controller ''organizations''
    ([needs ''organizations:create'' POST '''' ''organizations.createOrganization'',
      needs ''organizations:read'' GET '''' ''organizations.listForUser''] @
     List.map org_scoped
      [needs ''organizations:read'' GET '':id'' ''organizations.getOrganization'',
       needs ''organizations:update'' PATCH '':id'' ''organizations.updateOrganization'',
       needs ''organizations:read_locations'' GET '':id/locations'' ''organizations.listLocations'',
       needs ''organizations:manage_locations'' POST '':id/locations/primary/complete-site''
         ''organizations.completePrimarySite'',
       needs ''organizations:manage_locations'' POST '':id/locations'' ''organizations.addLocation'',
       needs ''organizations:manage_locations'' PATCH '':id/locations/:locationId'' ''organizations.updateLocation'',
       needs ''organizations:read_members'' GET '':id/members'' ''organizations.listMembers'',
       needs ''organizations:invite_member'' POST '':id/members/invite'' ''organizations.inviteMember'',
       needs ''organizations:remove_member'' DELETE '':id/members/:userId'' ''organizations.removeMember'',
       needs ''organizations:read_invoices'' GET '':id/invoices'' ''billing.listForOrganization''])"

definition notificationsController :: "endpoint list" where
  "notificationsController = controller ''notifications''
    [needs ''notifications:read'' GET '''' ''notifications.list'',
     needs ''notifications:write'' PATCH '':id/read'' ''notifications.markRead'',
     needs ''notifications:write'' POST ''read-all'' ''notifications.markAllRead'']"

definition servicesController :: "endpoint list" where
  "servicesController = controller ''services''
    [needs ''services:read'' GET '''' ''services.listActive'',
     needs ''services:read'' GET ''booking-policy'' ''bookingSettings.getPolicy'']"

definition usersController :: "endpoint list" where
  "usersController = controller ''users''
    [needs ''users:read_self'' GET ''me'' ''users.getMe'',
     needs ''users:update_self'' PATCH ''me'' ''users.updateMe'']"

definition regionsController :: "endpoint list" where
  "regionsController = controller ''regions'' [open_to_all GET ''districts'' ''regions.listDistricts'']"

definition appController :: "endpoint list" where
  "appController = [open_to_all GET ''health'' ''appService.getHealth'']"

definition endpoints :: "endpoint list" where
  "endpoints = adminController @ authController @ assignmentsController @ guardiansController @
     jobsController @ billingController @ paymentsController @ webhooksController @
     documentsController @ organizationsController @ notificationsController @ servicesController @
     usersController @ regionsController @ appController"

section \<open>Finding the endpoint of a request\<close>

text \<open>
  The first endpoint in the order of declaration whose verb and pattern fit.  The prefixes of the
  controllers differ, so the order of the controllers does not matter.
\<close>

fun fits :: "segment list \<Rightarrow> string list \<Rightarrow> bool" where
  "fits [] [] = True"
| "fits (Literal l # ps) (x # xs) = (x = l \<and> fits ps xs)"
| "fits (Param _ # ps) (x # xs) = (x \<noteq> [] \<and> fits ps xs)"
| "fits _ _ = False"

definition findEndpoint :: "verb \<Rightarrow> string list \<Rightarrow> endpoint option" where
  "findEndpoint v path = find (\<lambda>e. ep_verb e = v \<and> fits (ep_path e) path) endpoints"

definition routeOf :: "endpoint \<Rightarrow> route" where
  "routeOf e = \<lparr>isPublic = ep_public e, requiredPermissions = ep_permissions e,
     permissionMode = all_of, skipOrgScope = False, orgScopeParam = ep_orgScope e, requiredRoles = []\<rparr>"

section \<open>The seeded permissions\<close>

definition CLIENT_STAFF_PERMISSIONS :: "string list" where
  "CLIENT_STAFF_PERMISSIONS =
    [''jobs:read'', ''jobs:create'', ''jobs:dispatch'', ''jobs:read_invoice'', ''services:read'',
     ''organizations:read'', ''organizations:read_locations'', ''organizations:read_invoices'',
     ''billing:read'', ''notifications:read'', ''notifications:write'', ''users:read_self'',
     ''users:update_self'', ''documents:read'', ''documents:write'']"

definition CLIENT_OWNER_EXTRA_PERMISSIONS :: "string list" where
  "CLIENT_OWNER_EXTRA_PERMISSIONS =
    [''jobs:cancel'', ''jobs:complete'', ''jobs:review'', ''assignments:early_release_approve'',
     ''assignments:early_release_reject'', ''payments:create'', ''payments:confirm'',
     ''organizations:update'', ''organizations:manage_locations'', ''organizations:read_members'',
     ''organizations:invite_member'', ''organizations:remove_member'', ''organizations:create'',
     ''billing:dispute'']"

definition GUARDIAN_PERMISSIONS :: "string list" where
  "GUARDIAN_PERMISSIONS =
    [''guardians:read_self'', ''guardians:update_self'', ''guardians:shift'', ''guardians:heartbeat'',
     ''guardians:read_certifications'', ''assignments:read'', ''assignments:accept'',
     ''assignments:decline'', ''assignments:en_route'', ''assignments:on_site'',
     ''assignments:complete'', ''assignments:early_release'', ''assignments:replacement_request'',
     ''jobs:read'', ''jobs:create_incident'', ''users:read_self'', ''users:update_self'',
     ''notifications:read'', ''notifications:write'', ''documents:read'', ''documents:write'',
     ''guardians:read_earnings'']"

definition OPS_ADMIN_PERMISSIONS :: "string list" where
  "OPS_ADMIN_PERMISSIONS =
    [''admin:guardians:read'', ''admin:guardians:write'', ''admin:guardians:activate'',
     ''admin:guardians:suspend'', ''admin:users:delete'', ''admin:verification:read'',
     ''admin:verification:write'', ''admin:pricing:read'', ''admin:pricing:write'',
     ''admin:services:read'', ''admin:services:write'', ''admin:billing:read'',
     ''admin:billing:write'', ''admin:audit:read'', ''admin:analytics:read'',
     ''admin:invoices:read'', ''admin:invoices:resolve_dispute'', ''admin:payments:read'',
     ''admin:guardian_earnings:read'', ''admin:guardian_payouts:read'',
     ''admin:guardian_payouts:write'', ''billing:dispute'', ''jobs:read'', ''jobs:create'',
     ''jobs:dispatch'', ''jobs:cancel'', ''jobs:complete'', ''jobs:read_invoice'',
     ''assignments:no_show'', ''assignments:early_release_approve'',
     ''assignments:early_release_reject'', ''admin:assignments:replacement'', ''billing:read'',
     ''billing:issue'', ''billing:void'', ''payments:create'', ''payments:confirm'',
     ''organizations:read'', ''organizations:read_locations'', ''organizations:read_invoices'',
     ''organizations:update'', ''organizations:manage_locations'', ''organizations:read_members'',
     ''organizations:create'', ''guardians:read'', ''users:read_self'', ''users:update_self'',
     ''notifications:read'', ''notifications:write'', ''documents:read'', ''documents:write'']"

definition uniqueCodes :: "string list list \<Rightarrow> string list" where
  "uniqueCodes codeLists = toSet (concat codeLists)"

definition ALL_CODES :: "string list" where
  "ALL_CODES = uniqueCodes [CLIENT_STAFF_PERMISSIONS, CLIENT_OWNER_EXTRA_PERMISSIONS,
     GUARDIAN_PERMISSIONS, OPS_ADMIN_PERMISSIONS]"

text \<open>A permission is known by its code; all roles are there.\<close>

definition seedRolePerms :: "role_code \<Rightarrow> string list \<Rightarrow> unit call" where
  "seedRolePerms r codes = forEach codes (\<lambda>code. whenever (code \<in> set ALL_CODES)
     (writes (\<lambda>s. if (r, code) \<in> set (rolePermissions s) then s
        else s\<lparr>rolePermissions := createRow (r, code) (rolePermissions s)\<rparr>)))"

definition seedOrgMemberPerms :: "role_code \<Rightarrow> string list \<Rightarrow> unit call" where
  "seedOrgMemberPerms r codes = forEach codes (\<lambda>code. whenever (code \<in> set ALL_CODES)
     (writes (\<lambda>s. if (r, code) \<in> set (orgMemberRolePermissions s) then s
        else s\<lparr>orgMemberRolePermissions := createRow (r, code) (orgMemberRolePermissions s)\<rparr>)))"

definition clientOwnerCodes :: "string list" where
  "clientOwnerCodes = uniqueCodes [CLIENT_STAFF_PERMISSIONS, CLIENT_OWNER_EXTRA_PERMISSIONS]"

definition seedPermissions :: "unit call" where
  "seedPermissions =
     andThen (seedRolePerms GUARDIAN GUARDIAN_PERMISSIONS) (\<lambda>_.
     andThen (seedRolePerms OPS_ADMIN OPS_ADMIN_PERMISSIONS) (\<lambda>_.
     andThen (seedRolePerms SUPER_ADMIN ALL_CODES) (\<lambda>_.
     andThen (seedOrgMemberPerms CLIENT_STAFF CLIENT_STAFF_PERMISSIONS) (\<lambda>_.
     seedOrgMemberPerms CLIENT_OWNER clientOwnerCodes))))"

section \<open>What the seed does\<close>

lemma seedRolePerms_effect:
  "\<exists>s'. seedRolePerms r codes s = (Inr (), s') \<and>
     set (rolePermissions s') = set (rolePermissions s) \<union> {(r, c) | c. c \<in> set codes \<and> c \<in> set ALL_CODES} \<and>
     s' = s\<lparr>rolePermissions := rolePermissions s'\<rparr>"
proof (induction codes arbitrary: s)
  case (Cons c codes)
  define s1 where "s1 = (if c \<in> set ALL_CODES \<and> (r, c) \<notin> set (rolePermissions s)
    then s\<lparr>rolePermissions := createRow (r, c) (rolePermissions s)\<rparr> else s)"
  obtain s' where s': "seedRolePerms r codes s1 = (Inr (), s')"
    "set (rolePermissions s') = set (rolePermissions s1) \<union> {(r, c) | c. c \<in> set codes \<and> c \<in> set ALL_CODES}"
    "s' = s1\<lparr>rolePermissions := rolePermissions s'\<rparr>"
    using Cons by blast
  have "seedRolePerms r (c # codes) s = seedRolePerms r codes s1"
    by (cases "c \<in> set ALL_CODES") (simp_all add: seedRolePerms_def s1_def)
  then show ?case
    using s' by (auto simp: s1_def createRow_def split: if_splits)
qed (simp add: seedRolePerms_def)

lemma seedOrgMemberPerms_effect:
  "\<exists>s'. seedOrgMemberPerms r codes s = (Inr (), s') \<and>
     set (orgMemberRolePermissions s') = set (orgMemberRolePermissions s) \<union>
       {(r, c) | c. c \<in> set codes \<and> c \<in> set ALL_CODES} \<and>
     s' = s\<lparr>orgMemberRolePermissions := orgMemberRolePermissions s'\<rparr>"
proof (induction codes arbitrary: s)
  case (Cons c codes)
  define s1 where "s1 = (if c \<in> set ALL_CODES \<and> (r, c) \<notin> set (orgMemberRolePermissions s)
    then s\<lparr>orgMemberRolePermissions := createRow (r, c) (orgMemberRolePermissions s)\<rparr> else s)"
  obtain s' where s': "seedOrgMemberPerms r codes s1 = (Inr (), s')"
    "set (orgMemberRolePermissions s') = set (orgMemberRolePermissions s1) \<union>
       {(r, c) | c. c \<in> set codes \<and> c \<in> set ALL_CODES}"
    "s' = s1\<lparr>orgMemberRolePermissions := orgMemberRolePermissions s'\<rparr>"
    using Cons by blast
  have "seedOrgMemberPerms r (c # codes) s = seedOrgMemberPerms r codes s1"
    by (cases "c \<in> set ALL_CODES") (simp_all add: seedOrgMemberPerms_def s1_def)
  then show ?case
    using s' by (auto simp: s1_def createRow_def split: if_splits)
qed (simp add: seedOrgMemberPerms_def)

lemma all_codes: "set ALL_CODES = set CLIENT_STAFF_PERMISSIONS \<union> set CLIENT_OWNER_EXTRA_PERMISSIONS \<union>
    set GUARDIAN_PERMISSIONS \<union> set OPS_ADMIN_PERMISSIONS"
  by (auto simp: ALL_CODES_def uniqueCodes_def)

text \<open>Who may do what after seeding, beside what the tables already said.\<close>

definition roleMay :: "role_code \<Rightarrow> string set" where
  "roleMay r = (case r of GUARDIAN \<Rightarrow> set GUARDIAN_PERMISSIONS | OPS_ADMIN \<Rightarrow> set OPS_ADMIN_PERMISSIONS
     | SUPER_ADMIN \<Rightarrow> set ALL_CODES | _ \<Rightarrow> {})"

definition memberMay :: "role_code \<Rightarrow> string set" where
  "memberMay r = (case r of CLIENT_STAFF \<Rightarrow> set CLIENT_STAFF_PERMISSIONS
     | CLIENT_OWNER \<Rightarrow> set CLIENT_STAFF_PERMISSIONS \<union> set CLIENT_OWNER_EXTRA_PERMISSIONS | _ \<Rightarrow> {})"

lemma seedPermissions_effect:
  obtains s' where "seedPermissions s = (Inr (), s')"
    "set (rolePermissions s') = set (rolePermissions s) \<union> {(r, c). c \<in> roleMay r}"
    "set (orgMemberRolePermissions s') = set (orgMemberRolePermissions s) \<union> {(r, c). c \<in> memberMay r}"
    "s' = s\<lparr>rolePermissions := rolePermissions s', orgMemberRolePermissions := orgMemberRolePermissions s'\<rparr>"
proof -
  note role = seedRolePerms_effect
  obtain s1 where s1: "seedRolePerms GUARDIAN GUARDIAN_PERMISSIONS s = (Inr (), s1)"
    "set (rolePermissions s1) = set (rolePermissions s) \<union> {(GUARDIAN, c) | c. c \<in> set GUARDIAN_PERMISSIONS \<and> c \<in> set ALL_CODES}"
    "s1 = s\<lparr>rolePermissions := rolePermissions s1\<rparr>"
    using role by blast
  obtain s2 where s2: "seedRolePerms OPS_ADMIN OPS_ADMIN_PERMISSIONS s1 = (Inr (), s2)"
    "set (rolePermissions s2) = set (rolePermissions s1) \<union> {(OPS_ADMIN, c) | c. c \<in> set OPS_ADMIN_PERMISSIONS \<and> c \<in> set ALL_CODES}"
    "s2 = s1\<lparr>rolePermissions := rolePermissions s2\<rparr>"
    using role by blast
  obtain s3 where s3: "seedRolePerms SUPER_ADMIN ALL_CODES s2 = (Inr (), s3)"
    "set (rolePermissions s3) = set (rolePermissions s2) \<union> {(SUPER_ADMIN, c) | c. c \<in> set ALL_CODES \<and> c \<in> set ALL_CODES}"
    "s3 = s2\<lparr>rolePermissions := rolePermissions s3\<rparr>"
    using role by blast
  obtain s4 where s4: "seedOrgMemberPerms CLIENT_STAFF CLIENT_STAFF_PERMISSIONS s3 = (Inr (), s4)"
    "set (orgMemberRolePermissions s4) = set (orgMemberRolePermissions s3) \<union> {(CLIENT_STAFF, c) | c. c \<in> set CLIENT_STAFF_PERMISSIONS \<and> c \<in> set ALL_CODES}"
    "s4 = s3\<lparr>orgMemberRolePermissions := orgMemberRolePermissions s4\<rparr>"
    using seedOrgMemberPerms_effect by blast
  obtain s5 where s5: "seedOrgMemberPerms CLIENT_OWNER clientOwnerCodes s4 = (Inr (), s5)"
    "set (orgMemberRolePermissions s5) = set (orgMemberRolePermissions s4) \<union> {(CLIENT_OWNER, c) | c. c \<in> set clientOwnerCodes \<and> c \<in> set ALL_CODES}"
    "s5 = s4\<lparr>orgMemberRolePermissions := orgMemberRolePermissions s5\<rparr>"
    using seedOrgMemberPerms_effect by blast
  have run: "seedPermissions s = (Inr (), s5)"
    by (simp add: seedPermissions_def andThen_def s1(1) s2(1) s3(1) s4(1) s5(1))
  have frames: "rolePermissions s5 = rolePermissions s3" "orgMemberRolePermissions s3 = orgMemberRolePermissions s"
    by (subst s5(3), subst s4(3), simp) (subst s3(3), subst s2(3), subst s1(3), simp)
  have "s5 = s\<lparr>rolePermissions := rolePermissions s5, orgMemberRolePermissions := orgMemberRolePermissions s5\<rparr>"
    unfolding frames(1) by (subst s5(3), subst s4(3), subst s3(3), subst s2(3), subst s1(3)) simp
  moreover have "set (rolePermissions s5) = set (rolePermissions s) \<union> {(r, c). c \<in> roleMay r}"
    unfolding frames(1) s3(2) s2(2) s1(2) by (auto simp: roleMay_def all_codes split: role_code.splits)
  moreover have "set (orgMemberRolePermissions s5) = set (orgMemberRolePermissions s) \<union> {(r, c). c \<in> memberMay r}"
    unfolding s5(2) s4(2) frames(2)
    by (auto simp: memberMay_def all_codes clientOwnerCodes_def uniqueCodes_def split: role_code.splits)
  ultimately show thesis
    using that run by blast
qed

section \<open>Who reaches the administration\<close>

lemma codes_of: "set (List.map snd (findMany (\<lambda>p. fst p = r) rows)) = {c. (r, c) \<in> set rows}"
  by (force simp: findMany_def)

lemma dbPermissions_set:
  assumes "userOf (sub actor) s = Some u"
  shows "set (dbPermissions actor s) = {c. \<exists>r \<in> set (u_roles u). (r, c) \<in> set (rolePermissions s)} \<union>
    (case Option.bind (activeOrgId actor) (\<lambda>org. findFirst (\<lambda>m. m_organizationId m = org \<and> m_userId m = u_id u)
        (orgUsers (backend s))) of
       None \<Rightarrow> {} | Some m \<Rightarrow> {c. (membershipRole m, c) \<in> set (orgMemberRolePermissions s)})"
proof -
  have "set (concat (List.map (\<lambda>r. rolePermissionCodes r s) rs)) = {c. \<exists>r \<in> set rs. (r, c) \<in> set (rolePermissions s)}" for rs
    using codes_of [of _ "rolePermissions s"] by (auto simp: rolePermissionCodes_def)
  then show ?thesis
    using assms codes_of [of _ "orgMemberRolePermissions s"]
    by (cases "activeOrgId actor"; cases "findFirst (\<lambda>m. m_organizationId m = the (activeOrgId actor) \<and>
          m_userId m = u_id u) (orgUsers (backend s))")
      (auto simp del: set_map set_concat simp: dbPermissions_def loadFromDb_def Let_def)
qed

lemma admin_shape:
  "list_all (\<lambda>e. \<not> ep_public e \<and> (case ep_permissions e of
       [p] \<Rightarrow> p \<in> set OPS_ADMIN_PERMISSIONS \<and>
         (if ep_handler e = ''map.listSiteMarkers'' then p = ''organizations:read'' else startsWith p ''admin:'')
     | _ \<Rightarrow> False)) adminController"
  by code_simp

lemma no_admin_codes:
  "list_all (\<lambda>p. \<not> startsWith p ''admin:'')
     (CLIENT_STAFF_PERMISSIONS @ CLIENT_OWNER_EXTRA_PERMISSIONS @ GUARDIAN_PERMISSIONS)"
  "''organizations:read'' \<in> set CLIENT_STAFF_PERMISSIONS"
  "''organizations:read'' \<notin> set GUARDIAN_PERMISSIONS"
  by code_simp+

lemma admin_endpoint:
  assumes "e \<in> set adminController"
  obtains p where "\<not> ep_public e" "ep_permissions e = [p]" "p \<in> set OPS_ADMIN_PERMISSIONS"
    "if ep_handler e = ''map.listSiteMarkers'' then p = ''organizations:read'' else startsWith p ''admin:''"
proof -
  have "\<not> ep_public e \<and> (case ep_permissions e of
       [p] \<Rightarrow> p \<in> set OPS_ADMIN_PERMISSIONS \<and>
         (if ep_handler e = ''map.listSiteMarkers'' then p = ''organizations:read'' else startsWith p ''admin:'')
     | _ \<Rightarrow> False)"
    using assms admin_shape unfolding list_all_iff by blast
  then show thesis
    using that by (cases "ep_permissions e"; cases "tl (ep_permissions e)") auto
qed

text \<open>Only the endpoints of the administration answer requests under \<open>admin/\<close>.\<close>

lemma other_prefixes:
  "list_all (\<lambda>e. case ep_path e of Literal l # _ \<Rightarrow> l \<noteq> ''admin'' | _ \<Rightarrow> False)
     (authController @ assignmentsController @ guardiansController @
     jobsController @ billingController @ paymentsController @ webhooksController @
     documentsController @ organizationsController @ notificationsController @ servicesController @
     usersController @ regionsController @ appController)"
  by code_simp

lemma findEndpoint_admin:
  assumes "findEndpoint v (''admin'' # path) = Some e"
  shows "e \<in> set adminController"
proof (rule ccontr)
  have found: "e \<in> set endpoints" "fits (ep_path e) (''admin'' # path)"
    using assms by (auto simp: findEndpoint_def find_Some_iff)
  moreover assume "e \<notin> set adminController"
  ultimately have "case ep_path e of Literal l # _ \<Rightarrow> l \<noteq> ''admin'' | _ \<Rightarrow> False"
    using other_prefixes unfolding endpoints_def list_all_iff by auto
  then show False
    using found(2) by (auto split: list.splits segment.splits)
qed

lemma guard_of_endpoint:
  assumes "\<not> ep_public e" and "ep_permissions e = [p]" and "memoryCache s (cacheKey actor) = None"
  shows "fst (permissionsGuard E (routeOf e) (Some actor) s) = Inr True \<longleftrightarrow> p \<in> set (dbPermissions actor s)"
  using assms guard_of_caller [of "routeOf e" E actor s] by (simp add: routeOf_def effectivePermissions_def)

text \<open>
  C17: With the permissions as they are seeded, and no list cached from before, the administration
  is for administrators: whoever is neither \<open>OPS_ADMIN\<close> nor \<open>SUPER_ADMIN\<close> is turned away from every
  endpoint under \<open>admin/\<close> but one, and administrators pass them all.  The exception is the map of
  all sites, which every member of the active organization may see.
\<close>

theorem administration_needs_an_administrator:
  assumes "rolePermissions s0 = []" and "orgMemberRolePermissions s0 = []"
    and "seedPermissions s0 = (Inr (), s)" and "userOf (sub actor) s = Some u"
    and "memoryCache s (cacheKey actor) = None" and "findEndpoint v (''admin'' # path) = Some e"
  shows "fst (permissionsGuard E (routeOf e) (Some actor) s) = Inr True \<longleftrightarrow>
    OPS_ADMIN \<in> set (u_roles u) \<or> SUPER_ADMIN \<in> set (u_roles u) \<or>
    (ep_handler e = ''map.listSiteMarkers'' \<and> (\<exists>org. activeOrgId actor = Some org \<and>
       (\<exists>m \<in> set (orgUsers (backend s)). m_organizationId m = org \<and> m_userId m = u_id u)))"
proof -
  obtain p where p: "\<not> ep_public e" "ep_permissions e = [p]" "p \<in> set OPS_ADMIN_PERMISSIONS"
    "if ep_handler e = ''map.listSiteMarkers'' then p = ''organizations:read'' else startsWith p ''admin:''"
    using admin_endpoint [OF findEndpoint_admin [OF assms(6)]] .
  have tables: "set (rolePermissions s) = {(r, c). c \<in> roleMay r}"
    "set (orgMemberRolePermissions s) = {(r, c). c \<in> memberMay r}"
    by (rule seedPermissions_effect [of s0]; use assms(1-3) in simp)+
  have role: "p \<in> roleMay r \<longleftrightarrow> r \<in> {OPS_ADMIN, SUPER_ADMIN}" for r
    using p(3,4) no_admin_codes
    by (cases r) (auto simp: roleMay_def all_codes list_all_iff split: if_splits)
  have member: "p \<in> memberMay (membershipRole m) \<longleftrightarrow> ep_handler e = ''map.listSiteMarkers''" for m
    using p(4) no_admin_codes
    by (auto simp: membershipRole_def memberMay_def list_all_iff split: if_splits)
  have "p \<in> set (dbPermissions actor s) \<longleftrightarrow> OPS_ADMIN \<in> set (u_roles u) \<or> SUPER_ADMIN \<in> set (u_roles u) \<or>
      (ep_handler e = ''map.listSiteMarkers'' \<and> Option.bind (activeOrgId actor) (\<lambda>org. findFirst
        (\<lambda>m. m_organizationId m = org \<and> m_userId m = u_id u) (orgUsers (backend s))) \<noteq> None)"
    unfolding dbPermissions_set [OF assms(4)] tables
    by (auto simp: role member split: option.split)
  also have "(Option.bind (activeOrgId actor) (\<lambda>org. findFirst
        (\<lambda>m. m_organizationId m = org \<and> m_userId m = u_id u) (orgUsers (backend s))) \<noteq> None) \<longleftrightarrow>
      (\<exists>org. activeOrgId actor = Some org \<and>
       (\<exists>m \<in> set (orgUsers (backend s)). m_organizationId m = org \<and> m_userId m = u_id u))"
    by (cases "activeOrgId actor") (auto simp: findFirst_None_iff simp del: not_None_eq)
  finally show ?thesis
    unfolding guard_of_endpoint [OF p(1,2) assms(5)] .
qed

definition bare :: site where
  "bare = office\<lparr>rolePermissions := [], orgMemberRolePermissions := []\<rparr>"

definition officeOwner :: auth_user where
  "officeOwner = \<lparr>sub = 1, roles = [CLIENT_OWNER], activeOrgId = Some 9, orgId = Some 9,
     organizationIds = [9], actorGuardianId = None, phone = ''+250788000001'', activeRole = CLIENT_OWNER\<rparr>"

lemma administration_needs_an_administrator_witness:
  "\<exists>s deletion sites. seedPermissions bare = (Inr (), s) \<and>
     findEndpoint DELETE [''admin'', ''users'', ''u1''] = Some deletion \<and>
     fst (permissionsGuard glass (routeOf deletion) (Some officeOwner) s) \<noteq> Inr True \<and>
     findEndpoint GET [''admin'', ''map'', ''sites''] = Some sites \<and>
     fst (permissionsGuard glass (routeOf sites) (Some officeOwner) s) = Inr True"
proof -
  obtain s where s: "seedPermissions bare = (Inr (), s)"
    "s = bare\<lparr>rolePermissions := rolePermissions s, orgMemberRolePermissions := orgMemberRolePermissions s\<rparr>"
    by (rule seedPermissions_effect [of bare])
  define u where "u = officeUser 1 ''+250788000001'' U_ACTIVE CLIENT_OWNER"
  have u: "userOf (sub officeOwner) s = Some u"
    by (subst s(2)) (simp add: userOf_def bare_def office_def officeOwner_def u_def officeUser_def)
  have cache: "memoryCache s (cacheKey officeOwner) = None"
    by (subst s(2)) (simp add: bare_def office_def)
  have members: "orgUsers (backend s) = [\<lparr>m_organizationId = 9, m_userId = 1, m_isOwner = True\<rparr>]"
    by (subst s(2)) (simp add: bare_def office_def officeBackend_def)
  have empty: "rolePermissions bare = []" "orgMemberRolePermissions bare = []"
    by (simp_all add: bare_def)
  have "map_option ep_handler (findEndpoint DELETE [''admin'', ''users'', ''u1'']) = Some ''users.deleteUser''"
    "map_option ep_handler (findEndpoint GET [''admin'', ''map'', ''sites'']) = Some ''map.listSiteMarkers''"
    by code_simp+
  then obtain deletion sites where found:
    "findEndpoint DELETE [''admin'', ''users'', ''u1''] = Some deletion" "ep_handler deletion = ''users.deleteUser''"
    "findEndpoint GET [''admin'', ''map'', ''sites''] = Some sites" "ep_handler sites = ''map.listSiteMarkers''"
    by auto
  have client: "OPS_ADMIN \<notin> set (u_roles u)" "SUPER_ADMIN \<notin> set (u_roles u)" "u_id u = 1"
    "activeOrgId officeOwner = Some 9"
    by (simp_all add: u_def officeUser_def officeOwner_def)
  show ?thesis
    using administration_needs_an_administrator [OF empty s(1) u cache found(1), of glass]
      administration_needs_an_administrator [OF empty s(1) u cache found(3), of glass]
      s(1) members found client by simp
qed

end
