(* ===== verification/Analytics.thy ===== *)
theory Analytics
  imports Scenario "HOL-Library.AList"
begin

text \<open>
  The statistics (\<open>analytics/analytics.service.ts\<close>, \<open>admin/admin-analytics.service.ts\<close>): the daily
  facts about jobs and guardians that a timer recomputes from a window of rows, and the key
  figures of the dashboard.
\<close>

section \<open>The tables\<close>

record job_facts =
  jf_date :: instant
  jf_district :: string
  jf_jobType :: job_type
  jf_hourOfDay :: int
  jf_jobCount :: int
  jf_completedCount :: int
  jf_cancelledCount :: int
  jf_avgResponseMinutes :: "rat option"
  jf_totalRevenue :: rat
  jf_computedAt :: instant

text \<open>
  The backend, whose table \<open>performance\<close> has the days of the guardians, the table of the facts
  about jobs, and the flag of the service that a run is under way.
\<close>

record warehouse =
  source :: sys
  jobFactsDaily :: "job_facts list"
  running :: bool

record backfill_input =
  bi_from :: instant
  bi_to :: instant
  bi_district :: "string option"
  bi_organizationId :: "id option"
  bi_guardianId :: "id option"

type_synonym facts_key = "instant \<times> string \<times> job_type \<times> int"

section \<open>Maps of buckets\<close>

text \<open>
  A \<open>Map\<close> filled in a loop: the item of the key, or a fresh one, takes the next row.  The keys keep
  the order in which they came.
\<close>

definition intoBucket :: "('x \<Rightarrow> 'k) \<Rightarrow> 'r \<Rightarrow> ('x \<Rightarrow> 'r \<Rightarrow> 'r) \<Rightarrow> 'x \<Rightarrow> ('k \<times> 'r) list \<Rightarrow> ('k \<times> 'r) list" where
  "intoBucket key fresh add x bucket =
     (let item = (case map_of bucket (key x) of None \<Rightarrow> fresh | Some r \<Rightarrow> r)
      in AList.update (key x) (add x item) bucket)"

definition bucketBy :: "('x \<Rightarrow> 'k) \<Rightarrow> 'r \<Rightarrow> ('x \<Rightarrow> 'r \<Rightarrow> 'r) \<Rightarrow> 'x list \<Rightarrow> ('k \<times> 'r) list" where
  "bucketBy key fresh add rows = fold (intoBucket key fresh add) rows []"

text \<open>\<open>groupBy\<close> with a count; the groups in the order in which they come up.\<close>

definition groupCount :: "('x \<Rightarrow> 'k) \<Rightarrow> 'x list \<Rightarrow> ('k \<times> int) list" where
  "groupCount key rows = bucketBy key 0 (\<lambda>_ n. n + 1) rows"

definition minutesBetween :: "instant \<Rightarrow> instant \<Rightarrow> rat" where
  "minutesBetween earlier later = of_int (later - earlier) / 60000"

section \<open>Facts about jobs\<close>

record job_bucket =
  jb_jobCount :: int
  jb_completedCount :: int
  jb_cancelledCount :: int
  jb_totalRevenue :: rat
  jb_responseMinutesTotal :: rat
  jb_responseMinutesCount :: int

definition emptyJobBucket :: job_bucket where
  "emptyJobBucket = \<lparr>jb_jobCount = 0, jb_completedCount = 0, jb_cancelledCount = 0,
     jb_totalRevenue = 0, jb_responseMinutesTotal = 0, jb_responseMinutesCount = 0\<rparr>"

text \<open>An empty string in the query is no filter.\<close>

definition filtersDistrict :: "string option \<Rightarrow> bool" where
  "filtersDistrict d \<longleftrightarrow> d \<noteq> None \<and> d \<noteq> Some []"

definition inDistrict :: "string option \<Rightarrow> job \<Rightarrow> sys \<Rightarrow> bool" where
  "inDistrict d j s \<longleftrightarrow> (filtersDistrict d \<longrightarrow>
     map_option l_district (locationOf (j_locationId j) s) = d)"

definition ofOrganization :: "id option \<Rightarrow> job \<Rightarrow> bool" where
  "ofOrganization org j \<longleftrightarrow> (case org of None \<Rightarrow> True | Some i \<Rightarrow> j_organizationId j = i)"

definition jobsOfWindow :: "backfill_input \<Rightarrow> sys \<Rightarrow> job list" where
  "jobsOfWindow input s = findMany (\<lambda>j. bi_from input \<le> j_createdAt j \<and> j_createdAt j \<le> bi_to input \<and>
     ofOrganization (bi_organizationId input) j \<and> inDistrict (bi_district input) j s) (jobs s)"

definition districtName :: "job \<Rightarrow> sys \<Rightarrow> string" where
  "districtName j s = (case locationOf (j_locationId j) s of None \<Rightarrow> ''UNKNOWN'' | Some l \<Rightarrow> l_district l)"

definition factsKey :: "sys \<Rightarrow> job \<Rightarrow> facts_key" where
  "factsKey s j = (dayOf (j_createdAt j), districtName j s, j_jobType j, getUTCHours (j_createdAt j))"

definition addResponse :: "assignment \<Rightarrow> job_bucket \<Rightarrow> job_bucket" where
  "addResponse a item = (case a_acceptedAt a of None \<Rightarrow> item | Some t \<Rightarrow>
     item\<lparr>jb_responseMinutesTotal := jb_responseMinutesTotal item + minutesBetween (a_offerSentAt a) t,
       jb_responseMinutesCount := jb_responseMinutesCount item + 1\<rparr>)"

definition revenueOf :: "sys \<Rightarrow> job \<Rightarrow> rat" where
  "revenueOf s j = (case invoiceOfJob (j_id j) s of None \<Rightarrow> 0 | Some i \<Rightarrow> i_total i)"

definition offersOf :: "sys \<Rightarrow> job \<Rightarrow> assignment list" where
  "offersOf s j = findMany (\<lambda>a. a_jobId a = j_id j) (assignments s)"

definition addJob :: "sys \<Rightarrow> job \<Rightarrow> job_bucket \<Rightarrow> job_bucket" where
  "addJob s j item = fold addResponse (offersOf s j)
     (item\<lparr>jb_jobCount := jb_jobCount item + 1,
        jb_completedCount := jb_completedCount item + (if j_status j = J_COMPLETED then 1 else 0),
        jb_cancelledCount := jb_cancelledCount item + (if j_status j = J_CANCELLED then 1 else 0),
        jb_totalRevenue := jb_totalRevenue item + revenueOf s j\<rparr>)"

definition average :: "rat \<Rightarrow> int \<Rightarrow> rat option" where
  "average amount n = (if n > 0 then Some (toFixed 2 (amount / of_int n)) else None)"

definition factsRow :: "instant \<Rightarrow> facts_key \<Rightarrow> job_bucket \<Rightarrow> job_facts" where
  "factsRow t k b = (case k of (date, district, jobType, hour) \<Rightarrow>
     \<lparr>jf_date = date, jf_district = district, jf_jobType = jobType, jf_hourOfDay = hour,
      jf_jobCount = jb_jobCount b, jf_completedCount = jb_completedCount b,
      jf_cancelledCount = jb_cancelledCount b,
      jf_avgResponseMinutes = average (jb_responseMinutesTotal b) (jb_responseMinutesCount b),
      jf_totalRevenue = toFixed 2 (jb_totalRevenue b), jf_computedAt = t\<rparr>)"

definition keyOfFacts :: "job_facts \<Rightarrow> facts_key" where
  "keyOfFacts r = (jf_date r, jf_district r, jf_jobType r, jf_hourOfDay r)"

definition changeFacts :: "instant \<Rightarrow> job_bucket \<Rightarrow> job_facts \<Rightarrow> job_facts" where
  "changeFacts t b r = r\<lparr>jf_jobCount := jb_jobCount b, jf_completedCount := jb_completedCount b,
     jf_cancelledCount := jb_cancelledCount b,
     jf_avgResponseMinutes := average (jb_responseMinutesTotal b) (jb_responseMinutesCount b),
     jf_totalRevenue := toFixed 2 (jb_totalRevenue b), jf_computedAt := t\<rparr>"

definition upsertFacts :: "facts_key \<times> job_bucket \<Rightarrow> (warehouse, unit) handler" where
  "upsertFacts row = writes (\<lambda>w. case row of (k, b) \<Rightarrow>
     w\<lparr>jobFactsDaily := (case findUnique keyOfFacts k (jobFactsDaily w) of
         None \<Rightarrow> createRow (factsRow (clock (source w)) k b) (jobFactsDaily w)
       | Some _ \<Rightarrow> updateMany (\<lambda>r. keyOfFacts r = k) (changeFacts (clock (source w)) b) (jobFactsDaily w))\<rparr>)"

definition materializeJobFacts :: "backfill_input \<Rightarrow> (warehouse, int) handler" where
  "materializeJobFacts input =
     andThen (reads (\<lambda>w. bucketBy (factsKey (source w)) emptyJobBucket (addJob (source w))
       (jobsOfWindow input (source w)))) (\<lambda>bucket.
     andThen (forEach bucket upsertFacts) (\<lambda>_.
     ok (int (length bucket))))"

section \<open>Days of guardians\<close>

record guardian_bucket =
  gb_jobsAssigned :: int
  gb_jobsCompleted :: int
  gb_noShowCount :: int
  gb_responseMinutesTotal :: rat
  gb_responseMinutesCount :: int

definition emptyGuardianBucket :: guardian_bucket where
  "emptyGuardianBucket = \<lparr>gb_jobsAssigned = 0, gb_jobsCompleted = 0, gb_noShowCount = 0,
     gb_responseMinutesTotal = 0, gb_responseMinutesCount = 0\<rparr>"

definition assignmentsOfWindow :: "backfill_input \<Rightarrow> sys \<Rightarrow> assignment list" where
  "assignmentsOfWindow input s = findMany (\<lambda>a.
     bi_from input \<le> a_offerSentAt a \<and> a_offerSentAt a \<le> bi_to input \<and>
     (case bi_guardianId input of None \<Rightarrow> True | Some g \<Rightarrow> a_guardianId a = g) \<and>
     (bi_organizationId input \<noteq> None \<or> filtersDistrict (bi_district input) \<longrightarrow>
       (case jobOf (a_jobId a) s of None \<Rightarrow> False
        | Some j \<Rightarrow> ofOrganization (bi_organizationId input) j \<and> inDistrict (bi_district input) j s)))
     (assignments s)"

definition daySource :: "assignment \<Rightarrow> instant" where
  "daySource a = (case a_acceptedAt a of Some t \<Rightarrow> t | None \<Rightarrow>
     (case a_noShowAt a of Some t \<Rightarrow> t | None \<Rightarrow> a_offerSentAt a))"

definition dayKey :: "assignment \<Rightarrow> instant \<times> id" where
  "dayKey a = (dayOf (daySource a), a_guardianId a)"

definition addAssignment :: "assignment \<Rightarrow> guardian_bucket \<Rightarrow> guardian_bucket" where
  "addAssignment a item = \<lparr>
     gb_jobsAssigned = gb_jobsAssigned item + (if a_acceptedAt a \<noteq> None then 1 else 0),
     gb_jobsCompleted = gb_jobsCompleted item + (if a_status a = A_COMPLETED then 1 else 0),
     gb_noShowCount = gb_noShowCount item + (if a_status a = A_NO_SHOW then 1 else 0),
     gb_responseMinutesTotal = gb_responseMinutesTotal item +
       (case a_acceptedAt a of None \<Rightarrow> 0 | Some t \<Rightarrow> minutesBetween (a_offerSentAt a) t),
     gb_responseMinutesCount = gb_responseMinutesCount item + (if a_acceptedAt a \<noteq> None then 1 else 0)\<rparr>"

definition completionRate :: "guardian_bucket \<Rightarrow> rat" where
  "completionRate b = (if gb_jobsAssigned b > 0
     then toFixed 2 (of_int (gb_jobsCompleted b) / of_int (gb_jobsAssigned b) * 100) else 0)"

definition performanceRow :: "instant \<Rightarrow> instant \<times> id \<Rightarrow> guardian_bucket \<Rightarrow> performance_daily" where
  "performanceRow t k b = \<lparr>f_date = fst k, f_guardianId = snd k, f_noShowCount = gb_noShowCount b,
     f_jobsAssigned = gb_jobsAssigned b, f_jobsCompleted = gb_jobsCompleted b,
     f_completionRate = completionRate b,
     f_avgResponseMinutes = average (gb_responseMinutesTotal b) (gb_responseMinutesCount b),
     f_computedAt = t\<rparr>"

definition keyOfDay :: "performance_daily \<Rightarrow> instant \<times> id" where
  "keyOfDay r = (f_date r, f_guardianId r)"

definition changeDay :: "instant \<Rightarrow> guardian_bucket \<Rightarrow> performance_daily \<Rightarrow> performance_daily" where
  "changeDay t b r = r\<lparr>f_noShowCount := gb_noShowCount b, f_jobsAssigned := gb_jobsAssigned b,
     f_jobsCompleted := gb_jobsCompleted b, f_completionRate := completionRate b,
     f_avgResponseMinutes := average (gb_responseMinutesTotal b) (gb_responseMinutesCount b),
     f_computedAt := t\<rparr>"

definition upsertDay :: "(instant \<times> id) \<times> guardian_bucket \<Rightarrow> (warehouse, unit) handler" where
  "upsertDay row = writes (\<lambda>w. case row of (k, b) \<Rightarrow> let s = source w in
     w\<lparr>source := s\<lparr>performance := (case findUnique keyOfDay k (performance s) of
         None \<Rightarrow> createRow (performanceRow (clock s) k b) (performance s)
       | Some _ \<Rightarrow> updateMany (\<lambda>r. keyOfDay r = k) (changeDay (clock s) b) (performance s))\<rparr>\<rparr>)"

definition materializeGuardianPerformance :: "backfill_input \<Rightarrow> (warehouse, int) handler" where
  "materializeGuardianPerformance input =
     andThen (reads (\<lambda>w. bucketBy dayKey emptyGuardianBucket addAssignment
       (assignmentsOfWindow input (source w)))) (\<lambda>bucket.
     andThen (forEach bucket upsertDay) (\<lambda>_.
     ok (int (length bucket))))"

section \<open>Runs of the materializer\<close>

text \<open>\<open>try ... finally\<close>.\<close>

definition finallyDo :: "('s \<Rightarrow> 's) \<Rightarrow> ('s, 'a) handler \<Rightarrow> ('s, 'a) handler" where
  "finallyDo cleanup body = (\<lambda>s. case body s of (r, s') \<Rightarrow> (r, cleanup s'))"

text \<open>The rows written to the two tables; \<open>None\<close> is a run that was skipped.\<close>

definition backfillWindow :: "backfill_input \<Rightarrow> (warehouse, (int \<times> int) option) handler" where
  "backfillWindow input =
     andThen (reads running) (\<lambda>busy.
     if busy then ok None
     else andThen (writes (\<lambda>w. w\<lparr>running := True\<rparr>)) (\<lambda>_.
       finallyDo (\<lambda>w. w\<lparr>running := False\<rparr>) (
         andThen (materializeJobFacts input) (\<lambda>jobRowsWritten.
         andThen (materializeGuardianPerformance input) (\<lambda>guardianRowsWritten.
         ok (Some (jobRowsWritten, guardianRowsWritten)))))))"

definition windowUpTo :: "int \<Rightarrow> instant \<Rightarrow> backfill_input" where
  "windowUpTo days t = \<lparr>bi_from = t - days * 24 * 60 * 60 * 1000, bi_to = t,
     bi_district = None, bi_organizationId = None, bi_guardianId = None\<rparr>"

definition refreshRecentWindow :: "(warehouse, (int \<times> int) option) handler" where
  "refreshRecentWindow = andThen (reads (\<lambda>w. clock (source w))) (\<lambda>t. backfillWindow (windowUpTo 2 t))"

section \<open>Key figures\<close>

definition percentile :: "rat list \<Rightarrow> rat \<Rightarrow> rat option" where
  "percentile values p = (if values = [] then None else
     let sorted = sort values;
         rank = \<lceil>p / 100 * of_nat (length sorted)\<rceil> - 1;
         idx = max 0 (min (int (length sorted) - 1) rank)
     in Some (toFixed 2 (sorted ! nat idx)))"

definition safeRate :: "int \<Rightarrow> int \<Rightarrow> rat" where
  "safeRate numerator denominator =
     (if denominator > 0 then toFixed 4 (of_int numerator / of_int denominator) else 0)"

record kpi_summary =
  k_jobsCreated :: int
  k_jobsWithAcceptedOffer :: int
  k_totalOffers :: int
  k_acceptedOffers :: int
  k_expiredOffers :: int
  k_noShowAssignments :: int
  k_noShowManual :: int
  k_noShowSystem :: int
  k_jobsFailed :: int
  k_dispatchFailuresByReason :: "(dispatch_failure option \<times> int) list"
  k_dispatchConversionRate :: rat
  k_offerAcceptanceRate :: rat
  k_offerExpiryRate :: rat
  k_noShowRate :: rat
  k_dispatchFailureRate :: rat
  k_timeToFirstOffer :: "rat option \<times> rat option"
  k_timeToAccept :: "rat option \<times> rat option"
  k_timeToOnSite :: "rat option \<times> rat option"
  k_timeToComplete :: "rat option \<times> rat option"

definition jobsCreatedIn :: "instant \<Rightarrow> instant \<Rightarrow> sys \<Rightarrow> job list" where
  "jobsCreatedIn from' to' s = findMany (\<lambda>j. from' \<le> j_createdAt j \<and> j_createdAt j \<le> to') (jobs s)"

definition offersOfJobsIn :: "instant \<Rightarrow> instant \<Rightarrow> sys \<Rightarrow> assignment list" where
  "offersOfJobsIn from' to' s = findMany (\<lambda>a. case jobOf (a_jobId a) s of None \<Rightarrow> False
     | Some j \<Rightarrow> from' \<le> j_createdAt j \<and> j_createdAt j \<le> to') (assignments s)"

definition countOf :: "'k \<Rightarrow> ('k \<times> int) list \<Rightarrow> int" where
  "countOf k groups = (case map_of groups k of None \<Rightarrow> 0 | Some n \<Rightarrow> n)"

text \<open>Median and 95th percentile of the figures that are not negative.\<close>

definition latency :: "rat list \<Rightarrow> rat option \<times> rat option" where
  "latency minutes = (let v = filter (\<lambda>x. x \<ge> 0) minutes in (percentile v 50, percentile v 95))"

definition timeToFirstOffer :: "sys \<Rightarrow> job \<Rightarrow> rat list" where
  "timeToFirstOffer s j = List.map (\<lambda>a. minutesBetween (j_createdAt j) (a_offerSentAt a))
     (take 1 (orderByAsc a_offerSentAt (offersOf s j)))"

definition sinceAccepted :: "(assignment \<Rightarrow> instant option) \<Rightarrow> assignment list \<Rightarrow> rat list" where
  "sinceAccepted column rows = concat (List.map (\<lambda>a. case (a_acceptedAt a, column a) of
     (Some x, Some y) \<Rightarrow> [minutesBetween x y] | _ \<Rightarrow> []) rows)"

definition kpiSummary :: "instant option \<Rightarrow> instant option \<Rightarrow> sys \<Rightarrow> kpi_summary" where
  "kpiSummary from' to' s =
     (let start = (case from' of None \<Rightarrow> clock s - 30 * 24 * 60 * 60 * 1000 | Some t \<Rightarrow> t);
          finish = (case to' of None \<Rightarrow> clock s | Some t \<Rightarrow> t);
          jobRows = jobsCreatedIn start finish s;
          offers = offersOfJobsIn start finish s;
          failed = findMany (\<lambda>j. j_status j = J_FAILED) jobRows;
          accepted = findMany (\<lambda>a. a_acceptedAt a \<noteq> None) offers;
          noShows = groupCount a_noShowTriggerType (findMany (\<lambda>a. a_status a = A_NO_SHOW) offers);
          jobsCreated = int (length jobRows);
          jobsAccepted = int (length (toSet (List.map a_jobId accepted)));
          totalOffers = int (length offers);
          acceptedOffers = int (length accepted);
          expiredOffers = countWhere (\<lambda>a. a_status a = A_EXPIRED) offers;
          noShowTotal = sum_list (List.map snd noShows)
      in \<lparr>k_jobsCreated = jobsCreated, k_jobsWithAcceptedOffer = jobsAccepted,
          k_totalOffers = totalOffers, k_acceptedOffers = acceptedOffers,
          k_expiredOffers = expiredOffers, k_noShowAssignments = noShowTotal,
          k_noShowManual = countOf (Some NS_MANUAL) noShows, k_noShowSystem = countOf (Some NS_SYSTEM) noShows,
          k_jobsFailed = int (length failed),
          k_dispatchFailuresByReason = groupCount j_dispatchFailureReason failed,
          k_dispatchConversionRate = safeRate jobsAccepted jobsCreated,
          k_offerAcceptanceRate = safeRate acceptedOffers totalOffers,
          k_offerExpiryRate = safeRate expiredOffers totalOffers,
          k_noShowRate = safeRate noShowTotal acceptedOffers,
          k_dispatchFailureRate = safeRate (int (length failed)) jobsCreated,
          k_timeToFirstOffer = latency (concat (List.map (timeToFirstOffer s) jobRows)),
          k_timeToAccept = latency (concat (List.map (\<lambda>a. case a_acceptedAt a of None \<Rightarrow> []
             | Some t \<Rightarrow> [minutesBetween (a_offerSentAt a) t]) accepted)),
          k_timeToOnSite = latency (sinceAccepted a_arrivedAt accepted),
          k_timeToComplete = latency (sinceAccepted a_completedAt accepted)\<rparr>)"

section \<open>The reports of the administration\<close>

text \<open>The dates of a filter are compared as dates, as the column is one.\<close>

definition jobFacts :: "string option \<Rightarrow> instant option \<Rightarrow> instant option \<Rightarrow> (warehouse, job_facts list) handler" where
  "jobFacts district from' to' =
     andThen (reads (\<lambda>w. clock (source w))) (\<lambda>t.
     andThen (backfillWindow \<lparr>bi_from = (case from' of None \<Rightarrow> t - 7 * 24 * 60 * 60 * 1000 | Some x \<Rightarrow> x),
       bi_to = (case to' of None \<Rightarrow> t | Some x \<Rightarrow> x), bi_district = district,
       bi_organizationId = None, bi_guardianId = None\<rparr>) (\<lambda>_.
     reads (\<lambda>w. take 100 (orderByDesc jf_date (findMany (\<lambda>r.
       (filtersDistrict district \<longrightarrow> Some (jf_district r) = district) \<and>
       (case from' of None \<Rightarrow> True | Some x \<Rightarrow> dayOf x \<le> jf_date r) \<and>
       (case to' of None \<Rightarrow> True | Some x \<Rightarrow> jf_date r \<le> dayOf x)) (jobFactsDaily w))))))"

definition guardianPerformance :: "id option \<Rightarrow> (warehouse, performance_daily list) handler" where
  "guardianPerformance guardianId =
     andThen (reads (\<lambda>w. clock (source w))) (\<lambda>t.
     andThen (backfillWindow ((windowUpTo 7 t)\<lparr>bi_guardianId := guardianId\<rparr>)) (\<lambda>_.
     reads (\<lambda>w. take 100 (orderByDesc f_date (findMany (\<lambda>r.
       case guardianId of None \<Rightarrow> True | Some g \<Rightarrow> f_guardianId r = g) (performance (source w)))))))"

record dashboard_view =
  dv_jobCount :: int
  dv_activeGuardians :: int
  dv_pendingOrgVerifications :: int
  dv_pendingGuardianVerifications :: int
  dv_totalRevenue :: rat
  dv_kpis :: kpi_summary

definition dashboard :: "(warehouse, dashboard_view) handler" where
  "dashboard = reads (\<lambda>w. let s = source w in
     \<lparr>dv_jobCount = int (length (jobs s)),
      dv_activeGuardians = countWhere (\<lambda>g. g_status g = G_ACTIVE) (guardians s),
      dv_pendingOrgVerifications = countWhere (\<lambda>o'. o_verificationStatus o' = V_PENDING) (orgs s),
      dv_pendingGuardianVerifications = countWhere (\<lambda>g. g_verificationStatus g = GV_PENDING) (guardians s),
      dv_totalRevenue = sum_list (List.map jf_totalRevenue (jobFactsDaily w)),
      dv_kpis = kpiSummary None None s\<rparr>)"

section \<open>What a map of buckets holds\<close>

lemma map_of_buckets:
  "map_of (fold (intoBucket key fresh add) rows bucket) k =
     (if filter (\<lambda>x. key x = k) rows = [] then map_of bucket k
      else Some (fold add (filter (\<lambda>x. key x = k) rows)
        (case map_of bucket k of None \<Rightarrow> fresh | Some r \<Rightarrow> r)))"
  by (induction rows arbitrary: bucket) (auto simp: intoBucket_def Let_def update_conv' split: option.split)

lemma map_of_bucketBy:
  "map_of (bucketBy key fresh add rows) k =
     (let mine = filter (\<lambda>x. key x = k) rows in if mine = [] then None else Some (fold add mine fresh))"
  by (simp add: bucketBy_def map_of_buckets Let_def)

lemma distinct_bucketBy: "distinct (List.map fst (bucketBy key fresh add rows))"
proof -
  have "distinct (List.map fst bucket) \<Longrightarrow>
      distinct (List.map fst (fold (intoBucket key fresh add) rows bucket))" for bucket
    by (induction rows arbitrary: bucket) (auto simp: intoBucket_def Let_def intro: distinct_update)
  then show ?thesis
    by (simp add: bucketBy_def)
qed

section \<open>What an upsert of all buckets leaves\<close>

text \<open>
  A daily table: an upsert writes every column that is not part of the key, whether the row is new
  or not, and touches nothing else.  Then the row of a key is that of its bucket, and the rows of
  the other keys stay.
\<close>

locale daily_table =
  fixes upsert :: "'k \<times> 'b \<Rightarrow> ('s, unit) handler"
    and row :: "'k \<Rightarrow> 's \<Rightarrow> 'r option"
    and written :: "'s \<Rightarrow> 'k \<Rightarrow> 'b \<Rightarrow> 'r"
    and rest :: "'s \<Rightarrow> 'o"
  assumes answers: "fst (upsert i s) = Inr ()"
    and row_upsert: "row k (snd (upsert (k', b) s)) = (if k = k' then Some (written s k' b) else row k s)"
    and written_rest: "rest s = rest t \<Longrightarrow> written s k b = written t k b"
    and rest_upsert: "rest (snd (upsert i s)) = rest s"
begin

lemma upsert_all:
  assumes "distinct (List.map fst buckets)"
  obtains s' where "forEach buckets upsert s = (Inr (), s')" "rest s' = rest s"
    "\<forall>k. row k s' = (case map_of buckets k of None \<Rightarrow> row k s | Some b \<Rightarrow> Some (written s k b))"
proof -
  have "\<exists>s'. forEach buckets upsert s = (Inr (), s') \<and> rest s' = rest s \<and>
      (\<forall>k. row k s' = (case map_of buckets k of None \<Rightarrow> row k s | Some b \<Rightarrow> Some (written s k b)))"
    using assms
  proof (induction buckets arbitrary: s)
    case (Cons i buckets)
    obtain k' b where i: "i = (k', b)"
      by (cases i)
    define s1 where "s1 = snd (upsert i s)"
    have first: "upsert i s = (Inr (), s1)"
      using answers [of i s] by (cases "upsert i s") (simp add: s1_def)
    have absent: "map_of buckets k' = None"
      using Cons.prems by (simp add: i map_of_eq_None_iff)
    obtain s' where s': "forEach buckets upsert s1 = (Inr (), s')" "rest s' = rest s1"
      "\<forall>k. row k s' = (case map_of buckets k of None \<Rightarrow> row k s1 | Some b \<Rightarrow> Some (written s1 k b))"
      using Cons.IH [of s1] Cons.prems by auto
    have rest: "rest s1 = rest s"
      by (simp add: s1_def rest_upsert)
    have "forEach (i # buckets) upsert s = (Inr (), s')"
      using s'(1) by (simp add: andThen_def first)
    moreover have "row k s' = (case map_of (i # buckets) k of None \<Rightarrow> row k s | Some b \<Rightarrow> Some (written s k b))" for k
      using s'(3) absent row_upsert [of k k' b s] written_rest [OF rest]
      by (auto simp: i s1_def split: option.split)
    ultimately show ?case
      using s'(2) rest by auto
  qed simp
  then show thesis
    using that by blast
qed

end

lemma findUnique_upsert:
  assumes "\<And>r. key (f r) = key r" and "key new = k'" and "\<And>r. key r = k' \<Longrightarrow> f r = new"
  shows "findUnique key k (case findUnique key k' rows of None \<Rightarrow> createRow new rows
      | Some _ \<Rightarrow> updateMany (\<lambda>r. key r = k') f rows) =
    (if k = k' then Some new else findUnique key k rows)"
proof -
  have changed: "findUnique key k (updateMany (\<lambda>r. key r = k') f rows) =
      (if k = k' then map_option f (findUnique key k rows) else findUnique key k rows)" for k
    using assms(1) by (induction rows) (auto simp: updateMany_def)
  have created: "findUnique key k (createRow new rows) =
      (case findUnique key k rows of None \<Rightarrow> if k = k' then Some new else None | Some x \<Rightarrow> Some x)" for k
    using assms(2) by (induction rows) (auto simp: createRow_def)
  show ?thesis
    using assms(3) by (auto simp: changed created split: option.split dest: findUnique_SomeD)
qed

interpretation facts: daily_table upsertFacts
  "\<lambda>k w. findUnique keyOfFacts k (jobFactsDaily w)"
  "\<lambda>w. factsRow (clock (source w))" "\<lambda>w. (source w, running w)"
proof
  have change: "keyOfFacts (changeFacts t b r) = keyOfFacts r"
    "keyOfFacts (factsRow t k b) = k"
    "keyOfFacts r = k \<Longrightarrow> changeFacts t b r = factsRow t k b" for t b r k
    by (auto simp: keyOfFacts_def changeFacts_def factsRow_def split: prod.split)
  show "findUnique keyOfFacts k (jobFactsDaily (snd (upsertFacts (k', b) w))) =
      (if k = k' then Some (factsRow (clock (source w)) k' b) else findUnique keyOfFacts k (jobFactsDaily w))"
    for k k' b w
    by (simp add: upsertFacts_def findUnique_upsert [OF change])
qed (auto simp: upsertFacts_def split: prod.splits)

interpretation days: daily_table upsertDay
  "\<lambda>k w. findUnique keyOfDay k (performance (source w))"
  "\<lambda>w. performanceRow (clock (source w))"
  "\<lambda>w. ((source w)\<lparr>performance := []\<rparr>, jobFactsDaily w, running w)"
proof
  have change: "keyOfDay (changeDay t b r) = keyOfDay r"
    "keyOfDay (performanceRow t k b) = k"
    "keyOfDay r = k \<Longrightarrow> changeDay t b r = performanceRow t k b" for t b r k
    by (auto simp: keyOfDay_def changeDay_def performanceRow_def)
  show "findUnique keyOfDay k (performance (source (snd (upsertDay (k', b) w)))) =
      (if k = k' then Some (performanceRow (clock (source w)) k' b)
       else findUnique keyOfDay k (performance (source w)))"
    for k k' b w
    by (simp add: upsertDay_def Let_def findUnique_upsert [OF change])
next
  fix s t :: warehouse and k b
  assume "((source s)\<lparr>performance := []\<rparr>, jobFactsDaily s, running s) =
    ((source t)\<lparr>performance := []\<rparr>, jobFactsDaily t, running t)"
  then have "clock ((source s)\<lparr>performance := []\<rparr>) = clock ((source t)\<lparr>performance := []\<rparr>)"
    by simp
  then show "performanceRow (clock (source s)) k b = performanceRow (clock (source t)) k b"
    by simp
qed (auto simp: upsertDay_def Let_def split: prod.splits)

section \<open>The reference: counting the rows of a key\<close>

text \<open>What a row says of the jobs or assignments that have its key.\<close>

definition responseMinutes :: "assignment list \<Rightarrow> rat list" where
  "responseMinutes rows = concat (List.map (\<lambda>a. case a_acceptedAt a of None \<Rightarrow> []
     | Some t \<Rightarrow> [minutesBetween (a_offerSentAt a) t]) rows)"

definition mean :: "rat list \<Rightarrow> rat option" where
  "mean xs = (if xs = [] then None else Some (toFixed 2 (sum_list xs / of_nat (length xs))))"

definition countedFacts :: "sys \<Rightarrow> facts_key \<Rightarrow> job list \<Rightarrow> job_facts" where
  "countedFacts s k js = (case k of (date, district, jobType, hour) \<Rightarrow>
     \<lparr>jf_date = date, jf_district = district, jf_jobType = jobType, jf_hourOfDay = hour,
      jf_jobCount = int (length js), jf_completedCount = countWhere (\<lambda>j. j_status j = J_COMPLETED) js,
      jf_cancelledCount = countWhere (\<lambda>j. j_status j = J_CANCELLED) js,
      jf_avgResponseMinutes = mean (responseMinutes (concat (List.map (offersOf s) js))),
      jf_totalRevenue = toFixed 2 (sum_list (List.map (revenueOf s) js)), jf_computedAt = clock s\<rparr>)"

definition countedDay :: "sys \<Rightarrow> instant \<times> id \<Rightarrow> assignment list \<Rightarrow> performance_daily" where
  "countedDay s k rows =
     (let assigned = countWhere (\<lambda>a. a_acceptedAt a \<noteq> None) rows;
          completed = countWhere (\<lambda>a. a_status a = A_COMPLETED) rows
      in \<lparr>f_date = fst k, f_guardianId = snd k,
          f_noShowCount = countWhere (\<lambda>a. a_status a = A_NO_SHOW) rows,
          f_jobsAssigned = assigned, f_jobsCompleted = completed,
          f_completionRate = (if assigned > 0 then toFixed 2 (of_int completed / of_int assigned * 100) else 0),
          f_avgResponseMinutes = mean (responseMinutes rows), f_computedAt = clock s\<rparr>)"

lemma average_mean: "average (sum_list xs) (int (length xs)) = mean xs"
  by (auto simp: average_def mean_def)

lemma fold_addResponse:
  "fold addResponse rows item = item\<lparr>
     jb_responseMinutesTotal := jb_responseMinutesTotal item + sum_list (responseMinutes rows),
     jb_responseMinutesCount := jb_responseMinutesCount item + int (length (responseMinutes rows))\<rparr>"
  by (induction rows arbitrary: item) (simp_all add: addResponse_def responseMinutes_def split: option.split)

lemma responseMinutes_append: "responseMinutes (xs @ ys) = responseMinutes xs @ responseMinutes ys"
  by (simp add: responseMinutes_def)

lemma fold_addJob:
  "fold (addJob s) js item = (let responses = responseMinutes (concat (List.map (offersOf s) js)) in
     \<lparr>jb_jobCount = jb_jobCount item + int (length js),
      jb_completedCount = jb_completedCount item + countWhere (\<lambda>j. j_status j = J_COMPLETED) js,
      jb_cancelledCount = jb_cancelledCount item + countWhere (\<lambda>j. j_status j = J_CANCELLED) js,
      jb_totalRevenue = jb_totalRevenue item + sum_list (List.map (revenueOf s) js),
      jb_responseMinutesTotal = jb_responseMinutesTotal item + sum_list responses,
      jb_responseMinutesCount = jb_responseMinutesCount item + int (length responses)\<rparr>)"
  by (induction js arbitrary: item)
    (simp_all add: addJob_def fold_addResponse responseMinutes_append Let_def responseMinutes_def)

lemma fold_addAssignment:
  "fold addAssignment rows item = \<lparr>
     gb_jobsAssigned = gb_jobsAssigned item + countWhere (\<lambda>a. a_acceptedAt a \<noteq> None) rows,
     gb_jobsCompleted = gb_jobsCompleted item + countWhere (\<lambda>a. a_status a = A_COMPLETED) rows,
     gb_noShowCount = gb_noShowCount item + countWhere (\<lambda>a. a_status a = A_NO_SHOW) rows,
     gb_responseMinutesTotal = gb_responseMinutesTotal item + sum_list (responseMinutes rows),
     gb_responseMinutesCount = gb_responseMinutesCount item + int (length (responseMinutes rows))\<rparr>"
  by (induction rows arbitrary: item)
    (simp_all add: addAssignment_def responseMinutes_def split: option.split)

lemma factsRow_counted:
  "factsRow (clock s) k (fold (addJob s) js emptyJobBucket) = countedFacts s k js"
  by (simp add: factsRow_def countedFacts_def fold_addJob emptyJobBucket_def Let_def average_mean split: prod.split)

lemma performanceRow_counted:
  "performanceRow (clock s) k (fold addAssignment rows emptyGuardianBucket) = countedDay s k rows"
  by (simp add: performanceRow_def countedDay_def fold_addAssignment emptyGuardianBucket_def Let_def
      average_mean completionRate_def)

section \<open>What a run leaves\<close>

lemma keys_bucketBy: "set (List.map fst (bucketBy key fresh add rows)) = key ` set rows"
proof -
  have "k \<in> set (List.map fst (bucketBy key fresh add rows)) \<longleftrightarrow> k \<in> key ` set rows" for k
    using map_of_eq_None_iff [of "bucketBy key fresh add rows" k]
    by (auto simp: map_of_bucketBy Let_def filter_empty_conv split: if_splits)
  then show ?thesis
    by blast
qed

lemma length_bucketBy: "length (bucketBy key fresh add rows) = card (key ` set rows)"
  using distinct_card [OF distinct_bucketBy [of key fresh add rows]] keys_bucketBy [of key fresh add rows]
  by simp

lemma materializeJobFacts_run:
  obtains w' where "materializeJobFacts input w = (Inr (int (card (factsKey (source w) ` set (jobsOfWindow input (source w))))), w')"
    "source w' = source w" "running w' = running w"
    "\<forall>k. findUnique keyOfFacts k (jobFactsDaily w') =
      (let js = filter (\<lambda>j. factsKey (source w) j = k) (jobsOfWindow input (source w))
       in if js = [] then findUnique keyOfFacts k (jobFactsDaily w) else Some (countedFacts (source w) k js))"
proof -
  let ?bucket = "bucketBy (factsKey (source w)) emptyJobBucket (addJob (source w)) (jobsOfWindow input (source w))"
  obtain w' where w': "forEach ?bucket upsertFacts w = (Inr (), w')" "(source w', running w') = (source w, running w)"
    "\<forall>k. findUnique keyOfFacts k (jobFactsDaily w') = (case map_of ?bucket k of
        None \<Rightarrow> findUnique keyOfFacts k (jobFactsDaily w) | Some b \<Rightarrow> Some (factsRow (clock (source w)) k b))"
    by (rule facts.upsert_all [OF distinct_bucketBy])
  show thesis
    by (rule that [of w'])
      (use w' in \<open>simp_all add: materializeJobFacts_def andThen_def length_bucketBy map_of_bucketBy
        factsRow_counted Let_def\<close>)
qed

lemma materializeGuardianPerformance_run:
  obtains w' where "materializeGuardianPerformance input w =
      (Inr (int (card (dayKey ` set (assignmentsOfWindow input (source w))))), w')"
    "(source w')\<lparr>performance := []\<rparr> = (source w)\<lparr>performance := []\<rparr>"
    "jobFactsDaily w' = jobFactsDaily w" "running w' = running w"
    "\<forall>k. findUnique keyOfDay k (performance (source w')) =
      (let rows = filter (\<lambda>a. dayKey a = k) (assignmentsOfWindow input (source w))
       in if rows = [] then findUnique keyOfDay k (performance (source w)) else Some (countedDay (source w) k rows))"
proof -
  let ?bucket = "bucketBy dayKey emptyGuardianBucket addAssignment (assignmentsOfWindow input (source w))"
  obtain w' where w': "forEach ?bucket upsertDay w = (Inr (), w')"
    "((source w')\<lparr>performance := []\<rparr>, jobFactsDaily w', running w') =
       ((source w)\<lparr>performance := []\<rparr>, jobFactsDaily w, running w)"
    "\<forall>k. findUnique keyOfDay k (performance (source w')) = (case map_of ?bucket k of
        None \<Rightarrow> findUnique keyOfDay k (performance (source w))
      | Some b \<Rightarrow> Some (performanceRow (clock (source w)) k b))"
    by (rule days.upsert_all [OF distinct_bucketBy])
  show thesis
    by (rule that [of w'])
      (use w' in \<open>simp_all add: materializeGuardianPerformance_def andThen_def length_bucketBy map_of_bucketBy
        performanceRow_counted Let_def\<close>)
qed

text \<open>
  C8: A run that is not skipped writes one row for every hour with a job and every day of a guardian
  with an assignment in its window, and each of these rows is the count of exactly the jobs, or
  assignments, of the window that fall on it - whatever the row said before.  All other rows stay.
  The backend changes in its table of guardian days only, which is a change of master data.
\<close>

theorem statistics_are_counts:
  assumes "\<not> running w"
  shows "\<exists>w'. let s = source w; js = jobsOfWindow input s; rows = assignmentsOfWindow input s in
    backfillWindow input w = (Inr (Some (int (card (factsKey s ` set js)), int (card (dayKey ` set rows)))), w') \<and>
    (\<forall>k. findUnique keyOfFacts k (jobFactsDaily w') =
      (if filter (\<lambda>j. factsKey s j = k) js = [] then findUnique keyOfFacts k (jobFactsDaily w)
       else Some (countedFacts s k (filter (\<lambda>j. factsKey s j = k) js)))) \<and>
    (\<forall>k. findUnique keyOfDay k (performance (source w')) =
      (if filter (\<lambda>a. dayKey a = k) rows = [] then findUnique keyOfDay k (performance s)
       else Some (countedDay s k (filter (\<lambda>a. dayKey a = k) rows)))) \<and>
    \<not> running w' \<and> masterDataChange s (source w')"
proof -
  let ?w = "w\<lparr>running := True\<rparr>"
  obtain w1 where w1: "materializeJobFacts input ?w = (Inr (int (card (factsKey (source ?w) ` set (jobsOfWindow input (source ?w))))), w1)"
    "source w1 = source ?w" "\<forall>k. findUnique keyOfFacts k (jobFactsDaily w1) =
      (let js = filter (\<lambda>j. factsKey (source ?w) j = k) (jobsOfWindow input (source ?w))
       in if js = [] then findUnique keyOfFacts k (jobFactsDaily ?w) else Some (countedFacts (source ?w) k js))"
    by (rule materializeJobFacts_run)
  obtain w2 where w2: "materializeGuardianPerformance input w1 =
      (Inr (int (card (dayKey ` set (assignmentsOfWindow input (source w1))))), w2)"
    "(source w2)\<lparr>performance := []\<rparr> = (source w1)\<lparr>performance := []\<rparr>" "jobFactsDaily w2 = jobFactsDaily w1"
    "\<forall>k. findUnique keyOfDay k (performance (source w2)) =
      (let rows = filter (\<lambda>a. dayKey a = k) (assignmentsOfWindow input (source w1))
       in if rows = [] then findUnique keyOfDay k (performance (source w1)) else Some (countedDay (source w1) k rows))"
    by (rule materializeGuardianPerformance_run)
  have "backfillWindow input w = (Inr (Some (int (card (factsKey (source w) ` set (jobsOfWindow input (source w)))),
      int (card (dayKey ` set (assignmentsOfWindow input (source w)))))), w2\<lparr>running := False\<rparr>)"
    using assms w1(1,2) w2(1) by (simp add: backfillWindow_def finallyDo_def andThen_def)
  moreover have "masterDataChange (source w) (source w2)"
    using w1(2) w2(2) by (cases "source w"; cases "source w2") (simp add: masterDataChange_def)
  ultimately show ?thesis
    using w1(2,3) w2(3,4)
    by (intro exI [of _ "w2\<lparr>running := False\<rparr>"]) (simp add: Let_def)
qed

text \<open>
  Two jobs of one hour, of which a later refresh counts the second only: its window of two days
  begins within the hour, and the row is overwritten.
\<close>

definition jobAt :: "id \<Rightarrow> instant \<Rightarrow> job" where
  "jobAt jid t = newJob jid ''JOB-197001010001'' (booking_of 1) 7 (hd (billingPolicies town)) t 3600000 True"

definition archive :: "instant \<Rightarrow> warehouse" where
  "archive t = \<lparr>source = town\<lparr>jobs := [jobAt 10 3600000, jobAt 11 5400000], clock := t\<rparr>,
     jobFactsDaily = [], running = False\<rparr>"

definition hourOfOne :: facts_key where
  "hourOfOne = (0, ''Gasabo'', STANDARD_GUARDIAN, 1)"

lemma refresh_counts_two:
  "map_option jf_jobCount (findUnique keyOfFacts hourOfOne
     (jobFactsDaily (snd (refreshRecentWindow (archive 7200000))))) = Some 2"
  by code_simp

lemma refresh_forgets_one:
  "map_option jf_jobCount (findUnique keyOfFacts hourOfOne
     (jobFactsDaily (snd (refreshRecentWindow
       ((snd (refreshRecentWindow (archive 7200000)))\<lparr>source := source (archive 177000000)\<rparr>))))) = Some 1"
  by code_simp

lemma statistics_are_counts_witness:
  "\<exists>w' r. findUnique keyOfFacts hourOfOne (jobFactsDaily w') = Some r \<and> jf_jobCount r = 2 \<and>
     backfillWindow (windowUpTo 2 7200000) (archive 7200000) = (Inr (Some (1, 0)), w')"
proof -
  let ?s = "source (archive 7200000)" and ?input = "windowUpTo 2 7200000"
  have shape: "card (factsKey ?s ` set (jobsOfWindow ?input ?s)) = 1" "assignmentsOfWindow ?input ?s = []"
    "filter (\<lambda>j. factsKey ?s j = hourOfOne) (jobsOfWindow ?input ?s) \<noteq> []"
    "jf_jobCount (countedFacts ?s hourOfOne (filter (\<lambda>j. factsKey ?s j = hourOfOne) (jobsOfWindow ?input ?s))) = 2"
    by code_simp+
  have idle: "\<not> running (archive 7200000)"
    by (simp add: archive_def)
  obtain w' where w': "backfillWindow ?input (archive 7200000) = (Inr (Some (1, 0)), w')"
    "\<forall>k. findUnique keyOfFacts k (jobFactsDaily w') =
      (if filter (\<lambda>j. factsKey ?s j = k) (jobsOfWindow ?input ?s) = [] then findUnique keyOfFacts k (jobFactsDaily (archive 7200000))
       else Some (countedFacts ?s k (filter (\<lambda>j. factsKey ?s j = k) (jobsOfWindow ?input ?s))))"
    using statistics_are_counts [OF idle, of ?input] shape(1,2) unfolding Let_def by auto
  show ?thesis
    using w'(1) spec [OF w'(2), of hourOfOne] shape(3,4) by auto
qed

text \<open>
  A guardian that accepted on one day and failed to appear on the next: the report of the no-show
  counted it on the second day, and a refresh counts it on the first day again.
\<close>

definition missedShift :: assignment where
  "missedShift = (newAssignment 12 10 2 1 3600000 3900000 None)\<lparr>a_status := A_NO_SHOW,
     a_acceptedAt := Some 3700000, a_noShowAt := Some 90000000\<rparr>"

definition afterNoShow :: warehouse where
  "afterNoShow = (let s = (source (archive 90000000))\<lparr>assignments := [missedShift]\<rparr> in
     \<lparr>source = snd (countNoShow 2 s), jobFactsDaily = [], running = False\<rparr>)"

lemma no_show_counted_twice:
  "sum_list (List.map f_noShowCount (performance (source afterNoShow))) = 1"
  "sum_list (List.map f_noShowCount (performance (source (snd (refreshRecentWindow afterNoShow))))) = 2"
  by code_simp+

section \<open>Key figures\<close>

lemma toFixed_nonneg: "0 \<le> x \<Longrightarrow> toFixed d x = of_int \<lfloor>x * 10 ^ d + 1 / 2\<rfloor> / 10 ^ d"
  by (simp add: toFixed_def)

lemma toFixed_share:
  assumes "0 \<le> x" and "x \<le> 1"
  shows "0 \<le> toFixed d x \<and> toFixed d x \<le> 1"
proof -
  have "x * 10 ^ d \<le> 1 * 10 ^ d"
    using assms(2) by (intro mult_right_mono) simp_all
  then have "\<lfloor>x * 10 ^ d + 1 / 2\<rfloor> \<le> \<lfloor>of_int (10 ^ d) + 1 / 2 :: rat\<rfloor>"
    by (intro floor_mono) simp
  also have "\<dots> = 10 ^ d"
    by (rule floor_unique) simp_all
  finally have "of_int \<lfloor>x * 10 ^ d + 1 / 2\<rfloor> \<le> (10 ^ d :: rat)"
    by (metis of_int_le_iff of_int_numeral of_int_power)
  then show ?thesis
    using assms(1) by (simp add: toFixed_nonneg)
qed

lemma safeRate_share:
  assumes "0 \<le> a" and "a \<le> b"
  shows "0 \<le> safeRate a b \<and> safeRate a b \<le> 1"
  using assms toFixed_share [of "of_int a / of_int b" 4] by (auto simp: safeRate_def)

lemma safeRate_per_accepted:
  assumes "0 \<le> a" and "0 \<le> b"
  shows "0 \<le> safeRate a b \<and> (safeRate a b \<le> 1 \<or> b < a) \<and>
    safeRate a b = (if b = 0 then 0 else toFixed 4 (of_int a / of_int b))"
proof -
  have "0 \<le> safeRate a b"
    using assms by (auto simp: safeRate_def toFixed_nonneg)
  then show ?thesis
    using safeRate_share [OF assms(1), of b] assms by (auto simp: safeRate_def)
qed

lemma jobs_of_offers:
  "a_jobId ` set (offersOfJobsIn t u s) \<subseteq> j_id ` set (jobsCreatedIn t u s)"
proof
  fix i assume "i \<in> a_jobId ` set (offersOfJobsIn t u s)"
  then obtain a where "i = a_jobId a" "a \<in> set (offersOfJobsIn t u s)"
    by (rule imageE)
  then have a: "i = a_jobId a"
      "case jobOf (a_jobId a) s of None \<Rightarrow> False | Some j \<Rightarrow> t \<le> j_createdAt j \<and> j_createdAt j \<le> u"
    by (simp_all add: offersOfJobsIn_def findMany_def)
  then obtain j where "jobOf (a_jobId a) s = Some j" "t \<le> j_createdAt j" "j_createdAt j \<le> u"
    by (auto split: option.splits)
  then show "i \<in> j_id ` set (jobsCreatedIn t u s)"
    using a(1) by (intro image_eqI [of _ _ j]) (auto simp: jobOf_def jobsCreatedIn_def findMany_def dest!: findUnique_SomeD)
qed

lemma length_toSet: "length (toSet xs) = card (set xs)"
  by (simp add: toSet_def length_remdups_card_conv)

lemma accepted_jobs_bound:
  "length (toSet (List.map a_jobId (findMany p (offersOfJobsIn t u s)))) \<le> length (jobsCreatedIn t u s)"
proof -
  have "card (set (List.map a_jobId (findMany p (offersOfJobsIn t u s)))) \<le> card (j_id ` set (jobsCreatedIn t u s))"
    using jobs_of_offers [of t u s] by (intro card_mono) (auto simp: findMany_def)
  also have "\<dots> \<le> card (set (jobsCreatedIn t u s))"
    by (rule card_image_le) simp
  also have "\<dots> \<le> length (jobsCreatedIn t u s)"
    by (rule card_length)
  finally show ?thesis
    by (simp add: length_toSet)
qed

lemma groupCount_total: "sum_list (List.map snd (groupCount key rows)) = int (length rows)"
proof -
  have grown: "sum_list (List.map snd (AList.update k (n + 1) groups)) =
      sum_list (List.map snd groups) + 1" if "map_of groups k = Some n \<or> map_of groups k = None \<and> n = 0"
    for k and n :: int and groups
    using that by (induction groups) auto
  have "sum_list (List.map snd (fold (intoBucket key 0 (\<lambda>_ n. n + 1)) rows groups)) =
      sum_list (List.map snd groups) + int (length rows)" for groups
    by (induction rows arbitrary: groups) (auto simp: intoBucket_def Let_def grown split: option.split)
  then show ?thesis
    by (simp add: groupCount_def bucketBy_def)
qed

lemma kpi_shares:
  "let k = kpiSummary from' to' s in
     0 \<le> k_dispatchConversionRate k \<and> k_dispatchConversionRate k \<le> 1 \<and>
     0 \<le> k_offerAcceptanceRate k \<and> k_offerAcceptanceRate k \<le> 1 \<and>
     0 \<le> k_offerExpiryRate k \<and> k_offerExpiryRate k \<le> 1 \<and>
     0 \<le> k_dispatchFailureRate k \<and> k_dispatchFailureRate k \<le> 1 \<and>
     k_jobsWithAcceptedOffer k \<le> k_jobsCreated k \<and> k_acceptedOffers k \<le> k_totalOffers k \<and>
     k_noShowAssignments k \<le> k_totalOffers k"
proof -
  define start where "start = (case from' of None \<Rightarrow> clock s - 30 * 24 * 60 * 60 * 1000 | Some t \<Rightarrow> t)"
  define finish where "finish = (case to' of None \<Rightarrow> clock s | Some t \<Rightarrow> t)"
  define js where "js = jobsCreatedIn start finish s"
  define offers where "offers = offersOfJobsIn start finish s"
  have part: "length (findMany p xs) \<le> length xs" for p and xs :: "'x list"
    by (simp add: findMany_def)
  have "countWhere (\<lambda>a. a_status a = A_EXPIRED) offers \<le> int (length offers)"
    by (simp add: countWhere_def)
  moreover have "int (length (toSet (List.map a_jobId (findMany (\<lambda>a. a_acceptedAt a \<noteq> None) offers)))) \<le> int (length js)"
    using accepted_jobs_bound by (simp add: js_def offers_def)
  ultimately show ?thesis
    by (simp add: kpiSummary_def Let_def safeRate_share part groupCount_total
        flip: start_def finish_def js_def offers_def)
qed

lemma kpi_no_show_rate:
  "k_noShowRate (kpiSummary t u s) =
     safeRate (k_noShowAssignments (kpiSummary t u s)) (k_acceptedOffers (kpiSummary t u s))"
  "0 \<le> k_noShowAssignments (kpiSummary t u s)" "0 \<le> k_acceptedOffers (kpiSummary t u s)"
  by (simp_all add: kpiSummary_def Let_def groupCount_total)

text \<open>
  C25: The rates of the dashboard: conversion, acceptance, expiry and dispatch failure are shares,
  never negative and never above one, whatever the window; jobs that were accepted are counted
  once.  The no-show rate is of another kind, the no-shows per accepted offer, to four digits: the
  no-shows are those of all offers of the window, and an offer marked as a no-show need not have
  been accepted, so the rate is bounded by one only when the no-shows do not outnumber the accepted
  offers; with no accepted offer it is zero, however many no-shows there were.
\<close>

theorem kpi_rates_are_shares:
  "let k = kpiSummary from' to' s in
     0 \<le> k_dispatchConversionRate k \<and> k_dispatchConversionRate k \<le> 1 \<and>
     0 \<le> k_offerAcceptanceRate k \<and> k_offerAcceptanceRate k \<le> 1 \<and>
     0 \<le> k_offerExpiryRate k \<and> k_offerExpiryRate k \<le> 1 \<and>
     0 \<le> k_dispatchFailureRate k \<and> k_dispatchFailureRate k \<le> 1 \<and>
     k_jobsWithAcceptedOffer k \<le> k_jobsCreated k \<and> k_acceptedOffers k \<le> k_totalOffers k \<and>
     k_noShowAssignments k \<le> k_totalOffers k \<and>
     0 \<le> k_noShowRate k \<and> (k_noShowRate k \<le> 1 \<or> k_acceptedOffers k < k_noShowAssignments k) \<and>
     k_noShowRate k = (if k_acceptedOffers k = 0 then 0
       else toFixed 4 (of_int (k_noShowAssignments k) / of_int (k_acceptedOffers k)))"
  using kpi_shares [of from' to' s] safeRate_per_accepted [OF kpi_no_show_rate(2,3) [of from' to' s]]
  unfolding Let_def kpi_no_show_rate(1) by - (elim conjE, intro conjI; assumption)

lemma count_sort: "countWhere p (sort xs) = countWhere p xs"
  by (metis countWhere_def filter_sort length_sort)

lemma sorted_prefix_count:
  assumes "sorted xs" and "i < length xs"
  shows "int (Suc i) \<le> countWhere (\<lambda>x. x \<le> xs ! i) xs" "countWhere (\<lambda>x. x < xs ! i) xs \<le> int i"
proof -
  have "filter (\<lambda>x. x \<le> xs ! i) (take (Suc i) xs) = take (Suc i) xs"
    using assms by (auto simp: filter_id_conv in_set_conv_nth sorted_nth_mono)
  then have "int (Suc i) \<le> countWhere (\<lambda>x. x \<le> xs ! i) (take (Suc i) xs)"
    using assms(2) by (simp add: countWhere_def)
  also have "\<dots> \<le> countWhere (\<lambda>x. x \<le> xs ! i) xs"
    using countWhere_append [of "\<lambda>x. x \<le> xs ! i" "take (Suc i) xs" "drop (Suc i) xs"]
    by (simp add: countWhere_nonneg)
  finally show "int (Suc i) \<le> countWhere (\<lambda>x. x \<le> xs ! i) xs" .
  have "filter (\<lambda>x. x < xs ! i) (drop i xs) = []"
    using assms by (auto simp: filter_empty_conv in_set_conv_nth not_less sorted_nth_mono)
  then have "countWhere (\<lambda>x. x < xs ! i) xs = countWhere (\<lambda>x. x < xs ! i) (take i xs)"
    using countWhere_append [of "\<lambda>x. x < xs ! i" "take i xs" "drop i xs"] by (simp add: countWhere_def)
  also have "\<dots> \<le> int i"
    by (simp add: countWhere_def) (metis length_filter_le length_take min.bounded_iff le_trans min.cobounded2 of_nat_mono min.commute)
  finally show "countWhere (\<lambda>x. x < xs ! i) xs \<le> int i" .
qed

text \<open>
  The percentile is the nearest rank: one of the values, such that at least \<open>p\<close> percent of them are
  not above it and less than \<open>p\<close> percent are below it.
\<close>

theorem percentile_is_nearest_rank:
  assumes "values \<noteq> []" and "0 < p" and "p \<le> 100"
  shows "\<exists>v. v \<in> set values \<and> percentile values p = Some (toFixed 2 v) \<and>
    p / 100 * of_nat (length values) \<le> of_int (countWhere (\<lambda>x. x \<le> v) values) \<and>
    of_int (countWhere (\<lambda>x. x < v) values) < p / 100 * of_nat (length values)"
proof -
  define n where "n = length values"
  define q where "q = p / 100 * of_nat n"
  define i where "i = nat (\<lceil>q\<rceil> - 1)"
  have n: "0 < n"
    using assms(1) by (simp add: n_def)
  have q: "0 < q"
    using assms(2) n by (simp add: q_def)
  have "q \<le> 1 * of_nat n"
    unfolding q_def using assms(3) by (intro mult_right_mono) simp_all
  then have ceil: "1 \<le> \<lceil>q\<rceil>" "\<lceil>q\<rceil> \<le> int n"
    using q by (simp_all add: ceiling_le_iff one_le_ceiling)
  then have i: "i < n" "int i = \<lceil>q\<rceil> - 1"
    using n by (auto simp: i_def)
  let ?v = "sort values ! i"
  have clamped: "nat (max 0 (min (int n - 1) (\<lceil>q\<rceil> - 1))) = i"
    using ceil i by linarith
  have "percentile values p = Some (toFixed 2 ?v)"
    using assms(1) clamped by (simp add: percentile_def Let_def n_def q_def)
  moreover have "?v \<in> set values"
    using i(1) nth_mem [of i "sort values"] by (simp add: n_def)
  moreover have "int (Suc i) \<le> countWhere (\<lambda>x. x \<le> ?v) values" "countWhere (\<lambda>x. x < ?v) values \<le> int i"
    using sorted_prefix_count [of "sort values" i] i(1) by (simp_all add: count_sort n_def)
  then have "of_int \<lceil>q\<rceil> \<le> (of_int (countWhere (\<lambda>x. x \<le> ?v) values) :: rat)"
    "of_int (countWhere (\<lambda>x. x < ?v) values) \<le> (of_int (\<lceil>q\<rceil> - 1) :: rat)"
    using i(2) by (simp_all only: of_int_le_iff)
  then have "q \<le> of_int (countWhere (\<lambda>x. x \<le> ?v) values)" "of_int (countWhere (\<lambda>x. x < ?v) values) < q"
    using le_of_int_ceiling [of q] ceiling_correct [of q] by linarith+
  ultimately show ?thesis
    by (auto simp: q_def n_def)
qed

lemma percentile_is_nearest_rank_witness:
  "\<exists>v. v \<in> set [30, 10, 20] \<and> percentile [30, 10, 20] 50 = Some (toFixed 2 v) \<and>
     countWhere (\<lambda>x. x < v) [30, 10, 20] \<le> 1"
proof -
  obtain v where "v \<in> set [30, 10, 20 :: rat]" "percentile [30, 10, 20] 50 = Some (toFixed 2 v)"
    "of_int (countWhere (\<lambda>x. x < v) [30, 10, 20]) < 50 / 100 * (of_nat (length [30, 10, 20 :: rat]) :: rat)"
    using percentile_is_nearest_rank [of "[30, 10, 20]" 50] by auto
  moreover from this(3) have "of_int (countWhere (\<lambda>x. x < v) [30, 10, 20]) < (of_int 2 :: rat)"
    by simp
  then have "countWhere (\<lambda>x. x < v) [30, 10, 20] < 2"
    by (simp only: of_int_less_iff)
  ultimately show ?thesis
    by (intro exI [of _ v]) simp
qed

end
