(* ===== verification/Inbox.thy ===== *)
theory Inbox
  imports Office
begin

text \<open>
  The in-app notifications (\<open>notifications/notifications.service.ts\<close>).  The other theories record a
  message only, as the services that send one do not use the answer; here it becomes a row of every
  user it goes to, which that user lists and marks as read, and which goes with the account.
\<close>

section \<open>The service\<close>

text \<open>\<open>notification.create\<close>; the foreign key rejects a user that does not exist.\<close>

definition createInApp ::
  "id \<Rightarrow> string \<Rightarrow> string \<Rightarrow> (string \<times> string) list option \<Rightarrow> unit call" where
  "createInApp userId title body payload = (\<lambda>s.
     if userOf userId s = None then (Inl (PrismaError ''P2003''), s)
     else (Inr (), s\<lparr>notices := createRow \<lparr>n_id = nextId (backend s), n_userId = userId, n_title = title,
         n_body = body, n_payload = payload, n_readAt = None, n_createdAt = clock (backend s)\<rparr> (notices s),
       backend := (backend s)\<lparr>nextId := Suc (nextId (backend s))\<rparr>\<rparr>))"

definition notifyUserInApp ::
  "id \<Rightarrow> string \<Rightarrow> string \<Rightarrow> (string \<times> string) list option \<Rightarrow> int call" where
  "notifyUserInApp userId title body payload =
     andThen (reads (\<lambda>s. userOf userId s)) (\<lambda>user.
     if user = None then ok 0
     else andThen (createInApp userId title body payload) (\<lambda>_. ok 1))"

definition notifyAll ::
  "id list \<Rightarrow> string \<Rightarrow> string \<Rightarrow> (string \<times> string) list option \<Rightarrow> int call" where
  "notifyAll userIds title body payload =
     andThen (forEach userIds (\<lambda>userId. createInApp userId title body payload)) (\<lambda>_.
     ok (int (length userIds)))"

definition notifyOrgOwnersInApp ::
  "id \<Rightarrow> string \<Rightarrow> string \<Rightarrow> (string \<times> string) list option \<Rightarrow> int call" where
  "notifyOrgOwnersInApp organizationId title body payload =
     andThen (reads (\<lambda>s. List.map m_userId (findMany (\<lambda>u. m_organizationId u = organizationId \<and> m_isOwner u)
       (orgUsers (backend s))))) (\<lambda>owners.
     notifyAll owners title body payload)"

definition notifyOpsAdminsInApp ::
  "string \<Rightarrow> string \<Rightarrow> (string \<times> string) list option \<Rightarrow> int call" where
  "notifyOpsAdminsInApp title body payload =
     andThen (reads (\<lambda>s. List.map u_id (findMany (\<lambda>u. OPS_ADMIN \<in> set (u_roles u) \<or> SUPER_ADMIN \<in> set (u_roles u))
       (users s)))) (\<lambda>opsUsers.
     notifyAll opsUsers title body payload)"

definition notifyGuardianInApp ::
  "id \<Rightarrow> string \<Rightarrow> string \<Rightarrow> (string \<times> string) list option \<Rightarrow> int call" where
  "notifyGuardianInApp guardianId title body payload =
     andThen (reads (\<lambda>s. guardianOf guardianId (backend s))) (\<lambda>found.
     case found of None \<Rightarrow> ok 0
     | Some g \<Rightarrow> andThen (createInApp (g_userId g) title body payload) (\<lambda>_. ok 1))"

definition listNotices :: "actor \<Rightarrow> pagination \<Rightarrow> (notice list \<times> page_meta) call" where
  "listNotices actor query = reads (\<lambda>s.
     paginated query (orderByDesc n_createdAt (findMany (\<lambda>n. n_userId n = sub actor) (notices s))))"

definition markRead :: "actor \<Rightarrow> id \<Rightarrow> notice call" where
  "markRead actor nid =
     andThen (reads (\<lambda>s. findFirst (\<lambda>n. n_id n = nid \<and> n_userId n = sub actor) (notices s))) (\<lambda>found.
     andThen (orThrow found (NotFound ''Notification not found'')) (\<lambda>n.
     andThen siteNow (\<lambda>t.
     andThen (writes (\<lambda>s. s\<lparr>notices := updateMany (\<lambda>x. n_id x = nid) (\<lambda>x. x\<lparr>n_readAt := Some t\<rparr>) (notices s)\<rparr>)) (\<lambda>_.
     ok (n\<lparr>n_readAt := Some t\<rparr>)))))"

definition markAllRead :: "actor \<Rightarrow> unit call" where
  "markAllRead actor = writes (\<lambda>s. s\<lparr>notices := updateMany (\<lambda>n. n_userId n = sub actor \<and> n_readAt n = None)
     (\<lambda>n. n\<lparr>n_readAt := Some (clock (backend s))\<rparr>) (notices s)\<rparr>)"

section \<open>Requests\<close>

datatype inbox_request =
    NotifyUserInApp id string string "(string \<times> string) list option"
  | NotifyOrgOwnersInApp id string string "(string \<times> string) list option"
  | NotifyOpsAdminsInApp string string "(string \<times> string) list option"
  | NotifyGuardianInApp id string string "(string \<times> string) list option"
  | ListNotices actor pagination
  | MarkRead actor id
  | MarkAllRead actor

primrec inbox :: "inbox_request \<Rightarrow> unit call" where
  "inbox (NotifyUserInApp u t b p) = silently (notifyUserInApp u t b p)"
| "inbox (NotifyOrgOwnersInApp u t b p) = silently (notifyOrgOwnersInApp u t b p)"
| "inbox (NotifyOpsAdminsInApp t b p) = silently (notifyOpsAdminsInApp t b p)"
| "inbox (NotifyGuardianInApp u t b p) = silently (notifyGuardianInApp u t b p)"
| "inbox (ListNotices a q) = silently (listNotices a q)"
| "inbox (MarkRead a n) = silently (markRead a n)"
| "inbox (MarkAllRead a) = markAllRead a"

text \<open>
  Who asks: a user, or (\<open>None\<close>) one of the services.  A step is about the user whose request it is or
  whose account it deletes; what else happens is any request of the identity services, any work of
  the backend and any edit of the master data.
\<close>

primrec asker :: "inbox_request \<Rightarrow> id option" where
  "asker (NotifyUserInApp u t b p) = None"
| "asker (NotifyOrgOwnersInApp u t b p) = None"
| "asker (NotifyOpsAdminsInApp t b p) = None"
| "asker (NotifyGuardianInApp u t b p) = None"
| "asker (ListNotices a q) = Some (sub a)"
| "asker (MarkRead a n) = Some (sub a)"
| "asker (MarkAllRead a) = Some (sub a)"

inductive inbox_step :: "'tok env \<Rightarrow> id option \<Rightarrow> site \<Rightarrow> site \<Rightarrow> bool" for E where
  request: "inbox_step E (asker r) s (snd (inbox r s))"
| account: "inbox_step E (deletes ev) s (snd (perform E ev s))"
| deletion: "inbox_step E (Some uid) s (snd (deleteUser E allowed uid actor mode s))"
| elsewhere: "ticks (backend s) b \<Longrightarrow> inbox_step E None s (s\<lparr>backend := b\<rparr>)"
| edits: "inbox_step E None s (s\<lparr>users := us, rolePermissions := ps, orgMemberRolePermissions := qs,
    orgProfiles := os, locationProfiles := ls, orgDocuments := ds, storedDocuments := cs\<rparr>)"

inductive_cases inbox_stepE: "inbox_step E who s s'"

text \<open>Deleting by e-mail is a sequence of deletions of single users.\<close>

interpretation inbox_runs: state_preorder "(\<lambda>a b. \<exists>who. inbox_step E who a b)\<^sup>*\<^sup>*"
  by unfold_locales auto

lemma bulk_deletion_steps:
  "(\<lambda>a b. \<exists>who. inbox_step E who a b)\<^sup>*\<^sup>* s (snd (bulkDeleteByEmail E allowed emails actor mode s))"
  unfolding bulkDeleteByEmail_def
  by (intro inbox_runs.rules inbox_runs.forCollect inbox_runs.tryCatch)
    (auto intro: inbox_step.deletion)

section \<open>Keys\<close>

definition inbox_ok :: "site \<Rightarrow> bool" where
  "inbox_ok s \<longleftrightarrow> distinct (List.map n_id (notices s)) \<and> (\<forall>n \<in> set (notices s). n_id n < nextId (backend s))"

definition mine :: "id \<Rightarrow> site \<Rightarrow> notice list" where
  "mine uid s = filter (\<lambda>n. n_userId n = uid) (notices s)"

text \<open>What a step that is not about the user may do to its notices: add some.\<close>

definition adds_only :: "id \<Rightarrow> site \<Rightarrow> site \<Rightarrow> bool" where
  "adds_only uid s s' \<longleftrightarrow> (inbox_ok s \<longrightarrow> inbox_ok s' \<and> prefix (mine uid s) (mine uid s'))"

interpretation adding: state_preorder "adds_only uid"
  by unfold_locales (auto simp: adds_only_def)

lemma adds_only_createInApp [step_rules]: "adds_only uid s (snd (createInApp u t b p s))"
  by (auto simp: adds_only_def createInApp_def inbox_ok_def mine_def createRow_def less_SucI)

lemma adds_only_notifyAll [step_rules]: "adds_only uid s (snd (notifyAll us t b p s))"
  unfolding notifyAll_def by (intro adding.rules step_rules)

lemma updateMany_readAt:
  "n_id ` set (updateMany q (\<lambda>n. n\<lparr>n_readAt := r\<rparr>) rows) = n_id ` set rows"
  "List.map n_id (updateMany q (\<lambda>n. n\<lparr>n_readAt := r\<rparr>) rows) = List.map n_id rows"
  by (induction rows) (auto simp: updateMany_def)

lemma adds_only_update:
  assumes "\<And>n. n \<in> set (notices s) \<Longrightarrow> q n \<Longrightarrow> inbox_ok s \<Longrightarrow> n_userId n \<noteq> uid"
  shows "adds_only uid s (s\<lparr>notices := updateMany q (\<lambda>n. n\<lparr>n_readAt := r\<rparr>) (notices s)\<rparr>)"
  unfolding adds_only_def
proof (intro impI conjI)
  assume ok: "inbox_ok s"
  then show "inbox_ok (s\<lparr>notices := updateMany q (\<lambda>n. n\<lparr>n_readAt := r\<rparr>) (notices s)\<rparr>)"
    by (auto simp: inbox_ok_def updateMany_readAt)
      (metis (no_types, lifting) imageE image_eqI updateMany_readAt(1))
  have "filter (\<lambda>n. n_userId n = uid) (updateMany q (\<lambda>n. n\<lparr>n_readAt := r\<rparr>) rows) =
      filter (\<lambda>n. n_userId n = uid) rows" if "set rows \<subseteq> set (notices s)" for rows
    using that assms ok by (induction rows) (auto simp: updateMany_def)
  then show "prefix (mine uid s) (mine uid (s\<lparr>notices := updateMany q (\<lambda>n. n\<lparr>n_readAt := r\<rparr>) (notices s)\<rparr>))"
    by (simp add: mine_def)
qed

lemma adds_only_markRead:
  assumes "sub actor \<noteq> uid"
  shows "adds_only uid s (snd (markRead actor nid s))"
proof (cases "findFirst (\<lambda>n. n_id n = nid \<and> n_userId n = sub actor) (notices s)")
  case None
  then show ?thesis
    by (simp add: markRead_def adding.refl)
next
  case (Some n)
  then have n: "n \<in> set (notices s)" "n_id n = nid" "n_userId n = sub actor"
    by (auto dest: findFirst_SomeD)
  have "n_userId x \<noteq> uid" if "x \<in> set (notices s)" "n_id x = nid" "inbox_ok s" for x
  proof -
    have "x = n"
      using that n distinct_key_unique [of n_id "notices s"] by (simp add: inbox_ok_def)
    then show ?thesis
      using n(3) assms by simp
  qed
  then show ?thesis
    using Some by (simp add: markRead_def adds_only_update)
qed

lemma adds_only_markAllRead:
  "sub actor \<noteq> uid \<Longrightarrow> adds_only uid s (snd (markAllRead actor s))"
  by (auto simp: markAllRead_def intro: adds_only_update)

lemma adds_only_inbox:
  assumes "asker r \<noteq> Some uid"
  shows "adds_only uid s (snd (inbox r s))"
  using assms
  by (cases r)
    (auto simp: silently_def notifyUserInApp_def notifyOrgOwnersInApp_def notifyOpsAdminsInApp_def
        notifyGuardianInApp_def listNotices_def adds_only_markAllRead
      intro!: adding.rules step_rules adds_only_markRead adding.refl split: option.split)

text \<open>A step that keeps the notifications of the others keeps those of a user it is not about.\<close>

lemma adds_only_mail_kept:
  assumes "mail_kept gone s s'" and "uid \<notin> gone"
  shows "adds_only uid s s'"
proof -
  have kept: "filter (\<lambda>n. n_userId n \<notin> gone) (notices s') = filter (\<lambda>n. n_userId n \<notin> gone) (notices s)"
    and part: "subseq (notices s') (notices s)" and grows: "nextId (backend s) \<le> nextId (backend s')"
    using assms(1) by (auto simp: mail_kept_def)
  have "mine uid r = filter (\<lambda>n. n_userId n = uid) (filter (\<lambda>n. n_userId n \<notin> gone) (notices r))" for r
    using assms(2) by (auto simp: mine_def intro!: filter_cong)
  then have "mine uid s' = mine uid s"
    by (simp only: kept)
  moreover have "inbox_ok s'" if ok: "inbox_ok s"
  proof -
    obtain zs where "notices s' = nths (notices s) zs"
      using part subseq_conv_nths by blast
    then have "distinct (List.map n_id (notices s'))" "set (notices s') \<subseteq> set (notices s)"
      using ok by (auto simp: inbox_ok_def nths_map [symmetric] distinct_nthsI dest: in_set_nthsD)
    then show ?thesis
      using ok grows by (auto simp: inbox_ok_def intro: less_le_trans)
  qed
  ultimately show ?thesis
    by (simp add: adds_only_def)
qed

lemma adds_only_step: "inbox_step E who s s' \<Longrightarrow> who \<noteq> Some uid \<Longrightarrow> adds_only uid s s'"
proof (erule inbox_stepE, goal_cases)
  case (2 ev)
  then show ?case
    using site_perform [of ev "set_option (deletes ev)" s E]
    by (auto simp: site_evolves_def intro!: adds_only_mail_kept)
next
  case (3 uid' allowed actor mode)
  then show ?case
    using mail_deleteUser [of uid' "{uid'}" s E allowed actor mode] by (auto intro!: adds_only_mail_kept)
qed (auto simp: ticks_def mail_kept_def intro: adds_only_inbox adds_only_mail_kept [of "{}"])

text \<open>
  C33: A notification is its user's alone: whatever the services and the other users ask for, in
  whatever order, whatever accounts but the user's own are created, changed or deleted, and whatever
  the backend does, it is neither deleted nor changed nor marked as read; new ones come after it.
\<close>

theorem inbox_is_private:
  assumes "inbox_ok s" and "(\<lambda>a b. \<exists>who. who \<noteq> Some uid \<and> inbox_step E who a b)\<^sup>*\<^sup>* s s'"
  shows "prefix (mine uid s) (mine uid s')"
proof -
  have "adds_only uid s s'"
    using assms(2) by (induction rule: rtranclp_induct) (auto intro: adding.refl adding.trans adds_only_step)
  then show ?thesis
    using assms(1) by (simp add: adds_only_def)
qed

definition told :: site where
  "told = snd (inbox (NotifyOrgOwnersInApp 9 ''Job created'' ''JOB-1'' None) office)"

definition passerBy :: actor where
  "passerBy = \<lparr>sub = 3, roles = [GUARDIAN], activeOrgId = None, orgId = None, organizationIds = [],
     actorGuardianId = Some 4\<rparr>"

lemma inbox_is_private_witness:
  "\<exists>n rest. mine 1 (snd (perform glass (SoftDeleteUser 2 passerBy) (snd (inbox (MarkRead passerBy 10) told)))) =
     n # rest \<and> n_readAt n = None"
proof -
  let ?s = "snd (inbox (MarkRead passerBy 10) told)"
  let ?R = "\<lambda>a b. \<exists>who. who \<noteq> Some 1 \<and> inbox_step glass who a b"
  have ok: "inbox_ok told"
    by code_simp
  have one: "List.map n_readAt (mine 1 told) = [None]"
    by code_simp
  have "asker (MarkRead passerBy 10) \<noteq> Some 1" "deletes (SoftDeleteUser 2 passerBy) \<noteq> Some 1"
    by (simp_all add: passerBy_def deletes_def)
  then have "?R told ?s" "?R ?s (snd (perform glass (SoftDeleteUser 2 passerBy) ?s))"
    using inbox_step.request inbox_step.account by blast+
  then have "?R\<^sup>*\<^sup>* told (snd (perform glass (SoftDeleteUser 2 passerBy) ?s))"
    by (rule converse_rtranclp_into_rtranclp [OF _ r_into_rtranclp])
  then have "prefix (mine 1 told) (mine 1 (snd (perform glass (SoftDeleteUser 2 passerBy) ?s)))"
    by (rule inbox_is_private [OF ok])
  then show ?thesis
    using one by (auto simp: prefix_def Cons_eq_map_conv)
qed

text \<open>What reading does: only one's own, for good, and at once.\<close>

lemma markRead_effect:
  assumes "inbox_ok s" and "n \<in> set (notices s)"
  shows "n_userId n \<noteq> sub actor \<Longrightarrow> markRead actor (n_id n) s = (Inl (NotFound ''Notification not found''), s)"
    and "n_userId n = sub actor \<Longrightarrow> markRead actor (n_id n) s =
      (Inr (n\<lparr>n_readAt := Some (clock (backend s))\<rparr>), s\<lparr>notices := updateMany (\<lambda>x. x = n)
        (\<lambda>x. x\<lparr>n_readAt := Some (clock (backend s))\<rparr>) (notices s)\<rparr>)"
proof -
  have only: "x = n" if "x \<in> set (notices s)" "n_id x = n_id n" for x
    using that assms distinct_key_unique [of n_id "notices s"] by (simp add: inbox_ok_def)
  {
    assume "n_userId n \<noteq> sub actor"
    then have "findFirst (\<lambda>x. n_id x = n_id n \<and> n_userId x = sub actor) (notices s) = None"
      using only by (auto simp: findFirst_None_iff simp del: not_None_eq)
    then show "markRead actor (n_id n) s = (Inl (NotFound ''Notification not found''), s)"
      by (simp add: markRead_def)
  next
    assume own: "n_userId n = sub actor"
    obtain x where x: "findFirst (\<lambda>x. n_id x = n_id n \<and> n_userId x = sub actor) (notices s) = Some x"
      using own assms(2) findFirst_None_iff [of "\<lambda>x. n_id x = n_id n \<and> n_userId x = sub actor" "notices s"]
      by (cases "findFirst (\<lambda>x. n_id x = n_id n \<and> n_userId x = sub actor) (notices s)") auto
    then have "x = n"
      using only by (auto dest: findFirst_SomeD)
    moreover have "updateMany (\<lambda>x. n_id x = n_id n) f (notices s) = updateMany (\<lambda>x. x = n) f (notices s)" for f
      by (rule updateMany_cong) (auto dest: only)
    ultimately show "markRead actor (n_id n) s =
      (Inr (n\<lparr>n_readAt := Some (clock (backend s))\<rparr>), s\<lparr>notices := updateMany (\<lambda>x. x = n)
        (\<lambda>x. x\<lparr>n_readAt := Some (clock (backend s))\<rparr>) (notices s)\<rparr>)"
      using x by (simp add: markRead_def)
  }
qed

lemma markAllRead_effect:
  "snd (markAllRead actor s) = s\<lparr>notices := List.map (\<lambda>n. if n_userId n = sub actor \<and> n_readAt n = None
     then n\<lparr>n_readAt := Some (clock (backend s))\<rparr> else n) (notices s)\<rparr>"
  by (simp add: markAllRead_def updateMany_def)

end
