(* ===== verification/Tracking.thy ===== *)
theory Tracking
  imports Jobs Workforce
begin

text \<open>
  Live tracking of a job (\<open>jobs/jobs.service.ts\<close>, \<open>common/geo.util.ts\<close>): where the guardians of the
  initial round are, how far from the site and how long they need.  The floating-point numbers of
  the geometry are real numbers here, so a distance is not computed but proved about; texts of
  coordinates are the numbers they stand for.
\<close>

section \<open>Distances and times\<close>

definition EARTH_RADIUS_M :: real where
  "EARTH_RADIUS_M = 6371000"

definition DEFAULT_SPEED_MPS :: rat where
  "DEFAULT_SPEED_MPS = 30 / (36 / 10)"

definition MIN_ETA_SPEED_MPS :: rat where
  "MIN_ETA_SPEED_MPS = 1"

text \<open>\<open>Math.atan2\<close>.\<close>

definition atan2 :: "real \<Rightarrow> real \<Rightarrow> real" where
  "atan2 y x =
     (if x > 0 then arctan (y / x)
      else if x < 0 then (if y \<ge> 0 then arctan (y / x) + pi else arctan (y / x) - pi)
      else if y > 0 then pi / 2 else if y < 0 then - pi / 2 else 0)"

definition toRad :: "real \<Rightarrow> real" where
  "toRad deg = deg * pi / 180"

definition haversine :: "real \<Rightarrow> real \<Rightarrow> real \<Rightarrow> real \<Rightarrow> real" where
  "haversine lat1 lon1 lat2 lon2 =
     (sin (toRad (lat2 - lat1) / 2))\<^sup>2 +
     cos (toRad lat1) * cos (toRad lat2) * (sin (toRad (lon2 - lon1) / 2))\<^sup>2"

definition haversineDistanceMeters :: "real \<Rightarrow> real \<Rightarrow> real \<Rightarrow> real \<Rightarrow> real" where
  "haversineDistanceMeters lat1 lon1 lat2 lon2 =
     (let a = haversine lat1 lon1 lat2 lon2
      in EARTH_RADIUS_M * (2 * atan2 (sqrt a) (sqrt (1 - a))))"

definition parseCoordinate :: "rat option \<Rightarrow> real option" where
  "parseCoordinate coordinate = map_option of_rat coordinate"

definition estimateEtaMinutes :: "int \<Rightarrow> rat option \<Rightarrow> int" where
  "estimateEtaMinutes distanceMeters speedMps =
     (let speed = (case speedMps of None \<Rightarrow> DEFAULT_SPEED_MPS
            | Some v \<Rightarrow> if v \<ge> MIN_ETA_SPEED_MPS then v else DEFAULT_SPEED_MPS);
          seconds = of_int distanceMeters / speed
      in max 1 \<lceil>seconds / 60\<rceil>)"

section \<open>The tracking answer\<close>

record tracked_guardian =
  tg_assignmentId :: id
  tg_status :: assignment_status
  tg_acceptedAt :: "instant option"
  tg_arrivedAt :: "instant option"
  tg_guardianId :: id
  tg_displayName :: "string option"
  tg_location :: current_location
  tg_distanceMeters :: "int option"
  tg_etaMinutes :: "int option"

text \<open>The first of the guardians is also the primary one; a job has its location by the foreign key.\<close>

record job_tracking =
  tr_jobId :: id
  tr_jobStatus :: job_status
  tr_staffing :: staffing_progress
  tr_primary :: tracked_guardian
  tr_destination :: "location_profile option"
  tr_assignedGuardians :: "tracked_guardian list"

definition shownName :: "id \<Rightarrow> site \<Rightarrow> string option" where
  "shownName gid s = Option.bind (guardianOf gid (backend s)) (\<lambda>g. Option.bind (userOf (g_userId g) s) (\<lambda>u.
     let trimmed = map_option (trimBy jsWhitespace) (u_fullName u)
     in if truthy trimmed then trimmed
        else if u_phoneNumber u \<noteq> [] then Some (u_phoneNumber u) else None))"

definition distanceTo :: "location_profile option \<Rightarrow> current_location \<Rightarrow> int option" where
  "distanceTo destination location =
     (case (parseCoordinate (cl_latitude location), parseCoordinate (cl_longitude location),
        parseCoordinate (map_option lo_latitude destination), parseCoordinate (map_option lo_longitude destination)) of
       (Some guardianLat, Some guardianLng, Some siteLat, Some siteLng) \<Rightarrow>
         Some \<lfloor>haversineDistanceMeters guardianLat guardianLng siteLat siteLng + 1 / 2\<rfloor>
     | _ \<Rightarrow> None)"

definition trackAssignment :: "location_profile option \<Rightarrow> assignment \<Rightarrow> tracked_guardian call" where
  "trackAssignment destination a =
     andThen (inBackend (getCurrent (a_guardianId a))) (\<lambda>location.
     andThen (reads (shownName (a_guardianId a))) (\<lambda>name.
     let distance = distanceTo destination location in
     ok \<lparr>tg_assignmentId = a_id a, tg_status = a_status a, tg_acceptedAt = a_acceptedAt a,
       tg_arrivedAt = a_arrivedAt a, tg_guardianId = a_guardianId a, tg_displayName = name,
       tg_location = location, tg_distanceMeters = distance,
       tg_etaMinutes = map_option (\<lambda>d. estimateEtaMinutes d (cl_speed location)) distance\<rparr>))"

definition trackJob :: "id \<Rightarrow> actor \<Rightarrow> job_tracking call" where
  "trackJob jobId actor =
     andThen (inBackend (getTracking jobId actor)) (\<lambda>found. case found of (staffing, rows) \<Rightarrow>
     andThen (reads (\<lambda>s. jobOf jobId (backend s))) (\<lambda>foundJob.
     andThen (orThrow foundJob (NotFound ''Job not found'')) (\<lambda>job.
     andThen (reads (\<lambda>s. findUnique lo_id (j_locationId job) (locationProfiles s))) (\<lambda>destination.
     andThen (forCollect rows (trackAssignment destination)) (\<lambda>assigned.
     ok \<lparr>tr_jobId = j_id job, tr_jobStatus = j_status job, tr_staffing = staffing,
       tr_primary = hd assigned, tr_destination = destination, tr_assignedGuardians = assigned\<rparr>)))))"

section \<open>Distances are distances\<close>

lemma haversine_product_bounds:
  fixes x y h :: real
  assumes "y - x = 2 * h"
  shows "cos x * cos y \<le> (cos h)\<^sup>2" and "- (sin h)\<^sup>2 \<le> cos x * cos y"
proof -
  have product: "cos x * cos y = (cos (y - x) + cos (y + x)) / 2"
    using cos_add [of y x] cos_diff [of y x] by simp
  have half: "cos (y - x) = 2 * (cos h)\<^sup>2 - 1"
    unfolding assms by (rule cos_double_cos)
  show "cos x * cos y \<le> (cos h)\<^sup>2"
    unfolding product half using cos_le_one [of "y + x"] by simp
  have "(sin h)\<^sup>2 = 1 - (cos h)\<^sup>2"
    by (rule sin_squared_eq)
  then show "- (sin h)\<^sup>2 \<le> cos x * cos y"
    unfolding product half by (simp, use cos_ge_minus_one [of "y + x"] in linarith)
qed

lemma haversine_unit: "0 \<le> haversine a b c d \<and> haversine a b c d \<le> 1"
proof -
  define p where "p = cos (toRad a) * cos (toRad c)"
  define h where "h = toRad (c - a) / 2"
  define q where "q = (sin (toRad (d - b) / 2))\<^sup>2"
  have eq: "haversine a b c d = (sin h)\<^sup>2 + p * q"
    by (simp add: haversine_def p_def h_def q_def)
  have "toRad c - toRad a = 2 * h"
    by (simp add: toRad_def h_def field_simps)
  then have p: "p \<le> (cos h)\<^sup>2" "- (sin h)\<^sup>2 \<le> p"
    unfolding p_def by (rule haversine_product_bounds)+
  have q: "0 \<le> q" "q \<le> 1"
    by (simp_all add: q_def abs_square_le_1)
  have "p * q \<le> (cos h)\<^sup>2 * q" "- (sin h)\<^sup>2 * q \<le> p * q"
    using p q(1) by (simp_all only: mult_right_mono)
  moreover have "(cos h)\<^sup>2 * q \<le> (cos h)\<^sup>2" "- (sin h)\<^sup>2 \<le> - (sin h)\<^sup>2 * q"
    using q by (simp_all add: mult_left_le)
  ultimately show ?thesis
    unfolding eq using sin_cos_squared_add [of h] by linarith
qed

lemma atan2_quadrant: "0 \<le> y \<Longrightarrow> 0 \<le> x \<Longrightarrow> 0 \<le> atan2 y x \<and> atan2 y x \<le> pi / 2"
  using arctan_ubound [of "y / x"] by (auto simp: atan2_def zero_le_arctan_iff)

lemma haversine_symmetric: "haversine a b c d = haversine c d a b"
proof -
  have opposite: "toRad (y - x) / 2 = - (toRad (x - y) / 2)" for x y
    by (simp add: toRad_def field_simps)
  have same: "(sin (toRad (y - x) / 2))\<^sup>2 = (sin (toRad (x - y) / 2))\<^sup>2" for x y
    by (subst opposite) (simp only: sin_minus power2_minus)
  show ?thesis
    unfolding haversine_def same [of c a] same [of d b] by (simp add: mult.commute)
qed

text \<open>
  A distance is never negative and never more than half the way around the earth, it is the same in
  both directions, and there is none from a point to itself.
\<close>

theorem distance_bounds:
  "0 \<le> haversineDistanceMeters a b c d \<and> haversineDistanceMeters a b c d \<le> EARTH_RADIUS_M * pi \<and>
   haversineDistanceMeters a b c d = haversineDistanceMeters c d a b \<and> haversineDistanceMeters a b a b = 0"
proof -
  define angle where "angle = atan2 (sqrt (haversine a b c d)) (sqrt (1 - haversine a b c d))"
  have angle: "0 \<le> angle" "2 * angle \<le> pi"
    using haversine_unit [of a b c d]
      atan2_quadrant [of "sqrt (haversine a b c d)" "sqrt (1 - haversine a b c d)"]
    by (simp_all add: angle_def)
  have "haversineDistanceMeters a b c d = EARTH_RADIUS_M * (2 * angle)"
    by (simp add: haversineDistanceMeters_def Let_def angle_def)
  moreover have "EARTH_RADIUS_M * (2 * angle) \<le> EARTH_RADIUS_M * pi"
    by (rule mult_left_mono [OF angle(2)]) (simp add: EARTH_RADIUS_M_def)
  moreover have "0 \<le> EARTH_RADIUS_M * (2 * angle)"
    using angle(1) by (simp add: EARTH_RADIUS_M_def)
  moreover have "haversineDistanceMeters a b c d = haversineDistanceMeters c d a b"
    by (simp add: haversineDistanceMeters_def haversine_symmetric [of a b])
  moreover have "haversineDistanceMeters a b a b = 0"
    by (simp add: haversineDistanceMeters_def haversine_def toRad_def atan2_def)
  ultimately show ?thesis
    by simp
qed

text \<open>An arrival time is at least a minute, and at most that of a guardian on foot at a metre a second.\<close>

theorem eta_bounds:
  "1 \<le> estimateEtaMinutes d v \<and> (0 \<le> d \<longrightarrow> estimateEtaMinutes d v \<le> max 1 \<lceil>of_int d / 60 :: rat\<rceil>)"
proof -
  define speed where "speed = (case v of None \<Rightarrow> DEFAULT_SPEED_MPS
    | Some x \<Rightarrow> if x \<ge> MIN_ETA_SPEED_MPS then x else DEFAULT_SPEED_MPS)"
  have speed: "1 \<le> speed"
    by (simp add: speed_def DEFAULT_SPEED_MPS_def MIN_ETA_SPEED_MPS_def split: option.split)
  have "of_int d / speed / 60 \<le> (of_int d / 60 :: rat)" if "0 \<le> d"
    using that speed by (simp add: divide_le_eq mult_le_cancel_left1)
  then have "\<lceil>of_int d / speed / 60\<rceil> \<le> \<lceil>of_int d / 60 :: rat\<rceil>" if "0 \<le> d"
    using that ceiling_mono by blast
  then show ?thesis
    by (auto simp: estimateEtaMinutes_def Let_def simp flip: speed_def)
qed

end
