(* ===== verification/Listings.thy ===== *)
theory Listings
  imports Scenario Workforce
begin

text \<open>
  The listings and views that only read: the jobs an actor sees (\<open>jobs/jobs.service.ts\<close>), payouts
  (\<open>guardian-payroll/guardian-payroll.service.ts\<close>), invoices (\<open>billing/billing.service.ts\<close>) and payments,
  the state of a dispatch (\<open>dispatching/dispatching.service.ts\<close>), and the maps of the administration
  (\<open>admin/admin-map.service.ts\<close>).
\<close>

section \<open>Jobs\<close>

text \<open>\<open>orderBy: { createdAt: query.order }\<close> for a table whose rows are in the order of their creation.\<close>

definition byCreation :: "pagination \<Rightarrow> 'r list \<Rightarrow> 'r list" where
  "byCreation query rows = (if pg_ascending query then rows else rev rows)"

record list_jobs_query =
  lj_page :: pagination
  lj_status :: "job_status option"
  lj_organizationId :: "id option"

text \<open>The restriction of the listing to what the actor may see.\<close>

definition jobsWhere :: "id option \<Rightarrow> actor \<Rightarrow> (sys \<Rightarrow> job \<Rightarrow> bool) op" where
  "jobsWhere organizationId actor =
     (if isOps actor then ok (\<lambda>_ j. case organizationId of None \<Rightarrow> True | Some org \<Rightarrow> j_organizationId j = org)
      else if actorGuardianId actor \<noteq> None \<and> GUARDIAN \<in> set (roles actor)
      then ok (\<lambda>s j. list_ex (\<lambda>a. a_jobId a = j_id j \<and> Some (a_guardianId a) = actorGuardianId actor) (assignments s))
      else
        let orgId' = (case organizationId of Some org \<Rightarrow> Some org | None \<Rightarrow>
              (case activeOrgId actor of Some org \<Rightarrow> Some org | None \<Rightarrow> orgId actor))
        in andThen (orThrow orgId' (Forbidden ''Organization context required'')) (\<lambda>org.
           andThen (assertOrgMember org actor) (\<lambda>_.
           ok (\<lambda>_ j. j_organizationId j = org))))"

definition listJobs :: "list_jobs_query \<Rightarrow> actor \<Rightarrow> (job list \<times> page_meta) op" where
  "listJobs query actor =
     andThen (jobsWhere (lj_organizationId query) actor) (\<lambda>visible.
     reads (\<lambda>s. paginated (lj_page query) (byCreation (lj_page query) (findMany (\<lambda>j.
       (case lj_status query of None \<Rightarrow> True | Some st \<Rightarrow> j_status j = st) \<and> visible s j) (jobs s)))))"

section \<open>Money\<close>

definition listPayouts :: "id \<Rightarrow> pagination \<Rightarrow> (payout list \<times> page_meta) op" where
  "listPayouts guardianId query = reads (\<lambda>s. paginated query (byCreation query
     (findMany (\<lambda>p. po_guardianId p = guardianId) (payouts s))))"

text \<open>Each payout with the code and the name of its guardian.\<close>

definition guardianName :: "id \<Rightarrow> site \<Rightarrow> string option" where
  "guardianName gid s = Option.bind (guardianOf gid (backend s)) (\<lambda>g.
     Option.bind (userOf (g_userId g) s) u_fullName)"

definition guardianCodeOf :: "id \<Rightarrow> site \<Rightarrow> string option" where
  "guardianCodeOf gid s = map_option g_guardianCode (guardianOf gid (backend s))"

definition listAdminPayouts ::
  "pagination \<Rightarrow> id option \<Rightarrow> ((payout \<times> string option \<times> string option) list \<times> page_meta) call" where
  "listAdminPayouts query guardianId = reads (\<lambda>s.
     let page = paginated query (byCreation query (findMany (\<lambda>p.
           case guardianId of None \<Rightarrow> True | Some gid \<Rightarrow> po_guardianId p = gid) (payouts (backend s))))
     in (List.map (\<lambda>p. (p, guardianCodeOf (po_guardianId p) s, guardianName (po_guardianId p) s)) (fst page),
         snd page))"

text \<open>Each invoice with the reference number and the status of its job, newest first.\<close>

definition listForOrganization :: "id \<Rightarrow> (invoice \<times> (string \<times> job_status) option) list op" where
  "listForOrganization organizationId = reads (\<lambda>s.
     List.map (\<lambda>i. (i, map_option (\<lambda>j. (j_referenceNumber j, j_status j)) (jobOf (i_jobId i) s)))
       (rev (findMany (\<lambda>i. i_organizationId i = organizationId) (invoices s))))"

definition listAdminInvoices ::
  "pagination \<Rightarrow> invoice_status option \<Rightarrow> ((invoice \<times> org_row option \<times> job option) list \<times> page_meta) op" where
  "listAdminInvoices query status = reads (\<lambda>s.
     let page = paginated query (rev (findMany (\<lambda>i.
           case status of None \<Rightarrow> True | Some st \<Rightarrow> i_status i = st) (invoices s)))
     in (List.map (\<lambda>i. (i, orgOf (i_organizationId i) s, jobOf (i_jobId i) s)) (fst page), snd page))"

definition listAdminPayments :: "pagination \<Rightarrow> (payment \<times> invoice option) list op" where
  "listAdminPayments query = reads (\<lambda>s. List.map (\<lambda>p. (p, invoiceOf (p_invoiceId p) s))
     (skipTake query (rev (payments s))))"

section \<open>The state of a dispatch\<close>

text \<open>\<open>priority\<close> is a column no service reads.\<close>

record dispatch_debug =
  dd_jobId :: id
  dd_jobStatus :: job_status
  dd_district :: string
  dd_normalizedDistrict :: string
  dd_dispatchStartedAt :: "instant option"
  dd_dispatchDeadlineAt :: "instant option"
  dd_dispatchFailureReason :: "dispatch_failure option"
  dd_offersSentCount :: int
  dd_unreachableSince :: "instant option"
  dd_eligibleCount :: int
  dd_eligibleIds :: "id list"
  dd_triedIds :: "id list"
  dd_reachableIds :: "id list"
  dd_untriedEligibleIds :: "id list"
  dd_activeOffer :: "assignment option"
  dd_assignments :: "assignment list"

definition getDispatchDebug :: "id \<Rightarrow> dispatch_debug op" where
  "getDispatchDebug jobId =
     andThen (reads (jobOf jobId)) (\<lambda>found.
     andThen (orThrow found (NotFound ''Job not found'')) (\<lambda>job.
     andThen (reads (\<lambda>s. orderByDesc a_offerSentAt (findMany (\<lambda>a. a_jobId a = jobId) (assignments s)))) (\<lambda>rows.
     andThen (districtOf job) (\<lambda>district.
     andThen (countEligibleGuardians district) (\<lambda>eligibleCount.
     andThen (reads (\<lambda>s. DISPATCH_POOL_SIZE (config s))) (\<lambda>pool.
     andThen (listEligibleGuardianIds district pool []) (\<lambda>eligibleIds.
     andThen (getTriedGuardianIds jobId) (\<lambda>triedIds.
     andThen (filterReachableGuardianIds eligibleIds) (\<lambda>reachableIds.
     ok \<lparr>dd_jobId = j_id job, dd_jobStatus = j_status job, dd_district = district,
       dd_normalizedDistrict = normalizeDistrict district,
       dd_dispatchStartedAt = j_dispatchStartedAt job, dd_dispatchDeadlineAt = j_dispatchDeadlineAt job,
       dd_dispatchFailureReason = j_dispatchFailureReason job,
       dd_offersSentCount = j_offersSentCount job, dd_unreachableSince = j_unreachableSince job,
       dd_eligibleCount = eligibleCount, dd_eligibleIds = eligibleIds, dd_triedIds = triedIds,
       dd_reachableIds = reachableIds,
       dd_untriedEligibleIds = filter (\<lambda>i. i \<notin> set triedIds) eligibleIds,
       dd_activeOffer = findFirst (\<lambda>a. a_status a = A_OFFERED) rows, dd_assignments = rows\<rparr>)))))))))"

section \<open>Maps\<close>

record map_guardians_query =
  mg_status :: "guardian_status option"
  mg_verificationStatus :: "guardian_verification option"
  mg_connectedOnly :: bool
  mg_onDutyOnly :: bool
  mg_withLocationOnly :: bool

record guardian_marker =
  mk_guardianId :: id
  mk_guardianCode :: string
  mk_fullName :: "string option"
  mk_status :: guardian_status
  mk_shiftStatus :: "shift_status option"
  mk_availableForJobs :: "bool option"
  mk_location :: current_location

definition ON_DUTY_SHIFT_STATUSES :: "shift_status list" where
  "ON_DUTY_SHIFT_STATUSES = [S_AVAILABLE, S_BUSY]"

definition onMap :: "map_guardians_query \<Rightarrow> sys \<Rightarrow> guardian \<Rightarrow> bool" where
  "onMap query s g \<longleftrightarrow>
     (case mg_status query of None \<Rightarrow> True | Some st \<Rightarrow> g_status g = st) \<and>
     (case mg_verificationStatus query of None \<Rightarrow> True | Some st \<Rightarrow> g_verificationStatus g = st) \<and>
     (mg_onDutyOnly query \<longrightarrow> (case shiftOf (g_id g) s of None \<Rightarrow> False
        | Some r \<Rightarrow> s_shiftStatus r \<in> set ON_DUTY_SHIFT_STATUSES))"

definition guardianMarker :: "site \<Rightarrow> guardian \<Rightarrow> current_location \<Rightarrow> guardian_marker" where
  "guardianMarker s g location =
     (let shift = shiftOf (g_id g) (backend s) in
      \<lparr>mk_guardianId = g_id g, mk_guardianCode = g_guardianCode g,
       mk_fullName = Option.bind (userOf (g_userId g) s) u_fullName, mk_status = g_status g,
       mk_shiftStatus = map_option s_shiftStatus shift,
       mk_availableForJobs = map_option s_availableForJobs shift, mk_location = location\<rparr>)"

text \<open>The codes are compared as texts of characters; the database may collate them otherwise.\<close>

definition listGuardianMarkers :: "map_guardians_query \<Rightarrow> guardian_marker list call" where
  "listGuardianMarkers query =
     andThen (reads (\<lambda>s. orderByAsc g_guardianCode (findMany (onMap query (backend s)) (guardians (backend s))))) (\<lambda>rows.
     andThen (inBackend listAllPresences) (\<lambda>seen.
     andThen (inBackend (getLatestHistoryByGuardianIds
       (filter (\<lambda>gid. seen gid = None) (List.map g_id rows)))) (\<lambda>history.
     reads (\<lambda>s.
       let markers = List.map (\<lambda>g. guardianMarker s g (resolveGuardianCurrentLocation (g_id g) (seen (g_id g))
             (if seen (g_id g) = None then history (g_id g) else None))) rows
       in filter (\<lambda>m.
            \<not> (mg_connectedOnly query \<and> \<not> cl_connected (mk_location m)) \<and>
            \<not> (mg_withLocationOnly query \<and>
               (cl_latitude (mk_location m) = None \<or> cl_longitude (mk_location m) = None))) markers))))"

record map_sites_query =
  ms_coordinatePrecision :: "coordinate_precision option"
  ms_locationStatus :: "string option"
  ms_organizationStatus :: "string option"
  ms_verificationStatus :: "verification_status option"
  ms_primaryOnly :: bool

record site_marker =
  sm_location :: location_row
  sm_profile :: location_profile
  sm_organization :: org_profile
  sm_verificationStatus :: verification_status

text \<open>The status of an organization is \<open>ACTIVE\<close> by default, and no service changes it.\<close>

definition siteOnMap :: "map_sites_query \<Rightarrow> site_marker \<Rightarrow> bool" where
  "siteOnMap query m \<longleftrightarrow>
     lo_status (sm_profile m) = (case ms_locationStatus query of None \<Rightarrow> ''ACTIVE'' | Some st \<Rightarrow> st) \<and>
     (case ms_coordinatePrecision query of None \<Rightarrow> True | Some p \<Rightarrow> l_coordinatePrecision (sm_location m) = p) \<and>
     (ms_primaryOnly query \<longrightarrow> l_isPrimary (sm_location m)) \<and>
     (case ms_organizationStatus query of None \<Rightarrow> True | Some st \<Rightarrow> st = ''ACTIVE'') \<and>
     (case ms_verificationStatus query of None \<Rightarrow> True | Some st \<Rightarrow> sm_verificationStatus m = st)"

text \<open>A location with the two parts of its row and its organization, which it has by the foreign key.\<close>

definition siteMarker :: "site \<Rightarrow> location_row \<Rightarrow> site_marker list" where
  "siteMarker s l =
     (case (findUnique lo_id (l_id l) (locationProfiles s), findUnique op_id (l_organizationId l) (orgProfiles s),
        orgOf (l_organizationId l) (backend s)) of
       (Some p, Some profile, Some org) \<Rightarrow> [\<lparr>sm_location = l, sm_profile = p, sm_organization = profile,
         sm_verificationStatus = o_verificationStatus org\<rparr>]
     | _ \<Rightarrow> [])"

definition listSiteMarkers :: "map_sites_query \<Rightarrow> site_marker list call" where
  "listSiteMarkers query = reads (\<lambda>s.
     orderByAsc (\<lambda>m. l_organizationId (sm_location m)) (sort_key (\<lambda>m. \<not> l_isPrimary (sm_location m))
       (orderByAsc (\<lambda>m. lo_name (sm_profile m))
         (findMany (siteOnMap query) (concat (List.map (siteMarker s) (locations (backend s))))))))"

section \<open>What a listing shows may be seen\<close>

lemma skipTake_subset: "set (skipTake query rows) \<subseteq> set rows"
  unfolding skipTake_def by (auto split: prod.split dest!: in_set_takeD in_set_dropD)

lemma assertOrgMember_keeps: "assertOrgMember org actor s = (r, s') \<Longrightarrow> s' = s"
  using assertOrgMember_state [of org actor s] by simp

text \<open>The three ways to be let in.\<close>

lemma jobsWhere_cases:
  assumes "jobsWhere org actor s = (Inr visible, s')"
  shows "s' = s \<and> (isOps actor \<or>
    (\<exists>gid. actorGuardianId actor = Some gid \<and> (\<forall>j. visible s j \<longrightarrow>
       (\<exists>a \<in> set (assignments s). a_jobId a = j_id j \<and> a_guardianId a = gid))) \<or>
    (\<exists>i. assertOrgMember i actor s = (Inr (), s) \<and> (\<forall>j. visible s j \<longrightarrow> j_organizationId j = i)))"
proof (cases "isOps actor \<or> actorGuardianId actor \<noteq> None \<and> GUARDIAN \<in> set (roles actor)")
  case True
  then show ?thesis
    using assms by (auto simp: jobsWhere_def list_ex_iff split: if_splits)
next
  case False
  define i where "i = (case org of Some i \<Rightarrow> Some i | None \<Rightarrow>
    (case activeOrgId actor of Some i \<Rightarrow> Some i | None \<Rightarrow> orgId actor))"
  have run: "andThen (orThrow i (Forbidden ''Organization context required'')) (\<lambda>org.
      andThen (assertOrgMember org actor) (\<lambda>_. ok (\<lambda>_ j. j_organizationId j = org))) s = (Inr visible, s')"
    using assms False by (auto simp: jobsWhere_def i_def Let_def split: if_splits)
  then obtain org where org: "i = Some org"
    by (cases i) simp_all
  then have "\<exists>t. assertOrgMember org actor s = (Inr (), t) \<and> visible = (\<lambda>_ j. j_organizationId j = org) \<and> s' = t"
    using run by (auto simp: andThen_eq_Inr)
  then show ?thesis
    using assertOrgMember_keeps by blast
qed

lemma listed_rows:
  assumes "listJobs query actor s = (Inr (items, meta), s')"
  obtains visible where "jobsWhere (lj_organizationId query) actor s = (Inr visible, s)" "s' = s"
    "\<forall>j \<in> set items. j \<in> set (jobs s) \<and> visible s j"
proof -
  obtain visible where w: "jobsWhere (lj_organizationId query) actor s = (Inr visible, s)"
    and rest: "items = skipTake (lj_page query) (byCreation (lj_page query) (findMany (\<lambda>j.
      (case lj_status query of None \<Rightarrow> True | Some st \<Rightarrow> j_status j = st) \<and> visible s j) (jobs s)))" "s' = s"
    using assms jobsWhere_cases by (fastforce simp: listJobs_def andThen_eq_Inr paginated_def)
  have "\<forall>j \<in> set items. j \<in> set (jobs s) \<and> visible s j"
    using skipTake_subset unfolding rest(1) byCreation_def by (fastforce simp: findMany_def split: if_splits)
  then show thesis
    using that w rest(2) by blast
qed

text \<open>
  C36: The list of jobs keeps to the access policy: every job on a page, for whatever query, is one that
  the actor could open - an administrator any, a guardian those it was offered, everybody else those
  of an organization that it is a member of - and listing changes nothing.
\<close>

theorem listed_jobs_are_accessible:
  assumes "reachable s" and "listJobs query actor s = (Inr (items, meta), s')" and "j \<in> set items"
  shows "s' = s \<and> assertJobAccess (j_id j) actor s = (Inr j, s)"
proof -
  obtain visible where w: "jobsWhere (lj_organizationId query) actor s = (Inr visible, s)" "s' = s"
    "j \<in> set (jobs s)" "visible s j"
    using assms(2,3) by (elim listed_rows) blast
  have row: "jobOf (j_id j) s = Some j"
    using reachable_is_good [OF assms(1)] w(3) by (auto simp: good_def wf_def jobOf_def intro: findUnique_distinct)
  have offered: "findFirst (\<lambda>a. a_jobId a = j_id j \<and> a_guardianId a = gid) (assignments s) \<noteq> None"
    if "\<exists>a \<in> set (assignments s). a_jobId a = j_id j \<and> a_guardianId a = gid" for gid
    using that by (auto simp: findFirst_None_iff simp del: not_None_eq)
  consider "isOps actor" | gid where "actorGuardianId actor = Some gid"
      "\<exists>a \<in> set (assignments s). a_jobId a = j_id j \<and> a_guardianId a = gid"
    | "assertOrgMember (j_organizationId j) actor s = (Inr (), s)"
    using jobsWhere_cases [OF w(1)] w(4) by blast
  then show ?thesis
  proof cases
    case 1
    then show ?thesis
      using row w(2) by (simp add: assertJobAccess_def)
  next
    case 2
    then show ?thesis
      using row w(2) offered by (simp add: assertJobAccess_def)
  next
    case 3
    then show ?thesis
      using row w(2) by (simp add: assertJobAccess_def andThen_def split: option.split)
  qed
qed

lemma listed_jobs_are_accessible_witness:
  "\<exists>j. fst (listJobs \<lparr>lj_page = \<lparr>pg_page = 1, pg_limit = 20, pg_ascending = False\<rparr>, lj_status = None,
       lj_organizationId = None\<rparr> owner (booked 1)) = Inr ([j], buildPaginatedMeta 1 20 1) \<and>
     fst (assertJobAccess (j_id j) owner (booked 1)) = Inr j"
proof -
  let ?query = "\<lparr>lj_page = \<lparr>pg_page = 1, pg_limit = 20, pg_ascending = False\<rparr>, lj_status = None,
    lj_organizationId = None\<rparr>"
  have answer: "fst (listJobs ?query owner (booked 1)) = Inr ([bookedJob 1], buildPaginatedMeta 1 20 1)"
    by code_simp
  obtain s' where run: "listJobs ?query owner (booked 1) = (Inr ([bookedJob 1], buildPaginatedMeta 1 20 1), s')"
    using answer by (cases "listJobs ?query owner (booked 1)") simp
  show ?thesis
    using listed_jobs_are_accessible [OF booked_reachable run, of "bookedJob 1"] answer by simp
qed

end
