(* ===== verification/Email_Layout.thy ===== *)
theory Email_Layout
  imports Workforce
begin

text \<open>
  The text and the HTML of a transactional e-mail (\<open>notifications/email-layout.ts\<close>).  A string is
  the list of the bytes of its UTF-8 form; the characters the layout looks at are ASCII.  The
  year in the footer, which depends on the time zone of the server, is an argument.
\<close>

section \<open>Escaping\<close>

text \<open>\<open>str.replace(/c/g, r)\<close> for a single character.\<close>

definition replaceAll :: "char \<Rightarrow> string \<Rightarrow> string \<Rightarrow> string" where
  "replaceAll c r str = concat (List.map (\<lambda>x. if x = c then r else [x]) str)"

definition escapeHtml :: "string \<Rightarrow> string" where
  "escapeHtml value =
     replaceAll (CHR 0x27) ''&#39;''
     (replaceAll (CHR 0x22) ''&quot;''
     (replaceAll (CHR ''>'') ''&gt;''
     (replaceAll (CHR ''<'') ''&lt;''
     (replaceAll (CHR ''&'') ''&amp;'' value))))"

section \<open>Bodies\<close>

record email_callout =
  ec_label :: string
  ec_value :: string

record transactional_email_body =
  tb_greetingName :: string
  tb_paragraphs :: "string list"
  tb_callouts :: "email_callout list option"
  tb_footerNote :: "string option"

definition newline :: string where
  "newline = [CHR 0x0A]"

definition EM_DASH :: string where
  "EM_DASH = [CHR 0xE2, CHR 0x80, CHR 0x94]"

section \<open>Text\<close>

text \<open>\<open>replace(/\n\n\n+/g, '\n\n')\<close>: a run of three or more line breaks becomes two.\<close>

function (sequential) squeeze :: "string \<Rightarrow> string" where
  "squeeze (a # b # c # str) =
     (if a = CHR 0x0A \<and> b = CHR 0x0A \<and> c = CHR 0x0A
      then CHR 0x0A # CHR 0x0A # squeeze (dropWhile (\<lambda>x. x = CHR 0x0A) str)
      else a # squeeze (b # c # str))"
| "squeeze str = str"
  by pat_completeness auto
termination
  by (relation "measure length") (auto simp: le_imp_less_Suc le_SucI length_dropWhile_le)

definition renderTransactionalEmailText :: "transactional_email_body \<Rightarrow> string" where
  "renderTransactionalEmailText body =
     (let start = [''Hello '' @ tb_greetingName body @ '','', ''''];
          paragraphs = concat (List.map (\<lambda>paragraph. [paragraph, '''']) (tb_paragraphs body));
          callouts = (case tb_callouts body of None \<Rightarrow> []
            | Some cs \<Rightarrow> concat (List.map (\<lambda>c. [ec_label c @ '': '' @ ec_value c, '''']) cs));
          note = (if truthy (tb_footerNote body) then [the (tb_footerNote body)] else [])
      in trimBy jsWhitespace (squeeze (joinWith newline
           (start @ paragraphs @ callouts @ note @ ['''', EM_DASH @ '' G2 Sentry'']))))"

section \<open>HTML\<close>

text \<open>The colours of \<open>BRAND\<close>.\<close>

definition BRAND_navy :: string where
  "BRAND_navy = ''#0f172a''"

definition BRAND_text :: string where
  "BRAND_text = ''#334155''"

definition BRAND_muted :: string where
  "BRAND_muted = ''#64748b''"

definition BRAND_border :: string where
  "BRAND_border = ''#e2e8f0''"

definition BRAND_surface :: string where
  "BRAND_surface = ''#f8fafc''"

text \<open>The fixed parts of the template strings, between two interpolations each.\<close>

definition documentTop :: string where
  "documentTop = joinWith newline [
     ''<!DOCTYPE html>'',
     ''<html lang=\"en\">'',
     ''<head>'',
     ''  <meta charset=\"utf-8\" />'',
     ''  <meta name=\"viewport\" content=\"width=device-width, initial-scale=1\" />'',
     ''  <meta name=\"color-scheme\" content=\"light\" />'',
     ''  <meta name=\"supported-color-schemes\" content=\"light\" />'',
     ''  <title>'']"

definition documentBody :: string where
  "documentBody = joinWith newline [
     ''</title>'',
     ''</head>'',
     ''<body style=\"margin:0;padding:0;background:#eef2f7;font-family:-apple-system,BlinkMacSystemFont,'Segoe UI',Roboto,Helvetica,Arial,sans-serif;\">'',
     ''  <div style=\"display:none;max-height:0;overflow:hidden;opacity:0;\">'']"

definition cardTop :: string where
  "cardTop = joinWith newline [
     ''</div>'',
     ''  <table role=\"presentation\" width=\"100%\" cellpadding=\"0\" cellspacing=\"0\" style=\"background:#eef2f7;padding:32px 16px;\">'',
     ''    <tr>'',
     ''      <td align=\"center\">'',
     ''        <table role=\"presentation\" width=\"100%\" cellpadding=\"0\" cellspacing=\"0\" style=\"max-width:600px;background:#ffffff;border-radius:12px;overflow:hidden;border:1px solid '' @ BRAND_border @ '';\">'',
     ''          <tr>'',
     ''            <td style=\"background:'' @ BRAND_navy @ '';padding:24px 28px;\">'',
     ''              <p style=\"margin:0;font-size:20px;font-weight:700;color:#ffffff;letter-spacing:-0.02em;\">G2 Sentry</p>'',
     ''              <p style=\"margin:6px 0 0;font-size:13px;color:#94a3b8;\">Security operations platform</p>'',
     ''            </td>'',
     ''          </tr>'',
     ''          <tr>'',
     ''            <td style=\"padding:28px;\">'',
     ''              <p style=\"margin:0 0 20px;font-size:16px;font-weight:600;color:'' @ BRAND_navy @ '';\">Hello '']"

definition greetingEnd :: string where
  "greetingEnd = joinWith newline [
     '',</p>'',
     ''              '']"

definition betweenBlocks :: string where
  "betweenBlocks = joinWith newline [
     '''',
     ''              '']"

definition cardBottom :: string where
  "cardBottom = joinWith newline [
     '''',
     ''            </td>'',
     ''          </tr>'',
     ''          <tr>'',
     ''            <td style=\"padding:20px 28px;border-top:1px solid '' @ BRAND_border @ '';background:'' @ BRAND_surface @ '';\">'',
     ''              <p style=\"margin:0;font-size:12px;line-height:1.5;color:'' @ BRAND_muted @ '';\">'',
     ''                This is an automated message from G2 Sentry. Please do not reply to this email.'',
     ''              </p>'',
     ''              <p style=\"margin:8px 0 0;font-size:12px;color:'' @ BRAND_muted @ '';\">&copy; '']"

definition documentEnd :: string where
  "documentEnd = joinWith newline [
     '' G2 Sentry</p>'',
     ''            </td>'',
     ''          </tr>'',
     ''        </table>'',
     ''      </td>'',
     ''    </tr>'',
     ''  </table>'',
     ''</body>'',
     ''</html>'']"

definition paragraphOpen :: string where
  "paragraphOpen = ''<p style=\"margin:0 0 16px;font-size:15px;line-height:1.6;color:'' @ BRAND_text @ '';\">''"

definition paragraphClose :: string where
  "paragraphClose = ''</p>''"

definition calloutOpen :: string where
  "calloutOpen = joinWith newline [
     '''',
     ''      <table role=\"presentation\" width=\"100%\" cellpadding=\"0\" cellspacing=\"0\" style=\"margin:0 0 16px;border:1px solid '' @ BRAND_border @ '';border-radius:8px;background:'' @ BRAND_surface @ '';\">'',
     ''        <tr>'',
     ''          <td style=\"padding:14px 16px;\">'',
     ''            <p style=\"margin:0 0 6px;font-size:12px;font-weight:600;letter-spacing:0.04em;text-transform:uppercase;color:'' @ BRAND_muted @ '';\">'']"

definition calloutMiddle :: string where
  "calloutMiddle = joinWith newline [
     ''</p>'',
     ''            <p style=\"margin:0;font-size:15px;line-height:1.5;color:'' @ BRAND_navy @ '';font-family:Consolas,'Courier New',monospace;\">'']"

definition calloutClose :: string where
  "calloutClose = joinWith newline [
     ''</p>'',
     ''          </td>'',
     ''        </tr>'',
     ''      </table>'']"

definition footerOpen :: string where
  "footerOpen = ''<p style=\"margin:16px 0 0;font-size:13px;line-height:1.5;color:'' @ BRAND_muted @ '';\">''"

definition footerClose :: string where
  "footerClose = ''</p>''"

definition paragraphHtml :: "string \<Rightarrow> string" where
  "paragraphHtml p = paragraphOpen @ escapeHtml p @ paragraphClose"

definition calloutHtml :: "email_callout \<Rightarrow> string" where
  "calloutHtml c = calloutOpen @ escapeHtml (ec_label c) @ calloutMiddle @ escapeHtml (ec_value c) @ calloutClose"

definition footerHtml :: "string option \<Rightarrow> string" where
  "footerHtml note = (if truthy note then footerOpen @ escapeHtml (the note) @ footerClose else '''')"

definition renderTransactionalEmailHtml :: "int \<Rightarrow> string \<Rightarrow> transactional_email_body \<Rightarrow> string" where
  "renderTransactionalEmailHtml year subject body =
     (let greeting = escapeHtml (tb_greetingName body);
          preheader = escapeHtml (case tb_paragraphs body of [] \<Rightarrow> subject | p # _ \<Rightarrow> p);
          paragraphs = concat (List.map paragraphHtml (tb_paragraphs body));
          callouts = (case tb_callouts body of None \<Rightarrow> '''' | Some cs \<Rightarrow> concat (List.map calloutHtml cs))
      in documentTop @ escapeHtml subject @ documentBody @ preheader @ cardTop @ greeting @ greetingEnd @
         paragraphs @ betweenBlocks @ callouts @ betweenBlocks @ footerHtml (tb_footerNote body) @
         cardBottom @ showInt year @ documentEnd)"

record rendered_email =
  re_subject :: string
  re_text :: string
  re_html :: string

definition buildRenderedEmail :: "int \<Rightarrow> string \<Rightarrow> transactional_email_body \<Rightarrow> rendered_email" where
  "buildRenderedEmail year subject body = \<lparr>re_subject = subject,
     re_text = renderTransactionalEmailText body,
     re_html = renderTransactionalEmailHtml year subject body\<rparr>"

section \<open>What escaping does\<close>

text \<open>In one pass: every special character becomes its entity.\<close>

definition entities :: "(char \<times> string) list" where
  "entities = [(CHR ''&'', ''&amp;''), (CHR ''<'', ''&lt;''), (CHR ''>'', ''&gt;''),
     (CHR 0x22, ''&quot;''), (CHR 0x27, ''&#39;'')]"

definition entity :: "char \<Rightarrow> string" where
  "entity c = (case map_of entities c of None \<Rightarrow> [c] | Some e \<Rightarrow> e)"

lemma replaceAll_simps [simp]:
  "replaceAll c r [] = []"
  "replaceAll c r (x # str) = (if x = c then r else [x]) @ replaceAll c r str"
  by (simp_all add: replaceAll_def)

lemma replaceAll_append [simp]: "replaceAll c r (a @ b) = replaceAll c r a @ replaceAll c r b"
  by (simp add: replaceAll_def)

lemma escapeHtml_append: "escapeHtml (a @ b) = escapeHtml a @ escapeHtml b"
  by (simp add: escapeHtml_def)

lemma escapeHtml_char: "escapeHtml [c] = entity c"
  by (auto simp: escapeHtml_def entity_def entities_def)

lemma escapeHtml_one_pass: "escapeHtml str = concat (List.map entity str)"
proof (induction str)
  case Nil
  then show ?case
    by (simp add: escapeHtml_def)
next
  case (Cons c str)
  then show ?case
    using escapeHtml_append [of "[c]" str] by (simp add: escapeHtml_char)
qed

text \<open>A browser reads the entities back.\<close>

definition entityAt :: "string \<Rightarrow> (char \<times> string) option" where
  "entityAt str = find (\<lambda>(_, e). take (length e) str = e) entities"

function unescapeHtml :: "string \<Rightarrow> string" where
  "unescapeHtml str = (case str of [] \<Rightarrow> []
     | c # cs \<Rightarrow> (case entityAt str of
         None \<Rightarrow> c # unescapeHtml cs
       | Some (x, e) \<Rightarrow> x # unescapeHtml (drop (length e - 1) cs)))"
  by pat_completeness auto
termination
  by (relation "measure length") auto

declare unescapeHtml.simps [simp del]

lemma entityAt_entity: "entityAt (entity c @ str) =
    (if map_of entities c = None then None else Some (c, entity c))"
  by (auto simp: entityAt_def entity_def entities_def)

lemma unescapeHtml_entity: "unescapeHtml (entity c @ str) = c # unescapeHtml str"
proof (cases "map_of entities c")
  case None
  then have "entity c = [c]"
    by (simp add: entity_def)
  then show ?thesis
    using entityAt_entity [of c str] None by (simp add: unescapeHtml.simps [of "c # str"])
next
  case (Some e)
  then have "e \<noteq> []"
    by (auto simp: entities_def split: if_splits)
  then obtain d ds where e: "entity c = d # ds"
    using Some by (cases e) (simp_all add: entity_def)
  show ?thesis
    using entityAt_entity [of c str] Some by (simp add: e unescapeHtml.simps [of "d # ds @ str"])
qed

lemma unescapeHtml_escapeHtml: "unescapeHtml (escapeHtml str) = str"
proof (induction str)
  case Nil
  then show ?case
    by (simp add: escapeHtml_one_pass unescapeHtml.simps)
next
  case (Cons c str)
  then show ?case
    by (simp add: escapeHtml_one_pass unescapeHtml_entity)
qed

section \<open>Tags\<close>

text \<open>
  The contents of the angle brackets of a document, in order; \<open>Some t\<close> is the part read of a tag
  that is still open.
\<close>

primrec tagsFrom :: "string option \<Rightarrow> string \<Rightarrow> string list" where
  "tagsFrom st [] = []"
| "tagsFrom st (c # cs) = (case st of
      None \<Rightarrow> if c = CHR ''<'' then tagsFrom (Some []) cs else tagsFrom None cs
    | Some t \<Rightarrow> if c = CHR ''>'' then t # tagsFrom None cs else tagsFrom (Some (t @ [c])) cs)"

primrec openTag :: "string option \<Rightarrow> string \<Rightarrow> string option" where
  "openTag st [] = st"
| "openTag st (c # cs) = (case st of
      None \<Rightarrow> if c = CHR ''<'' then openTag (Some []) cs else openTag None cs
    | Some t \<Rightarrow> if c = CHR ''>'' then openTag None cs else openTag (Some (t @ [c])) cs)"

definition tagsOf :: "string \<Rightarrow> string list" where
  "tagsOf str = tagsFrom None str"

definition closedText :: "string \<Rightarrow> bool" where
  "closedText str \<longleftrightarrow> openTag None str = None"

lemma tagsFrom_append: "tagsFrom st (a @ b) = tagsFrom st a @ tagsFrom (openTag st a) b"
  by (induction a arbitrary: st) (auto split: option.splits)

lemma openTag_append: "openTag st (a @ b) = openTag (openTag st a) b"
  by (induction a arbitrary: st) (auto split: option.splits)

lemma tagsOf_append: "closedText a \<Longrightarrow> tagsOf (a @ b) = tagsOf a @ tagsOf b"
  by (simp add: tagsOf_def closedText_def tagsFrom_append)

lemma closedText_append [intro]: "closedText a \<Longrightarrow> closedText b \<Longrightarrow> closedText (a @ b)"
  by (simp add: closedText_def openTag_append)

lemma no_tags:
  assumes "CHR ''<'' \<notin> set str"
  shows "tagsOf str = []" and "closedText str"
  using assms by (induction str) (auto simp: tagsOf_def closedText_def)

lemma escaped_brackets: "CHR ''<'' \<notin> set (escapeHtml str)"
  by (induction str) (auto simp: escapeHtml_one_pass entity_def entities_def)

lemma showInt_digits: "set (showInt n) \<subseteq> set ''0123456789''"
proof (induction n rule: showInt.induct)
  case (1 n)
  have "digit m \<in> set ''0123456789''" if "m < 10" for m
    unfolding digit_def using that by (intro nth_mem) (simp add: nat_less_iff)
  then show ?case
    using 1 by (subst showInt.simps) auto
qed

lemma showInt_brackets: "CHR ''<'' \<notin> set (showInt n)"
  using showInt_digits [of n] by auto

named_theorems closed_rules \<open>strings that leave no tag open\<close>

lemma closed_escaped [closed_rules]: "closedText (escapeHtml str)"
  by (rule no_tags [OF escaped_brackets])

lemma closed_year [closed_rules]: "closedText (showInt n)"
  by (rule no_tags [OF showInt_brackets])

text \<open>Whether a tag is open does not depend on what was read of it.\<close>

primrec insideTag :: "bool \<Rightarrow> string \<Rightarrow> bool" where
  "insideTag b [] = b"
| "insideTag b (c # cs) = insideTag (if b then c \<noteq> CHR ''>'' else c = CHR ''<'') cs"

lemma openTag_insideTag: "openTag st str = None \<longleftrightarrow> \<not> insideTag (st \<noteq> None) str"
  by (induction str arbitrary: st) (auto split: option.splits)

lemma closedText_insideTag: "closedText str \<longleftrightarrow> \<not> insideTag False str"
  by (simp add: closedText_def openTag_insideTag)

lemma closed_parts [closed_rules]:
  "closedText documentTop" "closedText documentBody" "closedText cardTop" "closedText greetingEnd"
  "closedText betweenBlocks" "closedText cardBottom" "closedText documentEnd"
  "closedText paragraphOpen" "closedText paragraphClose" "closedText calloutOpen"
  "closedText calloutMiddle" "closedText calloutClose" "closedText footerOpen" "closedText footerClose"
  unfolding closedText_insideTag by code_simp+

lemma closed_empty [closed_rules]: "closedText []"
  by (simp add: closedText_def)

lemma closed_concat: "(\<And>x. x \<in> set xs \<Longrightarrow> closedText (f x)) \<Longrightarrow> closedText (concat (List.map f xs))"
  by (induction xs) (auto intro: closed_rules)

lemma tagsOf_concat:
  "(\<And>x. x \<in> set xs \<Longrightarrow> closedText (f x)) \<Longrightarrow>
   tagsOf (concat (List.map f xs)) = concat (List.map (\<lambda>x. tagsOf (f x)) xs)"
  by (induction xs) (simp_all add: tagsOf_append tagsOf_def [of "[]"])

lemmas tags_rules = tagsOf_append closed_rules no_tags(1) [OF escaped_brackets]
  no_tags(1) [OF showInt_brackets] closedText_append

lemma closed_blocks [closed_rules]:
  "closedText (paragraphHtml p)" "closedText (calloutHtml c)" "closedText (footerHtml note)"
  by (auto simp: paragraphHtml_def calloutHtml_def footerHtml_def intro!: closed_rules)

text \<open>
  The tags of a document are those of the layout: which they are depends on the number of
  paragraphs and of callouts and on there being a note, and on no string of the body.
\<close>

definition layoutTags :: "nat \<Rightarrow> nat \<Rightarrow> bool \<Rightarrow> string list" where
  "layoutTags paragraphs callouts note =
     tagsOf documentTop @ tagsOf documentBody @ tagsOf cardTop @ tagsOf greetingEnd @
     concat (replicate paragraphs (tagsOf paragraphOpen @ tagsOf paragraphClose)) @ tagsOf betweenBlocks @
     concat (replicate callouts (tagsOf calloutOpen @ tagsOf calloutMiddle @ tagsOf calloutClose)) @ tagsOf betweenBlocks @
     (if note then tagsOf footerOpen @ tagsOf footerClose else []) @ tagsOf cardBottom @ tagsOf documentEnd"

lemma block_tags:
  "tagsOf (paragraphHtml p) = tagsOf paragraphOpen @ tagsOf paragraphClose"
  "tagsOf (calloutHtml c) = tagsOf calloutOpen @ tagsOf calloutMiddle @ tagsOf calloutClose"
  "tagsOf (footerHtml note) = (if truthy note then tagsOf footerOpen @ tagsOf footerClose else [])"
  by (simp_all add: paragraphHtml_def calloutHtml_def footerHtml_def tags_rules tagsOf_def [of "[]"])

lemma html_tags:
  "tagsOf (re_html (buildRenderedEmail year subject body)) =
     layoutTags (length (tb_paragraphs body))
       (case tb_callouts body of None \<Rightarrow> 0 | Some cs \<Rightarrow> length cs) (truthy (tb_footerNote body))"
proof -
  have ps: "closedText (concat (List.map paragraphHtml ps))"
      "tagsOf (concat (List.map paragraphHtml ps)) =
        concat (replicate (length ps) (tagsOf paragraphOpen @ tagsOf paragraphClose))" for ps
    by (simp_all add: closed_concat closed_rules tagsOf_concat block_tags map_replicate_const)
  have cs: "closedText (concat (List.map calloutHtml cs))"
      "tagsOf (concat (List.map calloutHtml cs)) =
        concat (replicate (length cs) (tagsOf calloutOpen @ tagsOf calloutMiddle @ tagsOf calloutClose))" for cs
    by (simp_all add: closed_concat closed_rules tagsOf_concat block_tags map_replicate_const)
  show ?thesis
    by (cases "tb_callouts body")
      (simp_all add: buildRenderedEmail_def renderTransactionalEmailHtml_def Let_def layoutTags_def
        tags_rules closed_blocks ps cs block_tags)
qed

section \<open>Line breaks\<close>

text \<open>The text has no two empty lines in a row.\<close>

fun calm :: "string \<Rightarrow> bool" where
  "calm (a # b # c # str) \<longleftrightarrow> \<not> (a = CHR 0x0A \<and> b = CHR 0x0A \<and> c = CHR 0x0A) \<and> calm (b # c # str)"
| "calm str \<longleftrightarrow> True"

lemma squeeze_Cons: "\<exists>rest. squeeze (c # str) = c # rest"
  by (cases "c # str" rule: squeeze.cases) auto

lemma squeeze_two: "\<exists>rest. squeeze (b # c # str) = b # c # rest"
  using squeeze_Cons by (cases str) auto

lemma squeeze_after_break:
  obtains "squeeze (dropWhile (\<lambda>x. x = CHR 0x0A) str) = []"
    | d rest where "squeeze (dropWhile (\<lambda>x. x = CHR 0x0A) str) = d # rest" "d \<noteq> CHR 0x0A"
proof (cases "dropWhile (\<lambda>x. x = CHR 0x0A) str")
  case Nil
  then show ?thesis
    by (intro that(1)) (simp only: squeeze.simps)
next
  case (Cons d ds)
  then have "d \<noteq> CHR 0x0A"
    using hd_dropWhile [of "\<lambda>x. x = CHR 0x0A" str] by simp
  then show ?thesis
    using squeeze_Cons [of d ds] that(2) Cons by auto
qed

lemma calm_step:
  assumes "calm (b # c # str)" and "\<not> (a = CHR 0x0A \<and> b = CHR 0x0A \<and> c = CHR 0x0A)"
  shows "calm (a # b # c # str)"
  using assms by simp

lemma calm_breaks: "calm str \<Longrightarrow> str = [] \<or> hd str \<noteq> CHR 0x0A \<Longrightarrow> calm (CHR 0x0A # CHR 0x0A # str)"
  by (cases str; cases "tl str") auto

lemma calm_squeeze: "calm (squeeze str)"
proof (induction str rule: squeeze.induct)
  case (1 a b c str)
  show ?case
  proof (cases "a = CHR 0x0A \<and> b = CHR 0x0A \<and> c = CHR 0x0A")
    case True
    show ?thesis
      using 1(1) [OF True] True by (cases rule: squeeze_after_break [of str]) (simp_all add: calm_breaks del: calm.simps)
  next
    case False
    obtain rest where rest: "squeeze (b # c # str) = b # c # rest"
      using squeeze_two by blast
    have "calm (b # c # rest)"
      using 1(2) [OF False] by (simp only: rest)
    then have "calm (a # b # c # rest)"
      using False by (rule calm_step)
    then show ?thesis
      using False by (auto simp: rest simp del: calm.simps)
  qed
qed simp_all

end
