(* ===== verification/Emails.thy ===== *)
theory Emails
  imports Email_Layout Office
begin

text \<open>
  The transactional e-mails: the templates (\<open>notifications/email-template.ids.ts\<close>,
  \<open>notifications/email-template.registry.ts\<close>), the choice of the provider
  (\<open>email-delivery.service.ts\<close>, \<open>sendgrid-email.service.ts\<close>, \<open>smtp-email.service.ts\<close>) and the
  best-effort service the other services call (\<open>email-notification.service.ts\<close>); and the SMS
  service (\<open>sms/pindo-sms.service.ts\<close>, \<open>pindo.config.ts\<close>).  Whether a provider takes a message is
  up to the parameters \<open>mailFailure\<close> and \<open>smsFailure\<close>.
\<close>

section \<open>Templates\<close>

datatype email_template_id =
    SECURITY_OTP_CODE
  | SECURITY_PASSWORD_RESET_REQUESTED
  | SECURITY_PASSWORD_RESET_COMPLETED
  | SECURITY_PASSWORD_SET
  | ONBOARDING_APPLICATION_SUBMITTED
  | VERIFICATION_ORG_APPROVED
  | VERIFICATION_ORG_REJECTED
  | GUARDIAN_ACTIVATED
  | GUARDIAN_SUSPENDED
  | GUARDIAN_PAYOUT_CONFIRMED
  | JOB_CREATED
  | JOB_CANCELLED
  | ASSIGNMENT_EARLY_RELEASE_REQUESTED
  | ASSIGNMENT_REPLACEMENT_REQUESTED
  | ASSIGNMENT_REPLACEMENT_DISPATCH_PAUSED
  | ASSIGNMENT_REPLACEMENT_COMPLETED
  | DISPATCH_OFFER_RECEIVED
  | BILLING_INVOICE_AWAITING_CONFIRMATION
  | BILLING_INVOICE_ISSUED
  | BILLING_INVOICE_DISPUTED
  | BILLING_INVOICE_DISPUTE_RESOLVED
  | BILLING_INVOICE_VOIDED
  | BILLING_PAYMENT_CONFIRMED

text \<open>\<open>Record<string, string | number | undefined>\<close>, a number in the form \<open>String\<close> gives it.\<close>

type_synonym email_payload = "string \<Rightarrow> string option"

text \<open>\<open>String(payload.k ?? d)\<close>.\<close>

definition orElse :: "email_payload \<Rightarrow> string \<Rightarrow> string \<Rightarrow> string" where
  "orElse p k d = (case p k of None \<Rightarrow> d | Some v \<Rightarrow> v)"

definition orgNameOf :: "email_payload \<Rightarrow> string" where
  "orgNameOf p = orElse p ''organizationName'' ''your organization''"

definition jobRefOf :: "email_payload \<Rightarrow> string" where
  "jobRefOf p = orElse p ''jobReference'' (orElse p ''jobId'' EM_DASH)"

definition reasonOf :: "email_payload \<Rightarrow> string" where
  "reasonOf p = orElse p ''reason'' ''No reason provided.''"

definition payloadAmount :: "email_payload \<Rightarrow> string" where
  "payloadAmount p = trimBy jsWhitespace (orElse p ''amount'' EM_DASH @ '' '' @ orElse p ''currency'' '''')"

text \<open>The condition on which the mail of a cancelled job shows a reason.\<close>

definition saysWhy :: "email_payload \<Rightarrow> bool" where
  "saysWhy p \<longleftrightarrow> reasonOf p \<noteq> ''No reason provided.''"

definition OTP_EMAIL_BY_PURPOSE :: "(string \<times> string \<times> string list) list" where
  "OTP_EMAIL_BY_PURPOSE = [
     (''sign_in'', ''Your G2 Sentry sign-in code'',
       [''Use this code to sign in to your G2 Sentry account.'']),
     (''password_reset'', ''Your G2 Sentry password reset code'',
       [''Use this code to reset your G2 Sentry account password.'']),
     (''guardian_activation'', ''Your G2 Sentry guardian activation code'',
       [''Use this code to verify your guardian account activation.'']),
     (''general'', ''Your G2 Sentry verification code'',
       [''Use this code to continue on G2 Sentry.''])]"

definition otpCopy :: "email_payload \<Rightarrow> string \<times> string list" where
  "otpCopy p = (case map_of OTP_EMAIL_BY_PURPOSE (orElse p ''purpose'' ''general'') of
     Some copy \<Rightarrow> copy
   | None \<Rightarrow> the (map_of OTP_EMAIL_BY_PURPOSE ''general''))"

definition emailBody ::
  "email_payload \<Rightarrow> string list \<Rightarrow> email_callout list option \<Rightarrow> string option \<Rightarrow> transactional_email_body" where
  "emailBody p paragraphs callouts note = \<lparr>tb_greetingName = orElse p ''fullName'' ''there'',
     tb_paragraphs = paragraphs, tb_callouts = callouts, tb_footerNote = note\<rparr>"

text \<open>Subject and body of every template.\<close>

primrec emailContent :: "email_template_id \<Rightarrow> email_payload \<Rightarrow> string \<times> transactional_email_body" where
  "emailContent SECURITY_OTP_CODE p = (fst (otpCopy p), emailBody p
     (snd (otpCopy p) @ [
       ''We also sent this code to your registered phone number by SMS when available.''])
     (Some [\<lparr>ec_label = ''Verification code'', ec_value = orElse p ''otpCode'' ''------''\<rparr>])
     (Some ''This code expires in 5 minutes. If you did not request this, contact support immediately.''))"
| "emailContent SECURITY_PASSWORD_RESET_REQUESTED p = (''G2 Sentry password reset requested'', emailBody p
     [
       ''A password reset was requested for your G2 Sentry account.'',
       ''If you initiated this, use the verification code sent to your phone or email.'',
       ''If you did not request this, contact support immediately.'']
     None None)"
| "emailContent SECURITY_PASSWORD_RESET_COMPLETED p = (''Your G2 Sentry password was reset'', emailBody p
     [
       ''Your password was successfully reset.'',
       ''If you did not make this change, contact support immediately.'']
     None None)"
| "emailContent SECURITY_PASSWORD_SET p = (''Your G2 Sentry password was updated'', emailBody p
     [
       ''Your account password was set or changed successfully.'',
       ''If you did not make this change, contact support immediately.'']
     None None)"
| "emailContent ONBOARDING_APPLICATION_SUBMITTED p = (''G2 Sentry application received'', emailBody p
     [
       ''We received your application for '' @ orgNameOf p @ ''.'',
       ''Our team will review it and notify you when a decision is made.'']
     None None)"
| "emailContent VERIFICATION_ORG_APPROVED p = (''Your business was approved on G2 Sentry'', emailBody p
     [
       orgNameOf p @ '' has been approved.'',
       ''Sign in and complete your primary site setup to start booking security services.'']
     None None)"
| "emailContent VERIFICATION_ORG_REJECTED p = (''Your G2 Sentry application needs attention'', emailBody p
     [
       ''Your application for '' @ orgNameOf p @ '' was not approved.'',
       ''Sign in to review details and resubmit if applicable.'']
     (Some [\<lparr>ec_label = ''Reason'', ec_value = reasonOf p\<rparr>]) None)"
| "emailContent GUARDIAN_ACTIVATED p = (''Your G2 Sentry guardian account is active'', emailBody p
     [
       ''Your guardian account has been activated.'',
       ''Sign in with your credentials, change your password if prompted, then start your shift when ready.'']
     None None)"
| "emailContent GUARDIAN_SUSPENDED p = (''Your G2 Sentry guardian account was suspended'', emailBody p
     [
       ''Your guardian account has been suspended and you cannot receive assignments.'',
       ''Contact operations if you believe this is an error.'']
     None None)"
| "emailContent GUARDIAN_PAYOUT_CONFIRMED p = (''Your G2 Sentry payout was sent'', emailBody p
     [
       ''A payout of '' @ (orElse p ''currency'' ''RWF'') @ '' '' @ (orElse p ''amount'' '''') @ '' has been confirmed.'',
       ''Sign in to view your earnings history.'']
     None None)"
| "emailContent JOB_CREATED p = (''Job '' @ jobRefOf p @ '' created'', emailBody p
     [
       ''A new security job ('' @ jobRefOf p @ '') was created for '' @ orgNameOf p @ ''.'',
       ''We will notify you as dispatch progresses.'']
     (Some [\<lparr>ec_label = ''Job reference'', ec_value = jobRefOf p\<rparr>]) None)"
| "emailContent JOB_CANCELLED p = (''Job '' @ jobRefOf p @ '' cancelled'', emailBody p
     [
       ''Job '' @ jobRefOf p @ '' for '' @ orgNameOf p @ '' was cancelled.'']
     (if saysWhy p then Some [\<lparr>ec_label = ''Reason'', ec_value = reasonOf p\<rparr>] else None) None)"
| "emailContent ASSIGNMENT_EARLY_RELEASE_REQUESTED p = (''Early release requested '' @ EM_DASH @ '' job '' @ jobRefOf p, emailBody p
     [
       ''A guardian has requested to end job '' @ jobRefOf p @ '' for '' @ orgNameOf p @ '' before the scheduled end time.'',
       ''Review and approve or reject in the client app.'']
     (Some [\<lparr>ec_label = ''Job reference'', ec_value = jobRefOf p\<rparr>,
        \<lparr>ec_label = ''Reason'', ec_value = orElse p ''reason'' EM_DASH\<rparr>]) None)"
| "emailContent ASSIGNMENT_REPLACEMENT_REQUESTED p = (''Replacement requested '' @ EM_DASH @ '' job '' @ jobRefOf p, emailBody p
     [
       ''A guardian on job '' @ jobRefOf p @ '' has requested a replacement.'',
       ''Review and approve or deny in the admin console.'']
     (Some [\<lparr>ec_label = ''Job reference'', ec_value = jobRefOf p\<rparr>,
        \<lparr>ec_label = ''Reason'', ec_value = orElse p ''reason'' EM_DASH\<rparr>]) None)"
| "emailContent ASSIGNMENT_REPLACEMENT_DISPATCH_PAUSED p = (''Replacement dispatch paused '' @ EM_DASH @ '' job '' @ jobRefOf p, emailBody p
     [
       ''Automatic replacement dispatch for job '' @ jobRefOf p @ '' has been paused.'',
       ''A departing officer is still awaiting relief. Resume dispatch or cancel the job in the admin console.'']
     (Some [\<lparr>ec_label = ''Job reference'', ec_value = jobRefOf p\<rparr>,
        \<lparr>ec_label = ''Reason'', ec_value = orElse p ''reason'' EM_DASH\<rparr>]) None)"
| "emailContent ASSIGNMENT_REPLACEMENT_COMPLETED p = (''Officer replaced '' @ EM_DASH @ '' job '' @ jobRefOf p, emailBody p
     [
       ''Coverage for job '' @ jobRefOf p @ '' at '' @ orgNameOf p @ '' has been transferred to a replacement officer.'',
       ''The new officer is on site. Tracking remains available in your app.'']
     (Some [\<lparr>ec_label = ''Job reference'', ec_value = jobRefOf p\<rparr>,
        \<lparr>ec_label = ''Replacement officer'', ec_value = orElse p ''guardianName'' EM_DASH\<rparr>]) None)"
| "emailContent DISPATCH_OFFER_RECEIVED p = (''New assignment offer '' @ EM_DASH @ '' job '' @ jobRefOf p, emailBody p
     [
       ''You have a new job offer ('' @ jobRefOf p @ '').'',
       ''Open the guardian app to accept or decline before the offer expires.'']
     (Some [\<lparr>ec_label = ''Job reference'', ec_value = jobRefOf p\<rparr>]) None)"
| "emailContent BILLING_INVOICE_AWAITING_CONFIRMATION p = (''Job '' @ jobRefOf p @ '' '' @ EM_DASH @ '' confirm billing'', emailBody p
     [
       ''Guardian work on job '' @ jobRefOf p @ '' for '' @ orgNameOf p @ '' is complete.'',
       ''Review the draft invoice below and confirm in the app to issue the invoice.'']
     (Some [\<lparr>ec_label = ''Job reference'', ec_value = jobRefOf p\<rparr>,
        \<lparr>ec_label = ''Billing basis'', ec_value = orElse p ''billingBasis'' EM_DASH\<rparr>,
        \<lparr>ec_label = ''Billable hours'', ec_value = orElse p ''billableHours'' EM_DASH\<rparr>,
        \<lparr>ec_label = ''Estimated total'', ec_value = payloadAmount p\<rparr>]) None)"
| "emailContent BILLING_INVOICE_ISSUED p = (''Job '' @ jobRefOf p @ '' completed '' @ EM_DASH @ '' invoice ready'', emailBody p
     [
       ''Job '' @ jobRefOf p @ '' for '' @ orgNameOf p @ '' is complete.'',
       ''Your invoice is ready '' @ EM_DASH @ '' sign in to view and pay.'']
     (Some [\<lparr>ec_label = ''Job reference'', ec_value = jobRefOf p\<rparr>,
        \<lparr>ec_label = ''Amount'', ec_value = payloadAmount p\<rparr>]) None)"
| "emailContent BILLING_INVOICE_DISPUTED p = (''Invoice disputed '' @ EM_DASH @ '' job '' @ jobRefOf p, emailBody p
     [
       ''An invoice for '' @ orgNameOf p @ '' (job '' @ jobRefOf p @ '') was disputed.'',
       ''Our team will review and follow up.'']
     (Some [\<lparr>ec_label = ''Job reference'', ec_value = jobRefOf p\<rparr>,
        \<lparr>ec_label = ''Reason'', ec_value = reasonOf p\<rparr>]) None)"
| "emailContent BILLING_INVOICE_DISPUTE_RESOLVED p = (''Dispute resolved '' @ EM_DASH @ '' job '' @ jobRefOf p, emailBody p
     [
       ''The billing dispute for '' @ orgNameOf p @ '' (job '' @ jobRefOf p @ '') was resolved.'']
     (Some [\<lparr>ec_label = ''Job reference'', ec_value = jobRefOf p\<rparr>,
        \<lparr>ec_label = ''Resolution'', ec_value = reasonOf p\<rparr>]) None)"
| "emailContent BILLING_INVOICE_VOIDED p = (''Invoice voided for job '' @ jobRefOf p, emailBody p
     [
       ''An invoice for '' @ orgNameOf p @ '' (job '' @ jobRefOf p @ '') was voided.'']
     (Some [\<lparr>ec_label = ''Job reference'', ec_value = jobRefOf p\<rparr>,
        \<lparr>ec_label = ''Reason'', ec_value = reasonOf p\<rparr>]) None)"
| "emailContent BILLING_PAYMENT_CONFIRMED p = (''Payment received for job '' @ jobRefOf p, emailBody p
     [
       ''Payment was confirmed for '' @ orgNameOf p @ '' (job '' @ jobRefOf p @ '').'']
     (Some [\<lparr>ec_label = ''Job reference'', ec_value = jobRefOf p\<rparr>,
        \<lparr>ec_label = ''Amount'', ec_value = payloadAmount p\<rparr>]) None)"

definition renderEmailTemplate :: "int \<Rightarrow> email_template_id \<Rightarrow> email_payload \<Rightarrow> rendered_email" where
  "renderEmailTemplate year templateId p =
     (case emailContent templateId p of (subject, body) \<Rightarrow> buildRenderedEmail year subject body)"

text \<open>The mail with the credentials of a new guardian (\<open>credential-delivery.service.ts\<close>).\<close>

definition credentialsEmail :: "int \<Rightarrow> string \<Rightarrow> string \<Rightarrow> string option \<Rightarrow> string \<Rightarrow> rendered_email" where
  "credentialsEmail year fullName phoneNumber email temporaryPassword =
     (let login = (if truthy email then the email else phoneNumber)
      in buildRenderedEmail year ''Your G2 Sentry guardian account credentials''
        \<lparr>tb_greetingName = fullName,
         tb_paragraphs = [''Your guardian account has been created.''],
         tb_callouts = Some [\<lparr>ec_label = ''Login'', ec_value = login\<rparr>,
           \<lparr>ec_label = ''Temporary password'', ec_value = temporaryPassword\<rparr>],
         tb_footerNote = Some ''For security, sign in and change this password immediately.''\<rparr>)"

section \<open>Providers\<close>

record email_config =
  EMAIL_PROVIDER :: "string option"
  SENDGRID_API_KEY :: "string option"
  SMTP_HOST :: "string option"
  SMTP_PORT :: "string option"
  SMTP_FROM :: "string option"
  SMTP_PASS :: "string option"

definition trimmed :: "string option \<Rightarrow> string option" where
  "trimmed v = map_option (trimBy jsWhitespace) v"

definition provider :: "email_config \<Rightarrow> string" where
  "provider c = List.map toLowerChar (case EMAIL_PROVIDER c of None \<Rightarrow> '''' | Some v \<Rightarrow> v)"

definition useSendGrid :: "email_config \<Rightarrow> bool" where
  "useSendGrid c =
     (if provider c = ''sendgrid'' then True
      else if provider c = ''smtp'' then False
      else truthy (trimmed (SENDGRID_API_KEY c)))"

definition getApiKey :: "email_config \<Rightarrow> string option" where
  "getApiKey c =
     (if truthy (trimmed (SENDGRID_API_KEY c)) then trimmed (SENDGRID_API_KEY c)
      else if provider c = ''sendgrid'' \<and> truthy (trimmed (SMTP_PASS c)) then trimmed (SMTP_PASS c)
      else None)"

definition sendgridConfigured :: "email_config \<Rightarrow> bool" where
  "sendgridConfigured c \<longleftrightarrow> truthy (getApiKey c) \<and> truthy (trimmed (SMTP_FROM c))"

definition smtpConfigured :: "email_config \<Rightarrow> bool" where
  "smtpConfigured c \<longleftrightarrow> truthy (SMTP_HOST c) \<and> truthy (SMTP_PORT c) \<and> truthy (SMTP_FROM c)"

definition isConfigured :: "email_config \<Rightarrow> bool" where
  "isConfigured c = (if useSendGrid c then sendgridConfigured c else smtpConfigured c)"

text \<open>
  \<open>Number(str)\<close> for digits between white space; the other numerals of the language, which no
  port is written with, are taken for \<open>NaN\<close> (\<open>None\<close>).
\<close>

definition decimalNumber :: "string \<Rightarrow> int option" where
  "decimalNumber str = (let t = trimBy jsWhitespace str in
     if list_all (\<lambda>c. c \<in> set ''0123456789'') t
     then Some (foldl (\<lambda>n c. 10 * n + (of_char c - 48)) 0 t) else None)"

definition smtpPort :: "email_config \<Rightarrow> int option" where
  "smtpPort c = decimalNumber (case SMTP_PORT c of None \<Rightarrow> ''587'' | Some v \<Rightarrow> v)"

record mail =
  ml_to :: string
  ml_subject :: string
  ml_text :: string
  ml_html :: string

record post_office =
  postSite :: site
  sentMails :: "mail list"

datatype delivery_error = DeliveryNotConfigured string | BadGateway string

type_synonym 'a mailing = "post_office \<Rightarrow> 'a \<times> post_office"

text \<open>The request to the provider, whose failure of any kind is answered with status 502.\<close>

definition transmit :: "'tok env \<Rightarrow> mail \<Rightarrow> (delivery_error + unit) mailing" where
  "transmit E m = (\<lambda>w.
     if mailFailure E (ml_to m) (clock (backend (postSite w))) then (Inl (BadGateway ''Failed to send email''), w)
     else (Inr (), w\<lparr>sentMails := sentMails w @ [m]\<rparr>))"

definition sendgridMail :: "'tok env \<Rightarrow> email_config \<Rightarrow> mail \<Rightarrow> (delivery_error + unit) mailing" where
  "sendgridMail E c m = (\<lambda>w.
     if \<not> truthy (getApiKey c) \<or> \<not> truthy (trimmed (SMTP_FROM c))
     then (Inl (DeliveryNotConfigured ''SendGrid delivery is not configured''), w)
     else transmit E m w)"

definition smtpMail :: "'tok env \<Rightarrow> email_config \<Rightarrow> mail \<Rightarrow> (delivery_error + unit) mailing" where
  "smtpMail E c m = (\<lambda>w.
     if \<not> truthy (SMTP_HOST c) \<or> smtpPort c = None \<or> smtpPort c = Some 0 \<or> \<not> truthy (SMTP_FROM c)
     then (Inl (DeliveryNotConfigured ''SMTP delivery is not configured''), w)
     else transmit E m w)"

definition sendMail :: "'tok env \<Rightarrow> email_config \<Rightarrow> mail \<Rightarrow> (delivery_error + unit) mailing" where
  "sendMail E c m = (if useSendGrid c then sendgridMail E c m else smtpMail E c m)"

section \<open>The service\<close>

record email_send_result =
  es_sent :: bool
  es_skipped :: bool
  es_reason :: "string option"

definition skippedFor :: "string \<Rightarrow> email_send_result" where
  "skippedFor why = \<lparr>es_sent = False, es_skipped = True, es_reason = Some why\<rparr>"

definition mailOf :: "int \<Rightarrow> string \<Rightarrow> email_template_id \<Rightarrow> email_payload \<Rightarrow> mail" where
  "mailOf year recipient templateId p = (let r = renderEmailTemplate year templateId p in
     \<lparr>ml_to = trimBy jsWhitespace recipient, ml_subject = re_subject r, ml_text = re_text r, ml_html = re_html r\<rparr>)"

definition sendBestEffort ::
  "'tok env \<Rightarrow> email_config \<Rightarrow> int \<Rightarrow> string option \<Rightarrow> email_template_id \<Rightarrow> email_payload \<Rightarrow>
   email_send_result mailing" where
  "sendBestEffort E c year recipient templateId p = (\<lambda>w.
     if \<not> truthy (trimmed recipient) then (skippedFor ''no_recipient'', w)
     else if \<not> isConfigured c then (skippedFor ''smtp_not_configured'', w)
     else (case sendMail E c (mailOf year (the recipient) templateId p) w of
         (Inr _, w') \<Rightarrow> (\<lparr>es_sent = True, es_skipped = False, es_reason = None\<rparr>, w')
       | (Inl _, w') \<Rightarrow> (\<lparr>es_sent = False, es_skipped = False, es_reason = Some ''send_failed''\<rparr>, w')))"

text \<open>\<open>{ fullName: user.fullName ?? undefined, ...payload }\<close>.\<close>

definition greeted :: "user \<Rightarrow> email_payload \<Rightarrow> email_payload" where
  "greeted u p = Map.empty(''fullName'' := u_fullName u) ++ p"

definition sendToUser ::
  "'tok env \<Rightarrow> email_config \<Rightarrow> int \<Rightarrow> id \<Rightarrow> email_template_id \<Rightarrow> email_payload \<Rightarrow>
   email_send_result mailing" where
  "sendToUser E c year userId templateId p = (\<lambda>w. case userOf userId (postSite w) of
     None \<Rightarrow> (skippedFor ''user_not_found'', w)
   | Some u \<Rightarrow> sendBestEffort E c year (u_email u) templateId (greeted u p) w)"

text \<open>The loops over users, one mail after the other.\<close>

primrec sendToAll ::
  "'tok env \<Rightarrow> email_config \<Rightarrow> int \<Rightarrow> email_template_id \<Rightarrow> (user \<Rightarrow> email_payload) \<Rightarrow> user list \<Rightarrow>
   email_send_result list mailing" where
  "sendToAll E c year templateId f [] w = ([], w)"
| "sendToAll E c year templateId f (u # us) w =
     (case sendBestEffort E c year (u_email u) templateId (f u) w of
        (r, w1) \<Rightarrow> (case sendToAll E c year templateId f us w1 of (rs, w2) \<Rightarrow> (r # rs, w2)))"

definition ownersOf :: "id \<Rightarrow> site \<Rightarrow> user list" where
  "ownersOf organizationId s = concat (List.map (\<lambda>m. case userOf (m_userId m) s of None \<Rightarrow> [] | Some u \<Rightarrow> [u])
     (findMany (\<lambda>m. m_organizationId m = organizationId \<and> m_isOwner m) (orgUsers (backend s))))"

definition organizationLabel :: "id \<Rightarrow> site \<Rightarrow> string" where
  "organizationLabel organizationId s = (case profileOf organizationId s of
     None \<Rightarrow> ''your organization''
   | Some org \<Rightarrow> (case op_tradingName org of Some n \<Rightarrow> n | None \<Rightarrow> op_legalName org))"

definition sendToOrgOwners ::
  "'tok env \<Rightarrow> email_config \<Rightarrow> int \<Rightarrow> id \<Rightarrow> email_template_id \<Rightarrow> email_payload \<Rightarrow>
   email_send_result list mailing" where
  "sendToOrgOwners E c year organizationId templateId p = (\<lambda>w.
     let orgName = organizationLabel organizationId (postSite w)
     in sendToAll E c year templateId
          (\<lambda>u. Map.empty(''organizationName'' \<mapsto> orgName, ''fullName'' := u_fullName u) ++ p)
          (ownersOf organizationId (postSite w)) w)"

definition opsUsers :: "site \<Rightarrow> user list" where
  "opsUsers s = findMany (\<lambda>u. OPS_ADMIN \<in> set (u_roles u) \<or> SUPER_ADMIN \<in> set (u_roles u)) (users s)"

definition sendToOpsAdmins ::
  "'tok env \<Rightarrow> email_config \<Rightarrow> int \<Rightarrow> email_template_id \<Rightarrow> email_payload \<Rightarrow>
   email_send_result list mailing" where
  "sendToOpsAdmins E c year templateId p = (\<lambda>w.
     sendToAll E c year templateId (\<lambda>u. greeted u p) (opsUsers (postSite w)) w)"

definition sendToGuardianUser ::
  "'tok env \<Rightarrow> email_config \<Rightarrow> int \<Rightarrow> id \<Rightarrow> email_template_id \<Rightarrow> email_payload \<Rightarrow>
   email_send_result mailing" where
  "sendToGuardianUser E c year guardianId templateId p = (\<lambda>w.
     case Option.bind (guardianOf guardianId (backend (postSite w))) (\<lambda>g. userOf (g_userId g) (postSite w)) of
       None \<Rightarrow> (skippedFor ''guardian_not_found'', w)
     | Some u \<Rightarrow> sendBestEffort E c year (u_email u) templateId (greeted u p) w)"

section \<open>SMS\<close>

record sms_config =
  PINDO_ENABLED :: "string option"
  PINDO_API_TOKEN :: "string option"
  PINDO_SENDER :: "string option"

definition isPindoEnabled :: "sms_config \<Rightarrow> bool" where
  "isPindoEnabled c \<longleftrightarrow> (case PINDO_ENABLED c of None \<Rightarrow> ''false'' | Some v \<Rightarrow> v) = ''true''"

definition pindoConfigured :: "sms_config \<Rightarrow> bool" where
  "pindoConfigured c \<longleftrightarrow>
     isPindoEnabled c \<and> truthy (trimmed (PINDO_API_TOKEN c)) \<and> truthy (trimmed (PINDO_SENDER c))"

definition sendSms :: "'tok env \<Rightarrow> sms_config \<Rightarrow> string \<Rightarrow> string \<Rightarrow> unit call" where
  "sendSms E c recipient content =
     andThen (ensure (truthy (trimmed (PINDO_API_TOKEN c)) \<and> truthy (trimmed (PINDO_SENDER c)))
       (ServiceUnavailable ''Pindo SMS is not configured (PINDO_API_TOKEN, PINDO_SENDER)'')) (\<lambda>_.
     andThen siteNow (\<lambda>t. case smsFailure E recipient t of
       Some err \<Rightarrow> throw err
     | None \<Rightarrow> writes (\<lambda>s. s\<lparr>smsSent := smsSent s @ [(recipient, content)]\<rparr>)))"

definition sendOtp :: "'tok env \<Rightarrow> sms_config \<Rightarrow> string \<Rightarrow> string \<Rightarrow> unit call" where
  "sendOtp E c recipient code =
     sendSms E c recipient (''Your G2 Sentry verification code is '' @ code @ ''. It expires in 5 minutes.'')"

definition credentialsSms :: "string \<Rightarrow> string \<Rightarrow> string" where
  "credentialsSms phoneNumber temporaryPassword = joinWith '' '' [''G2 Sentry account ready.'',
     ''Login: '' @ phoneNumber, ''Temp password: '' @ temporaryPassword, ''Change password after login.'']"

section \<open>What is in a payload is text\<close>

lemma emailContent_shape:
  assumes "templateId = JOB_CANCELLED \<Longrightarrow> saysWhy p = saysWhy q"
  shows "length (tb_paragraphs (snd (emailContent templateId p))) = length (tb_paragraphs (snd (emailContent templateId q)))"
    and "(case tb_callouts (snd (emailContent templateId p)) of None \<Rightarrow> 0 | Some cs \<Rightarrow> length cs) =
      (case tb_callouts (snd (emailContent templateId q)) of None \<Rightarrow> (0::nat) | Some cs \<Rightarrow> length cs)"
    and "truthy (tb_footerNote (snd (emailContent templateId p))) = truthy (tb_footerNote (snd (emailContent templateId q)))"
proof -
  have "length (snd (otpCopy x)) = 1" for x
    by (auto simp: otpCopy_def OTP_EMAIL_BY_PURPOSE_def split: option.splits if_splits)
  then show "length (tb_paragraphs (snd (emailContent templateId p))) = length (tb_paragraphs (snd (emailContent templateId q)))"
    by (cases templateId) (simp_all add: emailBody_def)
  show "(case tb_callouts (snd (emailContent templateId p)) of None \<Rightarrow> 0 | Some cs \<Rightarrow> length cs) =
      (case tb_callouts (snd (emailContent templateId q)) of None \<Rightarrow> (0::nat) | Some cs \<Rightarrow> length cs)"
    using assms by (cases templateId) (simp_all add: emailBody_def)
  show "truthy (tb_footerNote (snd (emailContent templateId p))) = truthy (tb_footerNote (snd (emailContent templateId q)))"
    by (cases templateId) (simp_all add: emailBody_def truthy_def)
qed

text \<open>
  C21: What a request puts into an e-mail cannot add markup to it: whatever the names, reasons and
  references of a payload are, the HTML of a template has the same tags, with the same attributes, in
  the same order; only the mail of a cancelled job has a block for the reason when there is one.
\<close>

theorem payload_is_text:
  assumes "templateId = JOB_CANCELLED \<Longrightarrow> saysWhy p = saysWhy q"
  shows "tagsOf (re_html (renderEmailTemplate year templateId p)) =
    tagsOf (re_html (renderEmailTemplate year' templateId q))"
  using emailContent_shape [OF assms]
  by (simp add: renderEmailTemplate_def case_prod_beta html_tags)

lemma payload_is_text_witness:
  "tagsOf (re_html (renderEmailTemplate 2026 JOB_CANCELLED [''reason'' \<mapsto> ''<script>'', ''fullName'' \<mapsto> ''</p>''])) =
   tagsOf (re_html (renderEmailTemplate 2026 JOB_CANCELLED [''reason'' \<mapsto> ''rain'']))"
  by (rule payload_is_text) (simp add: saysWhy_def reasonOf_def orElse_def)

section \<open>Best effort\<close>

text \<open>
  A mail goes out or the store is as before, and no answer is an error; a mail that went out goes to
  the trimmed address.
\<close>

lemma transmit_effect:
  "transmit E m w = (Inr (), w\<lparr>sentMails := sentMails w @ [m]\<rparr>) \<or> (\<exists>err. transmit E m w = (Inl err, w))"
  by (simp add: transmit_def)

lemma sendMail_effect:
  "sendMail E c m w = (Inr (), w\<lparr>sentMails := sentMails w @ [m]\<rparr>) \<or> (\<exists>err. sendMail E c m w = (Inl err, w))"
  using transmit_effect [of E m w] by (simp add: sendMail_def sendgridMail_def smtpMail_def)

lemma sendBestEffort_cases:
  obtains (sent) a where "recipient = Some a" "isConfigured c"
      "sendBestEffort E c year recipient templateId p w =
        (\<lparr>es_sent = True, es_skipped = False, es_reason = None\<rparr>, w\<lparr>sentMails := sentMails w @ [mailOf year a templateId p]\<rparr>)"
    | (not_sent) r where "sendBestEffort E c year recipient templateId p w = (r, w)" "\<not> es_sent r"
proof (cases "truthy (trimmed recipient) \<and> isConfigured c")
  case True
  then obtain a where a: "recipient = Some a"
    by (cases recipient) (auto simp: trimmed_def truthy_def)
  show ?thesis
    using sendMail_effect [of E c "mailOf year a templateId p" w] True that a
    by (auto simp: sendBestEffort_def)
next
  case False
  then show ?thesis
    using that(2) [of "skippedFor (if truthy (trimmed recipient) then ''smtp_not_configured'' else ''no_recipient'')"]
    by (auto simp: sendBestEffort_def skippedFor_def)
qed

lemma sendToAll_effect:
  assumes "sendToAll E c year templateId f us w = (rs, w')"
  shows "length rs = length us \<and> postSite w' = postSite w \<and>
    sentMails w' = sentMails w @ List.map (\<lambda>(u, r). mailOf year (the (u_email u)) templateId (f u))
      (filter (\<lambda>(u, r). es_sent r) (zip us rs))"
  using assms
proof (induction us arbitrary: w rs)
  case Nil
  then show ?case
    by simp
next
  case (Cons u us)
  obtain r w1 where first: "sendBestEffort E c year (u_email u) templateId (f u) w = (r, w1)"
    by fastforce
  obtain rs' where rest: "sendToAll E c year templateId f us w1 = (rs', w')" "rs = r # rs'"
    using Cons.prems first by (auto split: prod.splits)
  show ?case
    using Cons.IH [OF rest(1)] rest(2) first
    by (cases rule: sendBestEffort_cases [of "u_email u" c E year templateId "f u" w]) auto
qed

text \<open>Every owner of an organization gets an answer, and exactly the mails that were sent are out.\<close>

lemma owners_are_mailed:
  assumes "sendToOrgOwners E c year org templateId p w = (rs, w')"
  shows "length rs = length (ownersOf org (postSite w)) \<and> postSite w' = postSite w \<and>
    length (sentMails w') = length (sentMails w) + length (filter es_sent rs)"
proof -
  note e = sendToAll_effect [OF assms [unfolded sendToOrgOwners_def Let_def]]
  have "length (filter (\<lambda>(u, r). es_sent r) (zip us rs)) = length (filter es_sent rs)"
    if "length rs = length us" for us :: "user list"
    using that by (induction rs us rule: list_induct2) auto
  then show ?thesis
    using e by simp
qed

text \<open>A configured SendGrid is never found unconfigured by the request itself.\<close>

lemma sendgrid_is_ready:
  assumes "isConfigured c" and "useSendGrid c"
  shows "sendMail E c m w = transmit E m w"
  using assms by (simp add: sendMail_def sendgridMail_def isConfigured_def sendgridConfigured_def)

end
