(* ===== verification/Spec2Isabelle.thy ===== *)
theory Spec2Isabelle
  imports Absences Books Access Session_Store Clients Catalog Ledger_Watch Routes Analytics
    Inbox Tracking Listings Emails
begin

text \<open>
  The Guardian backend lets organizations book security guards.  A booked \<^emph>\<open>job\<close> is dispatched:
  guardians near the site get \<^emph>\<open>offers\<close> (assignments in status \<open>OFFERED\<close>) that they accept,
  decline or let expire; a guardian that accepted goes en route, is on site, may ask for an early
  release or for a replacement, and completes; then the client gets an invoice, pays it, and the
  guardians earn.  An outbox worker, timers and scans push all of this along.  Before that an
  organization applies, is reviewed and sets up its site, a guardian is created, vetted and
  activated, and both sign in.

  \<^bold>\<open>How the model reads.\<close>  \<open>Domain\<close> has the tables of the database as lists of records inside one
  record \<open>sys\<close> (with the in-process queue timers and the presence map), and \<open>Store\<close> the calls of
  the database client on them.  A service method is a \<open>handler\<close> (\<open>Prelude\<close>): a function from the
  state to an exception or an answer, and the state it leaves; \<open>andThen\<close> is \<open>await\<close>, \<open>ensure\<close> an
  early \<open>throw\<close>, \<open>transaction\<close> a database transaction with its rollback, \<open>tryCatch\<close> a caught
  exception.  A method that writes outside its transaction keeps those writes
  (\<open>rollbackKeepingShifts\<close>).  Definitions carry the names of the methods; where two services use
  one name the service's name is put in front.

  \<^bold>\<open>Theories and source files\<close> (under \<open>src/\<close>):
  \<^item> \<open>Transitions\<close>: \<open>assignments/assignment-transitions.ts\<close>, \<open>early-release.util.ts\<close>,
    \<open>replacement-invariants.ts\<close>, the status sets of \<open>jobs/job-staffing.util.ts\<close>, and the two
    status graphs \<open>assignment_edge\<close> and \<open>job_edge\<close>.
  \<^item> \<open>Outbox\<close>: \<open>outbox/outbox.service.ts\<close>.  \<open>Guardians\<close>: \<open>guardians/shift-state.service.ts\<close>,
    \<open>guardian-eligibility.service.ts\<close>, \<open>guardian-dispatch-eligibility.service.ts\<close>,
    \<open>connectivity.service.ts\<close>, \<open>redis/presence.service.ts\<close>.
  \<^item> \<open>Policies\<close>: \<open>common/policies\<close>, \<open>services/services.service.ts\<close>, \<open>jobs/job-reference.service.ts\<close>.
    \<open>Calculation\<close>: \<open>billing/billing-calculation.service.ts\<close>, \<open>common/config/booking-policy.config.ts\<close>,
    \<open>guardian-payroll/guardian-pay-policy.service.ts\<close>, \<open>guardian-payroll-calculation.util.ts\<close>.
  \<^item> \<open>Lifecycle\<close>, \<open>Staffing\<close>: \<open>jobs/job-lifecycle.service.ts\<close>, \<open>job-staffing.service.ts\<close>,
    \<open>job-staffing.util.ts\<close>, \<open>assignments/competing-offer-release.util.ts\<close>.
  \<^item> \<open>Payroll\<close>, \<open>Billing\<close>, \<open>Payments\<close>: \<open>guardian-payroll/guardian-payroll.service.ts\<close>,
    \<open>billing/billing.service.ts\<close>, \<open>billing-confirmation.service.ts\<close>, \<open>invoice-view.service.ts\<close>,
    \<open>invoice-status.util.ts\<close>, \<open>payments/payments.service.ts\<close>.
  \<^item> \<open>Dispatching\<close>: \<open>dispatching/dispatching.service.ts\<close>.  \<open>Assignments\<close>:
    \<open>assignments/assignments.service.ts\<close>, \<open>assignment-accept.util.ts\<close>.  \<open>Jobs\<close>: \<open>jobs/jobs.service.ts\<close>.
    \<open>Automation\<close>: \<open>outbox/outbox.worker.ts\<close>, \<open>queue/queue.service.ts\<close>,
    \<open>assignments/no-show-automation.service.ts\<close>, \<open>early-release-automation.service.ts\<close>,
    \<open>jobs/job-status-reconciliation.service.ts\<close>.
  \<^item> \<open>Ledger_Watch\<close>: \<open>billing/billing-ops.service.ts\<close>, \<open>billing-ops.constants.ts\<close>,
    \<open>billing-ops-automation.service.ts\<close>.
  \<^item> \<open>System\<close> composes them: an \<open>event\<close> is a controller call, a run of a loop, or time passing;
    \<open>step\<close> is an event or a change of master data; \<open>reachable\<close> states start from empty tables.
    \<open>Scenario\<close> is a small town and a working day in it, on which the witnesses are evaluated.
  \<^item> \<open>Identity\<close>: the tables of the identity services around the backend (record \<open>site\<close>), the third
    parties they call (record \<open>env\<close>: \<open>bcrypt\<close>, the token library, SMS and e-mail gateways, random
    numbers, environment variables), \<open>auth/phone.util.ts\<close>, \<open>login.util.ts\<close>, \<open>password.service.ts\<close>.
    \<open>Otp\<close>: \<open>auth/otp.service.ts\<close>.  \<open>Tokens\<close>: \<open>auth/token.service.ts\<close>, \<open>auth-user.loader.ts\<close>,
    \<open>strategies/jwt.strategy.ts\<close>, the in-memory form of \<open>redis/redis.service.ts\<close>.  \<open>SignIn\<close>:
    \<open>auth/auth.service.ts\<close>, \<open>auth-gates.ts\<close>.  \<open>Permissions\<close>: \<open>auth/permission-resolver.service.ts\<close> and
    \<open>auth/guards\<close>.
  \<^item> \<open>Documents\<close>: \<open>documents/documents.service.ts\<close>.  \<open>Onboarding\<close>:
    \<open>auth/register-onboarding.service.ts\<close>, \<open>onboarding-token.util.ts\<close>,
    \<open>policies/org-verification-documents.policy.ts\<close>, \<open>regions/district-coordinates.ts\<close>.
    \<open>Organizations\<close>: \<open>organizations/organizations.service.ts\<close>, \<open>users/users.service.ts\<close> and the
    organizations of \<open>admin/admin-verification.service.ts\<close>.  \<open>Accounts\<close>: \<open>admin/admin-users.service.ts\<close>.
    \<open>Workforce\<close>: \<open>admin/admin-guardians.service.ts\<close>, the guardians of
    \<open>admin/admin-verification.service.ts\<close>, \<open>notifications/credential-delivery.service.ts\<close>,
    \<open>guardians/guardians.service.ts\<close>, \<open>guardian-location.service.ts\<close>.
  \<^item> \<open>Feedback\<close>: \<open>guardian-reviews\<close> and the incidents of \<open>jobs/jobs.service.ts\<close>.  \<open>Catalog\<close>:
    \<open>admin/admin-billing-policies.service.ts\<close>, \<open>admin-pay-policies.service.ts\<close>,
    \<open>admin-pricing.service.ts\<close>, \<open>admin-services.service.ts\<close> and the edits of \<open>services\<close>.
  \<^item> \<open>Analytics\<close>: \<open>analytics/analytics.service.ts\<close>, \<open>admin/admin-analytics.service.ts\<close>.
  \<^item> \<open>Listings\<close>: the paged lists of jobs, payouts, invoices and payments, the report on a dispatch,
    \<open>admin/admin-map.service.ts\<close>.  \<open>Tracking\<close>: the live tracking of \<open>jobs/jobs.service.ts\<close> and
    \<open>common/geo.util.ts\<close>.  \<open>Inbox\<close>: \<open>notifications/notifications.service.ts\<close>.
  \<^item> \<open>Email_Layout\<close>: \<open>notifications/email-layout.ts\<close>.  \<open>Emails\<close>: the templates and senders of
    \<open>notifications\<close> (\<open>email-template.registry.ts\<close>, \<open>email-notification.service.ts\<close>,
    \<open>email-delivery.service.ts\<close>, \<open>sendgrid-email.service.ts\<close>, \<open>smtp-email.service.ts\<close>) and
    \<open>sms/pindo-sms.service.ts\<close>.
  \<^item> \<open>Routes\<close>: the controllers, as tables of their endpoints with verb, path, decorators and the
    service method called, and \<open>prisma/seed/permissions.ts\<close>.
  \<^item> \<open>Sessions\<close> and \<open>Requests\<close> compose the identity services: \<open>auth_step\<close> is a request of sign-in,
    registration or the administration of accounts and guardians, or anything the backend does in
    between.  \<open>Office\<close> is the small office in which their witnesses are evaluated.

  \<^bold>\<open>What is proved.\<close>  \<open>Evolution\<close> defines \<open>good\<close> (the invariant: keys are distinct, the history
  replays to the status, slots are not overbooked, a job that seeks a replacement knows who
  leaves, the books balance) and \<open>evolves\<close> (rows are never deleted, identities never change,
  statuses follow the graphs, a paid invoice stays paid, the history is append-only, an outbox
  event never becomes pending again).  \<open>evolves\<close> is a \<open>state_preorder\<close>, so its rules
  push it through the combinators, and the lemmas \<open>evolves_*\<close> show it for every operation; \<open>Persistence\<close>
  reads it row by row over whole runs.  \<open>Delivery\<close>, \<open>Offers\<close>, \<open>Endings\<close>, \<open>Absences\<close> and \<open>Books\<close> hold what single operations do, on their error
  paths too, and the places where they do something else than they seem meant to.
  \<open>Sessions\<close> defines \<open>site_ok\<close> (keys are distinct) and \<open>site_evolves\<close> (a revoked token stays revoked,
  a code's guesses only grow, the notifications of all but given users stay), and \<open>Requests\<close> shows
  both for every request; on them \<open>Credentials\<close> and
  \<open>Access\<close> prove how long tokens and codes work and who may use them, and \<open>Session_Store\<close> that the
  operations of the token service refine those of a plain list of open sessions.  \<open>Clients\<close> follows a client
  from the application over the review to the first booking, and to the end of an account;
  \<open>Ledger_Watch\<close> shows that every anomaly is alerted once, \<open>Routes\<close> that the seeded permissions
  keep the administration for administrators, \<open>Analytics\<close> that the statistics are the counts of
  their window, \<open>Listings\<close> that the list of jobs keeps to the access policy, and \<open>Inbox\<close> that
  the notifications of a user are no one else's business, and go only with the user; \<open>Tracking\<close> bounds distances and arrival times, and \<open>Emails\<close> shows that
  what a request puts into a mail stays text.

  \<^bold>\<open>Interfaces.\<close>  \<open>state_preorder\<close> (relations that handlers preserve), \<open>row_store\<close> (tables with a
  key), \<open>optimistic_store\<close> (versioned updates), \<open>priority_resolution\<close> (policy lookups),
  \<open>daily_table\<close> (upserts of statistics) are locales, each interpreted on the model's own definitions.

  \<^bold>\<open>Bounds.\<close>  No definition takes fuel but \<open>nightLoop\<close>, the bounded form of \<open>isNightShift\<close>.  The
  recursions that are not structural, \<open>isNightShift\<close>, \<open>showInt\<close> and the two of \<open>Email_Layout\<close>, are
  proved to terminate, the first within seventeen rounds.  The outbox claims at most 20 events a run.

  \<^bold>\<open>What is assumed and left out.\<close>
  \<^item> All reads of the clock in one method give one instant; identifiers are drawn from a counter;
    amounts and hours are exact rationals (the database rounds to its columns' scale).
  \<^item> A method runs without another in between.  What the code does about concurrency - row locks,
    \<open>SKIP LOCKED\<close>, versions - has no effect on the data then, except for the version checks and the
    claims, which are modelled and have theorems.
  \<^item> The in-process forms of queue and presence are modelled, not Redis and BullMQ.  In the
    domain services messages are entries of a trace; sending never fails there, as the senders
    catch their errors, which \<open>Emails\<close> models.  Strings of e-mails are in UTF-8.
  \<^item> What the token library documents is the hypothesis \<open>jwt_laws\<close> of the properties that need it:
    a token verifies with the secret it was signed with, while it is alive, to what was signed.
  \<^item> A change of master data may be anything that leaves the tables of the two domains alone: the
    requests of the identity services and the catalogue edits are such changes.  The
    hard deletion of a user, which deletes a guardian's assignments and is off in production
    unless enabled, is defined but not part of the runs.
  \<^item> The geometry of \<open>Tracking\<close> is over the real numbers, not floating point.
  \<^item> Not modelled: what the controllers take from bodies and queries and its validation, throttling,
    interceptors; the search of the audit log and the presentation of invoices; a guardian's list of
    its own jobs, which is ordered by the time of the last write of a row; dates of birth and gender; connections and wiring.
\<close>

section \<open>The dispatch domain\<close>

text \<open>
  C1: In every reachable state the status history of a job, replayed from its first row, is a
  path of the job graph that ends in the status the job has: no status change goes unrecorded
  and no row is recorded for a change that did not happen.
\<close>

theorem history_replays:
  assumes "reachable s" and "jobOf jid s = Some j"
  shows "replay None (history_of jid s) = Some (Some (j_status j))"
  using reachable_is_good [OF assms(1)] jobOf_in [OF assms(2)]
  by (auto simp: good_def history_ok_def)

lemma history_replays_witness:
  "replay None (history_of 10 (after 2)) = Some (Some J_ASSIGNED)"
proof -
  obtain j where "jobOf 10 (after 2) = Some j" "j_status j = J_ASSIGNED"
    by (rule accepted_rows)
  then show ?thesis
    using history_replays [OF after_reachable] by metis
qed

text \<open>
  C2: No job is ever overbooked: the staffed assignments of its initial round and the offers
  that are out never exceed the number of guardians requested, however offers, refills,
  no-shows and cancellations interleave.
\<close>

theorem no_overbooking:
  assumes "reachable s" and "jobOf jid s = Some j"
  shows "countWhere (\<lambda>a. a_jobId a = jid \<and> a_replacesAssignmentId a = None \<and>
        a_status a \<in> set STAFFED_ASSIGNMENT_STATUSES) (assignments s) +
     countWhere (\<lambda>a. a_jobId a = jid \<and> a_replacesAssignmentId a = None \<and>
        a_status a = A_OFFERED) (assignments s) \<le> max 0 (j_requestedGuardianCount j)"
  using reachable_is_good [OF assms(1)] jobOf_in [OF assms(2)]
  unfolding slots_taken_split [symmetric] by (auto simp: good_def slots_ok_def)

lemma no_overbooking_witness:
  "countWhere (\<lambda>a. a_jobId a = 10 \<and> a_replacesAssignmentId a = None \<and>
        a_status a \<in> set STAFFED_ASSIGNMENT_STATUSES) (assignments (after 2)) +
   countWhere (\<lambda>a. a_jobId a = 10 \<and> a_replacesAssignmentId a = None \<and>
        a_status a = A_OFFERED) (assignments (after 2)) \<le> 1"
proof -
  obtain j where j: "jobOf 10 (after 2) = Some j" "j_requestedGuardianCount j = 1"
    by (rule accepted_rows)
  show ?thesis
    using no_overbooking [OF after_reachable j(1)] j(2) by simp
qed

text \<open>
  C3: An assignment is never deleted and never changes its job, its guardian or the assignment
  it replaces; its version never falls, and its status only moves along
  \<open>ALLOWED_ASSIGNMENT_TRANSITIONS\<close> and the no-show edges.  A declined, expired, completed,
  cancelled or no-show assignment keeps its status for ever.
\<close>

theorem assignment_lifecycle:
  assumes "reachable s" and "step\<^sup>*\<^sup>* s s'" and "assignmentOf aid s = Some a"
  shows "\<exists>a'. assignmentOf aid s' = Some a' \<and> a_jobId a' = a_jobId a \<and>
    a_guardianId a' = a_guardianId a \<and> a_replacesAssignmentId a' = a_replacesAssignmentId a \<and>
    a_versionNumber a \<le> a_versionNumber a' \<and> assignment_edge\<^sup>*\<^sup>* (a_status a) (a_status a') \<and>
    (assignment_terminal (a_status a) \<longrightarrow> a_status a' = a_status a)"
  using steps_assignment [OF assms] terminal_absorbs by (auto simp: assignment_step_def)

lemma assignment_lifecycle_witness:
  "\<exists>a'. assignmentOf 12 (run [OfAssignments (GoEnRoute 12 2)] (after 2)) = Some a' \<and>
    a_guardianId a' = 2 \<and> assignment_edge\<^sup>*\<^sup>* A_ACCEPTED (a_status a')"
proof -
  obtain a where a: "assignmentOf 12 (after 2) = Some a" "a_guardianId a = 2"
      "a_status a = A_ACCEPTED"
    by (rule accepted_rows)
  show ?thesis
    using assignment_lifecycle [OF after_reachable after_steps a(1), of "[OfAssignments (GoEnRoute 12 2)]"]
      a(2,3) by auto
qed

text \<open>
  C4: A job is never deleted; its client, site, schedule, type, reference number and number of
  guardians never change, its status follows the job graph, a completed or cancelled job stays
  so, and a job that awaits confirmation can only be confirmed.
\<close>

theorem job_lifecycle:
  assumes "reachable s" and "step\<^sup>*\<^sup>* s s'" and "jobOf jid s = Some j"
  shows "\<exists>j'. jobOf jid s' = Some j' \<and> j_organizationId j' = j_organizationId j \<and>
    j_locationId j' = j_locationId j \<and> j_jobType j' = j_jobType j \<and>
    j_referenceNumber j' = j_referenceNumber j \<and>
    j_requestedGuardianCount j' = j_requestedGuardianCount j \<and>
    j_scheduledStart j' = j_scheduledStart j \<and> j_scheduledEnd j' = j_scheduledEnd j \<and>
    job_edge\<^sup>*\<^sup>* (j_status j) (j_status j') \<and>
    (j_status j \<in> {J_COMPLETED, J_CANCELLED} \<longrightarrow> j_status j' = j_status j) \<and>
    (j_status j = J_AWAITING_CONFIRMATION \<longrightarrow> j_status j' \<in> {J_AWAITING_CONFIRMATION, J_COMPLETED})"
proof -
  obtain j' where j': "jobOf jid s' = Some j'" "job_frame j j'" "job_edge\<^sup>*\<^sup>* (j_status j) (j_status j')"
    using steps_job [OF assms] by (auto simp: job_step_def)
  moreover have "j_status j \<in> {J_COMPLETED, J_CANCELLED} \<longrightarrow> j_status j' = j_status j"
    using job_terminal_absorbs [OF j'(3)] by simp
  moreover have "j_status j = J_AWAITING_CONFIRMATION \<longrightarrow>
      j_status j' \<in> {J_AWAITING_CONFIRMATION, J_COMPLETED}"
    using awaiting_confirmation_forward [OF j'(3)] by simp
  ultimately show ?thesis
    by (auto simp: job_frame_def)
qed

lemma job_lifecycle_witness:
  "\<exists>j'. jobOf 10 (run [OfAssignments (GoEnRoute 12 2)] (after 2)) = Some j' \<and>
    j_requestedGuardianCount j' = 1 \<and> job_edge\<^sup>*\<^sup>* J_ASSIGNED (j_status j')"
proof -
  obtain j where j: "jobOf 10 (after 2) = Some j" "j_requestedGuardianCount j = 1"
      "j_status j = J_ASSIGNED"
    by (rule accepted_rows)
  show ?thesis
    using job_lifecycle [OF after_reachable after_steps j(1), of "[OfAssignments (GoEnRoute 12 2)]"]
      j(2,3) by auto
qed

section \<open>The books\<close>

text \<open>
  C6: A paid invoice is final: it stays paid, with the same totals, whatever happens later.
\<close>

theorem paid_invoice_is_final:
  assumes "reachable s" and "step\<^sup>*\<^sup>* s s'" and "invoiceOf iid s = Some i" and "i_status i = I_PAID"
  shows "\<exists>i'. invoiceOf iid s' = Some i' \<and> i_status i' = I_PAID \<and> i_jobId i' = i_jobId i \<and>
    i_subtotal i' = i_subtotal i \<and> i_taxAmount i' = i_taxAmount i \<and> i_total i' = i_total i"
  using steps_invoice [OF assms(1-3)] assms(4) by (auto simp: invoice_step_def)

lemma paid_invoice_is_final_witness:
  "\<exists>i'. invoiceOf 13 (run [OfBilling (VoidInvoice 13 7 ''x'' None)] (after 9)) = Some i' \<and>
    i_status i' = I_PAID \<and> i_total i' = 28320"
proof -
  obtain i where i: "invoiceOf 13 (after 9) = Some i" "i_status i = I_PAID" "i_total i = 28320"
    by (rule paid_rows)
  show ?thesis
    using paid_invoice_is_final [OF after_reachable after_steps i(1,2),
        of "[OfBilling (VoidInvoice 13 7 ''x'' None)]"] i(3) by auto
qed

text \<open>
  C7: Guardians earn only from paid invoices, and at most once per assignment: every earning's
  invoice is there and paid, and no two earnings are for the same assignment.
\<close>

theorem earnings_are_backed:
  assumes "reachable s"
  shows "distinct (map e_assignmentId (earnings s)) \<and>
    list_all (\<lambda>e. map_option i_status (invoiceOf (e_invoiceId e) s) = Some I_PAID) (earnings s)"
proof -
  have ledger: "ledger_ok s"
    using reachable_is_good [OF assms] by (simp add: good_def)
  have "map_option i_status (invoiceOf (e_invoiceId e) s) = Some I_PAID" if "e \<in> set (earnings s)" for e
  proof -
    have "\<forall>e \<in> set (earnings s). \<exists>i \<in> set (invoices s). i_id i = e_invoiceId e \<and> i_status i = I_PAID"
      using ledger by (simp add: ledger_ok_def)
    then obtain i where i: "i \<in> set (invoices s)" "i_id i = e_invoiceId e" "i_status i = I_PAID"
      using \<open>e \<in> set (earnings s)\<close> by blast
    then have "invoiceOf (e_invoiceId e) s = Some i"
      using findUnique_distinct [of i_id "invoices s" i] ledger
      by (simp add: invoiceOf_def ledger_ok_def)
    then show ?thesis using i(3) by simp
  qed
  moreover have "distinct (map e_assignmentId (earnings s))"
    using ledger by (simp add: ledger_ok_def)
  ultimately show ?thesis
    by (simp add: list_all_iff)
qed

lemma earnings_are_backed_witness:
  "list_all (\<lambda>e. map_option i_status (invoiceOf (e_invoiceId e) (after 9)) = Some I_PAID)
     (earnings (after 9)) \<and> map e_amount (earnings (after 9)) = [4000]"
proof
  show "list_all (\<lambda>e. map_option i_status (invoiceOf (e_invoiceId e) (after 9)) = Some I_PAID)
     (earnings (after 9))"
    using earnings_are_backed [OF after_reachable] by blast
  show "map e_amount (earnings (after 9)) = [4000]"
    by (rule paid_rows)
qed

end
